(* ===== verification/Prelude.thy ===== *)
theory Prelude
  imports Main "HOL-Library.Word" "HOL-Library.Monad_Syntax" "HOL-Library.Multiset"
begin

text \<open>
  Shared vocabulary of the development: the C integer types as words, byte buffers
  with bounds-checked loads and stores, the byte order conversions of
  \<^verbatim>\<open>endian.h\<close>, and the list, option and word lemmas the component theories use.

  A C object in memory is a list of bytes. Reading or writing outside it has no
  defined meaning in C, so every access returns an option and \<open>None\<close> stands for
  the fault. A size that the code computes with wrap-around (\<^verbatim>\<open>size_t\<close>) is a
  64-bit word and is turned into a natural number only where it is an amount of
  memory.
\<close>

unbundle bit_operations_syntax

type_synonym byte = "8 word"
type_synonym u16 = "16 word"
type_synonym u32 = "32 word"
type_synonym u64 = "64 word"
type_synonym bytes = "byte list"

named_theorems buf_simps \<open>loads and stores of byte buffers\<close>
named_theorems size_simps \<open>sizes and offsets of the packed structs\<close>

section \<open>Byte buffers\<close>

definition load :: "nat \<Rightarrow> nat \<Rightarrow> bytes \<Rightarrow> bytes option" where
  "load off n b = (if off + n \<le> length b then Some (take n (drop off b)) else None)"

definition store :: "nat \<Rightarrow> bytes \<Rightarrow> bytes \<Rightarrow> bytes option" where
  "store off v b =
     (if off + length v \<le> length b
      then Some (take off b @ v @ drop (off + length v) b) else None)"

lemma load_eq_Some: "load off n b = Some v \<longleftrightarrow> off + n \<le> length b \<and> v = take n (drop off b)"
  by (auto simp: load_def)

lemma store_eq_Some:
  "store off v b = Some b' \<longleftrightarrow>
     off + length v \<le> length b \<and> b' = take off b @ v @ drop (off + length v) b"
  by (auto simp: store_def)

lemma load_length: "load off n b = Some v \<Longrightarrow> length v = n"
  by (auto simp: load_eq_Some)

lemma store_length: "store off v b = Some b' \<Longrightarrow> length b' = length b"
  by (auto simp: store_eq_Some)

lemma load_ex: "off + n \<le> length b \<Longrightarrow> \<exists>v. load off n b = Some v \<and> length v = n"
  by (auto simp: load_def)

lemma store_ex: "off + length v \<le> length b \<Longrightarrow> \<exists>b'. store off v b = Some b' \<and> length b' = length b"
  by (auto simp: store_def)

lemma load_store_same: "store off v b = Some b' \<Longrightarrow> load off (length v) b' = Some v"
  by (auto simp: store_eq_Some load_def)

lemma load_store_same_n: "store off v b = Some b' \<Longrightarrow> length v = n \<Longrightarrow> load off n b' = Some v"
  using load_store_same by blast

lemma load_store_before:
  assumes "store off v b = Some b'" and "i + n \<le> off"
  shows "load i n b' = load i n b"
proof -
  have "take n (drop i (take off b @ w)) = take n (drop i b)" if "off \<le> length b" for w
    using that assms(2) by (cases "n = 0") (simp_all add: drop_take min_absorb1)
  then show ?thesis using assms by (auto simp: store_eq_Some load_def)
qed

lemma load_store_after:
  assumes "store off v b = Some b'" and "off + length v \<le> i"
  shows "load i n b' = load i n b"
proof -
  from assms(1) have b': "b' = take off b @ v @ drop (off + length v) b" and le: "off + length v \<le> length b"
    by (auto simp: store_eq_Some)
  have "drop i b' = drop (i - (off + length v)) (drop (off + length v) b)"
    using assms(2) le by (simp add: b' min_absorb2)
  then have "drop i b' = drop i b" using assms(2) by simp
  then show ?thesis using store_length [OF assms(1)] by (simp add: load_def)
qed

lemmas load_store_frame = load_store_before load_store_after

lemma load_all: "load 0 (length b) b = Some b"
  by (simp add: load_def)

section \<open>Byte order\<close>

text \<open>
  \<open>be_bytes n v\<close> is what memory holds after the \<open>n\<close>-byte integer \<open>v\<close> went
  through \<^verbatim>\<open>htobe16/32/64\<close> (or \<^verbatim>\<open>htons\<close>) and was stored on a little-endian host;
  \<open>be_val\<close> is the value \<^verbatim>\<open>be16/32/64toh\<close> reads back. \<open>le_bytes\<close> is the order of
  \<^verbatim>\<open>htole64\<close>.
\<close>

fun be_bytes :: "nat \<Rightarrow> nat \<Rightarrow> bytes" where
  "be_bytes 0 v = []"
| "be_bytes (Suc n) v = be_bytes n (v div 256) @ [word_of_nat v]"

definition be_val :: "bytes \<Rightarrow> nat" where
  "be_val bs = foldl (\<lambda>a b. a * 256 + unat b) 0 bs"

definition le_bytes :: "nat \<Rightarrow> nat \<Rightarrow> bytes" where
  "le_bytes n v = rev (be_bytes n v)"

lemma length_be_bytes [simp]: "length (be_bytes n v) = n"
  by (induction n arbitrary: v) auto

lemma be_val_snoc: "be_val (bs @ [b]) = be_val bs * 256 + unat b"
  by (simp add: be_val_def)

lemma be_val_Nil [simp]: "be_val [] = 0"
  by (simp add: be_val_def)

lemma be_val_zeros [simp]: "be_val (replicate n 0) = 0"
  by (induction n) (simp_all add: be_val_snoc flip: replicate_append_same)

lemma be_val_be_bytes [simp]: "be_val (be_bytes n v) = v mod 256 ^ n"
proof (induction n arbitrary: v)
  case 0
  then show ?case by simp
next
  case (Suc n)
  have "v mod 256 ^ Suc n = 256 * (v div 256 mod 256 ^ n) + v mod 256"
    by (simp add: mod_mult2_eq)
  then show ?case using Suc by (simp add: be_val_snoc unat_of_nat)
qed

lemma be_val_less: "be_val bs < 256 ^ length bs"
proof (induction bs rule: rev_induct)
  case Nil
  then show ?case by simp
next
  case (snoc b bs)
  have "unat b < 256" using unsigned_less [of b, where ?'a = nat] by simp
  with snoc show ?case by (simp add: be_val_snoc)
qed

lemma be_bytes_be_val: "be_bytes (length bs) (be_val bs) = bs"
proof (induction bs rule: rev_induct)
  case Nil
  then show ?case by simp
next
  case (snoc b bs)
  have b: "unat b < 256" using unsigned_less [of b, where ?'a = nat] by simp
  then have "(be_val bs * 256 + unat b) div 256 = be_val bs" by simp
  moreover have "word_of_nat (be_val bs * 256 + unat b) = b"
  proof (rule word_unat_eq_iff [THEN iffD2])
    have "unat (word_of_nat (be_val bs * 256 + unat b) :: byte) = (be_val bs * 256 + unat b) mod 256"
      by (simp only: unat_of_nat) simp
    then show "unat (word_of_nat (be_val bs * 256 + unat b) :: byte) = unat b" using b by simp
  qed
  ultimately show ?case using snoc by (simp add: be_val_snoc)
qed

subsection \<open>Typed fields\<close>

definition wr16 :: "nat \<Rightarrow> u16 \<Rightarrow> bytes \<Rightarrow> bytes option" where
  "wr16 off v b = store off (be_bytes 2 (unat v)) b"

definition wr32 :: "nat \<Rightarrow> u32 \<Rightarrow> bytes \<Rightarrow> bytes option" where
  "wr32 off v b = store off (be_bytes 4 (unat v)) b"

definition wr64 :: "nat \<Rightarrow> u64 \<Rightarrow> bytes \<Rightarrow> bytes option" where
  "wr64 off v b = store off (be_bytes 8 (unat v)) b"

definition rd16 :: "nat \<Rightarrow> bytes \<Rightarrow> u16 option" where
  "rd16 off b = do { v \<leftarrow> load off 2 b; Some (word_of_nat (be_val v)) }"

definition rd32 :: "nat \<Rightarrow> bytes \<Rightarrow> u32 option" where
  "rd32 off b = do { v \<leftarrow> load off 4 b; Some (word_of_nat (be_val v)) }"

definition rd64 :: "nat \<Rightarrow> bytes \<Rightarrow> u64 option" where
  "rd64 off b = do { v \<leftarrow> load off 8 b; Some (word_of_nat (be_val v)) }"

lemma unat_mod_16 [simp]: "unat (v::u16) mod 65536 = unat v"
  using unsigned_less [of v, where ?'a = nat] by simp

lemma unat_mod_32 [simp]: "unat (v::u32) mod 4294967296 = unat v"
  using unsigned_less [of v, where ?'a = nat] by simp

lemma unat_mod_64 [simp]: "unat (v::u64) mod 18446744073709551616 = unat v"
  using unsigned_less [of v, where ?'a = nat] by simp

lemma rd16_wr16: "wr16 off v b = Some b' \<Longrightarrow> rd16 off b' = Some v"
  by (simp add: wr16_def rd16_def load_store_same_n)

lemma rd32_wr32: "wr32 off v b = Some b' \<Longrightarrow> rd32 off b' = Some v"
  by (simp add: wr32_def rd32_def load_store_same_n)

lemma rd64_wr64: "wr64 off v b = Some b' \<Longrightarrow> rd64 off b' = Some v"
  by (simp add: wr64_def rd64_def load_store_same_n)

lemma wr16_length: "wr16 off v b = Some b' \<Longrightarrow> length b' = length b"
  by (auto simp: wr16_def store_length)

lemma wr32_length: "wr32 off v b = Some b' \<Longrightarrow> length b' = length b"
  by (auto simp: wr32_def store_length)

lemma wr64_length: "wr64 off v b = Some b' \<Longrightarrow> length b' = length b"
  by (auto simp: wr64_def store_length)

lemmas buf_length = store_length wr16_length wr32_length wr64_length

lemma load_wr16: "wr16 off v b = Some b' \<Longrightarrow> i + n \<le> off \<or> off + 2 \<le> i \<Longrightarrow> load i n b' = load i n b"
  by (auto simp: wr16_def intro: load_store_before load_store_after)

lemma load_wr32: "wr32 off v b = Some b' \<Longrightarrow> i + n \<le> off \<or> off + 4 \<le> i \<Longrightarrow> load i n b' = load i n b"
  by (auto simp: wr32_def intro: load_store_before load_store_after)

lemma load_wr64: "wr64 off v b = Some b' \<Longrightarrow> i + n \<le> off \<or> off + 8 \<le> i \<Longrightarrow> load i n b' = load i n b"
  by (auto simp: wr64_def intro: load_store_before load_store_after)

lemma load_store: "store off v b = Some b' \<Longrightarrow> i + n \<le> off \<or> off + length v \<le> i \<Longrightarrow> load i n b' = load i n b"
  by (auto intro: load_store_before load_store_after)

lemmas load_frame = load_store load_wr16 load_wr32 load_wr64

lemma wr16_ex: "off + 2 \<le> length b \<Longrightarrow> \<exists>b'. wr16 off v b = Some b' \<and> length b' = length b"
  by (simp add: wr16_def store_def)

lemma wr32_ex: "off + 4 \<le> length b \<Longrightarrow> \<exists>b'. wr32 off v b = Some b' \<and> length b' = length b"
  by (simp add: wr32_def store_def)

lemma wr64_ex: "off + 8 \<le> length b \<Longrightarrow> \<exists>b'. wr64 off v b = Some b' \<and> length b' = length b"
  by (simp add: wr64_def store_def)

lemma wr16_eq_None: "wr16 off v b = None \<longleftrightarrow> length b < off + 2"
  by (auto simp: wr16_def store_def)

lemma wr32_eq_None: "wr32 off v b = None \<longleftrightarrow> length b < off + 4"
  by (auto simp: wr32_def store_def)

lemma wr64_eq_None: "wr64 off v b = None \<longleftrightarrow> length b < off + 8"
  by (auto simp: wr64_def store_def)

subsection \<open>Symbolic execution of stores\<close>

text \<open>
  \<open>upd\<close> is the total content of a store that stays in bounds. With the rules of
  \<open>buf_simps\<close> the simplifier runs a sequence of stores and loads at known offsets.
\<close>

definition upd :: "nat \<Rightarrow> bytes \<Rightarrow> bytes \<Rightarrow> bytes" where
  "upd off v b = take off b @ v @ drop (off + length v) b"

lemma store_upd [buf_simps]: "off + length v \<le> length b \<Longrightarrow> store off v b = Some (upd off v b)"
  by (simp add: store_def upd_def)

lemma length_upd [buf_simps]: "off + length v \<le> length b \<Longrightarrow> length (upd off v b) = length b"
  by (simp add: upd_def)

lemma load_upd_same [buf_simps]:
  "n = length v \<Longrightarrow> off + length v \<le> length b \<Longrightarrow> load off n (upd off v b) = Some v"
  using load_store_same [of off v b] by (simp add: store_upd)

lemma load_upd_before [buf_simps]:
  "i + n \<le> off \<Longrightarrow> off + length v \<le> length b \<Longrightarrow> load i n (upd off v b) = load i n b"
  using load_store_before [of off v b] by (simp add: store_upd)

lemma load_upd_after [buf_simps]:
  "off + length v \<le> i \<Longrightarrow> off + length v \<le> length b \<Longrightarrow> load i n (upd off v b) = load i n b"
  using load_store_after [of off v b] by (simp add: store_upd)

lemma load_in_bounds: "off + n \<le> length b \<Longrightarrow> load off n b = Some (take n (drop off b))"
  by (simp add: load_def)

lemma upd_alt: "off + length v \<le> length b \<Longrightarrow> i < length b \<Longrightarrow>
    upd off v b ! i = (if off \<le> i \<and> i < off + length v then v ! (i - off) else b ! i)"
  by (auto simp: upd_def nth_append min_def)

lemma load_upd_inside:
  assumes "off \<le> i" and "i + n \<le> off + length v" and "off + length v \<le> length b"
  shows "load i n (upd off v b) = Some (take n (drop (i - off) v))"
  using assms by (simp add: load_def upd_def min_absorb2 length_upd)

lemma bytes_eq_loadI:
  assumes "length a = length b" and "\<And>i. i < length b \<Longrightarrow> load i 1 a = load i 1 b"
  shows "a = b"
proof (rule nth_equalityI [OF assms(1)])
  fix i assume "i < length a"
  then show "a ! i = b ! i"
    using assms(1) assms(2) [of i] by (simp add: load_def take_Suc_conv_app_nth take_Suc hd_drop_conv_nth)
qed

section \<open>Words\<close>

lemma unat_u64_less: "unat (x :: u64) < 18446744073709551616"
  using unsigned_less [of x, where ?'a = nat] by simp

lemma unat_u32_less: "unat (x :: u32) < 4294967296"
  using unsigned_less [of x, where ?'a = nat] by simp

lemma unat_u16_less: "unat (x :: u16) < 65536"
  using unsigned_less [of x, where ?'a = nat] by simp

lemma unat_ucast_32_64 [simp]: "unat (ucast (x::u32) :: u64) = unat x"
  using unsigned_less [of x, where ?'a = nat] by (simp add: unsigned_ucast_eq take_bit_nat_eq_self)

lemma unat_ucast_64_32 [simp]: "unat (ucast (x::u64) :: u32) = unat x mod 4294967296"
  by (simp add: unsigned_ucast_eq take_bit_eq_mod)

end
