(* ===== verification/Net_Def.thy ===== *)
theory Net_Def
  imports Prelude
begin

text \<open>
  The wire formats of the testbench (\<^verbatim>\<open>net_def.h\<close>), the traffic classes
  (\<^verbatim>\<open>enum stat_frame_type\<close> of \<^verbatim>\<open>stat.h\<close>) and the security modes and algorithms
  (\<^verbatim>\<open>security.h\<close>). A packed struct is the list of its members with their sizes;
  \<^verbatim>\<open>sizeof\<close> and \<^verbatim>\<open>offsetof\<close> are computed from it.
\<close>

section \<open>Packed structs\<close>

type_synonym layout = "(string \<times> nat) list"

definition sizeof :: "layout \<Rightarrow> nat" where
  "sizeof l = sum_list (map snd l)"

fun offsetof :: "layout \<Rightarrow> string \<Rightarrow> nat" where
  "offsetof [] f = 0"
| "offsetof ((g, n) # l) f = (if g = f then 0 else n + offsetof l f)"

definition ETH_ALEN :: nat where "ETH_ALEN = 6"

definition vlan_ethernet_header :: layout where
  "vlan_ethernet_header =
     [(''destination'', ETH_ALEN), (''source'', ETH_ALEN), (''vlan_proto'', 2),
      (''vlantci'', 2), (''vlan_encapsulated_proto'', 2)]"

definition vlan_header :: layout where
  "vlan_header = [(''vlan_proto'', 2), (''vlantci'', 2)]"

definition reference_meta_data :: layout where
  "reference_meta_data =
     [(''frame_counter'', 4), (''cycle_counter'', 4), (''tx_timestamp'', 8)]"

definition profinet_rt_header :: layout where
  "profinet_rt_header = [(''frame_id'', 2), (''meta_data'', sizeof reference_meta_data)]"

definition security_meta_data :: layout where
  "security_meta_data =
     [(''security_information'', 1), (''security_control'', 1),
      (''security_sequence_counter'', 4), (''security_length'', 2)]"

definition security_checksum :: layout where
  "security_checksum = [(''checksum'', 16)]"

definition profinet_secure_header :: layout where
  "profinet_secure_header =
     [(''frame_id'', 2), (''security_meta_data'', sizeof security_meta_data),
      (''meta_data'', sizeof reference_meta_data)]"

definition l2_header :: layout where
  "l2_header = [(''meta_data'', sizeof reference_meta_data)]"

text \<open>
  Headers of the platform the code uses: \<^verbatim>\<open>struct ethhdr\<close> and
  \<^verbatim>\<open>struct rte_ether_hdr\<close>, the IPv4 and the UDP header.
\<close>

definition ethhdr :: layout where
  "ethhdr = [(''h_dest'', ETH_ALEN), (''h_source'', ETH_ALEN), (''h_proto'', 2)]"

definition rte_vlan_hdr :: layout where
  "rte_vlan_hdr = [(''vlan_tci'', 2), (''eth_proto'', 2)]"

definition rte_ipv4_hdr :: layout where
  "rte_ipv4_hdr =
     [(''version_ihl'', 1), (''type_of_service'', 1), (''total_length'', 2), (''packet_id'', 2),
      (''fragment_offset'', 2), (''time_to_live'', 1), (''next_proto_id'', 1),
      (''hdr_checksum'', 2), (''src_addr'', 4), (''dst_addr'', 4)]"

definition rte_udp_hdr :: layout where
  "rte_udp_hdr = [(''src_port'', 2), (''dst_port'', 2), (''dgram_len'', 2), (''dgram_cksum'', 2)]"

lemma sizes [size_simps]:
  "sizeof vlan_ethernet_header = 18" "sizeof vlan_header = 4" "sizeof reference_meta_data = 16"
  "sizeof profinet_rt_header = 18" "sizeof security_meta_data = 8" "sizeof security_checksum = 16"
  "sizeof profinet_secure_header = 26" "sizeof l2_header = 16" "sizeof ethhdr = 14"
  "sizeof rte_vlan_hdr = 4" "sizeof rte_ipv4_hdr = 20" "sizeof rte_udp_hdr = 8" "ETH_ALEN = 6"
  by code_simp+

lemma offsets [size_simps]:
  "offsetof vlan_ethernet_header ''destination'' = 0"
  "offsetof vlan_ethernet_header ''source'' = 6"
  "offsetof vlan_ethernet_header ''vlan_proto'' = 12"
  "offsetof vlan_ethernet_header ''vlantci'' = 14"
  "offsetof vlan_ethernet_header ''vlan_encapsulated_proto'' = 16"
  "offsetof reference_meta_data ''frame_counter'' = 0"
  "offsetof reference_meta_data ''cycle_counter'' = 4"
  "offsetof reference_meta_data ''tx_timestamp'' = 8"
  "offsetof profinet_rt_header ''frame_id'' = 0"
  "offsetof profinet_rt_header ''meta_data'' = 2"
  "offsetof security_meta_data ''security_information'' = 0"
  "offsetof security_meta_data ''security_length'' = 6"
  "offsetof profinet_secure_header ''frame_id'' = 0"
  "offsetof profinet_secure_header ''security_meta_data'' = 2"
  "offsetof profinet_secure_header ''meta_data'' = 10"
  "offsetof l2_header ''meta_data'' = 0"
  "offsetof ethhdr ''h_dest'' = 0"
  "offsetof ethhdr ''h_source'' = 6"
  "offsetof ethhdr ''h_proto'' = 12"
  by code_simp+

section \<open>Protocol numbers\<close>

definition ETH_P_PROFINET_RT :: u16 where "ETH_P_PROFINET_RT = 0x8892"
definition ETH_P_8021Q :: u16 where "ETH_P_8021Q = 0x8100"
definition ETH_P_LLDP :: u16 where "ETH_P_LLDP = 0x88cc"
definition ETH_P_IP :: u16 where "ETH_P_IP = 0x0800"

definition VLAN_PCP_SHIFT :: nat where "VLAN_PCP_SHIFT = 13"
definition PROFINET_RT_VID_VALUE :: int where "PROFINET_RT_VID_VALUE = 0"
definition TSN_LOW_VID_VALUE :: int where "TSN_LOW_VID_VALUE = 0x102"
definition TSN_HIGH_VID_VALUE :: int where "TSN_HIGH_VID_VALUE = 0x101"
definition DCP_PCP_VALUE :: int where "DCP_PCP_VALUE = 2"
definition RTA_PCP_VALUE :: int where "RTA_PCP_VALUE = 3"
definition RTC_PCP_VALUE :: int where "RTC_PCP_VALUE = 4"
definition TSN_LOW_PCP_VALUE :: int where "TSN_LOW_PCP_VALUE = 5"
definition TSN_HIGH_PCP_VALUE :: int where "TSN_HIGH_PCP_VALUE = 6"

definition TSN_HIGH_FRAMEID :: u16 where "TSN_HIGH_FRAMEID = 0x0100"
definition TSN_HIGH_SEC_FRAMEID :: u16 where "TSN_HIGH_SEC_FRAMEID = 0x0101"
definition TSN_LOW_FRAMEID :: u16 where "TSN_LOW_FRAMEID = 0x0200"
definition TSN_LOW_SEC_FRAMEID :: u16 where "TSN_LOW_SEC_FRAMEID = 0x0201"
definition RTC_FRAMEID :: u16 where "RTC_FRAMEID = 0x8000"
definition RTC_SEC_FRAMEID :: u16 where "RTC_SEC_FRAMEID = 0x8001"
definition RTA_FRAMEID :: u16 where "RTA_FRAMEID = 0xfc01"
definition RTA_SEC_FRAMEID :: u16 where "RTA_SEC_FRAMEID = 0xfc02"
definition DCP_FRAMEID :: u16 where "DCP_FRAMEID = 0xfefe"

definition MAX_FRAME_SIZE :: nat where "MAX_FRAME_SIZE = 2048"

lemmas proto_defs =
  ETH_P_PROFINET_RT_def ETH_P_8021Q_def ETH_P_LLDP_def ETH_P_IP_def MAX_FRAME_SIZE_def

text \<open>
  \<^verbatim>\<open>vid | pcp << VLAN_PCP_SHIFT\<close> is computed on \<^verbatim>\<open>int\<close> and truncated to the
  16-bit parameter \<^verbatim>\<open>vlan_tci\<close> of the callee.
\<close>

definition make_tci :: "int \<Rightarrow> int \<Rightarrow> u16" where
  "make_tci vid pcp = word_of_int (vid OR push_bit VLAN_PCP_SHIFT pcp)"

section \<open>Traffic classes\<close>

datatype stat_frame_type =
    TSN_HIGH_FRAME_TYPE
  | TSN_LOW_FRAME_TYPE
  | RTC_FRAME_TYPE
  | RTA_FRAME_TYPE
  | DCP_FRAME_TYPE
  | LLDP_FRAME_TYPE
  | UDP_HIGH_FRAME_TYPE
  | UDP_LOW_FRAME_TYPE
  | L2_FRAME_TYPE

definition all_frame_types :: "stat_frame_type list" where
  "all_frame_types =
     [TSN_HIGH_FRAME_TYPE, TSN_LOW_FRAME_TYPE, RTC_FRAME_TYPE, RTA_FRAME_TYPE, DCP_FRAME_TYPE,
      LLDP_FRAME_TYPE, UDP_HIGH_FRAME_TYPE, UDP_LOW_FRAME_TYPE, L2_FRAME_TYPE]"

lemma set_all_frame_types: "t \<in> set all_frame_types"
  by (cases t) (simp_all add: all_frame_types_def)

lemma distinct_all_frame_types: "distinct all_frame_types"
  by (simp add: all_frame_types_def)

fun stat_frame_type_is_real_time :: "stat_frame_type \<Rightarrow> bool" where
  "stat_frame_type_is_real_time TSN_HIGH_FRAME_TYPE = True"
| "stat_frame_type_is_real_time TSN_LOW_FRAME_TYPE = True"
| "stat_frame_type_is_real_time RTC_FRAME_TYPE = True"
| "stat_frame_type_is_real_time L2_FRAME_TYPE = True"
| "stat_frame_type_is_real_time _ = False"

fun stat_frame_type_to_string :: "stat_frame_type \<Rightarrow> string" where
  "stat_frame_type_to_string TSN_HIGH_FRAME_TYPE = ''TsnHigh''"
| "stat_frame_type_to_string TSN_LOW_FRAME_TYPE = ''TsnLow''"
| "stat_frame_type_to_string RTC_FRAME_TYPE = ''Rtc''"
| "stat_frame_type_to_string RTA_FRAME_TYPE = ''Rta''"
| "stat_frame_type_to_string DCP_FRAME_TYPE = ''Dcp''"
| "stat_frame_type_to_string LLDP_FRAME_TYPE = ''Lldp''"
| "stat_frame_type_to_string UDP_HIGH_FRAME_TYPE = ''UdpHigh''"
| "stat_frame_type_to_string UDP_LOW_FRAME_TYPE = ''UdpLow''"
| "stat_frame_type_to_string L2_FRAME_TYPE = ''L2''"

section \<open>Security modes and algorithms\<close>

datatype security_mode = SECURITY_MODE_NONE | SECURITY_MODE_AO | SECURITY_MODE_AE

datatype security_algorithm =
    SECURITY_ALGORITHM_AES256_GCM
  | SECURITY_ALGORITHM_AES128_GCM
  | SECURITY_ALGORITHM_CHACHA20_POLY1305

fun security_mode_to_string :: "security_mode \<Rightarrow> string" where
  "security_mode_to_string SECURITY_MODE_NONE = ''None''"
| "security_mode_to_string SECURITY_MODE_AO = ''Authentication''"
| "security_mode_to_string SECURITY_MODE_AE = ''Authentication and Encryption''"

fun security_algorithm_to_string :: "security_algorithm \<Rightarrow> string" where
  "security_algorithm_to_string SECURITY_ALGORITHM_AES256_GCM = ''AES-256-GCM''"
| "security_algorithm_to_string SECURITY_ALGORITHM_AES128_GCM = ''AES-128-GCM''"
| "security_algorithm_to_string SECURITY_ALGORITHM_CHACHA20_POLY1305 = ''CHACHA20-POLY1305''"

definition SECURITY_IV_LEN :: nat where "SECURITY_IV_LEN = 12"
definition SECURITY_IV_PREFIX_LEN :: nat where "SECURITY_IV_PREFIX_LEN = 6"

text \<open>The IV object is 14 bytes long (a 6-byte prefix and a 64-bit counter); the ciphers read 12.\<close>

definition security_iv :: layout where
  "security_iv = [(''iv_prefix'', SECURITY_IV_PREFIX_LEN), (''counter'', 8)]"

lemma sizeof_security_iv [size_simps]: "sizeof security_iv = 14"
  by code_simp

end
