(* ===== verification/Security.thy ===== *)
theory Security
  imports Net_Def
begin

text \<open>
  \<^verbatim>\<open>security.c\<close>: the authenticated encryption used by the PROFINET traffic classes.
  OpenSSL's EVP interface is a parameter: the record \<open>evp\<close> has one function per EVP
  call the code makes, over an abstract cipher context, each reporting whether the
  call returned success. Allocation and deallocation are counted in \<open>sec_heap\<close>, with
  the outcomes of the allocating calls in \<open>sec_env\<close>.
\<close>

section \<open>Contexts\<close>

record sec_heap =
  live_context :: nat
  live_cipher :: nat
  live_ctx :: nat

record sec_env =
  calloc_ok :: bool
  cipher_fetch_ok :: bool
  ctx_new_ok :: bool
  encrypt_init_ok :: bool

record security_context =
  sc_algorithm :: security_algorithm
  sc_key :: bytes

definition security_init ::
  "sec_env \<Rightarrow> security_algorithm \<Rightarrow> bytes \<Rightarrow> sec_heap \<Rightarrow> security_context option \<times> sec_heap" where
  "security_init env algorithm key h =
     (if \<not> calloc_ok env then (None, h)
      else
       let h = h\<lparr>live_context := live_context h + 1\<rparr> in
       if \<not> cipher_fetch_ok env
       then (None, h\<lparr>live_context := live_context h - 1\<rparr>)
       else
        let h = h\<lparr>live_cipher := live_cipher h + 1\<rparr> in
        if \<not> ctx_new_ok env
        then (None, h\<lparr>live_cipher := live_cipher h - 1, live_context := live_context h - 1\<rparr>)
        else
         let h = h\<lparr>live_ctx := live_ctx h + 1\<rparr> in
         if \<not> encrypt_init_ok env
         then (None, h\<lparr>live_cipher := live_cipher h - 1, live_context := live_context h - 1\<rparr>)
         else (Some \<lparr>sc_algorithm = algorithm, sc_key = key\<rparr>, h))"

text \<open>The argument is the pointer to the context; only whether it is null matters for what is released.\<close>

definition security_exit :: "'a option \<Rightarrow> sec_heap \<Rightarrow> sec_heap" where
  "security_exit c h =
     (case c of None \<Rightarrow> h
      | Some _ \<Rightarrow> h\<lparr>live_cipher := live_cipher h - 1, live_ctx := live_ctx h - 1,
                     live_context := live_context h - 1\<rparr>)"

lemma security_init_exit:
  assumes "security_init env a k h = (Some c, h')"
  shows "security_exit (Some c) h' = h"
  using assms by (cases h) (auto simp: security_init_def security_exit_def Let_def split: if_splits)

text \<open>
  The failure path: everything is released except the cipher context itself when
  \<^verbatim>\<open>EVP_EncryptInit_ex2\<close> fails.
\<close>

lemma security_init_failure:
  assumes "security_init env a k h = (None, h')"
  shows "live_context h' = live_context h \<and> live_cipher h' = live_cipher h \<and>
         live_ctx h' = live_ctx h +
           (if calloc_ok env \<and> cipher_fetch_ok env \<and> ctx_new_ok env then 1 else 0)"
  using assms by (auto simp: security_init_def Let_def split: if_splits)

section \<open>Encryption and decryption\<close>

record 'c evp =
  EncryptInit :: "'c \<Rightarrow> bytes \<Rightarrow> 'c \<times> bool"
  EncryptAad :: "'c \<Rightarrow> bytes \<Rightarrow> 'c \<times> bool"
  EncryptUpdate :: "'c \<Rightarrow> bytes \<Rightarrow> 'c \<times> bytes \<times> bool"
  EncryptFinal :: "'c \<Rightarrow> 'c \<times> bytes \<times> bool"
  GetTag :: "'c \<Rightarrow> 'c \<times> bytes \<times> bool"
  DecryptInit :: "'c \<Rightarrow> bytes \<Rightarrow> 'c \<times> bool"
  DecryptAad :: "'c \<Rightarrow> bytes \<Rightarrow> 'c \<times> bool"
  DecryptUpdate :: "'c \<Rightarrow> bytes \<Rightarrow> 'c \<times> bytes \<times> bool"
  SetTag :: "'c \<Rightarrow> bytes \<Rightarrow> 'c \<times> bool"
  DecryptFinal :: "'c \<Rightarrow> 'c \<times> bytes \<times> bool"

definition EINVAL :: int where "EINVAL = 22"
definition EPERM :: int where "EPERM = 1"
definition ENOMEM :: int where "ENOMEM = 12"

text \<open>
  The result of \<^verbatim>\<open>security_encrypt\<close>: the return value, the cipher context, the bytes
  written through \<^verbatim>\<open>ciphertext\<close> and through \<^verbatim>\<open>tag\<close> (\<open>None\<close>: not written). The
  plaintext is \<open>None\<close> for the NULL pointer of authentication-only frames. The ciphers
  read \<^verbatim>\<open>SECURITY_IV_LEN\<close> bytes behind the IV pointer.
\<close>

definition security_encrypt ::
  "'c evp \<Rightarrow> 'c \<Rightarrow> bytes option \<Rightarrow> bytes \<Rightarrow> bytes \<Rightarrow> int \<times> 'c \<times> bytes option \<times> bytes option" where
  "security_encrypt E ctx plaintext aad iv =
     (let (c, ok) = EncryptInit E ctx (take SECURITY_IV_LEN iv) in
      if \<not> ok then (- EINVAL, c, None, None) else
      let (c, ok) = EncryptAad E c aad in
      if \<not> ok then (- EINVAL, c, None, None) else
      let (c, ct, ok) = (case plaintext of None \<Rightarrow> (c, None, True)
                         | Some p \<Rightarrow> (case EncryptUpdate E c p of (c, o', ok) \<Rightarrow> (c, Some o', ok))) in
      if \<not> ok then (- EINVAL, c, ct, None) else
      let (c, fin, ok) = EncryptFinal E c in
      if \<not> ok then (- EINVAL, c, ct, None) else
      let ct = map_option (\<lambda>o'. o' @ fin) ct in
      let (c, tag, ok) = GetTag E c in
      if \<not> ok then (- EINVAL, c, ct, None) else (0, c, ct, Some tag))"

definition security_decrypt ::
  "'c evp \<Rightarrow> 'c \<Rightarrow> bytes option \<Rightarrow> bytes \<Rightarrow> bytes \<Rightarrow> bytes \<Rightarrow> int \<times> 'c \<times> bytes option" where
  "security_decrypt E ctx ciphertext aad tag iv =
     (let (c, ok) = DecryptInit E ctx (take SECURITY_IV_LEN iv) in
      if \<not> ok then (- EINVAL, c, None) else
      let (c, ok) = DecryptAad E c aad in
      if \<not> ok then (- EINVAL, c, None) else
      let (c, pt, ok) = (case ciphertext of None \<Rightarrow> (c, None, True)
                         | Some p \<Rightarrow> (case DecryptUpdate E c p of (c, o', ok) \<Rightarrow> (c, Some o', ok))) in
      if \<not> ok then (- EINVAL, c, pt) else
      let (c, ok) = SetTag E c (take 16 tag) in
      if \<not> ok then (- EINVAL, c, pt) else
      let (c, fin, ok) = DecryptFinal E c in
      (if ok then 0 else - EPERM, c, map_option (\<lambda>o'. o' @ fin) pt))"

lemma security_encrypt_ret: "fst (security_encrypt E c p a iv) \<in> {0, - EINVAL}"
  by (auto simp: security_encrypt_def Let_def split: prod.splits option.splits)

lemma security_decrypt_ret: "fst (security_decrypt E c p a t iv) \<in> {0, - EINVAL, - EPERM}"
  by (auto simp: security_decrypt_def Let_def split: prod.splits option.splits)

lemma security_encrypt_tag:
  "security_encrypt E c p a iv = (r, c', ct, tag) \<Longrightarrow> (r = 0) = (tag \<noteq> None)"
  by (auto simp: security_encrypt_def EINVAL_def Let_def split: prod.splits option.splits if_splits)

lemma security_encrypt_iv_prefix:
  assumes "take SECURITY_IV_LEN iv = take SECURITY_IV_LEN iv'"
  shows "security_encrypt E c p a iv = security_encrypt E c p a iv'"
  using assms by (simp add: security_encrypt_def)

text \<open>
  What the code relies on of OpenSSL, as a predicate on the parameter: contexts that
  hold the same key (\<open>good\<close>) stay so under every call, a tag has 16 bytes, output is as
  long as input, and decryption inverts encryption under the same IV and associated data.
\<close>

definition aead_ok :: "'c evp \<Rightarrow> ('c \<Rightarrow> bool) \<Rightarrow> bool" where
  "aead_ok E good \<longleftrightarrow>
     (\<forall>c d p aad iv r c' ct tag.
        good c \<longrightarrow> good d \<longrightarrow> security_encrypt E c p aad iv = (r, c', ct, Some tag) \<longrightarrow>
          good c' \<and> length tag = 16 \<and> map_option length ct = map_option length p \<and>
          (\<exists>d'. good d' \<and> security_decrypt E d ct aad tag iv = (0, d', p)))"

end
