(* ===== verification/Frame.thy ===== *)
theory Frame
  imports Security
begin

text \<open>
  \<^verbatim>\<open>utils.c\<close>, the inline helpers of \<^verbatim>\<open>utils.h\<close> and \<^verbatim>\<open>tx_time.c\<close>: the layout of the
  test frames, their sequence counters and timestamps, VLAN tagging, the security
  envelope, and the small time and signalling helpers. A frame is the byte list of the
  buffer it lives in; an access outside that buffer is \<open>None\<close>.
\<close>

section \<open>Time\<close>

record timespec =
  tv_sec :: int
  tv_nsec :: int

definition NSEC_PER_SEC :: int where "NSEC_PER_SEC = 1000000000"

function carry_nsec :: "timespec \<Rightarrow> timespec" where
  "carry_nsec t =
     (if tv_nsec t \<ge> NSEC_PER_SEC
      then carry_nsec (t\<lparr>tv_sec := tv_sec t + 1, tv_nsec := tv_nsec t - NSEC_PER_SEC\<rparr>)
      else t)"
  by pat_completeness auto
termination
  by (relation "measure (\<lambda>t. nat (tv_nsec t))") (auto simp: NSEC_PER_SEC_def)

declare carry_nsec.simps [simp del]

definition increment_period :: "timespec \<Rightarrow> int \<Rightarrow> timespec" where
  "increment_period t period_ns = carry_nsec (t\<lparr>tv_nsec := tv_nsec t + period_ns\<rparr>)"

definition ts_ns :: "timespec \<Rightarrow> int" where
  "ts_ns t = tv_sec t * NSEC_PER_SEC + tv_nsec t"

lemma carry_nsec_props:
  "ts_ns (carry_nsec t) = ts_ns t \<and> tv_nsec (carry_nsec t) < NSEC_PER_SEC \<and>
   (0 \<le> tv_nsec t \<longrightarrow> 0 \<le> tv_nsec (carry_nsec t))"
proof (induction t rule: carry_nsec.induct)
  case (1 t)
  show ?case
  proof (cases "tv_nsec t \<ge> NSEC_PER_SEC")
    case True
    with "1.IH" show ?thesis
      by (subst (1 2 3) carry_nsec.simps) (simp add: ts_ns_def algebra_simps)
  next
    case False
    then show ?thesis by (subst (1 2 3) carry_nsec.simps) simp
  qed
qed

definition tx_time_get_frame_duration :: "u32 \<Rightarrow> u64 \<Rightarrow> u64 option" where
  "tx_time_get_frame_duration link_speed frame_length =
     (if link_speed = 0 then None
      else Some ((frame_length * 8 * 1000) div ucast link_speed))"

definition tx_time_get_frame_tx_time ::
  "u64 \<Rightarrow> u64 \<Rightarrow> u64 \<Rightarrow> u64 \<Rightarrow> u64 \<Rightarrow> u64 \<Rightarrow> u64 \<Rightarrow> u64 \<Rightarrow> (u64 \<times> bool) option" where
  "tx_time_get_frame_tx_time tx_thread_offset cycle_time now_ns wakeup_time sequence_counter
     duration num_frames_per_cycle tx_time_offset =
     (if num_frames_per_cycle = 0 then None
      else
       let base_time = wakeup_time - tx_thread_offset + cycle_time;
           tx_time = base_time + tx_time_offset +
                     (sequence_counter mod num_frames_per_cycle) * duration
       in Some (tx_time, tx_time \<le> now_ns))"

section \<open>Signalling between threads\<close>

text \<open>
  The 16-bit atomic flags: \<^verbatim>\<open>rte_atomic16_cmpset\<close> compares and swaps,
  \<^verbatim>\<open>rte_atomic16_test_and_set\<close> succeeds on the first call only.
\<close>

definition cmpset :: "u16 \<Rightarrow> u16 \<Rightarrow> u16 \<Rightarrow> u16 \<times> bool" where
  "cmpset var exp src = (if var = exp then (src, True) else (var, False))"

definition is_signaled :: "u16 \<Rightarrow> u16 \<times> bool" where
  "is_signaled var = cmpset var 1 0"

definition do_signal :: "u16 \<Rightarrow> u16" where
  "do_signal var = fst (cmpset var 0 1)"

definition do_once :: "u16 \<Rightarrow> u16 \<times> bool" where
  "do_once var = cmpset var 0 1"

section \<open>Meta data\<close>

definition sequence_counter_to_meta_data :: "nat \<Rightarrow> u64 \<Rightarrow> u64 \<Rightarrow> bytes \<Rightarrow> bytes option" where
  "sequence_counter_to_meta_data meta sequence_counter num_frames_per_cycle b =
     (if num_frames_per_cycle = 0 then None
      else
       let counter = (ucast (sequence_counter mod num_frames_per_cycle) :: u32);
           cycle_counter = (ucast (sequence_counter div num_frames_per_cycle) :: u32)
       in do {
         b \<leftarrow> wr32 (meta + offsetof reference_meta_data ''frame_counter'') counter b;
         wr32 (meta + offsetof reference_meta_data ''cycle_counter'') cycle_counter b
       })"

definition meta_data_to_sequence_counter :: "nat \<Rightarrow> u64 \<Rightarrow> bytes \<Rightarrow> u64 option" where
  "meta_data_to_sequence_counter meta num_frames_per_cycle b = do {
     frame_counter \<leftarrow> rd32 (meta + offsetof reference_meta_data ''frame_counter'') b;
     cycle_counter \<leftarrow> rd32 (meta + offsetof reference_meta_data ''cycle_counter'') b;
     Some (ucast cycle_counter * num_frames_per_cycle + ucast frame_counter)
   }"

definition tx_timestamp_to_meta_data :: "nat \<Rightarrow> u64 \<Rightarrow> bytes \<Rightarrow> bytes option" where
  "tx_timestamp_to_meta_data meta timestamp b =
     wr64 (meta + offsetof reference_meta_data ''tx_timestamp'') timestamp b"

definition meta_data_to_tx_timestamp :: "nat \<Rightarrow> bytes \<Rightarrow> u64 option" where
  "meta_data_to_tx_timestamp meta b = rd64 (meta + offsetof reference_meta_data ''tx_timestamp'') b"

definition get_sequence_counter :: "bytes \<Rightarrow> u32 \<Rightarrow> u64 \<Rightarrow> u64 option" where
  "get_sequence_counter frame_data meta_data_offset num_frames_per_cycle =
     meta_data_to_sequence_counter (unat meta_data_offset) num_frames_per_cycle frame_data"

definition set_sequence_counter :: "bytes \<Rightarrow> u32 \<Rightarrow> u64 \<Rightarrow> u64 \<Rightarrow> bytes option" where
  "set_sequence_counter frame_data meta_data_offset sequence_counter num_frames_per_cycle =
     sequence_counter_to_meta_data (unat meta_data_offset) sequence_counter num_frames_per_cycle
       frame_data"

definition get_meta_data_offset :: "stat_frame_type \<Rightarrow> security_mode \<Rightarrow> u32" where
  "get_meta_data_offset frame_type security_mode = of_nat
     (case frame_type of
        LLDP_FRAME_TYPE \<Rightarrow> sizeof ethhdr
      | UDP_HIGH_FRAME_TYPE \<Rightarrow> sizeof ethhdr + sizeof rte_ipv4_hdr + sizeof rte_udp_hdr
      | UDP_LOW_FRAME_TYPE \<Rightarrow> sizeof ethhdr + sizeof rte_ipv4_hdr + sizeof rte_udp_hdr
      | L2_FRAME_TYPE \<Rightarrow>
          sizeof ethhdr + sizeof rte_vlan_hdr + offsetof l2_header ''meta_data''
      | _ \<Rightarrow>
          sizeof ethhdr + sizeof rte_vlan_hdr +
          (if security_mode = SECURITY_MODE_NONE
           then offsetof profinet_rt_header ''meta_data''
           else offsetof profinet_secure_header ''meta_data''))"

section \<open>Ethernet and VLAN headers\<close>

definition swap_mac_addresses :: "u64 \<Rightarrow> bytes \<Rightarrow> bytes option" where
  "swap_mac_addresses len b =
     (if len < of_nat (sizeof ethhdr) then Some b
      else do {
        tmp \<leftarrow> load (offsetof ethhdr ''h_source'') ETH_ALEN b;
        dst \<leftarrow> load (offsetof ethhdr ''h_dest'') ETH_ALEN b;
        b \<leftarrow> store (offsetof ethhdr ''h_source'') dst b;
        store (offsetof ethhdr ''h_dest'') tmp b
      })"

definition insert_vlan_tag :: "u64 \<Rightarrow> u16 \<Rightarrow> bytes \<Rightarrow> bytes option" where
  "insert_vlan_tag len vlan_tci b =
     (if len + of_nat (sizeof rte_vlan_hdr) > of_nat MAX_FRAME_SIZE then Some b
      else do {
        rest \<leftarrow> load (2 * ETH_ALEN) (unat (len - of_nat (2 * ETH_ALEN))) b;
        b \<leftarrow> store (2 * ETH_ALEN + sizeof rte_vlan_hdr) rest b;
        b \<leftarrow> wr16 (offsetof vlan_ethernet_header ''vlan_encapsulated_proto'') ETH_P_PROFINET_RT b;
        b \<leftarrow> wr16 (offsetof vlan_ethernet_header ''vlan_proto'') ETH_P_8021Q b;
        wr16 (offsetof vlan_ethernet_header ''vlantci'') vlan_tci b
      })"

definition build_vlan_frame_from_rx ::
  "bytes \<Rightarrow> u64 \<Rightarrow> bytes \<Rightarrow> u64 \<Rightarrow> u16 \<Rightarrow> u16 \<Rightarrow> bytes option" where
  "build_vlan_frame_from_rx old_frame old_frame_len new_frame new_frame_len ether_type vlan_tci =
     (if new_frame_len < old_frame_len + of_nat (sizeof vlan_header) then Some new_frame
      else do {
        payload \<leftarrow> load (ETH_ALEN * 2) (unat (old_frame_len - of_nat (ETH_ALEN * 2))) old_frame;
        b \<leftarrow> store (ETH_ALEN * 2 + sizeof vlan_header) payload new_frame;
        src \<leftarrow> load (offsetof vlan_ethernet_header ''source'') ETH_ALEN old_frame;
        b \<leftarrow> store (offsetof vlan_ethernet_header ''destination'') src b;
        dst \<leftarrow> load (offsetof vlan_ethernet_header ''destination'') ETH_ALEN old_frame;
        b \<leftarrow> store (offsetof vlan_ethernet_header ''source'') dst b;
        b \<leftarrow> wr16 (offsetof vlan_ethernet_header ''vlan_proto'') ETH_P_8021Q b;
        b \<leftarrow> wr16 (offsetof vlan_ethernet_header ''vlantci'') vlan_tci b;
        wr16 (offsetof vlan_ethernet_header ''vlan_encapsulated_proto'') ether_type b
      })"

section \<open>Frame construction\<close>

definition memset0 :: "u64 \<Rightarrow> bytes \<Rightarrow> bytes option" where
  "memset0 n b = store 0 (replicate (unat n) 0) b"

definition write_vlan_ethernet_header :: "bytes \<Rightarrow> bytes \<Rightarrow> u16 \<Rightarrow> u16 \<Rightarrow> bytes \<Rightarrow> bytes option" where
  "write_vlan_ethernet_header source destination vlan_tci proto b = do {
     dst \<leftarrow> load 0 ETH_ALEN destination;
     b \<leftarrow> store (offsetof vlan_ethernet_header ''destination'') dst b;
     src \<leftarrow> load 0 ETH_ALEN source;
     b \<leftarrow> store (offsetof vlan_ethernet_header ''source'') src b;
     b \<leftarrow> wr16 (offsetof vlan_ethernet_header ''vlan_proto'') ETH_P_8021Q b;
     b \<leftarrow> wr16 (offsetof vlan_ethernet_header ''vlantci'') vlan_tci b;
     wr16 (offsetof vlan_ethernet_header ''vlan_encapsulated_proto'') proto b
   }"

definition initialize_secure_profinet_frame ::
  "security_mode \<Rightarrow> bytes \<Rightarrow> u64 \<Rightarrow> bytes \<Rightarrow> bytes \<Rightarrow> bytes \<Rightarrow> u64 \<Rightarrow> u16 \<Rightarrow> u16 \<Rightarrow> bytes option" where
  "initialize_secure_profinet_frame mode frame_data frame_length source destination
     payload_pattern payload_pattern_length vlan_tci frame_id = do {
     b \<leftarrow> memset0 frame_length frame_data;
     let rt = sizeof vlan_ethernet_header;
     b \<leftarrow> write_vlan_ethernet_header source destination vlan_tci ETH_P_PROFINET_RT b;
     let security_length = (ucast (frame_length - of_nat (sizeof vlan_ethernet_header)
                                   - of_nat (sizeof security_checksum)) :: u16);
     let smd = rt + offsetof profinet_secure_header ''security_meta_data'';
     let md = rt + offsetof profinet_secure_header ''meta_data'';
     b \<leftarrow> wr16 (rt + offsetof profinet_secure_header ''frame_id'') frame_id b;
     b \<leftarrow> store (smd + offsetof security_meta_data ''security_information'')
            [if mode = SECURITY_MODE_AO then 0 else 1] b;
     b \<leftarrow> wr16 (smd + offsetof security_meta_data ''security_length'') security_length b;
     b \<leftarrow> wr32 (md + offsetof reference_meta_data ''frame_counter'') 0 b;
     b \<leftarrow> wr32 (md + offsetof reference_meta_data ''cycle_counter'') 0 b;
     p \<leftarrow> load 0 (unat payload_pattern_length) payload_pattern;
     store (sizeof vlan_ethernet_header + sizeof profinet_secure_header) p b
   }"

definition initialize_rt_profinet_frame ::
  "bytes \<Rightarrow> u64 \<Rightarrow> bytes \<Rightarrow> bytes \<Rightarrow> bytes \<Rightarrow> u64 \<Rightarrow> u16 \<Rightarrow> u16 \<Rightarrow> bytes option" where
  "initialize_rt_profinet_frame frame_data frame_length source destination payload_pattern
     payload_pattern_length vlan_tci frame_id = do {
     b \<leftarrow> memset0 frame_length frame_data;
     let rt = sizeof vlan_ethernet_header;
     b \<leftarrow> write_vlan_ethernet_header source destination vlan_tci ETH_P_PROFINET_RT b;
     let md = rt + offsetof profinet_rt_header ''meta_data'';
     b \<leftarrow> wr16 (rt + offsetof profinet_rt_header ''frame_id'') frame_id b;
     b \<leftarrow> wr32 (md + offsetof reference_meta_data ''frame_counter'') 0 b;
     b \<leftarrow> wr32 (md + offsetof reference_meta_data ''cycle_counter'') 0 b;
     p \<leftarrow> load 0 (unat payload_pattern_length) payload_pattern;
     store (sizeof vlan_ethernet_header + sizeof profinet_rt_header) p b
   }"

fun initialize_profinet_frame ::
  "security_mode \<Rightarrow> bytes \<Rightarrow> u64 \<Rightarrow> bytes \<Rightarrow> bytes \<Rightarrow> bytes \<Rightarrow> u64 \<Rightarrow> u16 \<Rightarrow> u16 \<Rightarrow> bytes option" where
  "initialize_profinet_frame SECURITY_MODE_NONE d l s t p n tci fid =
     initialize_rt_profinet_frame d l s t p n tci fid"
| "initialize_profinet_frame m d l s t p n tci fid =
     initialize_secure_profinet_frame m d l s t p n tci fid"

section \<open>Preparing a frame for transmission\<close>

definition prepare_iv :: "bytes \<Rightarrow> u64 \<Rightarrow> bytes option" where
  "prepare_iv iv_prefix sequence_counter = do {
     p \<leftarrow> load 0 SECURITY_IV_PREFIX_LEN iv_prefix;
     Some (p @ le_bytes 8 (unat sequence_counter))
   }"

record prepare_frame_config =
  pf_mode :: security_mode
  pf_iv_prefix :: bytes
  pf_payload_pattern :: bytes
  pf_payload_pattern_length :: u64
  pf_frame_length :: u64
  pf_num_frames_per_cycle :: u64
  pf_sequence_counter :: u64
  pf_tx_timestamp :: u64
  pf_meta_data_offset :: u32

definition store_opt :: "nat \<Rightarrow> bytes option \<Rightarrow> bytes \<Rightarrow> bytes option" where
  "store_opt off v b = (case v of None \<Rightarrow> Some b | Some x \<Rightarrow> store off x b)"

definition write_meta :: "nat \<Rightarrow> prepare_frame_config \<Rightarrow> bytes \<Rightarrow> bytes option" where
  "write_meta off fc b = do {
     b \<leftarrow> sequence_counter_to_meta_data off (pf_sequence_counter fc) (pf_num_frames_per_cycle fc) b;
     tx_timestamp_to_meta_data off (pf_tx_timestamp fc) b
   }"

definition prepare_frame_for_tx ::
  "'c evp \<Rightarrow> 'c option \<Rightarrow> prepare_frame_config \<Rightarrow> bytes \<Rightarrow> (int \<times> 'c option \<times> bytes) option" where
  "prepare_frame_for_tx E ctx fc frame_data =
     (let eth = sizeof vlan_ethernet_header;
          srt_meta = eth + offsetof profinet_secure_header ''meta_data'';
          checksum = unat (pf_frame_length fc - of_nat (sizeof security_checksum))
      in case pf_mode fc of
        SECURITY_MODE_NONE \<Rightarrow> do {
          b \<leftarrow> write_meta (unat (pf_meta_data_offset fc)) fc frame_data;
          Some (0, ctx, b)
        }
      | SECURITY_MODE_AO \<Rightarrow> do {
          b \<leftarrow> write_meta srt_meta fc frame_data;
          iv \<leftarrow> prepare_iv (pf_iv_prefix fc) (pf_sequence_counter fc);
          aad \<leftarrow> load eth (unat (pf_frame_length fc - of_nat eth - of_nat (sizeof security_checksum))) b;
          c \<leftarrow> ctx;
          (case security_encrypt E c None aad iv of (ret, c, _, tag) \<Rightarrow> do {
             b \<leftarrow> store_opt checksum tag b;
             Some (ret, Some c, b) })
        }
      | SECURITY_MODE_AE \<Rightarrow> do {
          b \<leftarrow> write_meta srt_meta fc frame_data;
          iv \<leftarrow> prepare_iv (pf_iv_prefix fc) (pf_sequence_counter fc);
          aad \<leftarrow> load eth (sizeof profinet_secure_header) b;
          pt \<leftarrow> load 0 (unat (pf_payload_pattern_length fc)) (pf_payload_pattern fc);
          c \<leftarrow> ctx;
          (case security_encrypt E c (Some pt) aad iv of (ret, c, ct, tag) \<Rightarrow> do {
             b \<leftarrow> store_opt (eth + sizeof profinet_secure_header) ct b;
             b \<leftarrow> store_opt checksum tag b;
             Some (ret, Some c, b) })
        })"

section \<open>Laws of the meta data and header helpers\<close>

lemma unat_ucast_mod_div:
  fixes s n :: u64
  assumes "n \<noteq> 0" and "unat n \<le> 4294967296"
  shows "unat (ucast (ucast (s div n) :: u32) * n + ucast (ucast (s mod n) :: u32) :: u64)
         = unat s mod (unat n * 4294967296)"
proof -
  let ?s = "unat s" and ?n = "unat n"
  have n: "0 < ?n" using assms(1) by (simp add: unat_gt_0)
  have c: "unat (ucast (ucast (s div n) :: u32) :: u64) = ?s div ?n mod 4294967296"
    by (simp add: unat_div_distrib)
  have "?s mod ?n < 4294967296" using n assms(2) by (meson mod_less_divisor less_le_trans)
  then have f: "unat (ucast (ucast (s mod n) :: u32) :: u64) = ?s mod ?n"
    by (simp add: unat_mod_distrib)
  have e: "?s mod (?n * 4294967296) = ?s div ?n mod 4294967296 * ?n + ?s mod ?n"
    by (simp add: mod_mult2_eq mult.commute)
  have lt: "?s div ?n mod 4294967296 * ?n + ?s mod ?n < 2 ^ 64"
  proof -
    have "?s mod (?n * 4294967296) \<le> ?s" by simp
    then show ?thesis using e unat_u64_less [of s] by simp
  qed
  have "?s div ?n mod 4294967296 * ?n < 2 ^ 64" using lt by linarith
  then have m: "unat (ucast (ucast (s div n) :: u32) * n) = ?s div ?n mod 4294967296 * ?n"
    using c by (subst unat_mult_lem [THEN iffD1]) (simp_all)
  then show ?thesis
    using f lt e by (subst unat_add_lem [THEN iffD1]) (simp_all)
qed

lemma meta_roundtrip:
  assumes "sequence_counter_to_meta_data m s n b = Some b'" and "unat n \<le> 4294967296"
  shows "\<exists>r. meta_data_to_sequence_counter m n b' = Some r \<and> unat r = unat s mod (unat n * 4294967296)"
proof -
  from assms(1) obtain b1 where n: "n \<noteq> 0"
    and 1: "wr32 m (ucast (s mod n)) b = Some b1" and 2: "wr32 (m + 4) (ucast (s div n)) b1 = Some b'"
    by (auto simp: sequence_counter_to_meta_data_def bind_eq_Some_conv size_simps Let_def split: if_splits)
  have "load m 4 b' = load m 4 b1" by (rule load_wr32 [OF 2]) simp
  then have "rd32 m b' = rd32 m b1" by (simp add: rd32_def)
  then have "rd32 m b' = Some (ucast (s mod n))" using rd32_wr32 [OF 1] by simp
  moreover have "rd32 (m + 4) b' = Some (ucast (s div n))" by (rule rd32_wr32 [OF 2])
  ultimately show ?thesis
    using unat_ucast_mod_div [OF n assms(2), of s] by (simp add: meta_data_to_sequence_counter_def size_simps)
qed

lemma swap_mac_swap:
  assumes "14 \<le> len" and "14 \<le> length b"
  obtains b' where "swap_mac_addresses len b = Some b'" "length b' = length b"
    "load 0 6 b' = load 6 6 b" "load 6 6 b' = load 0 6 b" "drop 12 b' = drop 12 b"
    "swap_mac_addresses len b' = Some b"
proof -
  have nl: "\<not> len < 14" using assms(1) by simp
  let ?s = "take 6 (drop 6 b)" and ?d = "take 6 b"
  have s: "swap_mac_addresses len b = Some (?s @ ?d @ drop 12 b)"
    using nl assms(2) by (simp add: swap_mac_addresses_def size_simps load_def store_def)
  moreover have "swap_mac_addresses len (?s @ ?d @ drop 12 b) = Some b"
    using nl assms(2) by (simp add: swap_mac_addresses_def size_simps load_def store_def min_absorb2 append_take_drop_id [of 6] drop_drop flip: append_assoc take_add)
  ultimately show ?thesis using assms(2) that by (simp add: load_def)
qed

lemma meta_timestamp_roundtrip:
  "tx_timestamp_to_meta_data m t b = Some b' \<Longrightarrow> meta_data_to_tx_timestamp m b' = Some t"
  by (simp add: tx_timestamp_to_meta_data_def meta_data_to_tx_timestamp_def rd64_wr64)

lemma meta_timestamp_keeps_counter:
  assumes "tx_timestamp_to_meta_data m t b = Some b'"
  shows "meta_data_to_sequence_counter m n b' = meta_data_to_sequence_counter m n b"
  using load_wr64 [OF assms [unfolded tx_timestamp_to_meta_data_def]]
  by (simp add: meta_data_to_sequence_counter_def rd32_def size_simps)

lemma insert_vlan_tag_props:
  assumes "14 \<le> unat len" and "unat len + 4 \<le> 2048" and "unat len + 4 \<le> length b"
  obtains b' where "insert_vlan_tag len tci b = Some b'" "length b' = length b"
    "load 0 12 b' = load 0 12 b"
    "rd16 12 b' = Some ETH_P_8021Q" "rd16 14 b' = Some tci" "rd16 16 b' = Some ETH_P_PROFINET_RT"
    "load 18 (unat len - 14) b' = load 14 (unat len - 14) b"
    "load (unat len + 4) (length b - unat len - 4) b' = load (unat len + 4) (length b - unat len - 4) b"
proof -
  have u: "unat (len - 12) = unat len - 12"
    using assms(1) by (subst unat_sub) (simp_all add: word_le_nat_alt)
  have "unat (len + 4) = unat len + 4"
    using assms(2) by (subst unat_add_lem [THEN iffD1]) simp_all
  then have g: "\<not> len + 4 > 2048" using assms(2) by (simp add: word_less_nat_alt)
  let ?r = "take (unat len - 12) (drop 12 b)"
  have lr: "length ?r = unat len - 12" using assms by simp
  have eq: "insert_vlan_tag len tci b =
      Some (upd 14 (be_bytes 2 (unat tci)) (upd 12 (be_bytes 2 (unat ETH_P_8021Q))
             (upd 16 (be_bytes 2 (unat ETH_P_PROFINET_RT)) (upd 16 ?r b))))" (is "_ = Some ?b'")
    using g u assms lr
    by (simp add: insert_vlan_tag_def size_simps MAX_FRAME_SIZE_def wr16_def load_in_bounds buf_simps del: length_take length_drop)
  have in18: "load 18 (unat len - 14) (upd 16 ?r b) = Some (take (unat len - 14) (drop 2 ?r))"
    using load_upd_inside [of 16 18 "unat len - 14" ?r b] lr assms by (simp del: length_take length_drop)
  have "take (unat len - 14) (drop 2 ?r) = take (unat len - 14) (drop 14 b)"
    using assms by (simp add: drop_take)
  with in18 have p: "load 18 (unat len - 14) (upd 16 ?r b) = load 14 (unat len - 14) b"
    using assms by (simp add: load_in_bounds)
  show ?thesis
    by (rule that [OF eq])
       (use assms lr p in \<open>simp_all add: buf_simps rd16_def load_upd_same be_val_be_bytes del: length_take length_drop\<close>)
qed

lemma take_le_bytes_eq:
  "take k (le_bytes n v) = le_bytes k v" if "k \<le> n"
proof -
  have "be_bytes n v = be_bytes (n - k) (v div 256 ^ k) @ be_bytes k v"
    using that
  proof (induction k arbitrary: n v)
    case 0
    then show ?case by simp
  next
    case (Suc k)
    then obtain m where m: "n = Suc m" by (cases n) auto
    then have "be_bytes m (v div 256) = be_bytes (m - k) (v div 256 div 256 ^ k) @ be_bytes k (v div 256)"
      using Suc.IH [of m "v div 256"] Suc.prems by simp
    then show ?case by (simp add: m div_mult2_eq)
  qed
  then show ?thesis by (simp add: le_bytes_def)
qed

lemma le_bytes_eq_iff: "le_bytes n v = le_bytes n w \<longleftrightarrow> v mod 256 ^ n = w mod 256 ^ n"
proof
  assume "le_bytes n v = le_bytes n w"
  then have "be_val (be_bytes n v) = be_val (be_bytes n w)" by (simp add: le_bytes_def)
  then show "v mod 256 ^ n = w mod 256 ^ n" by simp
next
  assume "v mod 256 ^ n = w mod 256 ^ n"
  then have "be_val (be_bytes n v) = be_val (be_bytes n w)" by simp
  then have "be_bytes n v = be_bytes n w"
    using be_bytes_be_val [of "be_bytes n v"] be_bytes_be_val [of "be_bytes n w"] by simp
  then show "le_bytes n v = le_bytes n w" by (simp add: le_bytes_def)
qed

lemma prepare_iv_eq:
  "6 \<le> length p \<Longrightarrow> prepare_iv p s = Some (take 6 p @ le_bytes 8 (unat s))"
  by (simp add: prepare_iv_def load_def SECURITY_IV_PREFIX_LEN_def)

lemma take_iv:
  "6 \<le> length p \<Longrightarrow> take SECURITY_IV_LEN (take 6 p @ le_bytes 8 v) = take 6 p @ le_bytes 6 v"
  by (simp add: SECURITY_IV_LEN_def take_le_bytes_eq)

text \<open>What a receiver finds in an initialised frame.\<close>

definition vlan_frame_hdr :: "bytes \<Rightarrow> bytes \<Rightarrow> u16 \<Rightarrow> u16 \<Rightarrow> bytes \<Rightarrow> bool" where
  "vlan_frame_hdr source destination tci proto b \<longleftrightarrow>
     load 0 6 b = load 0 6 destination \<and> load 6 6 b = load 0 6 source \<and>
     rd16 12 b = Some ETH_P_8021Q \<and> rd16 14 b = Some tci \<and> rd16 16 b = Some proto"

lemma write_vlan_ethernet_header_props:
  assumes "18 \<le> length b" and "6 \<le> length s" and "6 \<le> length d"
  obtains b' where "write_vlan_ethernet_header s d tci proto b = Some b'" "length b' = length b"
    "vlan_frame_hdr s d tci proto b'" "\<And>i n. 18 \<le> i \<Longrightarrow> load i n b' = load i n b"
proof -
  have eq: "write_vlan_ethernet_header s d tci proto b =
      Some (upd 16 (be_bytes 2 (unat proto)) (upd 14 (be_bytes 2 (unat tci))
            (upd 12 (be_bytes 2 (unat ETH_P_8021Q)) (upd 6 (take 6 s) (upd 0 (take 6 d) b)))))"
    using assms by (simp add: write_vlan_ethernet_header_def size_simps wr16_def load_in_bounds buf_simps)
  show ?thesis
    by (rule that [OF eq])
       (use assms in \<open>simp_all add: buf_simps vlan_frame_hdr_def rd16_def load_in_bounds [of 0 6 s] load_in_bounds [of 0 6 d]\<close>)
qed

lemma vlan_frame_hdr_cong:
  assumes "\<And>i n. i + n \<le> 18 \<Longrightarrow> load i n b' = load i n b"
  shows "vlan_frame_hdr s d tci proto b' = vlan_frame_hdr s d tci proto b"
  using assms by (simp add: vlan_frame_hdr_def rd16_def)

lemma memset0_props:
  assumes "unat n \<le> length b"
  obtains b' where "memset0 n b = Some b'" "length b' = length b"
    "\<And>i k. i + k \<le> unat n \<Longrightarrow> load i k b' = Some (replicate k 0)"
proof -
  have eq: "memset0 n b = Some (upd 0 (replicate (unat n) 0) b)"
    using assms by (simp add: memset0_def store_upd)
  show ?thesis
    by (rule that [OF eq]) (use assms in \<open>auto simp: buf_simps load_upd_inside min_def\<close>)
qed

lemma initialize_rt_profinet_frame_props:
  assumes "36 + unat plen \<le> unat flen" and "unat flen \<le> length d"
    and "6 \<le> length s" and "6 \<le> length t" and "unat plen \<le> length p"
  obtains b where "initialize_rt_profinet_frame d flen s t p plen tci fid = Some b"
    "length b = length d" "vlan_frame_hdr s t tci ETH_P_PROFINET_RT b"
    "rd16 18 b = Some fid" "rd32 20 b = Some 0" "rd32 24 b = Some 0" "rd64 28 b = Some 0"
    "load 36 (unat plen) b = Some (take (unat plen) p)"
    "load (36 + unat plen) (unat flen - 36 - unat plen) b
       = Some (replicate (unat flen - 36 - unat plen) 0)"
proof -
  obtain b0 where b0: "memset0 flen d = Some b0" "length b0 = length d"
    "\<And>i k. i + k \<le> unat flen \<Longrightarrow> load i k b0 = Some (replicate k 0)"
    by (rule memset0_props [OF assms(2)]) auto
  obtain b1 where b1: "write_vlan_ethernet_header s t tci ETH_P_PROFINET_RT b0 = Some b1"
    "length b1 = length b0" "vlan_frame_hdr s t tci ETH_P_PROFINET_RT b1"
    "\<And>i n. 18 \<le> i \<Longrightarrow> load i n b1 = load i n b0"
    by (rule write_vlan_ethernet_header_props [of b0 s t tci ETH_P_PROFINET_RT]) (use assms b0(2) in auto)
  let ?b = "upd 36 (take (unat plen) p) (upd 24 (be_bytes 4 0) (upd 20 (be_bytes 4 0)
             (upd 18 (be_bytes 2 (unat fid)) b1)))"
  have eq: "initialize_rt_profinet_frame d flen s t p plen tci fid = Some ?b"
    using assms b0(1,2) b1(1,2)
    by (simp add: initialize_rt_profinet_frame_def size_simps wr16_def wr32_def load_in_bounds buf_simps)
  have hdr: "vlan_frame_hdr s t tci ETH_P_PROFINET_RT ?b"
    using b1(2,3) b0(2) assms by (subst vlan_frame_hdr_cong [of _ b1]) (simp_all add: buf_simps)
  have L: "36 + length (take (unat plen) p) \<le> length b1" "36 \<le> length b1" "length (take (unat plen) p) = unat plen"
    using assms b0(2) b1(2) by auto
  have len: "length ?b = length d" using L b0(2) b1(2) by (simp add: buf_simps del: length_take)
  have "load 28 8 ?b = load 28 8 b1"
    using L(1,2) by (simp add: buf_simps del: length_take)
  also have "\<dots> = Some (replicate 8 0)" using b1(4) [of 28 8] b0(3) [of 28 8] assms(1) by simp
  finally have ts: "rd64 28 ?b = Some 0" by (simp add: rd64_def)
  have "load (36 + unat plen) k ?b = load (36 + unat plen) k b1" for k
    using L by (simp add: buf_simps del: length_take)
  then have pad: "load (36 + unat plen) (unat flen - 36 - unat plen) ?b
       = Some (replicate (unat flen - 36 - unat plen) 0)"
    using b1(4) [of "36 + unat plen"] b0(3) [of "36 + unat plen" "unat flen - 36 - unat plen"] assms(1) by simp
  show ?thesis
    by (rule that [OF eq len hdr _ _ _ ts _ pad])
       (use L in \<open>simp_all add: buf_simps rd16_def rd32_def del: length_take\<close>)
qed

lemma initialize_secure_profinet_frame_props:
  assumes "60 + unat plen \<le> unat flen" and "unat flen \<le> length d"
    and "6 \<le> length s" and "6 \<le> length t" and "unat plen \<le> length p"
  obtains b where "initialize_secure_profinet_frame mode d flen s t p plen tci fid = Some b"
    "length b = length d" "vlan_frame_hdr s t tci ETH_P_PROFINET_RT b"
    "rd16 18 b = Some fid" "load 20 1 b = Some [if mode = SECURITY_MODE_AO then 0 else 1]"
    "rd16 26 b = Some (ucast (flen - 34))" "rd32 28 b = Some 0" "rd32 32 b = Some 0"
    "load 44 (unat plen) b = Some (take (unat plen) p)"
    "load (unat flen - 16) 16 b = Some (replicate 16 0)"
proof -
  obtain b0 where b0: "memset0 flen d = Some b0" "length b0 = length d"
    "\<And>i k. i + k \<le> unat flen \<Longrightarrow> load i k b0 = Some (replicate k 0)"
    by (rule memset0_props [OF assms(2)]) auto
  obtain b1 where b1: "write_vlan_ethernet_header s t tci ETH_P_PROFINET_RT b0 = Some b1"
    "length b1 = length b0" "vlan_frame_hdr s t tci ETH_P_PROFINET_RT b1"
    "\<And>i n. 18 \<le> i \<Longrightarrow> load i n b1 = load i n b0"
    by (rule write_vlan_ethernet_header_props [of b0 s t tci ETH_P_PROFINET_RT]) (use assms b0(2) in auto)
  have L: "44 + length (take (unat plen) p) \<le> length b1" "60 \<le> length b1" "length (take (unat plen) p) = unat plen"
    using assms b0(2) b1(2) by auto
  let ?si = "[if mode = SECURITY_MODE_AO then 0 else 1] :: bytes"
  have si: "length ?si = 1" by simp
  let ?b = "upd 44 (take (unat plen) p) (upd 32 (be_bytes 4 0) (upd 28 (be_bytes 4 0)
             (upd 26 (be_bytes 2 (unat (ucast (flen - 34) :: u16))) (upd 20 ?si
               (upd 18 (be_bytes 2 (unat fid)) b1)))))"
  have eq: "initialize_secure_profinet_frame mode d flen s t p plen tci fid = Some ?b"
    using L assms(5) b0(1) b1(1) si
    by (simp add: initialize_secure_profinet_frame_def size_simps wr16_def wr32_def
        load_in_bounds [of 0 "unat plen" p] buf_simps algebra_simps del: length_take)
  have hdr: "vlan_frame_hdr s t tci ETH_P_PROFINET_RT ?b"
    using b1(3) L si by (subst vlan_frame_hdr_cong [of _ b1]) (simp_all add: buf_simps del: length_take)
  have len: "length ?b = length d" using L b0(2) b1(2) by (simp add: buf_simps del: length_take)
  have "load (unat flen - 16) 16 ?b = load (unat flen - 16) 16 b1"
    using L assms(1) by (simp add: buf_simps del: length_take)
  also have "\<dots> = Some (replicate 16 0)"
    using b1(4) [of "unat flen - 16" 16] b0(3) [of "unat flen - 16" 16] assms(1) by simp
  finally have cs: "load (unat flen - 16) 16 ?b = Some (replicate 16 0)" .
  show ?thesis
    by (rule that [OF eq len hdr _ _ _ _ _ _ cs])
       (use L in \<open>simp_all add: buf_simps rd16_def rd32_def del: length_take\<close>)
qed

lemma write_meta_props:
  assumes "pf_num_frames_per_cycle fc \<noteq> 0" and "off + 16 \<le> length b"
  obtains b' b1 where "write_meta off fc b = Some b'" "length b' = length b"
    "\<And>i n. i + n \<le> off \<or> off + 16 \<le> i \<Longrightarrow> load i n b' = load i n b"
    "meta_data_to_tx_timestamp off b' = Some (pf_tx_timestamp fc)"
    "sequence_counter_to_meta_data off (pf_sequence_counter fc) (pf_num_frames_per_cycle fc) b = Some b1"
    "\<And>n. meta_data_to_sequence_counter off n b' = meta_data_to_sequence_counter off n b1"
proof -
  let ?n = "pf_num_frames_per_cycle fc" and ?s = "pf_sequence_counter fc"
  let ?b1 = "upd (off + 4) (be_bytes 4 (unat (ucast (?s div ?n) :: u32)))
              (upd off (be_bytes 4 (unat (ucast (?s mod ?n) :: u32))) b)"
  let ?b' = "upd (off + 8) (be_bytes 8 (unat (pf_tx_timestamp fc))) ?b1"
  have 1: "sequence_counter_to_meta_data off ?s ?n b = Some ?b1"
    using assms by (simp add: sequence_counter_to_meta_data_def size_simps wr32_def Let_def buf_simps)
  have 2: "tx_timestamp_to_meta_data off (pf_tx_timestamp fc) ?b1 = Some ?b'"
    using assms by (simp add: tx_timestamp_to_meta_data_def size_simps wr64_def buf_simps)
  have eq: "write_meta off fc b = Some ?b'" using 1 2 by (simp add: write_meta_def)
  show ?thesis
  proof (rule that [OF eq _ _ _ 1])
    show "length ?b' = length b" using assms(2) by (simp add: buf_simps)
    show "load i n ?b' = load i n b" if "i + n \<le> off \<or> off + 16 \<le> i" for i n
      using that assms(2) by (auto simp: buf_simps)
    show "meta_data_to_tx_timestamp off ?b' = Some (pf_tx_timestamp fc)"
      by (rule meta_timestamp_roundtrip [OF 2])
    show "meta_data_to_sequence_counter off n ?b' = meta_data_to_sequence_counter off n ?b1" for n
      by (rule meta_timestamp_keeps_counter [OF 2])
  qed
qed

text \<open>Both kinds of frame, with the offsets their receivers use.\<close>

lemma initialize_profinet_frame_props:
  assumes "(if mode = SECURITY_MODE_NONE then 36 else 60) + unat plen \<le> unat flen" and "unat flen \<le> length d"
    and "6 \<le> length s" and "6 \<le> length t" and "unat plen \<le> length p"
    and "meta = (if mode = SECURITY_MODE_NONE then 20 else 28)"
  obtains b where "initialize_profinet_frame mode d flen s t p plen tci fid = Some b" "length b = length d"
    "vlan_frame_hdr s t tci ETH_P_PROFINET_RT b" "rd16 18 b = Some fid"
    "rd32 meta b = Some 0" "rd32 (meta + 4) b = Some 0" "load (meta + 16) (unat plen) b = Some (take (unat plen) p)"
proof (cases "mode = SECURITY_MODE_NONE")
  case True
  then have "36 + unat plen \<le> unat flen" using assms(1) by simp
  from initialize_rt_profinet_frame_props [OF this assms(2-5), where tci = tci and fid = fid]
  show ?thesis using True assms(6) that by auto
next
  case False
  then have "60 + unat plen \<le> unat flen" using assms(1) by simp
  from initialize_secure_profinet_frame_props [OF this assms(2-5), where mode = mode and tci = tci and fid = fid]
  obtain b where b: "initialize_secure_profinet_frame mode d flen s t p plen tci fid = Some b"
    "length b = length d" "vlan_frame_hdr s t tci ETH_P_PROFINET_RT b" "rd16 18 b = Some fid"
    "rd32 28 b = Some 0" "rd32 32 b = Some 0" "load 44 (unat plen) b = Some (take (unat plen) p)"
    by metis
  have "initialize_profinet_frame mode d flen s t p plen tci fid = Some b"
    using False b(1) by (cases mode) simp_all
  with b(2-) show ?thesis using False assms(6) that by simp
qed

end
