(* ===== verification/Frame_Props.thy ===== *)
theory Frame_Props
  imports Frame
begin

text \<open>
  Properties of the frame helpers (\<^verbatim>\<open>utils.c\<close>, \<^verbatim>\<open>security.c\<close>): the counters and
  timestamps a frame carries, its headers and the security envelope.
\<close>

section \<open>Counters and headers\<close>

text \<open>
  C12: the sequence counter written into the meta data of a frame is read back by the
  receiver with the same number of frames per cycle, modulo that number times 2 to the 32
  (the cycle counter on the wire has 32 bits); neither access leaves the frame.
\<close>

theorem sequence_counter_roundtrip:
  assumes "0 < n" and "unat n \<le> 2 ^ 32" and "unat off + 8 \<le> length b"
  shows "\<exists>b' r. set_sequence_counter b off s n = Some b' \<and> length b' = length b \<and>
           get_sequence_counter b' off n = Some r \<and> unat r = unat s mod (unat n * 2 ^ 32)"
proof -
  have "\<exists>b'. sequence_counter_to_meta_data (unat off) s n b = Some b' \<and> length b' = length b"
    using assms by (auto simp: sequence_counter_to_meta_data_def size_simps wr32_def Let_def buf_simps)
  then obtain b' where b': "sequence_counter_to_meta_data (unat off) s n b = Some b'" "length b' = length b"
    by blast
  have "unat n \<le> 4294967296" using assms(2) by simp
  from meta_roundtrip [OF b'(1) this] b' show ?thesis
    by (auto simp: set_sequence_counter_def get_sequence_counter_def)
qed

lemma sequence_counter_roundtrip_witness:
  "\<exists>b' r. set_sequence_counter (replicate 16 0) 4 77 5 = Some b' \<and> length b' = 16 \<and>
          get_sequence_counter b' 4 5 = Some r \<and> unat r = 77"
  using sequence_counter_roundtrip [of 5 4 "replicate 16 0" 77] by simp

text \<open>
  Mirroring swaps the addresses: for a frame with an Ethernet header the source and
  the destination change places, nothing else changes, and swapping again restores the
  frame.
\<close>

theorem swap_mac_involution:
  assumes "14 \<le> len" and "14 \<le> length b"
  shows "\<exists>b'. swap_mac_addresses len b = Some b' \<and> load 0 6 b' = load 6 6 b \<and> load 6 6 b' = load 0 6 b \<and>
              drop 12 b' = drop 12 b \<and> swap_mac_addresses len b' = Some b"
  using swap_mac_swap [OF assms] by metis

lemma swap_mac_involution_witness:
  "\<exists>b'. swap_mac_addresses 14 (replicate 6 1 @ replicate 8 2) = Some b' \<and>
        swap_mac_addresses 14 b' = Some (replicate 6 1 @ replicate 8 2)"
proof -
  have "14 \<le> (14 :: u64)" and "14 \<le> length (replicate 6 (1 :: byte) @ replicate 8 2)" by simp_all
  from swap_mac_involution [OF this] show ?thesis by blast
qed

text \<open>
  Re-inserting a VLAN tag into a received frame that fits keeps both addresses, writes
  the tag and the PROFINET EtherType behind them and moves the rest of the frame by four
  bytes unchanged; the rest of the buffer is not touched.
\<close>

theorem insert_vlan_tag_content:
  assumes "14 \<le> unat len" and "unat len + 4 \<le> MAX_FRAME_SIZE" and "unat len + 4 \<le> length b"
  shows "\<exists>b'. insert_vlan_tag len tci b = Some b' \<and> length b' = length b \<and> load 0 12 b' = load 0 12 b \<and>
              rd16 12 b' = Some ETH_P_8021Q \<and> rd16 14 b' = Some tci \<and> rd16 16 b' = Some ETH_P_PROFINET_RT \<and>
              load 18 (unat len - 14) b' = load 14 (unat len - 14) b \<and> drop (unat len + 4) b' = drop (unat len + 4) b"
proof -
  have "unat len + 4 \<le> 2048" using assms(2) by (simp add: MAX_FRAME_SIZE_def)
  from insert_vlan_tag_props [OF assms(1) this assms(3), of tci] obtain b' where
    b': "insert_vlan_tag len tci b = Some b'" "length b' = length b" "load 0 12 b' = load 0 12 b"
    "rd16 12 b' = Some ETH_P_8021Q" "rd16 14 b' = Some tci" "rd16 16 b' = Some ETH_P_PROFINET_RT"
    "load 18 (unat len - 14) b' = load 14 (unat len - 14) b"
    "load (unat len + 4) (length b - unat len - 4) b' = load (unat len + 4) (length b - unat len - 4) b"
    by metis
  have "drop (unat len + 4) b' = drop (unat len + 4) b"
    using b'(2,8) assms(3) by (simp add: load_def)
  with b' show ?thesis by blast
qed

lemma insert_vlan_tag_content_witness:
  "\<exists>b'. insert_vlan_tag 20 0x6101 (replicate 30 7) = Some b' \<and> rd16 14 b' = Some 0x6101"
proof -
  have "14 \<le> unat (20 :: u64)" "unat (20 :: u64) + 4 \<le> MAX_FRAME_SIZE" "unat (20 :: u64) + 4 \<le> length (replicate 30 (7 :: byte))"
    by (simp_all add: MAX_FRAME_SIZE_def)
  from insert_vlan_tag_content [OF this, of "0x6101"] show ?thesis by blast
qed

text \<open>
  C12: an initialised PROFINET frame (with or without security) stays inside its buffer and
  carries the addresses, the VLAN tag, the PROFINET EtherType, the frame identifier, zero
  counters and the payload pattern where the receiver of its security mode looks for them.
\<close>

theorem initialize_profinet_frame_content:
  assumes "(if mode = SECURITY_MODE_NONE then 36 else 60) + unat plen \<le> unat flen" and "unat flen \<le> length d"
    and "6 \<le> length s" and "6 \<le> length t" and "unat plen \<le> length p"
  shows "\<exists>b. initialize_profinet_frame mode d flen s t p plen tci fid = Some b \<and> length b = length d \<and>
             vlan_frame_hdr s t tci ETH_P_PROFINET_RT b \<and> rd16 18 b = Some fid \<and>
             (let meta = unat (get_meta_data_offset RTC_FRAME_TYPE mode) in
              rd32 meta b = Some 0 \<and> rd32 (meta + 4) b = Some 0 \<and>
              load (meta + 16) (unat plen) b = Some (take (unat plen) p))"
proof -
  have "unat (get_meta_data_offset RTC_FRAME_TYPE mode) = (if mode = SECURITY_MODE_NONE then 20 else 28)"
    by (simp add: get_meta_data_offset_def size_simps)
  from initialize_profinet_frame_props [OF assms this, where tci = tci and fid = fid] show ?thesis
    unfolding Let_def by metis
qed

lemma initialize_profinet_frame_content_witness:
  "\<exists>b. initialize_profinet_frame SECURITY_MODE_AE (replicate 100 9) 70 (replicate 6 1) (replicate 6 2) [1,2,3] 3 5 6 = Some b \<and>
       rd16 18 b = Some 6"
proof -
  have "(if SECURITY_MODE_AE = SECURITY_MODE_NONE then 36 else 60) + unat (3 :: u64) \<le> unat (70 :: u64)"
    "unat (70 :: u64) \<le> length (replicate 100 (9 :: byte))" "6 \<le> length (replicate 6 (1 :: byte))"
    "6 \<le> length (replicate 6 (2 :: byte))" "unat (3 :: u64) \<le> length [1, 2, 3 :: byte]" by simp_all
  from initialize_profinet_frame_content [OF this, of 5 6] show ?thesis by blast
qed

text \<open>
  \<^verbatim>\<open>increment_period\<close> advances a time by exactly the period and returns it normalised,
  with less than a second of nanoseconds; its carry loop ends for every input.
\<close>

theorem increment_period_exact:
  assumes "0 \<le> tv_nsec t + p"
  shows "ts_ns (increment_period t p) = ts_ns t + p \<and>
         0 \<le> tv_nsec (increment_period t p) \<and> tv_nsec (increment_period t p) < NSEC_PER_SEC"
  using assms carry_nsec_props [of "t\<lparr>tv_nsec := tv_nsec t + p\<rparr>"] by (simp add: increment_period_def ts_ns_def)

lemma increment_period_exact_witness:
  "tv_nsec (increment_period \<lparr>tv_sec = 3, tv_nsec = 999999999\<rparr> 2000000002) < NSEC_PER_SEC"
  using increment_period_exact [of "\<lparr>tv_sec = 3, tv_nsec = 999999999\<rparr>" 2000000002] by simp

section \<open>Security\<close>

text \<open>
  Two frames of one class and key are sealed under the same initialisation vector
  exactly when their sequence counters agree modulo 2 to the 48, since the ciphers read
  only 12 of the 14 bytes of the vector.
\<close>

theorem iv_reuse:
  assumes "6 \<le> length prefix"
  shows "map_option (take SECURITY_IV_LEN) (prepare_iv prefix s) = map_option (take SECURITY_IV_LEN) (prepare_iv prefix s') \<longleftrightarrow>
         unat s mod 2 ^ 48 = unat s' mod 2 ^ 48"
  using assms le_bytes_eq_iff [of 6 "unat s" "unat s'"] by (simp add: prepare_iv_eq SECURITY_IV_LEN_def take_le_bytes_eq)

lemma iv_reuse_witness:
  "map_option (take SECURITY_IV_LEN) (prepare_iv (replicate 6 1) 7) \<noteq>
   map_option (take SECURITY_IV_LEN) (prepare_iv (replicate 6 1) 8)"
  using iv_reuse [of "replicate 6 1" 7 8] by simp

text \<open>
  C13: creating and destroying a security context is balanced: \<^verbatim>\<open>security_exit\<close> after a
  successful \<^verbatim>\<open>security_init\<close> restores what is alive, and a failing \<^verbatim>\<open>security_init\<close> leaves
  the context and the cipher balanced but leaks one cipher context when
  \<^verbatim>\<open>EVP_EncryptInit_ex2\<close> is what failed.
\<close>

theorem security_init_balance:
  "case security_init e a k h of
     (Some c, h') \<Rightarrow> security_exit (Some c) h' = h
   | (None, h') \<Rightarrow> live_context h' = live_context h \<and> live_cipher h' = live_cipher h \<and>
       live_ctx h' = live_ctx h + (if calloc_ok e \<and> cipher_fetch_ok e \<and> ctx_new_ok e then 1 else 0)"
proof (cases "security_init e a k h")
  case (Pair r h')
  then show ?thesis
    using security_init_exit [of e a k h] security_init_failure [of e a k h h'] by (cases r) simp_all
qed

end
