(* ===== verification/C_String.thy ===== *)
theory C_String
  imports Prelude
begin

text \<open>
  The string functions of the C library that the configuration parser uses:
  \<^verbatim>\<open>strcasecmp\<close>, \<^verbatim>\<open>strtol\<close>, \<^verbatim>\<open>strtoul\<close>/\<^verbatim>\<open>strtoull\<close> and the \<^verbatim>\<open>%x\<close> conversion of
  \<^verbatim>\<open>sscanf\<close>, in the C locale. A string is its characters up to the terminating NUL.
\<close>

definition code :: "char \<Rightarrow> nat" where
  "code c = of_char c"

definition tolower :: "char \<Rightarrow> char" where
  "tolower c = (if 65 \<le> code c \<and> code c \<le> 90 then char_of (code c + 32) else c)"

definition strcasecmp_eq :: "string \<Rightarrow> string \<Rightarrow> bool" where
  "strcasecmp_eq s t \<longleftrightarrow> map tolower s = map tolower t"

definition isspace :: "char \<Rightarrow> bool" where
  "isspace c \<longleftrightarrow> code c = 32 \<or> (9 \<le> code c \<and> code c \<le> 13)"

definition digit_val :: "char \<Rightarrow> nat" where
  "digit_val c =
     (let n = code c in
      if 48 \<le> n \<and> n \<le> 57 then n - 48
      else if 97 \<le> n \<and> n \<le> 102 then n - 87
      else if 65 \<le> n \<and> n \<le> 70 then n - 55
      else 16)"

definition digits_val :: "nat \<Rightarrow> string \<Rightarrow> nat" where
  "digits_val base s = foldl (\<lambda>a c. a * base + digit_val c) 0 s"

text \<open>
  One number at the front of a string: its sign, its digits, the characters after it.
  In base 16 a prefix \<^verbatim>\<open>0x\<close> is skipped when a hexadecimal digit follows it.
\<close>

definition skip_sign :: "string \<Rightarrow> bool \<times> string" where
  "skip_sign s =
     (case s of c # r \<Rightarrow> if c = CHR ''-'' then (True, r) else if c = CHR ''+'' then (False, r)
                         else (False, s)
      | [] \<Rightarrow> (False, s))"

definition skip_0x :: "nat \<Rightarrow> string \<Rightarrow> string" where
  "skip_0x base s =
     (case s of a # b # c # r \<Rightarrow>
        if base = 16 \<and> a = CHR ''0'' \<and> tolower b = CHR ''x'' \<and> digit_val c < 16 then c # r else s
      | _ \<Rightarrow> s)"

definition scan_number :: "nat \<Rightarrow> string \<Rightarrow> bool \<times> string \<times> string" where
  "scan_number base s =
     (let (neg, r) = skip_sign (dropWhile isspace s);
          r = skip_0x base r
      in (neg, takeWhile (\<lambda>c. digit_val c < base) r, dropWhile (\<lambda>c. digit_val c < base) r))"

text \<open>
  The outcome of a conversion: the value, whether \<^verbatim>\<open>errno\<close> is set, and whether the
  whole string was a number (\<^verbatim>\<open>endptr != value && *endptr == 0\<close>).
\<close>

definition ull_value :: "nat \<Rightarrow> bool \<Rightarrow> string \<Rightarrow> u64 \<times> bool" where
  "ull_value base neg ds =
     (let n = digits_val base ds in
      if n \<ge> 2 ^ 64 then (- 1, True)
      else (if neg then - word_of_nat n else word_of_nat n, False))"

definition strtoull :: "nat \<Rightarrow> string \<Rightarrow> u64 \<times> bool \<times> bool" where
  "strtoull base s =
     (case scan_number base s of (neg, ds, rest) \<Rightarrow>
        case ull_value base neg ds of (v, err) \<Rightarrow> (v, err, ds \<noteq> [] \<and> rest = []))"

definition strtol :: "nat \<Rightarrow> string \<Rightarrow> int \<times> bool \<times> bool" where
  "strtol base s =
     (case scan_number base s of (neg, ds, rest) \<Rightarrow>
        let n = (if neg then - int (digits_val base ds) else int (digits_val base ds)) in
        if n > 2 ^ 63 - 1 then (2 ^ 63 - 1, True, ds \<noteq> [] \<and> rest = [])
        else if n < - (2 ^ 63) then (- (2 ^ 63), True, ds \<noteq> [] \<and> rest = [])
        else (n, False, ds \<noteq> [] \<and> rest = []))"

text \<open>One \<^verbatim>\<open>%x\<close> conversion into an \<^verbatim>\<open>unsigned int\<close>: the value and the rest of the input.\<close>

definition scan_x :: "string \<Rightarrow> (u32 \<times> string) option" where
  "scan_x s =
     (case scan_number 16 s of (neg, ds, rest) \<Rightarrow>
        if ds = [] then None
        else Some (ucast (fst (ull_value 16 neg ds)), rest))"

text \<open>\<^verbatim>\<open>sscanf(value, "%x:%x:...")\<close> with \<open>n\<close> conversions: the values converted before the first failure.\<close>

fun sscanf_x_colon :: "nat \<Rightarrow> string \<Rightarrow> u32 list" where
  "sscanf_x_colon 0 s = []"
| "sscanf_x_colon (Suc n) s =
     (case scan_x s of None \<Rightarrow> []
      | Some (v, rest) \<Rightarrow>
          v # (case rest of c # r \<Rightarrow> if c = CHR '':'' then sscanf_x_colon n r else []
               | [] \<Rightarrow> []))"

lemma length_sscanf_x_colon: "length (sscanf_x_colon n s) \<le> n"
  by (induction n s rule: sscanf_x_colon.induct) (auto split: option.splits list.splits)

lemma strcasecmp_eq_refl [simp]: "strcasecmp_eq s s"
  by (simp add: strcasecmp_eq_def)

section \<open>Decimal output\<close>

text \<open>Decimal notation of a natural number, the output of \<^verbatim>\<open>%u\<close> and \<^verbatim>\<open>PRIu64\<close>.\<close>

fun decimal :: "nat \<Rightarrow> string" where
  "decimal n = (if n < 10 then [char_of (48 + n)] else decimal (n div 10) @ [char_of (48 + n mod 10)])"

declare decimal.simps [simp del]

lemma decimal_nonempty: "decimal n \<noteq> []"
  by (subst decimal.simps) simp

lemma code_digit: "n < 10 \<Longrightarrow> code (char_of (48 + n)) = 48 + n"
  by (simp add: code_def)

lemma digit_val_digit: "n < 10 \<Longrightarrow> digit_val (char_of (48 + n)) = n"
  by (simp add: digit_val_def code_digit)

lemma digits_val_snoc: "digits_val b (s @ [c]) = digits_val b s * b + digit_val c"
  by (simp add: digits_val_def)

lemma decimal_digits: "c \<in> set (decimal n) \<Longrightarrow> digit_val c < 10 \<and> 48 \<le> code c \<and> code c \<le> 57"
proof (induction n rule: decimal.induct)
  case (1 n)
  show ?case
  proof (cases "n < 10")
    case True
    then show ?thesis using "1.prems" by (subst (asm) decimal.simps) (auto simp: digit_val_digit code_digit)
  next
    case False
    have m: "n mod 10 < 10" by simp
    from False "1.prems" have "c \<in> set (decimal (n div 10)) \<or> c = char_of (48 + n mod 10)"
      by (subst (asm) decimal.simps) auto
    then show ?thesis using "1.IH" [OF False] digit_val_digit [OF m] code_digit [OF m] m by auto
  qed
qed

lemma digits_val_decimal: "digits_val 10 (decimal n) = n"
proof (induction n rule: decimal.induct)
  case (1 n)
  show ?case
  proof (cases "n < 10")
    case True
    then show ?thesis by (subst decimal.simps) (simp add: digits_val_def digit_val_digit)
  next
    case False
    then have "decimal n = decimal (n div 10) @ [char_of (48 + n mod 10)]" by (subst decimal.simps) simp
    then show ?thesis using "1.IH" [OF False] by (simp add: digits_val_snoc digit_val_digit)
  qed
qed

lemma skip_0x_10 [simp]: "skip_0x 10 s = s"
  by (auto simp: skip_0x_def split: list.splits)

lemma scan_number_decimal: "scan_number 10 (decimal n) = (False, decimal n, [])"
proof -
  obtain c r where cr: "decimal n = c # r" using decimal_nonempty by (cases "decimal n") auto
  then have c: "48 \<le> code c" "code c \<le> 57" using decimal_digits [of c n] by auto
  then have "\<not> isspace c" "c \<noteq> CHR ''-''" "c \<noteq> CHR ''+''" by (auto simp: isspace_def code_def)
  moreover have "takeWhile (\<lambda>c. digit_val c < 10) (decimal n) = decimal n"
    "dropWhile (\<lambda>c. digit_val c < 10) (decimal n) = []"
    using decimal_digits by auto
  ultimately show ?thesis
    by (simp add: scan_number_def skip_sign_def flip: cr) (simp add: cr)
qed

lemma strtoull_decimal:
  "n < 2 ^ 64 \<Longrightarrow> strtoull 10 (decimal n) = (word_of_nat n, False, True)"
  by (simp add: strtoull_def ull_value_def scan_number_decimal digits_val_decimal decimal_nonempty)

end
