(* ===== verification/Config.thy ===== *)
theory Config
  imports C_String Net_Def Security
begin

text \<open>
  \<^verbatim>\<open>config.h\<close> and \<^verbatim>\<open>config.c\<close>: the configuration of the testbench, its defaults, the
  parser of its YAML file and the sanity check.

  The flat members \<^verbatim>\<open>tsn_high_vid\<close>, \<^verbatim>\<open>rtc_frame_length\<close>, \<dots> of
  \<^verbatim>\<open>struct application_config\<close> are grouped by traffic class: \<open>tc c\<close> is the record of the
  members with the prefix of class \<open>c\<close>. A member the struct does not have for a class
  keeps its zero value there and is not read. \<^verbatim>\<open>char *\<close> members are optional byte
  strings (\<open>None\<close>: NULL). The YAML scanner is not part of the sources: the parser
  consumes the list of the tokens it delivers.
\<close>

section \<open>Data\<close>

datatype clockid = CLOCK_REALTIME | CLOCK_MONOTONIC | CLOCK_TAI

record traffic_class =
  enabled :: bool
  tx_time_enabled :: bool
  tx_time_offset_ns :: u64
  vid :: int
  pcp :: int
  burst_period_ns :: u64
  ether_type :: u32
  num_frames_per_cycle :: u64
  payload_pattern :: "bytes option"
  payload_pattern_length :: u64
  frame_length :: u64
  tc_security_mode :: security_mode
  tc_security_algorithm :: security_algorithm
  security_key :: "bytes option"
  security_key_length :: u64
  security_iv_prefix :: "bytes option"
  security_iv_prefix_length :: u64
  lport_id :: u32
  thread_cpu :: int
  destination :: bytes
  udp_port :: u16
  udp_src_port :: u16
  ip_destination :: "bytes option"
  ip_destination_length :: u64
  ip_source :: "bytes option"
  ip_source_length :: u64

definition MAX_QUEUES_ENABLED :: nat where "MAX_QUEUES_ENABLED = 16"

record qid_t =
  qids :: "u16 list"
  cnt :: u16

record application_config =
  application_clock_id :: clockid
  application_base_cycle_time_ns :: u64
  application_tx_base_offset_ns :: u64
  application_rx_base_offset_ns :: u64
  application_num_mbufs :: u32
  application_mbuf_size :: u32
  application_cache_size :: u32
  application_num_rx_descriptors :: u32
  application_num_tx_descriptors :: u32
  application_link_speed :: u32
  application_link_half_duplex :: bool
  application_wait_time_before_start :: u32
  pkt_handler_enabled :: bool
  pkt_handler_lport_id :: u32
  pkt_handler_physical_lport_id :: u32
  pkt_handler_thread_cpu :: int
  tc :: "stat_frame_type \<Rightarrow> traffic_class"
  log_thread_period_ns :: u64
  log_thread_priority :: int
  log_thread_cpu :: int
  log_file :: "bytes option"
  log_file_length :: u64
  log_level :: "bytes option"
  log_level_length :: u64
  debug_stop_trace_on_outlier :: bool
  debug_stop_trace_on_error :: bool
  debug_monitor_mode :: bool
  debug_monitor_destination :: bytes
  stats_histogram_enabled :: bool
  stats_histogram_minimum_ns :: u64
  stats_histogram_maximum_ns :: u64
  stats_histogram_file :: "bytes option"
  stats_histogram_file_length :: u64
  stats_collection_interval_ns :: u64
  log_via_mqtt :: bool
  log_via_mqtt_thread_priority :: int
  log_via_mqtt_thread_cpu :: int
  log_via_mqtt_thread_period_ns :: u64
  log_via_mqtt_broker_ip :: "bytes option"
  log_via_mqtt_broker_ip_length :: u64
  log_via_mqtt_broker_port :: int
  log_via_mqtt_keep_alive_secs :: int
  log_via_mqtt_measurement_name :: "bytes option"
  log_via_mqtt_measurement_name_length :: u64
  qinfo :: "nat \<Rightarrow> qid_t"

text \<open>Update of the members of one class.\<close>

definition upd_tc ::
  "stat_frame_type \<Rightarrow> (traffic_class \<Rightarrow> traffic_class) \<Rightarrow> application_config \<Rightarrow> application_config" where
  "upd_tc t f c = c\<lparr>tc := (tc c)(t := f (tc c t))\<rparr>"

definition CONFIG_IS_TRAFFIC_CLASS_ACTIVE :: "application_config \<Rightarrow> stat_frame_type \<Rightarrow> bool" where
  "CONFIG_IS_TRAFFIC_CLASS_ACTIVE c t \<longleftrightarrow> enabled (tc c t) \<and> num_frames_per_cycle (tc c t) > 0"

definition cstr :: "string \<Rightarrow> bytes" where
  "cstr s = map of_char s"

section \<open>Static storage and defaults\<close>

definition zero_class :: traffic_class where
  "zero_class =
     \<lparr>enabled = False, tx_time_enabled = False, tx_time_offset_ns = 0, vid = 0, pcp = 0,
      burst_period_ns = 0, ether_type = 0, num_frames_per_cycle = 0, payload_pattern = None,
      payload_pattern_length = 0, frame_length = 0, tc_security_mode = SECURITY_MODE_NONE,
      tc_security_algorithm = SECURITY_ALGORITHM_AES256_GCM, security_key = None,
      security_key_length = 0, security_iv_prefix = None, security_iv_prefix_length = 0,
      lport_id = 0, thread_cpu = 0, destination = replicate 6 0, udp_port = 0, udp_src_port = 0,
      ip_destination = None, ip_destination_length = 0, ip_source = None, ip_source_length = 0\<rparr>"

text \<open>\<^verbatim>\<open>struct application_config app_config = {0}\<close>. (Clock id 0 is \<^verbatim>\<open>CLOCK_REALTIME\<close>.)\<close>

definition zero_config :: application_config where
  "zero_config =
     \<lparr>application_clock_id = CLOCK_REALTIME, application_base_cycle_time_ns = 0,
      application_tx_base_offset_ns = 0, application_rx_base_offset_ns = 0,
      application_num_mbufs = 0, application_mbuf_size = 0, application_cache_size = 0,
      application_num_rx_descriptors = 0, application_num_tx_descriptors = 0,
      application_link_speed = 0, application_link_half_duplex = False,
      application_wait_time_before_start = 0, pkt_handler_enabled = False,
      pkt_handler_lport_id = 0, pkt_handler_physical_lport_id = 0, pkt_handler_thread_cpu = 0,
      tc = (\<lambda>_. zero_class), log_thread_period_ns = 0, log_thread_priority = 0,
      log_thread_cpu = 0, log_file = None, log_file_length = 0, log_level = None, log_level_length = 0, debug_stop_trace_on_outlier = False,
      debug_stop_trace_on_error = False, debug_monitor_mode = False,
      debug_monitor_destination = replicate 6 0, stats_histogram_enabled = False,
      stats_histogram_minimum_ns = 0, stats_histogram_maximum_ns = 0, stats_histogram_file = None,
      stats_histogram_file_length = 0, stats_collection_interval_ns = 0, log_via_mqtt = False,
      log_via_mqtt_thread_priority = 0, log_via_mqtt_thread_cpu = 0,
      log_via_mqtt_thread_period_ns = 0, log_via_mqtt_broker_ip = None, log_via_mqtt_broker_ip_length = 0,
      log_via_mqtt_broker_port = 0, log_via_mqtt_keep_alive_secs = 0,
      log_via_mqtt_measurement_name = None, log_via_mqtt_measurement_name_length = 0,
      qinfo = (\<lambda>_. \<lparr>qids = replicate MAX_QUEUES_ENABLED 0, cnt = 0\<rparr>)\<rparr>"

definition LPORT_INVALID :: u32 where "LPORT_INVALID = 0xFFFFFFFF"
definition RTE_ETH_SPEED_NUM_UNKNOWN :: u32 where "RTE_ETH_SPEED_NUM_UNKNOWN = 0xFFFFFFFF"
definition MIN_WAIT_TIME :: u32 where "MIN_WAIT_TIME = 16"

definition default_debug_monitor_destination :: bytes where
  "default_debug_monitor_destination = [0x44, 0x44, 0x44, 0x44, 0x44, 0x44]"
definition default_lldp_destination :: bytes where
  "default_lldp_destination = [0x01, 0x80, 0xc2, 0x00, 0x00, 0x0e]"
definition default_udp_destination :: bytes where
  "default_udp_destination = [0xa4, 0xa2, 0xc2, 0x00, 0x00, 0xee]"
definition default_destination :: bytes where
  "default_destination = [0xa8, 0xa1, 0x59, 0x2c, 0xa8, 0xdb]"
definition default_dcp_identify :: bytes where
  "default_dcp_identify = [0x01, 0x0e, 0xcf, 0x00, 0x00, 0x00]"

text \<open>
  \<^verbatim>\<open>config_set_defaults\<close> is a sequence of assignments interrupted by \<^verbatim>\<open>strdup\<close> calls that
  may fail. A step is a block of assignments; its flag says that the block ends with a
  \<^verbatim>\<open>strdup\<close> whose failure jumps to \<^verbatim>\<open>out\<close>. A failing block has stored NULL.
\<close>

datatype default_step =
    Assign "application_config \<Rightarrow> application_config"
  | Strdup "bytes option \<Rightarrow> application_config \<Rightarrow> application_config" bytes

definition application_defaults :: "application_config \<Rightarrow> application_config" where
  "application_defaults c = c\<lparr>
     application_clock_id := CLOCK_TAI,
     application_base_cycle_time_ns := 125000,
     application_tx_base_offset_ns := 100000,
     application_rx_base_offset_ns := 75000,
     application_num_mbufs := 4096,
     application_mbuf_size := 2048,
     application_cache_size := 32,
     application_num_rx_descriptors := 0,
     application_num_tx_descriptors := 0,
     application_link_speed := RTE_ETH_SPEED_NUM_UNKNOWN,
     application_link_half_duplex := False,
     application_wait_time_before_start := MIN_WAIT_TIME,
     pkt_handler_enabled := False,
     pkt_handler_lport_id := LPORT_INVALID,
     pkt_handler_physical_lport_id := LPORT_INVALID,
     pkt_handler_thread_cpu := - 1\<rparr>"

definition set_payload_pattern :: "stat_frame_type \<Rightarrow> bytes option \<Rightarrow> application_config \<Rightarrow> application_config" where
  "set_payload_pattern t v = upd_tc t (\<lambda>x. x\<lparr>payload_pattern := v\<rparr>)"

definition default_payload_pattern :: bytes where
  "default_payload_pattern = cstr ''Payload''"

text \<open>The members set before and after the payload pattern of the secured classes.\<close>

definition secured_tail :: "bytes \<Rightarrow> traffic_class \<Rightarrow> traffic_class" where
  "secured_tail dst x = x\<lparr>
     payload_pattern_length := of_nat (length default_payload_pattern),
     frame_length := 200,
     tc_security_mode := SECURITY_MODE_NONE,
     tc_security_algorithm := SECURITY_ALGORITHM_AES256_GCM,
     security_key := None,
     security_iv_prefix := None,
     lport_id := LPORT_INVALID,
     thread_cpu := - 1,
     destination := dst\<rparr>"

definition plain_tail :: "u64 \<Rightarrow> bytes \<Rightarrow> traffic_class \<Rightarrow> traffic_class" where
  "plain_tail len dst x = x\<lparr>
     payload_pattern_length := of_nat (length default_payload_pattern),
     frame_length := len,
     lport_id := LPORT_INVALID,
     thread_cpu := - 1,
     destination := dst\<rparr>"

definition tsn_high_defaults :: "default_step list" where
  "tsn_high_defaults =
     [Assign (upd_tc TSN_HIGH_FRAME_TYPE (\<lambda>x. x\<lparr>enabled := False, tx_time_enabled := False,
        tx_time_offset_ns := 0, vid := TSN_HIGH_VID_VALUE, pcp := TSN_HIGH_PCP_VALUE,
        num_frames_per_cycle := 0\<rparr>)),
      Strdup (set_payload_pattern TSN_HIGH_FRAME_TYPE) default_payload_pattern,
      Assign (upd_tc TSN_HIGH_FRAME_TYPE (secured_tail default_destination))]"

definition tsn_low_defaults :: "default_step list" where
  "tsn_low_defaults =
     [Assign (upd_tc TSN_LOW_FRAME_TYPE (\<lambda>x. x\<lparr>enabled := False, tx_time_enabled := False,
        tx_time_offset_ns := 0, vid := TSN_LOW_VID_VALUE, pcp := TSN_LOW_PCP_VALUE,
        num_frames_per_cycle := 0\<rparr>)),
      Strdup (set_payload_pattern TSN_LOW_FRAME_TYPE) default_payload_pattern,
      Assign (upd_tc TSN_LOW_FRAME_TYPE (secured_tail default_destination))]"

definition rtc_defaults :: "default_step list" where
  "rtc_defaults =
     [Assign (upd_tc RTC_FRAME_TYPE (\<lambda>x. x\<lparr>enabled := False, vid := PROFINET_RT_VID_VALUE,
        pcp := RTC_PCP_VALUE, num_frames_per_cycle := 0\<rparr>)),
      Strdup (set_payload_pattern RTC_FRAME_TYPE) default_payload_pattern,
      Assign (upd_tc RTC_FRAME_TYPE (secured_tail default_destination))]"

definition rta_defaults :: "default_step list" where
  "rta_defaults =
     [Assign (upd_tc RTA_FRAME_TYPE (\<lambda>x. x\<lparr>enabled := False, vid := PROFINET_RT_VID_VALUE,
        pcp := RTA_PCP_VALUE, burst_period_ns := 200000000, num_frames_per_cycle := 0\<rparr>)),
      Strdup (set_payload_pattern RTA_FRAME_TYPE) default_payload_pattern,
      Assign (upd_tc RTA_FRAME_TYPE (secured_tail default_destination))]"

definition dcp_defaults :: "default_step list" where
  "dcp_defaults =
     [Assign (upd_tc DCP_FRAME_TYPE (\<lambda>x. x\<lparr>enabled := False, vid := PROFINET_RT_VID_VALUE,
        pcp := DCP_PCP_VALUE, burst_period_ns := 2000000000, num_frames_per_cycle := 0\<rparr>)),
      Strdup (set_payload_pattern DCP_FRAME_TYPE) default_payload_pattern,
      Assign (upd_tc DCP_FRAME_TYPE (plain_tail 200 default_dcp_identify))]"

definition lldp_defaults :: "default_step list" where
  "lldp_defaults =
     [Assign (upd_tc LLDP_FRAME_TYPE (\<lambda>x. x\<lparr>enabled := False, burst_period_ns := 5000000000,
        num_frames_per_cycle := 0\<rparr>)),
      Strdup (set_payload_pattern LLDP_FRAME_TYPE) default_payload_pattern,
      Assign (upd_tc LLDP_FRAME_TYPE (plain_tail 200 default_lldp_destination))]"

text \<open>
  The lengths of the IP strings are not set. The test of the default port against 0 never
  fails.
\<close>

definition udp_defaults :: "stat_frame_type \<Rightarrow> u16 \<Rightarrow> default_step list" where
  "udp_defaults t port =
     [Assign (upd_tc t (\<lambda>x. x\<lparr>enabled := False, burst_period_ns := 1000000000,
        num_frames_per_cycle := 0\<rparr>)),
      Strdup (set_payload_pattern t) default_payload_pattern,
      Assign (upd_tc t (\<lambda>x. x\<lparr>payload_pattern_length := of_nat (length default_payload_pattern),
        frame_length := 1400, lport_id := LPORT_INVALID, thread_cpu := - 1, udp_port := port\<rparr>)),
      Strdup (\<lambda>v. upd_tc t (\<lambda>x. x\<lparr>ip_destination := v\<rparr>)) (cstr ''192.168.2.121''),
      Strdup (\<lambda>v. upd_tc t (\<lambda>x. x\<lparr>ip_source := v\<rparr>)) (cstr ''192.168.2.120''),
      Assign (upd_tc t (\<lambda>x. x\<lparr>destination := default_udp_destination\<rparr>))]"

definition udp_high_defaults :: "default_step list" where
  "udp_high_defaults = udp_defaults UDP_HIGH_FRAME_TYPE 6666"

definition udp_low_defaults :: "default_step list" where
  "udp_low_defaults = udp_defaults UDP_LOW_FRAME_TYPE 6667"

definition l2_defaults :: "default_step list" where
  "l2_defaults =
     [Assign (upd_tc L2_FRAME_TYPE (\<lambda>x. x\<lparr>enabled := False, tx_time_enabled := False,
        tx_time_offset_ns := 0, vid := 100, pcp := 6, ether_type := 0xb62c,
        num_frames_per_cycle := 0\<rparr>)),
      Strdup (set_payload_pattern L2_FRAME_TYPE) default_payload_pattern,
      Assign (upd_tc L2_FRAME_TYPE (plain_tail 200 default_destination))]"

definition log_defaults :: "default_step list" where
  "log_defaults =
     [Assign (\<lambda>c. c\<lparr>log_thread_period_ns := 500000000, log_thread_priority := 1,
        log_thread_cpu := 7\<rparr>),
      Strdup (\<lambda>v c. c\<lparr>log_file := v\<rparr>) (cstr ''reference.log''),
      Strdup (\<lambda>v c. c\<lparr>log_level := v\<rparr>) (cstr ''Debug''),
      Assign (\<lambda>c. c\<lparr>debug_stop_trace_on_outlier := False, debug_stop_trace_on_error := False,
        debug_monitor_mode := False,
        debug_monitor_destination := default_debug_monitor_destination,
        stats_histogram_enabled := False, stats_histogram_minimum_ns := 1000000,
        stats_histogram_maximum_ns := 10000000\<rparr>),
      Strdup (\<lambda>v c. c\<lparr>stats_histogram_file := v\<rparr>) (cstr ''histogram.txt''),
      Assign (\<lambda>c. c\<lparr>stats_histogram_file_length := of_nat (length ''histogram.txt''),
        stats_collection_interval_ns := 1000000000,
        log_via_mqtt := False, log_via_mqtt_broker_port := 1883,
        log_via_mqtt_thread_priority := 1, log_via_mqtt_thread_cpu := 7,
        log_via_mqtt_keep_alive_secs := 60, log_via_mqtt_thread_period_ns := 1000000000\<rparr>),
      Strdup (\<lambda>v c. c\<lparr>log_via_mqtt_broker_ip := v\<rparr>) (cstr ''127.0.0.1''),
      Strdup (\<lambda>v c. c\<lparr>log_via_mqtt_measurement_name := v\<rparr>) (cstr ''testbench'')]"

definition default_steps :: "default_step list" where
  "default_steps =
     Assign application_defaults # tsn_high_defaults @ tsn_low_defaults @ rtc_defaults @
     rta_defaults @ dcp_defaults @ lldp_defaults @ udp_high_defaults @ udp_low_defaults @
     l2_defaults @ log_defaults"

text \<open>
  \<^verbatim>\<open>__config_free\<close> releases every string; \<^verbatim>\<open>scrub_and_free\<close> clears the secrets first. What
  is left in the configuration are NULL pointers.
\<close>

definition config_free_class :: "stat_frame_type \<Rightarrow> traffic_class \<Rightarrow> traffic_class" where
  "config_free_class t x =
     (case t of
        UDP_HIGH_FRAME_TYPE \<Rightarrow> x\<lparr>payload_pattern := None, ip_destination := None, ip_source := None\<rparr>
      | UDP_LOW_FRAME_TYPE \<Rightarrow> x\<lparr>payload_pattern := None, ip_destination := None, ip_source := None\<rparr>
      | DCP_FRAME_TYPE \<Rightarrow> x\<lparr>payload_pattern := None\<rparr>
      | LLDP_FRAME_TYPE \<Rightarrow> x\<lparr>payload_pattern := None\<rparr>
      | L2_FRAME_TYPE \<Rightarrow> x\<lparr>payload_pattern := None\<rparr>
      | _ \<Rightarrow> x\<lparr>payload_pattern := None, security_key := None, security_iv_prefix := None\<rparr>)"

definition config_free :: "application_config \<Rightarrow> application_config" where
  "config_free c = c\<lparr>tc := (\<lambda>t. config_free_class t (tc c t)),
     stats_histogram_file := None, log_file := None, log_level := None,
     log_via_mqtt_broker_ip := None, log_via_mqtt_measurement_name := None\<rparr>"

text \<open>
  \<open>oks\<close> are the outcomes of the successive \<^verbatim>\<open>strdup\<close> calls (a call past the end of
  the list succeeds).
\<close>

fun run_defaults :: "bool list \<Rightarrow> default_step list \<Rightarrow> application_config \<Rightarrow> int \<times> application_config" where
  "run_defaults oks [] c = (0, c)"
| "run_defaults oks (Assign f # ss) c = run_defaults oks ss (f c)"
| "run_defaults oks (Strdup f s # ss) c =
     (if oks \<noteq> [] \<and> \<not> hd oks then (- ENOMEM, config_free (f None c))
      else run_defaults (tl oks) ss (f (Some s) c))"

definition config_set_defaults :: "bool list \<Rightarrow> application_config \<Rightarrow> int \<times> application_config" where
  "config_set_defaults oks c = run_defaults oks default_steps c"

section \<open>Reading the configuration file\<close>

subsection \<open>One parameter\<close>

text \<open>
  The conversions of \<^verbatim>\<open>strtol\<close>'s \<^verbatim>\<open>long\<close> to an \<^verbatim>\<open>int\<close> member and of
  \<^verbatim>\<open>strtoul\<close>'s \<^verbatim>\<open>unsigned long\<close> to a 32-bit member keep the low 32 bits.
\<close>

definition to_cint :: "int \<Rightarrow> int" where
  "to_cint v = sint (word_of_int v :: u32)"

definition ERANGE :: int where "ERANGE = 34"

text \<open>
  One \<^verbatim>\<open>CONFIG_STORE_*_PARAM\<close> line: the key and the member it sets. A string parameter
  has also the assignment of a failing \<^verbatim>\<open>strdup\<close>.
\<close>

datatype param =
    PBool string "bool \<Rightarrow> application_config \<Rightarrow> application_config"
  | PInt string "int \<Rightarrow> application_config \<Rightarrow> application_config"
  | PUint string "u64 \<Rightarrow> application_config \<Rightarrow> application_config"
  | PUlong string "u64 \<Rightarrow> application_config \<Rightarrow> application_config"
  | PString string "bytes \<Rightarrow> application_config \<Rightarrow> application_config"
      "application_config \<Rightarrow> application_config"
  | PMac string "(bytes \<Rightarrow> bytes) \<Rightarrow> application_config \<Rightarrow> application_config"
  | PClock string "clockid \<Rightarrow> application_config \<Rightarrow> application_config"
  | PEther string "u64 \<Rightarrow> application_config \<Rightarrow> application_config"
  | PSecMode string "security_mode \<Rightarrow> application_config \<Rightarrow> application_config"
  | PSecAlg string "security_algorithm \<Rightarrow> application_config \<Rightarrow> application_config"

fun param_key :: "param \<Rightarrow> string" where
  "param_key (PBool k _) = k"
| "param_key (PInt k _) = k"
| "param_key (PUint k _) = k"
| "param_key (PUlong k _) = k"
| "param_key (PString k _ _) = k"
| "param_key (PMac k _) = k"
| "param_key (PClock k _) = k"
| "param_key (PEther k _) = k"
| "param_key (PSecMode k _) = k"
| "param_key (PSecAlg k _) = k"

definition parse_bool :: "string \<Rightarrow> bool option" where
  "parse_bool value =
     (if value = ''0'' \<or> strcasecmp_eq value ''false'' \<or> strcasecmp_eq value ''disabled'' \<or>
         strcasecmp_eq value ''off'' then Some False
      else if value = ''1'' \<or> strcasecmp_eq value ''true'' \<or> strcasecmp_eq value ''enabled'' \<or>
         strcasecmp_eq value ''on'' then Some True
      else None)"

definition parse_security_mode :: "string \<Rightarrow> security_mode option" where
  "parse_security_mode value =
     (if strcasecmp_eq value ''none'' then Some SECURITY_MODE_NONE
      else if strcasecmp_eq value ''ao'' then Some SECURITY_MODE_AO
      else if strcasecmp_eq value ''ae'' then Some SECURITY_MODE_AE
      else None)"

definition parse_security_algorithm :: "string \<Rightarrow> security_algorithm option" where
  "parse_security_algorithm value =
     (if strcasecmp_eq value ''aes256-gcm'' then Some SECURITY_ALGORITHM_AES256_GCM
      else if strcasecmp_eq value ''aes128-gcm'' then Some SECURITY_ALGORITHM_AES128_GCM
      else if strcasecmp_eq value ''chacha20-poly1305''
        then Some SECURITY_ALGORITHM_CHACHA20_POLY1305
      else None)"

text \<open>
  The MAC macro stores the octets one by one and stops at the first one above 255.
\<close>

fun store_octets :: "nat \<Rightarrow> u32 list \<Rightarrow> bytes \<Rightarrow> bytes \<times> bool" where
  "store_octets i [] old = (old, True)"
| "store_octets i (v # vs) old =
     (if v > 255 then (old, False) else store_octets (Suc i) vs (old[i := ucast v]))"

text \<open>
  The outcome of one macro: \<open>Some ret\<close> when it jumps to \<^verbatim>\<open>err_parse\<close> with \<^verbatim>\<open>ret\<close>, and the
  configuration. \<open>ret0\<close> is the value of \<^verbatim>\<open>ret\<close> before the macro, which the macros that
  do not assign it leave in place. \<open>dup_ok\<close>: \<^verbatim>\<open>strdup\<close> succeeds.
\<close>

fun config_store_param ::
  "bool \<Rightarrow> int \<Rightarrow> string \<Rightarrow> param \<Rightarrow> application_config \<Rightarrow> int option \<times> application_config" where
  "config_store_param dup_ok ret0 value (PBool _ f) c =
     (case parse_bool value of Some v \<Rightarrow> (None, f v c) | None \<Rightarrow> (Some ret0, c))"
| "config_store_param dup_ok ret0 value (PInt _ f) c =
     (case strtol 10 value of (v, err, whole) \<Rightarrow>
        (if err \<or> \<not> whole then Some (- ERANGE) else None, f v c))"
| "config_store_param dup_ok ret0 value (PUint _ f) c =
     (case strtoull 10 value of (v, err, whole) \<Rightarrow>
        (if err \<or> \<not> whole then Some (- ERANGE) else None, f v c))"
| "config_store_param dup_ok ret0 value (PUlong _ f) c =
     (case strtoull 10 value of (v, err, whole) \<Rightarrow>
        (if err \<or> \<not> whole then Some (- ERANGE) else None, f v c))"
| "config_store_param dup_ok ret0 value (PString _ f nul) c =
     (if dup_ok then (None, f (cstr value) c) else (Some (- ENOMEM), nul c))"
| "config_store_param dup_ok ret0 value (PMac _ f) c =
     (let tmp = sscanf_x_colon 6 value in
      if length tmp \<noteq> ETH_ALEN then (Some (- EINVAL), c)
      else (if snd (store_octets 0 tmp (replicate 6 0)) then None else Some (- EINVAL),
            f (\<lambda>old. fst (store_octets 0 tmp old)) c))"
| "config_store_param dup_ok ret0 value (PClock _ f) c =
     (if strcasecmp_eq value ''CLOCK_TAI'' then (None, f CLOCK_TAI c)
      else if strcasecmp_eq value ''CLOCK_MONOTONIC'' then (None, f CLOCK_MONOTONIC c)
      else (Some ret0, c))"
| "config_store_param dup_ok ret0 value (PEther _ f) c =
     (case strtoull 16 value of (v, err, whole) \<Rightarrow>
        (if err \<or> \<not> whole then Some (- ERANGE) else None, f v c))"
| "config_store_param dup_ok ret0 value (PSecMode _ f) c =
     (case parse_security_mode value of Some v \<Rightarrow> (None, f v c) | None \<Rightarrow> (Some ret0, c))"
| "config_store_param dup_ok ret0 value (PSecAlg _ f) c =
     (case parse_security_algorithm value of Some v \<Rightarrow> (None, f v c) | None \<Rightarrow> (Some ret0, c))"

subsection \<open>The parameters, in the order of the source\<close>

definition application_params :: "param list" where
  "application_params =
     [PClock ''ApplicationClockId'' (\<lambda>v c. c\<lparr>application_clock_id := v\<rparr>),
      PUlong ''ApplicationBaseCycleTimeNS'' (\<lambda>v c. c\<lparr>application_base_cycle_time_ns := v\<rparr>),
      PUlong ''ApplicationTxBaseOffsetNS'' (\<lambda>v c. c\<lparr>application_tx_base_offset_ns := v\<rparr>),
      PUlong ''ApplicationRxBaseOffsetNS'' (\<lambda>v c. c\<lparr>application_rx_base_offset_ns := v\<rparr>),
      PBool ''ApplicationLinkHalfDuplex'' (\<lambda>v c. c\<lparr>application_link_half_duplex := v\<rparr>),
      PUint ''ApplicationLinkSpeed'' (\<lambda>v c. c\<lparr>application_link_speed := ucast v\<rparr>),
      PUint ''ApplicationWaitTimeBeforeStart'' (\<lambda>v c. c\<lparr>application_wait_time_before_start := ucast v\<rparr>),
      PBool ''PktHandlerEnabled'' (\<lambda>v c. c\<lparr>pkt_handler_enabled := v\<rparr>),
      PInt ''PktHandlerThreadCpu'' (\<lambda>v c. c\<lparr>pkt_handler_thread_cpu := to_cint v\<rparr>)]"

definition tsn_high_params :: "param list" where
  "tsn_high_params =
     [PBool ''TsnHighEnabled'' (\<lambda>v. upd_tc TSN_HIGH_FRAME_TYPE (\<lambda>x. x\<lparr>enabled := v\<rparr>)),
      PBool ''TsnHighTxTimeEnabled'' (\<lambda>v. upd_tc TSN_HIGH_FRAME_TYPE (\<lambda>x. x\<lparr>tx_time_enabled := v\<rparr>)),
      PUlong ''TsnHighTxTimeOffsetNS'' (\<lambda>v. upd_tc TSN_HIGH_FRAME_TYPE (\<lambda>x. x\<lparr>tx_time_offset_ns := v\<rparr>)),
      PInt ''TsnHighVid'' (\<lambda>v. upd_tc TSN_HIGH_FRAME_TYPE (\<lambda>x. x\<lparr>vid := to_cint v\<rparr>)),
      PInt ''TsnHighPcp'' (\<lambda>v. upd_tc TSN_HIGH_FRAME_TYPE (\<lambda>x. x\<lparr>pcp := to_cint v\<rparr>)),
      PUlong ''TsnHighNumFramesPerCycle'' (\<lambda>v. upd_tc TSN_HIGH_FRAME_TYPE (\<lambda>x. x\<lparr>num_frames_per_cycle := v\<rparr>)),
      PString ''TsnHighPayloadPattern'' (\<lambda>v. upd_tc TSN_HIGH_FRAME_TYPE (\<lambda>x. x\<lparr>payload_pattern := Some v,
        payload_pattern_length := of_nat (length v)\<rparr>))
        (upd_tc TSN_HIGH_FRAME_TYPE (\<lambda>x. x\<lparr>payload_pattern := None\<rparr>)),
      PUlong ''TsnHighFrameLength'' (\<lambda>v. upd_tc TSN_HIGH_FRAME_TYPE (\<lambda>x. x\<lparr>frame_length := v\<rparr>)),
      PSecMode ''TsnHighSecurityMode'' (\<lambda>v. upd_tc TSN_HIGH_FRAME_TYPE (\<lambda>x. x\<lparr>tc_security_mode := v\<rparr>)),
      PSecAlg ''TsnHighSecurityAlgorithm'' (\<lambda>v. upd_tc TSN_HIGH_FRAME_TYPE (\<lambda>x. x\<lparr>tc_security_algorithm := v\<rparr>)),
      PString ''TsnHighSecurityKey'' (\<lambda>v. upd_tc TSN_HIGH_FRAME_TYPE (\<lambda>x. x\<lparr>security_key := Some v,
        security_key_length := of_nat (length v)\<rparr>))
        (upd_tc TSN_HIGH_FRAME_TYPE (\<lambda>x. x\<lparr>security_key := None\<rparr>)),
      PString ''TsnHighSecurityIvPrefix'' (\<lambda>v. upd_tc TSN_HIGH_FRAME_TYPE (\<lambda>x. x\<lparr>security_iv_prefix := Some v,
        security_iv_prefix_length := of_nat (length v)\<rparr>))
        (upd_tc TSN_HIGH_FRAME_TYPE (\<lambda>x. x\<lparr>security_iv_prefix := None\<rparr>)),
      PInt ''TsnHighThreadCpu'' (\<lambda>v. upd_tc TSN_HIGH_FRAME_TYPE (\<lambda>x. x\<lparr>thread_cpu := to_cint v\<rparr>)),
      PMac ''TsnHighDestination'' (\<lambda>g. upd_tc TSN_HIGH_FRAME_TYPE (\<lambda>x. x\<lparr>destination := g (destination x)\<rparr>))]"

definition tsn_low_params :: "param list" where
  "tsn_low_params =
     [PBool ''TsnLowEnabled'' (\<lambda>v. upd_tc TSN_LOW_FRAME_TYPE (\<lambda>x. x\<lparr>enabled := v\<rparr>)),
      PBool ''TsnLowTxTimeEnabled'' (\<lambda>v. upd_tc TSN_LOW_FRAME_TYPE (\<lambda>x. x\<lparr>tx_time_enabled := v\<rparr>)),
      PUlong ''TsnLowTxTimeOffsetNS'' (\<lambda>v. upd_tc TSN_LOW_FRAME_TYPE (\<lambda>x. x\<lparr>tx_time_offset_ns := v\<rparr>)),
      PInt ''TsnLowVid'' (\<lambda>v. upd_tc TSN_LOW_FRAME_TYPE (\<lambda>x. x\<lparr>vid := to_cint v\<rparr>)),
      PInt ''TsnLowPcp'' (\<lambda>v. upd_tc TSN_LOW_FRAME_TYPE (\<lambda>x. x\<lparr>pcp := to_cint v\<rparr>)),
      PUlong ''TsnLowNumFramesPerCycle'' (\<lambda>v. upd_tc TSN_LOW_FRAME_TYPE (\<lambda>x. x\<lparr>num_frames_per_cycle := v\<rparr>)),
      PString ''TsnLowPayloadPattern'' (\<lambda>v. upd_tc TSN_LOW_FRAME_TYPE (\<lambda>x. x\<lparr>payload_pattern := Some v,
        payload_pattern_length := of_nat (length v)\<rparr>))
        (upd_tc TSN_LOW_FRAME_TYPE (\<lambda>x. x\<lparr>payload_pattern := None\<rparr>)),
      PUlong ''TsnLowFrameLength'' (\<lambda>v. upd_tc TSN_LOW_FRAME_TYPE (\<lambda>x. x\<lparr>frame_length := v\<rparr>)),
      PSecMode ''TsnLowSecurityMode'' (\<lambda>v. upd_tc TSN_LOW_FRAME_TYPE (\<lambda>x. x\<lparr>tc_security_mode := v\<rparr>)),
      PSecAlg ''TsnLowSecurityAlgorithm'' (\<lambda>v. upd_tc TSN_LOW_FRAME_TYPE (\<lambda>x. x\<lparr>tc_security_algorithm := v\<rparr>)),
      PString ''TsnLowSecurityKey'' (\<lambda>v. upd_tc TSN_LOW_FRAME_TYPE (\<lambda>x. x\<lparr>security_key := Some v,
        security_key_length := of_nat (length v)\<rparr>))
        (upd_tc TSN_LOW_FRAME_TYPE (\<lambda>x. x\<lparr>security_key := None\<rparr>)),
      PString ''TsnLowSecurityIvPrefix'' (\<lambda>v. upd_tc TSN_LOW_FRAME_TYPE (\<lambda>x. x\<lparr>security_iv_prefix := Some v,
        security_iv_prefix_length := of_nat (length v)\<rparr>))
        (upd_tc TSN_LOW_FRAME_TYPE (\<lambda>x. x\<lparr>security_iv_prefix := None\<rparr>)),
      PInt ''TsnLowThreadCpu'' (\<lambda>v. upd_tc TSN_LOW_FRAME_TYPE (\<lambda>x. x\<lparr>thread_cpu := to_cint v\<rparr>)),
      PMac ''TsnLowDestination'' (\<lambda>g. upd_tc TSN_LOW_FRAME_TYPE (\<lambda>x. x\<lparr>destination := g (destination x)\<rparr>))]"

definition rtc_params :: "param list" where
  "rtc_params =
     [PBool ''RtcEnabled'' (\<lambda>v. upd_tc RTC_FRAME_TYPE (\<lambda>x. x\<lparr>enabled := v\<rparr>)),
      PInt ''RtcVid'' (\<lambda>v. upd_tc RTC_FRAME_TYPE (\<lambda>x. x\<lparr>vid := to_cint v\<rparr>)),
      PInt ''RtcPcp'' (\<lambda>v. upd_tc RTC_FRAME_TYPE (\<lambda>x. x\<lparr>pcp := to_cint v\<rparr>)),
      PUlong ''RtcNumFramesPerCycle'' (\<lambda>v. upd_tc RTC_FRAME_TYPE (\<lambda>x. x\<lparr>num_frames_per_cycle := v\<rparr>)),
      PString ''RtcPayloadPattern'' (\<lambda>v. upd_tc RTC_FRAME_TYPE (\<lambda>x. x\<lparr>payload_pattern := Some v,
        payload_pattern_length := of_nat (length v)\<rparr>))
        (upd_tc RTC_FRAME_TYPE (\<lambda>x. x\<lparr>payload_pattern := None\<rparr>)),
      PUlong ''RtcFrameLength'' (\<lambda>v. upd_tc RTC_FRAME_TYPE (\<lambda>x. x\<lparr>frame_length := v\<rparr>)),
      PSecMode ''RtcSecurityMode'' (\<lambda>v. upd_tc RTC_FRAME_TYPE (\<lambda>x. x\<lparr>tc_security_mode := v\<rparr>)),
      PSecAlg ''RtcSecurityAlgorithm'' (\<lambda>v. upd_tc RTC_FRAME_TYPE (\<lambda>x. x\<lparr>tc_security_algorithm := v\<rparr>)),
      PString ''RtcSecurityKey'' (\<lambda>v. upd_tc RTC_FRAME_TYPE (\<lambda>x. x\<lparr>security_key := Some v,
        security_key_length := of_nat (length v)\<rparr>))
        (upd_tc RTC_FRAME_TYPE (\<lambda>x. x\<lparr>security_key := None\<rparr>)),
      PString ''RtcSecurityIvPrefix'' (\<lambda>v. upd_tc RTC_FRAME_TYPE (\<lambda>x. x\<lparr>security_iv_prefix := Some v,
        security_iv_prefix_length := of_nat (length v)\<rparr>))
        (upd_tc RTC_FRAME_TYPE (\<lambda>x. x\<lparr>security_iv_prefix := None\<rparr>)),
      PInt ''RtcThreadCpu'' (\<lambda>v. upd_tc RTC_FRAME_TYPE (\<lambda>x. x\<lparr>thread_cpu := to_cint v\<rparr>)),
      PMac ''RtcDestination'' (\<lambda>g. upd_tc RTC_FRAME_TYPE (\<lambda>x. x\<lparr>destination := g (destination x)\<rparr>))]"

definition rta_params :: "param list" where
  "rta_params =
     [PBool ''RtaEnabled'' (\<lambda>v. upd_tc RTA_FRAME_TYPE (\<lambda>x. x\<lparr>enabled := v\<rparr>)),
      PInt ''RtaVid'' (\<lambda>v. upd_tc RTA_FRAME_TYPE (\<lambda>x. x\<lparr>vid := to_cint v\<rparr>)),
      PInt ''RtaPcp'' (\<lambda>v. upd_tc RTA_FRAME_TYPE (\<lambda>x. x\<lparr>pcp := to_cint v\<rparr>)),
      PUlong ''RtaBurstPeriodNS'' (\<lambda>v. upd_tc RTA_FRAME_TYPE (\<lambda>x. x\<lparr>burst_period_ns := v\<rparr>)),
      PUlong ''RtaNumFramesPerCycle'' (\<lambda>v. upd_tc RTA_FRAME_TYPE (\<lambda>x. x\<lparr>num_frames_per_cycle := v\<rparr>)),
      PString ''RtaPayloadPattern'' (\<lambda>v. upd_tc RTA_FRAME_TYPE (\<lambda>x. x\<lparr>payload_pattern := Some v,
        payload_pattern_length := of_nat (length v)\<rparr>))
        (upd_tc RTA_FRAME_TYPE (\<lambda>x. x\<lparr>payload_pattern := None\<rparr>)),
      PUlong ''RtaFrameLength'' (\<lambda>v. upd_tc RTA_FRAME_TYPE (\<lambda>x. x\<lparr>frame_length := v\<rparr>)),
      PSecMode ''RtaSecurityMode'' (\<lambda>v. upd_tc RTA_FRAME_TYPE (\<lambda>x. x\<lparr>tc_security_mode := v\<rparr>)),
      PSecAlg ''RtaSecurityAlgorithm'' (\<lambda>v. upd_tc RTA_FRAME_TYPE (\<lambda>x. x\<lparr>tc_security_algorithm := v\<rparr>)),
      PString ''RtaSecurityKey'' (\<lambda>v. upd_tc RTA_FRAME_TYPE (\<lambda>x. x\<lparr>security_key := Some v,
        security_key_length := of_nat (length v)\<rparr>))
        (upd_tc RTA_FRAME_TYPE (\<lambda>x. x\<lparr>security_key := None\<rparr>)),
      PString ''RtaSecurityIvPrefix'' (\<lambda>v. upd_tc RTA_FRAME_TYPE (\<lambda>x. x\<lparr>security_iv_prefix := Some v,
        security_iv_prefix_length := of_nat (length v)\<rparr>))
        (upd_tc RTA_FRAME_TYPE (\<lambda>x. x\<lparr>security_iv_prefix := None\<rparr>)),
      PInt ''RtaThreadCpu'' (\<lambda>v. upd_tc RTA_FRAME_TYPE (\<lambda>x. x\<lparr>thread_cpu := to_cint v\<rparr>)),
      PMac ''RtaDestination'' (\<lambda>g. upd_tc RTA_FRAME_TYPE (\<lambda>x. x\<lparr>destination := g (destination x)\<rparr>))]"

definition dcp_params :: "param list" where
  "dcp_params =
     [PBool ''DcpEnabled'' (\<lambda>v. upd_tc DCP_FRAME_TYPE (\<lambda>x. x\<lparr>enabled := v\<rparr>)),
      PInt ''DcpVid'' (\<lambda>v. upd_tc DCP_FRAME_TYPE (\<lambda>x. x\<lparr>vid := to_cint v\<rparr>)),
      PInt ''DcpPcp'' (\<lambda>v. upd_tc DCP_FRAME_TYPE (\<lambda>x. x\<lparr>pcp := to_cint v\<rparr>)),
      PUlong ''DcpBurstPeriodNS'' (\<lambda>v. upd_tc DCP_FRAME_TYPE (\<lambda>x. x\<lparr>burst_period_ns := v\<rparr>)),
      PUlong ''DcpNumFramesPerCycle'' (\<lambda>v. upd_tc DCP_FRAME_TYPE (\<lambda>x. x\<lparr>num_frames_per_cycle := v\<rparr>)),
      PString ''DcpPayloadPattern'' (\<lambda>v. upd_tc DCP_FRAME_TYPE (\<lambda>x. x\<lparr>payload_pattern := Some v,
        payload_pattern_length := of_nat (length v)\<rparr>))
        (upd_tc DCP_FRAME_TYPE (\<lambda>x. x\<lparr>payload_pattern := None\<rparr>)),
      PUlong ''DcpFrameLength'' (\<lambda>v. upd_tc DCP_FRAME_TYPE (\<lambda>x. x\<lparr>frame_length := v\<rparr>)),
      PInt ''DcpThreadCpu'' (\<lambda>v. upd_tc DCP_FRAME_TYPE (\<lambda>x. x\<lparr>thread_cpu := to_cint v\<rparr>)),
      PMac ''DcpDestination'' (\<lambda>g. upd_tc DCP_FRAME_TYPE (\<lambda>x. x\<lparr>destination := g (destination x)\<rparr>))]"

definition lldp_params :: "param list" where
  "lldp_params =
     [PBool ''LldpEnabled'' (\<lambda>v. upd_tc LLDP_FRAME_TYPE (\<lambda>x. x\<lparr>enabled := v\<rparr>)),
      PUlong ''LldpBurstPeriodNS'' (\<lambda>v. upd_tc LLDP_FRAME_TYPE (\<lambda>x. x\<lparr>burst_period_ns := v\<rparr>)),
      PUlong ''LldpNumFramesPerCycle'' (\<lambda>v. upd_tc LLDP_FRAME_TYPE (\<lambda>x. x\<lparr>num_frames_per_cycle := v\<rparr>)),
      PString ''LldpPayloadPattern'' (\<lambda>v. upd_tc LLDP_FRAME_TYPE (\<lambda>x. x\<lparr>payload_pattern := Some v,
        payload_pattern_length := of_nat (length v)\<rparr>))
        (upd_tc LLDP_FRAME_TYPE (\<lambda>x. x\<lparr>payload_pattern := None\<rparr>)),
      PUlong ''LldpFrameLength'' (\<lambda>v. upd_tc LLDP_FRAME_TYPE (\<lambda>x. x\<lparr>frame_length := v\<rparr>)),
      PInt ''LldpThreadCpu'' (\<lambda>v. upd_tc LLDP_FRAME_TYPE (\<lambda>x. x\<lparr>thread_cpu := to_cint v\<rparr>)),
      PMac ''LldpDestination'' (\<lambda>g. upd_tc LLDP_FRAME_TYPE (\<lambda>x. x\<lparr>destination := g (destination x)\<rparr>))]"

definition udp_high_params :: "param list" where
  "udp_high_params =
     [PBool ''UdpHighEnabled'' (\<lambda>v. upd_tc UDP_HIGH_FRAME_TYPE (\<lambda>x. x\<lparr>enabled := v\<rparr>)),
      PUlong ''UdpHighBurstPeriodNS'' (\<lambda>v. upd_tc UDP_HIGH_FRAME_TYPE (\<lambda>x. x\<lparr>burst_period_ns := v\<rparr>)),
      PUlong ''UdpHighNumFramesPerCycle'' (\<lambda>v. upd_tc UDP_HIGH_FRAME_TYPE (\<lambda>x. x\<lparr>num_frames_per_cycle := v\<rparr>)),
      PString ''UdpHighPayloadPattern'' (\<lambda>v. upd_tc UDP_HIGH_FRAME_TYPE (\<lambda>x. x\<lparr>payload_pattern := Some v,
        payload_pattern_length := of_nat (length v)\<rparr>))
        (upd_tc UDP_HIGH_FRAME_TYPE (\<lambda>x. x\<lparr>payload_pattern := None\<rparr>)),
      PUlong ''UdpHighFrameLength'' (\<lambda>v. upd_tc UDP_HIGH_FRAME_TYPE (\<lambda>x. x\<lparr>frame_length := v\<rparr>)),
      PInt ''UdpHighThreadCpu'' (\<lambda>v. upd_tc UDP_HIGH_FRAME_TYPE (\<lambda>x. x\<lparr>thread_cpu := to_cint v\<rparr>)),
      PInt ''UdpHighPort'' (\<lambda>v. upd_tc UDP_HIGH_FRAME_TYPE (\<lambda>x. x\<lparr>udp_port := word_of_int v\<rparr>)),
      PInt ''UdpHighSrcPort'' (\<lambda>v. upd_tc UDP_HIGH_FRAME_TYPE (\<lambda>x. x\<lparr>udp_src_port := word_of_int v\<rparr>)),
      PString ''UdpHighDestination'' (\<lambda>v. upd_tc UDP_HIGH_FRAME_TYPE (\<lambda>x. x\<lparr>ip_destination := Some v,
        ip_destination_length := of_nat (length v)\<rparr>))
        (upd_tc UDP_HIGH_FRAME_TYPE (\<lambda>x. x\<lparr>ip_destination := None\<rparr>)),
      PString ''UdpHighSource'' (\<lambda>v. upd_tc UDP_HIGH_FRAME_TYPE (\<lambda>x. x\<lparr>ip_source := Some v,
        ip_source_length := of_nat (length v)\<rparr>))
        (upd_tc UDP_HIGH_FRAME_TYPE (\<lambda>x. x\<lparr>ip_source := None\<rparr>)),
      PMac ''UdpHighMacDestination'' (\<lambda>g. upd_tc UDP_HIGH_FRAME_TYPE (\<lambda>x. x\<lparr>destination := g (destination x)\<rparr>))]"

definition udp_low_params :: "param list" where
  "udp_low_params =
     [PBool ''UdpLowEnabled'' (\<lambda>v. upd_tc UDP_LOW_FRAME_TYPE (\<lambda>x. x\<lparr>enabled := v\<rparr>)),
      PUlong ''UdpLowBurstPeriodNS'' (\<lambda>v. upd_tc UDP_LOW_FRAME_TYPE (\<lambda>x. x\<lparr>burst_period_ns := v\<rparr>)),
      PUlong ''UdpLowNumFramesPerCycle'' (\<lambda>v. upd_tc UDP_LOW_FRAME_TYPE (\<lambda>x. x\<lparr>num_frames_per_cycle := v\<rparr>)),
      PString ''UdpLowPayloadPattern'' (\<lambda>v. upd_tc UDP_LOW_FRAME_TYPE (\<lambda>x. x\<lparr>payload_pattern := Some v,
        payload_pattern_length := of_nat (length v)\<rparr>))
        (upd_tc UDP_LOW_FRAME_TYPE (\<lambda>x. x\<lparr>payload_pattern := None\<rparr>)),
      PUlong ''UdpLowFrameLength'' (\<lambda>v. upd_tc UDP_LOW_FRAME_TYPE (\<lambda>x. x\<lparr>frame_length := v\<rparr>)),
      PInt ''UdpLowThreadCpu'' (\<lambda>v. upd_tc UDP_LOW_FRAME_TYPE (\<lambda>x. x\<lparr>thread_cpu := to_cint v\<rparr>)),
      PInt ''UdpLowPort'' (\<lambda>v. upd_tc UDP_LOW_FRAME_TYPE (\<lambda>x. x\<lparr>udp_port := word_of_int v\<rparr>)),
      PInt ''UdpLowSrcPort'' (\<lambda>v. upd_tc UDP_LOW_FRAME_TYPE (\<lambda>x. x\<lparr>udp_src_port := word_of_int v\<rparr>)),
      PString ''UdpLowDestination'' (\<lambda>v. upd_tc UDP_LOW_FRAME_TYPE (\<lambda>x. x\<lparr>ip_destination := Some v,
        ip_destination_length := of_nat (length v)\<rparr>))
        (upd_tc UDP_LOW_FRAME_TYPE (\<lambda>x. x\<lparr>ip_destination := None\<rparr>)),
      PString ''UdpLowSource'' (\<lambda>v. upd_tc UDP_LOW_FRAME_TYPE (\<lambda>x. x\<lparr>ip_source := Some v,
        ip_source_length := of_nat (length v)\<rparr>))
        (upd_tc UDP_LOW_FRAME_TYPE (\<lambda>x. x\<lparr>ip_source := None\<rparr>)),
      PMac ''UdpLowMacDestination'' (\<lambda>g. upd_tc UDP_LOW_FRAME_TYPE (\<lambda>x. x\<lparr>destination := g (destination x)\<rparr>))]"

definition l2_params :: "param list" where
  "l2_params =
     [PBool ''L2Enabled'' (\<lambda>v. upd_tc L2_FRAME_TYPE (\<lambda>x. x\<lparr>enabled := v\<rparr>)),
      PBool ''L2TxTimeEnabled'' (\<lambda>v. upd_tc L2_FRAME_TYPE (\<lambda>x. x\<lparr>tx_time_enabled := v\<rparr>)),
      PUlong ''L2TxTimeOffsetNS'' (\<lambda>v. upd_tc L2_FRAME_TYPE (\<lambda>x. x\<lparr>tx_time_offset_ns := v\<rparr>)),
      PInt ''L2Vid'' (\<lambda>v. upd_tc L2_FRAME_TYPE (\<lambda>x. x\<lparr>vid := to_cint v\<rparr>)),
      PInt ''L2Pcp'' (\<lambda>v. upd_tc L2_FRAME_TYPE (\<lambda>x. x\<lparr>pcp := to_cint v\<rparr>)),
      PEther ''L2EtherType'' (\<lambda>v. upd_tc L2_FRAME_TYPE (\<lambda>x. x\<lparr>ether_type := ucast v\<rparr>)),
      PUlong ''L2NumFramesPerCycle'' (\<lambda>v. upd_tc L2_FRAME_TYPE (\<lambda>x. x\<lparr>num_frames_per_cycle := v\<rparr>)),
      PString ''L2PayloadPattern'' (\<lambda>v. upd_tc L2_FRAME_TYPE (\<lambda>x. x\<lparr>payload_pattern := Some v,
        payload_pattern_length := of_nat (length v)\<rparr>))
        (upd_tc L2_FRAME_TYPE (\<lambda>x. x\<lparr>payload_pattern := None\<rparr>)),
      PUlong ''L2FrameLength'' (\<lambda>v. upd_tc L2_FRAME_TYPE (\<lambda>x. x\<lparr>frame_length := v\<rparr>)),
      PInt ''L2ThreadCpu'' (\<lambda>v. upd_tc L2_FRAME_TYPE (\<lambda>x. x\<lparr>thread_cpu := to_cint v\<rparr>)),
      PMac ''L2Destination'' (\<lambda>g. upd_tc L2_FRAME_TYPE (\<lambda>x. x\<lparr>destination := g (destination x)\<rparr>))]"

definition log_params :: "param list" where
  "log_params =
     [PUlong ''LogThreadPeriodNS'' (\<lambda>v c. c\<lparr>log_thread_period_ns := v\<rparr>),
      PInt ''LogThreadPriority'' (\<lambda>v c. c\<lparr>log_thread_priority := to_cint v\<rparr>),
      PInt ''LogThreadCpu'' (\<lambda>v c. c\<lparr>log_thread_cpu := to_cint v\<rparr>),
      PString ''LogFile'' (\<lambda>v c. c\<lparr>log_file := Some v, log_file_length := of_nat (length v)\<rparr>)
        (\<lambda>c. c\<lparr>log_file := None\<rparr>),
      PString ''LogLevel'' (\<lambda>v c. c\<lparr>log_level := Some v, log_level_length := of_nat (length v)\<rparr>)
        (\<lambda>c. c\<lparr>log_level := None\<rparr>),
      PBool ''DebugStopTraceOnOutlier'' (\<lambda>v c. c\<lparr>debug_stop_trace_on_outlier := v\<rparr>),
      PBool ''DebugStopTraceOnError'' (\<lambda>v c. c\<lparr>debug_stop_trace_on_error := v\<rparr>),
      PBool ''DebugMonitorMode'' (\<lambda>v c. c\<lparr>debug_monitor_mode := v\<rparr>),
      PMac ''DebugMonitorDestination'' (\<lambda>g c. c\<lparr>debug_monitor_destination := g (debug_monitor_destination c)\<rparr>),
      PBool ''StatsHistogramEnabled'' (\<lambda>v c. c\<lparr>stats_histogram_enabled := v\<rparr>),
      PUlong ''StatsHistogramMinimumNS'' (\<lambda>v c. c\<lparr>stats_histogram_minimum_ns := v\<rparr>),
      PUlong ''StatsHistogramMaximumNS'' (\<lambda>v c. c\<lparr>stats_histogram_maximum_ns := v\<rparr>),
      PString ''StatsHistogramFile'' (\<lambda>v c. c\<lparr>stats_histogram_file := Some v, stats_histogram_file_length := of_nat (length v)\<rparr>)
        (\<lambda>c. c\<lparr>stats_histogram_file := None\<rparr>),
      PUlong ''StatsCollectionIntervalNS'' (\<lambda>v c. c\<lparr>stats_collection_interval_ns := v\<rparr>),
      PBool ''LogViaMQTT'' (\<lambda>v c. c\<lparr>log_via_mqtt := v\<rparr>),
      PInt ''LogViaMQTTThreadPriority'' (\<lambda>v c. c\<lparr>log_via_mqtt_thread_priority := to_cint v\<rparr>),
      PInt ''LogViaMQTTThreadCpu'' (\<lambda>v c. c\<lparr>log_via_mqtt_thread_cpu := to_cint v\<rparr>),
      PUlong ''LogViaMQTTThreadPeriodNS'' (\<lambda>v c. c\<lparr>log_via_mqtt_thread_period_ns := v\<rparr>),
      PString ''LogViaMQTTBrokerIP'' (\<lambda>v c. c\<lparr>log_via_mqtt_broker_ip := Some v, log_via_mqtt_broker_ip_length := of_nat (length v)\<rparr>)
        (\<lambda>c. c\<lparr>log_via_mqtt_broker_ip := None\<rparr>),
      PInt ''LogViaMQTTBrokerPort'' (\<lambda>v c. c\<lparr>log_via_mqtt_broker_port := to_cint v\<rparr>),
      PInt ''LogViaMQTTKeepAliveSecs'' (\<lambda>v c. c\<lparr>log_via_mqtt_keep_alive_secs := to_cint v\<rparr>),
      PString ''LogViaMQTTMeasurementName'' (\<lambda>v c. c\<lparr>log_via_mqtt_measurement_name := Some v, log_via_mqtt_measurement_name_length := of_nat (length v)\<rparr>)
        (\<lambda>c. c\<lparr>log_via_mqtt_measurement_name := None\<rparr>)]"

definition config_params :: "param list" where
  "config_params =
     application_params @ tsn_high_params @ tsn_low_params @ rtc_params @ rta_params @ dcp_params @ lldp_params @
     udp_high_params @ udp_low_params @ l2_params @ log_params"

text \<open>All macros run for every scalar; those whose key differs do nothing.\<close>

fun config_store :: "bool \<Rightarrow> int \<Rightarrow> string \<Rightarrow> string \<Rightarrow> param list \<Rightarrow> application_config
    \<Rightarrow> int option \<times> application_config" where
  "config_store dup_ok ret0 key value [] c = (None, c)"
| "config_store dup_ok ret0 key value (p # ps) c =
     (if strcasecmp_eq key (param_key p)
      then (case config_store_param dup_ok ret0 value p c of
              (Some r, c') \<Rightarrow> (Some r, c')
            | (None, c') \<Rightarrow> config_store dup_ok ret0 key value ps c')
      else config_store dup_ok ret0 key value ps c)"

subsection \<open>The token loop\<close>

datatype yaml_token =
    YAML_KEY_TOKEN
  | YAML_VALUE_TOKEN
  | YAML_SCALAR_TOKEN string
  | YAML_STREAM_END_TOKEN
  | YAML_OTHER_TOKEN
  | Scan_Failure

text \<open>
  The loop over the scanner's tokens, with \<^verbatim>\<open>state_key\<close> and \<^verbatim>\<open>key\<close>. A list of tokens
  that ends without \<^verbatim>\<open>YAML_STREAM_END_TOKEN\<close> stands for a scanner that fails there.
  \<open>dup_ok\<close> is the outcome of the \<^verbatim>\<open>strdup\<close> calls of the run; a key that cannot be
  duplicated leaves \<^verbatim>\<open>ret\<close> at the 1 of the successful scan.
\<close>

fun config_token_loop ::
  "bool \<Rightarrow> yaml_token list \<Rightarrow> bool \<Rightarrow> string option \<Rightarrow> application_config \<Rightarrow> int \<times> application_config" where
  "config_token_loop dup_ok [] state_key key c = (- EINVAL, c)"
| "config_token_loop dup_ok (Scan_Failure # ts) state_key key c = (- EINVAL, c)"
| "config_token_loop dup_ok (YAML_STREAM_END_TOKEN # ts) state_key key c = (0, c)"
| "config_token_loop dup_ok (YAML_KEY_TOKEN # ts) state_key key c = config_token_loop dup_ok ts True key c"
| "config_token_loop dup_ok (YAML_VALUE_TOKEN # ts) state_key key c = config_token_loop dup_ok ts False key c"
| "config_token_loop dup_ok (YAML_OTHER_TOKEN # ts) state_key key c = config_token_loop dup_ok ts state_key key c"
| "config_token_loop dup_ok (YAML_SCALAR_TOKEN value # ts) state_key key c =
     (if state_key then (if dup_ok then config_token_loop dup_ok ts state_key (Some value) c else (1, c))
      else case key of
        None \<Rightarrow> config_token_loop dup_ok ts state_key key c
      | Some k \<Rightarrow>
         (case config_store dup_ok 1 k value config_params c of
            (Some r, c') \<Rightarrow> (r, c')
          | (None, c') \<Rightarrow> config_token_loop dup_ok ts state_key None c'))"

subsection \<open>Queue assignment and derived values\<close>

definition lport_make :: "u16 \<Rightarrow> u16 \<Rightarrow> u32" where
  "lport_make pid qid = push_bit 16 (ucast pid) OR ucast qid"

definition lport2pid :: "u32 \<Rightarrow> u16" where
  "lport2pid lid = ucast (drop_bit 16 (lid AND 0xFFFF0000))"

definition lport2qid :: "u32 \<Rightarrow> u16" where
  "lport2qid lid = ucast (lid AND 0xFFFF)"

text \<open>The macro \<^verbatim>\<open>max_queue\<close>; \<open>None\<close> is a write past the 16 entries of \<^verbatim>\<open>qids\<close>.\<close>

definition max_queue ::
  "stat_frame_type \<Rightarrow> u16 \<times> application_config \<Rightarrow> (u16 \<times> application_config) option" where
  "max_queue t = (\<lambda>(qid, c).
     if enabled (tc c t)
     then let q = qinfo c 1 in
       if unat (cnt q) < MAX_QUEUES_ENABLED
       then Some (qid + 1,
         (upd_tc t (\<lambda>x. x\<lparr>lport_id := lport_make 1 qid\<rparr>) c)
           \<lparr>qinfo := (qinfo c)(1 := q\<lparr>qids := (qids q)[unat (cnt q) := qid], cnt := cnt q + 1\<rparr>)\<rparr>)
       else None
     else Some (qid, c))"

fun assign_queues ::
  "stat_frame_type list \<Rightarrow> u16 \<times> application_config \<Rightarrow> (u16 \<times> application_config) option" where
  "assign_queues [] s = Some s"
| "assign_queues (t # ts) s = do { s \<leftarrow> max_queue t s; assign_queues ts s }"

definition DEFAULT_MBUF_COUNT :: u32 where "DEFAULT_MBUF_COUNT = 16 * 1024"
definition NUM_RX_DESC_DEFAULT :: u32 where "NUM_RX_DESC_DEFAULT = 4 * 1024"
definition NUM_TX_DESC_DEFAULT :: u32 where "NUM_TX_DESC_DEFAULT = 4 * 1024"
definition RTE_MEMPOOL_CACHE_MAX_SIZE :: u32 where "RTE_MEMPOOL_CACHE_MAX_SIZE = 512"
definition RTE_MBUF_DEFAULT_DATAROOM :: u32 where "RTE_MBUF_DEFAULT_DATAROOM = 2048"
definition RTE_PKTMBUF_HEADROOM :: u32 where "RTE_PKTMBUF_HEADROOM = 128"

definition config_derive :: "application_config \<Rightarrow> application_config" where
  "config_derive c = c\<lparr>
     application_num_mbufs :=
       (if application_num_mbufs c = 0 then DEFAULT_MBUF_COUNT else application_num_mbufs c),
     application_cache_size :=
       (if application_cache_size c = 0 then RTE_MEMPOOL_CACHE_MAX_SIZE div 2
        else if application_cache_size c > RTE_MEMPOOL_CACHE_MAX_SIZE
        then RTE_MEMPOOL_CACHE_MAX_SIZE div 2 else application_cache_size c),
     application_mbuf_size :=
       (if application_mbuf_size c = 0 then RTE_MBUF_DEFAULT_DATAROOM
        else application_mbuf_size c + RTE_PKTMBUF_HEADROOM),
     application_num_rx_descriptors :=
       (if application_num_rx_descriptors c = 0 then NUM_RX_DESC_DEFAULT
        else application_num_rx_descriptors c),
     application_num_tx_descriptors :=
       (if application_num_tx_descriptors c = 0 then NUM_TX_DESC_DEFAULT
        else application_num_tx_descriptors c),
     application_link_speed :=
       (if application_link_speed c = 0 then RTE_ETH_SPEED_NUM_UNKNOWN
        else application_link_speed c),
     application_wait_time_before_start :=
       (if application_wait_time_before_start c < MIN_WAIT_TIME then MIN_WAIT_TIME
        else application_wait_time_before_start c)\<rparr>"

text \<open>
  \<^verbatim>\<open>config_read_from_file\<close> after the file was opened and the scanner initialised: the
  tokens, the queues, the derived values. \<open>None\<close> is a write out of bounds.
\<close>

definition config_read_tokens ::
  "bool \<Rightarrow> yaml_token list \<Rightarrow> application_config \<Rightarrow> (int \<times> application_config) option" where
  "config_read_tokens dup_ok ts c =
     (case config_token_loop dup_ok ts False None c of (r, c) \<Rightarrow>
        if r \<noteq> 0 then Some (r, c)
        else
         let c = c\<lparr>qinfo := (qinfo c)(0 := (qinfo c 0)\<lparr>cnt := 1\<rparr>, 1 := (qinfo c 1)\<lparr>cnt := 1\<rparr>)\<rparr> in
         do { (_, c) \<leftarrow> assign_queues all_frame_types (1, c);
              Some (0, config_derive c) })"

text \<open>The file as the environment has it: missing, unusable for the scanner, or its tokens.\<close>

datatype config_source = No_Path | Open_Failure | Scanner_Init_Failure | Tokens "yaml_token list"

definition EIO :: int where "EIO = 5"

fun config_read_from_file ::
  "bool \<Rightarrow> config_source \<Rightarrow> application_config \<Rightarrow> (int \<times> application_config) option" where
  "config_read_from_file dup_ok No_Path c = Some (- EINVAL, c)"
| "config_read_from_file dup_ok Open_Failure c = Some (- EIO, c)"
| "config_read_from_file dup_ok Scanner_Init_Failure c = Some (- EINVAL, c)"
| "config_read_from_file dup_ok (Tokens ts) c = config_read_tokens dup_ok ts c"

definition config_init ::
  "bool list \<Rightarrow> bool \<Rightarrow> config_source \<Rightarrow> application_config \<Rightarrow> (int \<times> application_config) option" where
  "config_init oks dup_ok src c =
     (let c = c\<lparr>qinfo := (\<lambda>_. \<lparr>qids = replicate MAX_QUEUES_ENABLED 0, cnt = 0\<rparr>)\<rparr> in
      case config_set_defaults oks c of (r, c) \<Rightarrow>
        if r \<noteq> 0 then Some (r, c)
        else if src = No_Path then Some (- 1, c)
        else config_read_from_file dup_ok src c)"

section \<open>Sanity check\<close>

definition config_check_keys :: "security_mode \<Rightarrow> security_algorithm \<Rightarrow> u64 \<Rightarrow> u64 \<Rightarrow> bool" where
  "config_check_keys mode algorithm key_len iv_prefix_len =
     (let expected_key_len = (if algorithm = SECURITY_ALGORITHM_AES128_GCM then 16 else 32) in
      if mode = SECURITY_MODE_NONE then True
      else if iv_prefix_len \<noteq> of_nat SECURITY_IV_PREFIX_LEN then False
      else expected_key_len = key_len)"

text \<open>A frame length between the headers with the payload pattern and \<^verbatim>\<open>MAX_FRAME_SIZE\<close>.\<close>

definition frame_length_ok :: "nat \<Rightarrow> traffic_class \<Rightarrow> bool" where
  "frame_length_ok hdr x \<longleftrightarrow>
     \<not> (frame_length x > of_nat MAX_FRAME_SIZE \<or>
        frame_length x < of_nat hdr + payload_pattern_length x)"

definition min_secure_profinet_frame_size :: nat where
  "min_secure_profinet_frame_size =
     sizeof vlan_ethernet_header + sizeof profinet_secure_header + sizeof security_checksum"

definition min_profinet_frame_size :: nat where
  "min_profinet_frame_size = sizeof vlan_ethernet_header + sizeof profinet_rt_header"

definition min_frame_size :: "traffic_class \<Rightarrow> nat" where
  "min_frame_size x =
     (if tc_security_mode x = SECURITY_MODE_NONE then min_profinet_frame_size
      else min_secure_profinet_frame_size)"

definition check_class_keys :: "traffic_class \<Rightarrow> bool" where
  "check_class_keys x =
     config_check_keys (tc_security_mode x) (tc_security_algorithm x) (security_key_length x)
       (security_iv_prefix_length x)"

text \<open>The two compile-time switches are the parameters \<open>busy_poll\<close> and \<open>mosquitto\<close>.\<close>

definition config_sanity_check :: "bool \<Rightarrow> bool \<Rightarrow> application_config \<Rightarrow> bool" where
  "config_sanity_check busy_poll mosquitto c =
     (let active = CONFIG_IS_TRAFFIC_CLASS_ACTIVE c in
      if active L2_FRAME_TYPE \<and>
         (active TSN_HIGH_FRAME_TYPE \<or> active RTC_FRAME_TYPE \<or> active RTA_FRAME_TYPE \<or>
          active DCP_FRAME_TYPE \<or> active LLDP_FRAME_TYPE \<or> active UDP_HIGH_FRAME_TYPE \<or>
          active UDP_LOW_FRAME_TYPE) then False
      else if \<not> frame_length_ok (sizeof vlan_ethernet_header + sizeof l2_header) (tc c L2_FRAME_TYPE)
        then False
      else if \<not> frame_length_ok (min_frame_size (tc c TSN_HIGH_FRAME_TYPE)) (tc c TSN_HIGH_FRAME_TYPE)
        then False
      else if \<not> frame_length_ok (min_frame_size (tc c TSN_LOW_FRAME_TYPE)) (tc c TSN_LOW_FRAME_TYPE)
        then False
      else if \<not> frame_length_ok (min_frame_size (tc c RTC_FRAME_TYPE)) (tc c RTC_FRAME_TYPE)
        then False
      else if \<not> frame_length_ok (min_frame_size (tc c RTA_FRAME_TYPE)) (tc c RTA_FRAME_TYPE)
        then False
      else if \<not> frame_length_ok min_profinet_frame_size (tc c DCP_FRAME_TYPE) then False
      else if \<not> frame_length_ok (sizeof ethhdr + sizeof reference_meta_data) (tc c LLDP_FRAME_TYPE)
        then False
      else if \<not> frame_length_ok (sizeof reference_meta_data) (tc c UDP_HIGH_FRAME_TYPE) then False
      else if \<not> frame_length_ok (sizeof reference_meta_data) (tc c UDP_LOW_FRAME_TYPE) then False
      else if \<not> busy_poll then False
      else if \<not> mosquitto \<and> log_via_mqtt c then False
      else if \<not> check_class_keys (tc c TSN_HIGH_FRAME_TYPE) then False
      else if \<not> check_class_keys (tc c TSN_LOW_FRAME_TYPE) then False
      else if \<not> check_class_keys (tc c RTC_FRAME_TYPE) then False
      else if \<not> check_class_keys (tc c RTA_FRAME_TYPE) then False
      else \<not> stats_histogram_minimum_ns c > stats_histogram_maximum_ns c)"

section \<open>Logical port identifiers\<close>

lemma hi_mask: "(0xFFFF0000 :: u32) = push_bit 16 (mask 16)"
  by (simp add: mask_eq_exp_minus_1 push_bit_eq_mult)

lemma lo_mask: "(0xFFFF :: u32) = mask 16"
  by (simp add: mask_eq_exp_minus_1)

lemma lport2pid_make [simp]: "lport2pid (lport_make p q) = p"
  by (rule bit_word_eqI) (auto simp: lport2pid_def lport_make_def hi_mask bit_simps dest: bit_imp_le_length)

lemma lport2qid_make [simp]: "lport2qid (lport_make p q) = q"
  by (rule bit_word_eqI) (auto simp: lport2qid_def lport_make_def lo_mask bit_simps)

lemma lport_make_inject: "lport_make p q = lport_make p' q' \<longleftrightarrow> p = p' \<and> q = q'"
  by (metis lport2pid_make lport2qid_make)

section \<open>Queue assignment\<close>

text \<open>
  \<open>queues_ok n done s\<close>: after \<open>n\<close> classes got a queue, the next queue id and the count of
  port 1 are \<open>n + 1\<close>, and the classes \<open>done\<close> have the ids 1 to \<open>n\<close>.
\<close>

definition queues_ok :: "stat_frame_type list \<Rightarrow> u16 \<times> application_config \<Rightarrow> bool" where
  "queues_ok ds s \<longleftrightarrow>
     (let en = filter (\<lambda>t. enabled (tc (snd s) t)) ds in
      unat (fst s) = Suc (length en) \<and> cnt (qinfo (snd s) 1) = fst s \<and>
      (\<forall>i<length en. lport_id (tc (snd s) (en ! i)) = lport_make 1 (word_of_nat (Suc i))))"

lemma max_queue_enabled: "max_queue t (q, c) = Some (q', c') \<Longrightarrow> enabled (tc c' u) = enabled (tc c u)"
  by (auto simp: max_queue_def upd_tc_def Let_def split: if_splits)

lemma max_queue_ok:
  assumes "queues_ok ds (q, c)" and "length ds < 15" and "t \<notin> set ds"
  obtains q' c' where "max_queue t (q, c) = Some (q', c')" "queues_ok (ds @ [t]) (q', c')"
proof (cases "enabled (tc c t)")
  case False
  then have "max_queue t (q, c) = Some (q, c)" by (simp add: max_queue_def)
  moreover have "queues_ok (ds @ [t]) (q, c)" using assms(1) False by (simp add: queues_ok_def)
  ultimately show ?thesis by (rule that)
next
  case True
  let ?en = "filter (\<lambda>t. enabled (tc c t)) ds"
  have l: "length ?en < 15" by (rule le_less_trans [OF length_filter_le assms(2)])
  have q: "unat q = Suc (length ?en)" "cnt (qinfo c 1) = q"
    "\<forall>i<length ?en. lport_id (tc c (?en ! i)) = lport_make 1 (word_of_nat (Suc i))"
    using assms(1) by (auto simp: queues_ok_def Let_def)
  have q1: "unat (q + 1) = Suc (Suc (length ?en))"
    using q(1) l by (subst unat_add_lem [THEN iffD1]) simp_all
  have qw: "q = word_of_nat (Suc (length ?en))" using q(1) by (metis of_nat_unat ucast_id)
  obtain c' where c': "max_queue t (q, c) = Some (q + 1, c')" "cnt (qinfo c' 1) = q + 1"
    "tc c' = (tc c)(t := (tc c t)\<lparr>lport_id := lport_make 1 q\<rparr>)"
    using True q l by (simp add: max_queue_def upd_tc_def MAX_QUEUES_ENABLED_def Let_def)
  have en: "filter (\<lambda>u. enabled (tc c' u)) (ds @ [t]) = ?en @ [t]"
    using True by (auto simp: c'(3) intro: filter_cong)
  have "lport_id (tc c' ((?en @ [t]) ! i)) = lport_make 1 (word_of_nat (Suc i))"
    if "i < Suc (length ?en)" for i
  proof (cases "i < length ?en")
    case True
    then have "?en ! i \<in> set ds" using nth_mem by fastforce
    then have "?en ! i \<noteq> t" using assms(3) by blast
    then show ?thesis using True q(3) by (simp add: nth_append c'(3))
  next
    case False
    with that have "i = length ?en" by simp
    then show ?thesis by (simp add: c'(3) qw)
  qed
  then have "queues_ok (ds @ [t]) (q + 1, c')"
    using en q1 c'(2) by (simp add: queues_ok_def Let_def)
  then show ?thesis using c'(1) that by blast
qed

lemma assign_queues_ok:
  assumes "queues_ok ds s" and "distinct (ds @ ts)" and "length (ds @ ts) \<le> 15"
  obtains s' where "assign_queues ts s = Some s'" "queues_ok (ds @ ts) s'"
  using assms
proof (induction ts arbitrary: ds s thesis)
  case Nil
  then show ?case by simp
next
  case (Cons t ts)
  obtain q c where s: "s = (q, c)" by (cases s)
  obtain q' c' where 1: "max_queue t (q, c) = Some (q', c')" "queues_ok (ds @ [t]) (q', c')"
    by (rule max_queue_ok [of ds q c t]) (use Cons.prems s in auto)
  obtain s' where "assign_queues ts (q', c') = Some s'" "queues_ok ((ds @ [t]) @ ts) s'"
    by (rule Cons.IH [OF _ 1(2)]) (use Cons.prems in auto)
  with 1(1) show ?case using Cons.prems(1) s by simp
qed

lemma queues_ok_init: "cnt (qinfo c 1) = 1 \<Longrightarrow> queues_ok [] (1, c)"
  by (simp add: queues_ok_def)

end
