(* ===== verification/Config_Keys.thy ===== *)
theory Config_Keys
  imports Config
begin

text \<open>
  The parameter table of \<^verbatim>\<open>config_read_from_file\<close>: its keys are pairwise different under
  \<^verbatim>\<open>strcasecmp\<close>, so a key of the file reaches exactly one \<^verbatim>\<open>CONFIG_STORE_*_PARAM\<close> line.
\<close>


lemma tolower_chars:
  "tolower (CHR ''A'') = CHR ''a''" "tolower (CHR ''B'') = CHR ''b''"
  "tolower (CHR ''C'') = CHR ''c''" "tolower (CHR ''D'') = CHR ''d''"
  "tolower (CHR ''E'') = CHR ''e''" "tolower (CHR ''F'') = CHR ''f''"
  "tolower (CHR ''G'') = CHR ''g''" "tolower (CHR ''H'') = CHR ''h''"
  "tolower (CHR ''I'') = CHR ''i''" "tolower (CHR ''J'') = CHR ''j''"
  "tolower (CHR ''K'') = CHR ''k''" "tolower (CHR ''L'') = CHR ''l''"
  "tolower (CHR ''M'') = CHR ''m''" "tolower (CHR ''N'') = CHR ''n''"
  "tolower (CHR ''O'') = CHR ''o''" "tolower (CHR ''P'') = CHR ''p''"
  "tolower (CHR ''Q'') = CHR ''q''" "tolower (CHR ''R'') = CHR ''r''"
  "tolower (CHR ''S'') = CHR ''s''" "tolower (CHR ''T'') = CHR ''t''"
  "tolower (CHR ''U'') = CHR ''u''" "tolower (CHR ''V'') = CHR ''v''"
  "tolower (CHR ''W'') = CHR ''w''" "tolower (CHR ''X'') = CHR ''x''"
  "tolower (CHR ''Y'') = CHR ''y''" "tolower (CHR ''Z'') = CHR ''z''"
  "tolower (CHR ''a'') = CHR ''a''" "tolower (CHR ''b'') = CHR ''b''"
  "tolower (CHR ''c'') = CHR ''c''" "tolower (CHR ''d'') = CHR ''d''"
  "tolower (CHR ''e'') = CHR ''e''" "tolower (CHR ''f'') = CHR ''f''"
  "tolower (CHR ''g'') = CHR ''g''" "tolower (CHR ''h'') = CHR ''h''"
  "tolower (CHR ''i'') = CHR ''i''" "tolower (CHR ''j'') = CHR ''j''"
  "tolower (CHR ''k'') = CHR ''k''" "tolower (CHR ''l'') = CHR ''l''"
  "tolower (CHR ''m'') = CHR ''m''" "tolower (CHR ''n'') = CHR ''n''"
  "tolower (CHR ''o'') = CHR ''o''" "tolower (CHR ''p'') = CHR ''p''"
  "tolower (CHR ''q'') = CHR ''q''" "tolower (CHR ''r'') = CHR ''r''"
  "tolower (CHR ''s'') = CHR ''s''" "tolower (CHR ''t'') = CHR ''t''"
  "tolower (CHR ''u'') = CHR ''u''" "tolower (CHR ''v'') = CHR ''v''"
  "tolower (CHR ''w'') = CHR ''w''" "tolower (CHR ''x'') = CHR ''x''"
  "tolower (CHR ''y'') = CHR ''y''" "tolower (CHR ''z'') = CHR ''z''"
  "tolower (CHR ''0'') = CHR ''0''" "tolower (CHR ''1'') = CHR ''1''"
  "tolower (CHR ''2'') = CHR ''2''" "tolower (CHR ''3'') = CHR ''3''"
  "tolower (CHR ''4'') = CHR ''4''" "tolower (CHR ''5'') = CHR ''5''"
  "tolower (CHR ''6'') = CHR ''6''" "tolower (CHR ''7'') = CHR ''7''"
  "tolower (CHR ''8'') = CHR ''8''" "tolower (CHR ''9'') = CHR ''9''"
  "tolower (CHR ''-'') = CHR ''-''"
  by code_simp+

text \<open>
  The keys of the parameters differ pairwise, also when case is ignored. The blocks are
  compared by the first characters of their keys.
\<close>

definition lower_keys :: "param list \<Rightarrow> string list" where
  "lower_keys ps = map (\<lambda>p. map tolower (param_key p)) ps"

lemma lower_keys_append [simp]: "lower_keys (ps @ qs) = lower_keys ps @ lower_keys qs"
  by (simp add: lower_keys_def)

lemma distinct_by_prefix:
  assumes "distinct xs" and "distinct ys"
    and "\<forall>x\<in>set xs. take n x \<in> P" and "\<forall>y\<in>set ys. take n y \<notin> P"
  shows "distinct (xs @ ys)"
  using assms by auto

lemma lower_keys_application [simp]:
  "lower_keys application_params =
     [''applicationclockid'', ''applicationbasecycletimens'', ''applicationtxbaseoffsetns'', ''applicationrxbaseoffsetns'', ''applicationlinkhalfduplex'', ''applicationlinkspeed'', ''applicationwaittimebeforestart'', ''pkthandlerenabled'', ''pkthandlerthreadcpu'']"
  by (simp add: lower_keys_def application_params_def tolower_chars)

lemma lower_keys_tsn_high [simp]:
  "lower_keys tsn_high_params =
     [''tsnhighenabled'', ''tsnhightxtimeenabled'', ''tsnhightxtimeoffsetns'', ''tsnhighvid'', ''tsnhighpcp'', ''tsnhighnumframespercycle'', ''tsnhighpayloadpattern'', ''tsnhighframelength'', ''tsnhighsecuritymode'', ''tsnhighsecurityalgorithm'', ''tsnhighsecuritykey'', ''tsnhighsecurityivprefix'', ''tsnhighthreadcpu'', ''tsnhighdestination'']"
  by (simp add: lower_keys_def tsn_high_params_def tolower_chars)

lemma lower_keys_tsn_low [simp]:
  "lower_keys tsn_low_params =
     [''tsnlowenabled'', ''tsnlowtxtimeenabled'', ''tsnlowtxtimeoffsetns'', ''tsnlowvid'', ''tsnlowpcp'', ''tsnlownumframespercycle'', ''tsnlowpayloadpattern'', ''tsnlowframelength'', ''tsnlowsecuritymode'', ''tsnlowsecurityalgorithm'', ''tsnlowsecuritykey'', ''tsnlowsecurityivprefix'', ''tsnlowthreadcpu'', ''tsnlowdestination'']"
  by (simp add: lower_keys_def tsn_low_params_def tolower_chars)

lemma lower_keys_rtc [simp]:
  "lower_keys rtc_params =
     [''rtcenabled'', ''rtcvid'', ''rtcpcp'', ''rtcnumframespercycle'', ''rtcpayloadpattern'', ''rtcframelength'', ''rtcsecuritymode'', ''rtcsecurityalgorithm'', ''rtcsecuritykey'', ''rtcsecurityivprefix'', ''rtcthreadcpu'', ''rtcdestination'']"
  by (simp add: lower_keys_def rtc_params_def tolower_chars)

lemma lower_keys_rta [simp]:
  "lower_keys rta_params =
     [''rtaenabled'', ''rtavid'', ''rtapcp'', ''rtaburstperiodns'', ''rtanumframespercycle'', ''rtapayloadpattern'', ''rtaframelength'', ''rtasecuritymode'', ''rtasecurityalgorithm'', ''rtasecuritykey'', ''rtasecurityivprefix'', ''rtathreadcpu'', ''rtadestination'']"
  by (simp add: lower_keys_def rta_params_def tolower_chars)

lemma lower_keys_dcp [simp]:
  "lower_keys dcp_params =
     [''dcpenabled'', ''dcpvid'', ''dcppcp'', ''dcpburstperiodns'', ''dcpnumframespercycle'', ''dcppayloadpattern'', ''dcpframelength'', ''dcpthreadcpu'', ''dcpdestination'']"
  by (simp add: lower_keys_def dcp_params_def tolower_chars)

lemma lower_keys_lldp [simp]:
  "lower_keys lldp_params =
     [''lldpenabled'', ''lldpburstperiodns'', ''lldpnumframespercycle'', ''lldppayloadpattern'', ''lldpframelength'', ''lldpthreadcpu'', ''lldpdestination'']"
  by (simp add: lower_keys_def lldp_params_def tolower_chars)

lemma lower_keys_udp_high [simp]:
  "lower_keys udp_high_params =
     [''udphighenabled'', ''udphighburstperiodns'', ''udphighnumframespercycle'', ''udphighpayloadpattern'', ''udphighframelength'', ''udphighthreadcpu'', ''udphighport'', ''udphighsrcport'', ''udphighdestination'', ''udphighsource'', ''udphighmacdestination'']"
  by (simp add: lower_keys_def udp_high_params_def tolower_chars)

lemma lower_keys_udp_low [simp]:
  "lower_keys udp_low_params =
     [''udplowenabled'', ''udplowburstperiodns'', ''udplownumframespercycle'', ''udplowpayloadpattern'', ''udplowframelength'', ''udplowthreadcpu'', ''udplowport'', ''udplowsrcport'', ''udplowdestination'', ''udplowsource'', ''udplowmacdestination'']"
  by (simp add: lower_keys_def udp_low_params_def tolower_chars)

lemma lower_keys_l2 [simp]:
  "lower_keys l2_params =
     [''l2enabled'', ''l2txtimeenabled'', ''l2txtimeoffsetns'', ''l2vid'', ''l2pcp'', ''l2ethertype'', ''l2numframespercycle'', ''l2payloadpattern'', ''l2framelength'', ''l2threadcpu'', ''l2destination'']"
  by (simp add: lower_keys_def l2_params_def tolower_chars)

lemma lower_keys_log [simp]:
  "lower_keys log_params =
     [''logthreadperiodns'', ''logthreadpriority'', ''logthreadcpu'', ''logfile'', ''loglevel'', ''debugstoptraceonoutlier'', ''debugstoptraceonerror'', ''debugmonitormode'', ''debugmonitordestination'', ''statshistogramenabled'', ''statshistogramminimumns'', ''statshistogrammaximumns'', ''statshistogramfile'', ''statscollectionintervalns'', ''logviamqtt'', ''logviamqttthreadpriority'', ''logviamqttthreadcpu'', ''logviamqttthreadperiodns'', ''logviamqttbrokerip'', ''logviamqttbrokerport'', ''logviamqttkeepalivesecs'', ''logviamqttmeasurementname'']"
  by (simp add: lower_keys_def log_params_def tolower_chars)

lemma config_params_distinct: "distinct (lower_keys config_params)"
proof -
  have tsn: "distinct (lower_keys (tsn_high_params @ tsn_low_params))"
    unfolding lower_keys_append by (rule distinct_by_prefix [where n = 4 and P = "{''tsnh''}"]) simp_all
  have rt: "distinct (lower_keys (rtc_params @ rta_params))"
    unfolding lower_keys_append by (rule distinct_by_prefix [where n = 3 and P = "{''rtc''}"]) simp_all
  have udp: "distinct (lower_keys (udp_high_params @ udp_low_params))"
    unfolding lower_keys_append by (rule distinct_by_prefix [where n = 4 and P = "{''udph''}"]) simp_all
  have g: "distinct (lower_keys (l2_params @ log_params))"
    unfolding lower_keys_append by (rule distinct_by_prefix [where n = 2 and P = "{''l2''}"]) simp_all
  have f: "distinct (lower_keys ((udp_high_params @ udp_low_params) @ (l2_params @ log_params)))"
    by (subst lower_keys_append, rule distinct_by_prefix [OF udp g, where n = 2 and P = "{''ud''}"]) simp_all
  have e: "distinct (lower_keys (lldp_params @ (udp_high_params @ udp_low_params) @ (l2_params @ log_params)))"
    by (subst lower_keys_append, rule distinct_by_prefix [OF _ f, where n = 2 and P = "{''ll''}"]) simp_all
  have d: "distinct (lower_keys (dcp_params @ lldp_params @ (udp_high_params @ udp_low_params) @ (l2_params @ log_params)))"
    by (subst lower_keys_append, rule distinct_by_prefix [OF _ e, where n = 2 and P = "{''dc''}"]) simp_all
  have c: "distinct (lower_keys ((rtc_params @ rta_params) @ dcp_params @ lldp_params @
      (udp_high_params @ udp_low_params) @ (l2_params @ log_params)))"
    by (subst lower_keys_append, rule distinct_by_prefix [OF rt d, where n = 2 and P = "{''rt''}"]) simp_all
  have b: "distinct (lower_keys ((tsn_high_params @ tsn_low_params) @ (rtc_params @ rta_params) @
      dcp_params @ lldp_params @ (udp_high_params @ udp_low_params) @ (l2_params @ log_params)))"
    by (subst lower_keys_append, rule distinct_by_prefix [OF tsn c, where n = 2 and P = "{''ts''}"]) simp_all
  have a: "distinct (lower_keys (application_params @ (tsn_high_params @ tsn_low_params) @
      (rtc_params @ rta_params) @ dcp_params @ lldp_params @ (udp_high_params @ udp_low_params) @
      (l2_params @ log_params)))"
    by (subst lower_keys_append, rule distinct_by_prefix [OF _ b, where n = 2 and P = "{''ap'', ''pk''}"]) simp_all
  then show ?thesis by (simp only: config_params_def append_assoc)
qed

lemma config_store_none:
  "\<forall>p\<in>set ps. \<not> strcasecmp_eq key (param_key p) \<Longrightarrow> config_store d r key value ps c = (None, c)"
  by (induction ps) auto

lemma config_store_unique:
  assumes "distinct (lower_keys ps)"
  shows "config_store d r key value ps c =
    (case find (\<lambda>p. strcasecmp_eq key (param_key p)) ps of
       None \<Rightarrow> (None, c) | Some p \<Rightarrow> config_store_param d r value p c)"
  using assms
proof (induction ps)
  case Nil
  then show ?case by simp
next
  case (Cons p ps)
  show ?case
  proof (cases "strcasecmp_eq key (param_key p)")
    case True
    with Cons.prems have "\<forall>q\<in>set ps. \<not> strcasecmp_eq key (param_key q)"
      by (auto simp: strcasecmp_eq_def lower_keys_def)
    then have "config_store d r key value ps c' = (None, c')" for c'
      by (rule config_store_none)
    then show ?thesis using True by (auto split: prod.splits option.splits)
  next
    case False
    then show ?thesis using Cons by (simp add: lower_keys_def)
  qed
qed

end
