(* ===== verification/Config_Props.thy ===== *)
theory Config_Props
  imports Config_Keys
begin

text \<open>
  Properties of the configuration (\<^verbatim>\<open>config.c\<close>): the defaults, the keys of the file, the
  values of the parameters and the assignment of queues.
\<close>

section \<open>Defaults\<close>

fun step_ok :: "default_step \<Rightarrow> application_config \<Rightarrow> application_config" where
  "step_ok (Assign f) c = f c"
| "step_ok (Strdup f s) c = f (Some s) c"

lemma run_defaults_result:
  "run_defaults oks ss c = (r, c') \<Longrightarrow>
     r = 0 \<and> c' = fold step_ok ss c \<or> r = - ENOMEM \<and> (\<exists>c0. c' = config_free c0)"
  by (induction oks ss c rule: run_defaults.induct) (auto split: if_splits)

definition strings_released :: "application_config \<Rightarrow> bool" where
  "strings_released c \<longleftrightarrow>
     (\<forall>t. payload_pattern (tc c t) = None) \<and>
     (\<forall>t\<in>{TSN_HIGH_FRAME_TYPE, TSN_LOW_FRAME_TYPE, RTC_FRAME_TYPE, RTA_FRAME_TYPE}.
        security_key (tc c t) = None \<and> security_iv_prefix (tc c t) = None) \<and>
     (\<forall>t\<in>{UDP_HIGH_FRAME_TYPE, UDP_LOW_FRAME_TYPE}. ip_destination (tc c t) = None \<and> ip_source (tc c t) = None) \<and>
     stats_histogram_file c = None \<and> log_file c = None \<and> log_level c = None \<and>
     log_via_mqtt_broker_ip c = None \<and> log_via_mqtt_measurement_name c = None"

lemma config_free_released: "strings_released (config_free c)"
  by (auto simp: strings_released_def config_free_def config_free_class_def split: stat_frame_type.split)

lemma length_default_payload: "length default_payload_pattern = 7"
  by (simp add: default_payload_pattern_def cstr_def)

lemmas step_defs =
  tsn_high_defaults_def tsn_low_defaults_def rtc_defaults_def rta_defaults_def dcp_defaults_def
  lldp_defaults_def udp_high_defaults_def udp_low_defaults_def udp_defaults_def l2_defaults_def

lemmas default_defs =
  step_defs upd_tc_def set_payload_pattern_def secured_tail_def plain_tail_def length_default_payload

lemma default_tc:
  "\<forall>t. let x = tc (fold step_ok default_steps c) t in
     \<not> enabled x \<and> payload_pattern_length x = 7 \<and>
     frame_length x = (if t = UDP_HIGH_FRAME_TYPE \<or> t = UDP_LOW_FRAME_TYPE then 1400 else 200) \<and>
     (t \<in> {TSN_HIGH_FRAME_TYPE, TSN_LOW_FRAME_TYPE, RTC_FRAME_TYPE, RTA_FRAME_TYPE}
       \<longrightarrow> tc_security_mode x = SECURITY_MODE_NONE)"
  by (intro allI, case_tac t)
    (simp_all add: Let_def default_steps_def default_defs log_defaults_def application_defaults_def)

lemma default_rest:
  "log_via_mqtt (fold step_ok default_steps c) = False"
  "stats_histogram_minimum_ns (fold step_ok default_steps c) = 1000000"
  "stats_histogram_maximum_ns (fold step_ok default_steps c) = 10000000"
  by (simp_all add: default_steps_def default_defs log_defaults_def)

text \<open>
  C10: \<^verbatim>\<open>config_set_defaults\<close> either succeeds with a configuration in which no class is
  enabled and that passes \<^verbatim>\<open>config_sanity_check\<close>, or returns \<^verbatim>\<open>-ENOMEM\<close> with every string of
  the configuration released, whichever of its \<^verbatim>\<open>strdup\<close> calls failed.
\<close>

theorem config_defaults_sane_or_released:
  "case config_set_defaults oks c of (r, c') \<Rightarrow>
     r = 0 \<and> config_sanity_check True m c' \<and> (\<forall>t. \<not> enabled (tc c' t)) \<or>
     r = - ENOMEM \<and> strings_released c'"
proof -
  let ?c = "fold step_ok default_steps c"
  note t = default_tc [of c, rule_format, unfolded Let_def]
  have "config_sanity_check True m ?c"
    by (simp add: config_sanity_check_def CONFIG_IS_TRAFFIC_CLASS_ACTIVE_def frame_length_ok_def check_class_keys_def
        config_check_keys_def min_frame_size_def min_profinet_frame_size_def min_secure_profinet_frame_size_def
        MAX_FRAME_SIZE_def size_simps t default_rest)
  then show ?thesis
    using run_defaults_result [of oks default_steps c] config_free_released t
    by (auto simp: config_set_defaults_def split: prod.split)
qed

section \<open>The file\<close>

text \<open>
  What a file means: a list of settings. The first setting whose value cannot be stored ends
  the reading with an error; a setting with an unknown key is ignored.
\<close>

definition setting_param :: "string \<Rightarrow> param option" where
  "setting_param k = find (\<lambda>p. strcasecmp_eq k (param_key p)) config_params"

fun apply_settings :: "(string \<times> string) list \<Rightarrow> application_config \<Rightarrow> int \<times> application_config" where
  "apply_settings [] c = (0, c)"
| "apply_settings ((k, v) # kvs) c =
     (case setting_param k of
        None \<Rightarrow> apply_settings kvs c
      | Some p \<Rightarrow> (case config_store_param True 1 v p c of
          (Some r, c) \<Rightarrow> (r, c)
        | (None, c) \<Rightarrow> apply_settings kvs c))"

text \<open>
  The tokens of a block mapping: every setting is a key and a scalar, then a value and a
  scalar; the end of the block is a token the loop ignores.
\<close>

fun mapping_tokens :: "(string \<times> string) list \<Rightarrow> yaml_token list" where
  "mapping_tokens [] = [YAML_OTHER_TOKEN, YAML_STREAM_END_TOKEN]"
| "mapping_tokens ((k, v) # kvs) =
     [YAML_KEY_TOKEN, YAML_SCALAR_TOKEN k, YAML_VALUE_TOKEN, YAML_SCALAR_TOKEN v] @ mapping_tokens kvs"

lemma config_store_params:
  "config_store d r k v config_params c =
     (case setting_param k of None \<Rightarrow> (None, c) | Some p \<Rightarrow> config_store_param d r v p c)"
  using config_store_unique [OF config_params_distinct] by (simp add: setting_param_def)


text \<open>
  A decimal number of a 64-bit parameter is stored exactly: reading a file with the
  setting \<open>k: n\<close> in front of others gives the configuration in which the parameter of \<open>k\<close>
  has the value \<open>n\<close>.
\<close>

theorem config_number_roundtrip:
  assumes "setting_param k = Some (PUlong key f)" and "n < 2 ^ 64"
  shows "config_token_loop True (mapping_tokens ((k, decimal n) # kvs)) False None c =
         config_token_loop True (mapping_tokens kvs) False None (f (word_of_nat n) c)"
  using assms strtoull_decimal [of n] by (simp add: config_store_params)

lemma config_number_roundtrip_witness:
  "config_token_loop True (mapping_tokens [(''ApplicationBaseCycleTimeNS'', decimal 250000)]) False None zero_config =
   (0, zero_config\<lparr>application_base_cycle_time_ns := 250000\<rparr>)"
proof -
  have "setting_param ''ApplicationBaseCycleTimeNS'' =
      Some (PUlong ''ApplicationBaseCycleTimeNS'' (\<lambda>v c. c\<lparr>application_base_cycle_time_ns := v\<rparr>))"
    by (simp add: setting_param_def config_params_def application_params_def strcasecmp_eq_def tolower_chars)
  from config_number_roundtrip [OF this, of 250000 "[]" zero_config] show ?thesis by simp
qed

section \<open>Queues\<close>

lemma config_derive_queues [simp]: "tc (config_derive c) = tc c" "qinfo (config_derive c) = qinfo c"
  by (simp_all add: config_derive_def)

lemma assign_queues_port0: "assign_queues ts s = Some s' \<Longrightarrow> qinfo (snd s') 0 = qinfo (snd s) 0"
proof (induction ts arbitrary: s)
  case (Cons t ts)
  obtain s1 where 1: "max_queue t s = Some s1" "assign_queues ts s1 = Some s'" using Cons.prems by (auto simp: bind_eq_Some_conv)
  have "qinfo (snd s1) 0 = qinfo (snd s) 0" using 1(1) by (cases s) (auto simp: max_queue_def upd_tc_def Let_def split: if_splits)
  then show ?case using Cons.IH [OF 1(2)] by simp
qed simp

lemma config_read_queues:
  "\<exists>r c'. config_read_tokens d ts c = Some (r, c') \<and>
     (r = 0 \<longrightarrow> queues_ok all_frame_types (cnt (qinfo c' 1), c') \<and> cnt (qinfo c' 0) = 1)"
proof (cases "config_token_loop d ts False None c")
  case (Pair r c1)
  show ?thesis
  proof (cases "r = 0")
    case False
    then show ?thesis using Pair by (simp add: config_read_tokens_def)
  next
    case True
    let ?c = "c1\<lparr>qinfo := (qinfo c1)(0 := (qinfo c1 0)\<lparr>cnt := 1\<rparr>, 1 := (qinfo c1 1)\<lparr>cnt := 1\<rparr>)\<rparr>"
    have "queues_ok [] (1, ?c)" by (rule queues_ok_init) simp
    moreover have "distinct ([] @ all_frame_types)" "length ([] @ all_frame_types) \<le> 15"
      by (simp_all add: all_frame_types_def)
    ultimately obtain s' where s': "assign_queues all_frame_types (1, ?c) = Some s'" "queues_ok ([] @ all_frame_types) s'"
      by (rule assign_queues_ok)
    obtain q c2 where q: "s' = (q, c2)" by (cases s')
    have "queues_ok all_frame_types (cnt (qinfo c2 1), c2)" "cnt (qinfo c2 0) = 1"
      using s'(2) assign_queues_port0 [OF s'(1)] by (simp_all add: q queues_ok_def Let_def)
    moreover have "config_read_tokens d ts c = Some (0, config_derive c2)"
      using Pair True s'(1) by (simp add: config_read_tokens_def q)
    ultimately show ?thesis by (auto simp: queues_ok_def)
  qed
qed

text \<open>
  C9: reading a configuration never writes outside the queue tables, and after a
  successful one the enabled classes have, in the order of their priority, the queues
  1, 2, 3, \<dots> of logical port 1: no two classes share a queue and queue 0 stays reserved.
\<close>

theorem config_queue_assignment:
  "\<exists>r c'. config_read_tokens d ts c = Some (r, c') \<and>
     (r = 0 \<longrightarrow>
       (let en = filter (\<lambda>t. enabled (tc c' t)) all_frame_types in
        unat (cnt (qinfo c' 1)) = Suc (length en) \<and>
        (\<forall>i<length en. lport2pid (lport_id (tc c' (en ! i))) = 1 \<and>
                       unat (lport2qid (lport_id (tc c' (en ! i)))) = Suc i)))"
proof -
  obtain r c' where c': "config_read_tokens d ts c = Some (r, c')" "r = 0 \<Longrightarrow> queues_ok all_frame_types (cnt (qinfo c' 1), c')"
    using config_read_queues [of d ts c] by blast
  let ?en = "filter (\<lambda>t. enabled (tc c' t)) all_frame_types"
  have "length ?en \<le> length all_frame_types" by (rule length_filter_le)
  then have "length ?en \<le> 9" by (simp only: all_frame_types_def list.size)
  then have "unat (word_of_nat (Suc i) :: u16) = Suc i" if "i < length ?en" for i
    using that by (simp add: unat_of_nat del: of_nat_Suc)
  then show ?thesis using c' by (simp add: queues_ok_def Let_def)
qed

lemma config_queue_assignment_witness:
  "\<exists>c'. config_read_tokens True [YAML_STREAM_END_TOKEN] zero_config = Some (0, c') \<and>
     unat (cnt (qinfo c' 1)) = Suc (length (filter (\<lambda>t. enabled (tc c' t)) all_frame_types))"
proof -
  obtain r c' where c: "config_read_tokens True [YAML_STREAM_END_TOKEN] zero_config = Some (r, c')"
    and q: "r = 0 \<longrightarrow> unat (cnt (qinfo c' 1)) = Suc (length (filter (\<lambda>t. enabled (tc c' t)) all_frame_types))"
    using config_queue_assignment [of True "[YAML_STREAM_END_TOKEN]" zero_config] by (auto simp: Let_def)
  from c have "r = 0" by (auto simp: config_read_tokens_def bind_eq_Some_conv)
  with c q show ?thesis by auto
qed

end
