(* ===== verification/Histogram.thy ===== *)
theory Histogram
  imports Config
begin

text \<open>
  \<^verbatim>\<open>hist.h\<close> and \<^verbatim>\<open>hist.c\<close>: one round-trip histogram per traffic class, with a bucket per
  microsecond between a minimum and a maximum and counters for the samples outside.
\<close>

section \<open>State and operations\<close>

record histogram =
  hist_data :: "u64 list"
  hist_min :: u64
  hist_max :: u64
  hist_underflow :: u64
  hist_overflow :: u64

type_synonym histograms = "stat_frame_type \<Rightarrow> histogram"

definition zero_histogram :: histogram where
  "zero_histogram = \<lparr>hist_data = [], hist_min = 0, hist_max = 0, hist_underflow = 0, hist_overflow = 0\<rparr>"

text \<open>
  \<^verbatim>\<open>histogram_init\<close>: \<open>alloc t\<close> is the outcome of the allocation for class \<open>t\<close>. The loop
  stops at the first failure.
\<close>

definition init_one :: "application_config \<Rightarrow> histogram \<Rightarrow> histogram" where
  "init_one c h =
     (let lo = stats_histogram_minimum_ns c div 1000;
          hi = stats_histogram_maximum_ns c div 1000
      in h\<lparr>hist_min := lo, hist_max := hi, hist_data := replicate (unat (hi - lo)) 0\<rparr>)"

fun histogram_init_loop ::
  "application_config \<Rightarrow> (stat_frame_type \<Rightarrow> bool) \<Rightarrow> stat_frame_type list \<Rightarrow> histograms
    \<Rightarrow> int \<times> histograms" where
  "histogram_init_loop c alloc [] hs = (0, hs)"
| "histogram_init_loop c alloc (t # ts) hs =
     (if alloc t then histogram_init_loop c alloc ts (hs(t := init_one c (hs t)))
      else (- ENOMEM, hs(t := (init_one c (hs t))\<lparr>hist_data := []\<rparr>)))"

definition histogram_init ::
  "application_config \<Rightarrow> bool \<Rightarrow> (stat_frame_type \<Rightarrow> bool) \<Rightarrow> histograms \<Rightarrow> int \<times> histograms" where
  "histogram_init c mirror_mode alloc hs =
     (if \<not> stats_histogram_enabled c \<or> mirror_mode then (0, hs)
      else histogram_init_loop c alloc all_frame_types hs)"

definition histogram_free :: "application_config \<Rightarrow> histograms \<Rightarrow> histograms" where
  "histogram_free c hs =
     (if \<not> stats_histogram_enabled c then hs else (\<lambda>t. (hs t)\<lparr>hist_data := []\<rparr>))"

text \<open>\<open>None\<close>: an access outside the bucket array.\<close>

definition histogram_update :: "stat_frame_type \<Rightarrow> u64 \<Rightarrow> histograms \<Rightarrow> histograms option" where
  "histogram_update frame_type rtt hs =
     (let hist = hs frame_type;
          sample = rtt - hist_min hist
      in if rtt \<ge> hist_max hist
         then Some (hs(frame_type := hist\<lparr>hist_overflow := hist_overflow hist + 1\<rparr>))
         else if rtt < hist_min hist
         then Some (hs(frame_type := hist\<lparr>hist_underflow := hist_underflow hist + 1\<rparr>))
         else if unat sample < length (hist_data hist)
         then Some (hs(frame_type :=
                hist\<lparr>hist_data := (hist_data hist)[unat sample := hist_data hist ! unat sample + 1]\<rparr>))
         else None)"

text \<open>
  \<^verbatim>\<open>histogram_write\<close>: the rows written, each with its round-trip time and one count per
  class, then the overflow and the underflow rows. Rows without samples are skipped.
  \<open>None\<close>: a class has no bucket for a row.
\<close>

definition row_counts :: "histograms \<Rightarrow> u64 \<Rightarrow> u64 list option" where
  "row_counts hs rtt =
     those (map (\<lambda>t. let i = unat (rtt - hist_min (hs t)) in
                       if i < length (hist_data (hs t)) then Some (hist_data (hs t) ! i) else None)
                all_frame_types)"

fun histogram_rows :: "histograms \<Rightarrow> u64 \<Rightarrow> nat \<Rightarrow> (u64 \<times> u64 list) list option" where
  "histogram_rows hs rtt 0 = Some []"
| "histogram_rows hs rtt (Suc n) = do {
     cs \<leftarrow> row_counts hs rtt;
     rest \<leftarrow> histogram_rows hs (rtt + 1) n;
     Some (if (\<exists>x\<in>set cs. x \<noteq> 0) then (rtt, cs) # rest else rest)
   }"

definition histogram_write ::
  "application_config \<Rightarrow> bool \<Rightarrow> histograms
    \<Rightarrow> (int \<times> (u64 \<times> u64 list) list \<times> u64 list \<times> u64 list) option" where
  "histogram_write c open_ok hs =
     (if \<not> stats_histogram_enabled c then Some (0, [], [], [])
      else if \<not> open_ok then Some (- EINVAL, [], [], [])
      else
       let first = hs TSN_HIGH_FRAME_TYPE in do {
         rows \<leftarrow> histogram_rows hs (hist_min first)
                  (if hist_min first < hist_max first then unat (hist_max first - hist_min first) else 0);
         Some (0, rows, map (\<lambda>t. hist_overflow (hs t)) all_frame_types,
               map (\<lambda>t. hist_underflow (hs t)) all_frame_types)
       })"

section \<open>Invariant and laws\<close>

text \<open>The bucket array has one entry per microsecond of the range.\<close>

definition hist_wf :: "histogram \<Rightarrow> bool" where
  "hist_wf h \<longleftrightarrow> hist_min h \<le> hist_max h \<longrightarrow> length (hist_data h) = unat (hist_max h - hist_min h)"

definition hist_total :: "histogram \<Rightarrow> nat" where
  "hist_total h = sum_list (map unat (hist_data h)) + unat (hist_underflow h) + unat (hist_overflow h)"

lemma init_one_wf: "hist_wf (init_one c h)"
  by (simp add: hist_wf_def init_one_def Let_def)

lemma histogram_init_loop_wf:
  "histogram_init_loop c alloc ts hs = (0, hs') \<Longrightarrow> t \<in> set ts \<Longrightarrow> distinct ts \<Longrightarrow> hist_wf (hs' t)"
proof (induction ts arbitrary: hs)
  case Nil
  then show ?case by simp
next
  case (Cons u ts)
  from Cons.prems have l: "histogram_init_loop c alloc ts (hs(u := init_one c (hs u))) = (0, hs')"
    by (auto simp: ENOMEM_def split: if_splits)
  have keep: "histogram_init_loop c alloc ts hs = (r, hs') \<Longrightarrow> u \<notin> set ts \<Longrightarrow> hs' u = hs u" for r hs hs'
    by (induction ts arbitrary: hs) (auto split: if_splits)
  show ?case
  proof (cases "t = u")
    case True
    with l keep [OF l] Cons.prems(3) show ?thesis by (simp add: init_one_wf)
  next
    case False
    with Cons.IH [OF l] Cons.prems show ?thesis by simp
  qed
qed

lemma unat_sub_less:
  fixes a b c :: u64
  assumes "b \<le> a" and "a < c"
  shows "unat (a - b) < unat (c - b)"
  using assms by (simp add: unat_sub word_less_nat_alt word_le_nat_alt less_imp_le diff_less_mono)

lemma sample_in_data:
  assumes "hist_wf h" and "hist_min h \<le> rtt" and "rtt < hist_max h"
  shows "unat (rtt - hist_min h) < length (hist_data h)"
  using assms unat_sub_less [OF assms(2,3)] by (auto simp: hist_wf_def)

text \<open>The one histogram an update touches, and how.\<close>

definition hist_step :: "u64 \<Rightarrow> histogram \<Rightarrow> histogram" where
  "hist_step rtt h =
     (if rtt \<ge> hist_max h then h\<lparr>hist_overflow := hist_overflow h + 1\<rparr>
      else if rtt < hist_min h then h\<lparr>hist_underflow := hist_underflow h + 1\<rparr>
      else let i = unat (rtt - hist_min h) in h\<lparr>hist_data := (hist_data h)[i := hist_data h ! i + 1]\<rparr>)"

lemma histogram_update_step:
  "hist_wf (hs t) \<Longrightarrow> histogram_update t rtt hs = Some (hs(t := hist_step rtt (hs t)))"
  using sample_in_data [of "hs t" rtt]
  by (auto simp: histogram_update_def hist_step_def Let_def not_less not_le)

lemma hist_step_wf: "hist_wf h \<Longrightarrow> hist_wf (hist_step rtt h)"
  by (auto simp: hist_wf_def hist_step_def Let_def)

lemma sum_list_inc:
  assumes "i < length xs" and "unat (xs ! i :: u64) < 2 ^ 64 - 1"
  shows "sum_list (map unat (xs[i := xs ! i + 1])) = Suc (sum_list (map unat xs))"
proof -
  have "unat (xs ! i + 1) = Suc (unat (xs ! i))"
    using assms(2) by (subst unat_add_lem [THEN iffD1]) simp_all
  then show ?thesis
    using assms(1) by (simp add: map_update sum_list_update)
qed

lemma unat_inc: "unat (x :: u64) < 2 ^ 64 - 1 \<Longrightarrow> unat (x + 1) = Suc (unat x)"
  by (subst unat_add_lem [THEN iffD1]) simp_all

lemma hist_total_step:
  assumes "hist_wf h" and "hist_total h < 2 ^ 64 - 1"
  shows "hist_total (hist_step rtt h) = Suc (hist_total h)"
proof -
  have ov: "unat (hist_overflow h) < 2 ^ 64 - 1" and un: "unat (hist_underflow h) < 2 ^ 64 - 1"
    using assms(2) by (simp_all add: hist_total_def)
  have el: "unat (hist_data h ! i) < 2 ^ 64 - 1" if "i < length (hist_data h)" for i
  proof -
    have "unat (hist_data h ! i) \<le> sum_list (map unat (hist_data h))"
      using that by (intro member_le_sum_list) auto
    then show ?thesis using assms(2) by (simp add: hist_total_def)
  qed
  show ?thesis
    using sample_in_data [OF assms(1), of rtt] el
    by (auto simp: hist_step_def hist_total_def Let_def not_le not_less unat_inc [OF ov] unat_inc [OF un] sum_list_inc)
qed

end
