(* ===== verification/Stats.thy ===== *)
theory Stats
  imports Complex_Main Histogram
begin

text \<open>
  \<^verbatim>\<open>stat.h\<close> and \<^verbatim>\<open>stat.c\<close>: the counters, minima, maxima and averages of every traffic
  class since the start and per collection period, and the backlog of transmit
  timestamps from which round-trip times are computed.
\<close>

section \<open>Floating point sums\<close>

text \<open>
  The sums and averages are C doubles that only hold finite non-negative values far from
  the ends of the exponent range. A double is the rational number it stands for;
  \<open>round_double\<close> rounds to the nearest 53-bit significand, ties to even.
\<close>

type_synonym double = rat

fun bit_length :: "nat \<Rightarrow> nat" where
  "bit_length n = (if n = 0 then 0 else Suc (bit_length (n div 2)))"

declare bit_length.simps [simp del]

definition log2_floor :: "rat \<Rightarrow> int" where
  "log2_floor q =
     (case quotient_of q of (n, d) \<Rightarrow>
        let e = int (bit_length (nat n)) - int (bit_length (nat d))
        in if 2 powi e \<le> q then e else e - 1)"

definition round_half_even :: "rat \<Rightarrow> int" where
  "round_half_even q =
     (let f = \<lfloor>q\<rfloor>; r = q - of_int f
      in if r < 1 / 2 then f else if r > 1 / 2 then f + 1 else if even f then f else f + 1)"

definition round_double :: "rat \<Rightarrow> double" where
  "round_double q =
     (if q = 0 then 0
      else let e = log2_floor q - 52 in of_int (round_half_even (q * 2 powi (- e))) * 2 powi e)"

definition double_of_u64 :: "u64 \<Rightarrow> double" where
  "double_of_u64 x = round_double (of_nat (unat x))"

definition double_add :: "double \<Rightarrow> double \<Rightarrow> double" where
  "double_add x y = round_double (x + y)"

definition double_div :: "double \<Rightarrow> double \<Rightarrow> double" where
  "double_div x y = round_double (x / y)"

section \<open>State\<close>

record stat_avg =
  avg_rx :: double
  avg_tx :: double
  avg_txgen :: double

record statistics =
  first_time_stamp :: u64
  last_time_stamp :: u64
  frames_sent :: u64
  frames_received :: u64
  out_of_order_errors :: u64
  frame_id_errors :: u64
  payload_errors :: u64
  round_trip_min :: u64
  round_trip_max :: u64
  round_trip_count :: u64
  round_trip_outliers :: u64
  round_trip_sum :: double
  round_trip_avg :: double
  oneway_min :: u64
  oneway_max :: u64
  oneway_count :: u64
  oneway_outliers :: u64
  oneway_sum :: double
  oneway_avg :: double
  tx_sum_ns :: u64
  tx_count :: u64
  rx_sum_ns :: u64
  rx_count :: u64
  rx_nexttime_sum :: u64
  rx_nexttime_cnt :: u64
  rx_nexttime_avg :: double
  tx_nexttime_sum :: u64
  tx_nexttime_cnt :: u64
  tx_nexttime_avg :: double
  rx_timer_avg :: double
  tx_timer_avg :: double
  txgen_timer_avg :: double
  ready :: bool

record backlog_t =
  b_cycle_number :: u64
  b_timestamp :: u64

record round_trip_context =
  backlog :: "backlog_t list"
  backlog_len :: u64

record stat_private =
  global_statistics :: "stat_frame_type \<Rightarrow> statistics"
  statistics_per_period :: "stat_frame_type \<Rightarrow> statistics"
  round_trip_contexts :: "stat_frame_type \<Rightarrow> round_trip_context"
  rtt_expected_rt_limit :: u64
  file_tracing_on :: bool
  file_trace_marker :: bool

definition zero_statistics :: statistics where
  "zero_statistics =
     \<lparr>first_time_stamp = 0, last_time_stamp = 0, frames_sent = 0, frames_received = 0,
      out_of_order_errors = 0, frame_id_errors = 0, payload_errors = 0,
      round_trip_min = 0, round_trip_max = 0, round_trip_count = 0, round_trip_outliers = 0,
      round_trip_sum = 0, round_trip_avg = 0,
      oneway_min = 0, oneway_max = 0, oneway_count = 0, oneway_outliers = 0,
      oneway_sum = 0, oneway_avg = 0,
      tx_sum_ns = 0, tx_count = 0, rx_sum_ns = 0, rx_count = 0,
      rx_nexttime_sum = 0, rx_nexttime_cnt = 0, rx_nexttime_avg = 0,
      tx_nexttime_sum = 0, tx_nexttime_cnt = 0, tx_nexttime_avg = 0,
      rx_timer_avg = 0, tx_timer_avg = 0, txgen_timer_avg = 0, ready = False\<rparr>"

definition zero_stat_private :: stat_private where
  "zero_stat_private =
     \<lparr>global_statistics = \<lambda>_. zero_statistics, statistics_per_period = \<lambda>_. zero_statistics,
      round_trip_contexts = \<lambda>_. \<lparr>backlog = [], backlog_len = 0\<rparr>, rtt_expected_rt_limit = 0,
      file_tracing_on = False, file_trace_marker = False\<rparr>"

text \<open>
  What the operations read besides their state: the configuration, \<^verbatim>\<open>is_mirror_mode()\<close>
  and the build option \<^verbatim>\<open>WITH_MQTT\<close>.
\<close>

record app_env =
  app_config :: application_config
  is_mirror_mode :: bool
  with_mqtt :: bool

text \<open>
  The state the statistics calls change. \<open>mqtt_out\<close> lists the calls of
  \<^verbatim>\<open>log_via_mqtt_stats\<close>, \<open>trace_out\<close> the outlier reports (time, class, cycle), and
  \<open>exited\<close> says that \<^verbatim>\<open>exit\<close> has been called.
\<close>

record stat_state =
  stat_priv :: stat_private
  histos :: histograms
  mqtt_out :: "(stat_frame_type \<times> statistics) list"
  trace_out :: "(u64 \<times> stat_frame_type \<times> u64) list"
  exited :: bool

section \<open>Initialisation\<close>

definition STAT_MAX_BACKLOG :: u64 where "STAT_MAX_BACKLOG = 1024"
definition UINT64_MAX :: u64 where "UINT64_MAX = 0xFFFFFFFFFFFFFFFF"
definition USEC_PER_SEC :: u64 where "USEC_PER_SEC = 1000000"

definition init_min_max :: "statistics \<Rightarrow> statistics" where
  "init_min_max s =
     s\<lparr>round_trip_min := UINT64_MAX, round_trip_max := 0, oneway_min := UINT64_MAX, oneway_max := 0\<rparr>"

definition init_context :: "(u64 \<Rightarrow> bool) \<Rightarrow> u64 \<Rightarrow> round_trip_context" where
  "init_context alloc n =
     \<lparr>backlog = (if alloc n then replicate (unat n) \<lparr>b_cycle_number = 0, b_timestamp = 0\<rparr> else []),
      backlog_len = n\<rparr>"

text \<open>
  \<open>alloc t n\<close>: the allocation of \<open>n\<close> backlog entries for class \<open>t\<close> succeeds. \<open>e_on\<close> and
  \<open>e_marker\<close> are the error numbers of the two \<^verbatim>\<open>fopen\<close> calls, zero for success.
\<close>

definition stat_init ::
  "app_env \<Rightarrow> (stat_frame_type \<Rightarrow> u64 \<Rightarrow> bool) \<Rightarrow> int \<Rightarrow> int \<Rightarrow> stat_private \<Rightarrow> int \<times> stat_private" where
  "stat_init env alloc e_on e_marker sp =
     (let c = app_config env;
          blen = (\<lambda>t. STAT_MAX_BACKLOG * num_frames_per_cycle (tc c t));
          sp = (if is_mirror_mode env then sp
                else sp\<lparr>round_trip_contexts := \<lambda>t. init_context (alloc t) (blen t)\<rparr>);
          allocation_error = (\<exists>t\<in>set all_frame_types. \<not> alloc t (blen t))
      in if \<not> is_mirror_mode env \<and> allocation_error then (- ENOMEM, sp)
      else
       let sp = sp\<lparr>global_statistics := \<lambda>t. init_min_max (global_statistics sp t),
                   statistics_per_period := \<lambda>t. init_min_max (statistics_per_period sp t)\<rparr>;
           limit = sp\<lparr>rtt_expected_rt_limit := application_base_cycle_time_ns c * 2 div 1000\<rparr>
       in if debug_stop_trace_on_outlier c
          then if e_on \<noteq> 0 then (- e_on, sp)
               else if e_marker \<noteq> 0 then (- e_marker, sp)
               else (0, limit\<lparr>file_tracing_on := True, file_trace_marker := True\<rparr>)
          else (0, limit))"

definition stat_deinit :: "app_env \<Rightarrow> stat_private \<Rightarrow> stat_private" where
  "stat_deinit env sp =
     (let sp = sp\<lparr>round_trip_contexts := \<lambda>t. (round_trip_contexts sp t)\<lparr>backlog := []\<rparr>\<rparr>
      in if debug_stop_trace_on_outlier (app_config env)
         then sp\<lparr>file_tracing_on := False, file_trace_marker := False\<rparr> else sp)"

section \<open>Updating the counters\<close>

definition stat_update_min_max :: "u64 \<Rightarrow> u64 \<Rightarrow> u64 \<Rightarrow> u64 \<times> u64" where
  "stat_update_min_max new_value mn mx =
     (if new_value < mn then new_value else mn, if new_value > mx then new_value else mx)"

definition reset_values :: statistics where
  "reset_values =
     zero_statistics\<lparr>round_trip_min := USEC_PER_SEC div 4, oneway_min := USEC_PER_SEC div 4\<rparr>"

text \<open>The argument of \<^verbatim>\<open>stats_reset_stats\<close> points into one of the two tables.\<close>

datatype stats_ref = Global stat_frame_type | Per_Period stat_frame_type

definition stats_reset_stats :: "stats_ref \<Rightarrow> stat_private \<Rightarrow> stat_private" where
  "stats_reset_stats r sp =
     (let sp = (case r of
           Global t \<Rightarrow> sp\<lparr>global_statistics := (global_statistics sp)(t := reset_values)\<rparr>
         | Per_Period t \<Rightarrow> sp\<lparr>statistics_per_period := (statistics_per_period sp)(t := reset_values)\<rparr>)
      in sp\<lparr>statistics_per_period := \<lambda>_. reset_values\<rparr>)"

definition stats_reset_all_stats :: "stat_private \<Rightarrow> stat_private" where
  "stats_reset_all_stats sp = fold (\<lambda>t. stats_reset_stats (Global t)) all_frame_types sp"

definition round_trip_sample :: "stat_frame_type \<Rightarrow> u64 \<Rightarrow> u64 \<Rightarrow> statistics \<Rightarrow> statistics" where
  "round_trip_sample frame_type limit rt_time s =
     (case stat_update_min_max rt_time (round_trip_min s) (round_trip_max s) of (mn, mx) \<Rightarrow>
        let s = s\<lparr>round_trip_min := mn, round_trip_max := mx\<rparr>;
            s = (if stat_frame_type_is_real_time frame_type \<and> rt_time > limit
                 then s\<lparr>round_trip_outliers := round_trip_outliers s + 1\<rparr> else s);
            s = s\<lparr>round_trip_count := round_trip_count s + 1\<rparr>;
            s = s\<lparr>round_trip_sum := double_add (round_trip_sum s) (double_of_u64 rt_time)\<rparr>
        in s\<lparr>round_trip_avg := double_div (round_trip_sum s) (double_of_u64 (round_trip_count s))\<rparr>)"

definition oneway_sample :: "stat_frame_type \<Rightarrow> u64 \<Rightarrow> u64 \<Rightarrow> statistics \<Rightarrow> statistics" where
  "oneway_sample frame_type limit oneway_time s =
     (case stat_update_min_max oneway_time (oneway_min s) (oneway_max s) of (mn, mx) \<Rightarrow>
        let s = s\<lparr>oneway_min := mn, oneway_max := mx\<rparr>;
            s = (if stat_frame_type_is_real_time frame_type \<and> oneway_time > limit div 2
                 then s\<lparr>oneway_outliers := oneway_outliers s + 1\<rparr> else s);
            s = s\<lparr>oneway_count := oneway_count s + 1\<rparr>;
            s = s\<lparr>oneway_sum := double_add (oneway_sum s) (double_of_u64 oneway_time)\<rparr>
        in s\<lparr>oneway_avg := double_div (oneway_sum s) (double_of_u64 (oneway_count s))\<rparr>)"

definition count_received :: "bool \<Rightarrow> bool \<Rightarrow> bool \<Rightarrow> statistics \<Rightarrow> statistics" where
  "count_received out_of_order payload_mismatch frame_id_mismatch s =
     s\<lparr>frames_received := frames_received s + 1,
       out_of_order_errors := out_of_order_errors s + of_bool out_of_order,
       payload_errors := payload_errors s + of_bool payload_mismatch,
       frame_id_errors := frame_id_errors s + of_bool frame_id_mismatch\<rparr>"

definition upd_global :: "stat_frame_type \<Rightarrow> (statistics \<Rightarrow> statistics) \<Rightarrow> stat_private \<Rightarrow> stat_private" where
  "upd_global t f sp =
     sp\<lparr>global_statistics := (global_statistics sp)(t := f (global_statistics sp t))\<rparr>"

definition upd_period :: "stat_frame_type \<Rightarrow> (statistics \<Rightarrow> statistics) \<Rightarrow> stat_private \<Rightarrow> stat_private" where
  "upd_period t f sp =
     sp\<lparr>statistics_per_period := (statistics_per_period sp)(t := f (statistics_per_period sp t))\<rparr>"

definition period_sample ::
  "app_env \<Rightarrow> u64 \<Rightarrow> stat_frame_type \<Rightarrow> u64 \<Rightarrow> u64 \<Rightarrow> u64 \<Rightarrow> bool \<Rightarrow> bool \<Rightarrow> bool
    \<Rightarrow> statistics \<Rightarrow> statistics" where
  "period_sample env limit frame_type curr_time rt_time oneway_time ooo pm fid s =
     (let s = (if first_time_stamp s = 0 then s\<lparr>first_time_stamp := curr_time\<rparr> else s);
          elapsed_t = curr_time - first_time_stamp s;
          s = (if elapsed_t \<ge> stats_collection_interval_ns (app_config env)
               then s\<lparr>ready := True, last_time_stamp := curr_time\<rparr> else s);
          s = (if is_mirror_mode env then s else round_trip_sample frame_type limit rt_time s)
      in count_received ooo pm fid (oneway_sample frame_type limit oneway_time s))"

definition stat_frame_received_per_period ::
  "app_env \<Rightarrow> stat_frame_type \<Rightarrow> u64 \<Rightarrow> u64 \<Rightarrow> u64 \<Rightarrow> bool \<Rightarrow> bool \<Rightarrow> bool \<Rightarrow> stat_state \<Rightarrow> stat_state" where
  "stat_frame_received_per_period env frame_type curr_time rt_time oneway_time ooo pm fid st =
     (if \<not> with_mqtt env then st
      else
       let sp = stat_priv st;
           sp = upd_period frame_type
                  (period_sample env (rtt_expected_rt_limit sp) frame_type curr_time rt_time oneway_time
                     ooo pm fid) sp;
           per = statistics_per_period sp frame_type
       in if ready per
          then st\<lparr>stat_priv := stats_reset_stats (Per_Period frame_type) sp,
                  mqtt_out := mqtt_out st @ [(frame_type, per)]\<rparr>
          else st\<lparr>stat_priv := sp\<rparr>)"

definition stat_frame_sent_per_period :: "app_env \<Rightarrow> stat_frame_type \<Rightarrow> stat_private \<Rightarrow> stat_private" where
  "stat_frame_sent_per_period env frame_type sp =
     (if with_mqtt env then upd_period frame_type (\<lambda>s. s\<lparr>frames_sent := frames_sent s + 1\<rparr>) sp else sp)"

text \<open>
  The backlog slot of a cycle number: \<open>None\<close> for the division by zero and for an access
  outside the array.
\<close>

definition backlog_slot :: "round_trip_context \<Rightarrow> u64 \<Rightarrow> nat option" where
  "backlog_slot rtt cycle_number =
     (if backlog_len rtt = 0 then None
      else let i = unat (cycle_number mod backlog_len rtt)
           in if i < length (backlog rtt) then Some i else None)"

definition set_backlog :: "stat_frame_type \<Rightarrow> nat \<Rightarrow> backlog_t \<Rightarrow> stat_private \<Rightarrow> stat_private" where
  "set_backlog t i b sp =
     sp\<lparr>round_trip_contexts := (round_trip_contexts sp)
          (t := (round_trip_contexts sp t)\<lparr>backlog := (backlog (round_trip_contexts sp t))[i := b]\<rparr>)\<rparr>"

definition stat_frame_sent :: "app_env \<Rightarrow> stat_frame_type \<Rightarrow> u64 \<Rightarrow> u64 \<Rightarrow> stat_state \<Rightarrow> stat_state option" where
  "stat_frame_sent env frame_type cycle_number timestamp st = do {
     sp \<leftarrow> (if is_mirror_mode env then Some (stat_priv st)
            else do {
              i \<leftarrow> backlog_slot (round_trip_contexts (stat_priv st) frame_type) cycle_number;
              Some (set_backlog frame_type i
                      \<lparr>b_cycle_number = cycle_number, b_timestamp = timestamp\<rparr> (stat_priv st))
            });
     let sp = stat_frame_sent_per_period env frame_type sp;
     Some (st\<lparr>stat_priv := upd_global frame_type (\<lambda>s. s\<lparr>frames_sent := frames_sent s + 1\<rparr>) sp\<rparr>)
   }"

definition stat_next_time :: "stat_frame_type \<Rightarrow> u64 \<Rightarrow> u64 \<Rightarrow> stat_private \<Rightarrow> stat_private" where
  "stat_next_time frame_type rx_nexttime tx_nexttime sp =
     upd_global frame_type (\<lambda>s.
       let s = (if rx_nexttime \<noteq> 0
                then let c = rx_nexttime_cnt s + 1; m = rx_nexttime_sum s + rx_nexttime div 1000
                     in s\<lparr>rx_nexttime_cnt := c, rx_nexttime_sum := m,
                          rx_nexttime_avg := double_div (double_of_u64 m) (double_of_u64 c)\<rparr>
                else s)
       in if tx_nexttime \<noteq> 0
          then let c = tx_nexttime_cnt s + 1; m = tx_nexttime_sum s + tx_nexttime div 1000
               in s\<lparr>tx_nexttime_cnt := c, tx_nexttime_sum := m,
                    tx_nexttime_avg := double_div (double_of_u64 m) (double_of_u64 c)\<rparr>
          else s) sp"

definition stat_timer_add :: "stat_frame_type \<Rightarrow> stat_avg \<Rightarrow> stat_private \<Rightarrow> stat_private" where
  "stat_timer_add frame_type avg sp =
     upd_global frame_type (\<lambda>s. s\<lparr>rx_timer_avg := avg_rx avg, tx_timer_avg := avg_tx avg,
                                  txgen_timer_avg := avg_txgen avg\<rparr>) sp"

text \<open>
  \<^verbatim>\<open>stat_frame_received\<close> in the order of the code: the round trip (reference mode only),
  the one-way time, the period statistics, the stop on an outlier, the counters. \<open>now\<close> is
  the reading of the clock.
\<close>

definition receive_round_trip ::
  "app_env \<Rightarrow> stat_frame_type \<Rightarrow> u64 \<Rightarrow> u64 \<Rightarrow> stat_state \<Rightarrow> (u64 \<times> bool \<times> stat_state) option" where
  "receive_round_trip env frame_type cycle_number now st =
     (let sp = stat_priv st; rtt = round_trip_contexts sp frame_type
      in if is_mirror_mode env then Some (0, False, st)
      else do {
        i \<leftarrow> backlog_slot rtt cycle_number;
        let rt_time = (now - b_timestamp (backlog rtt ! i)) div 1000;
        let limit = rtt_expected_rt_limit sp;
        let sp = set_backlog frame_type i \<lparr>b_cycle_number = 0, b_timestamp = 0\<rparr> sp;
        let sp = upd_global frame_type (round_trip_sample frame_type limit rt_time) sp;
        let outlier = (stat_frame_type_is_real_time frame_type \<and> rt_time > limit);
        hs \<leftarrow> (if stats_histogram_enabled (app_config env)
               then histogram_update frame_type rt_time (histos st) else Some (histos st));
        Some (rt_time, outlier, st\<lparr>stat_priv := sp, histos := hs\<rparr>)
      })"

definition stat_frame_received ::
  "app_env \<Rightarrow> stat_frame_type \<Rightarrow> u64 \<Rightarrow> bool \<Rightarrow> bool \<Rightarrow> bool \<Rightarrow> u64 \<Rightarrow> u64 \<Rightarrow> stat_state
    \<Rightarrow> stat_state option" where
  "stat_frame_received env frame_type cycle_number ooo pm fid tx_timestamp now st = do {
     (rt_time, rt_outlier, st) \<leftarrow> receive_round_trip env frame_type cycle_number now st;
     let curr_time = (if now < tx_timestamp then tx_timestamp else now);
     let oneway_time = (curr_time - tx_timestamp) div 1000;
     let limit = rtt_expected_rt_limit (stat_priv st);
     let outlier = (rt_outlier \<or> stat_frame_type_is_real_time frame_type \<and> oneway_time > limit div 2);
     let st = st\<lparr>stat_priv := upd_global frame_type (oneway_sample frame_type limit oneway_time) (stat_priv st)\<rparr>;
     let st = stat_frame_received_per_period env frame_type curr_time rt_time oneway_time ooo pm fid st;
     if debug_stop_trace_on_outlier (app_config env) \<and> outlier
     then Some (st\<lparr>trace_out := trace_out st @ [(if rt_time \<noteq> 0 then rt_time else oneway_time, frame_type, cycle_number)],
                   stat_priv := (stat_priv st)\<lparr>file_tracing_on := False, file_trace_marker := False\<rparr>,
                   exited := True\<rparr>)
     else Some (st\<lparr>stat_priv := upd_global frame_type (count_received ooo pm fid) (stat_priv st)\<rparr>)
   }"

section \<open>Exactness of the sums\<close>

lemma bit_length_le: "bit_length n \<le> k \<longleftrightarrow> n < 2 ^ k"
proof (induction n arbitrary: k rule: bit_length.induct)
  case (1 n)
  show ?case
  proof (cases "n = 0")
    case True
    then show ?thesis by (simp add: bit_length.simps)
  next
    case False
    then have IH: "bit_length (n div 2) \<le> k' \<longleftrightarrow> n div 2 < 2 ^ k'" for k' by (rule "1.IH")
    have step: "bit_length n = Suc (bit_length (n div 2))"
      using False by (simp add: bit_length.simps [of n])
    have half: "n div 2 < 2 ^ k' \<longleftrightarrow> n < 2 ^ Suc k'" for k'
      by (simp add: div_less_iff_less_mult mult.commute)
    show ?thesis
    proof (cases k)
      case 0
      then show ?thesis using False step by simp
    next
      case (Suc k')
      then show ?thesis using step IH half by simp
    qed
  qed
qed

lemma round_half_even_int: "round_half_even (of_int z) = z"
  by (simp add: round_half_even_def)

lemma round_double_exact:
  assumes "n < 2 ^ 53"
  shows "round_double (of_nat n) = of_nat n"
proof (cases "n = 0")
  case True
  then show ?thesis by (simp add: round_double_def)
next
  case False
  have q: "quotient_of (of_nat n) = (int n, 1)"
    using quotient_of_int [of "int n"] by simp
  have bl: "bit_length n \<le> 53" using assms by (simp add: bit_length_le)
  have "bit_length 1 = 1" by (simp add: bit_length.simps)
  then have e: "log2_floor (of_nat n) - 52 \<le> 0"
    using bl by (simp add: log2_floor_def q Let_def)
  define k where "k = nat (- (log2_floor (of_nat n) - 52))"
  have ek: "log2_floor (of_nat n) - 52 = - int k" using e by (simp add: k_def)
  have "(of_nat n :: rat) * 2 powi (- (log2_floor (of_nat n) - 52)) = of_int (int n * 2 ^ k)"
    by (simp add: ek)
  then have "round_half_even (of_nat n * 2 powi (- (log2_floor (of_nat n) - 52))) = int n * 2 ^ k"
    using round_half_even_int [of "int n * 2 ^ k"] by (simp only:)
  then show ?thesis using False by (simp add: round_double_def Let_def ek power_int_minus)
qed

lemma double_of_u64_exact: "unat x < 2 ^ 53 \<Longrightarrow> double_of_u64 x = of_nat (unat x)"
  unfolding double_of_u64_def by (rule round_double_exact)

lemma double_add_exact: "m + n < 2 ^ 53 \<Longrightarrow> double_add (of_nat m) (of_nat n) = of_nat (m + n)"
  using round_double_exact [of "m + n"] by (simp add: double_add_def)

section \<open>The backlog\<close>

text \<open>Every backlog has as many entries as its length field says, and at least one.\<close>

definition backlogs_ok :: "stat_private \<Rightarrow> bool" where
  "backlogs_ok sp \<longleftrightarrow> (\<forall>t. backlog_len (round_trip_contexts sp t) \<noteq> 0 \<and>
     length (backlog (round_trip_contexts sp t)) = unat (backlog_len (round_trip_contexts sp t)))"

lemma backlog_slot_ok:
  assumes "backlogs_ok sp"
  shows "backlog_slot (round_trip_contexts sp t) c =
         Some (unat (c mod backlog_len (round_trip_contexts sp t)))"
proof -
  let ?n = "backlog_len (round_trip_contexts sp t)"
  have n: "?n \<noteq> 0" and l: "length (backlog (round_trip_contexts sp t)) = unat ?n"
    using assms by (auto simp: backlogs_ok_def)
  have "unat (c mod ?n) < unat ?n" using n by (simp add: unat_mod_distrib unat_gt_0)
  then show ?thesis using n l by (simp add: backlog_slot_def Let_def)
qed

lemma round_trip_contexts_upd [simp]:
  "round_trip_contexts (upd_global t f sp) = round_trip_contexts sp"
  "round_trip_contexts (upd_period t f sp) = round_trip_contexts sp"
  "round_trip_contexts (stat_frame_sent_per_period env t sp) = round_trip_contexts sp"
  "round_trip_contexts (stats_reset_stats r sp) = round_trip_contexts sp"
  by (simp_all add: upd_global_def upd_period_def stat_frame_sent_per_period_def
      stats_reset_stats_def Let_def split: stats_ref.split)

lemma round_trip_contexts_set_backlog:
  "round_trip_contexts (set_backlog t i b sp) u =
     (if u = t then (round_trip_contexts sp t)\<lparr>backlog := (backlog (round_trip_contexts sp t))[i := b]\<rparr>
      else round_trip_contexts sp u)"
  by (simp add: set_backlog_def)

lemma backlogs_ok_set [simp]: "backlogs_ok (set_backlog t i b sp) = backlogs_ok sp"
  by (auto simp: backlogs_ok_def round_trip_contexts_set_backlog)

lemma backlogs_ok_cong: "round_trip_contexts sp = round_trip_contexts sp' \<Longrightarrow> backlogs_ok sp = backlogs_ok sp'"
  by (simp add: backlogs_ok_def)

lemma stat_init_backlogs:
  assumes "stat_init env alloc e1 e2 sp = (0, sp')" and "\<not> is_mirror_mode env"
    and "\<And>t. \<not> alloc t 0"
  shows "backlogs_ok sp'"
proof -
  let ?n = "\<lambda>t. STAT_MAX_BACKLOG * num_frames_per_cycle (tc (app_config env) t)"
  have all: "set all_frame_types = UNIV"
    by (auto simp: all_frame_types_def intro: stat_frame_type.exhaust)
  have "\<forall>t. alloc t (?n t)" and r: "round_trip_contexts sp' = (\<lambda>t. init_context (alloc t) (?n t))"
    using assms(1,2) by (auto simp: stat_init_def Let_def ENOMEM_def all split: if_splits)
  moreover from this(1) assms(3) have "\<forall>t. ?n t \<noteq> 0" by metis
  ultimately show ?thesis by (simp add: backlogs_ok_def init_context_def)
qed

section \<open>The calls never fault\<close>

text \<open>
  The invariant of a reference application: usable backlogs, and a bucket for every round
  trip time the histograms count.
\<close>

definition stat_ok :: "app_env \<Rightarrow> stat_state \<Rightarrow> bool" where
  "stat_ok env st \<longleftrightarrow>
     (is_mirror_mode env \<or> backlogs_ok (stat_priv st) \<and>
       (stats_histogram_enabled (app_config env) \<longrightarrow> (\<forall>t. hist_wf (histos st t))))"

lemma stat_frame_sent_ok:
  assumes "stat_ok env st"
  shows "\<exists>st'. stat_frame_sent env t c ts st = Some st' \<and> stat_ok env st'"
proof (cases "is_mirror_mode env")
  case True
  then show ?thesis by (simp add: stat_frame_sent_def stat_ok_def)
next
  case False
  with assms have ok: "backlogs_ok (stat_priv st)" by (simp add: stat_ok_def)
  show ?thesis
    using False assms backlog_slot_ok [OF ok]
    by (auto simp: stat_frame_sent_def stat_ok_def
        cong: backlogs_ok_cong intro: backlogs_ok_cong [THEN iffD1, rotated])
qed

lemma receive_round_trip_ok:
  assumes "stat_ok env st"
  shows "\<exists>r o1 st'. receive_round_trip env t c now st = Some (r, o1, st') \<and> stat_ok env st'"
proof (cases "is_mirror_mode env")
  case True
  then show ?thesis by (auto simp: receive_round_trip_def stat_ok_def Let_def)
next
  case False
  with assms have ok: "backlogs_ok (stat_priv st)"
    and hs: "stats_histogram_enabled (app_config env) \<Longrightarrow> hist_wf (histos st u)" for u
    by (simp_all add: stat_ok_def)
  have keep: "backlogs_ok (upd_global t f (set_backlog t i b (stat_priv st)))" for f i b
    using ok backlogs_ok_cong [of "upd_global t f (set_backlog t i b (stat_priv st))"] by simp
  show ?thesis
    using False assms backlog_slot_ok [OF ok, of t c] hs keep
    by (auto simp: receive_round_trip_def stat_ok_def Let_def histogram_update_step hist_step_wf)
qed

lemma stat_ok_cong:
  "round_trip_contexts (stat_priv st) = round_trip_contexts (stat_priv st') \<Longrightarrow> histos st = histos st' \<Longrightarrow>
   stat_ok env st = stat_ok env st'"
  using backlogs_ok_cong [of "stat_priv st" "stat_priv st'"] by (simp add: stat_ok_def)

lemma per_period_frame [simp]:
  "round_trip_contexts (stat_priv (stat_frame_received_per_period env t ct rt ow o1 p f st)) =
     round_trip_contexts (stat_priv st)"
  "histos (stat_frame_received_per_period env t ct rt ow o1 p f st) = histos st"
  "global_statistics (stat_priv (stat_frame_received_per_period env t ct rt ow o1 p f st)) =
     global_statistics (stat_priv st)"
  "exited (stat_frame_received_per_period env t ct rt ow o1 p f st) = exited st"
  by (simp_all add: stat_frame_received_per_period_def Let_def stats_reset_stats_def upd_period_def)

lemma stat_frame_received_ok:
  assumes "stat_ok env st"
  shows "\<exists>st'. stat_frame_received env t c o1 p f ts now st = Some st' \<and> stat_ok env st'"
proof -
  obtain r ol st1 where 1: "receive_round_trip env t c now st = Some (r, ol, st1)" and ok: "stat_ok env st1"
    using receive_round_trip_ok [OF assms] by blast
  show ?thesis
    using 1 ok by (auto simp: stat_frame_received_def Let_def upd_global_def intro: stat_ok_cong [THEN iffD1, rotated 2])
qed

section \<open>Effect on the counters\<close>

lemma global_statistics_upd [simp]:
  "global_statistics (upd_global t f sp) = (global_statistics sp)(t := f (global_statistics sp t))"
  "global_statistics (set_backlog t i b sp) = global_statistics sp"
  by (simp_all add: upd_global_def set_backlog_def)

definition received_global ::
  "app_env \<Rightarrow> stat_frame_type \<Rightarrow> u64 \<Rightarrow> bool \<Rightarrow> bool \<Rightarrow> bool \<Rightarrow> u64 \<Rightarrow> u64 \<Rightarrow> u64 \<Rightarrow> statistics \<Rightarrow> statistics" where
  "received_global env t limit o1 p f ts now rt s =
     count_received o1 p f
       (oneway_sample t limit ((max now ts - ts) div 1000)
          (if is_mirror_mode env then s else round_trip_sample t limit rt s))"

lemma receive_round_trip_global:
  assumes "receive_round_trip env t c now st = Some (rt, ol, st')"
  shows "global_statistics (stat_priv st') = (global_statistics (stat_priv st))
           (t := if is_mirror_mode env then global_statistics (stat_priv st) t
                 else round_trip_sample t (rtt_expected_rt_limit (stat_priv st)) rt (global_statistics (stat_priv st) t))"
    and "rtt_expected_rt_limit (stat_priv st') = rtt_expected_rt_limit (stat_priv st)"
    and "exited st' = exited st"
  using assms
  by (auto simp: receive_round_trip_def Let_def bind_eq_Some_conv upd_global_def set_backlog_def split: if_splits)

lemma stat_frame_received_global:
  assumes "stat_frame_received env t c o1 p f ts now st = Some st'" and "\<not> exited st'"
  shows "\<exists>rt ol st1. receive_round_trip env t c now st = Some (rt, ol, st1) \<and>
           global_statistics (stat_priv st') = (global_statistics (stat_priv st))
             (t := received_global env t (rtt_expected_rt_limit (stat_priv st)) o1 p f ts now rt
                     (global_statistics (stat_priv st) t))"
proof -
  from assms(1) obtain rt ol st1 where 1: "receive_round_trip env t c now st = Some (rt, ol, st1)"
    by (auto simp: stat_frame_received_def bind_eq_Some_conv)
  note g = receive_round_trip_global [OF 1]
  have m: "(if now < ts then ts else now) = max now ts" by (auto simp: max_def)
  obtain st2 where 2: "st' = st2\<lparr>stat_priv := upd_global t (count_received o1 p f) (stat_priv st2)\<rparr>"
    and 3: "global_statistics (stat_priv st2) = global_statistics
      (upd_global t (oneway_sample t (rtt_expected_rt_limit (stat_priv st1)) ((max now ts - ts) div 1000)) (stat_priv st1))"
    using assms 1 by (auto simp: stat_frame_received_def Let_def m simp del: global_statistics_upd split: if_split_asm)
  have "global_statistics (stat_priv st') = (global_statistics (stat_priv st))
             (t := received_global env t (rtt_expected_rt_limit (stat_priv st)) o1 p f ts now rt
                     (global_statistics (stat_priv st) t))"
    unfolding 2 by (simp add: 3 g(1,2) received_global_def)
  with 1 show ?thesis by blast
qed

section \<open>Runs of statistics calls\<close>

text \<open>
  The threads of the application call the statistics in some interleaved order. A run
  applies a list of such calls and ends at \<^verbatim>\<open>exit\<close>.
\<close>

datatype stat_event =
    Sent stat_frame_type (cycle: u64) u64
  | Received stat_frame_type (cycle: u64) bool bool bool u64 u64

fun event_type :: "stat_event \<Rightarrow> stat_frame_type" where
  "event_type (Sent t _ _) = t"
| "event_type (Received t _ _ _ _ _ _) = t"

fun stat_step :: "app_env \<Rightarrow> stat_event \<Rightarrow> stat_state \<Rightarrow> stat_state option" where
  "stat_step env (Sent t c ts) st = stat_frame_sent env t c ts st"
| "stat_step env (Received t c ooo pm fid ts now) st = stat_frame_received env t c ooo pm fid ts now st"

fun stat_run :: "app_env \<Rightarrow> stat_event list \<Rightarrow> stat_state \<Rightarrow> stat_state option" where
  "stat_run env [] st = Some st"
| "stat_run env (e # es) st =
     (if exited st then Some st else do { st \<leftarrow> stat_step env e st; stat_run env es st })"

lemma stat_step_ok: "stat_ok env st \<Longrightarrow> \<exists>st'. stat_step env e st = Some st' \<and> stat_ok env st'"
  by (cases e) (auto intro: stat_frame_sent_ok stat_frame_received_ok)

lemma stat_run_ok: "stat_ok env st \<Longrightarrow> \<exists>st'. stat_run env es st = Some st' \<and> stat_ok env st'"
proof (induction es arbitrary: st)
  case Nil
  then show ?case by simp
next
  case (Cons e es)
  then obtain st1 where 1: "stat_step env e st = Some st1" and ok: "stat_ok env st1"
    using stat_step_ok by blast
  show ?case
  proof (cases "exited st")
    case True
    then show ?thesis using Cons.prems by simp
  next
    case False
    then show ?thesis using Cons.IH [OF ok] 1 by simp
  qed
qed

subsection \<open>The backlog over a run\<close>

text \<open>The slot of cycle \<open>c\<close> of class \<open>t\<close>, and its contents.\<close>

definition slot_of :: "stat_state \<Rightarrow> stat_frame_type \<Rightarrow> u64 \<Rightarrow> nat" where
  "slot_of st t c = unat (c mod backlog_len (round_trip_contexts (stat_priv st) t))"

definition slot_entry :: "stat_state \<Rightarrow> stat_frame_type \<Rightarrow> u64 \<Rightarrow> backlog_t" where
  "slot_entry st t c = backlog (round_trip_contexts (stat_priv st) t) ! slot_of st t c"

lemma stat_frame_sent_contexts:
  assumes "stat_frame_sent env t c ts st = Some st'" and "stat_ok env st" and "\<not> is_mirror_mode env"
  shows "round_trip_contexts (stat_priv st') =
         round_trip_contexts (set_backlog t (slot_of st t c) \<lparr>b_cycle_number = c, b_timestamp = ts\<rparr> (stat_priv st))"
proof -
  have ok: "backlogs_ok (stat_priv st)" using assms by (simp add: stat_ok_def)
  show ?thesis
    using assms(1,3) backlog_slot_ok [OF ok, of t c] by (auto simp: stat_frame_sent_def slot_of_def)
qed

lemma receive_round_trip_contexts:
  assumes "receive_round_trip env t c now st = Some (rt, ol, st')" and "stat_ok env st" and "\<not> is_mirror_mode env"
  shows "round_trip_contexts (stat_priv st') =
         round_trip_contexts (set_backlog t (slot_of st t c) \<lparr>b_cycle_number = 0, b_timestamp = 0\<rparr> (stat_priv st))"
    and "rt = (now - b_timestamp (slot_entry st t c)) div 1000"
proof -
  have ok: "backlogs_ok (stat_priv st)" using assms by (simp add: stat_ok_def)
  show "round_trip_contexts (stat_priv st') =
         round_trip_contexts (set_backlog t (slot_of st t c) \<lparr>b_cycle_number = 0, b_timestamp = 0\<rparr> (stat_priv st))"
    and "rt = (now - b_timestamp (slot_entry st t c)) div 1000"
    using assms(1,3) backlog_slot_ok [OF ok, of t c]
    by (auto simp: receive_round_trip_def slot_of_def slot_entry_def Let_def bind_eq_Some_conv)
qed

lemma stat_frame_received_contexts:
  assumes "stat_frame_received env t c o1 p f ts now st = Some st'" and "stat_ok env st" and "\<not> is_mirror_mode env"
  shows "round_trip_contexts (stat_priv st') =
         round_trip_contexts (set_backlog t (slot_of st t c) \<lparr>b_cycle_number = 0, b_timestamp = 0\<rparr> (stat_priv st))"
proof -
  from assms(1) obtain rt ol st1 where 1: "receive_round_trip env t c now st = Some (rt, ol, st1)"
    by (auto simp: stat_frame_received_def bind_eq_Some_conv)
  have "round_trip_contexts (stat_priv st') = round_trip_contexts (stat_priv st1)"
    using assms(1) 1 by (auto simp: stat_frame_received_def Let_def upd_global_def split: if_split_asm)
  then show ?thesis using receive_round_trip_contexts(1) [OF 1 assms(2,3)] by simp
qed

lemma slot_of_set:
  assumes "round_trip_contexts (stat_priv st') = round_trip_contexts (set_backlog u i b (stat_priv st))"
  shows "slot_of st' t c = slot_of st t c"
    and "u \<noteq> t \<or> i \<noteq> slot_of st t c \<Longrightarrow> slot_entry st' t c = slot_entry st t c"
    and "stat_ok env st \<Longrightarrow> \<not> is_mirror_mode env \<Longrightarrow> slot_entry st' u d = (if slot_of st u d = i then b else slot_entry st u d)"
proof -
  show s: "slot_of st' t c = slot_of st t c" for t c
    by (simp add: slot_of_def assms round_trip_contexts_set_backlog)
  show "u \<noteq> t \<or> i \<noteq> slot_of st t c \<Longrightarrow> slot_entry st' t c = slot_entry st t c"
    by (auto simp: slot_entry_def s assms round_trip_contexts_set_backlog)
  assume "stat_ok env st" and "\<not> is_mirror_mode env"
  then have "slot_of st u d < length (backlog (round_trip_contexts (stat_priv st) u))"
    by (auto simp: stat_ok_def backlogs_ok_def slot_of_def unat_mod_distrib unat_gt_0)
  then show "slot_entry st' u d = (if slot_of st u d = i then b else slot_entry st u d)"
    by (simp add: slot_entry_def s assms round_trip_contexts_set_backlog)
qed

lemma stat_step_slot:
  assumes "stat_step env e st = Some st'" and "stat_ok env st" and "\<not> is_mirror_mode env"
  shows "slot_of st' t c = slot_of st t c"
    and "event_type e \<noteq> t \<or> slot_of st t (cycle e) \<noteq> slot_of st t c \<Longrightarrow> slot_entry st' t c = slot_entry st t c"
proof -
  obtain b where b: "round_trip_contexts (stat_priv st') =
      round_trip_contexts (set_backlog (event_type e) (slot_of st (event_type e) (cycle e)) b (stat_priv st))"
    using assms by (cases e) (auto dest: stat_frame_sent_contexts stat_frame_received_contexts)
  show "slot_of st' t c = slot_of st t c" by (rule slot_of_set(1) [OF b])
  show "event_type e \<noteq> t \<or> slot_of st t (cycle e) \<noteq> slot_of st t c \<Longrightarrow> slot_entry st' t c = slot_entry st t c"
    using slot_of_set(2) [OF b] by auto
qed

lemma stat_run_slot:
  assumes "stat_run env es st = Some st'" and "stat_ok env st" and "\<not> is_mirror_mode env"
    and "\<forall>e\<in>set es. event_type e \<noteq> t \<or> slot_of st t (cycle e) \<noteq> slot_of st t c"
  shows "slot_entry st' t c = slot_entry st t c \<and> slot_of st' t c = slot_of st t c"
  using assms(1,2,4)
proof (induction es arbitrary: st)
  case Nil
  then show ?case by simp
next
  case (Cons e es)
  show ?case
  proof (cases "exited st")
    case True
    then show ?thesis using Cons.prems by simp
  next
    case False
    with Cons.prems obtain st1 where 1: "stat_step env e st = Some st1" and r: "stat_run env es st1 = Some st'"
      by (auto simp: bind_eq_Some_conv)
    have ok: "stat_ok env st1" using stat_step_ok [OF Cons.prems(2), of e] 1 by auto
    note sl = stat_step_slot [OF 1 Cons.prems(2) assms(3)]
    show ?thesis using Cons.IH [OF r ok] Cons.prems(3) sl by auto
  qed
qed

subsection \<open>The counters over a run\<close>

text \<open>The one-way times a run measures for class \<open>t\<close>, in microseconds.\<close>

fun oneways :: "stat_frame_type \<Rightarrow> stat_event list \<Rightarrow> u64 list" where
  "oneways t [] = []"
| "oneways t (Sent _ _ _ # es) = oneways t es"
| "oneways t (Received u _ _ _ _ ts now # es) =
     (if u = t then (max now ts - ts) div 1000 # oneways t es else oneways t es)"

fun sents :: "stat_frame_type \<Rightarrow> stat_event list \<Rightarrow> nat" where
  "sents t [] = 0"
| "sents t (Sent u _ _ # es) = (if u = t then Suc (sents t es) else sents t es)"
| "sents t (_ # es) = sents t es"

text \<open>What class \<open>t\<close> has counted after the one-way times \<open>xs\<close> and \<open>n\<close> transmissions.\<close>

definition counted :: "u64 list \<Rightarrow> nat \<Rightarrow> statistics \<Rightarrow> statistics \<Rightarrow> bool" where
  "counted xs n s s' \<longleftrightarrow>
     frames_sent s' = frames_sent s + of_nat n \<and>
     frames_received s' = frames_received s + of_nat (length xs) \<and>
     oneway_count s' = oneway_count s + of_nat (length xs) \<and>
     oneway_min s' = fold min xs (oneway_min s) \<and>
     oneway_max s' = fold max xs (oneway_max s) \<and>
     (\<forall>m. oneway_sum s = of_nat m \<longrightarrow> m + sum_list (map unat xs) < 2 ^ 53 \<longrightarrow>
        oneway_sum s' = of_nat (m + sum_list (map unat xs)))"

lemma counted_refl: "counted [] 0 s s"
  by (simp add: counted_def)

lemma counted_trans:
  assumes "counted xs m s s1" and "counted ys n s1 s2"
  shows "counted (xs @ ys) (m + n) s s2"
proof -
  let ?X = "sum_list (map unat xs)" and ?Y = "sum_list (map unat ys)"
  have sum: "oneway_sum s2 = of_nat (k + (?X + ?Y))" if k: "oneway_sum s = of_nat k" "k + (?X + ?Y) < 2 ^ 53" for k
  proof -
    have "oneway_sum s1 = of_nat (k + ?X)" using assms(1) k unfolding counted_def by auto
    moreover have "\<forall>m. oneway_sum s1 = of_nat m \<longrightarrow> m + ?Y < 2 ^ 53 \<longrightarrow> oneway_sum s2 = of_nat (m + ?Y)"
      using assms(2) unfolding counted_def by blast
    ultimately have "oneway_sum s2 = of_nat (k + ?X + ?Y)"
      using k(2) by (simp only: add.assoc)
    then show ?thesis by (simp only: add.assoc)
  qed
  show ?thesis
    using assms sum unfolding counted_def by (simp add: add.assoc)
qed

lemma round_trip_sample_counted [simp]:
  "frames_sent (round_trip_sample t l x s) = frames_sent s"
  "frames_received (round_trip_sample t l x s) = frames_received s"
  "oneway_count (round_trip_sample t l x s) = oneway_count s"
  "oneway_min (round_trip_sample t l x s) = oneway_min s"
  "oneway_max (round_trip_sample t l x s) = oneway_max s"
  "oneway_sum (round_trip_sample t l x s) = oneway_sum s"
  by (simp_all add: round_trip_sample_def stat_update_min_max_def Let_def)

lemma oneway_sample_counted [simp]:
  "frames_sent (oneway_sample t l x s) = frames_sent s"
  "frames_received (oneway_sample t l x s) = frames_received s"
  "oneway_count (oneway_sample t l x s) = oneway_count s + 1"
  "oneway_min (oneway_sample t l x s) = min x (oneway_min s)"
  "oneway_max (oneway_sample t l x s) = max x (oneway_max s)"
  "oneway_sum (oneway_sample t l x s) = double_add (oneway_sum s) (double_of_u64 x)"
  by (simp_all add: oneway_sample_def stat_update_min_max_def Let_def min_def max_def) auto

lemma received_global_counted:
  "counted [(max now ts - ts) div 1000] 0 s (received_global env t l o1 p f ts now rt s)"
proof -
  have sum: "double_add (of_nat m) (double_of_u64 x) = of_nat (m + unat x)" if "m + unat x < 2 ^ 53" for m x
    using that double_of_u64_exact [of x] double_add_exact [of m "unat x"] by simp
  define x where "x = (max now ts - ts) div 1000"
  show ?thesis
    using sum [of _ x] unfolding counted_def received_global_def x_def [symmetric]
    by (simp add: count_received_def)
qed

lemma stat_frame_sent_global:
  assumes "stat_frame_sent env t c ts st = Some st'"
  shows "global_statistics (stat_priv st') = (global_statistics (stat_priv st))
           (t := (global_statistics (stat_priv st) t)\<lparr>frames_sent := frames_sent (global_statistics (stat_priv st) t) + 1\<rparr>)"
    and "exited st' = exited st"
  using assms by (auto simp: stat_frame_sent_def bind_eq_Some_conv upd_period_def
      stat_frame_sent_per_period_def set_backlog_def split: if_split_asm)

lemma stat_step_counted:
  assumes "stat_step env e st = Some st'" and "\<not> exited st'"
  shows "counted (oneways t [e]) (sents t [e]) (global_statistics (stat_priv st) t) (global_statistics (stat_priv st') t)"
proof (cases e)
  case (Sent u c ts)
  with assms stat_frame_sent_global(1) [of env u c ts st st'] show ?thesis
    by (auto simp: counted_def)
next
  case (Received u c o1 p f ts now)
  with assms stat_frame_received_global [of env u c o1 p f ts now st st'] show ?thesis
    by (auto simp: counted_refl received_global_counted)
qed

lemma oneways_Cons: "oneways t (e # es) = oneways t [e] @ oneways t es"
  by (cases e) simp_all

lemma sents_Cons: "sents t (e # es) = sents t [e] + sents t es"
  by (cases e) simp_all

lemma stat_run_exited: "exited st \<Longrightarrow> stat_run env es st = Some st"
  by (cases es) simp_all

lemma stat_run_counted:
  assumes "stat_run env es st = Some st'" and "\<not> exited st'"
  shows "counted (oneways t es) (sents t es) (global_statistics (stat_priv st) t) (global_statistics (stat_priv st') t)"
  using assms(1)
proof (induction es arbitrary: st)
  case Nil
  then show ?case by (simp add: counted_refl)
next
  case (Cons e es)
  from Cons.prems assms(2) obtain st1 where 1: "stat_step env e st = Some st1" and r: "stat_run env es st1 = Some st'"
    by (auto simp: bind_eq_Some_conv split: if_splits)
  have "\<not> exited st1" using r assms(2) by (auto simp: stat_run_exited)
  then show ?case
    by (subst oneways_Cons, subst sents_Cons) (intro counted_trans [OF stat_step_counted [OF 1]] Cons.IH [OF r])
qed

lemma fold_min_le_acc: "fold min xs a \<le> (a :: u64)"
proof (induction xs arbitrary: a)
  case (Cons y ys)
  have "fold min ys (min y a) \<le> min y a" by (rule Cons.IH)
  then show ?case by simp
qed simp

lemma fold_min_le: "x \<in> set xs \<Longrightarrow> fold min xs a \<le> (x :: u64)"
proof (induction xs arbitrary: a)
  case (Cons y ys)
  have "fold min ys (min y a) \<le> min y a" by (rule fold_min_le_acc)
  then show ?case using Cons by auto
qed simp

lemma fold_max_ge_acc: "(a :: u64) \<le> fold max xs a"
proof (induction xs arbitrary: a)
  case (Cons y ys)
  have "max y a \<le> fold max ys (max y a)" by (rule Cons.IH)
  then show ?case by simp
qed simp

lemma fold_max_ge: "x \<in> set xs \<Longrightarrow> (x :: u64) \<le> fold max xs a"
proof (induction xs arbitrary: a)
  case (Cons y ys)
  have "max y a \<le> fold max ys (max y a)" by (rule fold_max_ge_acc)
  then show ?case using Cons by auto
qed simp

end
