(* ===== verification/Stats_Props.thy ===== *)
theory Stats_Props
  imports Stats
begin

text \<open>
  Properties of the measurements (\<^verbatim>\<open>hist.c\<close>, \<^verbatim>\<open>stat.c\<close>): the histogram report, the
  round-trip times, the counters and their reset.
\<close>

section \<open>The histogram\<close>

text \<open>
  The abstract histogram of the samples \<open>xs\<close>: one exact count per microsecond of the
  range, and the numbers of samples below and above it.
\<close>

definition hist_of :: "application_config \<Rightarrow> u64 list \<Rightarrow> histogram" where
  "hist_of c xs =
     (let lo = stats_histogram_minimum_ns c div 1000; hi = stats_histogram_maximum_ns c div 1000 in
      \<lparr>hist_data = map (\<lambda>i. of_nat (count_list xs (lo + of_nat i))) [0..<unat (hi - lo)],
       hist_min = lo, hist_max = hi,
       hist_underflow = of_nat (length (filter (\<lambda>x. x < lo \<and> x < hi) xs)),
       hist_overflow = of_nat (length (filter (\<lambda>x. hi \<le> x) xs))\<rparr>)"

fun record_samples :: "(stat_frame_type \<times> u64) list \<Rightarrow> histograms \<Rightarrow> histograms option" where
  "record_samples [] hs = Some hs"
| "record_samples ((t, x) # ss) hs = do { hs \<leftarrow> histogram_update t x hs; record_samples ss hs }"

definition samples_of :: "stat_frame_type \<Rightarrow> (stat_frame_type \<times> u64) list \<Rightarrow> u64 list" where
  "samples_of t ss = map snd (filter (\<lambda>s. fst s = t) ss)"

lemma hist_of_wf: "hist_wf (hist_of c xs)"
  by (simp add: hist_wf_def hist_of_def Let_def)

lemma count_list_snoc: "count_list (xs @ [x]) y = count_list xs y + (if x = y then 1 else 0)"
  by (induction xs) simp_all

lemma unat_offset:
  fixes lo hi :: u64
  assumes "lo \<le> hi" and "i < unat (hi - lo)"
  shows "unat (lo + of_nat i) = unat lo + i" and "lo + of_nat i < hi"
proof -
  have h: "unat hi = unat lo + unat (hi - lo)" using assms(1) by (simp add: unat_sub word_le_nat_alt)
  have "unat hi < 2 ^ 64" using unsigned_less [where 'a = nat, of hi] by simp
  then have "i < 2 ^ 64" "unat lo + i < 2 ^ 64" using h assms(2) by linarith+
  then show u: "unat (lo + of_nat i) = unat lo + i"
    by (simp add: unat_word_ariths unat_of_nat)
  show "lo + of_nat i < hi" using u h assms(2) by (simp add: word_less_nat_alt)
qed

lemma hist_range:
  fixes lo hi x :: u64
  assumes "lo \<le> hi" and "i < unat (hi - lo)"
  shows "x = lo + of_nat i \<longleftrightarrow> lo \<le> x \<and> x < hi \<and> unat (x - lo) = i"
proof -
  note u = unat_offset [OF assms]
  have "unat (lo + of_nat i - lo) = i"
    using u by (subst unat_sub) (simp_all add: word_le_nat_alt)
  moreover have "x = lo + of_nat i" if "lo \<le> x" "unat (x - lo) = i"
    using that by (metis add.commute diff_add_cancel of_nat_unat ucast_id)
  ultimately show ?thesis using u by (auto simp: word_le_nat_alt)
qed

lemma hist_data_snoc:
  fixes lo hi x :: u64
  assumes "lo \<le> hi"
  shows "map (\<lambda>i. of_nat (count_list (xs @ [x]) (lo + of_nat i)) :: u64) [0..<unat (hi - lo)] =
    (let d = map (\<lambda>i. of_nat (count_list xs (lo + of_nat i))) [0..<unat (hi - lo)]; i = unat (x - lo) in
     if hi \<le> x \<or> x < lo then d else d[i := d ! i + 1])"
proof (rule nth_equalityI)
  fix i assume "i < length (map (\<lambda>i. of_nat (count_list (xs @ [x]) (lo + of_nat i)) :: u64) [0..<unat (hi - lo)])"
  then have i: "i < unat (hi - lo)" by simp
  show "map (\<lambda>i. of_nat (count_list (xs @ [x]) (lo + of_nat i)) :: u64) [0..<unat (hi - lo)] ! i =
    (let d = map (\<lambda>i. of_nat (count_list xs (lo + of_nat i))) [0..<unat (hi - lo)]; i = unat (x - lo) in
     if hi \<le> x \<or> x < lo then d else d[i := d ! i + 1]) ! i"
    using i hist_range [OF assms i, of x] by (auto simp: Let_def count_list_snoc nth_list_update)
qed (simp add: Let_def)

lemma hist_step_of:
  assumes "stats_histogram_minimum_ns c div 1000 \<le> stats_histogram_maximum_ns c div 1000"
  shows "hist_step x (hist_of c xs) = hist_of c (xs @ [x])"
  unfolding hist_of_def Let_def hist_data_snoc [OF assms]
  by (auto simp: hist_step_def Let_def not_le not_less)

lemma record_samples_of:
  assumes "stats_histogram_minimum_ns c div 1000 \<le> stats_histogram_maximum_ns c div 1000"
    and "\<forall>t. hs t = hist_of c (xs t)"
  shows "record_samples ss hs = Some (\<lambda>t. hist_of c (xs t @ samples_of t ss))"
  using assms(2)
proof (induction ss arbitrary: hs xs)
  case Nil
  then show ?case by (auto simp: samples_of_def)
next
  case (Cons s ss)
  obtain t x where s: "s = (t, x)" by (cases s)
  have "hist_wf (hs t)" using Cons.prems hist_of_wf by metis
  then have u: "histogram_update t x hs = Some (hs(t := hist_step x (hs t)))" by (rule histogram_update_step)
  have "\<forall>u. (hs(t := hist_step x (hs t))) u = hist_of c ((xs(t := xs t @ [x])) u)"
    using Cons.prems hist_step_of [OF assms(1)] by simp
  note IH = Cons.IH [OF this]
  have "(xs(t := xs t @ [x])) u @ samples_of u ss = xs u @ samples_of u ((t, x) # ss)" for u
    by (simp add: samples_of_def)
  then show ?case using IH u by (simp add: s del: fun_upd_apply)
qed

lemma histogram_init_of:
  assumes "stats_histogram_enabled c" and "histogram_init c False alloc (\<lambda>_. zero_histogram) = (0, hs)"
  shows "\<forall>t. hs t = hist_of c []"
proof
  fix t
  have z: "init_one c zero_histogram = hist_of c []"
    by (simp add: init_one_def zero_histogram_def hist_of_def Let_def map_replicate_const)
  show "hs t = hist_of c []"
    using assms z by (cases t) (auto simp: histogram_init_def all_frame_types_def ENOMEM_def split: if_splits)
qed

text \<open>The row of the report for one round-trip time.\<close>

definition report_row :: "(stat_frame_type \<times> u64) list \<Rightarrow> u64 \<Rightarrow> u64 list" where
  "report_row ss rtt = map (\<lambda>t. of_nat (count_list (samples_of t ss) rtt)) all_frame_types"

lemma row_counts_of:
  assumes "stats_histogram_minimum_ns c div 1000 \<le> rtt" and "rtt < stats_histogram_maximum_ns c div 1000"
  shows "row_counts (\<lambda>t. hist_of c (samples_of t ss)) rtt = Some (report_row ss rtt)"
proof -
  define lo hi where "lo = stats_histogram_minimum_ns c div 1000" and "hi = stats_histogram_maximum_ns c div 1000"
  have i: "unat (rtt - lo) < unat (hi - lo)"
    using unat_sub_less [of lo rtt hi] assms by (simp add: lo_def hi_def)
  have "lo + of_nat (unat (rtt - lo)) = rtt" by simp
  then show ?thesis
    using i by (simp add: row_counts_def report_row_def hist_of_def Let_def lo_def [symmetric] hi_def [symmetric] all_frame_types_def)
qed

lemma histogram_rows_of:
  assumes "stats_histogram_minimum_ns c div 1000 \<le> rtt" and "rtt \<le> stats_histogram_maximum_ns c div 1000"
    and "n = unat (stats_histogram_maximum_ns c div 1000 - rtt)"
  shows "histogram_rows (\<lambda>t. hist_of c (samples_of t ss)) rtt n =
    Some (filter (\<lambda>(_, cs). \<exists>x\<in>set cs. x \<noteq> 0) (map (\<lambda>i. (rtt + of_nat i, report_row ss (rtt + of_nat i))) [0..<n]))"
  using assms
proof (induction n arbitrary: rtt)
  case 0
  then show ?case by simp
next
  case (Suc n)
  let ?hi = "stats_histogram_maximum_ns c div 1000"
  have lt: "rtt < ?hi" using Suc.prems(2,3) by (cases "rtt = ?hi") simp_all
  have u: "unat (rtt + 1) = Suc (unat rtt)"
    using lt unsigned_less [where 'a = nat, of ?hi] by (intro unat_inc) (simp add: word_less_nat_alt)
  have n: "n = unat (?hi - (rtt + 1))" and le: "rtt + 1 \<le> ?hi" and lo: "stats_histogram_minimum_ns c div 1000 \<le> rtt + 1"
    using Suc.prems lt u by (simp_all add: unat_sub word_le_nat_alt word_less_nat_alt)
  have shift: "map (\<lambda>i. (rtt + of_nat i, report_row ss (rtt + of_nat i))) [0..<Suc n] =
      (rtt, report_row ss rtt) # map (\<lambda>i. (rtt + 1 + of_nat i, report_row ss (rtt + 1 + of_nat i))) [0..<n]"
    by (simp add: upt_conv_Cons map_Suc_upt [symmetric] ac_simps del: upt_Suc)
  show ?case unfolding shift
    using Suc.IH [OF lo le n] row_counts_of [OF Suc.prems(1) lt, of ss] by simp
qed

text \<open>
  C7: the histogram report is exact. After a successful initialisation any sequence of
  samples of all classes is recorded without an access outside the bucket arrays, and
  \<^verbatim>\<open>histogram_write\<close> reports, for every microsecond of the range with at least one sample
  and in order, how often each class measured it, and how many samples of each class lie
  above and below the range.
\<close>

theorem histogram_report_exact:
  assumes "stats_histogram_enabled c" and "histogram_init c False alloc (\<lambda>_. zero_histogram) = (0, hs)"
    and "stats_histogram_minimum_ns c div 1000 \<le> stats_histogram_maximum_ns c div 1000"
  shows "\<exists>hs'. record_samples ss hs = Some hs' \<and>
    histogram_write c True hs' =
      (let lo = stats_histogram_minimum_ns c div 1000; hi = stats_histogram_maximum_ns c div 1000 in
       Some (0, filter (\<lambda>(_, cs). \<exists>x\<in>set cs. x \<noteq> 0) (map (\<lambda>i. (lo + of_nat i, report_row ss (lo + of_nat i))) [0..<unat (hi - lo)]),
             map (\<lambda>t. of_nat (length (filter (\<lambda>x. hi \<le> x) (samples_of t ss)))) all_frame_types,
             map (\<lambda>t. of_nat (length (filter (\<lambda>x. x < lo \<and> x < hi) (samples_of t ss)))) all_frame_types))"
proof -
  have r: "record_samples ss hs = Some (\<lambda>t. hist_of c (samples_of t ss))"
    using record_samples_of [OF assms(3) histogram_init_of [OF assms(1,2)], of ss] by simp
  have sel: "hist_min (hist_of c xs) = stats_histogram_minimum_ns c div 1000"
    "hist_max (hist_of c xs) = stats_histogram_maximum_ns c div 1000" for xs
    by (simp_all add: hist_of_def Let_def)
  show ?thesis
  proof (cases "stats_histogram_minimum_ns c div 1000 < stats_histogram_maximum_ns c div 1000")
    case True
    then show ?thesis
      using r assms(1) histogram_rows_of [OF order_refl assms(3) refl, of ss]
      by (simp add: histogram_write_def Let_def sel) (simp add: hist_of_def Let_def)
  next
    case False
    then have eq: "stats_histogram_minimum_ns c div 1000 = stats_histogram_maximum_ns c div 1000"
      using assms(3) by simp
    show ?thesis
      using r assms(1) by (simp add: histogram_write_def Let_def sel eq) (simp add: hist_of_def Let_def eq)
  qed
qed

lemma histogram_report_exact_witness:
  "\<exists>hs hs'. histogram_init (zero_config\<lparr>stats_histogram_enabled := True, stats_histogram_maximum_ns := 2000\<rparr>) False
              (\<lambda>_. True) (\<lambda>_. zero_histogram) = (0, hs) \<and>
     record_samples [(RTC_FRAME_TYPE, 1), (RTC_FRAME_TYPE, 1), (L2_FRAME_TYPE, 9)] hs = Some hs'"
proof -
  let ?c = "zero_config\<lparr>stats_histogram_enabled := True, stats_histogram_maximum_ns := 2000\<rparr>"
  obtain hs where i: "histogram_init ?c False (\<lambda>_. True) (\<lambda>_. zero_histogram) = (0, hs)"
    by (simp add: histogram_init_def all_frame_types_def)
  have "stats_histogram_enabled ?c"
    "stats_histogram_minimum_ns ?c div 1000 \<le> stats_histogram_maximum_ns ?c div 1000"
    by (simp_all add: zero_config_def)
  from histogram_report_exact [OF this(1) i this(2)] i show ?thesis by blast
qed

section \<open>The statistics\<close>

lemma round_trip_received:
  assumes "\<not> is_mirror_mode env"
  shows "round_trip_count (received_global env t l o1 p f ts now rt s) = round_trip_count s + 1"
    and "round_trip_min (received_global env t l o1 p f ts now rt s) = min rt (round_trip_min s)"
    and "round_trip_max (received_global env t l o1 p f ts now rt s) = max rt (round_trip_max s)"
    and "round_trip_sum (received_global env t l o1 p f ts now rt s) = double_add (round_trip_sum s) (double_of_u64 rt)"
  using assms
  by (auto simp: received_global_def count_received_def oneway_sample_def round_trip_sample_def stat_update_min_max_def
      Let_def min_def max_def)

text \<open>
  C5: the measured round-trip time is the true one. When frame \<open>c\<close> of class \<open>t\<close> was sent
  at \<open>ts\<close> and then any calls of all threads followed, except for frames of that class in
  the same backlog slot, the reception at \<open>now\<close> records \<open>now - ts\<close> in microseconds: the
  count grows by one and minimum and maximum take the value in.
\<close>

theorem round_trip_measured:
  assumes "stat_ok env st" and "\<not> is_mirror_mode env"
    and "stat_run env (Sent t c ts # es) st = Some st1" and "\<not> exited st1"
    and "\<forall>e\<in>set es. event_type e \<noteq> t \<or> slot_of st t (cycle e) \<noteq> slot_of st t c"
  shows "\<exists>st'. stat_frame_received env t c ooo pm fid ts' now st1 = Some st' \<and>
    (\<not> exited st' \<longrightarrow>
      (let s = global_statistics (stat_priv st1) t; s' = global_statistics (stat_priv st') t; rt = (now - ts) div 1000 in
       round_trip_count s' = round_trip_count s + 1 \<and> round_trip_min s' = min rt (round_trip_min s) \<and>
       round_trip_max s' = max rt (round_trip_max s) \<and>
       round_trip_sum s' = double_add (round_trip_sum s) (double_of_u64 rt)))"
proof -
  obtain st0 where s0: "stat_frame_sent env t c ts st = Some st0" and run: "stat_run env es st0 = Some st1"
    using assms(3,4) by (auto simp: bind_eq_Some_conv split: if_splits)
  have ok0: "stat_ok env st0" using stat_frame_sent_ok [OF assms(1), of t c ts] s0 by auto
  have ok1: "stat_ok env st1" using stat_run_ok [OF ok0, of es] run by auto
  note c0 = stat_frame_sent_contexts [OF s0 assms(1,2)]
  have e0: "slot_entry st0 t c = \<lparr>b_cycle_number = c, b_timestamp = ts\<rparr>"
    using slot_of_set(3) [OF c0 assms(1,2)] by simp
  have "slot_entry st1 t c = slot_entry st0 t c"
    using stat_run_slot [OF run ok0 assms(2)] assms(5) slot_of_set(1) [OF c0] by simp
  then have e1: "b_timestamp (slot_entry st1 t c) = ts" using e0 by simp
  obtain st' where st': "stat_frame_received env t c ooo pm fid ts' now st1 = Some st'"
    using stat_frame_received_ok [OF ok1] by blast
  show ?thesis
  proof (cases "exited st'")
    case True
    then show ?thesis using st' by blast
  next
    case False
    from stat_frame_received_global [OF st' this] obtain rt ol st2
      where rt: "receive_round_trip env t c now st1 = Some (rt, ol, st2)"
        and g: "global_statistics (stat_priv st') t =
          received_global env t (rtt_expected_rt_limit (stat_priv st1)) ooo pm fid ts' now rt (global_statistics (stat_priv st1) t)"
      by auto
    have "rt = (now - ts) div 1000" using receive_round_trip_contexts(2) [OF rt ok1 assms(2)] e1 by simp
    with g st' assms(2) show ?thesis by (simp add: Let_def round_trip_received)
  qed
qed

text \<open>A reference application whose backlogs have eight entries per class.\<close>

definition ref_env :: app_env where
  "ref_env = \<lparr>app_config = zero_config, is_mirror_mode = False, with_mqtt = True\<rparr>"

definition ref_stat :: stat_state where
  "ref_stat = \<lparr>stat_priv = zero_stat_private\<lparr>round_trip_contexts :=
       \<lambda>_. \<lparr>backlog = replicate 8 \<lparr>b_cycle_number = 0, b_timestamp = 0\<rparr>, backlog_len = 8\<rparr>\<rparr>,
     histos = \<lambda>_. zero_histogram, mqtt_out = [], trace_out = [], exited = False\<rparr>"

lemma ref_stat_ok: "stat_ok ref_env ref_stat" "\<not> is_mirror_mode ref_env"
  by (simp_all add: stat_ok_def backlogs_ok_def ref_stat_def ref_env_def zero_config_def)

lemma round_trip_measured_witness:
  "\<exists>st1 st'. stat_run ref_env [Sent RTC_FRAME_TYPE 9 1000000, Sent RTC_FRAME_TYPE 10 1000500] ref_stat = Some st1 \<and>
     stat_frame_received ref_env RTC_FRAME_TYPE 9 False False False 1000000 1250000 st1 = Some st'"
proof -
  let ?es = "[Sent RTC_FRAME_TYPE 10 1000500]"
  obtain st1 where r: "stat_run ref_env (Sent RTC_FRAME_TYPE 9 1000000 # ?es) ref_stat = Some st1"
    using stat_run_ok [OF ref_stat_ok(1)] by blast
  have x: "\<not> exited st1"
    using r stat_frame_sent_global(2) by (auto simp: bind_eq_Some_conv ref_stat_def split: if_splits)
  have "\<forall>e\<in>set ?es. event_type e \<noteq> RTC_FRAME_TYPE \<or> slot_of ref_stat RTC_FRAME_TYPE (cycle e) \<noteq> slot_of ref_stat RTC_FRAME_TYPE 9"
    by (simp add: slot_of_def ref_stat_def)
  from round_trip_measured [OF ref_stat_ok r x this] r show ?thesis by blast
qed



text \<open>
  A reset of one class's statistics clears the period statistics of every class:
  \<^verbatim>\<open>stats_reset_stats\<close> overwrites the whole table whatever entry it is given, so the end of
  a collection period of one class discards what the other classes have collected. The
  backlogs of sent frames are kept, and the minima restart at a quarter of a second.
\<close>

theorem reset_clears_all_periods:
  "statistics_per_period (stats_reset_stats r sp) u = reset_values \<and>
   round_trip_contexts (stats_reset_stats r sp) = round_trip_contexts sp \<and>
   global_statistics (stats_reset_all_stats sp) u = reset_values \<and>
   round_trip_min reset_values = 250000 \<and> frames_sent reset_values = 0"
proof -
  have "global_statistics (stats_reset_all_stats sp) u = reset_values"
    by (cases u) (simp_all add: stats_reset_all_stats_def all_frame_types_def stats_reset_stats_def Let_def)
  then show ?thesis
    by (simp add: stats_reset_stats_def Let_def reset_values_def USEC_PER_SEC_def zero_statistics_def split: stats_ref.split)
qed

end
