(* ===== verification/Thread.thy ===== *)
theory Thread
  imports Stats Frame
begin

text \<open>
  \<^verbatim>\<open>thread.h\<close>, \<^verbatim>\<open>thread_timer.h\<close> and \<^verbatim>\<open>thread_timer.c\<close>: the context of a worker thread and
  the timers that drive it. A timer calls back when its time has come or when the
  condition variable attached to it was signalled.
\<close>

section \<open>Data\<close>

record timer_avg_t =
  avg_sum :: u64
  avg_cnt :: u64

text \<open>
  \<open>'f\<close> stands for the callback pointers. \<open>ti_cond\<close> says whether the timer watches the
  condition variable of its thread (the only one the code ever passes).
\<close>

record 'f thread_timer_info =
  ti_name :: string
  used :: bool
  active :: bool
  ti_cond :: bool
  ti_fn :: "'f option"
  timo_ns :: u64
  end_ns :: u64
  ti_avg :: timer_avg_t

record 'f thread_timer =
  tt_name :: string
  info :: "'f thread_timer_info list"
  nb_timers :: u16
  tt_stop :: bool
  stopped :: bool

definition RX_TIMER :: nat where "RX_TIMER = 0"
definition TX_TIMER :: nat where "TX_TIMER = 1"
definition TXGEN_TIMER :: nat where "TXGEN_TIMER = 2"
definition MAX_TIMERS :: nat where "MAX_TIMERS = 3"
definition MAX_DEFAULT_TIMERS :: nat where "MAX_DEFAULT_TIMERS = 4"
definition TIMER_NAME_LENGTH :: nat where "TIMER_NAME_LENGTH = 32"

text \<open>
  \<^verbatim>\<open>struct thread_context\<close>. \<open>next_ctx\<close> is the index of the next thread of the chain. A
  pointer to memory is the bytes behind it, \<open>None\<close> when it is null or dangling. \<open>'c\<close> is
  the type of the OpenSSL contexts.
\<close>

record ('f, 'c) thread_context =
  name :: string
  stop :: bool
  lcore_id :: int
  mbufs :: bool
  rx_sequence_counter :: u64
  tx_sequence_counter :: u64
  next_ctx :: "nat option"
  data_cond_var :: u16
  num_frames_available :: u64
  is_first :: bool
  meta_data_offset :: u32
  tx_security_context :: "'c option"
  rx_security_context :: "'c option"
  ctx_payload_pattern :: "bytes option"
  ctx_payload_pattern_length :: u64
  rx_do_once :: u16
  tx_do_once :: u16
  tx_gen_do_once :: u16
  timer :: "'f thread_timer option"

text \<open>A clock that may be read any number of times: \<open>ticks\<close> counts the readings made.\<close>

record ('f, 'c) clocked = "('f, 'c) thread_context" +
  ticks :: nat

definition clock_gettime_ns ::
  "(nat \<Rightarrow> u64) \<Rightarrow> ('f, 'c, 'z) clocked_scheme \<Rightarrow> u64 \<times> ('f, 'c, 'z) clocked_scheme" where
  "clock_gettime_ns clk w = (clk (ticks w), w\<lparr>ticks := ticks w + 1\<rparr>)"

section \<open>Timer operations\<close>

definition strlcpy :: "string \<Rightarrow> nat \<Rightarrow> string" where
  "strlcpy s n = take (n - 1) s"

definition zero_info :: "'f thread_timer_info" where
  "zero_info = \<lparr>ti_name = [], used = False, active = False, ti_cond = False, ti_fn = None,
                timo_ns = 0, end_ns = 0, ti_avg = \<lparr>avg_sum = 0, avg_cnt = 0\<rparr>\<rparr>"

text \<open>
  \<^verbatim>\<open>thread_timer_alloc\<close>: \<open>leaked\<close> counts the timer structures that are no longer
  reachable. The second component of the result is the timer appended to the global
  timer list.
\<close>

definition thread_timer_alloc ::
  "bool \<Rightarrow> bool \<Rightarrow> string \<Rightarrow> byte \<Rightarrow> ('f, 'c, 'z) thread_context_scheme
    \<Rightarrow> int \<times> 'f thread_timer option \<times> nat \<times> ('f, 'c, 'z) thread_context_scheme" where
  "thread_timer_alloc timer_ok info_ok nm nb ctx =
     (let n = (if nb = 0 then MAX_DEFAULT_TIMERS else unat nb);
          t = \<lparr>tt_name = strlcpy nm TIMER_NAME_LENGTH, info = replicate n zero_info,
               nb_timers = of_nat n, tt_stop = False, stopped = False\<rparr>
      in if \<not> timer_ok then (-1, None, 0, ctx)
         else if \<not> info_ok then (-1, None, 1, ctx)
         else (0, Some t, 0, ctx\<lparr>timer := Some t\<rparr>))"

text \<open>
  \<^verbatim>\<open>thread_timer_quit\<close>: \<open>stops_in_time\<close> is whether the loop of the timer ends within the
  two seconds the function waits.
\<close>

definition thread_timer_quit :: "bool \<Rightarrow> 'f thread_timer \<Rightarrow> 'f thread_timer" where
  "thread_timer_quit stops_in_time t = t\<lparr>tt_stop := True, stopped := stopped t \<or> stops_in_time\<rparr>"

definition thread_timer_free ::
  "('f, 'c, 'z) thread_context_scheme option \<Rightarrow> ('f, 'c, 'z) thread_context_scheme option" where
  "thread_timer_free c =
     (case c of None \<Rightarrow> None
      | Some ctx \<Rightarrow> (case timer ctx of None \<Rightarrow> Some ctx | Some t \<Rightarrow> Some (ctx\<lparr>timer := None\<rparr>)))"

definition thread_timer_add ::
  "nat \<Rightarrow> string \<Rightarrow> bool \<Rightarrow> 'f \<Rightarrow> u64 \<Rightarrow> u64 \<Rightarrow> ('f, 'c, 'z) thread_context_scheme
    \<Rightarrow> (int \<times> ('f, 'c, 'z) thread_context_scheme) option" where
  "thread_timer_add i nm cond f curr_ns timo ctx =
     (case timer ctx of None \<Rightarrow> Some (-1, ctx)
      | Some t \<Rightarrow>
          if i < length (info t)
          then let ti = info t ! i
               in if \<not> used ti
                  then Some (0, ctx\<lparr>timer := Some (t\<lparr>info := (info t)[i :=
                         ti\<lparr>used := True, ti_name := strlcpy nm TIMER_NAME_LENGTH, ti_cond := cond,
                            ti_fn := Some f, timo_ns := timo, end_ns := curr_ns + timo, active := True\<rparr>]\<rparr>)\<rparr>)
                  else Some (-1, ctx)
          else None)"

definition thread_timer_set ::
  "nat \<Rightarrow> u64 \<Rightarrow> ('f, 'c, 'z) thread_context_scheme \<Rightarrow> ('f, 'c, 'z) thread_context_scheme option" where
  "thread_timer_set i timo ctx =
     (case timer ctx of None \<Rightarrow> None
      | Some t \<Rightarrow> if i < length (info t)
                  then Some (ctx\<lparr>timer := Some (t\<lparr>info := (info t)[i := (info t ! i)\<lparr>timo_ns := timo\<rparr>]\<rparr>)\<rparr>)
                  else None)"

definition thread_timer_end_ns :: "('f, 'c, 'z) thread_context_scheme option \<Rightarrow> nat \<Rightarrow> u64 option" where
  "thread_timer_end_ns c i =
     (case c of None \<Rightarrow> Some 0
      | Some ctx \<Rightarrow> (case timer ctx of None \<Rightarrow> None
         | Some t \<Rightarrow> if i \<ge> unat (nb_timers t) then Some 0
                     else if i < length (info t) then Some (end_ns (info t ! i)) else None))"

definition timer_average :: "timer_avg_t \<Rightarrow> double" where
  "timer_average a =
     double_div (double_of_u64 (avg_sum a)) (double_of_u64 (if avg_cnt a = 0 then 1 else avg_cnt a))"

definition thread_timer_avg :: "('f, 'c, 'z) thread_context_scheme \<Rightarrow> stat_avg option" where
  "thread_timer_avg ctx =
     (case timer ctx of None \<Rightarrow> None
      | Some t \<Rightarrow>
          if TXGEN_TIMER < length (info t)
          then Some \<lparr>avg_rx = timer_average (ti_avg (info t ! RX_TIMER)),
                     avg_tx = timer_average (ti_avg (info t ! TX_TIMER)),
                     avg_txgen = timer_average (ti_avg (info t ! TXGEN_TIMER))\<rparr>
          else None)"

definition thread_timer_stop_all :: "('f thread_timer \<Rightarrow> bool) \<Rightarrow> 'f thread_timer list \<Rightarrow> 'f thread_timer list" where
  "thread_timer_stop_all stops_in_time ts = map (\<lambda>t. thread_timer_quit (stops_in_time t) t) ts"

text \<open>
  \<^verbatim>\<open>wait_sync_time\<close>: the absolute wake-up second, the next multiple of 16 seconds plus the
  aligned request. \<^verbatim>\<open>RTE_ALIGN\<close> rounds up to a multiple of its power of two.
\<close>

definition RTE_ALIGN :: "u32 \<Rightarrow> u32 \<Rightarrow> u32" where
  "RTE_ALIGN v a = (v + (a - 1)) AND NOT (a - 1)"

definition wait_sync_time :: "u32 \<Rightarrow> timespec \<Rightarrow> timespec option" where
  "wait_sync_time requested now =
     (if requested > 0
      then let sec = RTE_ALIGN requested MIN_WAIT_TIME
           in Some \<lparr>tv_sec = (tv_sec now AND NOT 15) + uint sec, tv_nsec = 0\<rparr>
      else None)"

section \<open>The timer loop\<close>

text \<open>
  \<^verbatim>\<open>thread_timer_run\<close>: \<open>timer_start\<close> is the loop before the main loop, \<open>timer_slot\<close> one
  iteration of the inner loop, \<open>timer_pass\<close> the inner loop, and \<open>timer_loop\<close> the main
  loop, with fuel. \<open>call\<close> runs a callback. Between two passes other threads act on this
  one: \<open>interfere\<close> is what they do before the given pass.
\<close>

fun timer_start :: "(nat \<Rightarrow> u64) \<Rightarrow> nat \<Rightarrow> ('f, 'c, 'z) clocked_scheme \<Rightarrow> ('f, 'c, 'z) clocked_scheme" where
  "timer_start clk 0 w = w"
| "timer_start clk (Suc n) w =
     (let w = timer_start clk n w in
      case timer w of None \<Rightarrow> w
      | Some t \<Rightarrow> case clock_gettime_ns clk w of (now, w) \<Rightarrow>
          w\<lparr>timer := Some (t\<lparr>info := (info t)[n := (info t ! n)\<lparr>end_ns := now + timo_ns (info t ! n)\<rparr>]\<rparr>)\<rparr>)"

definition timer_advance :: "nat \<Rightarrow> ('f, 'c, 'z) clocked_scheme \<Rightarrow> ('f, 'c, 'z) clocked_scheme option" where
  "timer_advance i w =
     (case timer w of None \<Rightarrow> None
      | Some t \<Rightarrow>
          if i < length (info t)
          then Some (w\<lparr>timer := Some (t\<lparr>info := (info t)[i :=
                 (info t ! i)\<lparr>end_ns := end_ns (info t ! i) + timo_ns (info t ! i)\<rparr>]\<rparr>)\<rparr>)
          else None)"

definition timer_slot ::
  "(nat \<Rightarrow> u64) \<Rightarrow> ('f \<Rightarrow> bool \<Rightarrow> ('f, 'c, 'z) clocked_scheme \<Rightarrow> ('f, 'c, 'z) clocked_scheme option)
    \<Rightarrow> nat \<Rightarrow> ('f, 'c, 'z) clocked_scheme \<Rightarrow> ('f, 'c, 'z) clocked_scheme option" where
  "timer_slot clk call i w =
     (case timer w of None \<Rightarrow> None
      | Some t \<Rightarrow>
        if i < length (info t)
        then let ti = info t ! i in
          if \<not> active ti then Some w
          else case (if ti_cond ti then is_signaled (data_cond_var w) else (data_cond_var w, False)) of (v, signaled) \<Rightarrow>
            (case clock_gettime_ns clk (w\<lparr>data_cond_var := v\<rparr>) of (curr_ns, w) \<Rightarrow>
               if curr_ns \<ge> end_ns ti \<or> signaled
               then (case ti_fn ti of None \<Rightarrow> None
                     | Some f \<Rightarrow> do { w \<leftarrow> call f signaled w; timer_advance i w })
               else Some w)
        else None)"

fun timer_pass ::
  "(nat \<Rightarrow> u64) \<Rightarrow> ('f \<Rightarrow> bool \<Rightarrow> ('f, 'c, 'z) clocked_scheme \<Rightarrow> ('f, 'c, 'z) clocked_scheme option)
    \<Rightarrow> nat list \<Rightarrow> ('f, 'c, 'z) clocked_scheme \<Rightarrow> ('f, 'c, 'z) clocked_scheme option" where
  "timer_pass clk call [] w = Some w"
| "timer_pass clk call (i # is) w = do { w \<leftarrow> timer_slot clk call i w; timer_pass clk call is w }"

fun timer_loop ::
  "(nat \<Rightarrow> u64) \<Rightarrow> ('f \<Rightarrow> bool \<Rightarrow> ('f, 'c, 'z) clocked_scheme \<Rightarrow> ('f, 'c, 'z) clocked_scheme option)
    \<Rightarrow> (nat \<Rightarrow> ('f, 'c, 'z) clocked_scheme \<Rightarrow> ('f, 'c, 'z) clocked_scheme)
    \<Rightarrow> nat \<Rightarrow> nat \<Rightarrow> ('f, 'c, 'z) clocked_scheme \<Rightarrow> ('f, 'c, 'z) clocked_scheme option" where
  "timer_loop clk call interfere k 0 w = None"
| "timer_loop clk call interfere k (Suc fuel) w =
     (let w = interfere k w in
      case timer w of None \<Rightarrow> None
      | Some t \<Rightarrow>
        if tt_stop t then Some (w\<lparr>timer := Some (t\<lparr>stopped := True\<rparr>)\<rparr>)
        else do { w \<leftarrow> timer_pass clk call [0..<unat (nb_timers t)] w;
                  timer_loop clk call interfere (Suc k) fuel w })"

definition thread_timer_run ::
  "(nat \<Rightarrow> u64) \<Rightarrow> ('f \<Rightarrow> bool \<Rightarrow> ('f, 'c, 'z) clocked_scheme \<Rightarrow> ('f, 'c, 'z) clocked_scheme option)
    \<Rightarrow> (nat \<Rightarrow> ('f, 'c, 'z) clocked_scheme \<Rightarrow> ('f, 'c, 'z) clocked_scheme)
    \<Rightarrow> nat \<Rightarrow> ('f, 'c, 'z) clocked_scheme \<Rightarrow> (int \<times> ('f, 'c, 'z) clocked_scheme) option" where
  "thread_timer_run clk call interfere fuel w =
     (case timer w of None \<Rightarrow> Some (-1, w)
      | Some t \<Rightarrow> do {
          w \<leftarrow> timer_loop clk call interfere 0 fuel (timer_start clk (unat (nb_timers t)) w);
          Some (0, w) })"

section \<open>The contract of the callbacks\<close>

text \<open>
  A usable timer: the info array has the announced length, at least the three slots of
  \<^verbatim>\<open>timer_id_t\<close>, and every active slot has a callback.
\<close>

definition timer_wf :: "'f thread_timer option \<Rightarrow> bool" where
  "timer_wf t \<longleftrightarrow> (case t of None \<Rightarrow> False
     | Some t \<Rightarrow> length (info t) = unat (nb_timers t) \<and> MAX_TIMERS \<le> length (info t) \<and>
         (\<forall>ti\<in>set (info t). active ti \<longrightarrow> ti_fn ti \<noteq> None))"

text \<open>Two timers that differ in the periods of their slots only.\<close>

definition timer_frame :: "'f thread_timer option \<Rightarrow> 'f thread_timer option \<Rightarrow> bool" where
  "timer_frame t t' \<longleftrightarrow> rel_option (\<lambda>a b. nb_timers b = nb_timers a \<and> tt_stop b = tt_stop a \<and>
     list_all2 (\<lambda>x y. y\<lparr>timo_ns := 0\<rparr> = x\<lparr>timo_ns := 0\<rparr>) (info a) (info b)) t t'"

lemma timer_frame_refl [simp]: "timer_frame t t"
  by (cases t) (simp_all add: timer_frame_def list_all2_same)

lemma timer_frame_wf: "timer_frame t t' \<Longrightarrow> timer_wf t \<Longrightarrow> timer_wf t'"
proof -
  assume f: "timer_frame t t'" and w: "timer_wf t"
  then obtain a where t: "t = Some a" by (auto simp: timer_wf_def split: option.splits)
  with f obtain b where t': "t' = Some b" and nb: "nb_timers b = nb_timers a"
    and l: "list_all2 (\<lambda>x y. y\<lparr>timo_ns := 0\<rparr> = x\<lparr>timo_ns := 0\<rparr>) (info a) (info b)"
    by (auto simp: timer_frame_def elim: option.rel_cases)
  have len: "length (info b) = length (info a)" using l by (simp add: list_all2_lengthD)
  have "active y \<longrightarrow> ti_fn y \<noteq> None" if y: "y \<in> set (info b)" for y
  proof -
    obtain i where i: "i < length (info b)" "y = info b ! i" using y by (auto simp: in_set_conv_nth)
    then have e: "y\<lparr>timo_ns := 0\<rparr> = (info a ! i)\<lparr>timo_ns := 0\<rparr>"
      using l len by (auto simp: list_all2_conv_all_nth)
    have "active y = active (info a ! i)" "ti_fn y = ti_fn (info a ! i)"
      using arg_cong [OF e, of active] arg_cong [OF e, of ti_fn] by simp_all
    then show ?thesis using w t i len by (auto simp: timer_wf_def)
  qed
  then show "timer_wf t'" using w t t' nb len by (auto simp: timer_wf_def)
qed

lemma thread_timer_set_ok:
  assumes "timer_wf (timer ctx)" and "i < MAX_TIMERS"
  shows "\<exists>t. thread_timer_set i d ctx = Some (ctx\<lparr>timer := t\<rparr>) \<and> timer_frame (timer ctx) t"
proof -
  obtain a where t: "timer ctx = Some a" and i: "i < length (info a)"
    using assms by (auto simp: timer_wf_def split: option.splits)
  have "timer_frame (Some a) (Some (a\<lparr>info := (info a)[i := (info a ! i)\<lparr>timo_ns := d\<rparr>]\<rparr>))"
    using i by (simp add: timer_frame_def list_all2_conv_all_nth) (metis (no_types, lifting) nth_list_update thread_timer_info.surjective thread_timer_info.update_convs(6))
  then show ?thesis using t i by (auto simp: thread_timer_set_def)
qed

definition timer_nb :: "('f, 'c, 'z) thread_context_scheme \<Rightarrow> nat" where
  "timer_nb w = (case timer w of None \<Rightarrow> 0 | Some t \<Rightarrow> unat (nb_timers t))"

definition timer_stop :: "('f, 'c, 'z) thread_context_scheme \<Rightarrow> bool" where
  "timer_stop w = (case timer w of None \<Rightarrow> False | Some t \<Rightarrow> tt_stop t)"

lemma timer_frame_nb_stop:
  assumes "timer_frame (timer w) (timer w')"
  shows "timer_nb w' = timer_nb w" and "timer_stop w' = timer_stop w"
  using assms by (auto simp: timer_frame_def timer_nb_def timer_stop_def elim!: option.rel_cases)

lemma timer_advance_ok:
  assumes "timer_wf (timer w)" and "i < timer_nb w"
  shows "\<exists>t. timer_advance i w = Some (w\<lparr>timer := Some t\<rparr>) \<and> timer_wf (Some t) \<and>
             timer_nb (w\<lparr>timer := Some t\<rparr>) = timer_nb w \<and> timer_stop (w\<lparr>timer := Some t\<rparr>) = timer_stop w"
proof -
  obtain a where t: "timer w = Some a" and i: "i < length (info a)"
    using assms by (auto simp: timer_wf_def timer_nb_def split: option.splits)
  have "\<forall>ti\<in>set ((info a)[i := (info a ! i)\<lparr>end_ns := e\<rparr>]). active ti \<longrightarrow> ti_fn ti \<noteq> None" for e
    using assms(1) t i set_update_subset_insert [of "info a" i "(info a ! i)\<lparr>end_ns := e\<rparr>"]
    by (auto simp: timer_wf_def)
  then show ?thesis
    using assms(1) t i by (auto simp: timer_advance_def timer_wf_def timer_nb_def timer_stop_def)
qed

locale timer_client =
  fixes call :: "'f \<Rightarrow> bool \<Rightarrow> ('f, 'c, 'z) clocked_scheme \<Rightarrow> ('f, 'c, 'z) clocked_scheme option"
    and inv :: "('f, 'c, 'z) clocked_scheme \<Rightarrow> bool"
  assumes call_ok: "inv w \<Longrightarrow> timer_wf (timer w) \<Longrightarrow>
      \<exists>w'. call f s w = Some w' \<and> inv w' \<and> timer_frame (timer w) (timer w')"
    and inv_timer: "inv w \<Longrightarrow> inv (w\<lparr>timer := t\<rparr>)"
    and inv_cond: "inv w \<Longrightarrow> inv (w\<lparr>data_cond_var := v\<rparr>)"
    and inv_ticks: "inv w \<Longrightarrow> inv (w\<lparr>ticks := k\<rparr>)"
begin

lemma slot_ok:
  assumes "inv w" and "timer_wf (timer w)" and "i < timer_nb w"
  shows "\<exists>w'. timer_slot clk call i w = Some w' \<and> inv w' \<and> timer_wf (timer w') \<and>
              timer_nb w' = timer_nb w \<and> timer_stop w' = timer_stop w"
proof -
  obtain t where t: "timer w = Some t" and i: "i < length (info t)"
    using assms by (auto simp: timer_wf_def timer_nb_def split: option.splits)
  obtain v s where vs: "(if ti_cond (info t ! i) then is_signaled (data_cond_var w) else (data_cond_var w, False)) = (v, s)"
    by fastforce
  define w1 where "w1 = w\<lparr>data_cond_var := v\<rparr>\<lparr>ticks := ticks w + 1\<rparr>"
  have w1: "inv w1" "timer w1 = timer w" by (simp_all add: w1_def inv_ticks inv_cond assms(1))
  have same: "timer_nb w1 = timer_nb w" "timer_stop w1 = timer_stop w"
    by (simp_all add: timer_nb_def timer_stop_def w1(2))
  show ?thesis
  proof (cases "active (info t ! i) \<and> (clk (ticks w) \<ge> end_ns (info t ! i) \<or> s)")
    case True
    then obtain f where f: "ti_fn (info t ! i) = Some f"
      using assms(2) t i by (auto simp: timer_wf_def dest: nth_mem)
    obtain w2 where w2: "call f s w1 = Some w2" "inv w2" and fr: "timer_frame (timer w1) (timer w2)"
      using call_ok [of w1 f s] w1 assms(2) by auto
    have wf2: "timer_wf (timer w2)" using timer_frame_wf [OF fr] w1(2) assms(2) by simp
    have nb2: "timer_nb w2 = timer_nb w" "timer_stop w2 = timer_stop w"
      using timer_frame_nb_stop [OF fr] same by simp_all
    obtain t3 where "timer_advance i w2 = Some (w2\<lparr>timer := Some t3\<rparr>)" "timer_wf (Some t3)"
      "timer_nb (w2\<lparr>timer := Some t3\<rparr>) = timer_nb w2" "timer_stop (w2\<lparr>timer := Some t3\<rparr>) = timer_stop w2"
      using timer_advance_ok [OF wf2] assms(3) nb2 by auto
    then show ?thesis
      using True f t i vs w2 nb2 inv_timer [OF w2(2)]
      by (auto simp: timer_slot_def Let_def clock_gettime_ns_def w1_def)
  next
    case False
    then show ?thesis
      using t i vs assms w1 same
      by (auto simp: timer_slot_def Let_def clock_gettime_ns_def w1_def)
  qed
qed

lemma pass_ok:
  assumes "inv w" and "timer_wf (timer w)" and "\<forall>i\<in>set is. i < timer_nb w"
  shows "\<exists>w'. timer_pass clk call is w = Some w' \<and> inv w' \<and> timer_wf (timer w') \<and>
              timer_nb w' = timer_nb w \<and> timer_stop w' = timer_stop w"
  using assms
proof (induction "is" arbitrary: w)
  case Nil
  then show ?case by simp
next
  case (Cons i "is")
  obtain w1 where 1: "timer_slot clk call i w = Some w1" "inv w1" "timer_wf (timer w1)"
    "timer_nb w1 = timer_nb w" "timer_stop w1 = timer_stop w"
    using slot_ok [OF Cons.prems(1,2), of i clk] Cons.prems(3) by auto
  then show ?case using Cons.IH [of w1] Cons.prems(3) by auto
qed

text \<open>Once the stop flag is set before pass \<open>k + n\<close>, fuel for \<open>n + 1\<close> more rounds is enough.\<close>

lemma loop_returns:
  assumes "inv w" and "timer_wf (timer w)"
    and keep: "\<And>k w. inv w \<Longrightarrow> timer_wf (timer w) \<Longrightarrow> inv (interfere k w) \<and> timer_wf (timer (interfere k w))"
    and stop: "\<And>w. timer_wf (timer w) \<Longrightarrow> timer_stop (interfere (k + n) w)"
    and fuel: "n < fuel"
  shows "\<exists>w'. timer_loop clk call interfere k fuel w = Some w' \<and> inv w' \<and>
              (\<exists>t. timer w' = Some t \<and> stopped t)"
  using assms(1,2) stop fuel
proof (induction n arbitrary: k w fuel)
  case 0
  then obtain fuel' where f: "fuel = Suc fuel'" by (cases fuel) auto
  have ok: "inv (interfere k w)" "timer_wf (timer (interfere k w))" using keep 0 by blast+
  then obtain t where t: "timer (interfere k w) = Some t" "tt_stop t"
    using 0(3) [OF 0(2)] by (auto simp: timer_wf_def timer_stop_def split: option.splits)
  then show ?case using f ok inv_timer by (auto simp: Let_def)
next
  case (Suc n)
  then obtain fuel' where f: "fuel = Suc fuel'" by (cases fuel) auto
  have ok: "inv (interfere k w)" "timer_wf (timer (interfere k w))" using keep Suc.prems by blast+
  then obtain t where t: "timer (interfere k w) = Some t"
    by (auto simp: timer_wf_def split: option.splits)
  show ?case
  proof (cases "tt_stop t")
    case True
    then show ?thesis using f ok t inv_timer by (auto simp: Let_def)
  next
    case False
    obtain w1 where 1: "timer_pass clk call [0..<unat (nb_timers t)] (interfere k w) = Some w1"
      "inv w1" "timer_wf (timer w1)"
      using pass_ok [OF ok, of "[0..<unat (nb_timers t)]" clk] t by (auto simp: timer_nb_def)
    then show ?thesis
      using Suc.IH [of w1 "Suc k" fuel'] Suc.prems f t False by (auto simp: Let_def)
  qed
qed

lemma start_ok:
  assumes "inv w" and "timer_wf (timer w)" and "n \<le> timer_nb w"
  shows "inv (timer_start clock n w) \<and> timer_wf (timer (timer_start clock n w)) \<and>
         timer_nb (timer_start clock n w) = timer_nb w"
  using assms(3)
proof (induction n)
  case 0
  then show ?case using assms by simp
next
  case (Suc n)
  let ?w = "timer_start clock n w"
  have IH: "inv ?w" "timer_wf (timer ?w)" "timer_nb ?w = timer_nb w" using Suc by simp_all
  obtain t where t: "timer ?w = Some t" using IH(2) by (auto simp: timer_wf_def split: option.splits)
  then have n: "n < length (info t)" using IH Suc.prems by (auto simp: timer_wf_def timer_nb_def)
  let ?x = "(info t ! n)\<lparr>end_ns := clock (ticks ?w) + timo_ns (info t ! n)\<rparr>"
  have "\<forall>ti\<in>set ((info t)[n := ?x]). active ti \<longrightarrow> ti_fn ti \<noteq> None"
    using IH(2) t n set_update_subset_insert [of "info t" n ?x] by (auto simp: timer_wf_def)
  then show ?case
    using IH t n by (auto simp: Let_def clock_gettime_ns_def timer_wf_def timer_nb_def inv_timer inv_ticks)
qed

lemma run_returns:
  assumes "inv w" and "timer_wf (timer w)"
    and keep: "\<And>k w. inv w \<Longrightarrow> timer_wf (timer w) \<Longrightarrow> inv (interfere k w) \<and> timer_wf (timer (interfere k w))"
    and stop: "\<And>w. timer_wf (timer w) \<Longrightarrow> timer_stop (interfere n w)" and fuel: "n < fuel"
  shows "\<exists>w'. thread_timer_run clock call interfere fuel w = Some (0, w') \<and> inv w' \<and>
              (\<exists>t. timer w' = Some t \<and> stopped t)"
proof -
  obtain t where t: "timer w = Some t" using assms(2) by (auto simp: timer_wf_def split: option.splits)
  have s: "inv (timer_start clock (unat (nb_timers t)) w)" "timer_wf (timer (timer_start clock (unat (nb_timers t)) w))"
    using start_ok [OF assms(1,2), of "unat (nb_timers t)" clock] t by (simp_all add: timer_nb_def)
  have "\<exists>w'. timer_loop clock call interfere 0 fuel (timer_start clock (unat (nb_timers t)) w) = Some w' \<and> inv w' \<and>
              (\<exists>t. timer w' = Some t \<and> stopped t)"
    by (rule loop_returns [OF s, where n = n]) (use keep stop fuel in simp_all)
  then show ?thesis using t by (auto simp: thread_timer_run_def)
qed

end

end
