(* ===== verification/Functions.thy ===== *)
theory Functions
  imports Thread
begin

text \<open>
  \<^verbatim>\<open>functions.h\<close> and \<^verbatim>\<open>functions.c\<close>: the registry of the program's functions (one slot per
  component), starting and stopping them in order, and linking the PROFINET threads into
  the chain along which each transmission signals the next class.
\<close>

section \<open>The registry\<close>

definition NO_IDX :: int where "NO_IDX = -1"
definition CONFIG_IDX :: nat where "CONFIG_IDX = 0"
definition LPORT_IDX :: nat where "LPORT_IDX = 1"
definition LOG_IDX :: nat where "LOG_IDX = 2"
definition LOG_VIA_MQTT_IDX :: nat where "LOG_VIA_MQTT_IDX = 3"
definition STAT_IDX :: nat where "STAT_IDX = 4"
definition HISTOGRAM_IDX :: nat where "HISTOGRAM_IDX = 5"
definition PKT_HANDLER_IDX :: nat where "PKT_HANDLER_IDX = 6"
definition L2_IDX :: nat where "L2_IDX = 7"
definition TSN_HIGH_IDX :: nat where "TSN_HIGH_IDX = 8"
definition TSN_LOW_IDX :: nat where "TSN_LOW_IDX = 9"
definition RTC_IDX :: nat where "RTC_IDX = 10"
definition RTA_IDX :: nat where "RTA_IDX = 11"
definition DCP_IDX :: nat where "DCP_IDX = 12"
definition LLDP_IDX :: nat where "LLDP_IDX = 13"
definition UDP_HIGH_IDX :: nat where "UDP_HIGH_IDX = 14"
definition UDP_LOW_IDX :: nat where "UDP_LOW_IDX = 15"
definition MAX_FUNCTIONS :: nat where "MAX_FUNCTIONS = 16"
definition MAX_PN_TYPES :: nat where "MAX_PN_TYPES = MAX_FUNCTIONS - TSN_HIGH_IDX"

lemmas idx_defs =
  CONFIG_IDX_def LPORT_IDX_def LOG_IDX_def LOG_VIA_MQTT_IDX_def STAT_IDX_def HISTOGRAM_IDX_def
  PKT_HANDLER_IDX_def L2_IDX_def TSN_HIGH_IDX_def TSN_LOW_IDX_def RTC_IDX_def RTA_IDX_def DCP_IDX_def
  LLDP_IDX_def UDP_HIGH_IDX_def UDP_LOW_IDX_def MAX_FUNCTIONS_def MAX_PN_TYPES_def

text \<open>\<open>'p\<close> stands for the function pointers; \<open>thread_ctx\<close> is the index of the thread context.\<close>

record 'p function_t =
  f_valid :: bool
  f_name :: string
  init_fn :: "'p option"
  launch_fn :: "'p option"
  deinit_fn :: "'p option"
  thread_idx :: int
  thread_ctx :: nat

record ('p, 'f, 'c) registry =
  funcs :: "'p function_t list"
  threads :: "('f, 'c) thread_context list"

text \<open>A call either returns or ends the program through \<^verbatim>\<open>rte_exit\<close>.\<close>

datatype 's run = Exited 's | Returned int 's

fun run_state :: "'s run \<Rightarrow> 's" where
  "run_state (Exited s) = s"
| "run_state (Returned r s) = s"

definition function_register ::
  "'p function_t option \<Rightarrow> ('p, 'f, 'c) registry \<Rightarrow> ('p, 'f, 'c) registry run option" where
  "function_register f r =
     (case f of None \<Rightarrow> Some (Exited r)
      | Some fn \<Rightarrow>
        let idx = thread_idx fn in
        if idx \<ge> int MAX_FUNCTIONS then Some (Exited r)
        else if idx < 0 \<or> nat idx \<ge> length (funcs r) \<or> nat idx \<ge> length (threads r) then None
        else let i = nat idx in
          if f_valid (funcs r ! i) then Some (Exited r)
          else Some (Returned 0
                 (r\<lparr>funcs := (funcs r)[i := fn\<lparr>f_valid := True, thread_ctx := i\<rparr>],
                    threads := (threads r)[i := (threads r ! i)\<lparr>name := f_name fn\<rparr>]\<rparr>)))"

text \<open>
  \<open>call p i s\<close> runs the function behind pointer \<open>p\<close> on the context of thread \<open>i\<close>.
\<close>

fun function_call_all ::
  "('p function_t \<Rightarrow> 'p option) \<Rightarrow> ('p \<Rightarrow> nat \<Rightarrow> 's \<Rightarrow> int \<times> 's) \<Rightarrow> 'p function_t list \<Rightarrow> 's \<Rightarrow> 's run" where
  "function_call_all sel call [] s = Returned 0 s"
| "function_call_all sel call (fn # fs) s =
     (if \<not> f_valid fn then function_call_all sel call fs s
      else case sel fn of None \<Rightarrow> function_call_all sel call fs s
      | Some p \<Rightarrow> (case call p (thread_ctx fn) s of (r, s) \<Rightarrow>
          if r \<noteq> 0 then Exited s else function_call_all sel call fs s))"

definition function_init_all ::
  "('p \<Rightarrow> nat \<Rightarrow> 's \<Rightarrow> int \<times> 's) \<Rightarrow> 'p function_t list \<Rightarrow> 's \<Rightarrow> 's run" where
  "function_init_all call fs s = function_call_all init_fn call fs s"

definition function_launch_all ::
  "('p \<Rightarrow> nat \<Rightarrow> 's \<Rightarrow> int \<times> 's) \<Rightarrow> 'p function_t list \<Rightarrow> 's \<Rightarrow> 's run" where
  "function_launch_all call fs s = function_call_all launch_fn call fs s"

definition function_stop_all :: "('p, 'f, 'c) registry \<Rightarrow> ('p, 'f, 'c) registry" where
  "function_stop_all r =
     r\<lparr>threads := fold (\<lambda>fn ts. if f_valid fn
                               then ts[thread_ctx fn := (ts ! thread_ctx fn)\<lparr>stop := True\<rparr>] else ts)
                      (funcs r) (threads r)\<rparr>"

definition function_free_all :: "('p \<Rightarrow> nat \<Rightarrow> 's \<Rightarrow> 's) \<Rightarrow> 'p function_t list \<Rightarrow> 's \<Rightarrow> 's" where
  "function_free_all call fs s =
     fold (\<lambda>fn s. if f_valid fn then (case deinit_fn fn of None \<Rightarrow> s | Some p \<Rightarrow> call p (thread_ctx fn) s) else s)
          (rev fs) s"

section \<open>The chain of PROFINET threads\<close>

text \<open>
  The cases of the \<^verbatim>\<open>switch\<close> in \<^verbatim>\<open>find_next_pn_thread\<close>, in order: the label, the class
  whose activity is tested there and the thread returned. A case that does not return
  falls through to the next one.
\<close>

definition pn_cases :: "(nat \<times> stat_frame_type \<times> nat) list" where
  "pn_cases =
     [(TSN_HIGH_IDX, TSN_LOW_FRAME_TYPE, TSN_LOW_IDX),
      (TSN_LOW_IDX, RTC_FRAME_TYPE, RTC_IDX),
      (RTC_IDX, RTA_FRAME_TYPE, RTA_IDX),
      (RTA_IDX, DCP_FRAME_TYPE, DCP_IDX),
      (DCP_IDX, LLDP_FRAME_TYPE, LLDP_IDX),
      (LLDP_IDX, UDP_HIGH_FRAME_TYPE, UDP_HIGH_IDX),
      (UDP_HIGH_IDX, UDP_LOW_FRAME_TYPE, UDP_LOW_IDX)]"

fun switch_fallthrough :: "application_config \<Rightarrow> (nat \<times> stat_frame_type \<times> nat) list \<Rightarrow> nat option" where
  "switch_fallthrough c [] = None"
| "switch_fallthrough c ((_, t, i) # cs) =
     (if CONFIG_IS_TRAFFIC_CLASS_ACTIVE c t then Some i else switch_fallthrough c cs)"

definition find_next_pn_thread :: "application_config \<Rightarrow> nat \<Rightarrow> nat option" where
  "find_next_pn_thread c start = switch_fallthrough c (dropWhile (\<lambda>(l, _). l \<noteq> start) pn_cases)"

definition set_first :: "nat \<Rightarrow> ('f, 'c) thread_context list \<Rightarrow> ('f, 'c) thread_context list" where
  "set_first i ts = ts[i := (ts ! i)\<lparr>is_first := True\<rparr>]"

definition function_link_pn_threads ::
  "application_config \<Rightarrow> ('f, 'c) thread_context list \<Rightarrow> int \<times> ('f, 'c) thread_context list" where
  "function_link_pn_threads c ts =
     (let ts = fold (\<lambda>i ts. ts[TSN_HIGH_IDX + i :=
                  (ts ! (TSN_HIGH_IDX + i))\<lparr>next_ctx := find_next_pn_thread c (TSN_HIGH_IDX + i)\<rparr>])
                [0..<MAX_PN_TYPES] ts
      in if CONFIG_IS_TRAFFIC_CLASS_ACTIVE c TSN_HIGH_FRAME_TYPE then (0, set_first TSN_HIGH_IDX ts)
         else if CONFIG_IS_TRAFFIC_CLASS_ACTIVE c RTC_FRAME_TYPE then (0, set_first RTC_IDX ts)
         else if CONFIG_IS_TRAFFIC_CLASS_ACTIVE c L2_FRAME_TYPE then (0, ts)
         else (- EINVAL, ts))"

section \<open>Laws\<close>

text \<open>The traffic class served by a PROFINET thread.\<close>

definition pn_order :: "(nat \<times> stat_frame_type) list" where
  "pn_order = [(8, TSN_HIGH_FRAME_TYPE), (9, TSN_LOW_FRAME_TYPE), (10, RTC_FRAME_TYPE), (11, RTA_FRAME_TYPE),
               (12, DCP_FRAME_TYPE), (13, LLDP_FRAME_TYPE), (14, UDP_HIGH_FRAME_TYPE), (15, UDP_LOW_FRAME_TYPE)]"

definition pn_active :: "application_config \<Rightarrow> nat \<Rightarrow> bool" where
  "pn_active c i \<longleftrightarrow> (\<exists>t. (i, t) \<in> set pn_order \<and> CONFIG_IS_TRAFFIC_CLASS_ACTIVE c t)"

lemma pn_active_simps:
  "pn_active c 9 = CONFIG_IS_TRAFFIC_CLASS_ACTIVE c TSN_LOW_FRAME_TYPE"
  "pn_active c 10 = CONFIG_IS_TRAFFIC_CLASS_ACTIVE c RTC_FRAME_TYPE"
  "pn_active c 11 = CONFIG_IS_TRAFFIC_CLASS_ACTIVE c RTA_FRAME_TYPE"
  "pn_active c 12 = CONFIG_IS_TRAFFIC_CLASS_ACTIVE c DCP_FRAME_TYPE"
  "pn_active c 13 = CONFIG_IS_TRAFFIC_CLASS_ACTIVE c LLDP_FRAME_TYPE"
  "pn_active c 14 = CONFIG_IS_TRAFFIC_CLASS_ACTIVE c UDP_HIGH_FRAME_TYPE"
  "pn_active c 15 = CONFIG_IS_TRAFFIC_CLASS_ACTIVE c UDP_LOW_FRAME_TYPE"
  "pn_active c 8 = CONFIG_IS_TRAFFIC_CLASS_ACTIVE c TSN_HIGH_FRAME_TYPE"
  by (auto simp: pn_active_def pn_order_def)

text \<open>\<open>find_next_pn_thread\<close> returns the first active class behind its argument.\<close>

lemma find_next_first_active:
  assumes "8 \<le> i" and "i < 16"
  shows "find_next_pn_thread c i = find (pn_active c) [Suc i..<16]"
proof -
  have "i \<in> {8, 9, 10, 11, 12, 13, 14, 15}" using assms by auto
  then show ?thesis
    by (elim insertE) (simp_all add: find_next_pn_thread_def pn_cases_def idx_defs pn_active_simps upt_conv_Cons)
qed

lemma link_lengths:
  "length (fold (\<lambda>i ts. ts[f i := g i ts]) is ts) = length ts"
  by (induction "is" arbitrary: ts) simp_all

lemma nth_fold_update:
  assumes "distinct is" and "\<And>i. i \<in> set is \<Longrightarrow> k + i < length ts"
  shows "fold (\<lambda>i ts. ts[k + i := h i (ts ! (k + i))]) is ts ! j =
         (if k \<le> j \<and> j - k \<in> set is then h (j - k) (ts ! j) else ts ! j)"
  using assms
proof (induction "is" arbitrary: ts)
  case Nil
  then show ?case by simp
next
  case (Cons i "is")
  show ?case
    using Cons.IH [of "ts[k + i := h i (ts ! (k + i))]"] Cons.prems
    by (auto simp: nth_list_update)
qed

lemma link_next:
  assumes "length ts = MAX_FUNCTIONS" and "function_link_pn_threads c ts = (r, ts')" and "8 \<le> i" and "i < 16"
  shows "next_ctx (ts' ! i) = find_next_pn_thread c i" and "length ts' = MAX_FUNCTIONS"
proof -
  define ts1 where "ts1 = fold (\<lambda>i ts. ts[TSN_HIGH_IDX + i :=
                  (ts ! (TSN_HIGH_IDX + i))\<lparr>next_ctx := find_next_pn_thread c (TSN_HIGH_IDX + i)\<rparr>])
                [0..<MAX_PN_TYPES] ts"
  have len: "length ts1 = MAX_FUNCTIONS" unfolding ts1_def by (simp add: link_lengths assms(1))
  have n: "next_ctx (ts1 ! i) = find_next_pn_thread c i"
    unfolding ts1_def using assms(1,3,4)
    by (subst nth_fold_update) (auto simp: idx_defs)
  have s: "next_ctx (set_first j ts1 ! i) = next_ctx (ts1 ! i)" for j
    by (cases "j = i") (simp_all add: set_first_def len assms(4) MAX_FUNCTIONS_def)
  show "next_ctx (ts' ! i) = find_next_pn_thread c i" "length ts' = MAX_FUNCTIONS"
    using assms(2) n s len unfolding function_link_pn_threads_def ts1_def [symmetric]
    by (auto simp: Let_def set_first_def split: if_splits)
qed

text \<open>Following the links from thread \<open>i\<close>, with fuel for the number of threads.\<close>

fun pn_chain :: "nat \<Rightarrow> ('f, 'c) thread_context list \<Rightarrow> nat \<Rightarrow> nat list" where
  "pn_chain 0 ts i = []"
| "pn_chain (Suc fuel) ts i =
     (case next_ctx (ts ! i) of None \<Rightarrow> [] | Some j \<Rightarrow> j # pn_chain fuel ts j)"

lemma find_upt_Some:
  "find P [m..<n] = Some j \<Longrightarrow> m \<le> j \<and> j < n \<and> P j \<and> filter P [m..<n] = j # filter P [Suc j..<n]"
proof (induction "n - m" arbitrary: m)
  case 0
  then show ?case by simp
next
  case (Suc k)
  then have m: "m < n" and k: "k = n - Suc m" by simp_all
  show ?case
    using Suc.prems Suc.hyps(1) [OF k] m by (auto simp: upt_conv_Cons split: if_splits)
qed

lemma find_None_filter: "find P xs = None \<Longrightarrow> filter P xs = []"
  by (auto simp: find_None_iff)

lemma pn_chain_active:
  assumes links: "\<And>i. 8 \<le> i \<Longrightarrow> i < 16 \<Longrightarrow> next_ctx (ts ! i) = find (pn_active c) [Suc i..<16]"
    and "8 \<le> i" and "i < 16" and "16 - i \<le> fuel"
  shows "pn_chain fuel ts i = filter (pn_active c) [Suc i..<16]"
  using assms(2-)
proof (induction fuel arbitrary: i)
  case 0
  then show ?case by simp
next
  case (Suc fuel)
  show ?case
  proof (cases "find (pn_active c) [Suc i..<16]")
    case None
    then show ?thesis using links [OF Suc.prems(1,2)] find_None_filter by fastforce
  next
    case (Some j)
    from find_upt_Some [OF Some] Suc.prems have "8 \<le> j" "j < 16" "16 - j \<le> fuel" by auto
    then show ?thesis
      using links [OF Suc.prems(1,2)] Some find_upt_Some [OF Some] Suc.IH [of j] by simp
  qed
qed

end
