(* ===== verification/Lport.thy ===== *)
theory Lport
  imports Functions
begin

text \<open>
  \<^verbatim>\<open>lport.h\<close>, \<^verbatim>\<open>lport-priv.h\<close> and \<^verbatim>\<open>lport.c\<close>: logical ports (a port and a queue), their
  transmit buffers, reception with a timeout, the set-up of ports and queues and the
  receive callbacks. DPDK is outside the sources: what its calls answer is a parameter.
\<close>

section \<open>Packet buffers\<close>

text \<open>
  An mbuf: its identity, the bytes of its data room from \<^verbatim>\<open>rte_pktmbuf_mtod\<close> on, and the
  two length fields.
\<close>

record mbuf =
  m_id :: nat
  m_data :: bytes
  m_pkt_len :: u32
  m_data_len :: u16

definition MAX_PKT_BURST :: nat where "MAX_PKT_BURST = 256"
definition TX_BUFFER_SIZE :: nat where "TX_BUFFER_SIZE = 1024"
definition LPORT_PKTMBUF_FREE_PENDING_SZ :: nat where "LPORT_PKTMBUF_FREE_PENDING_SZ = 64"

text \<open>
  What a thread owns of the device: the transmit buffer of its queue (\<open>tx_capacity\<close> is
  the number of slots of the array), the mbufs left in the transmit pool, the mbufs given
  to the NIC in order, the mbufs freed in order, and how often the NIC was called.
\<close>

record lport_tx_buffer =
  tx_size :: u16
  tx_capacity :: nat
  pkts :: "mbuf list"

record io =
  tx_buffer :: lport_tx_buffer
  tx_pool :: "mbuf list"
  wire :: "mbuf list"
  freed :: "mbuf list"
  tx_calls :: nat
  rx_calls :: nat
  recv_timeout :: u64

definition lport_tx_buffer_init :: "u16 \<Rightarrow> lport_tx_buffer option \<Rightarrow> int \<times> lport_tx_buffer option" where
  "lport_tx_buffer_init sz buffer =
     (case buffer of None \<Rightarrow> (- EINVAL, None) | Some b \<Rightarrow> (0, Some (b\<lparr>tx_size := sz\<rparr>)))"

definition lport_tx_buffer_alloc :: "bool \<Rightarrow> lport_tx_buffer option" where
  "lport_tx_buffer_alloc ok =
     (if ok then snd (lport_tx_buffer_init (of_nat TX_BUFFER_SIZE)
                       (Some \<lparr>tx_size = 0, tx_capacity = TX_BUFFER_SIZE, pkts = []\<rparr>))
      else None)"

section \<open>Transmission\<close>

text \<open>
  \<^verbatim>\<open>rte_eth_tx_burst\<close> takes a prefix of the packets it is offered; \<open>nic k\<close> is how many it
  is ready to take at its \<open>k\<close>-th call.
\<close>

definition rte_eth_tx_burst :: "(nat \<Rightarrow> nat) \<Rightarrow> nat \<Rightarrow> mbuf list \<Rightarrow> nat" where
  "rte_eth_tx_burst nic k ps = min (nic k) (length ps)"

text \<open>
  The loop of \<^verbatim>\<open>lport_tx_buffer_flush\<close>: the packets left to send, the packets sent, the
  calls made. It gives up at the hundredth empty answer in a row.
\<close>

function flush_loop :: "(nat \<Rightarrow> nat) \<Rightarrow> nat \<Rightarrow> mbuf list \<Rightarrow> mbuf list \<Rightarrow> nat \<Rightarrow> mbuf list \<times> mbuf list \<times> nat" where
  "flush_loop nic retries to_send sent calls =
     (if to_send = [] then (to_send, sent, calls)
      else let n = rte_eth_tx_burst nic calls to_send
           in if n = 0
              then if retries + 1 \<ge> 100 then (to_send, sent, calls + 1)
                   else flush_loop nic (retries + 1) to_send sent (calls + 1)
              else flush_loop nic 0 (drop n to_send) (sent @ take n to_send) (calls + 1))"
  by pat_completeness auto
termination
  by (relation "measures [\<lambda>(nic, r, ps, s, k). length ps, \<lambda>(nic, r, ps, s, k). 100 - r]")
    (auto simp: rte_eth_tx_burst_def)

declare flush_loop.simps [simp del]

definition lport_tx_buffer_flush :: "(nat \<Rightarrow> nat) \<Rightarrow> io \<Rightarrow> nat \<times> io" where
  "lport_tx_buffer_flush nic s =
     (case flush_loop nic 0 (pkts (tx_buffer s)) [] (tx_calls s) of (left, sent, calls) \<Rightarrow>
        (length sent,
         s\<lparr>tx_buffer := (tx_buffer s)\<lparr>pkts := []\<rparr>, wire := wire s @ sent, freed := freed s @ left,
           tx_calls := calls\<rparr>))"

text \<open>\<open>None\<close>: a store behind the end of the packet array.\<close>

definition lport_tx_buffer_add :: "(nat \<Rightarrow> nat) \<Rightarrow> mbuf \<Rightarrow> io \<Rightarrow> (nat \<times> io) option" where
  "lport_tx_buffer_add nic m s =
     (let b = tx_buffer s in
      if length (pkts b) < tx_capacity b
      then let b = b\<lparr>pkts := pkts b @ [m]\<rparr>; s = s\<lparr>tx_buffer := b\<rparr>
           in if length (pkts b) < unat (tx_size b) then Some (0, s)
              else Some (lport_tx_buffer_flush nic s)
      else None)"

definition lport_tx_buffer_count :: "io \<Rightarrow> nat" where
  "lport_tx_buffer_count s = length (pkts (tx_buffer s))"

definition lport_tx_buffer_get :: "nat \<Rightarrow> io \<Rightarrow> mbuf option" where
  "lport_tx_buffer_get idx s =
     (if idx < length (pkts (tx_buffer s)) then Some (pkts (tx_buffer s) ! idx) else None)"

definition lport_send :: "(nat \<Rightarrow> nat) \<Rightarrow> io \<Rightarrow> nat \<times> io" where
  "lport_send nic s = lport_tx_buffer_flush nic s"

text \<open>
  \<^verbatim>\<open>rte_mempool_get_bulk\<close> hands out all the mbufs or none. The caller's array has
  \<^verbatim>\<open>MAX_PKT_BURST\<close> entries; more are a fault.
\<close>

definition lport_tx_get_bulk :: "nat \<Rightarrow> io \<Rightarrow> (mbuf list option \<times> io) option" where
  "lport_tx_get_bulk nb_pkts s =
     (if nb_pkts \<le> length (tx_pool s)
      then if nb_pkts \<le> MAX_PKT_BURST
           then Some (Some (take nb_pkts (tx_pool s)), s\<lparr>tx_pool := drop nb_pkts (tx_pool s)\<rparr>)
           else None
      else Some (None, s))"

definition rte_pktmbuf_free_bulk :: "mbuf list \<Rightarrow> io \<Rightarrow> io" where
  "rte_pktmbuf_free_bulk ms s = s\<lparr>freed := freed s @ ms\<rparr>"

section \<open>Reception\<close>

text \<open>
  \<^verbatim>\<open>rte_eth_rx_burst\<close> delivers at most the packets asked for; \<open>rx k\<close> are the packets the
  NIC has at its \<open>k\<close>-th call. \<open>lport_rx\<close> polls until it has \<open>burst_sz\<close> packets or the
  deadline has passed. The loop takes fuel; \<open>Inr\<close> is the result, \<open>Inl\<close> says that the fuel
  was used up, \<open>None\<close> is a store behind the end of the mbuf array.
\<close>

definition rte_eth_rx_burst :: "(nat \<Rightarrow> mbuf list) \<Rightarrow> nat \<Rightarrow> nat \<Rightarrow> mbuf list" where
  "rte_eth_rx_burst rx k n = take n (rx k)"

fun rx_loop ::
  "(nat \<Rightarrow> mbuf list) \<Rightarrow> (nat \<Rightarrow> u64) \<Rightarrow> u64 \<Rightarrow> nat \<Rightarrow> nat \<Rightarrow> mbuf list \<Rightarrow> nat \<Rightarrow> io
    \<Rightarrow> (unit + mbuf list \<times> nat \<times> io) option" where
  "rx_loop rx clk deadline 0 to_recv got tk s = Some (Inl ())"
| "rx_loop rx clk deadline (Suc fuel) to_recv got tk s =
     (if to_recv = 0 then Some (Inr (got, tk, s))
      else
       let ms = rte_eth_rx_burst rx (rx_calls s) to_recv;
           s = s\<lparr>rx_calls := rx_calls s + 1\<rparr>
       in if ms \<noteq> []
          then if length got + length ms \<le> MAX_PKT_BURST
               then rx_loop rx clk deadline fuel (to_recv - length ms) (got @ ms) tk s
               else None
          else if clk tk > deadline
               then Some (Inr (got, tk + 1, s\<lparr>recv_timeout := recv_timeout s + 1\<rparr>))
               else rx_loop rx clk deadline fuel to_recv got (tk + 1) s)"

definition lport_rx ::
  "(nat \<Rightarrow> mbuf list) \<Rightarrow> (nat \<Rightarrow> u64) \<Rightarrow> nat \<Rightarrow> int \<Rightarrow> u64 \<Rightarrow> nat \<Rightarrow> io
    \<Rightarrow> (unit + mbuf list \<times> nat \<times> io) option" where
  "lport_rx rx clk fuel burst_sz timo tk s =
     rx_loop rx clk (timo + clk tk) fuel (unat (word_of_int burst_sz :: u16)) [] (tk + 1) s"

section \<open>Laws of the transmit buffer\<close>

lemma flush_loop_split:
  "flush_loop nic r ps s k = (left, sent, k') \<Longrightarrow> \<exists>n. sent = s @ take n ps \<and> left = drop n ps"
proof (induction nic r ps s k rule: flush_loop.induct)
  case (1 nic r ps s k)
  let ?n = "rte_eth_tx_burst nic k ps"
  consider "ps = []" | "ps \<noteq> []" "?n = 0" "r + 1 \<ge> 100" | "ps \<noteq> []" "?n = 0" "\<not> r + 1 \<ge> 100" | "ps \<noteq> []" "?n \<noteq> 0"
    by blast
  then show ?case
  proof cases
    case 1
    then show ?thesis using "1.prems" by (simp add: flush_loop.simps)
  next
    case 2
    then show ?thesis using "1.prems" by (intro exI [of _ 0]) (simp add: flush_loop.simps)
  next
    case 3
    then show ?thesis using "1.prems" "1.IH"(1) by (simp add: flush_loop.simps [of nic r ps])
  next
    case 4
    then have "\<exists>m. sent = (s @ take ?n ps) @ take m (drop ?n ps) \<and> left = drop m (drop ?n ps)"
      using "1.prems" "1.IH"(2) by (simp add: flush_loop.simps [of nic r ps] Let_def)
    then show ?thesis by (metis append.assoc drop_drop take_add add.commute)
  qed
qed

text \<open>
  The mbufs a thread has taken over: in its buffer, on the wire or freed. \<open>io_ok\<close>: there
  is room in the buffer, and queued and pooled mbufs have the data room of a frame.
\<close>

definition mbufs_of :: "io \<Rightarrow> mbuf multiset" where
  "mbufs_of s = mset (pkts (tx_buffer s)) + mset (wire s) + mset (freed s)"

definition io_ok :: "io \<Rightarrow> bool" where
  "io_ok s \<longleftrightarrow> tx_capacity (tx_buffer s) = TX_BUFFER_SIZE \<and> unat (tx_size (tx_buffer s)) = TX_BUFFER_SIZE \<and>
     length (pkts (tx_buffer s)) < TX_BUFFER_SIZE \<and>
     (\<forall>m\<in>set (pkts (tx_buffer s)) \<union> set (tx_pool s). MAX_FRAME_SIZE \<le> length (m_data m))"

lemma flush_props:
  assumes "lport_tx_buffer_flush nic s = (n, s')"
  shows "mbufs_of s' = mbufs_of s" and "pkts (tx_buffer s') = []"
    and "tx_pool s' = tx_pool s" and "rx_calls s' = rx_calls s" and "recv_timeout s' = recv_timeout s"
    and "tx_size (tx_buffer s') = tx_size (tx_buffer s)" and "tx_capacity (tx_buffer s') = tx_capacity (tx_buffer s)"
    and "wire s' = wire s @ take n (pkts (tx_buffer s))" and "freed s' = freed s @ drop n (pkts (tx_buffer s))"
proof -
  obtain left sent k where f: "flush_loop nic 0 (pkts (tx_buffer s)) [] (tx_calls s) = (left, sent, k)"
    by (cases "flush_loop nic 0 (pkts (tx_buffer s)) [] (tx_calls s)") auto
  obtain m where m: "sent = take m (pkts (tx_buffer s))" "left = drop m (pkts (tx_buffer s))"
    using flush_loop_split [OF f] by auto
  have mn: "take (length sent) (pkts (tx_buffer s)) = sent" "drop (length sent) (pkts (tx_buffer s)) = left"
    using m by (simp_all add: min_def)
  have "mset sent + mset left = mset (pkts (tx_buffer s))"
    unfolding m by (metis append_take_drop_id mset_append)
  then show "mbufs_of s' = mbufs_of s"
    using assms f by (auto simp: lport_tx_buffer_flush_def mbufs_of_def union_ac)
  show "pkts (tx_buffer s') = []" "tx_pool s' = tx_pool s" "rx_calls s' = rx_calls s" "recv_timeout s' = recv_timeout s"
    "tx_size (tx_buffer s') = tx_size (tx_buffer s)" "tx_capacity (tx_buffer s') = tx_capacity (tx_buffer s)"
    "wire s' = wire s @ take n (pkts (tx_buffer s))" "freed s' = freed s @ drop n (pkts (tx_buffer s))"
    using assms f mn by (auto simp: lport_tx_buffer_flush_def)
qed

lemma flush_io_ok: "lport_tx_buffer_flush nic s = (n, s') \<Longrightarrow> io_ok s \<Longrightarrow> io_ok s'"
  using flush_props [of nic s n s'] by (simp add: io_ok_def TX_BUFFER_SIZE_def)

lemma add_ok:
  assumes "io_ok s" and "MAX_FRAME_SIZE \<le> length (m_data m)"
  shows "\<exists>n s'. lport_tx_buffer_add nic m s = Some (n, s') \<and> io_ok s' \<and>
                mbufs_of s' = mbufs_of s + {#m#} \<and> tx_pool s' = tx_pool s"
proof -
  define s1 where "s1 = s\<lparr>tx_buffer := (tx_buffer s)\<lparr>pkts := pkts (tx_buffer s) @ [m]\<rparr>\<rparr>"
  have m1: "mbufs_of s1 = mbufs_of s + {#m#}" by (simp add: s1_def mbufs_of_def)
  have p1: "tx_pool s1 = tx_pool s" by (simp add: s1_def)
  show ?thesis
  proof (cases "Suc (length (pkts (tx_buffer s))) < TX_BUFFER_SIZE")
    case True
    then show ?thesis
      using assms m1 p1 by (auto simp: lport_tx_buffer_add_def io_ok_def s1_def Let_def)
  next
    case False
    obtain n s2 where f: "lport_tx_buffer_flush nic s1 = (n, s2)" by fastforce
    have "lport_tx_buffer_add nic m s = Some (n, s2)"
      using assms False f by (auto simp: lport_tx_buffer_add_def io_ok_def s1_def Let_def)
    moreover have "io_ok s2"
      using assms flush_props(2,3,6,7) [OF f] by (simp add: io_ok_def s1_def TX_BUFFER_SIZE_def)
    ultimately show ?thesis using flush_props(1,3) [OF f] m1 p1 by auto
  qed
qed

lemma free_bulk_props [simp]:
  "mbufs_of (rte_pktmbuf_free_bulk ms s) = mbufs_of s + mset ms"
  "io_ok (rte_pktmbuf_free_bulk ms s) = io_ok s"
  "tx_pool (rte_pktmbuf_free_bulk ms s) = tx_pool s"
  by (simp_all add: rte_pktmbuf_free_bulk_def mbufs_of_def io_ok_def)

section \<open>Reception ends\<close>

text \<open>
  Once the clock has passed the deadline for good (from its \<open>K\<close>-th reading on), a bounded
  number of polls is enough, whatever the NIC delivers.
\<close>

lemma rx_loop_returns:
  assumes "\<And>k. K \<le> k \<Longrightarrow> deadline < clk k"
    and "to_recv + (K - tk) < fuel" and "length got + to_recv \<le> MAX_PKT_BURST"
  shows "\<exists>got' tk' s'. rx_loop rx clk deadline fuel to_recv got tk s = Some (Inr (got', tk', s')) \<and>
           length got' \<le> length got + to_recv \<and> tx_buffer s' = tx_buffer s \<and> mbufs_of s' = mbufs_of s \<and>
           tx_pool s' = tx_pool s"
  using assms(2,3)
proof (induction fuel arbitrary: to_recv got tk s)
  case 0
  then show ?case by simp
next
  case (Suc fuel)
  let ?ms = "rte_eth_rx_burst rx (rx_calls s) to_recv"
  have l: "length ?ms \<le> to_recv" by (simp add: rte_eth_rx_burst_def)
  consider "to_recv = 0" | "to_recv \<noteq> 0" "?ms \<noteq> []" | "to_recv \<noteq> 0" "?ms = []" "clk tk > deadline"
    | "to_recv \<noteq> 0" "?ms = []" "\<not> clk tk > deadline" by blast
  then show ?case
  proof cases
    case 1
    then show ?thesis by simp
  next
    case 2
    then have "to_recv - length ?ms + (K - tk) < fuel"
      using Suc.prems(1) l by (cases ?ms) auto
    moreover have "length (got @ ?ms) + (to_recv - length ?ms) \<le> MAX_PKT_BURST"
      using Suc.prems(2) l by simp
    ultimately show ?thesis
      using Suc.IH [of "to_recv - length ?ms" tk "got @ ?ms" "s\<lparr>rx_calls := rx_calls s + 1\<rparr>"] 2 Suc.prems(2) l
      by (auto simp: Let_def mbufs_of_def)
  next
    case 3
    then show ?thesis by (simp add: Let_def mbufs_of_def)
  next
    case 4
    then have "tk < K" using assms(1) [of tk] by (meson not_le)
    then have "to_recv + (K - (tk + 1)) < fuel" using Suc.prems(1) by simp
    then show ?thesis
      using Suc.IH [of to_recv "tk + 1" got "s\<lparr>rx_calls := rx_calls s + 1\<rparr>"] 4 Suc.prems(2)
      by (auto simp: Let_def mbufs_of_def)
  qed
qed

end
