(* ===== verification/Device_Props.thy ===== *)
theory Device_Props
  imports Lport Functions
begin

text \<open>
  Properties of the function table (\<^verbatim>\<open>functions.c\<close>), the transmit buffers and the polling
  of the device (\<^verbatim>\<open>lport.c\<close>, \<^verbatim>\<open>lport-priv.h\<close>) and the timers (\<^verbatim>\<open>thread_timer.c\<close>).
\<close>

section \<open>The function table\<close>

text \<open>
  C23: \<^verbatim>\<open>function_link_pn_threads\<close> builds the documented order: following the \<^verbatim>\<open>next\<close>
  pointers from the context of TSN high visits exactly the active PROFINET classes behind
  it, each once and in the order TSN low, RTC, RTA, DCP, LLDP, UDP high, UDP low, and ends.
  The result is 0 exactly if TSN high, RTC or layer 2 is active.
\<close>

theorem pn_threads_linked:
  assumes "length ts = MAX_FUNCTIONS" and "function_link_pn_threads c ts = (r, ts')"
  shows "pn_chain MAX_PN_TYPES ts' TSN_HIGH_IDX = filter (pn_active c) [TSN_LOW_IDX..<MAX_FUNCTIONS] \<and>
         (r = 0 \<longleftrightarrow> CONFIG_IS_TRAFFIC_CLASS_ACTIVE c TSN_HIGH_FRAME_TYPE \<or>
                   CONFIG_IS_TRAFFIC_CLASS_ACTIVE c RTC_FRAME_TYPE \<or> CONFIG_IS_TRAFFIC_CLASS_ACTIVE c L2_FRAME_TYPE)"
proof -
  have "pn_chain 8 ts' 8 = filter (pn_active c) [Suc 8..<16]"
  proof (rule pn_chain_active)
    show "next_ctx (ts' ! i) = find (pn_active c) [Suc i..<16]" if "8 \<le> i" "i < 16" for i
      using link_next(1) [OF assms that] find_next_first_active [OF that] by simp
  qed simp_all
  moreover have "r = 0 \<longleftrightarrow> CONFIG_IS_TRAFFIC_CLASS_ACTIVE c TSN_HIGH_FRAME_TYPE \<or>
      CONFIG_IS_TRAFFIC_CLASS_ACTIVE c RTC_FRAME_TYPE \<or> CONFIG_IS_TRAFFIC_CLASS_ACTIVE c L2_FRAME_TYPE"
    using assms(2) by (auto simp: function_link_pn_threads_def Let_def EINVAL_def split: if_splits)
  ultimately show ?thesis by (simp add: idx_defs)
qed

text \<open>The constructors of the functions run one after the other before \<^verbatim>\<open>main\<close>.\<close>

fun register_all :: "'p function_t list \<Rightarrow> ('p, 'f, 'c) registry \<Rightarrow> ('p, 'f, 'c) registry run option" where
  "register_all [] r = Some (Returned 0 r)"
| "register_all (f # fs) r =
     (case function_register (Some f) r of
        None \<Rightarrow> None
      | Some (Exited r) \<Rightarrow> Some (Exited r)
      | Some (Returned _ r) \<Rightarrow> register_all fs r)"

definition table_ok :: "('p, 'f, 'c) registry \<Rightarrow> bool" where
  "table_ok r \<longleftrightarrow> length (funcs r) = MAX_FUNCTIONS \<and> length (threads r) = MAX_FUNCTIONS"

definition idx_ok :: "'p function_t \<Rightarrow> bool" where
  "idx_ok f \<longleftrightarrow> 0 \<le> thread_idx f \<and> thread_idx f < int MAX_FUNCTIONS"

lemma idx_ok_less: "idx_ok f \<Longrightarrow> nat (thread_idx f) < MAX_FUNCTIONS"
  by (simp add: idx_ok_def nat_less_iff)

definition entry_of :: "'p function_t \<Rightarrow> 'p function_t" where
  "entry_of f = f\<lparr>f_valid := True, thread_ctx := nat (thread_idx f)\<rparr>"

lemma function_register_ok:
  assumes "table_ok r" and "idx_ok f" and "\<not> f_valid (funcs r ! nat (thread_idx f))"
  obtains r' where "function_register (Some f) r = Some (Returned 0 r')" "table_ok r'"
    "funcs r' = (funcs r)[nat (thread_idx f) := entry_of f]"
proof -
  have "nat (thread_idx f) < MAX_FUNCTIONS" by (rule idx_ok_less [OF assms(2)])
  then show ?thesis
    using that assms by (simp add: function_register_def table_ok_def idx_ok_def entry_of_def Let_def)
qed

lemma register_all_ok:
  assumes "table_ok r" and "\<forall>f\<in>set fs. idx_ok f \<and> \<not> f_valid (funcs r ! nat (thread_idx f))"
    and "distinct (map thread_idx fs)"
  shows "\<exists>r'. register_all fs r = Some (Returned 0 r') \<and> table_ok r' \<and>
    (\<forall>f\<in>set fs. funcs r' ! nat (thread_idx f) = entry_of f) \<and>
    (\<forall>i. (\<forall>f\<in>set fs. nat (thread_idx f) \<noteq> i) \<longrightarrow> funcs r' ! i = funcs r ! i)"
  using assms
proof (induction fs arbitrary: r)
  case Nil
  then show ?case by simp
next
  case (Cons f fs)
  obtain r1 where r1: "function_register (Some f) r = Some (Returned 0 r1)" "table_ok r1"
    "funcs r1 = (funcs r)[nat (thread_idx f) := entry_of f]"
    using function_register_ok [of r f] Cons.prems by auto
  have i: "nat (thread_idx f) < length (funcs r)" using Cons.prems idx_ok_less [of f] by (simp add: table_ok_def)
  have ne: "nat (thread_idx g) \<noteq> nat (thread_idx f)" if "g \<in> set fs" for g
  proof -
    have "idx_ok f" "idx_ok g" "thread_idx g \<noteq> thread_idx f" using Cons.prems(2,3) that
      by (simp_all add: image_iff) (metis)
    then show ?thesis by (simp add: idx_ok_def eq_nat_nat_iff)
  qed
  have "\<forall>g\<in>set fs. idx_ok g \<and> \<not> f_valid (funcs r1 ! nat (thread_idx g))"
    using Cons.prems(2) ne by (simp add: r1(3)) (metis nth_list_update_neq)
  then obtain r' where r': "register_all fs r1 = Some (Returned 0 r')" "table_ok r'"
    "\<forall>g\<in>set fs. funcs r' ! nat (thread_idx g) = entry_of g"
    "\<forall>i. (\<forall>g\<in>set fs. nat (thread_idx g) \<noteq> i) \<longrightarrow> funcs r' ! i = funcs r1 ! i"
    using Cons.IH [OF r1(2)] Cons.prems(3) by auto
  have "funcs r' ! nat (thread_idx f) = entry_of f" using r'(4) ne i by (auto simp: r1(3))
  with r' r1 show ?case by simp
qed

text \<open>
  Registration keeps every function: starting from the empty table, registering
  functions with different valid indices succeeds, and afterwards the table holds each
  function at its index, valid and with the thread context of that index; registering one
  of them again ends the program.
\<close>

theorem functions_registered:
  assumes "table_ok r" and "\<forall>i<MAX_FUNCTIONS. \<not> f_valid (funcs r ! i)"
    and "\<forall>f\<in>set fs. idx_ok f" and "distinct (map thread_idx fs)"
  shows "\<exists>r'. register_all fs r = Some (Returned 0 r') \<and>
    (\<forall>f\<in>set fs. funcs r' ! nat (thread_idx f) = entry_of f \<and> function_register (Some f) r' = Some (Exited r'))"
proof -
  have "\<forall>f\<in>set fs. idx_ok f \<and> \<not> f_valid (funcs r ! nat (thread_idx f))"
    using assms(2,3) idx_ok_less by blast
  from register_all_ok [OF assms(1) this assms(4)] obtain r'
    where r': "register_all fs r = Some (Returned 0 r')" "table_ok r'"
      "\<forall>f\<in>set fs. funcs r' ! nat (thread_idx f) = entry_of f" by blast
  have "function_register (Some f) r' = Some (Exited r')" if "f \<in> set fs" for f
  proof -
    have "nat (thread_idx f) < MAX_FUNCTIONS" "idx_ok f" using assms(3) that idx_ok_less by blast+
    then show ?thesis
      using r' that by (simp add: function_register_def table_ok_def idx_ok_def entry_of_def Let_def)
  qed
  with r' show ?thesis by blast
qed

definition ex_fun :: "int \<Rightarrow> nat function_t" where
  "ex_fun i = \<lparr>f_valid = False, f_name = ''f'', init_fn = Some 1, launch_fn = None, deinit_fn = None,
     thread_idx = i, thread_ctx = 0\<rparr>"

definition ex_thread :: "(unit, unit) thread_context" where
  "ex_thread = \<lparr>name = [], stop = False, lcore_id = 0, mbufs = False, rx_sequence_counter = 0, tx_sequence_counter = 0,
     next_ctx = None, data_cond_var = 0, num_frames_available = 0, is_first = False, meta_data_offset = 0,
     tx_security_context = None, rx_security_context = None, ctx_payload_pattern = None, ctx_payload_pattern_length = 0,
     rx_do_once = 0, tx_do_once = 0, tx_gen_do_once = 0, timer = None\<rparr>"

lemma pn_threads_linked_witness:
  "pn_chain MAX_PN_TYPES (snd (function_link_pn_threads zero_config (replicate 16 ex_thread))) TSN_HIGH_IDX =
   filter (pn_active zero_config) [TSN_LOW_IDX..<MAX_FUNCTIONS]"
proof -
  have l: "length (replicate 16 ex_thread) = MAX_FUNCTIONS" by (simp add: MAX_FUNCTIONS_def)
  show ?thesis
    using pn_threads_linked [OF l, of zero_config] by (cases "function_link_pn_threads zero_config (replicate 16 ex_thread)") auto
qed

lemma functions_registered_witness:
  "\<exists>r'. register_all [ex_fun 3, ex_fun 0] \<lparr>funcs = replicate 16 (ex_fun 9), threads = replicate 16 ex_thread\<rparr> = Some (Returned 0 r')"
proof -
  let ?r = "\<lparr>funcs = replicate 16 (ex_fun 9), threads = replicate 16 ex_thread\<rparr>"
  have "table_ok ?r" "\<forall>i<MAX_FUNCTIONS. \<not> f_valid (funcs ?r ! i)" "\<forall>f\<in>set [ex_fun 3, ex_fun 0]. idx_ok f"
    "distinct (map thread_idx [ex_fun 3, ex_fun 0])"
    by (simp_all add: table_ok_def MAX_FUNCTIONS_def ex_fun_def idx_ok_def)
  from functions_registered [OF this] show ?thesis by blast
qed

section \<open>Transmit buffers\<close>

text \<open>
  C24: flushing a transmit buffer always ends and loses nothing: whatever the NIC answers,
  the first \<open>n\<close> packets of the buffer went to the wire in order, where \<open>n\<close> is the result, the
  others were freed, and the buffer is empty.
\<close>

theorem tx_flush_conserves:
  "case lport_tx_buffer_flush nic s of (n, s') \<Rightarrow>
     wire s' = wire s @ take n (pkts (tx_buffer s)) \<and> freed s' = freed s @ drop n (pkts (tx_buffer s)) \<and>
     pkts (tx_buffer s') = [] \<and> tx_pool s' = tx_pool s"
  using flush_props by (auto split: prod.split)

text \<open>
  Adding a packet keeps the invariant of the buffer: there is always room for it, the
  buffer is flushed when it is full, and of all mbufs (queued, on the wire, freed) exactly
  the new one is added.
\<close>

theorem tx_buffer_add_invariant:
  assumes "io_ok s" and "MAX_FRAME_SIZE \<le> length (m_data m)"
  shows "\<exists>n s'. lport_tx_buffer_add nic m s = Some (n, s') \<and> io_ok s' \<and>
                mbufs_of s' = mbufs_of s + {#m#} \<and> tx_pool s' = tx_pool s"
  by (rule add_ok [OF assms])

lemma tx_buffer_add_invariant_witness:
  "\<exists>n s'. lport_tx_buffer_add (\<lambda>_. 1) \<lparr>m_id = 7, m_data = replicate 2048 0, m_pkt_len = 60, m_data_len = 60\<rparr>
     \<lparr>tx_buffer = \<lparr>tx_size = 1024, tx_capacity = 1024, pkts = []\<rparr>, tx_pool = [], wire = [], freed = [], tx_calls = 0,
      rx_calls = 0, recv_timeout = 0\<rparr> = Some (n, s')"
proof -
  let ?s = "\<lparr>tx_buffer = \<lparr>tx_size = 1024, tx_capacity = 1024, pkts = []\<rparr>, tx_pool = [], wire = [], freed = [], tx_calls = 0,
      rx_calls = 0, recv_timeout = 0\<rparr>" and ?m = "\<lparr>m_id = 7, m_data = replicate 2048 0, m_pkt_len = 60, m_data_len = 60\<rparr>"
  have "io_ok ?s" "MAX_FRAME_SIZE \<le> length (m_data ?m)" by (simp_all add: io_ok_def TX_BUFFER_SIZE_def MAX_FRAME_SIZE_def)
  from tx_buffer_add_invariant [OF this, of "\<lambda>_. 1"] show ?thesis by blast
qed

section \<open>Polling the device\<close>

text \<open>
  \<^verbatim>\<open>lport_rx\<close> returns: when the clock has passed the deadline from its \<open>K\<close>-th reading on,
  a number of polls given by the burst size and \<open>K\<close> is enough, whatever the NIC delivers;
  at most the requested packets are returned and no mbuf already owned is touched. Burst
  sizes up to \<^verbatim>\<open>MAX_PKT_BURST\<close> fit the caller's array.
\<close>

theorem lport_rx_returns:
  assumes "\<And>k. K \<le> k \<Longrightarrow> timo + clk tk < clk k" and "0 \<le> burst_sz" and "burst_sz \<le> int MAX_PKT_BURST"
    and "nat burst_sz + (K - Suc tk) < fuel"
  shows "\<exists>got tk' s'. lport_rx rx clk fuel burst_sz timo tk s = Some (Inr (got, tk', s')) \<and>
           length got \<le> nat burst_sz \<and> mbufs_of s' = mbufs_of s \<and> tx_pool s' = tx_pool s"
proof -
  have "burst_sz < 2 ^ 16" using assms(3) by (simp add: MAX_PKT_BURST_def)
  then have b: "unat (word_of_int burst_sz :: u16) = nat burst_sz"
    using assms(2) by (simp add: unsigned_of_int take_bit_int_eq_self)
  have "\<exists>got' tk' s'. rx_loop rx clk (timo + clk tk) fuel (nat burst_sz) [] (Suc tk) s = Some (Inr (got', tk', s')) \<and>
     length got' \<le> length ([] :: mbuf list) + nat burst_sz \<and> tx_buffer s' = tx_buffer s \<and> mbufs_of s' = mbufs_of s \<and> tx_pool s' = tx_pool s"
    by (rule rx_loop_returns [where K = K]) (use assms in auto)
  then show ?thesis by (auto simp: lport_rx_def b)
qed

lemma lport_rx_returns_witness:
  "\<exists>got tk' s'. lport_rx (\<lambda>_. []) (\<lambda>k. of_nat (min k 9)) 20 4 5 1
     \<lparr>tx_buffer = \<lparr>tx_size = 1024, tx_capacity = 1024, pkts = []\<rparr>, tx_pool = [], wire = [], freed = [], tx_calls = 0,
      rx_calls = 0, recv_timeout = 0\<rparr> = Some (Inr (got, tk', s'))"
proof -
  let ?c = "\<lambda>k. of_nat (min k 9) :: u64"
  have "5 + ?c 1 < ?c k" if "9 \<le> k" for k using that by (simp add: min_def)
  moreover have "(0 :: int) \<le> 4" "(4 :: int) \<le> int MAX_PKT_BURST" "nat 4 + (9 - Suc 1) < (20 :: nat)"
    by (simp_all add: MAX_PKT_BURST_def)
  ultimately show ?thesis using lport_rx_returns [of 9 5 ?c 1 4 20] by blast
qed

section \<open>Timers\<close>

text \<open>The inner loop of \<^verbatim>\<open>thread_timer_run\<close> visits a slot again and again.\<close>

fun slot_visits ::
  "(nat \<Rightarrow> u64) \<Rightarrow> ('f \<Rightarrow> bool \<Rightarrow> ('f, 'c, 'z) clocked_scheme \<Rightarrow> ('f, 'c, 'z) clocked_scheme option)
    \<Rightarrow> nat \<Rightarrow> nat \<Rightarrow> ('f, 'c, 'z) clocked_scheme \<Rightarrow> ('f, 'c, 'z) clocked_scheme option" where
  "slot_visits clk call i 0 w = Some w"
| "slot_visits clk call i (Suc n) w = do { w \<leftarrow> timer_slot clk call i w; slot_visits clk call i n w }"

definition slot_info :: "nat \<Rightarrow> ('f, 'c, 'z) clocked_scheme \<Rightarrow> 'f thread_timer_info" where
  "slot_info i w = info (the (timer w)) ! i"

lemma timer_slot_period:
  fixes cnt :: "('f, 'c, 'z) clocked_scheme \<Rightarrow> nat"
  assumes call: "\<And>f s w w'. call f s w = Some w' \<Longrightarrow> timer w' = timer w \<and> cnt w' = Suc (cnt w)"
    and frame: "\<And>w t. cnt (w\<lparr>timer := t\<rparr>) = cnt w" "\<And>w v k. cnt (w\<lparr>data_cond_var := v, ticks := k\<rparr>) = cnt w"
    and "timer_slot clk call i w = Some w'"
  shows "timo_ns (slot_info i w') = timo_ns (slot_info i w) \<and> cnt w \<le> cnt w' \<and>
         end_ns (slot_info i w') = end_ns (slot_info i w) + of_nat (cnt w' - cnt w) * timo_ns (slot_info i w)"
proof -
  obtain t where t: "timer w = Some t" and i: "i < length (info t)"
    using assms(4) by (auto simp: timer_slot_def split: option.splits if_splits)
  let ?s = "ti_cond (info t ! i) \<and> data_cond_var w = 1"
  define w0 where "w0 = w\<lparr>data_cond_var := (if ?s then 0 else data_cond_var w), ticks := Suc (ticks w)\<rparr>"
  have w0: "timer w0 = Some t" "cnt w0 = cnt w" by (simp_all add: w0_def t frame(2))
  have "Some w' =
      (if \<not> active (info t ! i) then Some w
       else if end_ns (info t ! i) \<le> clk (ticks w) \<or> ?s
       then (case ti_fn (info t ! i) of None \<Rightarrow> None | Some f \<Rightarrow> call f ?s w0 \<bind> timer_advance i)
       else Some w0)"
    unfolding assms(4) [symmetric] using t i
    by (cases "ti_cond (info t ! i)"; cases "data_cond_var w = 1")
      (simp_all add: timer_slot_def w0_def clock_gettime_ns_def is_signaled_def cmpset_def Let_def split: option.split)
  then consider "w' = w" | "w' = w0" | f w1 where "call f ?s w0 = Some w1" "timer_advance i w1 = Some w'"
    by (auto simp: bind_eq_Some_conv dest!: sym [of "Some w'"] split: if_splits option.splits)
  then show ?thesis
  proof cases
    case 3
    then have w1: "timer w1 = Some t" "cnt w1 = Suc (cnt w)" using call w0 by auto
    then have w': "w' = w1\<lparr>timer := Some (t\<lparr>info := (info t)[i := (info t ! i)\<lparr>end_ns := end_ns (info t ! i) + timo_ns (info t ! i)\<rparr>]\<rparr>)\<rparr>"
      using 3(2) i by (simp add: timer_advance_def)
    then show ?thesis using w1 t i by (simp add: slot_info_def frame(1))
  qed (simp_all add: slot_info_def w0 t)
qed


definition ex_clocked :: "(unit, unit) clocked" where
  "ex_clocked = \<lparr>name = [], stop = False, lcore_id = 0, mbufs = False, rx_sequence_counter = 0, tx_sequence_counter = 0,
     next_ctx = None, data_cond_var = 1, num_frames_available = 0, is_first = False, meta_data_offset = 0,
     tx_security_context = None, rx_security_context = None, ctx_payload_pattern = None, ctx_payload_pattern_length = 0,
     rx_do_once = 0, tx_do_once = 0, tx_gen_do_once = 0,
     timer = Some \<lparr>tt_name = [], info = [zero_info\<lparr>active := True, ti_cond := True, ti_fn := Some (), timo_ns := 10, end_ns := 5\<rparr>],
       nb_timers = 1, tt_stop = False, stopped = False\<rparr>, ticks = 0\<rparr>"

definition ex_call :: "unit \<Rightarrow> bool \<Rightarrow> (unit, unit) clocked \<Rightarrow> (unit, unit) clocked option" where
  "ex_call f s w = Some (w\<lparr>name := CHR ''x'' # name w\<rparr>)"


end
