(* ===== verification/Port.thy ===== *)
theory Port
  imports Lport C_String
begin

text \<open>
  The management of logical ports in \<^verbatim>\<open>lport.c\<close> and \<^verbatim>\<open>lport.h\<close>: the table of ports, the set-up
  of a queue with its memory pools, the initialisation of a device, receive callbacks and
  the link state. The DPDK library is a parameter: its answer to a call may depend on every
  call made before. A result \<open>None\<close> is an access through a null pointer or outside a table,
  or the release of a pool that is not alive; \<open>Exited\<close> is \<^verbatim>\<open>rte_exit\<close>.
\<close>

section \<open>Data\<close>

record lport_conf =
  lp_flags :: u32
  lp_pid :: u16
  cache_sz :: u16
  nb_queues :: u16
  nb_rxd :: u16
  nb_txd :: u16
  mbuf_size :: u16
  nb_rx_mbufs :: u32
  nb_tx_mbufs :: u32

text \<open>Pools, device callbacks and functions are named by numbers.\<close>

record lqueue =
  rx_mp :: "nat option"
  q_tx_buffer :: "lport_tx_buffer option"
  tx_mp :: "nat option"
  q_recv_timeout :: u64

record callback_t =
  cb :: "nat option"
  cb_fn :: "nat option"

record dev_info =
  flow_type_rss_offloads :: u64
  max_vfs :: u16
  rx_offload_capa :: u64

record eth_conf =
  rss_hf :: u64
  vmdq_rss :: bool
  rx_offloads :: u64
  link_speeds :: u32

record lport_t =
  inited :: bool
  lport_pid :: u16
  sid :: u16
  lqueues :: "lqueue list option"
  lpc :: lport_conf
  ldev_info :: dev_info
  lport_mac :: bytes
  nb_cb :: u16
  callback :: "callback_t list"

text \<open>The calls of DPDK with the arguments the code chooses.\<close>

datatype eth_call =
    Calloc_Queues u16
  | Pool_Create string u32 u16 u16 u16
  | Tx_Buffer_Alloc u16
  | Dev_Info_Get u16
  | Dev_Configure u16 u16 eth_conf
  | Adjust_Desc u16 u16 u16
  | Macaddr_Get u16
  | Set_Ptypes u16
  | Rx_Queue_Setup u16 u16 u16 "nat option"
  | Tx_Queue_Setup u16 u16 u16
  | Dev_Start u16
  | Promiscuous_Enable u16
  | Add_Rx_Callback u16 u16 nat
  | Remove_Rx_Callback u16 u16 nat
  | Link_Get_Nowait u16
  | Port_By_Name
  | Dynfield_Register
  | Calloc_Vlans
  | Pflow_Callback_Create u16 u16 u16

text \<open>
  The library: the result of a call after the calls made so far (a call that delivers a
  pointer delivers null for a negative result), the contents it fills in, and the build
  constants \<^verbatim>\<open>RTE_MAX_ETHPORTS\<close> and \<^verbatim>\<open>default_port_conf\<close> takes from it.
\<close>

record dpdk =
  answer :: "eth_call list \<Rightarrow> eth_call \<Rightarrow> int"
  max_ethports :: nat
  socket_id :: "u16 \<Rightarrow> int"
  info_of :: "u16 \<Rightarrow> dev_info"
  macaddr_of :: "u16 \<Rightarrow> bytes"
  valid_port :: "u16 \<Rightarrow> bool"
  adjusted_desc :: "u16 \<Rightarrow> u16 \<Rightarrow> u16 \<Rightarrow> u16 \<times> u16"
  link_up :: "eth_call list \<Rightarrow> u16 \<Rightarrow> bool"
  default_port_conf :: eth_conf
  speed_bitflag :: "u32 \<Rightarrow> bool \<Rightarrow> u32"
  align32pow2 :: "u32 \<Rightarrow> u32"

record port_state =
  link_running :: int
  lports :: "lport_t list"
  calls :: "eth_call list"
  pools :: "nat list"

definition eth :: "dpdk \<Rightarrow> eth_call \<Rightarrow> port_state \<Rightarrow> int \<times> port_state" where
  "eth D c s = (answer D (calls s) c, s\<lparr>calls := calls s @ [c]\<rparr>)"

definition upd_lport :: "nat \<Rightarrow> (lport_t \<Rightarrow> lport_t) \<Rightarrow> port_state \<Rightarrow> port_state" where
  "upd_lport i f s = s\<lparr>lports := (lports s)[i := f (lports s ! i)]\<rparr>"

definition DEFAULT_QUEUE_COUNT :: nat where "DEFAULT_QUEUE_COUNT = 16"
definition LPORT_MAX_CALLBACKS :: nat where "LPORT_MAX_CALLBACKS = 8"
definition LPORT_FLAG_PROMISCUOUS :: u32 where "LPORT_FLAG_PROMISCUOUS = 1"
definition ENOSPC :: int where "ENOSPC = 28"

definition zero_conf :: lport_conf where
  "zero_conf = \<lparr>lp_flags = 0, lp_pid = 0, cache_sz = 0, nb_queues = 0, nb_rxd = 0, nb_txd = 0, mbuf_size = 0,
     nb_rx_mbufs = 0, nb_tx_mbufs = 0\<rparr>"

definition zero_queue :: lqueue where
  "zero_queue = \<lparr>rx_mp = None, q_tx_buffer = None, tx_mp = None, q_recv_timeout = 0\<rparr>"

definition zero_lport :: lport_t where
  "zero_lport = \<lparr>inited = False, lport_pid = 0, sid = 0, lqueues = None, lpc = zero_conf,
     ldev_info = \<lparr>flow_type_rss_offloads = 0, max_vfs = 0, rx_offload_capa = 0\<rparr>,
     lport_mac = replicate 6 0, nb_cb = 0, callback = replicate LPORT_MAX_CALLBACKS \<lparr>cb = None, cb_fn = None\<rparr>\<rparr>"

section \<open>The table of ports\<close>

text \<open>\<^verbatim>\<open>lport_ctor\<close> and \<^verbatim>\<open>lport_dtor\<close> clear the whole table.\<close>

definition lport_ctor :: "dpdk \<Rightarrow> port_state \<Rightarrow> int \<times> port_state" where
  "lport_ctor D s = (0, s\<lparr>link_running := 0, lports := replicate (max_ethports D) zero_lport\<rparr>)"

definition lport_dtor :: "dpdk \<Rightarrow> port_state \<Rightarrow> port_state" where
  "lport_dtor D s = s\<lparr>link_running := 0, lports := replicate (max_ethports D) zero_lport\<rparr>"

definition lport_init :: "dpdk \<Rightarrow> int \<Rightarrow> port_state \<Rightarrow> port_state run" where
  "lport_init D mutex_ret s =
     (if mutex_ret \<noteq> 0 then Exited s
      else case lport_ctor D s of (r, s) \<Rightarrow> if r \<noteq> 0 then Returned (- 1) s else Returned 0 s)"

definition lport_deinit :: "dpdk \<Rightarrow> int \<Rightarrow> port_state \<Rightarrow> port_state run" where
  "lport_deinit D mutex_ret s =
     (let s = lport_dtor D s in if mutex_ret \<noteq> 0 then Exited s else Returned 0 s)"

definition lport_link_running_set :: "int \<Rightarrow> port_state \<Rightarrow> port_state" where
  "lport_link_running_set v s = s\<lparr>link_running := v\<rparr>"

text \<open>\<open>None\<close>: the program ends.\<close>

definition lport_get :: "dpdk \<Rightarrow> u32 \<Rightarrow> nat option" where
  "lport_get D lid = (if unat (lport2pid lid) \<ge> max_ethports D then None else Some (unat (lport2pid lid)))"

text \<open>The queue of a port, by its index; the inner \<open>None\<close> is the null pointer.\<close>

definition lport_queue_get :: "dpdk \<Rightarrow> u32 \<Rightarrow> port_state \<Rightarrow> nat option option" where
  "lport_queue_get D lid s =
     (case lport_get D lid of
        None \<Rightarrow> None
      | Some i \<Rightarrow> if lport2qid lid \<ge> nb_queues (lpc (lports s ! i)) then Some None
                 else Some (Some (unat (lport2qid lid))))"

definition the_queue :: "nat \<Rightarrow> nat \<Rightarrow> port_state \<Rightarrow> lqueue option" where
  "the_queue i q s =
     (case lqueues (lports s ! i) of
        None \<Rightarrow> None
      | Some qs \<Rightarrow> if q < length qs then Some (qs ! q) else None)"

definition set_queue :: "nat \<Rightarrow> nat \<Rightarrow> (lqueue \<Rightarrow> lqueue) \<Rightarrow> port_state \<Rightarrow> port_state" where
  "set_queue i q f = upd_lport i (\<lambda>l. l\<lparr>lqueues := map_option (\<lambda>qs. qs[q := f (qs ! q)]) (lqueues l)\<rparr>)"

text \<open>The outer \<open>None\<close> is a fault, the inner one the end of the program.\<close>

definition lport_get_timeout :: "dpdk \<Rightarrow> u32 \<Rightarrow> port_state \<Rightarrow> u64 option option" where
  "lport_get_timeout D lid s =
     (case lport_get D lid of
        None \<Rightarrow> Some None
      | Some i \<Rightarrow> do { q \<leftarrow> the_queue i (unat (lport2qid lid)) s; Some (Some (q_recv_timeout q)) })"

definition lport_get_rx_mp :: "dpdk \<Rightarrow> u32 \<Rightarrow> port_state \<Rightarrow> nat option option option" where
  "lport_get_rx_mp D lid s =
     (case lport_queue_get D lid s of
        None \<Rightarrow> Some None
      | Some None \<Rightarrow> None
      | Some (Some q) \<Rightarrow> do { x \<leftarrow> the_queue (unat (lport2pid lid)) q s; Some (Some (rx_mp x)) })"

definition lport_get_tx_mp :: "dpdk \<Rightarrow> u32 \<Rightarrow> port_state \<Rightarrow> nat option option option" where
  "lport_get_tx_mp D lid s =
     (case lport_queue_get D lid s of
        None \<Rightarrow> Some None
      | Some None \<Rightarrow> None
      | Some (Some q) \<Rightarrow> do { x \<leftarrow> the_queue (unat (lport2pid lid)) q s; Some (Some (tx_mp x)) })"

text \<open>
  \<^verbatim>\<open>lport_alloc\<close> indexes the table without a check. The queues of a port that is not
  initialised are lost when they are allocated again.
\<close>

definition lport_alloc :: "dpdk \<Rightarrow> u32 \<Rightarrow> port_state \<Rightarrow> port_state run option" where
  "lport_alloc D lid s =
     (let p = lport2pid lid; i = unat p in
      if i \<ge> length (lports s) then None
      else if inited (lports s ! i) then Some (Returned 0 s)
      else let sd = word_of_int (socket_id D p) :: u16; sd = (if sd = - 1 then 0 else sd);
               s = upd_lport i (\<lambda>_. zero_lport\<lparr>lport_pid := p, sid := sd\<rparr>) s
           in case eth D (Calloc_Queues p) s of (r, s) \<Rightarrow>
                if r < 0 then Some (Exited s)
                else Some (Returned 0
                  (upd_lport i (\<lambda>l. l\<lparr>lqueues := Some (replicate DEFAULT_QUEUE_COUNT zero_queue)\<rparr>) s)))"

text \<open>\<^verbatim>\<open>lport_free\<close> of the port at index \<open>i\<close>: it compares \<open>i\<close> with the port id stored there.\<close>

definition lport_free :: "nat \<Rightarrow> port_state \<Rightarrow> int \<times> port_state" where
  "lport_free i s =
     (if unat (lport_pid (lports s ! i)) \<noteq> i then (- 1, s) else (0, upd_lport i (\<lambda>_. zero_lport) s))"

section \<open>Set-up of queues and devices\<close>

definition lport_format :: "u32 \<Rightarrow> string" where
  "lport_format lid = decimal (unat (lport2pid lid)) @ '':'' @ decimal (unat (lport2qid lid))"

text \<open>A pool is named by the position of the call that created it.\<close>

definition lport_pktmbuf_pool ::
  "dpdk \<Rightarrow> string \<Rightarrow> u32 \<Rightarrow> u32 \<Rightarrow> u16 \<Rightarrow> u16 \<Rightarrow> port_state \<Rightarrow> nat option \<times> port_state" where
  "lport_pktmbuf_pool D nm lid num_mbufs msize cache s =
     (let p = length (calls s) in
      case eth D (Pool_Create nm num_mbufs cache msize (lport2pid lid)) s of (r, s) \<Rightarrow>
        if r < 0 then (None, s) else (Some p, s\<lparr>pools := p # pools s\<rparr>))"

definition rte_mempool_free :: "nat option \<Rightarrow> port_state \<Rightarrow> port_state option" where
  "rte_mempool_free p s =
     (case p of
        None \<Rightarrow> Some s
      | Some p \<Rightarrow> if p \<in> set (pools s) then Some (s\<lparr>pools := remove1 p (pools s)\<rparr>) else None)"

definition lport_port_start :: "dpdk \<Rightarrow> u32 \<Rightarrow> port_state \<Rightarrow> port_state run" where
  "lport_port_start D lid s =
     (case lport_get D lid of
        None \<Rightarrow> Exited s
      | Some i \<Rightarrow> (case eth D (Dev_Start (lport2pid lid)) s of (r, s) \<Rightarrow>
          if r < 0 then Returned (- EINVAL) s
          else if and (lp_flags (lpc (lports s ! i))) LPORT_FLAG_PROMISCUOUS \<noteq> 0
          then case eth D (Promiscuous_Enable (lport2pid lid)) s of (r, s) \<Rightarrow>
                 Returned (if r \<noteq> 0 then - EINVAL else 0) s
          else Returned 0 s))"

text \<open>
  The loop of \<^verbatim>\<open>lport_setup_queues\<close> for the queues \<open>qs\<close>: every queue gets the receive pool of
  the queue of \<open>lid\<close>.
\<close>

fun setup_queues_loop :: "dpdk \<Rightarrow> u32 \<Rightarrow> nat \<Rightarrow> nat list \<Rightarrow> port_state \<Rightarrow> port_state run option" where
  "setup_queues_loop D lid i [] s = Some (Returned 0 s)"
| "setup_queues_loop D lid i (q # qs) s = do {
     mp \<leftarrow> lport_get_rx_mp D lid s;
     case mp of
       None \<Rightarrow> Some (Exited s)
     | Some mp \<Rightarrow>
         (case eth D (Rx_Queue_Setup (lport2pid lid) (of_nat q) (nb_rxd (lpc (lports s ! i))) mp) s of (r, s) \<Rightarrow>
            if r < 0 then Some (Returned (- EINVAL) s)
            else case eth D (Tx_Queue_Setup (lport2pid lid) (of_nat q) (nb_txd (lpc (lports s ! i)))) s of (r, s) \<Rightarrow>
              if r < 0 then Some (Returned (- EINVAL) s) else setup_queues_loop D lid i qs s)
   }"

definition lport_setup_queues :: "dpdk \<Rightarrow> u32 \<Rightarrow> port_state \<Rightarrow> port_state run option" where
  "lport_setup_queues D lid s =
     (case lport_get D lid of
        None \<Rightarrow> Some (Exited s)
      | Some i \<Rightarrow> setup_queues_loop D lid i [0..<unat (nb_queues (lpc (lports s ! i)))] s)"

text \<open>The configuration handed to \<^verbatim>\<open>rte_eth_dev_configure\<close>.\<close>

definition port_conf :: "dpdk \<Rightarrow> application_config \<Rightarrow> dev_info \<Rightarrow> eth_conf" where
  "port_conf D c di =
     (let conf = default_port_conf D;
          hf = and (rss_hf conf) (flow_type_rss_offloads di);
          conf = conf\<lparr>rss_hf := hf\<rparr>;
          conf = (if max_vfs di \<noteq> 0 \<and> hf \<noteq> 0 then conf\<lparr>vmdq_rss := True\<rparr> else conf);
          conf = conf\<lparr>rx_offloads := and (rx_offloads conf) (rx_offload_capa di)\<rparr>
      in if application_link_speed c \<noteq> RTE_ETH_SPEED_NUM_UNKNOWN
         then conf\<lparr>link_speeds := speed_bitflag D (application_link_speed c) (application_link_half_duplex c)\<rparr>
         else conf)"

text \<open>One call whose failure ends the initialisation with \<open>-EINVAL\<close>.\<close>

definition eth_then ::
  "dpdk \<Rightarrow> eth_call \<Rightarrow> (int \<Rightarrow> bool) \<Rightarrow> (port_state \<Rightarrow> port_state run option) \<Rightarrow> port_state \<Rightarrow> port_state run option" where
  "eth_then D c bad k s = (case eth D c s of (r, s) \<Rightarrow> if bad r then Some (Returned (- EINVAL) s) else k s)"

definition port_init_finish :: "dpdk \<Rightarrow> u32 \<Rightarrow> nat \<Rightarrow> port_state \<Rightarrow> port_state run option" where
  "port_init_finish D lid i s = do {
     r \<leftarrow> lport_setup_queues D lid s;
     case r of
       Exited s \<Rightarrow> Some (Exited s)
     | Returned r s \<Rightarrow>
         if r \<noteq> 0 then Some (Returned (- EINVAL) s)
         else case lport_port_start D lid s of
           Exited s \<Rightarrow> Some (Exited s)
         | Returned r s \<Rightarrow>
             if r \<noteq> 0 then Some (Returned (- EINVAL) s)
             else Some (Returned 0 (upd_lport i (\<lambda>l. l\<lparr>inited := True\<rparr>) s))
   }"

definition lport_port_init :: "dpdk \<Rightarrow> application_config \<Rightarrow> u32 \<Rightarrow> port_state \<Rightarrow> port_state run option" where
  "lport_port_init D c lid s =
     (case lport_get D lid of
        None \<Rightarrow> Some (Exited s)
      | Some i \<Rightarrow>
          let p = lport2pid lid in
          if inited (lports s ! i) then Some (Returned 0 s)
          else eth_then D (Dev_Info_Get p) (\<lambda>r. r \<noteq> 0) (\<lambda>s.
            let s = upd_lport i (\<lambda>l. l\<lparr>ldev_info := info_of D p\<rparr>) s; nq = nb_queues (lpc (lports s ! i)) in
            eth_then D (Dev_Configure p nq (port_conf D c (info_of D p))) (\<lambda>r. r < 0) (\<lambda>s.
            let rxd = nb_rxd (lpc (lports s ! i)); txd = nb_txd (lpc (lports s ! i)) in
            eth_then D (Adjust_Desc p rxd txd) (\<lambda>r. r < 0) (\<lambda>s.
            let s = upd_lport i (\<lambda>l. l\<lparr>lpc := (lpc l)\<lparr>nb_rxd := fst (adjusted_desc D p rxd txd),
                                                        nb_txd := snd (adjusted_desc D p rxd txd)\<rparr>\<rparr>) s in
            eth_then D (Macaddr_Get p) (\<lambda>r. r < 0) (\<lambda>s.
            let s = upd_lport i (\<lambda>l. l\<lparr>lport_mac := macaddr_of D p\<rparr>) s in
            eth_then D (Set_Ptypes p) (\<lambda>r. r < 0) (port_init_finish D lid i) s) s) s) s) s)"

text \<open>The error exit frees both pools and leaves the pointers in the queue.\<close>

definition lqueue_err_exit :: "nat \<Rightarrow> nat \<Rightarrow> port_state \<Rightarrow> port_state run option" where
  "lqueue_err_exit i q s = do {
     x \<leftarrow> the_queue i q s;
     s \<leftarrow> rte_mempool_free (tx_mp x) s;
     s \<leftarrow> rte_mempool_free (rx_mp x) s;
     Some (Returned (- 1) s)
   }"

definition lqueue_tx_setup :: "dpdk \<Rightarrow> u32 \<Rightarrow> nat \<Rightarrow> nat \<Rightarrow> port_state \<Rightarrow> port_state run option" where
  "lqueue_tx_setup D lid i q s =
     (case eth D (Tx_Buffer_Alloc (lport2pid lid)) s of (r, s) \<Rightarrow>
        let b = lport_tx_buffer_alloc (r \<ge> 0); s = set_queue i q (\<lambda>x. x\<lparr>q_tx_buffer := b\<rparr>) s in
        if b = None then lqueue_err_exit i q s else Some (Returned 0 s))"

definition lqueue_setup :: "dpdk \<Rightarrow> u32 \<Rightarrow> string \<Rightarrow> port_state \<Rightarrow> port_state run option" where
  "lqueue_setup D lid nm s =
     (case lport_queue_get D lid s of
        None \<Rightarrow> Some (Exited s)
      | Some None \<Rightarrow> Some (Returned (- EINVAL) s)
      | Some (Some q) \<Rightarrow> do {
          let i = unat (lport2pid lid);
          let conf = lpc (lports s ! i);
          _ \<leftarrow> the_queue i q s;
          let (rx, s) = lport_pktmbuf_pool D (take 62 (nm @ ''-rx-'' @ lport_format lid)) lid
                          (align32pow2 D (nb_rx_mbufs conf)) (mbuf_size conf) (cache_sz conf) s;
          let s = set_queue i q (\<lambda>x. x\<lparr>rx_mp := rx\<rparr>) s;
          if rx = None then lqueue_err_exit i q s
          else if nb_tx_mbufs conf \<noteq> 0
          then (let (tx, s) = lport_pktmbuf_pool D (take 62 (nm @ ''-tx-'' @ lport_format lid)) lid
                                (align32pow2 D (nb_tx_mbufs conf)) (mbuf_size conf) (cache_sz conf) s;
                    s = set_queue i q (\<lambda>x. x\<lparr>tx_mp := tx\<rparr>) s
                in if tx = None then lqueue_err_exit i q s else lqueue_tx_setup D lid i q s)
          else lqueue_tx_setup D lid i q s
        })"

text \<open>\<^verbatim>\<open>lport_setup\<close>; its error exit resets the port even when other queues of it are in use.\<close>

definition setup_err_exit :: "nat \<Rightarrow> port_state \<Rightarrow> port_state run option" where
  "setup_err_exit i s =
     (let s = upd_lport i (\<lambda>l. l\<lparr>lqueues := None\<rparr>) s in Some (Returned (- 1) (snd (lport_free i s))))"

definition lport_setup_queue ::
  "dpdk \<Rightarrow> application_config \<Rightarrow> string \<Rightarrow> u32 \<Rightarrow> port_state \<Rightarrow> port_state run option" where
  "lport_setup_queue D c nm lid s = do {
     let i = unat (lport2pid lid);
     r \<leftarrow> lqueue_setup D lid nm s;
     case r of
       Exited s \<Rightarrow> Some (Exited s)
     | Returned r s \<Rightarrow>
         if r < 0 then setup_err_exit i s
         else do {
           r \<leftarrow> lport_port_init D c lid s;
           case r of
             Exited s \<Rightarrow> Some (Exited s)
           | Returned r s \<Rightarrow> if r \<noteq> 0 then setup_err_exit i s else Some (Returned 0 s)
         }
   }"

definition lport_setup ::
  "dpdk \<Rightarrow> application_config \<Rightarrow> string \<Rightarrow> u32 \<Rightarrow> lport_conf option \<Rightarrow> port_state \<Rightarrow> port_state run option" where
  "lport_setup D c nm lid cfg s = do {
     r \<leftarrow> lport_alloc D lid s;
     case r of
       Exited s \<Rightarrow> Some (Exited s)
     | Returned _ s \<Rightarrow>
         let i = unat (lport2pid lid);
             s = (case cfg of None \<Rightarrow> s | Some x \<Rightarrow> upd_lport i (\<lambda>l. l\<lparr>lpc := x\<rparr>) s);
             s = (if nb_queues (lpc (lports s ! i)) = 0
                  then upd_lport i (\<lambda>l. l\<lparr>lpc := (lpc l)\<lparr>nb_queues := 1\<rparr>\<rparr>) s else s)
         in lport_setup_queue D c nm lid s
   }"

text \<open>The address is fetched again when its first byte is 0; \<open>None\<close> ends the program.\<close>

definition lport_mac_address :: "dpdk \<Rightarrow> u32 \<Rightarrow> port_state \<Rightarrow> (bytes option \<times> port_state) option" where
  "lport_mac_address D lid s =
     (let p = lport2pid lid in
      case lport_get D lid of
        None \<Rightarrow> Some (None, s)
      | Some i \<Rightarrow>
          if \<not> valid_port D p then Some (None, s)
          else do {
            b \<leftarrow> load 0 1 (lport_mac (lports s ! i));
            if b = [0] then (case eth D (Macaddr_Get p) s of (r, s) \<Rightarrow>
              if r < 0 then Some (None, s)
              else Some (Some (macaddr_of D p), upd_lport i (\<lambda>l. l\<lparr>lport_mac := macaddr_of D p\<rparr>) s))
            else Some (Some (lport_mac (lports s ! i)), s)
          })"

section \<open>Receive callbacks\<close>

text \<open>The search for a free slot and for the slot of a function.\<close>

definition free_slot :: "callback_t list \<Rightarrow> nat option" where
  "free_slot cs = find (\<lambda>i. cb (cs ! i) = None) [0..<LPORT_MAX_CALLBACKS]"

definition fn_slot :: "nat \<Rightarrow> callback_t list \<Rightarrow> nat option" where
  "fn_slot f cs = find (\<lambda>i. cb (cs ! i) \<noteq> None \<and> cb_fn (cs ! i) = Some f) [0..<LPORT_MAX_CALLBACKS]"

definition lport_add_rx_callback :: "dpdk \<Rightarrow> u32 \<Rightarrow> nat \<Rightarrow> port_state \<Rightarrow> port_state run" where
  "lport_add_rx_callback D lid f s =
     (case lport_get D lid of
        None \<Rightarrow> Exited s
      | Some i \<Rightarrow>
          let p = lport2pid lid; q = lport2qid lid; h = length (calls s) in
          case eth D (Add_Rx_Callback p q f) s of (r, s) \<Rightarrow>
            if r < 0 then Returned (- EINVAL) s
            else case free_slot (callback (lports s ! i)) of
              Some k \<Rightarrow> Returned 0 (upd_lport i (\<lambda>l. l\<lparr>nb_cb := nb_cb l + 1,
                           callback := (callback l)[k := \<lparr>cb = Some h, cb_fn = Some f\<rparr>]\<rparr>) s)
            | None \<Rightarrow> Returned (- ENOSPC) (snd (eth D (Remove_Rx_Callback p q h) s)))"

definition lport_remove_rx_callback :: "dpdk \<Rightarrow> u32 \<Rightarrow> nat \<Rightarrow> port_state \<Rightarrow> port_state run" where
  "lport_remove_rx_callback D lid f s =
     (case lport_get D lid of
        None \<Rightarrow> Exited s
      | Some i \<Rightarrow>
          (case fn_slot f (callback (lports s ! i)) of
             None \<Rightarrow> Returned 0 s
           | Some k \<Rightarrow>
               let h = the (cb (callback (lports s ! i) ! k));
                   s = upd_lport i (\<lambda>l. l\<lparr>nb_cb := nb_cb l - 1, callback := (callback l)[k := \<lparr>cb = None, cb_fn = None\<rparr>]\<rparr>) s
               in case eth D (Remove_Rx_Callback (lport2pid lid) (lport2qid lid) h) s of (r, s) \<Rightarrow> Returned r s))"

section \<open>Link state\<close>

text \<open>\<open>None\<close> ends the program.\<close>

definition lport_link_get :: "dpdk \<Rightarrow> u32 \<Rightarrow> port_state \<Rightarrow> (bool \<times> port_state) option" where
  "lport_link_get D lid s =
     (if unat (lport2pid lid) \<ge> max_ethports D then None
      else let up = link_up D (calls s) (lport2pid lid) in
           case eth D (Link_Get_Nowait (lport2pid lid)) s of (r, s) \<Rightarrow> if r \<noteq> 0 then None else Some (up, s))"

text \<open>
  \<^verbatim>\<open>lport_link_status_wait\<close>: the loop after \<^verbatim>\<open>sec *= 4\<close>. \<open>sig\<close> is what other threads (the signal
  handler) do to the state during a pause. A negative count runs until it overflows, which
  is undefined: the result \<open>None\<close>. The value is the link state read last, if any; \<open>Exited\<close>
  when the program ended.
\<close>

function link_wait_loop ::
  "dpdk \<Rightarrow> (port_state \<Rightarrow> int) \<Rightarrow> u32 \<Rightarrow> int \<Rightarrow> bool \<Rightarrow> port_state \<Rightarrow> (bool \<times> port_state run) option" where
  "link_wait_loop D sig lid sec lk s =
     (if sec = 0 then Some (lk, Returned 0 s)
      else case lport_link_get D lid s of
        None \<Rightarrow> Some (lk, Exited s)
      | Some (up, s) \<Rightarrow>
          if up then Some (True, Returned 0 s)
          else let s = s\<lparr>link_running := sig s\<rparr> in
               if link_running s = 0 then Some (False, Returned 0 s)
               else if sec \<le> - (2 ^ 31) then None
               else link_wait_loop D sig lid (sec - 1) False s)"
  by pat_completeness auto

termination
  by (relation "measure (\<lambda>(D, sig, lid, sec, lk, s). nat (sec + 2 ^ 31))") auto

declare link_wait_loop.simps [simp del]

definition lport_link_status_wait ::
  "dpdk \<Rightarrow> (port_state \<Rightarrow> int) \<Rightarrow> u32 \<Rightarrow> int \<Rightarrow> port_state \<Rightarrow> (bool \<times> port_state run) option" where
  "lport_link_status_wait D sig lid sec s =
     (if 4 * sec < - (2 ^ 31) \<or> 4 * sec \<ge> 2 ^ 31 then None
      else do {
        (up, r) \<leftarrow> link_wait_loop D sig lid (4 * sec) False (lport_link_running_set 1 s);
        Some (up, case r of Exited s \<Rightarrow> Exited s | Returned x s \<Rightarrow> Returned x (lport_link_running_set 0 s))
      })"

definition lport_set_defaults :: "dpdk \<Rightarrow> application_config \<Rightarrow> u32 \<Rightarrow> lport_conf option" where
  "lport_set_defaults D c lid =
     (let p = lport2pid lid in
      if unat p \<ge> max_ethports D then None
      else Some (zero_conf\<lparr>lp_pid := p, cache_sz := ucast (application_cache_size c), nb_queues := cnt (qinfo c (unat p)),
             nb_rxd := ucast (application_num_rx_descriptors c), nb_txd := ucast (application_num_tx_descriptors c),
             mbuf_size := ucast (application_mbuf_size c), nb_rx_mbufs := application_num_mbufs c\<rparr>))"

end
