(* ===== verification/Port_Props.thy ===== *)
theory Port_Props
  imports Port
begin

text \<open>
  Properties of the port management: no pool is used after its release or shared by two
  queues, whatever DPDK answers; a queue that was set up stays usable; callbacks; waiting
  for the link.
\<close>

section \<open>Effect of the primitive steps\<close>

lemma eth_simps [simp]:
  "fst (eth D c s) = answer D (calls s) c" "calls (snd (eth D c s)) = calls s @ [c]"
  "lports (snd (eth D c s)) = lports s" "pools (snd (eth D c s)) = pools s"
  by (simp_all add: eth_def)

lemma upd_lport_simps [simp]:
  "calls (upd_lport i f s) = calls s" "pools (upd_lport i f s) = pools s"
  "length (lports (upd_lport i f s)) = length (lports s)"
  "i < length (lports s) \<Longrightarrow> lports (upd_lport i f s) ! j = (if j = i then f (lports s ! i) else lports s ! j)"
  by (auto simp: upd_lport_def)

lemma set_queue_simps [simp]:
  "calls (set_queue i q f s) = calls s" "pools (set_queue i q f s) = pools s"
  "length (lports (set_queue i q f s)) = length (lports s)"
  by (simp_all add: set_queue_def)

lemma set_queue_lport [simp]:
  assumes "i < length (lports s)"
  shows "lpc (lports (set_queue i q f s) ! j) = lpc (lports s ! j)"
    and "inited (lports (set_queue i q f s) ! j) = inited (lports s ! j)"
    and "lport_pid (lports (set_queue i q f s) ! j) = lport_pid (lports s ! j)"
    and "(lqueues (lports (set_queue i q f s) ! j) = None) = (lqueues (lports s ! j) = None)"
  using assms by (auto simp: set_queue_def)

lemma the_queue_cong: "lqueues (lports s' ! i) = lqueues (lports s ! i) \<Longrightarrow> the_queue i q s' = the_queue i q s"
  by (simp add: the_queue_def)

lemma the_queue_eth [simp]: "the_queue i q (snd (eth D c s)) = the_queue i q s"
  by (rule the_queue_cong) simp

lemma the_queue_pools [simp]: "the_queue i q (s\<lparr>pools := ps\<rparr>) = the_queue i q s"
  by (rule the_queue_cong) simp

lemma the_queue_calls [simp]: "the_queue i q (s\<lparr>calls := ps\<rparr>) = the_queue i q s"
  by (rule the_queue_cong) simp

lemma the_queue_upd:
  "i < length (lports s) \<Longrightarrow> lqueues (f (lports s ! i)) = lqueues (lports s ! i) \<Longrightarrow> the_queue j q (upd_lport i f s) = the_queue j q s"
  by (rule the_queue_cong) auto

lemma the_queue_set:
  assumes "i < length (lports s)"
  shows "the_queue j r (set_queue i q f s) =
         (if j = i \<and> r = q then map_option f (the_queue i q s) else the_queue j r s)"
  using assms by (auto simp: the_queue_def set_queue_def split: option.split)

section \<open>The invariant\<close>

definition refs :: "lqueue \<Rightarrow> nat set" where
  "refs x = set_option (rx_mp x) \<union> set_option (tx_mp x)"

text \<open>A port either has no queues or all of them, and knows its index.\<close>

definition port_shape :: "nat \<Rightarrow> lport_t \<Rightarrow> bool" where
  "port_shape i l \<longleftrightarrow> unat (nb_queues (lpc l)) \<le> DEFAULT_QUEUE_COUNT \<and>
     (case lqueues l of None \<Rightarrow> \<not> inited l
      | Some qs \<Rightarrow> length qs = DEFAULT_QUEUE_COUNT \<and> unat (lport_pid l) = i)"

text \<open>
  Every queue outside the ports of \<open>B\<close> refers to pools that are alive; no pool serves two
  queues, or one queue twice.
\<close>

definition pools_owned :: "nat set \<Rightarrow> port_state \<Rightarrow> bool" where
  "pools_owned B s \<longleftrightarrow>
     (\<forall>i q x. i < length (lports s) \<and> i \<notin> B \<and> the_queue i q s = Some x \<longrightarrow>
        refs x \<subseteq> set (pools s) \<and> (rx_mp x \<noteq> None \<longrightarrow> rx_mp x \<noteq> tx_mp x) \<and>
        (\<forall>j r y. j < length (lports s) \<and> the_queue j r s = Some y \<and> (j, r) \<noteq> (i, q) \<longrightarrow> refs x \<inter> refs y = {}))"

definition ports_ok :: "dpdk \<Rightarrow> nat set \<Rightarrow> port_state \<Rightarrow> bool" where
  "ports_ok D B s \<longleftrightarrow> length (lports s) = max_ethports D \<and> distinct (pools s) \<and>
     (\<forall>p\<in>set (pools s). p < length (calls s)) \<and>
     (\<forall>i<length (lports s). port_shape i (lports s ! i)) \<and> pools_owned B s"

lemma ports_okD:
  assumes "ports_ok D B s"
  shows "length (lports s) = max_ethports D" and "distinct (pools s)" and "\<And>p. p \<in> set (pools s) \<Longrightarrow> p < length (calls s)"
    and "\<And>i. i < length (lports s) \<Longrightarrow> port_shape i (lports s ! i)" and "pools_owned B s"
  using assms by (auto simp: ports_ok_def)

lemma pools_ownedD:
  assumes "pools_owned B s" and "i < length (lports s)" and "i \<notin> B" and "the_queue i q s = Some x"
  shows "refs x \<subseteq> set (pools s)" and "rx_mp x \<noteq> None \<Longrightarrow> rx_mp x \<noteq> tx_mp x"
    and "\<And>j r y. j < length (lports s) \<Longrightarrow> the_queue j r s = Some y \<Longrightarrow> (j, r) \<noteq> (i, q) \<Longrightarrow> refs x \<inter> refs y = {}"
  using assms unfolding pools_owned_def by blast+

lemma pools_owned_cong:
  assumes "pools_owned B s" and "length (lports s') = length (lports s)" and "pools s' = pools s"
    and "\<And>i q. i < length (lports s) \<Longrightarrow> the_queue i q s' = the_queue i q s"
  shows "pools_owned B s'"
  using assms(1) unfolding pools_owned_def assms(2,3) by (metis assms(4))

lemma ports_ok_mono: "ports_ok D {} s \<Longrightarrow> ports_ok D B s"
  unfolding ports_ok_def pools_owned_def by blast

lemma ports_ok_eth: "ports_ok D B s \<Longrightarrow> ports_ok D B (snd (eth D' c s))"
  unfolding ports_ok_def by (auto intro: pools_owned_cong simp: less_Suc_eq)

lemma ports_ok_upd:
  assumes "ports_ok D B s" and "i < length (lports s)" and "lqueues (f (lports s ! i)) = lqueues (lports s ! i)"
    and "port_shape i (f (lports s ! i))"
  shows "ports_ok D B (upd_lport i f s)"
  using assms unfolding ports_ok_def by (auto intro: pools_owned_cong simp: the_queue_upd)

lemma ports_ok_clear:
  assumes "ports_ok D B s" and "i < length (lports s)" and "port_shape i l" and "lqueues l = None"
  shows "ports_ok D (B - {i}) (upd_lport i (\<lambda>_. l) s)"
proof -
  have q: "the_queue j r (upd_lport i (\<lambda>_. l) s) = (if j = i then None else the_queue j r s)" for j r
    using assms(2,4) by (auto simp: the_queue_def)
  have "pools_owned (B - {i}) (upd_lport i (\<lambda>_. l) s)"
    using ports_okD(5) [OF assms(1)] unfolding pools_owned_def q by simp
  then show ?thesis using assms unfolding ports_ok_def by auto
qed

lemma zero_shape [simp]: "port_shape i zero_lport" "lqueues zero_lport = None"
  by (simp_all add: port_shape_def zero_lport_def zero_conf_def)

text \<open>A queue is given a pool that no queue had, or loses one.\<close>

lemma ports_ok_set:
  assumes "ports_ok D B s" and i: "i < length (lports s)" and x: "the_queue i q s = Some x"
    and new: "refs (f x) \<subseteq> refs x \<union> P" "P \<subseteq> set (pools s)"
      "\<And>j r y. j < length (lports s) \<Longrightarrow> the_queue j r s = Some y \<Longrightarrow> (j, r) \<noteq> (i, q) \<Longrightarrow> P \<inter> refs y = {}"
    and "rx_mp (f x) \<noteq> None \<Longrightarrow> rx_mp (f x) \<noteq> tx_mp (f x)"
  shows "ports_ok D B (set_queue i q f s)"
proof -
  have shape: "port_shape j (lports (set_queue i q f s) ! j)" if "j < length (lports s)" for j
    using ports_okD(4) [OF assms(1) that] i by (auto simp: port_shape_def set_queue_def split: option.splits)
  have "pools_owned B (set_queue i q f s)"
    unfolding pools_owned_def
  proof (intro allI impI, goal_cases)
    case (1 j r y)
    note own = pools_ownedD [OF ports_okD(5) [OF assms(1)], of j r]
    show ?case
    proof (cases "j = i \<and> r = q")
      case True
      then have "y = f x" using 1 x i by (simp add: the_queue_set)
      then show ?thesis using True own [of x] x 1 new assms(7) i by (simp add: the_queue_set) blast
    next
      case False
      then have y: "the_queue j r s = Some y" using 1 i by (auto simp: the_queue_set split: if_splits)
      have "P \<inter> refs y = {}" using new(3) [OF _ y] 1 False by auto
      moreover have "refs y \<inter> refs x = {}" using own(3) [OF _ _ y i x] 1 False by auto
      ultimately show ?thesis using own [OF _ _ y] x new(1) False i 1 by (simp add: the_queue_set) blast
    qed
  qed
  then show ?thesis using assms(1) shape i unfolding ports_ok_def by simp
qed

section \<open>Set-up of a queue\<close>

lemma pool_create_ok:
  assumes "ports_ok D {} s" and "lport_pktmbuf_pool D nm lid n msz cache s = (p, s1)"
  shows "ports_ok D {} s1" and "lports s1 = lports s" and "set_option p \<subseteq> set (pools s1)" and "set_option p \<inter> set (pools s) = {}"
proof -
  let ?s = "snd (eth D (Pool_Create nm n cache msz (lport2pid lid)) s)"
  have s1: "s1 = (case p of None \<Rightarrow> ?s | Some k \<Rightarrow> ?s\<lparr>pools := k # pools ?s\<rparr>)" "p = None \<or> p = Some (length (calls s))"
    using assms(2) by (auto simp: lport_pktmbuf_pool_def eth_def Let_def split: if_splits)
  have fresh: "length (calls s) \<notin> set (pools s)" using ports_okD(3) [OF assms(1)] by blast
  show "lports s1 = lports s" "set_option p \<subseteq> set (pools s1)" "set_option p \<inter> set (pools s) = {}"
    using s1 fresh by (auto split: option.splits)
  have "pools_owned {} (?s\<lparr>pools := k # pools ?s\<rparr>)" for k
    using ports_okD(5) [OF ports_ok_eth [OF assms(1)]] unfolding pools_owned_def the_queue_pools by simp blast
  then show "ports_ok D {} s1"
    using s1 fresh ports_ok_eth [OF assms(1), of D "Pool_Create nm n cache msz (lport2pid lid)"] ports_okD(3) [OF assms(1)]
    unfolding ports_ok_def by (auto simp: less_Suc_eq split: option.splits)
qed

lemma free_pool_ok:
  assumes "ports_ok D {} s" and "i < length (lports s)" and "the_queue i q s = Some x"
  shows "\<exists>s'. lqueue_err_exit i q s = Some (Returned (- 1) s') \<and> ports_ok D {i} s' \<and> lports s' = lports s"
proof -
  let ?ps = "filter (\<lambda>p. p \<notin> refs x) (pools s)"
  have rm: "remove1 a ps = filter (\<lambda>p. p \<noteq> a) ps" if "distinct ps" for a and ps :: "nat list"
    using that by (auto simp: distinct_remove1_removeAll removeAll_filter_not_eq intro: filter_cong)
  note own = pools_ownedD [OF ports_okD(5) [OF assms(1)] assms(2) _ assms(3), simplified]
  have "lqueue_err_exit i q s = Some (Returned (- 1) (s\<lparr>pools := ?ps\<rparr>))"
    using own(1,2) assms(3) ports_okD(2) [OF assms(1)]
    by (cases "rx_mp x"; cases "tx_mp x") (auto simp: lqueue_err_exit_def rte_mempool_free_def refs_def rm conj_commute)
  moreover have "pools_owned {i} (s\<lparr>pools := ?ps\<rparr>)"
    using ports_okD(5) [OF assms(1)] own(3) unfolding pools_owned_def the_queue_pools by simp blast
  ultimately show ?thesis using assms(1) unfolding ports_ok_def by auto
qed

text \<open>The set-up of queue \<open>q\<close> of port \<open>i\<close> changes no other queue.\<close>

definition queue_frame :: "nat \<Rightarrow> nat \<Rightarrow> port_state \<Rightarrow> port_state \<Rightarrow> bool" where
  "queue_frame i q s s' \<longleftrightarrow> length (lports s') = length (lports s) \<and>
     (\<forall>j. lpc (lports s' ! j) = lpc (lports s ! j) \<and> inited (lports s' ! j) = inited (lports s ! j) \<and>
          (lqueues (lports s' ! j) = None) = (lqueues (lports s ! j) = None)) \<and>
     (\<forall>j r. (j, r) \<noteq> (i, q) \<longrightarrow> the_queue j r s' = the_queue j r s)"

definition queue_ready :: "lqueue \<Rightarrow> bool" where
  "queue_ready x \<longleftrightarrow> rx_mp x \<noteq> None \<and> q_tx_buffer x = Some \<lparr>tx_size = of_nat TX_BUFFER_SIZE, tx_capacity = TX_BUFFER_SIZE, pkts = []\<rparr>"

lemma queue_frame_trans: "queue_frame i q s s1 \<Longrightarrow> queue_frame i q s1 s2 \<Longrightarrow> queue_frame i q s s2"
  by (simp add: queue_frame_def)

lemma queue_frame_same: "lports s' = lports s \<Longrightarrow> queue_frame i q s s'"
  by (simp add: queue_frame_def the_queue_def)

lemma queue_frame_set: "i < length (lports s) \<Longrightarrow> queue_frame i q s (set_queue i q f s)"
  by (simp add: queue_frame_def the_queue_set)

text \<open>Storing a new pool, or the null pointer, in a queue.\<close>

lemma store_pool_ok:
  assumes "ports_ok D {} s" and "lport_pktmbuf_pool D nm lid n msz cache s = (p, s1)"
    and "i < length (lports s)" and "the_queue i q s = Some x" and "f = (\<lambda>y. y\<lparr>rx_mp := p\<rparr>) \<or> f = (\<lambda>y. y\<lparr>tx_mp := p\<rparr>)"
  shows "ports_ok D {} (set_queue i q f s1)" and "queue_frame i q s (set_queue i q f s1)"
    and "the_queue i q (set_queue i q f s1) = Some (f x)"
proof -
  note pc = pool_create_ok [OF assms(1,2)]
  have t: "the_queue j r s1 = the_queue j r s" for j r using pc(2) by (simp add: the_queue_def)
  have i: "i < length (lports s1)" using assms(3) pc(2) by simp
  note own = pools_ownedD [OF ports_okD(5) [OF assms(1)]]
  show "ports_ok D {} (set_queue i q f s1)"
  proof (rule ports_ok_set [OF pc(1) i])
    show "the_queue i q s1 = Some x" using assms(4) t by simp
    show "refs (f x) \<subseteq> refs x \<union> set_option p" using assms(5) by (auto simp: refs_def)
    show "set_option p \<subseteq> set (pools s1)" by (rule pc(3))
    show "set_option p \<inter> refs y = {}" if "j < length (lports s1)" "the_queue j r s1 = Some y" for j r y
      using own(1) [of j r y] that pc(2,4) t by auto
    show "rx_mp (f x) \<noteq> tx_mp (f x)" if "rx_mp (f x) \<noteq> None"
      using own(1,2) [OF assms(3) _ assms(4)] that pc(4) assms(5) by (auto simp: refs_def)
  qed
  show "queue_frame i q s (set_queue i q f s1)"
    using queue_frame_trans [OF queue_frame_same [OF pc(2)] queue_frame_set [OF i]] .
  show "the_queue i q (set_queue i q f s1) = Some (f x)" using i assms(4) t by (simp add: the_queue_set)
qed

definition queue_result :: "dpdk \<Rightarrow> nat \<Rightarrow> nat \<Rightarrow> port_state \<Rightarrow> (lqueue \<Rightarrow> bool) \<Rightarrow> port_state run option \<Rightarrow> bool" where
  "queue_result D i q s good r \<longleftrightarrow>
     (\<exists>e s'. r = Some (Returned e s') \<and> queue_frame i q s s' \<and> e \<le> 0 \<and> ports_ok D (if e < 0 then {i} else {}) s' \<and>
             (e = 0 \<longrightarrow> (\<exists>x. the_queue i q s' = Some x \<and> queue_ready x \<and> good x)))"

lemma queue_result_frame:
  "queue_frame i q s s1 \<Longrightarrow> queue_result D i q s1 good r \<Longrightarrow> queue_result D i q s good r"
  unfolding queue_result_def using queue_frame_trans by blast

lemma err_exit_result:
  assumes "ports_ok D {} s" and "i < length (lports s)" and "the_queue i q s = Some x"
  shows "queue_result D i q s good (lqueue_err_exit i q s)"
  using free_pool_ok [OF assms] queue_frame_same by (fastforce simp: queue_result_def)

lemma tx_setup_result:
  assumes "ports_ok D {} s" and "i < length (lports s)" and "the_queue i q s = Some x" and "rx_mp x \<noteq> None"
    and "\<And>b. good (x\<lparr>q_tx_buffer := b\<rparr>)"
  shows "queue_result D i q s good (lqueue_tx_setup D lid i q s)"
proof -
  define b where "b = lport_tx_buffer_alloc (answer D (calls s) (Tx_Buffer_Alloc (lport2pid lid)) \<ge> 0)"
  define s1 where "s1 = set_queue i q (\<lambda>x. x\<lparr>q_tx_buffer := b\<rparr>) (snd (eth D (Tx_Buffer_Alloc (lport2pid lid)) s))"
  have r: "lqueue_tx_setup D lid i q s = (if b = None then lqueue_err_exit i q s1 else Some (Returned 0 s1))"
    by (simp add: lqueue_tx_setup_def b_def s1_def Let_def eth_def)
  have b: "b = None \<or> b = Some \<lparr>tx_size = of_nat TX_BUFFER_SIZE, tx_capacity = TX_BUFFER_SIZE, pkts = []\<rparr>"
    by (simp add: b_def lport_tx_buffer_alloc_def lport_tx_buffer_init_def)
  have own: "rx_mp x \<noteq> tx_mp x" using pools_ownedD(2) [OF ports_okD(5) [OF assms(1)] assms(2) _ assms(3)] assms(4) by simp
  have ok: "ports_ok D {} s1" unfolding s1_def
    by (rule ports_ok_set [OF ports_ok_eth [OF assms(1)], where P = "{}" and x = x])
      (use assms(2,3) own in \<open>simp_all add: refs_def\<close>)
  have x: "the_queue i q s1 = Some (x\<lparr>q_tx_buffer := b\<rparr>)" using assms(2,3) by (simp add: s1_def the_queue_set)
  have fr: "queue_frame i q s s1" unfolding s1_def
    by (rule queue_frame_trans [OF queue_frame_same queue_frame_set]) (use assms(2) in simp_all)
  have l: "i < length (lports s1)" using assms(2) by (simp add: s1_def)
  show ?thesis
    using r b queue_result_frame [OF fr err_exit_result [OF ok l x]] fr ok x assms(4,5)
    by (auto simp: queue_result_def queue_ready_def)
qed

lemma lqueue_setup_result:
  assumes "ports_ok D {} s" and "i < length (lports s)" and i: "i = unat (lport2pid lid)" and q: "q = unat (lport2qid lid)"
    and "lqueues (lports s ! i) \<noteq> None"
  shows "queue_result D i q s (\<lambda>x. lport2qid lid < nb_queues (lpc (lports s ! i)) \<and>
             (nb_tx_mbufs (lpc (lports s ! i)) \<noteq> 0 \<longrightarrow> tx_mp x \<noteq> None)) (lqueue_setup D lid nm s)"
proof (cases "lport2qid lid < nb_queues (lpc (lports s ! i))")
  case False
  then have "lqueue_setup D lid nm s = Some (Returned (- EINVAL) s)"
    using assms ports_okD(1) [OF assms(1)] by (simp add: lqueue_setup_def lport_queue_get_def lport_get_def not_less)
  then show ?thesis using ports_ok_mono [OF assms(1)] queue_frame_same [OF refl] by (auto simp: queue_result_def EINVAL_def)
next
  case True
  then have g: "lport_queue_get D lid s = Some (Some q)"
    using assms ports_okD(1) [OF assms(1)] by (simp add: lport_queue_get_def lport_get_def not_le)
  have "unat (lport2qid lid) < unat (nb_queues (lpc (lports s ! i)))" using True by (simp add: word_less_nat_alt)
  then obtain x where x: "the_queue i q s = Some x"
    using ports_okD(4) [OF assms(1,2)] assms(5) q by (auto simp: port_shape_def the_queue_def split: option.splits)
  let ?c = "lpc (lports s ! i)"
  obtain rx s1 where p1: "lport_pktmbuf_pool D (take 62 (nm @ ''-rx-'' @ lport_format lid)) lid
      (align32pow2 D (nb_rx_mbufs ?c)) (mbuf_size ?c) (cache_sz ?c) s = (rx, s1)" by fastforce
  define s2 where "s2 = set_queue i q (\<lambda>x. x\<lparr>rx_mp := rx\<rparr>) s1"
  have 2: "ports_ok D {} s2" "queue_frame i q s s2" "the_queue i q s2 = Some (x\<lparr>rx_mp := rx\<rparr>)"
    unfolding s2_def using store_pool_ok [OF assms(1) p1 assms(2) x disjI1 [OF refl]] by auto
  have l2: "i < length (lports s2)" using 2(2) assms(2) by (simp add: queue_frame_def)
  obtain tx s3 where p3: "lport_pktmbuf_pool D (take 62 (nm @ ''-tx-'' @ lport_format lid)) lid
      (align32pow2 D (nb_tx_mbufs ?c)) (mbuf_size ?c) (cache_sz ?c) s2 = (tx, s3)" by fastforce
  define s4 where "s4 = set_queue i q (\<lambda>x. x\<lparr>tx_mp := tx\<rparr>) s3"
  have 4: "ports_ok D {} s4" "queue_frame i q s2 s4" "the_queue i q s4 = Some (x\<lparr>rx_mp := rx, tx_mp := tx\<rparr>)"
    unfolding s4_def using store_pool_ok [OF 2(1) p3 l2 2(3) disjI2 [OF refl]] by auto
  have l4: "i < length (lports s4)" using 4(2) l2 by (simp add: queue_frame_def)
  have r: "lqueue_setup D lid nm s =
     (if rx = None then lqueue_err_exit i q s2 else if nb_tx_mbufs ?c \<noteq> 0
      then if tx = None then lqueue_err_exit i q s4 else lqueue_tx_setup D lid i q s4 else lqueue_tx_setup D lid i q s2)"
    using x p1 p3 unfolding s2_def s4_def i by (simp add: lqueue_setup_def g Let_def)
  show ?thesis unfolding r
    using queue_result_frame [OF 2(2)] queue_result_frame [OF queue_frame_trans [OF 2(2) 4(2)]]
      err_exit_result [OF 2(1) l2 2(3)] err_exit_result [OF 4(1) l4 4(3)]
      tx_setup_result [OF 2(1) l2 2(3)] tx_setup_result [OF 4(1) l4 4(3)] True by auto
qed

section \<open>Initialisation of a device\<close>

text \<open>The initialisation of port \<open>i\<close> keeps all queues and queue counts.\<close>

definition init_frame :: "nat \<Rightarrow> port_state \<Rightarrow> port_state \<Rightarrow> bool" where
  "init_frame i s s' \<longleftrightarrow> length (lports s') = length (lports s) \<and>
     (\<forall>j. lqueues (lports s' ! j) = lqueues (lports s ! j) \<and> nb_queues (lpc (lports s' ! j)) = nb_queues (lpc (lports s ! j)) \<and>
          lport_pid (lports s' ! j) = lport_pid (lports s ! j) \<and> (inited (lports s ! j) \<longrightarrow> inited (lports s' ! j)))"

definition init_result :: "dpdk \<Rightarrow> nat \<Rightarrow> port_state \<Rightarrow> port_state run option \<Rightarrow> bool" where
  "init_result D i s r \<longleftrightarrow>
     (\<exists>e s'. r = Some (Returned e s') \<and> ports_ok D {} s' \<and> init_frame i s s' \<and> (e = 0 \<longrightarrow> inited (lports s' ! i)))"

lemma init_frame_trans: "init_frame i s s1 \<Longrightarrow> init_frame i s1 s2 \<Longrightarrow> init_frame i s s2"
  by (simp add: init_frame_def)

lemma init_frame_same: "lports s' = lports s \<Longrightarrow> init_frame i s s'"
  by (simp add: init_frame_def)

lemma init_result_frame: "init_frame i s s1 \<Longrightarrow> init_result D i s1 r \<Longrightarrow> init_result D i s r"
  unfolding init_result_def using init_frame_trans by blast

lemma eth_then_result:
  assumes "ports_ok D {} s" and "\<And>s1. ports_ok D {} s1 \<Longrightarrow> lports s1 = lports s \<Longrightarrow> init_result D i s1 (k s1)"
  shows "init_result D i s (eth_then D c bad k s)"
proof -
  let ?s = "snd (eth D c s)"
  have ok: "ports_ok D {} ?s" "lports ?s = lports s" using ports_ok_eth [OF assms(1)] by simp_all
  have "init_result D i s (k ?s)" by (rule init_result_frame [OF init_frame_same [OF ok(2)] assms(2) [OF ok]])
  moreover have "init_result D i s (Some (Returned (- EINVAL) ?s))"
    using ok init_frame_same [OF ok(2)] by (auto simp: init_result_def EINVAL_def)
  ultimately show ?thesis by (simp add: eth_then_def eth_def)
qed

lemma upd_result:
  assumes "ports_ok D {} s" and "i < length (lports s)"
    and f: "lqueues (f (lports s ! i)) = lqueues (lports s ! i)" "nb_queues (lpc (f (lports s ! i))) = nb_queues (lpc (lports s ! i))"
      "lport_pid (f (lports s ! i)) = lport_pid (lports s ! i)" "inited (lports s ! i) \<longrightarrow> inited (f (lports s ! i))"
      "inited (f (lports s ! i)) \<longrightarrow> lqueues (lports s ! i) \<noteq> None"
  shows "ports_ok D {} (upd_lport i f s)" and "init_frame i s (upd_lport i f s)"
proof -
  have "port_shape i (f (lports s ! i))"
    using ports_okD(4) [OF assms(1,2)] f by (auto simp: port_shape_def split: option.splits)
  then show "ports_ok D {} (upd_lport i f s)" using assms(1,2) f(1) by (intro ports_ok_upd)
  show "init_frame i s (upd_lport i f s)" using assms(2) f by (simp add: init_frame_def)
qed

text \<open>All queues of a port receive into the pool of the queue that is set up first.\<close>

definition queue_calls :: "u16 \<Rightarrow> lport_conf \<Rightarrow> nat option \<Rightarrow> nat \<Rightarrow> eth_call list" where
  "queue_calls p c mp q = [Rx_Queue_Setup p (of_nat q) (nb_rxd c) mp, Tx_Queue_Setup p (of_nat q) (nb_txd c)]"

lemma setup_queues_loop_result:
  assumes "ports_ok D {} s" and "i < length (lports s)" and "i = unat (lport2pid lid)"
    and "lport2qid lid < nb_queues (lpc (lports s ! i))" and "lqueues (lports s ! i) \<noteq> None"
  shows "\<exists>e s'. setup_queues_loop D lid i qs s = Some (Returned e s') \<and> ports_ok D {} s' \<and> lports s' = lports s \<and>
     (e = 0 \<longrightarrow> (\<exists>x. the_queue i (unat (lport2qid lid)) s = Some x \<and>
        calls s' = calls s @ concat (map (queue_calls (lport2pid lid) (lpc (lports s ! i)) (rx_mp x)) qs)))"
  using assms(1,2,4,5)
proof (induction qs arbitrary: s)
  case Nil
  have "unat (lport2qid lid) < DEFAULT_QUEUE_COUNT"
    using Nil ports_okD(4) [OF Nil(1,2)] by (simp add: port_shape_def word_less_nat_alt)
  then show ?case using Nil ports_okD(4) [OF Nil(1,2)] by (auto simp: the_queue_def port_shape_def split: option.splits)
next
  case (Cons q qs)
  have "unat (lport2qid lid) < DEFAULT_QUEUE_COUNT"
    using Cons.prems ports_okD(4) [OF Cons.prems(1,2)] by (simp add: port_shape_def word_less_nat_alt)
  then obtain x where x: "the_queue i (unat (lport2qid lid)) s = Some x"
    using Cons.prems ports_okD(4) [OF Cons.prems(1,2)] by (auto simp: the_queue_def port_shape_def split: option.splits)
  have mp: "lport_get_rx_mp D lid s = Some (Some (rx_mp x))"
    using Cons.prems x ports_okD(1) [OF Cons.prems(1)] assms(3) by (simp add: lport_get_rx_mp_def lport_queue_get_def lport_get_def)
  let ?rx = "Rx_Queue_Setup (lport2pid lid) (of_nat q) (nb_rxd (lpc (lports s ! i))) (rx_mp x)"
  let ?tx = "Tx_Queue_Setup (lport2pid lid) (of_nat q) (nb_txd (lpc (lports s ! i)))"
  let ?s2 = "snd (eth D ?tx (snd (eth D ?rx s)))"
  have 1: "ports_ok D {} (snd (eth D ?rx s))" and 2: "ports_ok D {} ?s2" using Cons.prems(1) ports_ok_eth by blast+
  from Cons.IH [OF 2] Cons.prems(2-4) x have
    "\<exists>e s'. setup_queues_loop D lid i qs ?s2 = Some (Returned e s') \<and> ports_ok D {} s' \<and> lports s' = lports s \<and>
       (e = 0 \<longrightarrow> calls s' = calls s @ concat (map (queue_calls (lport2pid lid) (lpc (lports s ! i)) (rx_mp x)) (q # qs)))"
    by (auto simp: queue_calls_def [abs_def])
  then show ?case using 1 2 mp x by (auto simp: EINVAL_def case_prod_unfold)
qed

lemma port_init_finish_result:
  assumes "ports_ok D {} s" and "i < length (lports s)" and "i = unat (lport2pid lid)"
    and "lport2qid lid < nb_queues (lpc (lports s ! i))" and "lqueues (lports s ! i) \<noteq> None"
  shows "init_result D i s (port_init_finish D lid i s)"
proof -
  have g: "lport_get D lid = Some i" using assms ports_okD(1) [OF assms(1)] by (simp add: lport_get_def)
  obtain e s1 where 1: "lport_setup_queues D lid s = Some (Returned e s1)" "ports_ok D {} s1" "lports s1 = lports s"
    using setup_queues_loop_result [OF assms] unfolding lport_setup_queues_def g by fastforce
  have start: "\<exists>e s2. lport_port_start D lid s1 = Returned e s2 \<and> ports_ok D {} s2 \<and> lports s2 = lports s"
    using 1(3) ports_ok_eth [OF 1(2)] ports_ok_eth [OF ports_ok_eth [OF 1(2)]] by (simp add: lport_port_start_def g case_prod_unfold)
  then obtain e2 s2 where 2: "lport_port_start D lid s1 = Returned e2 s2" "ports_ok D {} s2" "lports s2 = lports s" by blast
  let ?s3 = "upd_lport i (\<lambda>l. l\<lparr>inited := True\<rparr>) s2"
  have 3: "ports_ok D {} ?s3" "init_frame i s2 ?s3"
    using upd_result [OF 2(2), of i "\<lambda>l. l\<lparr>inited := True\<rparr>"] assms(2,5) 2(3) by simp_all
  have "inited (lports ?s3 ! i)" using assms(2) 2(3) by simp
  then have "init_result D i s (Some (Returned 0 ?s3))"
    using 3 init_frame_trans [OF init_frame_same [OF 2(3)] 3(2)] by (auto simp: init_result_def)
  moreover have "init_result D i s (Some (Returned (- EINVAL) s1))" "init_result D i s (Some (Returned (- EINVAL) s2))"
    using 1 2 init_frame_same by (auto simp: init_result_def EINVAL_def)
  ultimately show ?thesis by (simp add: port_init_finish_def 1(1) 2(1))
qed

lemma lport_port_init_result:
  assumes "ports_ok D {} s" and "i < length (lports s)" and "i = unat (lport2pid lid)"
    and "lport2qid lid < nb_queues (lpc (lports s ! i))" and "lqueues (lports s ! i) \<noteq> None"
  shows "init_result D i s (lport_port_init D c lid s)"
proof (cases "inited (lports s ! i)")
  case True
  then show ?thesis using assms ports_okD(1) [OF assms(1)] init_frame_same [OF refl]
    by (auto simp: lport_port_init_def lport_get_def init_result_def)
next
  case False
  let ?pre = "\<lambda>s. ports_ok D {} s \<and> i < length (lports s) \<and> lport2qid lid < nb_queues (lpc (lports s ! i)) \<and> lqueues (lports s ! i) \<noteq> None"
  have step: "init_result D i s1 (k (upd_lport i f s1))"
    if "?pre s1" "\<And>s. ?pre s \<Longrightarrow> init_result D i s (k s)"
      "\<And>l. lqueues (f l) = lqueues l \<and> nb_queues (lpc (f l)) = nb_queues (lpc l) \<and> lport_pid (f l) = lport_pid l \<and> inited (f l) = inited l"
    for s1 k f
  proof -
    have "ports_ok D {} (upd_lport i f s1)" "init_frame i s1 (upd_lport i f s1)"
      using upd_result [of D s1 i f] that(1,3) ports_okD(4) [of D "{}" s1 i] by (auto simp: port_shape_def)
    moreover from this have "?pre (upd_lport i f s1)" using that(1,3) by simp
    ultimately show ?thesis using init_result_frame that(2) by blast
  qed
  have pre: "?pre s" using assms by blast
  have et: "init_result D i s (eth_then D c bad k s)" if "?pre s" "\<And>s. ?pre s \<Longrightarrow> init_result D i s (k s)" for s c bad k
    by (rule eth_then_result) (use that in auto)
  have fin: "init_result D i s (port_init_finish D lid i s)" if "?pre s" for s
    using port_init_finish_result that assms(3) by blast
  have g: "lport_get D lid = Some i" using assms ports_okD(1) [OF assms(1)] by (simp add: lport_get_def)
  show ?thesis unfolding lport_port_init_def g Let_def using False
    by (auto intro!: et pre fin step)
qed

section \<open>The whole set-up\<close>

lemma ports_ok_fresh:
  assumes "ports_ok D {} s" and "i < length (lports s)" and "lqueues (lports s ! i) = None" and "unat (lport_pid (lports s ! i)) = i"
  shows "ports_ok D {} (upd_lport i (\<lambda>l. l\<lparr>lqueues := Some (replicate DEFAULT_QUEUE_COUNT zero_queue)\<rparr>) s)" (is "ports_ok D {} ?s")
proof -
  have q: "the_queue j r ?s = (if j = i then if r < DEFAULT_QUEUE_COUNT then Some zero_queue else None else the_queue j r s)" for j r
    using assms(2) by (simp add: the_queue_def)
  have "refs zero_queue = {}" "rx_mp zero_queue = None" by (simp_all add: refs_def zero_queue_def)
  then have "pools_owned {} ?s"
    using ports_okD(5) [OF assms(1)] unfolding pools_owned_def q by (simp split: if_splits)
  moreover have "port_shape j (lports ?s ! j)" if "j < length (lports s)" for j
    using ports_okD(4) [OF assms(1) that] assms(2,4) by (cases "j = i") (simp_all add: port_shape_def)
  ultimately show ?thesis using assms(1) unfolding ports_ok_def by simp
qed

lemma lport_alloc_result:
  assumes "ports_ok D {} s" and "i < length (lports s)" and i: "i = unat (lport2pid lid)"
  shows "(\<exists>s1. lport_alloc D lid s = Some (Exited s1)) \<or>
     (\<exists>s1. lport_alloc D lid s = Some (Returned 0 s1) \<and> ports_ok D {} s1 \<and> lqueues (lports s1 ! i) \<noteq> None \<and>
        length (lports s1) = length (lports s) \<and> (\<forall>j. j \<noteq> i \<or> inited (lports s ! i) \<longrightarrow> lports s1 ! j = lports s ! j))"
proof (cases "inited (lports s ! i)")
  case True
  then show ?thesis using assms ports_okD(4) [OF assms(1,2)] by (auto simp: lport_alloc_def Let_def port_shape_def split: option.splits)
next
  case False
  define sd :: u16 where "sd = (if word_of_int (socket_id D (lport2pid lid)) = (- 1 :: u16) then 0 else word_of_int (socket_id D (lport2pid lid)))"
  define l where "l = zero_lport\<lparr>lport_pid := lport2pid lid, sid := sd\<rparr>"
  define s1 where "s1 = snd (eth D (Calloc_Queues (lport2pid lid)) (upd_lport i (\<lambda>_. l) s))"
  let ?s2 = "upd_lport i (\<lambda>l. l\<lparr>lqueues := Some (replicate DEFAULT_QUEUE_COUNT zero_queue)\<rparr>) s1"
  have l: "lqueues l = None" "port_shape i l" "unat (lport_pid l) = i"
    using zero_shape(1) [of i] by (simp_all add: l_def port_shape_def i)
  have ok: "ports_ok D {} s1"
    using ports_ok_eth [OF ports_ok_clear [OF assms(1,2) l(2,1)]] by (simp add: s1_def)
  have s1: "length (lports s1) = length (lports s)" "lports s1 ! j = (if j = i then l else lports s ! j)" for j
    using assms(2) by (simp_all add: s1_def)
  have "ports_ok D {} ?s2" by (rule ports_ok_fresh [OF ok]) (use s1 assms(2) l in simp_all)
  moreover have "lport_alloc D lid s = Some (Exited s1) \<or> lport_alloc D lid s = Some (Returned 0 ?s2)"
    using assms(2) False unfolding lport_alloc_def i [symmetric] Let_def
    by (simp add: case_prod_unfold s1_def l_def sd_def)
  ultimately show ?thesis using s1 assms(2) False by auto
qed

lemma setup_err_exit_result:
  assumes "ports_ok D {i} s" and "i < length (lports s)" and "unat (lport_pid (lports s ! i)) = i"
  shows "\<exists>s'. setup_err_exit i s = Some (Returned (- 1) s') \<and> ports_ok D {} s'"
proof -
  have "setup_err_exit i s = Some (Returned (- 1) (upd_lport i (\<lambda>_. zero_lport) s))"
    using assms(2,3) by (simp add: setup_err_exit_def lport_free_def upd_lport_def)
  then show ?thesis using ports_ok_clear [OF assms(1,2) zero_shape] by simp
qed

text \<open>A queue that a thread can use; \<open>tx\<close> says whether it also has a transmit pool.\<close>

definition usable :: "dpdk \<Rightarrow> port_state \<Rightarrow> bool \<Rightarrow> u32 \<Rightarrow> bool" where
  "usable D s tx lid \<longleftrightarrow>
     (let i = unat (lport2pid lid) in
      i < max_ethports D \<and> inited (lports s ! i) \<and> lport2qid lid < nb_queues (lpc (lports s ! i)) \<and>
      (case the_queue i (unat (lport2qid lid)) s of None \<Rightarrow> False | Some x \<Rightarrow> queue_ready x \<and> (tx \<longrightarrow> tx_mp x \<noteq> None)))"

text \<open>The configuration that \<^verbatim>\<open>lport_setup\<close> works with.\<close>

definition effective :: "lport_conf \<Rightarrow> lport_conf" where
  "effective x = (if nb_queues x = 0 then x\<lparr>nb_queues := 1\<rparr> else x)"

definition setup_result :: "dpdk \<Rightarrow> u32 \<Rightarrow> lport_conf \<Rightarrow> port_state \<Rightarrow> port_state run option \<Rightarrow> bool" where
  "setup_result D lid x s r \<longleftrightarrow>
     (case r of None \<Rightarrow> False
      | Some (Exited s') \<Rightarrow> True
      | Some (Returned e s') \<Rightarrow> e \<le> 0 \<and> ports_ok D {} s' \<and>
          (e = 0 \<longrightarrow> usable D s' (nb_tx_mbufs x \<noteq> 0) lid \<and>
             (\<forall>tx lid'. usable D s tx lid' \<and> (lport2pid lid', lport2qid lid') \<noteq> (lport2pid lid, lport2qid lid) \<and>
                (lport2pid lid' = lport2pid lid \<longrightarrow> lport2qid lid' < nb_queues (effective x)) \<longrightarrow> usable D s' tx lid')))"

lemma usable_cong:
  assumes "usable D s tx lid" and "inited (lports s' ! unat (lport2pid lid))"
    and "lport2qid lid < nb_queues (lpc (lports s' ! unat (lport2pid lid)))"
    and "the_queue (unat (lport2pid lid)) (unat (lport2qid lid)) s' = the_queue (unat (lport2pid lid)) (unat (lport2qid lid)) s"
  shows "usable D s' tx lid"
  using assms by (simp add: usable_def Let_def)

lemma configured_result:
  assumes "ports_ok D {} s" and "i < length (lports s)" and "lqueues (lports s ! i) \<noteq> None"
    and "unat (nb_queues x) \<le> DEFAULT_QUEUE_COUNT"
  shows "ports_ok D {} (upd_lport i (\<lambda>l. l\<lparr>lpc := effective x\<rparr>) s)"
  using ports_okD(4) [OF assms(1,2)] assms
  by (intro ports_ok_upd) (auto simp: port_shape_def effective_def DEFAULT_QUEUE_COUNT_def split: option.splits)

lemma setup_continues:
  assumes "ports_ok D {} s2" and "i < length (lports s2)" and i: "i = unat (lport2pid lid)" and q: "q = unat (lport2qid lid)"
    and "lqueues (lports s2 ! i) \<noteq> None" and lpc: "lpc (lports s2 ! i) = effective x"
    and keep: "\<And>tx lid'. usable D s tx lid' \<Longrightarrow> (lport2pid lid' = lport2pid lid \<Longrightarrow> lport2qid lid' < nb_queues (effective x)) \<Longrightarrow> usable D s2 tx lid'"
  shows "setup_result D lid x s (lport_setup_queue D c nm lid s2)"
proof -
  have tx: "nb_tx_mbufs (effective x) = nb_tx_mbufs x" by (simp add: effective_def)
  obtain e s3 where 3: "lqueue_setup D lid nm s2 = Some (Returned e s3)" "queue_frame i q s2 s3" "e \<le> 0"
      "ports_ok D (if e < 0 then {i} else {}) s3"
      "e = 0 \<Longrightarrow> \<exists>y. the_queue i q s3 = Some y \<and> queue_ready y \<and> lport2qid lid < nb_queues (effective x) \<and> (nb_tx_mbufs x \<noteq> 0 \<longrightarrow> tx_mp y \<noteq> None)"
    using lqueue_setup_result [OF assms(1-5), of nm] unfolding queue_result_def lpc tx by blast
  have l3: "i < length (lports s3)" "lqueues (lports s3 ! i) \<noteq> None" "lpc (lports s3 ! i) = effective x"
    using 3(2) assms(2,5) lpc by (auto simp: queue_frame_def)
  have pid: "unat (lport_pid (lports s' ! i)) = i" if "ports_ok D B s'" "i < length (lports s')" "lqueues (lports s' ! i) \<noteq> None" for B s'
    using ports_okD(4) [OF that(1,2)] that(3) by (auto simp: port_shape_def split: option.splits)
  show ?thesis
  proof (cases "e < 0")
    case True
    then show ?thesis using 3 setup_err_exit_result [of D i s3] pid [of _ s3] l3 by (auto simp: setup_result_def lport_setup_queue_def i [symmetric])
  next
    case False
    with 3 obtain y where y: "the_queue i q s3 = Some y" "queue_ready y" "lport2qid lid < nb_queues (effective x)"
        "nb_tx_mbufs x \<noteq> 0 \<longrightarrow> tx_mp y \<noteq> None" and ok3: "ports_ok D {} s3" by force
    obtain e4 s4 where 4: "lport_port_init D c lid s3 = Some (Returned e4 s4)" "ports_ok D {} s4" "init_frame i s3 s4"
        "e4 = 0 \<Longrightarrow> inited (lports s4 ! i)"
      using lport_port_init_result [OF ok3 l3(1) i, of c] l3 y unfolding init_result_def by auto
    have l4: "i < length (lports s4)" "lqueues (lports s4 ! i) \<noteq> None" using 4(3) l3 by (auto simp: init_frame_def)
    have q4: "the_queue j r s4 = the_queue j r s3" for j r using 4(3) by (simp add: init_frame_def the_queue_def)
    have m: "i < max_ethports D" using ports_okD(1) [OF assms(1)] assms(2) by simp
    have "usable D s4 tx lid'"
      if "e4 = 0" "usable D s tx lid'" "(lport2pid lid', lport2qid lid') \<noteq> (lport2pid lid, lport2qid lid)"
        "lport2pid lid' = lport2pid lid \<Longrightarrow> lport2qid lid' < nb_queues (effective x)" for tx lid'
    proof (rule usable_cong [OF keep [OF that(2,4)]])
      have u: "usable D s2 tx lid'" by (rule keep [OF that(2,4)])
      show "inited (lports s4 ! unat (lport2pid lid'))" "lport2qid lid' < nb_queues (lpc (lports s4 ! unat (lport2pid lid')))"
        using u 3(2) 4(3) by (auto simp: usable_def queue_frame_def init_frame_def Let_def)
      have "(unat (lport2pid lid'), unat (lport2qid lid')) \<noteq> (i, q)" using that(3) i q by (auto simp: word_unat_eq_iff)
      then show "the_queue (unat (lport2pid lid')) (unat (lport2qid lid')) s4 = the_queue (unat (lport2pid lid')) (unat (lport2qid lid')) s2"
        using 3(2) q4 by (simp add: queue_frame_def)
    qed
    moreover have "usable D s4 (nb_tx_mbufs x \<noteq> 0) lid" if "e4 = 0"
      using that 4 y m q4 l3(3) i q by (simp add: usable_def init_frame_def)
    ultimately show ?thesis
      using 3(1) False 4 setup_err_exit_result [OF ports_ok_mono [OF 4(2)] l4(1)] pid [OF 4(2) l4]
      by (auto simp: setup_result_def lport_setup_queue_def i [symmetric])
  qed
qed

lemma lport_setup_result:
  assumes "ports_ok D {} s" and "unat (lport2pid lid) < max_ethports D" and "unat (nb_queues x) \<le> DEFAULT_QUEUE_COUNT"
  shows "setup_result D lid x s (lport_setup D c nm lid (Some x) s)"
proof -
  define i where "i = unat (lport2pid lid)"
  have li: "i < length (lports s)" using assms(2) ports_okD(1) [OF assms(1)] by (simp add: i_def)
  from lport_alloc_result [OF assms(1) li i_def] show ?thesis
  proof (elim disjE exE conjE)
    fix s1 assume "lport_alloc D lid s = Some (Exited s1)"
    then show ?thesis by (simp add: lport_setup_def setup_result_def)
  next
    fix s1
    assume a: "lport_alloc D lid s = Some (Returned 0 s1)" "ports_ok D {} s1" "lqueues (lports s1 ! i) \<noteq> None"
      "length (lports s1) = length (lports s)" and same: "\<forall>j. j \<noteq> i \<or> inited (lports s ! i) \<longrightarrow> lports s1 ! j = lports s ! j"
    define s2 where "s2 = upd_lport i (\<lambda>l. l\<lparr>lpc := effective x\<rparr>) s1"
    have l1: "i < length (lports s1)" using li a(4) by simp
    have "(if nb_queues (lpc (lports (upd_lport i (\<lambda>l. l\<lparr>lpc := x\<rparr>) s1) ! i)) = 0
       then upd_lport i (\<lambda>l. l\<lparr>lpc := (lpc l)\<lparr>nb_queues := 1\<rparr>\<rparr>) (upd_lport i (\<lambda>l. l\<lparr>lpc := x\<rparr>) s1)
       else upd_lport i (\<lambda>l. l\<lparr>lpc := x\<rparr>) s1) = s2"
      using l1 by (simp add: s2_def effective_def upd_lport_def)
    note sim = this [unfolded i_def]
    have q2: "the_queue j r s2 = the_queue j r s1" for j r unfolding s2_def by (rule the_queue_upd [OF l1]) simp
    have "usable D s2 tx lid'" if "usable D s tx lid'" "lport2pid lid' = lport2pid lid \<Longrightarrow> lport2qid lid' < nb_queues (effective x)" for tx lid'
    proof (rule usable_cong [OF that(1)])
      have u: "inited (lports s ! unat (lport2pid lid'))" using that(1) by (simp add: usable_def Let_def)
      have l: "lports s1 ! unat (lport2pid lid') = lports s ! unat (lport2pid lid')" using same u by (cases "unat (lport2pid lid') = i") auto
      show "inited (lports s2 ! unat (lport2pid lid'))" "lport2qid lid' < nb_queues (lpc (lports s2 ! unat (lport2pid lid')))"
        using l u that l1 by (auto simp: s2_def usable_def Let_def i_def word_unat_eq_iff)
      show "the_queue (unat (lport2pid lid')) (unat (lport2qid lid')) s2 = the_queue (unat (lport2pid lid')) (unat (lport2qid lid')) s"
        unfolding q2 by (rule the_queue_cong) (simp add: l)
    qed
    note keep = this
    have 2: "ports_ok D {} s2" "i < length (lports s2)" "lqueues (lports s2 ! i) \<noteq> None" "lpc (lports s2 ! i) = effective x"
      using configured_result [OF a(2) l1 a(3) assms(3)] l1 a(3) by (simp_all add: s2_def)
    have "setup_result D lid x s (lport_setup_queue D c nm lid s2)"
      by (rule setup_continues [OF 2(1,2) i_def refl 2(3,4)]) (rule keep)
    then show ?thesis using a(1) by (simp add: lport_setup_def Let_def sim)
  qed
qed

section \<open>Properties of the set-up\<close>

text \<open>A sequence of set-ups, as the main program performs them; a failing one does not end it here.\<close>

fun setup_seq :: "dpdk \<Rightarrow> application_config \<Rightarrow> (string \<times> u32 \<times> lport_conf) list \<Rightarrow> port_state \<Rightarrow> port_state run option" where
  "setup_seq D c [] s = Some (Returned 0 s)"
| "setup_seq D c ((nm, lid, x) # rs) s = do {
     r \<leftarrow> lport_setup D c nm lid (Some x) s;
     case r of Exited s \<Rightarrow> Some (Exited s) | Returned _ s \<Rightarrow> setup_seq D c rs s
   }"

lemma lport_init_ok: "lport_init D 0 s = Returned 0 s' \<Longrightarrow> pools s = [] \<Longrightarrow> ports_ok D {} s'"
  by (auto simp: lport_init_def lport_ctor_def ports_ok_def pools_owned_def the_queue_def)

lemma setup_seq_ok:
  assumes "ports_ok D {} s" and "\<forall>(nm, lid, x)\<in>set rs. unat (lport2pid lid) < max_ethports D \<and> unat (nb_queues x) \<le> DEFAULT_QUEUE_COUNT"
  shows "\<exists>r. setup_seq D c rs s = Some r \<and> (\<forall>e s'. r = Returned e s' \<longrightarrow> ports_ok D {} s')"
  using assms
proof (induction rs arbitrary: s)
  case (Cons a rs)
  obtain nm lid x where a: "a = (nm, lid, x)" by (cases a)
  have "setup_result D lid x s (lport_setup D c nm lid (Some x) s)"
    by (rule lport_setup_result) (use Cons.prems a in auto)
  then show ?case using Cons a by (fastforce simp: setup_result_def split: option.splits run.splits)
qed simp


definition ex_dpdk :: dpdk where
  "ex_dpdk = \<lparr>answer = (\<lambda>_ _. 0), max_ethports = 2, socket_id = (\<lambda>_. 0),
     info_of = (\<lambda>_. \<lparr>flow_type_rss_offloads = 0, max_vfs = 0, rx_offload_capa = 0\<rparr>), macaddr_of = (\<lambda>_. [2, 0, 0, 0, 0, 1]),
     valid_port = (\<lambda>_. True), adjusted_desc = (\<lambda>_ a b. (a, b)), link_up = (\<lambda>cs _. length cs \<ge> 2),
     default_port_conf = \<lparr>rss_hf = 0, vmdq_rss = False, rx_offloads = 0, link_speeds = 0\<rparr>,
     speed_bitflag = (\<lambda>_ _. 0), align32pow2 = (\<lambda>x. x)\<rparr>"

definition ex_ports :: port_state where
  "ex_ports = \<lparr>link_running = 0, lports = [], calls = [], pools = []\<rparr>"


section \<open>Waiting for the link\<close>

lemma link_wait_step:
  "link_wait_loop D sig lid (int (Suc n)) lk s =
     (case lport_link_get D lid s of None \<Rightarrow> Some (lk, Exited s)
      | Some (up, s1) \<Rightarrow> let s2 = s1\<lparr>link_running := sig s1\<rparr> in
          if up then Some (True, Returned 0 s1) else if link_running s2 = 0 then Some (False, Returned 0 s2)
          else link_wait_loop D sig lid (int n) False s2)"
proof -
  have "\<not> int (Suc n) \<le> - (2 ^ 31)" "int (Suc n) - 1 = int n" "int (Suc n) \<noteq> 0" by simp_all
  then show ?thesis by (subst link_wait_loop.simps) (auto simp only: if_False Let_def split: option.split prod.split)
qed

lemma link_get_cases:
  "lport_link_get D lid s =
     (if unat (lport2pid lid) < max_ethports D \<and> answer D (calls s) (Link_Get_Nowait (lport2pid lid)) = 0
      then Some (link_up D (calls s) (lport2pid lid), s\<lparr>calls := calls s @ [Link_Get_Nowait (lport2pid lid)]\<rparr>) else None)"
  by (auto simp: lport_link_get_def eth_def Let_def)

lemma link_wait_loop_bound:
  "\<exists>up r k. link_wait_loop D sig lid (int n) lk s = Some (up, r) \<and> k \<le> n \<and>
     calls (run_state r) = calls s @ replicate k (Link_Get_Nowait (lport2pid lid))"
proof (induction n arbitrary: lk s)
  case 0
  show ?case by (auto simp: link_wait_loop.simps)
next
  case (Suc n)
  let ?L = "Link_Get_Nowait (lport2pid lid)"
  let ?s1 = "s\<lparr>calls := calls s @ [?L]\<rparr>"
  obtain up r k where "link_wait_loop D sig lid (int n) False (?s1\<lparr>link_running := sig ?s1\<rparr>) = Some (up, r)" "k \<le> n"
    "calls (run_state r) = calls s @ replicate (Suc k) ?L" using Suc [of False "?s1\<lparr>link_running := sig ?s1\<rparr>"] by auto
  moreover have "calls ?s1 = calls s @ replicate 1 ?L" "calls s = calls s @ replicate 0 ?L" by simp_all
  ultimately show ?case unfolding link_wait_step link_get_cases Let_def
    by (auto simp del: replicate.simps intro: exI [of _ "Suc k"] exI [of _ "1 :: nat"] exI [of _ "0 :: nat"])
qed

lemma link_wait_loop_result:
  assumes "\<And>cs. answer D cs (Link_Get_Nowait (lport2pid lid)) = 0" and "\<And>s. sig s \<noteq> 0" and "unat (lport2pid lid) < max_ethports D"
  shows "\<exists>e s'. link_wait_loop D sig lid (int n) False s =
     Some (\<exists>k<n. link_up D (calls s @ replicate k (Link_Get_Nowait (lport2pid lid))) (lport2pid lid), Returned e s')"
proof (induction n arbitrary: s)
  case 0
  show ?case by (auto simp: link_wait_loop.simps)
next
  case (Suc n)
  let ?L = "Link_Get_Nowait (lport2pid lid)"
  let ?s1 = "s\<lparr>calls := calls s @ [?L]\<rparr>"
  have "(\<exists>k<Suc n. link_up D (calls s @ replicate k ?L) (lport2pid lid)) \<longleftrightarrow>
      link_up D (calls s) (lport2pid lid) \<or> (\<exists>k<n. link_up D (calls ?s1 @ replicate k ?L) (lport2pid lid))"
    by (simp add: Ex_less_Suc2)
  then show ?case using Suc [of "?s1\<lparr>link_running := sig ?s1\<rparr>"] assms
    unfolding link_wait_step link_get_cases Let_def by auto
qed

text \<open>
  C16: waiting for the link for \<open>sec\<close> seconds always ends: after at most four polls per second
  the function returns (or the library reported an error), with no other call in between,
  and when no signal interrupts it the answer is whether one of the polls saw the link up.
\<close>

theorem link_wait_returns:
  assumes "0 \<le> sec" and "4 * sec < 2 ^ 31"
  shows "\<exists>up r k. lport_link_status_wait D sig lid sec s = Some (up, r) \<and> k \<le> nat (4 * sec) \<and>
     calls (run_state r) = calls s @ replicate k (Link_Get_Nowait (lport2pid lid)) \<and>
     ((\<forall>cs. answer D cs (Link_Get_Nowait (lport2pid lid)) = 0) \<and> (\<forall>s. sig s \<noteq> 0) \<and> unat (lport2pid lid) < max_ethports D \<longrightarrow>
        (up \<longleftrightarrow> (\<exists>k<nat (4 * sec). link_up D (calls s @ replicate k (Link_Get_Nowait (lport2pid lid))) (lport2pid lid))) \<and>
        link_running (run_state r) = 0)"
proof -
  let ?s = "lport_link_running_set 1 s" and ?n = "nat (4 * sec)"
  obtain up r k where r: "link_wait_loop D sig lid (int ?n) False ?s = Some (up, r)" "k \<le> ?n"
      "calls (run_state r) = calls ?s @ replicate k (Link_Get_Nowait (lport2pid lid))"
    using link_wait_loop_bound [of D sig lid ?n False ?s] by blast
  let ?r = "case r of Exited s \<Rightarrow> Exited s | Returned x s \<Rightarrow> Returned x (lport_link_running_set 0 s)"
  have "lport_link_status_wait D sig lid sec s = Some (up, ?r)"
    using r(1) assms by (simp add: lport_link_status_wait_def)
  moreover have "calls (run_state ?r) = calls s @ replicate k (Link_Get_Nowait (lport2pid lid))"
    using r(3) by (cases r) (simp_all add: lport_link_running_set_def)
  moreover have "(up \<longleftrightarrow> (\<exists>k<?n. link_up D (calls s @ replicate k (Link_Get_Nowait (lport2pid lid))) (lport2pid lid))) \<and>
      link_running (run_state ?r) = 0"
    if "\<forall>cs. answer D cs (Link_Get_Nowait (lport2pid lid)) = 0" "\<forall>s. sig s \<noteq> 0" "unat (lport2pid lid) < max_ethports D"
    using link_wait_loop_result [of D lid sig ?n ?s] that r(1) by (auto simp: lport_link_running_set_def)
  ultimately show ?thesis using r(2) by blast
qed

lemma link_wait_returns_witness:
  "\<exists>r. lport_link_status_wait ex_dpdk (\<lambda>_. 1) 0x10000 1 ex_ports = Some (True, r)"
proof -
  have "\<exists>k<(4::nat). link_up ex_dpdk (calls ex_ports @ replicate k (Link_Get_Nowait (lport2pid 0x10000))) (lport2pid 0x10000)"
    by (rule exI [of _ 2]) (simp add: ex_dpdk_def)
  then show ?thesis using link_wait_returns [of 1 ex_dpdk "\<lambda>_. 1" "0x10000" ex_ports] by (auto simp: ex_dpdk_def lport2pid_def)
qed

end
