(* ===== verification/Callbacks.thy ===== *)
theory Callbacks
  imports Port_Props
begin

text \<open>
  The table of receive callbacks of a port (\<^verbatim>\<open>lport_add_rx_callback\<close> and
  \<^verbatim>\<open>lport_remove_rx_callback\<close>) against the callbacks DPDK has installed.
\<close>

section \<open>Receive callbacks\<close>

text \<open>
  The callbacks DPDK has installed after a sequence of calls (latest first): a successful
  installation on a queue adds the handle, a removal on the same queue takes it away.
\<close>

fun installed_rev :: "dpdk \<Rightarrow> eth_call list \<Rightarrow> (u16 \<times> u16 \<times> nat) set" where
  "installed_rev D [] = {}"
| "installed_rev D (c # cs) =
     (case c of
        Add_Rx_Callback p q f \<Rightarrow> if answer D (rev cs) c < 0 then installed_rev D cs else insert (p, q, length cs) (installed_rev D cs)
      | Remove_Rx_Callback p q h \<Rightarrow> installed_rev D cs - {(p, q, h)}
      | _ \<Rightarrow> installed_rev D cs)"

definition installed :: "dpdk \<Rightarrow> eth_call list \<Rightarrow> (u16 \<times> u16 \<times> nat) set" where
  "installed D cs = installed_rev D (rev cs)"

text \<open>Occupied slots of the table.\<close>

definition slots :: "callback_t list \<Rightarrow> nat set" where
  "slots cs = {k. k < length cs \<and> cb (cs ! k) \<noteq> None}"

text \<open>
  The table of a port, used through the queue \<open>lid\<close>, agrees with DPDK: \<open>nb_cb\<close> counts the
  occupied slots, and their handles are those installed on the queue.
\<close>

definition callbacks_ok :: "dpdk \<Rightarrow> u32 \<Rightarrow> port_state \<Rightarrow> bool" where
  "callbacks_ok D lid s \<longleftrightarrow>
     (let l = lports s ! unat (lport2pid lid); cs = callback l in
      length cs = LPORT_MAX_CALLBACKS \<and> unat (nb_cb l) = card (slots cs) \<and>
      {h. (lport2pid lid, lport2qid lid, h) \<in> installed D (calls s)} = (\<lambda>k. the (cb (cs ! k))) ` slots cs \<and>
      inj_on (\<lambda>k. the (cb (cs ! k))) (slots cs) \<and> (\<forall>k\<in>slots cs. the (cb (cs ! k)) < length (calls s)))"

lemma installed_add:
  "installed D (cs @ [Add_Rx_Callback p q f]) =
     (if answer D cs (Add_Rx_Callback p q f) < 0 then installed D cs else insert (p, q, length cs) (installed D cs))"
  by (simp add: installed_def)

lemma installed_remove: "installed D (cs @ [Remove_Rx_Callback p q h]) = installed D cs - {(p, q, h)}"
  by (simp add: installed_def)

lemma installed_add_remove:
  assumes "\<not> answer D cs (Add_Rx_Callback p q f) < 0" and "(p, q, length cs) \<notin> installed D cs"
  shows "installed D (cs @ [Add_Rx_Callback p q f, Remove_Rx_Callback p q (length cs)]) = installed D cs"
  using assms by (simp add: installed_def)

lemma slots_update:
  assumes "k < length cs"
  shows "slots (cs[k := \<lparr>cb = Some h, cb_fn = g\<rparr>]) = insert k (slots cs)"
    and "slots (cs[k := \<lparr>cb = None, cb_fn = g\<rparr>]) = slots cs - {k}"
  using assms by (auto simp: slots_def nth_list_update)

lemma finite_slots [simp]: "finite (slots cs)"
  by (simp add: slots_def)

lemma card_slots:
  assumes "k < length cs" and "k \<notin> slots cs"
  shows "card (slots cs) < length cs"
proof -
  have "slots cs \<subseteq> {0..<length cs}" by (auto simp: slots_def)
  then have "slots cs \<subset> {0..<length cs}" using assms by fastforce
  then have "card (slots cs) < card {0..<length cs}" by (rule psubset_card_mono [OF finite_atLeastLessThan])
  then show ?thesis by simp
qed

lemma find_slot: "find P [0..<n] = Some k \<Longrightarrow> k < n \<and> P k"
  by (auto simp: find_Some_iff)

lemma find_no_slot: "find P [0..<n] = None \<Longrightarrow> k < n \<Longrightarrow> \<not> P k"
  by (auto simp: find_None_iff)

lemma callbacks_ok_insert:
  fixes lid :: u32 and f :: nat
  defines "c \<equiv> Add_Rx_Callback (lport2pid lid) (lport2qid lid) f"
  assumes ok: "callbacks_ok D lid s" and i: "i = unat (lport2pid lid)" "i < length (lports s)" "i < max_ethports D"
    and k: "k < length (callback (lports s ! i))" "k \<notin> slots (callback (lports s ! i))" and False: "\<not> answer D (calls s) c < 0"
  shows "callbacks_ok D lid (upd_lport i (\<lambda>l. l\<lparr>nb_cb := nb_cb l + 1,
           callback := (callback l)[k := \<lparr>cb = Some (length (calls s)), cb_fn = Some f\<rparr>]\<rparr>) (snd (eth D c s)))"
    (is "callbacks_ok D lid ?s")
  unfolding callbacks_ok_def Let_def i(1) [symmetric]
proof (intro conjI)
  let ?l = "lports s ! i" and ?h = "length (calls s)"
  let ?cs = "callback ?l" and ?n = "\<lparr>cb = Some ?h, cb_fn = Some f\<rparr>"
  note o = ok [unfolded callbacks_ok_def Let_def, folded i(1)]
  have c: "card (slots ?cs) < LPORT_MAX_CALLBACKS" using card_slots [OF k] o by simp
  have sel: "callback (lports ?s ! i) = ?cs[k := ?n]" "nb_cb (lports ?s ! i) = nb_cb ?l + 1" using i by simp_all
  note sl = slots_update(1) [OF k(1), of ?h "Some f"]
  have old: "the (cb (?cs[k := ?n] ! j)) = the (cb (?cs ! j))" if "j \<in> slots ?cs" for j
    using that k by (metis nth_list_update_neq)
  have new: "the (cb (?cs[k := ?n] ! k)) = ?h" using k by simp
  show "length (callback (lports ?s ! i)) = LPORT_MAX_CALLBACKS" using o sel by simp
  show "unat (nb_cb (lports ?s ! i)) = card (slots (callback (lports ?s ! i)))"
    using o c k unfolding sel sl by (simp add: unat_word_ariths LPORT_MAX_CALLBACKS_def)
  have "{h. (lport2pid lid, lport2qid lid, h) \<in> installed D (calls ?s)} = insert ?h ((\<lambda>k. the (cb (?cs ! k))) ` slots ?cs)"
    using o False by (auto simp: installed_add c_def)
  then show "{h. (lport2pid lid, lport2qid lid, h) \<in> installed D (calls ?s)} =
      (\<lambda>k. the (cb (callback (lports ?s ! i) ! k))) ` slots (callback (lports ?s ! i))"
    unfolding sel sl using old new by simp
  show "inj_on (\<lambda>k. the (cb (callback (lports ?s ! i) ! k))) (slots (callback (lports ?s ! i)))"
    unfolding sel sl using o old new k(2) by (force simp: inj_on_def)
  show "\<forall>k\<in>slots (callback (lports ?s ! i)). the (cb (callback (lports ?s ! i) ! k)) < length (calls ?s)"
    unfolding sel sl using o old new by (simp add: less_SucI)
qed

lemma add_callback_ok:
  assumes ok: "callbacks_ok D lid s" and i: "i = unat (lport2pid lid)" "i < length (lports s)" "i < max_ethports D"
    and r: "lport_add_rx_callback D lid f s = r"
  shows "\<exists>e s'. r = Returned e s' \<and> callbacks_ok D lid s' \<and> length (lports s') = length (lports s) \<and>
     (e = - ENOSPC \<longleftrightarrow> card (slots (callback (lports s ! i))) = LPORT_MAX_CALLBACKS \<and>
        \<not> answer D (calls s) (Add_Rx_Callback (lport2pid lid) (lport2qid lid) f) < 0)"
proof -
  let ?c = "Add_Rx_Callback (lport2pid lid) (lport2qid lid) f" and ?l = "lports s ! i"
  let ?cs = "callback ?l" and ?h = "length (calls s)"
  note o = ok [unfolded callbacks_ok_def Let_def, folded i(1)]
  have g: "lport_get D lid = Some i" using i by (simp add: lport_get_def)
  show ?thesis
  proof (cases "answer D (calls s) ?c < 0")
    case True
    then have "r = Returned (- EINVAL) (snd (eth D ?c s))" using r by (simp add: lport_add_rx_callback_def g Let_def case_prod_unfold)
    then show ?thesis using o True by (auto simp: callbacks_ok_def Let_def i(1) [symmetric] installed_add EINVAL_def ENOSPC_def less_SucI)
  next
    case False
    show ?thesis
    proof (cases "free_slot ?cs")
      case None
      then have all: "slots ?cs = {0..<LPORT_MAX_CALLBACKS}"
        using o by (auto simp: free_slot_def slots_def dest: find_no_slot)
      let ?s = "snd (eth D (Remove_Rx_Callback (lport2pid lid) (lport2qid lid) ?h) (snd (eth D ?c s)))"
      have "r = Returned (- ENOSPC) ?s"
        using r False None by (simp add: lport_add_rx_callback_def g Let_def case_prod_unfold)
      moreover have "(lport2pid lid, lport2qid lid, ?h) \<notin> installed D (calls s)"
      proof
        assume "(lport2pid lid, lport2qid lid, ?h) \<in> installed D (calls s)"
        then have "?h \<in> (\<lambda>k. the (cb (?cs ! k))) ` slots ?cs" using o by blast
        then show False using o by auto
      qed
      then have "callbacks_ok D lid ?s"
        using o False by (auto simp: callbacks_ok_def Let_def i(1) [symmetric] installed_add_remove less_SucI)
      ultimately show ?thesis using all False by simp
    next
      case (Some k)
      then have k: "k < length ?cs" "k \<notin> slots ?cs" using o by (auto simp: free_slot_def slots_def dest: find_slot)
      let ?n = "\<lparr>cb = Some ?h, cb_fn = Some f\<rparr>"
      let ?s = "upd_lport i (\<lambda>l. l\<lparr>nb_cb := nb_cb l + 1, callback := (callback l)[k := ?n]\<rparr>) (snd (eth D ?c s))"
      have "r = Returned 0 ?s" using r False Some by (simp add: lport_add_rx_callback_def g Let_def case_prod_unfold)
      moreover have c: "card (slots ?cs) < LPORT_MAX_CALLBACKS" using card_slots [OF k] o by simp
      moreover have "callbacks_ok D lid ?s" by (rule callbacks_ok_insert [OF ok i k False])
      ultimately show ?thesis by (auto simp: ENOSPC_def)
    qed
  qed
qed

lemma remove_callback_ok:
  assumes ok: "callbacks_ok D lid s" and i: "i = unat (lport2pid lid)" "i < length (lports s)" "i < max_ethports D"
    and r: "lport_remove_rx_callback D lid f s = r"
  shows "\<exists>e s'. r = Returned e s' \<and> callbacks_ok D lid s' \<and> length (lports s') = length (lports s)"
proof -
  let ?l = "lports s ! i" and ?p = "lport2pid lid" and ?q = "lport2qid lid"
  let ?cs = "callback ?l"
  note o = ok [unfolded callbacks_ok_def Let_def, folded i(1)]
  have g: "lport_get D lid = Some i" using i by (simp add: lport_get_def)
  show ?thesis
  proof (cases "fn_slot f ?cs")
    case None
    then show ?thesis using r ok by (auto simp: lport_remove_rx_callback_def g)
  next
    case (Some k)
    then have k: "k < length ?cs" "k \<in> slots ?cs" using o by (auto simp: fn_slot_def slots_def dest: find_slot)
    let ?h = "the (cb (?cs ! k))" and ?n = "\<lparr>cb = None, cb_fn = None\<rparr>"
    let ?s = "snd (eth D (Remove_Rx_Callback ?p ?q ?h) (upd_lport i (\<lambda>l. l\<lparr>nb_cb := nb_cb l - 1, callback := (callback l)[k := ?n]\<rparr>) s))"
    have "\<exists>e. r = Returned e ?s" using r Some by (auto simp: lport_remove_rx_callback_def g Let_def case_prod_unfold)
    moreover have "unat (nb_cb ?l - 1) = card (slots ?cs - {k})"
    proof -
      have "0 < card (slots ?cs)" using k by (auto simp: card_gt_0_iff)
      then have "1 \<le> nb_cb ?l" using o by (simp add: word_le_nat_alt)
      then show ?thesis using o k by (simp add: unat_sub card_Diff_singleton)
    qed
    moreover have "(\<lambda>j. the (cb (?cs[k := ?n] ! j))) ` (slots ?cs - {k}) = (\<lambda>j. the (cb (?cs ! j))) ` slots ?cs - {?h}"
    proof -
      have "(\<lambda>j. the (cb (?cs[k := ?n] ! j))) ` (slots ?cs - {k}) = (\<lambda>j. the (cb (?cs ! j))) ` (slots ?cs - {k})"
        by (rule image_cong) auto
      then show ?thesis using o k by (simp add: inj_on_image_set_diff [of _ "slots ?cs"])
    qed
    moreover have "inj_on (\<lambda>j. the (cb (?cs[k := ?n] ! j))) (slots ?cs - {k})"
      using o by (auto simp: inj_on_def)
    moreover have "{h. (?p, ?q, h) \<in> installed D (calls s) - {(?p, ?q, ?h)}} = {h. (?p, ?q, h) \<in> installed D (calls s)} - {?h}" by auto
    ultimately have "callbacks_ok D lid ?s" using o k i(2)
      by (auto simp: callbacks_ok_def Let_def slots_update installed_remove i(1) [symmetric] less_SucI)
    then show ?thesis using \<open>\<exists>e. r = Returned e ?s\<close> by auto
  qed
qed

text \<open>Installing (\<open>True\<close>) and removing callbacks one after the other.\<close>

fun callback_ops :: "dpdk \<Rightarrow> u32 \<Rightarrow> (bool \<times> nat) list \<Rightarrow> port_state \<Rightarrow> port_state run" where
  "callback_ops D lid [] s = Returned 0 s"
| "callback_ops D lid ((add, f) # ops) s =
     (case if add then lport_add_rx_callback D lid f s else lport_remove_rx_callback D lid f s of
        Exited s \<Rightarrow> Exited s | Returned _ s \<Rightarrow> callback_ops D lid ops s)"

text \<open>
  C17: the callback table of a port never loses a callback: after any sequence of
  installations and removals on a queue, \<^verbatim>\<open>nb_cb\<close> is the number of occupied slots and the
  handles in the table are exactly the callbacks DPDK has installed on the queue, also when
  the table was full and DPDK or the table refused some of them.
\<close>

theorem callbacks_tracked:
  assumes "callbacks_ok D lid s" and "unat (lport2pid lid) < length (lports s)" and "length (lports s) = max_ethports D"
  shows "\<exists>e s'. callback_ops D lid ops s = Returned e s' \<and> callbacks_ok D lid s'"
  using assms
proof (induction ops arbitrary: s)
  case (Cons a ops)
  obtain add f where a: "a = (add, f)" by (cases a)
  have "\<exists>e s'. (if add then lport_add_rx_callback D lid f s else lport_remove_rx_callback D lid f s) = Returned e s' \<and>
      callbacks_ok D lid s' \<and> length (lports s') = length (lports s)"
    using add_callback_ok [OF Cons.prems(1) refl _ _ refl, of f] remove_callback_ok [OF Cons.prems(1) refl _ _ refl, of f]
      Cons.prems(2,3) by auto
  then show ?case using Cons by (auto simp: a)
qed simp

lemma callbacks_tracked_witness:
  "\<exists>e s'. callback_ops ex_dpdk 0x10001 [(True, 7), (True, 8), (False, 7)]
     (ex_ports\<lparr>lports := [zero_lport, zero_lport]\<rparr>) = Returned e s' \<and> callbacks_ok ex_dpdk 0x10001 s'"
proof -
  have p: "unat (lport2pid 0x10001) = 1" by (simp add: lport2pid_def)
  have "slots (callback zero_lport) = {}" by (auto simp: slots_def zero_lport_def)
  then have "callbacks_ok ex_dpdk 0x10001 (ex_ports\<lparr>lports := [zero_lport, zero_lport]\<rparr>)"
    by (simp add: callbacks_ok_def p installed_def ex_ports_def Let_def) (simp add: zero_lport_def)
  from callbacks_tracked [OF this, of "[(True, 7), (True, 8), (False, 7)]"] show ?thesis by (simp add: p ex_dpdk_def)
qed

end
