(* ===== verification/Rx_Common.thy ===== *)
theory Rx_Common
  imports Lport
begin

text \<open>
  What the receive handlers of all traffic classes share: the state of a worker thread,
  the accounting of a frame, the decision to drop or to mirror it, and the loop over a
  burst that collects dropped mbufs and frees them 64 at a time.
\<close>

section \<open>The state of a worker thread\<close>

text \<open>
  The thread context with its clock, the device, the statistics, the buffer a handler
  decrypts into, and the threads whose condition variable this thread has signalled.
  \<open>hung\<close> says that a poll of the NIC used up its fuel. The callbacks of the thread's timers are named by \<open>timer_fn\<close>.
\<close>

datatype timer_fn = RX_ROUTINE | TX_ROUTINE | TX_GENERATION_ROUTINE

record 'c world = "(timer_fn, 'c) clocked" +
  dev :: io
  wstat :: stat_state
  plaintext :: bytes
  signals :: "nat list"
  hung :: bool

text \<open>
  The parameters of the model: configuration and mode, clock readings, the answers of the
  NIC and the packets it delivers (with fuel for polling it), the OpenSSL functions, the
  MAC address of the port (6 bytes behind the pointer that \<^verbatim>\<open>lport_mac_address\<close> returns),
  the address parser of the C library and the checksums of DPDK.
\<close>

record 'c platform =
  env :: app_env
  clk :: "nat \<Rightarrow> u64"
  nic :: "nat \<Rightarrow> nat"
  rx_pkts :: "nat \<Rightarrow> mbuf list"
  rx_fuel :: nat
  evp :: "'c evp"
  mac :: bytes
  inet_pton :: "bytes \<Rightarrow> bytes option"
  ipv4_cksum :: "bytes \<Rightarrow> u16"
  udptcp_cksum :: "bytes \<Rightarrow> u16"

abbreviation cfg_of :: "'c platform \<Rightarrow> stat_frame_type \<Rightarrow> traffic_class" where
  "cfg_of P t \<equiv> tc (app_config (env P)) t"

abbreviation mirror_of :: "'c platform \<Rightarrow> bool" where
  "mirror_of P \<equiv> is_mirror_mode (env P)"

definition vlan_tci_of :: "traffic_class \<Rightarrow> u16" where
  "vlan_tci_of c = make_tci (vid c) (pcp c)"

text \<open>The difference of the base offsets that mirrored timestamps are moved by.\<close>

definition mirror_delay :: "'c platform \<Rightarrow> u64" where
  "mirror_delay P = application_tx_base_offset_ns (app_config (env P))
                    - application_rx_base_offset_ns (app_config (env P))"

text \<open>A pointer of the configuration, \<open>[]\<close> when it is null: nothing can be read behind it.\<close>

definition pointee :: "bytes option \<Rightarrow> bytes" where
  "pointee p = (case p of None \<Rightarrow> [] | Some b \<Rightarrow> b)"

definition memcmp_neq :: "nat \<Rightarrow> bytes \<Rightarrow> bytes \<Rightarrow> u64 \<Rightarrow> bool option" where
  "memcmp_neq off b pattern n = do {
     x \<leftarrow> load off (unat n) b;
     y \<leftarrow> load 0 (unat n) pattern;
     Some (x \<noteq> y)
   }"

section \<open>Accounting and verdict\<close>

definition rx_account ::
  "'c platform \<Rightarrow> stat_frame_type \<Rightarrow> u64 \<Rightarrow> bool \<Rightarrow> bool \<Rightarrow> bool \<Rightarrow> u64 \<Rightarrow> 'c world \<Rightarrow> 'c world option" where
  "rx_account P t seq ooo pm fid ts w =
     (case clock_gettime_ns (clk P) w of (now, w) \<Rightarrow> do {
        st \<leftarrow> stat_frame_received (env P) t seq ooo pm fid ts now (wstat w);
        Some (w\<lparr>wstat := st\<rparr>)
      })"

text \<open>
  \<open>True\<close>: drop the frame. \<open>resync\<close> is whether the class adjusts its receive counter to a
  frame that is out of order.
\<close>

definition rx_verdict ::
  "bool \<Rightarrow> bool \<Rightarrow> u64 \<Rightarrow> bool \<Rightarrow> bool \<Rightarrow> bool \<Rightarrow> 'c world \<Rightarrow> bool \<times> 'c world" where
  "rx_verdict resync mirror seq ooo pm fid w =
     (if fid then (True, w)
      else if ooo then (True, if resync then w\<lparr>rx_sequence_counter := seq + 1\<rparr> else w)
      else let w = w\<lparr>rx_sequence_counter := rx_sequence_counter w + 1\<rparr>
           in if pm then (True, w) else (\<not> mirror, w))"

definition queue_mbuf :: "'c platform \<Rightarrow> mbuf \<Rightarrow> 'c world \<Rightarrow> 'c world option" where
  "queue_mbuf P m w = do { (_, d) \<leftarrow> lport_tx_buffer_add (nic P) m (dev w); Some (w\<lparr>dev := d\<rparr>) }"

section \<open>The loop over a burst\<close>

text \<open>
  A handler of one frame takes the expected frame length, which it may decrease for the
  frames behind it, and returns whether the frame is dropped.
\<close>

type_synonym 'c rx_step = "u64 \<Rightarrow> mbuf \<Rightarrow> 'c world \<Rightarrow> (bool \<times> mbuf \<times> u64 \<times> 'c world) option"

fun rx_frames :: "'c rx_step \<Rightarrow> mbuf list \<Rightarrow> u64 \<Rightarrow> mbuf list \<Rightarrow> 'c world \<Rightarrow> 'c world option" where
  "rx_frames step [] expected dropped w =
     Some (if dropped \<noteq> [] then w\<lparr>dev := rte_pktmbuf_free_bulk dropped (dev w)\<rparr> else w)"
| "rx_frames step (m # ms) expected dropped w = do {
     (drop, m, expected, w) \<leftarrow> step expected m w;
     if exited (wstat w) then Some w
     else if \<not> drop then rx_frames step ms expected dropped w
     else let dropped = dropped @ [m]
          in if length dropped = LPORT_PKTMBUF_FREE_PENDING_SZ
             then rx_frames step ms expected [] (w\<lparr>dev := rte_pktmbuf_free_bulk dropped (dev w)\<rparr>)
             else rx_frames step ms expected dropped w
   }"

section \<open>The contract of a frame handler\<close>

text \<open>
  Mbufs a handler may be given: one segment, with the data room the frames need.
\<close>

definition mbuf_ok :: "mbuf \<Rightarrow> bool" where
  "mbuf_ok m \<longleftrightarrow> MAX_FRAME_SIZE \<le> length (m_data m) \<and> unat (m_pkt_len m) \<le> length (m_data m)"

text \<open>
  \<open>inv n e w\<close>: the handler is ready for \<open>n\<close> more frames of the burst with the expected
  length \<open>e\<close>. \<open>same_ctx\<close>: the parts of the thread that receiving leaves alone.
\<close>

definition same_ctx :: "'c world \<Rightarrow> 'c world \<Rightarrow> bool" where
  "same_ctx w w' \<longleftrightarrow>
     timer w' = timer w \<and> next_ctx w' = next_ctx w \<and> is_first w' = is_first w \<and>
     meta_data_offset w' = meta_data_offset w \<and> num_frames_available w' = num_frames_available w \<and>
     tx_security_context w' = tx_security_context w \<and> tx_sequence_counter w' = tx_sequence_counter w \<and>
     ctx_payload_pattern w' = ctx_payload_pattern w \<and>
     ctx_payload_pattern_length w' = ctx_payload_pattern_length w \<and>
     signals w' = signals w \<and> hung w' = hung w \<and> data_cond_var w' = data_cond_var w \<and>
     rx_do_once w' = rx_do_once w \<and> tx_do_once w' = tx_do_once w \<and> tx_gen_do_once w' = tx_gen_do_once w"

lemma same_ctx_refl [simp]: "same_ctx w w"
  by (simp add: same_ctx_def)

lemma same_ctx_trans: "same_ctx u v \<Longrightarrow> same_ctx v w \<Longrightarrow> same_ctx u w"
  by (simp add: same_ctx_def)

lemma same_ctx_dev [simp]: "same_ctx w (w\<lparr>dev := d\<rparr>)" "same_ctx (w\<lparr>dev := d\<rparr>) w' = same_ctx w w'"
  by (auto simp: same_ctx_def)

locale rx_handler =
  fixes step :: "'c rx_step" and inv :: "nat \<Rightarrow> u64 \<Rightarrow> 'c world \<Rightarrow> bool"
  assumes step_ok: "inv (Suc n) e w \<Longrightarrow> mbuf_ok m \<Longrightarrow>
      \<exists>d m' e' w'. step e m w = Some (d, m', e', w') \<and> inv n e' w' \<and> m_id m' = m_id m \<and>
        same_ctx w w' \<and>
        mbufs_of (dev w') = mbufs_of (dev w) + (if d then {#} else {#m'#})"
    and inv_dev: "inv n e w \<Longrightarrow> inv n e (w\<lparr>dev := rte_pktmbuf_free_bulk ms (dev w)\<rparr>)"
begin

text \<open>
  The handler survives every burst, and unless the program ended each received mbuf is
  afterwards freed, queued for transmission or on the wire, exactly once.
\<close>

lemma burst_ok:
  assumes "inv (length ms) e w" and "\<forall>m\<in>set ms. mbuf_ok m"
  shows "\<exists>w' k e'. rx_frames step ms e dropped w = Some w' \<and> inv k e' w' \<and> same_ctx w w' \<and>
           (\<not> exited (wstat w') \<longrightarrow>
             image_mset m_id (mbufs_of (dev w')) =
             image_mset m_id (mbufs_of (dev w)) + mset (map m_id dropped) + mset (map m_id ms))"
  using assms
proof (induction ms arbitrary: e dropped w)
  case Nil
  then show ?case using inv_dev [of 0 e w dropped] by auto
next
  case (Cons m ms)
  obtain d m' e' w1 where s: "step e m w = Some (d, m', e', w1)" and inv: "inv (length ms) e' w1"
    and id: "m_id m' = m_id m" "same_ctx w w1" and c: "mbufs_of (dev w1) = mbufs_of (dev w) + (if d then {#} else {#m'#})"
    using step_ok [of "length ms" e w m] Cons.prems by auto
  have ms: "\<forall>m\<in>set ms. mbuf_ok m" using Cons.prems(2) by simp
  define w2 where "w2 = w1\<lparr>dev := rte_pktmbuf_free_bulk (dropped @ [m']) (dev w1)\<rparr>"
  have inv2: "inv (length ms) e' w2" unfolding w2_def by (rule inv_dev [OF inv])
  consider "exited (wstat w1)" | "\<not> exited (wstat w1)" "\<not> d"
    | "\<not> exited (wstat w1)" d "length (dropped @ [m']) = LPORT_PKTMBUF_FREE_PENDING_SZ"
    | "\<not> exited (wstat w1)" d "length (dropped @ [m']) \<noteq> LPORT_PKTMBUF_FREE_PENDING_SZ" by blast
  then show ?case
  proof cases
    case 1
    then show ?thesis using s inv id by auto
  next
    case 2
    then show ?thesis using Cons.IH [OF inv ms, of dropped] s c id by (auto simp: ac_simps intro: same_ctx_trans)
  next
    case 3
    then show ?thesis
      using Cons.IH [OF inv2 ms, of "[]"] s c id by (auto simp: Let_def w2_def ac_simps intro: same_ctx_trans)
  next
    case 4
    then show ?thesis
      using Cons.IH [OF inv ms, of "dropped @ [m']"] s c id by (auto simp: Let_def ac_simps intro: same_ctx_trans)
  qed
qed

end

section \<open>Totality of the helpers\<close>

lemma rd16_ex: "off + 2 \<le> length b \<Longrightarrow> \<exists>v. rd16 off b = Some v"
  by (simp add: rd16_def load_in_bounds)

lemma rx_seq_ex: "meta + 8 \<le> length b \<Longrightarrow> \<exists>s. meta_data_to_sequence_counter meta n b = Some s"
  by (simp add: meta_data_to_sequence_counter_def rd32_def load_in_bounds size_simps)

lemma rx_ts_ex: "meta + 16 \<le> length b \<Longrightarrow> \<exists>s. meta_data_to_tx_timestamp meta b = Some s"
  by (simp add: meta_data_to_tx_timestamp_def rd64_def load_in_bounds size_simps)

lemma ts_meta_ex:
  "meta + 16 \<le> length b \<Longrightarrow> \<exists>b'. tx_timestamp_to_meta_data meta t b = Some b' \<and> length b' = length b"
  using wr64_ex [of "meta + 8" b t] by (simp add: tx_timestamp_to_meta_data_def size_simps)

lemma store_opt_ex:
  "(\<And>x. v = Some x \<Longrightarrow> off + length x \<le> length b) \<Longrightarrow> \<exists>b'. store_opt off v b = Some b' \<and> length b' = length b"
  using store_ex by (cases v) (auto simp: store_opt_def)

lemma memcmp_neq_ex:
  "off + unat n \<le> length b \<Longrightarrow> unat n \<le> length p \<Longrightarrow> \<exists>r. memcmp_neq off b p n = Some r"
  by (simp add: memcmp_neq_def load_in_bounds)

lemma rx_account_ex:
  assumes "stat_ok (env P) (wstat w)"
  shows "\<exists>st k. rx_account P t seq ooo pm fid ts w = Some (w\<lparr>ticks := k, wstat := st\<rparr>) \<and> stat_ok (env P) st"
proof -
  obtain st where "stat_frame_received (env P) t seq ooo pm fid ts (clk P (ticks w)) (wstat w) = Some st"
    "stat_ok (env P) st"
    using stat_frame_received_ok [OF assms] by blast
  then show ?thesis by (auto simp: rx_account_def clock_gettime_ns_def)
qed

lemma queue_mbuf_ex:
  assumes "io_ok (dev w)" and "MAX_FRAME_SIZE \<le> length (m_data m)"
  shows "\<exists>d. queue_mbuf P m w = Some (w\<lparr>dev := d\<rparr>) \<and> io_ok d \<and> mbufs_of d = mbufs_of (dev w) + {#m#}"
  using add_ok [OF assms, of "nic P"] by (auto simp: queue_mbuf_def)

lemma swap_mac_ex:
  "14 \<le> length b \<Longrightarrow> \<exists>b'. swap_mac_addresses len b = Some b' \<and> length b' = length b"
  by (simp add: swap_mac_addresses_def size_simps load_in_bounds buf_simps)

lemma insert_vlan_tag_ex:
  assumes "14 \<le> unat len" and "2048 \<le> length b" and "unat len < 4294967296"
  shows "\<exists>b'. insert_vlan_tag len tci b = Some b' \<and> length b' = length b"
proof (cases "len + of_nat (sizeof rte_vlan_hdr) > of_nat MAX_FRAME_SIZE")
  case True
  then show ?thesis by (simp add: insert_vlan_tag_def)
next
  case False
  have "unat (len + 4) = unat len + 4"
    using assms(3) by (subst unat_add_lem [THEN iffD1]) simp_all
  then have le: "unat len + 4 \<le> 2048"
    using False by (simp add: size_simps MAX_FRAME_SIZE_def word_less_nat_alt)
  then have "unat len + 4 \<le> length b" using assms(2) by linarith
  from insert_vlan_tag_props [OF assms(1) le this] show ?thesis by metis
qed

end
