(* ===== verification/Pn_Rx.thy ===== *)
theory Pn_Rx
  imports Rx_Common
begin

text \<open>
  The receive handlers of the PROFINET classes: \<^verbatim>\<open>tsn_rx_frame\<close>, \<^verbatim>\<open>rtc_rx_frame\<close>,
  \<^verbatim>\<open>rta_rx_frame\<close> (the same code over the configuration of their class) and
  \<^verbatim>\<open>dcp_rx_frame\<close>.
\<close>

section \<open>Header\<close>

text \<open>
  The EtherType, the offset behind the Ethernet header, whether the VLAN tag is missing,
  and the expected length, which the code decreases for good when the tag is missing.
\<close>

definition rx_eth_header :: "u64 \<Rightarrow> bytes \<Rightarrow> (u16 \<times> nat \<times> bool \<times> u64) option" where
  "rx_eth_header expected b = do {
     h_proto \<leftarrow> rd16 (offsetof ethhdr ''h_proto'') b;
     if h_proto = ETH_P_8021Q
     then do {
       proto \<leftarrow> rd16 (offsetof vlan_ethernet_header ''vlan_encapsulated_proto'') b;
       Some (proto, sizeof vlan_ethernet_header, False, expected)
     }
     else Some (h_proto, sizeof ethhdr, True, expected - of_nat (sizeof vlan_header))
   }"

text \<open>The frame identifier of a class in its security mode.\<close>

fun class_frame_id :: "stat_frame_type \<Rightarrow> security_mode \<Rightarrow> u16" where
  "class_frame_id TSN_HIGH_FRAME_TYPE mode =
     (if mode = SECURITY_MODE_NONE then TSN_HIGH_FRAMEID else TSN_HIGH_SEC_FRAMEID)"
| "class_frame_id TSN_LOW_FRAME_TYPE mode =
     (if mode = SECURITY_MODE_NONE then TSN_LOW_FRAMEID else TSN_LOW_SEC_FRAMEID)"
| "class_frame_id RTC_FRAME_TYPE mode =
     (if mode = SECURITY_MODE_NONE then RTC_FRAMEID else RTC_SEC_FRAMEID)"
| "class_frame_id RTA_FRAME_TYPE mode =
     (if mode = SECURITY_MODE_NONE then RTA_FRAMEID else RTA_SEC_FRAMEID)"
| "class_frame_id _ mode = DCP_FRAMEID"

section \<open>Security envelope\<close>

text \<open>
  What the three branches compute: frame identifier, sequence counter, transmit timestamp,
  the buffer and offset of the payload, the frame after the timestamp was moved and the
  frame sealed again, and the thread. \<open>p\<close> is the offset behind the Ethernet header.
\<close>

type_synonym 'c rx_open = "(u16 \<times> u64 \<times> u64 \<times> bytes \<times> nat \<times> bytes \<times> 'c world) option"

definition rx_open_none :: "'c platform \<Rightarrow> traffic_class \<Rightarrow> u64 \<Rightarrow> nat \<Rightarrow> bytes \<Rightarrow> 'c world \<Rightarrow> 'c rx_open" where
  "rx_open_none P c tx_mirror p b w = do {
     let meta = p + offsetof profinet_rt_header ''meta_data'';
     frame_id \<leftarrow> rd16 (p + offsetof profinet_rt_header ''frame_id'') b;
     seq \<leftarrow> meta_data_to_sequence_counter meta (num_frames_per_cycle c) b;
     ts \<leftarrow> meta_data_to_tx_timestamp meta b;
     b \<leftarrow> tx_timestamp_to_meta_data meta (tx_mirror + mirror_delay P) b;
     Some (frame_id, seq, ts, b, p + sizeof profinet_rt_header, b, w)
   }"

definition rx_open_ao ::
  "'c platform \<Rightarrow> traffic_class \<Rightarrow> u64 \<Rightarrow> u64 \<Rightarrow> nat \<Rightarrow> bytes \<Rightarrow> 'c world \<Rightarrow> 'c rx_open" where
  "rx_open_ao P c tx_mirror len p b w = do {
     let meta = p + offsetof profinet_secure_header ''meta_data'';
     frame_id \<leftarrow> rd16 (p + offsetof profinet_secure_header ''frame_id'') b;
     seq \<leftarrow> meta_data_to_sequence_counter meta (num_frames_per_cycle c) b;
     ts \<leftarrow> meta_data_to_tx_timestamp meta b;
     let size_of_aad = unat (len - of_nat p - of_nat (sizeof security_checksum));
     let checksum = unat (len - of_nat (sizeof security_checksum));
     ctx \<leftarrow> rx_security_context w;
     iv \<leftarrow> prepare_iv (pointee (security_iv_prefix c)) seq;
     aad \<leftarrow> load p size_of_aad b;
     tag \<leftarrow> load checksum (sizeof security_checksum) b;
     let (ret, ctx, _) = security_decrypt (evp P) ctx None aad tag iv;
     b \<leftarrow> tx_timestamp_to_meta_data meta (tx_mirror + mirror_delay P) b;
     aad \<leftarrow> load p size_of_aad b;
     let (ret, ctx, _, tag) = security_encrypt (evp P) ctx None aad iv;
     b \<leftarrow> store_opt checksum tag b;
     Some (frame_id, seq, ts, b, p + sizeof profinet_secure_header, b, w\<lparr>rx_security_context := Some ctx\<rparr>)
   }"

definition rx_open_ae ::
  "'c platform \<Rightarrow> traffic_class \<Rightarrow> u64 \<Rightarrow> u64 \<Rightarrow> nat \<Rightarrow> bytes \<Rightarrow> 'c world \<Rightarrow> 'c rx_open" where
  "rx_open_ae P c tx_mirror len p b w = do {
     let meta = p + offsetof profinet_secure_header ''meta_data'';
     frame_id \<leftarrow> rd16 (p + offsetof profinet_secure_header ''frame_id'') b;
     seq \<leftarrow> meta_data_to_sequence_counter meta (num_frames_per_cycle c) b;
     ts \<leftarrow> meta_data_to_tx_timestamp meta b;
     let checksum = unat (len - of_nat (sizeof security_checksum));
     let begin_ct = p + sizeof profinet_secure_header;
     let size_ct = unat (len - of_nat (sizeof vlan_ethernet_header) - of_nat (sizeof profinet_secure_header)
                         - of_nat (sizeof security_checksum));
     ctx \<leftarrow> rx_security_context w;
     iv \<leftarrow> prepare_iv (pointee (security_iv_prefix c)) seq;
     ct \<leftarrow> load begin_ct size_ct b;
     aad \<leftarrow> load p (sizeof profinet_secure_header) b;
     tag \<leftarrow> load checksum (sizeof security_checksum) b;
     let (ret, ctx, pt) = security_decrypt (evp P) ctx (Some ct) aad tag iv;
     plain \<leftarrow> store_opt 0 pt (plaintext w);
     b \<leftarrow> tx_timestamp_to_meta_data meta (tx_mirror + mirror_delay P) b;
     pattern \<leftarrow> load 0 (unat (ctx_payload_pattern_length w)) (pointee (ctx_payload_pattern w));
     aad \<leftarrow> load p (sizeof profinet_secure_header) b;
     let (ret, ctx, ct, tag) = security_encrypt (evp P) ctx (Some pattern) aad iv;
     b \<leftarrow> store_opt begin_ct ct b;
     b \<leftarrow> store_opt checksum tag b;
     Some (frame_id, seq, ts, plain, 0, b, w\<lparr>rx_security_context := Some ctx, plaintext := plain\<rparr>)
   }"

definition rx_open ::
  "'c platform \<Rightarrow> traffic_class \<Rightarrow> u64 \<Rightarrow> u64 \<Rightarrow> nat \<Rightarrow> bytes \<Rightarrow> 'c world \<Rightarrow> 'c rx_open" where
  "rx_open P c tx_mirror len p b w =
     (case tc_security_mode c of
        SECURITY_MODE_NONE \<Rightarrow> rx_open_none P c tx_mirror p b w
      | SECURITY_MODE_AO \<Rightarrow> rx_open_ao P c tx_mirror len p b w
      | SECURITY_MODE_AE \<Rightarrow> rx_open_ae P c tx_mirror len p b w)"

section \<open>One frame\<close>

text \<open>The frame behind its header checks.\<close>

definition pn_rx_body ::
  "'c platform \<Rightarrow> stat_frame_type \<Rightarrow> u64 \<Rightarrow> nat \<Rightarrow> bool \<Rightarrow> mbuf \<Rightarrow> 'c world \<Rightarrow> (bool \<times> mbuf \<times> 'c world) option" where
  "pn_rx_body P t len p vlan_tag_missing m w =
     (case clock_gettime_ns (clk P) w of (tx_mirror, w) \<Rightarrow> do {
        let c = cfg_of P t;
        (frame_id, seq, ts, pb, po, b, w) \<leftarrow> rx_open P c tx_mirror len p (m_data m) w;
        let m = m\<lparr>m_data := b\<rparr>;
        let ooo = (seq \<noteq> rx_sequence_counter w);
        pm \<leftarrow> memcmp_neq po pb (pointee (payload_pattern c)) (payload_pattern_length c);
        let fid = (frame_id \<noteq> class_frame_id t (tc_security_mode c));
        w \<leftarrow> rx_account P t seq ooo pm fid ts w;
        if exited (wstat w) then Some (True, m, w)
        else case rx_verdict True (mirror_of P) seq ooo pm fid w of (d, w) \<Rightarrow>
          if d then Some (True, m, w)
          else do {
            b \<leftarrow> (if vlan_tag_missing then insert_vlan_tag len (vlan_tci_of c) b else Some b);
            b \<leftarrow> swap_mac_addresses len b;
            w \<leftarrow> queue_mbuf P (m\<lparr>m_data := b\<rparr>) w;
            Some (False, m\<lparr>m_data := b\<rparr>, w)
          }
      })"

definition pn_rx_step :: "'c platform \<Rightarrow> stat_frame_type \<Rightarrow> 'c rx_step" where
  "pn_rx_step P t expected m w =
     (let len = ucast (m_pkt_len m) :: u64 in
      if len < of_nat (sizeof vlan_ethernet_header) then Some (True, m, expected, w)
      else do {
        (proto, p, vlan_tag_missing, expected) \<leftarrow> rx_eth_header expected (m_data m);
        if proto \<noteq> ETH_P_PROFINET_RT then Some (True, m, expected, w)
        else if len \<noteq> expected then Some (True, m, expected, w)
        else do {
          (drop, m, w) \<leftarrow> pn_rx_body P t len p vlan_tag_missing m w;
          Some (drop, m, expected, w)
        }
      })"

definition tsn_rx_frame :: "'c platform \<Rightarrow> stat_frame_type \<Rightarrow> mbuf list \<Rightarrow> 'c world \<Rightarrow> 'c world option" where
  "tsn_rx_frame P t ms w = rx_frames (pn_rx_step P t) ms (frame_length (cfg_of P t)) [] w"

definition rtc_rx_frame :: "'c platform \<Rightarrow> mbuf list \<Rightarrow> 'c world \<Rightarrow> 'c world option" where
  "rtc_rx_frame P ms w =
     rx_frames (pn_rx_step P RTC_FRAME_TYPE) ms (frame_length (cfg_of P RTC_FRAME_TYPE)) [] w"

definition rta_rx_frame :: "'c platform \<Rightarrow> mbuf list \<Rightarrow> 'c world \<Rightarrow> 'c world option" where
  "rta_rx_frame P ms w =
     rx_frames (pn_rx_step P RTA_FRAME_TYPE) ms (frame_length (cfg_of P RTA_FRAME_TYPE)) [] w"

section \<open>DCP\<close>

text \<open>
  \<^verbatim>\<open>dcp_rx_frame\<close> has no security envelope and no minimum length, leaves the timestamp
  alone and does not follow a sequence counter that is out of order. A payload mismatch is
  copied into a 128-byte buffer on the stack.
\<close>

definition DCP_LOG_BUFFER :: nat where "DCP_LOG_BUFFER = 128"

definition dcp_rx_step :: "'c platform \<Rightarrow> 'c rx_step" where
  "dcp_rx_step P expected m w =
     (let len = ucast (m_pkt_len m) :: u64; b = m_data m; c = cfg_of P DCP_FRAME_TYPE in do {
        (proto, p, _, expected) \<leftarrow> rx_eth_header expected b;
        if proto \<noteq> ETH_P_PROFINET_RT then Some (True, m, expected, w)
        else if len \<noteq> expected then Some (True, m, expected, w)
        else do {
          let meta = p + offsetof profinet_rt_header ''meta_data'';
          seq \<leftarrow> meta_data_to_sequence_counter meta (num_frames_per_cycle c) b;
          ts \<leftarrow> meta_data_to_tx_timestamp meta b;
          let ooo = (seq \<noteq> rx_sequence_counter w);
          pm \<leftarrow> memcmp_neq (p + sizeof profinet_rt_header) b (pointee (payload_pattern c)) (payload_pattern_length c);
          w \<leftarrow> rx_account P DCP_FRAME_TYPE seq ooo pm False ts w;
          if exited (wstat w) then Some (True, m, expected, w)
          else if \<not> ooo \<and> pm \<and> unat (payload_pattern_length c) > DCP_LOG_BUFFER then None
          else case rx_verdict False (mirror_of P) seq ooo pm False w of (d, w) \<Rightarrow>
            if d then Some (True, m, expected, w)
            else do {
              b \<leftarrow> swap_mac_addresses len b;
              w \<leftarrow> queue_mbuf P (m\<lparr>m_data := b\<rparr>) w;
              Some (False, m\<lparr>m_data := b\<rparr>, expected, w)
            }
        }
      })"

definition dcp_rx_frame :: "'c platform \<Rightarrow> mbuf list \<Rightarrow> 'c world \<Rightarrow> 'c world option" where
  "dcp_rx_frame P ms w =
     rx_frames (dcp_rx_step P) ms (frame_length (cfg_of P DCP_FRAME_TYPE)) [] w"

section \<open>Memory safety\<close>

text \<open>
  What the handlers rely on of OpenSSL here: a tag has 16 bytes, and no output is longer
  than its input.
\<close>

definition evp_sizes :: "'c evp \<Rightarrow> bool" where
  "evp_sizes E \<longleftrightarrow>
     (\<forall>c p a iv r c' ct tag. security_encrypt E c p a iv = (r, c', ct, tag) \<longrightarrow>
        (\<forall>x. tag = Some x \<longrightarrow> length x = 16) \<and>
        (\<forall>x. ct = Some x \<longrightarrow> (\<exists>y. p = Some y \<and> length x \<le> length y))) \<and>
     (\<forall>c p a tag iv r c' pt. security_decrypt E c p a tag iv = (r, c', pt) \<longrightarrow>
        (\<forall>x. pt = Some x \<longrightarrow> (\<exists>y. p = Some y \<and> length x \<le> length y)))"

text \<open>The configuration of a class whose frames fit the buffers.\<close>

definition pn_conf :: "'c platform \<Rightarrow> stat_frame_type \<Rightarrow> bool" where
  "pn_conf P t \<longleftrightarrow>
     (let c = cfg_of P t in
      unat (payload_pattern_length c) \<le> length (pointee (payload_pattern c)) \<and>
      44 + unat (payload_pattern_length c) \<le> MAX_FRAME_SIZE \<and>
      (tc_security_mode c \<noteq> SECURITY_MODE_NONE \<longrightarrow>
         6 \<le> length (pointee (security_iv_prefix c)) \<and> evp_sizes (evp P)))"

text \<open>
  The security state of the thread. With authentication the expected length must stay
  above the secure headers for the rest of the burst, although every untagged frame
  takes four bytes off it.
\<close>

definition pn_sec :: "'c platform \<Rightarrow> stat_frame_type \<Rightarrow> nat \<Rightarrow> u64 \<Rightarrow> 'c world \<Rightarrow> bool" where
  "pn_sec P t n e w \<longleftrightarrow>
     (let mode = tc_security_mode (cfg_of P t) in
      (mode \<noteq> SECURITY_MODE_NONE \<longrightarrow> rx_security_context w \<noteq> None \<and> 60 + 4 * n \<le> unat e) \<and>
      (mode = SECURITY_MODE_AE \<longrightarrow>
         length (plaintext w) = MAX_FRAME_SIZE \<and> unat e \<le> MAX_FRAME_SIZE \<and>
         unat (ctx_payload_pattern_length w) \<le> length (pointee (ctx_payload_pattern w)) \<and>
         44 + unat (ctx_payload_pattern_length w) \<le> MAX_FRAME_SIZE))"

definition pn_inv :: "'c platform \<Rightarrow> stat_frame_type \<Rightarrow> nat \<Rightarrow> u64 \<Rightarrow> 'c world \<Rightarrow> bool" where
  "pn_inv P t n e w \<longleftrightarrow>
     pn_conf P t \<and> stat_ok (env P) (wstat w) \<and> io_ok (dev w) \<and> pn_sec P t n e w"

text \<open>What opening a frame leaves behind.\<close>

definition opened :: "bytes \<Rightarrow> u64 \<Rightarrow> 'c world \<Rightarrow> 'c rx_open \<Rightarrow> bool" where
  "opened b plen w r \<longleftrightarrow>
     (\<exists>fid seq ts pb po b' x y.
        r = Some (fid, seq, ts, pb, po, b', w\<lparr>rx_security_context := x, plaintext := y\<rparr>) \<and>
        length b' = length b \<and> po + unat plen \<le> length pb \<and> length y = length (plaintext w) \<and>
        (rx_security_context w \<noteq> None \<longrightarrow> x \<noteq> None))"

lemma openedI:
  assumes "r = Some (fid, seq, ts, pb, po, b', w\<lparr>rx_security_context := x, plaintext := y\<rparr>)"
    and "length b' = length b" and "po + unat plen \<le> length pb" and "length y = length (plaintext w)"
    and "rx_security_context w \<noteq> None \<Longrightarrow> x \<noteq> None"
  shows "opened b plen w r"
  unfolding opened_def using assms by blast

lemma rx_open_none_ok:
  assumes "p \<le> 18" and "MAX_FRAME_SIZE \<le> length b" and "44 + unat plen \<le> MAX_FRAME_SIZE"
  shows "opened b plen w (rx_open_none P c txm p b w)"
proof -
  have l: "2048 \<le> length b" "44 + unat plen \<le> 2048" using assms by (simp_all add: MAX_FRAME_SIZE_def)
  obtain v where v: "rd16 p b = Some v" using rd16_ex [of p b] assms(1) l by auto
  obtain s where s: "meta_data_to_sequence_counter (p + 2) (num_frames_per_cycle c) b = Some s"
    using rx_seq_ex [of "p + 2" b] assms(1) l by fastforce
  obtain u where u: "meta_data_to_tx_timestamp (p + 2) b = Some u"
    using rx_ts_ex [of "p + 2" b] assms(1) l by fastforce
  obtain b' where b': "tx_timestamp_to_meta_data (p + 2) (txm + mirror_delay P) b = Some b'" "length b' = length b"
    using ts_meta_ex [of "p + 2" b] assms(1) l by fastforce
  have "rx_open_none P c txm p b w =
        Some (v, s, u, b', p + 18, b', w\<lparr>rx_security_context := rx_security_context w, plaintext := plaintext w\<rparr>)"
    using v s u b' by (simp add: rx_open_none_def size_simps)
  from openedI [OF this] show ?thesis using assms(1) l b'(2) by simp
qed

lemma unat_sub_nat: "n \<le> unat len \<Longrightarrow> n < 18446744073709551616 \<Longrightarrow> unat (len - of_nat n :: u64) = unat len - n"
  by (simp add: unat_sub word_le_nat_alt unat_of_nat)

lemma rx_open_ao_ok:
  assumes p: "p \<le> 18" and "MAX_FRAME_SIZE \<le> length b" and "44 + unat plen \<le> MAX_FRAME_SIZE"
    and len: "60 \<le> unat len" "unat len \<le> length b"
    and ctx: "rx_security_context w = Some c0" and iv: "6 \<le> length (pointee (security_iv_prefix c))"
    and E: "evp_sizes (evp P)"
  shows "opened b plen w (rx_open_ao P c txm len p b w)"
proof -
  have l: "2048 \<le> length b" "44 + unat plen \<le> 2048" using assms(2,3) by (simp_all add: MAX_FRAME_SIZE_def)
  have sz: "unat (len - of_nat p - 16) = unat len - p - 16" "unat (len - 16) = unat len - 16"
    using unat_sub_nat [of p len] unat_sub_nat [of 16 "len - of_nat p"] unat_sub_nat [of 16 len] p len(1)
    by simp_all
  obtain v where v: "rd16 p b = Some v" using rd16_ex [of p b] p l by auto
  obtain s where s: "meta_data_to_sequence_counter (p + 10) (num_frames_per_cycle c) b = Some s"
    using rx_seq_ex [of "p + 10" b] p l by fastforce
  obtain u where u: "meta_data_to_tx_timestamp (p + 10) b = Some u"
    using rx_ts_ex [of "p + 10" b] p l by fastforce
  obtain b' where b': "tx_timestamp_to_meta_data (p + 10) (txm + mirror_delay P) b = Some b'" "length b' = length b"
    using ts_meta_ex [of "p + 10" b] p l by fastforce
  obtain i where i: "prepare_iv (pointee (security_iv_prefix c)) s = Some i" using prepare_iv_eq [OF iv] by blast
  have B: "p + (unat len - p - 16) \<le> length b" using p len by linarith
  obtain aad where aad: "load p (unat len - p - 16) b = Some aad"
    using load_ex [OF B] by blast
  obtain aad' where aad': "load p (unat len - p - 16) b' = Some aad'"
    using load_ex [of p "unat len - p - 16" b'] B b'(2) by auto
  obtain tag where tag: "load (unat len - 16) 16 b = Some tag"
    using load_ex [of "unat len - 16" 16 b] len by auto
  obtain r1 c1 p1 where d: "security_decrypt (evp P) c0 None aad tag i = (r1, c1, p1)"
    by (cases "security_decrypt (evp P) c0 None aad tag i") auto
  obtain r2 c2 x2 t2 where e: "security_encrypt (evp P) c1 None aad' i = (r2, c2, x2, t2)"
    by (cases "security_encrypt (evp P) c1 None aad' i") auto
  have t2: "\<And>x. t2 = Some x \<Longrightarrow> unat len - 16 + length x \<le> length b'"
    using E e len b'(2) unfolding evp_sizes_def by fastforce
  obtain b2 where b2: "store_opt (unat len - 16) t2 b' = Some b2" "length b2 = length b'"
    using store_opt_ex [OF t2] by blast
  have "rx_open_ao P c txm len p b w =
        Some (v, s, u, b2, p + 26, b2, w\<lparr>rx_security_context := Some c2, plaintext := plaintext w\<rparr>)"
    using v s u b' i aad aad' tag d e b2 ctx sz by (simp add: rx_open_ao_def size_simps)
  from openedI [OF this] show ?thesis using p l b'(2) b2(2) by simp
qed

lemma rx_open_ae_ok:
  assumes p: "p \<le> 18" and "MAX_FRAME_SIZE \<le> length b" and "44 + unat plen \<le> MAX_FRAME_SIZE"
    and len: "60 \<le> unat len" "unat len \<le> length b" "unat len \<le> MAX_FRAME_SIZE"
    and ctx: "rx_security_context w = Some c0" and iv: "6 \<le> length (pointee (security_iv_prefix c))"
    and E: "evp_sizes (evp P)" and pl: "length (plaintext w) = MAX_FRAME_SIZE"
    and cp: "unat (ctx_payload_pattern_length w) \<le> length (pointee (ctx_payload_pattern w))"
      "44 + unat (ctx_payload_pattern_length w) \<le> MAX_FRAME_SIZE"
  shows "opened b plen w (rx_open_ae P c txm len p b w)"
proof -
  note M = MAX_FRAME_SIZE_def
  have l: "2048 \<le> length b" "44 + unat plen \<le> 2048" using assms(2,3) by (simp_all add: M)
  have sz: "unat (len - 18 - 26 - 16) = unat len - 60" "unat (len - 16) = unat len - 16"
    using unat_sub_nat [of 60 len] unat_sub_nat [of 16 len] len(1) by (simp_all add: diff_diff_eq)
  obtain v where v: "rd16 p b = Some v" using rd16_ex [of p b] p l by auto
  obtain s where s: "meta_data_to_sequence_counter (p + 10) (num_frames_per_cycle c) b = Some s"
    using rx_seq_ex [of "p + 10" b] p l by fastforce
  obtain u where u: "meta_data_to_tx_timestamp (p + 10) b = Some u"
    using rx_ts_ex [of "p + 10" b] p l by fastforce
  obtain b' where b': "tx_timestamp_to_meta_data (p + 10) (txm + mirror_delay P) b = Some b'" "length b' = length b"
    using ts_meta_ex [of "p + 10" b] p l by fastforce
  obtain i where i: "prepare_iv (pointee (security_iv_prefix c)) s = Some i" using prepare_iv_eq [OF iv] by blast
  have "p + 26 + (unat len - 60) \<le> length b" using p len by linarith
  then obtain ct where ct: "load (p + 26) (unat len - 60) b = Some ct" "length ct = unat len - 60"
    using load_ex by blast
  obtain aad where aad: "load p 26 b = Some aad" using load_ex [of p 26 b] p l by auto
  obtain aad' where aad': "load p 26 b' = Some aad'" using load_ex [of p 26 b'] p l b'(2) by auto
  obtain tag where tag: "load (unat len - 16) 16 b = Some tag"
    using load_ex [of "unat len - 16" 16 b] len by auto
  obtain r1 c1 p1 where d: "security_decrypt (evp P) c0 (Some ct) aad tag i = (r1, c1, p1)"
    by (cases "security_decrypt (evp P) c0 (Some ct) aad tag i") auto
  have p1: "\<And>x. p1 = Some x \<Longrightarrow> 0 + length x \<le> length (plaintext w)"
    using E d ct(2) len(3) pl unfolding evp_sizes_def by fastforce
  obtain pl' where pl': "store_opt 0 p1 (plaintext w) = Some pl'" "length pl' = length (plaintext w)"
    using store_opt_ex [OF p1] by blast
  obtain pat where pat: "load 0 (unat (ctx_payload_pattern_length w)) (pointee (ctx_payload_pattern w)) = Some pat"
    "length pat = unat (ctx_payload_pattern_length w)"
    using load_ex [of 0] cp(1) by auto
  obtain r2 c2 x2 t2 where e: "security_encrypt (evp P) c1 (Some pat) aad' i = (r2, c2, x2, t2)"
    by (cases "security_encrypt (evp P) c1 (Some pat) aad' i") auto
  have x2: "p + 26 + length x \<le> length b'" if "x2 = Some x" for x
  proof -
    have "length x \<le> length pat" using E e that unfolding evp_sizes_def by fastforce
    then show ?thesis using p cp(2) pat(2) l b'(2) by (simp add: M)
  qed
  obtain b2 where b2: "store_opt (p + 26) x2 b' = Some b2" "length b2 = length b'"
    using store_opt_ex [OF x2] by blast
  have t2: "\<And>x. t2 = Some x \<Longrightarrow> unat len - 16 + length x \<le> length b2"
    using E e len b'(2) b2(2) unfolding evp_sizes_def by fastforce
  obtain b3 where b3: "store_opt (unat len - 16) t2 b2 = Some b3" "length b3 = length b2"
    using store_opt_ex [OF t2] by blast
  have "rx_open_ae P c txm len p b w =
        Some (v, s, u, pl', 0, b3, w\<lparr>rx_security_context := Some c2, plaintext := pl'\<rparr>)"
    using v s u b' i ct aad aad' tag d pl' pat e b2 b3 ctx sz by (simp add: rx_open_ae_def size_simps)
  from openedI [OF this] show ?thesis using l pl pl'(2) b'(2) b2(2) b3(2) by (simp add: M)
qed

lemma rx_verdict_frame:
  assumes "rx_verdict r mi seq o1 pm fid w = (d, w')"
  shows "\<exists>k. w' = w\<lparr>rx_sequence_counter := k\<rparr>"
proof (cases "fid \<or> o1 \<and> \<not> r")
  case True
  then have "w' = w\<lparr>rx_sequence_counter := rx_sequence_counter w\<rparr>"
    using assms by (auto simp: rx_verdict_def Let_def split: if_splits)
  then show ?thesis by blast
next
  case False
  then show ?thesis using assms by (auto simp: rx_verdict_def Let_def split: if_splits)
qed

lemma rx_open_ok:
  assumes inv: "pn_conf P t" "pn_sec P t n len w"
    and p: "p \<le> 18" and b: "MAX_FRAME_SIZE \<le> length b" "unat len \<le> length b"
  shows "opened b (payload_pattern_length (cfg_of P t)) w (rx_open P (cfg_of P t) txm len p b w)"
proof -
  let ?c = "cfg_of P t"
  have pl: "44 + unat (payload_pattern_length ?c) \<le> MAX_FRAME_SIZE" using inv(1) by (simp add: pn_conf_def Let_def)
  show ?thesis
  proof (cases "tc_security_mode ?c")
    case SECURITY_MODE_NONE
    then show ?thesis using rx_open_none_ok [OF p b(1) pl] by (simp add: rx_open_def)
  next
    case SECURITY_MODE_AO
    then obtain c0 where "rx_security_context w = Some c0" "60 \<le> unat len"
      "6 \<le> length (pointee (security_iv_prefix ?c))" "evp_sizes (evp P)"
      using inv by (auto simp: pn_conf_def pn_sec_def Let_def)
    then show ?thesis
      using rx_open_ao_ok [OF p b(1) pl _ b(2)] SECURITY_MODE_AO by (simp add: rx_open_def)
  next
    case SECURITY_MODE_AE
    then obtain c0 where "rx_security_context w = Some c0" "60 \<le> unat len" "unat len \<le> MAX_FRAME_SIZE"
      "6 \<le> length (pointee (security_iv_prefix ?c))" "evp_sizes (evp P)" "length (plaintext w) = MAX_FRAME_SIZE"
      "unat (ctx_payload_pattern_length w) \<le> length (pointee (ctx_payload_pattern w))"
      "44 + unat (ctx_payload_pattern_length w) \<le> MAX_FRAME_SIZE"
      using inv by (auto simp: pn_conf_def pn_sec_def Let_def)
    then show ?thesis
      using rx_open_ae_ok [OF p b(1) pl _ b(2)] SECURITY_MODE_AE by (simp add: rx_open_def)
  qed
qed

lemma pn_sec_cong:
  assumes "length (plaintext w') = length (plaintext w)"
    and "rx_security_context w \<noteq> None \<longrightarrow> rx_security_context w' \<noteq> None"
    and "ctx_payload_pattern w' = ctx_payload_pattern w" "ctx_payload_pattern_length w' = ctx_payload_pattern_length w"
    and "pn_sec P t n e w"
  shows "pn_sec P t n e w'"
  using assms by (auto simp: pn_sec_def Let_def)

lemma pn_rx_body_ok:
  assumes "pn_inv P t n len w" and m: "mbuf_ok m" and p: "p \<le> 18" and len: "len = ucast (m_pkt_len m)" "18 \<le> unat len"
  shows "\<exists>d m' w'. pn_rx_body P t len p vm m w = Some (d, m', w') \<and> pn_inv P t n len w' \<and> m_id m' = m_id m \<and>
           same_ctx w w' \<and> mbufs_of (dev w') = mbufs_of (dev w) + (if d then {#} else {#m'#})"
proof -
  let ?c = "cfg_of P t"
  have ok: "pn_conf P t" "stat_ok (env P) (wstat w)" "io_ok (dev w)" "pn_sec P t n len w"
    using assms(1) by (simp_all add: pn_inv_def)
  have b: "MAX_FRAME_SIZE \<le> length (m_data m)" "unat len \<le> length (m_data m)"
    using m len(1) by (simp_all add: mbuf_ok_def)
  have l32: "unat len < 4294967296" using len(1) unat_u32_less by simp
  define w1 where "w1 = w\<lparr>ticks := Suc (ticks w)\<rparr>"
  have s1: "pn_sec P t n len w1" by (rule pn_sec_cong [OF _ _ _ _ ok(4)]) (simp_all add: w1_def)
  from rx_open_ok [OF ok(1) s1 p b, of "clk P (ticks w)"]
  obtain fid seq ts pb po b' x y where
    o1: "rx_open P ?c (clk P (ticks w)) len p (m_data m) w1 =
           Some (fid, seq, ts, pb, po, b', w1\<lparr>rx_security_context := x, plaintext := y\<rparr>)"
    and lb: "length b' = length (m_data m)" and po: "po + unat (payload_pattern_length ?c) \<le> length pb"
    and y1: "length y = length (plaintext w1)" and x1: "rx_security_context w1 \<noteq> None \<longrightarrow> x \<noteq> None"
    unfolding opened_def by blast
  have y: "length y = length (plaintext w)" and x: "rx_security_context w \<noteq> None \<longrightarrow> x \<noteq> None"
    using y1 x1 by (simp_all add: w1_def)
  define w2 where "w2 = w1\<lparr>rx_security_context := x, plaintext := y\<rparr>"
  have pat: "unat (payload_pattern_length ?c) \<le> length (pointee (payload_pattern ?c))"
    using ok(1) by (simp add: pn_conf_def Let_def)
  obtain pm where pm: "memcmp_neq po pb (pointee (payload_pattern ?c)) (payload_pattern_length ?c) = Some pm"
    using memcmp_neq_ex [OF po pat] by blast
  define ooo where "ooo = (seq \<noteq> rx_sequence_counter w2)"
  define fm where "fm = (fid \<noteq> class_frame_id t (tc_security_mode ?c))"
  have "stat_ok (env P) (wstat w2)" using ok(2) by (simp add: w2_def w1_def)
  from rx_account_ex [OF this, of t seq ooo pm fm ts]
  obtain st k where a: "rx_account P t seq ooo pm fm ts w2 = Some (w2\<lparr>ticks := k, wstat := st\<rparr>)" and st: "stat_ok (env P) st"
    by blast
  define w3 where "w3 = w2\<lparr>ticks := k, wstat := st\<rparr>"
  obtain d w4 where v: "rx_verdict True (mirror_of P) seq ooo pm fm w3 = (d, w4)" by fastforce
  obtain j where w4: "w4 = w3\<lparr>rx_sequence_counter := j\<rparr>" using rx_verdict_frame [OF v] by blast
  have s4: "pn_sec P t n len (w4\<lparr>dev := z\<rparr>)" "pn_sec P t n len w3" "pn_sec P t n len w4" for z
    by (rule pn_sec_cong [OF _ _ _ _ ok(4)]; simp add: w4 w3_def w2_def w1_def y x)+
  have same: "dev w3 = dev w" "dev w4 = dev w" "same_ctx w w3" "same_ctx w w4" "wstat w3 = st" "wstat w4 = st"
    "\<And>z. same_ctx w (w4\<lparr>dev := z\<rparr>)"
    by (simp_all add: w4 w3_def w2_def w1_def same_ctx_def)
  obtain b2 where b2: "(if vm then insert_vlan_tag len (vlan_tci_of ?c) b' else Some b') = Some b2" "length b2 = length b'"
    using insert_vlan_tag_ex [of len b' "vlan_tci_of ?c"] len(2) b(1) l32 lb by (cases vm) (auto simp: MAX_FRAME_SIZE_def)
  obtain b3 where b3: "swap_mac_addresses len b2 = Some b3" "length b3 = length b2"
    using swap_mac_ex [of b2 len] b(1) lb b2(2) by (auto simp: MAX_FRAME_SIZE_def)
  have "io_ok (dev w4)" "MAX_FRAME_SIZE \<le> length (m_data (m\<lparr>m_data := b3\<rparr>))"
    using ok(3) same b(1) lb b2(2) b3(2) by simp_all
  from queue_mbuf_ex [OF this, of P]
  obtain dv where q: "queue_mbuf P (m\<lparr>m_data := b3\<rparr>) w4 = Some (w4\<lparr>dev := dv\<rparr>)" "io_ok dv"
    "mbufs_of dv = mbufs_of (dev w) + {#m\<lparr>m_data := b3\<rparr>#}" using same by auto
  have eq: "pn_rx_body P t len p vm m w =
      (if exited st then Some (True, m\<lparr>m_data := b'\<rparr>, w3)
       else if d then Some (True, m\<lparr>m_data := b'\<rparr>, w4)
       else Some (False, m\<lparr>m_data := b3\<rparr>, w4\<lparr>dev := dv\<rparr>))"
    using o1 pm a v b2(1) b3(1) q(1) same(5)
    by (simp add: pn_rx_body_def Let_def clock_gettime_ns_def w1_def [symmetric] w2_def [symmetric] ooo_def [symmetric]
        fm_def [symmetric] w3_def [symmetric])
  show ?thesis
    unfolding eq using ok st same s4 q by (auto simp: pn_inv_def)
qed

lemma rx_eth_header_ex:
  assumes "18 \<le> length b"
  obtains proto p vm e' where "rx_eth_header e b = Some (proto, p, vm, e')" "p \<le> 18" "e' = e \<or> e' = e - 4"
proof -
  obtain h where h: "rd16 12 b = Some h" using rd16_ex [of 12 b] assms by auto
  obtain v where v: "rd16 16 b = Some v" using rd16_ex [of 16 b] assms by auto
  show ?thesis
    by (cases "h = ETH_P_8021Q")
      (use h v in \<open>auto simp: rx_eth_header_def size_simps intro: that\<close>)
qed

lemma pn_sec_next:
  assumes "pn_sec P t (Suc n) e w" and "e' = e \<or> e' = e - 4"
  shows "pn_sec P t n e' w"
proof -
  have "unat e' \<le> unat e \<and> 60 + 4 * n \<le> unat e'" if "60 + 4 * Suc n \<le> unat e"
    using that assms(2) unat_sub_nat [of 4 e] by auto
  then show ?thesis using assms(1) by (auto simp: pn_sec_def Let_def)
qed

lemma pn_rx_step_ok:
  assumes "pn_inv P t (Suc n) e w" and m: "mbuf_ok m"
  shows "\<exists>d m' e' w'. pn_rx_step P t e m w = Some (d, m', e', w') \<and> pn_inv P t n e' w' \<and> m_id m' = m_id m \<and>
           same_ctx w w' \<and> mbufs_of (dev w') = mbufs_of (dev w) + (if d then {#} else {#m'#})"
proof -
  have l: "18 \<le> length (m_data m)" using m by (simp add: mbuf_ok_def MAX_FRAME_SIZE_def)
  obtain proto p vm e' where h: "rx_eth_header e (m_data m) = Some (proto, p, vm, e')" and p: "p \<le> 18"
    and e': "e' = e \<or> e' = e - 4"
    by (rule rx_eth_header_ex [OF l])
  have inv: "pn_inv P t n e w" "pn_inv P t n e' w"
    using assms(1) pn_sec_next [of P t n e w] e' by (auto simp: pn_inv_def)
  let ?len = "ucast (m_pkt_len m) :: u64"
  show ?thesis
  proof (cases "?len < 18 \<or> proto \<noteq> ETH_P_PROFINET_RT \<or> ?len \<noteq> e'")
    case True
    then have "pn_rx_step P t e m w = Some (True, m, if ?len < 18 then e else e', w)"
      using h by (auto simp: pn_rx_step_def size_simps Let_def)
    then show ?thesis using inv by auto
  next
    case False
    then have le: "?len = e'" "\<not> ?len < 18" by blast+
    then have "18 \<le> unat e'" using le(2) unfolding le(1) by (simp add: word_less_nat_alt not_less)
    then obtain d m' w' where b: "pn_rx_body P t e' p vm m w = Some (d, m', w')" and
      r: "pn_inv P t n e' w'" "m_id m' = m_id m" "same_ctx w w'"
        "mbufs_of (dev w') = mbufs_of (dev w) + (if d then {#} else {#m'#})"
      using pn_rx_body_ok [OF inv(2) m p le(1) [symmetric], of vm] by auto
    have "pn_rx_step P t e m w = Some (d, m', e', w')"
      using h b False by (auto simp: pn_rx_step_def size_simps Let_def)
    then show ?thesis using r by blast
  qed
qed

interpretation pn: rx_handler "pn_rx_step P t" "pn_inv P t" for P :: "'c platform" and t
proof
  show "\<exists>d m' e' w'. pn_rx_step P t e m w = Some (d, m', e', w') \<and> pn_inv P t n e' w' \<and> m_id m' = m_id m \<and>
          same_ctx w w' \<and> mbufs_of (dev w') = mbufs_of (dev w) + (if d then {#} else {#m'#})"
    if "pn_inv P t (Suc n) e w" "mbuf_ok m" for n e w m
    by (rule pn_rx_step_ok [OF that])
  show "pn_inv P t n e (w\<lparr>dev := rte_pktmbuf_free_bulk ms (dev w)\<rparr>)" if "pn_inv P t n e w" for n e w ms
    using that by (auto simp: pn_inv_def pn_sec_def Let_def)
qed

section \<open>DCP\<close>

definition dcp_inv :: "'c platform \<Rightarrow> nat \<Rightarrow> u64 \<Rightarrow> 'c world \<Rightarrow> bool" where
  "dcp_inv P n e w \<longleftrightarrow>
     stat_ok (env P) (wstat w) \<and> io_ok (dev w) \<and>
     (let c = cfg_of P DCP_FRAME_TYPE in
      unat (payload_pattern_length c) \<le> length (pointee (payload_pattern c)) \<and>
      unat (payload_pattern_length c) \<le> DCP_LOG_BUFFER)"

lemma dcp_rx_step_ok:
  assumes inv: "dcp_inv P (Suc n) e w" and m: "mbuf_ok m"
  shows "\<exists>d m' e' w'. dcp_rx_step P e m w = Some (d, m', e', w') \<and> dcp_inv P n e' w' \<and> m_id m' = m_id m \<and>
           same_ctx w w' \<and> mbufs_of (dev w') = mbufs_of (dev w) + (if d then {#} else {#m'#})"
proof -
  let ?c = "cfg_of P DCP_FRAME_TYPE" and ?len = "ucast (m_pkt_len m) :: u64" and ?b = "m_data m"
  have l: "2048 \<le> length ?b" using m by (simp add: mbuf_ok_def MAX_FRAME_SIZE_def)
  then have "18 \<le> length ?b" by simp
  then obtain proto p vm e' where h: "rx_eth_header e ?b = Some (proto, p, vm, e')" and p: "p \<le> 18"
    by (rule rx_eth_header_ex)
  show ?thesis
  proof (cases "proto \<noteq> ETH_P_PROFINET_RT \<or> ?len \<noteq> e'")
    case True
    then have "dcp_rx_step P e m w = Some (True, m, e', w)" using h by (auto simp: dcp_rx_step_def Let_def)
    then show ?thesis using inv by (auto simp: dcp_inv_def)
  next
    case False
    obtain s where s: "meta_data_to_sequence_counter (p + 2) (num_frames_per_cycle ?c) ?b = Some s"
      using rx_seq_ex [of "p + 2" ?b] p l by fastforce
    obtain u where u: "meta_data_to_tx_timestamp (p + 2) ?b = Some u"
      using rx_ts_ex [of "p + 2" ?b] p l by fastforce
    have pl: "unat (payload_pattern_length ?c) \<le> length (pointee (payload_pattern ?c))"
      "unat (payload_pattern_length ?c) \<le> 128" and st: "stat_ok (env P) (wstat w)" and io: "io_ok (dev w)"
      using inv by (simp_all add: dcp_inv_def DCP_LOG_BUFFER_def Let_def)
    obtain pm where pm: "memcmp_neq (p + 18) ?b (pointee (payload_pattern ?c)) (payload_pattern_length ?c) = Some pm"
      using memcmp_neq_ex [OF _ pl(1), of "p + 18" ?b] p l pl(2) by fastforce
    define ooo where "ooo = (s \<noteq> rx_sequence_counter w)"
    obtain st1 k where a: "rx_account P DCP_FRAME_TYPE s ooo pm False u w = Some (w\<lparr>ticks := k, wstat := st1\<rparr>)"
      and st1: "stat_ok (env P) st1" using rx_account_ex [OF st] by blast
    define w3 where "w3 = w\<lparr>ticks := k, wstat := st1\<rparr>"
    obtain d w4 where v: "rx_verdict False (mirror_of P) s ooo pm False w3 = (d, w4)" by fastforce
    obtain j where w4: "w4 = w3\<lparr>rx_sequence_counter := j\<rparr>" using rx_verdict_frame [OF v] by blast
    have same: "dev w3 = dev w" "dev w4 = dev w" "same_ctx w w3" "same_ctx w w4" "wstat w3 = st1" "wstat w4 = st1"
      "\<And>z. same_ctx w (w4\<lparr>dev := z\<rparr>)"
      by (simp_all add: w4 w3_def same_ctx_def)
    obtain b3 where b3: "swap_mac_addresses ?len ?b = Some b3" "length b3 = length ?b" using swap_mac_ex [of ?b ?len] l by auto
    have "io_ok (dev w4)" "MAX_FRAME_SIZE \<le> length (m_data (m\<lparr>m_data := b3\<rparr>))"
      using io same l b3(2) by (simp_all add: MAX_FRAME_SIZE_def)
    from queue_mbuf_ex [OF this, of P]
    obtain dv where q: "queue_mbuf P (m\<lparr>m_data := b3\<rparr>) w4 = Some (w4\<lparr>dev := dv\<rparr>)" "io_ok dv"
      "mbufs_of dv = mbufs_of (dev w) + {#m\<lparr>m_data := b3\<rparr>#}" using same by auto
    have eq: "dcp_rx_step P e m w =
        (if exited st1 then Some (True, m, e', w3)
         else if d then Some (True, m, e', w4)
         else Some (False, m\<lparr>m_data := b3\<rparr>, e', w4\<lparr>dev := dv\<rparr>))"
      using h False s u pm a v b3(1) q(1) same(5) pl(2)
      by (simp add: dcp_rx_step_def Let_def size_simps ooo_def [symmetric] w3_def [symmetric] DCP_LOG_BUFFER_def)
    show ?thesis unfolding eq using inv io st1 same q by (auto simp: dcp_inv_def)
  qed
qed

interpretation dcp: rx_handler "dcp_rx_step P" "dcp_inv P" for P :: "'c platform"
proof
  show "\<exists>d m' e' w'. dcp_rx_step P e m w = Some (d, m', e', w') \<and> dcp_inv P n e' w' \<and> m_id m' = m_id m \<and>
          same_ctx w w' \<and> mbufs_of (dev w') = mbufs_of (dev w) + (if d then {#} else {#m'#})"
    if "dcp_inv P (Suc n) e w" "mbuf_ok m" for n e w m
    by (rule dcp_rx_step_ok [OF that])
  show "dcp_inv P n e (w\<lparr>dev := rte_pktmbuf_free_bulk ms (dev w)\<rparr>)" if "dcp_inv P n e w" for n e w ms
    using that by (auto simp: dcp_inv_def)
qed

end
