(* ===== verification/Rx_Misc.thy ===== *)
theory Rx_Misc
  imports Pn_Rx
begin

text \<open>
  The receive handlers of the other classes: \<^verbatim>\<open>lldp_rx_frame\<close>, \<^verbatim>\<open>udp_rx_frame\<close> and
  \<^verbatim>\<open>l2_rx_frame\<close>, with the frame LLDP sends back.
\<close>

section \<open>LLDP\<close>

definition lldp_build_frame_from_rx :: "'c platform \<Rightarrow> mbuf \<Rightarrow> 'c world \<Rightarrow> (mbuf \<times> 'c world) option" where
  "lldp_build_frame_from_rx P m w =
     (let n = frame_length (cfg_of P LLDP_FRAME_TYPE); m = m\<lparr>m_data_len := ucast n, m_pkt_len := ucast n\<rparr> in do {
        src \<leftarrow> load 0 ETH_ALEN (mac P);
        b \<leftarrow> store (offsetof ethhdr ''h_source'') src (m_data m);
        (case clock_gettime_ns (clk P) w of (tx_mirror, w) \<Rightarrow> do {
           b \<leftarrow> tx_timestamp_to_meta_data (sizeof ethhdr) (tx_mirror + mirror_delay P) b;
           Some (m\<lparr>m_data := b\<rparr>, w)
         })
      })"

definition lldp_rx_step :: "'c platform \<Rightarrow> 'c rx_step" where
  "lldp_rx_step P expected m w =
     (let len = ucast (m_pkt_len m) :: u64; b = m_data m; c = cfg_of P LLDP_FRAME_TYPE in
      if len \<noteq> frame_length c then Some (True, m, expected, w)
      else do {
        let meta = unat (meta_data_offset w);
        seq \<leftarrow> meta_data_to_sequence_counter meta (num_frames_per_cycle c) b;
        ts \<leftarrow> meta_data_to_tx_timestamp meta b;
        let ooo = (seq \<noteq> rx_sequence_counter w);
        pm \<leftarrow> memcmp_neq (sizeof ethhdr + sizeof reference_meta_data) b (pointee (payload_pattern c))
               (payload_pattern_length c);
        w \<leftarrow> rx_account P LLDP_FRAME_TYPE seq ooo pm False ts w;
        if exited (wstat w) then Some (True, m, expected, w)
        else case rx_verdict True (mirror_of P) seq ooo pm False w of (d, w) \<Rightarrow>
          if d then Some (True, m, expected, w)
          else do {
            (m, w) \<leftarrow> lldp_build_frame_from_rx P m w;
            w \<leftarrow> queue_mbuf P m w;
            Some (False, m, expected, w)
          }
      })"

definition lldp_rx_frame :: "'c platform \<Rightarrow> mbuf list \<Rightarrow> 'c world \<Rightarrow> 'c world option" where
  "lldp_rx_frame P ms w =
     rx_frames (lldp_rx_step P) ms (frame_length (cfg_of P LLDP_FRAME_TYPE)) [] w"

section \<open>UDP\<close>

definition udp_meta :: nat where
  "udp_meta = sizeof ethhdr + sizeof rte_ipv4_hdr + sizeof rte_udp_hdr"

definition udp_rx_step :: "'c platform \<Rightarrow> stat_frame_type \<Rightarrow> 'c rx_step" where
  "udp_rx_step P t expected m w =
     (let len = ucast (m_pkt_len m) :: u64; b = m_data m; c = cfg_of P t in
      if len \<noteq> frame_length c then Some (True, m, expected, w)
      else case clock_gettime_ns (clk P) w of (tx_mirror, w) \<Rightarrow> do {
        seq \<leftarrow> meta_data_to_sequence_counter udp_meta (num_frames_per_cycle c) b;
        ts \<leftarrow> meta_data_to_tx_timestamp udp_meta b;
        b \<leftarrow> tx_timestamp_to_meta_data udp_meta (tx_mirror + mirror_delay P) b;
        let m = m\<lparr>m_data := b\<rparr>;
        let ooo = (seq \<noteq> rx_sequence_counter w);
        pm \<leftarrow> memcmp_neq (udp_meta + sizeof reference_meta_data) b (pointee (payload_pattern c))
               (payload_pattern_length c);
        w \<leftarrow> rx_account P t seq ooo pm False ts w;
        if exited (wstat w) then Some (True, m, expected, w)
        else case rx_verdict True (mirror_of P) seq ooo pm False w of (d, w) \<Rightarrow>
          if d then Some (True, m, expected, w)
          else do {
            b \<leftarrow> swap_mac_addresses len b;
            w \<leftarrow> queue_mbuf P (m\<lparr>m_data := b\<rparr>) w;
            Some (False, m\<lparr>m_data := b\<rparr>, expected, w)
          }
      })"

definition udp_rx_frame :: "'c platform \<Rightarrow> stat_frame_type \<Rightarrow> mbuf list \<Rightarrow> 'c world \<Rightarrow> 'c world option" where
  "udp_rx_frame P t ms w = rx_frames (udp_rx_step P t) ms (frame_length (cfg_of P t)) [] w"

section \<open>Layer 2\<close>

text \<open>The EtherType of the configuration is 32 bits wide; the received one is widened for the comparison.\<close>

definition l2_rx_step :: "'c platform \<Rightarrow> 'c rx_step" where
  "l2_rx_step P expected m w =
     (let len = ucast (m_pkt_len m) :: u64; c = cfg_of P L2_FRAME_TYPE in
      if len < of_nat (sizeof vlan_ethernet_header) then Some (True, m, expected, w)
      else do {
        (et, p, vlan_tag_missing, expected) \<leftarrow> rx_eth_header expected (m_data m);
        if ucast et \<noteq> ether_type c then Some (True, m, expected, w)
        else if len \<noteq> expected then Some (True, m, expected, w)
        else do {
          seq \<leftarrow> meta_data_to_sequence_counter p (num_frames_per_cycle c) (m_data m);
          ts \<leftarrow> meta_data_to_tx_timestamp p (m_data m);
          (case clock_gettime_ns (clk P) w of (tx_mirror, w) \<Rightarrow> do {
            b \<leftarrow> tx_timestamp_to_meta_data p (tx_mirror + mirror_delay P) (m_data m);
            let m = m\<lparr>m_data := b\<rparr>;
            let ooo = (seq \<noteq> rx_sequence_counter w);
            pm \<leftarrow> memcmp_neq (p + sizeof reference_meta_data) b (pointee (payload_pattern c))
                   (payload_pattern_length c);
            w \<leftarrow> rx_account P L2_FRAME_TYPE seq ooo pm False ts w;
            if exited (wstat w) then Some (True, m, expected, w)
            else case rx_verdict True (mirror_of P) seq ooo pm False w of (d, w) \<Rightarrow>
              if d then Some (True, m, expected, w)
              else do {
                b \<leftarrow> (if vlan_tag_missing then insert_vlan_tag len (vlan_tci_of c) b else Some b);
                b \<leftarrow> swap_mac_addresses len b;
                w \<leftarrow> queue_mbuf P (m\<lparr>m_data := b\<rparr>) w;
                Some (False, m\<lparr>m_data := b\<rparr>, expected, w)
              }
          })
        }
      })"

definition l2_rx_frame :: "'c platform \<Rightarrow> mbuf list \<Rightarrow> 'c world \<Rightarrow> 'c world option" where
  "l2_rx_frame P ms w =
     rx_frames (l2_rx_step P) ms (frame_length (cfg_of P L2_FRAME_TYPE)) [] w"

section \<open>Memory safety\<close>

definition plain_inv :: "'c platform \<Rightarrow> stat_frame_type \<Rightarrow> nat \<Rightarrow> u64 \<Rightarrow> 'c world \<Rightarrow> bool" where
  "plain_inv P t n e w \<longleftrightarrow>
     stat_ok (env P) (wstat w) \<and> io_ok (dev w) \<and> 6 \<le> length (mac P) \<and>
     unat (meta_data_offset w) + 16 \<le> MAX_FRAME_SIZE \<and>
     (let c = cfg_of P t in
      unat (payload_pattern_length c) \<le> length (pointee (payload_pattern c)) \<and>
      58 + unat (payload_pattern_length c) \<le> MAX_FRAME_SIZE)"

text \<open>
  The common tail of the three handlers: account for the frame, decide, and run \<open>fin\<close> on a
  frame that is mirrored.
\<close>

definition rx_tail ::
  "'c platform \<Rightarrow> stat_frame_type \<Rightarrow> u64 \<Rightarrow> bool \<Rightarrow> bool \<Rightarrow> u64 \<Rightarrow> mbuf \<Rightarrow> u64 \<Rightarrow>
   ('c world \<Rightarrow> (mbuf \<times> 'c world) option) \<Rightarrow> 'c world \<Rightarrow> (bool \<times> mbuf \<times> u64 \<times> 'c world) option" where
  "rx_tail P t seq ooo pm ts m e fin w = do {
     w \<leftarrow> rx_account P t seq ooo pm False ts w;
     if exited (wstat w) then Some (True, m, e, w)
     else case rx_verdict True (mirror_of P) seq ooo pm False w of (d, w) \<Rightarrow>
       if d then Some (True, m, e, w)
       else do {
         (m, w) \<leftarrow> fin w;
         w \<leftarrow> queue_mbuf P m w;
         Some (False, m, e, w)
       }
   }"

lemma rx_tail_ok:
  assumes inv: "plain_inv P t n e w"
    and fin: "\<And>w. \<exists>m' k. fin w = Some (m', w\<lparr>ticks := k\<rparr>) \<and> m_id m' = m_id m \<and> MAX_FRAME_SIZE \<le> length (m_data m')"
  shows "\<exists>d m' e' w'. rx_tail P u seq ooo pm ts m e fin w = Some (d, m', e', w') \<and> plain_inv P t n' e' w' \<and>
           m_id m' = m_id m \<and> same_ctx w w' \<and>
           mbufs_of (dev w') = mbufs_of (dev w) + (if d then {#} else {#m'#})"
proof -
  have ok: "stat_ok (env P) (wstat w)" "io_ok (dev w)" using inv by (simp_all add: plain_inv_def)
  obtain st k where a: "rx_account P u seq ooo pm False ts w = Some (w\<lparr>ticks := k, wstat := st\<rparr>)"
    and st: "stat_ok (env P) st" using rx_account_ex [OF ok(1)] by blast
  define w3 where "w3 = w\<lparr>ticks := k, wstat := st\<rparr>"
  obtain d w4 where v: "rx_verdict True (mirror_of P) seq ooo pm False w3 = (d, w4)" by fastforce
  obtain j where w4: "w4 = w3\<lparr>rx_sequence_counter := j\<rparr>" using rx_verdict_frame [OF v] by blast
  obtain m' k' where f: "fin w4 = Some (m', w4\<lparr>ticks := k'\<rparr>)" "m_id m' = m_id m" "MAX_FRAME_SIZE \<le> length (m_data m')"
    using fin [of w4] by blast
  have "io_ok (dev (w4\<lparr>ticks := k'\<rparr>))" using ok(2) by (simp add: w4 w3_def)
  from queue_mbuf_ex [OF this f(3), of P]
  obtain dv where q: "queue_mbuf P m' (w4\<lparr>ticks := k'\<rparr>) = Some (w4\<lparr>ticks := k', dev := dv\<rparr>)" "io_ok dv"
    "mbufs_of dv = mbufs_of (dev w) + {#m'#}" by (auto simp: w4 w3_def)
  have eq: "rx_tail P u seq ooo pm ts m e fin w =
      (if exited st then Some (True, m, e, w3)
       else if d then Some (True, m, e, w4)
       else Some (False, m', e, w4\<lparr>ticks := k', dev := dv\<rparr>))"
    using a v f q(1) by (simp add: rx_tail_def w3_def [symmetric]) (simp add: w3_def)
  show ?thesis
    unfolding eq using inv st f(2) q by (auto simp: plain_inv_def w4 w3_def same_ctx_def)
qed

lemma lldp_build_ok:
  assumes "6 \<le> length (mac P)" and "2048 \<le> length (m_data m)"
  shows "\<exists>m' k. lldp_build_frame_from_rx P m w = Some (m', w\<lparr>ticks := k\<rparr>) \<and> m_id m' = m_id m \<and>
           MAX_FRAME_SIZE \<le> length (m_data m')"
proof -
  obtain b where b: "store 6 (take 6 (mac P)) (m_data m) = Some b" "length b = length (m_data m)"
    using store_ex [of 6 "take 6 (mac P)" "m_data m"] assms by auto
  obtain b' where "tx_timestamp_to_meta_data 14 (clk P (ticks w) + mirror_delay P) b = Some b'" "length b' = length b"
    using ts_meta_ex [of 14 b] b assms(2) by fastforce
  then show ?thesis
    using b assms by (auto simp: lldp_build_frame_from_rx_def size_simps load_in_bounds clock_gettime_ns_def Let_def MAX_FRAME_SIZE_def)
qed

lemma plain_inv_ticks: "plain_inv P t n e w \<Longrightarrow> plain_inv P t n' e' (w\<lparr>ticks := k\<rparr>)"
  by (simp add: plain_inv_def)

lemma lldp_rx_step_ok:
  assumes inv: "plain_inv P LLDP_FRAME_TYPE (Suc n) e w" and m: "mbuf_ok m"
  shows "\<exists>d m' e' w'. lldp_rx_step P e m w = Some (d, m', e', w') \<and> plain_inv P LLDP_FRAME_TYPE n e' w' \<and>
           m_id m' = m_id m \<and> same_ctx w w' \<and>
           mbufs_of (dev w') = mbufs_of (dev w) + (if d then {#} else {#m'#})"
proof (cases "ucast (m_pkt_len m) \<noteq> frame_length (cfg_of P LLDP_FRAME_TYPE)")
  case True
  then show ?thesis using inv by (auto simp: lldp_rx_step_def Let_def plain_inv_def)
next
  case False
  let ?c = "cfg_of P LLDP_FRAME_TYPE" and ?b = "m_data m" and ?o = "unat (meta_data_offset w)"
  have l: "2048 \<le> length ?b" "6 \<le> length (mac P)" "?o + 16 \<le> length ?b"
    "unat (payload_pattern_length ?c) \<le> length (pointee (payload_pattern ?c))"
    "30 + unat (payload_pattern_length ?c) \<le> length ?b"
    using m inv by (auto simp: mbuf_ok_def plain_inv_def MAX_FRAME_SIZE_def Let_def)
  obtain s where s: "meta_data_to_sequence_counter ?o (num_frames_per_cycle ?c) ?b = Some s"
    using rx_seq_ex [of ?o ?b] l by fastforce
  obtain u where u: "meta_data_to_tx_timestamp ?o ?b = Some u" using rx_ts_ex l by blast
  obtain pm where pm: "memcmp_neq 30 ?b (pointee (payload_pattern ?c)) (payload_pattern_length ?c) = Some pm"
    using memcmp_neq_ex l by blast
  have "lldp_rx_step P e m w = rx_tail P LLDP_FRAME_TYPE s (s \<noteq> rx_sequence_counter w) pm u m e
          (lldp_build_frame_from_rx P m) w"
    using False s u pm by (simp add: lldp_rx_step_def rx_tail_def size_simps Let_def)
  then show ?thesis using rx_tail_ok [OF inv lldp_build_ok [OF l(2,1)]] by simp
qed

interpretation lldp: rx_handler "lldp_rx_step P" "plain_inv P LLDP_FRAME_TYPE" for P :: "'c platform"
proof
  show "\<exists>d m' e' w'. lldp_rx_step P e m w = Some (d, m', e', w') \<and> plain_inv P LLDP_FRAME_TYPE n e' w' \<and>
          m_id m' = m_id m \<and> same_ctx w w' \<and>
          mbufs_of (dev w') = mbufs_of (dev w) + (if d then {#} else {#m'#})"
    if "plain_inv P LLDP_FRAME_TYPE (Suc n) e w" "mbuf_ok m" for n e w m
    by (rule lldp_rx_step_ok [OF that])
  show "plain_inv P LLDP_FRAME_TYPE n e (w\<lparr>dev := rte_pktmbuf_free_bulk ms (dev w)\<rparr>)"
    if "plain_inv P LLDP_FRAME_TYPE n e w" for n e w ms
    using that by (simp add: plain_inv_def)
qed

lemma udp_meta_42: "udp_meta = 42"
  by (simp add: udp_meta_def size_simps)

lemma udp_rx_step_ok:
  assumes inv: "plain_inv P t (Suc n) e w" and m: "mbuf_ok m"
  shows "\<exists>d m' e' w'. udp_rx_step P t e m w = Some (d, m', e', w') \<and> plain_inv P t n e' w' \<and>
           m_id m' = m_id m \<and> same_ctx w w' \<and>
           mbufs_of (dev w') = mbufs_of (dev w) + (if d then {#} else {#m'#})"
proof (cases "ucast (m_pkt_len m) \<noteq> frame_length (cfg_of P t)")
  case True
  then show ?thesis using inv by (auto simp: udp_rx_step_def Let_def plain_inv_def)
next
  case False
  let ?c = "cfg_of P t" and ?b = "m_data m" and ?len = "ucast (m_pkt_len m) :: u64"
  have l: "2048 \<le> length ?b"
    "unat (payload_pattern_length ?c) \<le> length (pointee (payload_pattern ?c))"
    "58 + unat (payload_pattern_length ?c) \<le> length ?b"
    using m inv by (auto simp: mbuf_ok_def plain_inv_def MAX_FRAME_SIZE_def Let_def)
  obtain s where s: "meta_data_to_sequence_counter 42 (num_frames_per_cycle ?c) ?b = Some s"
    using rx_seq_ex [of 42 ?b] l by fastforce
  obtain u where u: "meta_data_to_tx_timestamp 42 ?b = Some u" using rx_ts_ex [of 42 ?b] l by auto
  obtain b' where b': "tx_timestamp_to_meta_data 42 (clk P (ticks w) + mirror_delay P) ?b = Some b'" "length b' = length ?b"
    using ts_meta_ex [of 42 ?b] l by fastforce
  obtain pm where pm: "memcmp_neq 58 b' (pointee (payload_pattern ?c)) (payload_pattern_length ?c) = Some pm"
    using memcmp_neq_ex [of 58 _ b'] l b'(2) by fastforce
  obtain b3 where b3: "swap_mac_addresses ?len b' = Some b3" and "length b3 = length b'"
    using swap_mac_ex [of b' ?len] l b'(2) by auto
  then have lb3: "2048 \<le> length b3" using l(1) b'(2) by simp
  define w1 where "w1 = w\<lparr>ticks := Suc (ticks w)\<rparr>"
  have inv1: "plain_inv P t (Suc n) e w1" unfolding w1_def by (rule plain_inv_ticks [OF inv])
  define fin where "fin = (\<lambda>w :: 'a world. Some (m\<lparr>m_data := b3\<rparr>, w))"
  have fin: "\<exists>m' k. fin w = Some (m', w\<lparr>ticks := k\<rparr>) \<and> m_id m' = m_id (m\<lparr>m_data := b'\<rparr>) \<and> MAX_FRAME_SIZE \<le> length (m_data m')" for w
    unfolding fin_def by (intro exI [of _ "m\<lparr>m_data := b3\<rparr>"] exI [of _ "ticks w"]) (simp add: lb3 MAX_FRAME_SIZE_def)
  have "udp_rx_step P t e m w = rx_tail P t s (s \<noteq> rx_sequence_counter w1) pm u (m\<lparr>m_data := b'\<rparr>) e fin w1"
    using False s u b'(1) pm b3
    by (simp add: udp_rx_step_def rx_tail_def fin_def udp_meta_42 size_simps Let_def clock_gettime_ns_def w1_def [symmetric]
          cong: if_cong prod.case_cong)
  then show ?thesis using rx_tail_ok [OF inv1 fin, of t s _ pm u n] by (simp add: w1_def same_ctx_def)
qed

interpretation udp: rx_handler "udp_rx_step P t" "plain_inv P t" for P :: "'c platform" and t
proof
  show "\<exists>d m' e' w'. udp_rx_step P t e m w = Some (d, m', e', w') \<and> plain_inv P t n e' w' \<and>
          m_id m' = m_id m \<and> same_ctx w w' \<and>
          mbufs_of (dev w') = mbufs_of (dev w) + (if d then {#} else {#m'#})"
    if "plain_inv P t (Suc n) e w" "mbuf_ok m" for n e w m
    by (rule udp_rx_step_ok [OF that])
  show "plain_inv P t n e (w\<lparr>dev := rte_pktmbuf_free_bulk ms (dev w)\<rparr>)"
    if "plain_inv P t n e w" for n e w ms
    using that by (simp add: plain_inv_def)
qed

lemma l2_rx_step_ok:
  assumes inv: "plain_inv P L2_FRAME_TYPE (Suc n) e w" and m: "mbuf_ok m"
  shows "\<exists>d m' e' w'. l2_rx_step P e m w = Some (d, m', e', w') \<and> plain_inv P L2_FRAME_TYPE n e' w' \<and>
           m_id m' = m_id m \<and> same_ctx w w' \<and>
           mbufs_of (dev w') = mbufs_of (dev w) + (if d then {#} else {#m'#})"
proof -
  let ?c = "cfg_of P L2_FRAME_TYPE" and ?b = "m_data m" and ?len = "ucast (m_pkt_len m) :: u64"
  have l: "2048 \<le> length ?b"
    "unat (payload_pattern_length ?c) \<le> length (pointee (payload_pattern ?c))"
    "58 + unat (payload_pattern_length ?c) \<le> length ?b"
    using m inv by (auto simp: mbuf_ok_def plain_inv_def MAX_FRAME_SIZE_def Let_def)
  have "18 \<le> length ?b" using l by simp
  then obtain et p vm e' where h: "rx_eth_header e ?b = Some (et, p, vm, e')" and p: "p \<le> 18"
    by (rule rx_eth_header_ex)
  show ?thesis
  proof (cases "?len < 18 \<or> ucast et \<noteq> ether_type ?c \<or> ?len \<noteq> e'")
    case True
    then have "l2_rx_step P e m w = Some (True, m, if ?len < 18 then e else e', w)"
      using h by (auto simp: l2_rx_step_def size_simps Let_def)
    then show ?thesis using inv by (auto simp: plain_inv_def)
  next
    case False
    then have le: "?len = e'" "\<not> ?len < 18" and et: "ucast et = ether_type ?c" by blast+
    have nle: "\<not> e' < 18" using le by blast
    have len: "18 \<le> unat e'" using le(2) unfolding le(1) by (simp add: word_less_nat_alt not_less)
    have l32: "unat e' < 4294967296" using unat_u32_less [of "m_pkt_len m"] le(1) by (metis unat_ucast_32_64)
    obtain s where s: "meta_data_to_sequence_counter p (num_frames_per_cycle ?c) ?b = Some s"
      using rx_seq_ex [of p ?b] l p by fastforce
    obtain u where u: "meta_data_to_tx_timestamp p ?b = Some u" using rx_ts_ex [of p ?b] l p by auto
    obtain b' where b': "tx_timestamp_to_meta_data p (clk P (ticks w) + mirror_delay P) ?b = Some b'" "length b' = length ?b"
      using ts_meta_ex [of p ?b] l p by fastforce
    obtain pm where pm: "memcmp_neq (p + 16) b' (pointee (payload_pattern ?c)) (payload_pattern_length ?c) = Some pm"
      using memcmp_neq_ex [of "p + 16" _ b'] l b'(2) p by fastforce
    obtain b2 where b2: "(if vm then insert_vlan_tag e' (vlan_tci_of ?c) b' else Some b') = Some b2" "length b2 = length b'"
      using insert_vlan_tag_ex [of e' b' "vlan_tci_of ?c"] len l32 l(1) b'(2) by (cases vm) auto
    obtain b3 where b3: "swap_mac_addresses e' b2 = Some b3" and "length b3 = length b2"
      using swap_mac_ex [of b2 e'] l b'(2) b2(2) by auto
    then have lb3: "2048 \<le> length b3" using l(1) b'(2) b2(2) by simp
    define w1 where "w1 = w\<lparr>ticks := Suc (ticks w)\<rparr>"
    have inv1: "plain_inv P L2_FRAME_TYPE (Suc n) e' w1" unfolding w1_def by (rule plain_inv_ticks [OF inv])
    define fin where "fin = (\<lambda>w :: 'a world. Some (m\<lparr>m_data := b3\<rparr>, w))"
    have fin: "\<exists>m' k. fin w = Some (m', w\<lparr>ticks := k\<rparr>) \<and> m_id m' = m_id (m\<lparr>m_data := b'\<rparr>) \<and> MAX_FRAME_SIZE \<le> length (m_data m')" for w
      unfolding fin_def by (intro exI [of _ "m\<lparr>m_data := b3\<rparr>"] exI [of _ "ticks w"]) (simp add: lb3 MAX_FRAME_SIZE_def)
    have "l2_rx_step P e m w =
          rx_tail P L2_FRAME_TYPE s (s \<noteq> rx_sequence_counter w1) pm u (m\<lparr>m_data := b'\<rparr>) e' fin w1"
      using et le(1) nle h s u b'(1) pm b2(1) b3
      by (simp add: l2_rx_step_def rx_tail_def fin_def size_simps Let_def clock_gettime_ns_def w1_def [symmetric]
          cong: if_cong prod.case_cong)
    then show ?thesis using rx_tail_ok [OF inv1 fin, of L2_FRAME_TYPE s _ pm u n] by (simp add: w1_def same_ctx_def)
  qed
qed

interpretation l2: rx_handler "l2_rx_step P" "plain_inv P L2_FRAME_TYPE" for P :: "'c platform"
proof
  show "\<exists>d m' e' w'. l2_rx_step P e m w = Some (d, m', e', w') \<and> plain_inv P L2_FRAME_TYPE n e' w' \<and>
          m_id m' = m_id m \<and> same_ctx w w' \<and>
          mbufs_of (dev w') = mbufs_of (dev w) + (if d then {#} else {#m'#})"
    if "plain_inv P L2_FRAME_TYPE (Suc n) e w" "mbuf_ok m" for n e w m
    by (rule l2_rx_step_ok [OF that])
  show "plain_inv P L2_FRAME_TYPE n e (w\<lparr>dev := rte_pktmbuf_free_bulk ms (dev w)\<rparr>)"
    if "plain_inv P L2_FRAME_TYPE n e w" for n e w ms
    using that by (simp add: plain_inv_def)
qed

end
