(* ===== verification/Tx.thy ===== *)
theory Tx
  imports Rx_Misc
begin

text \<open>
  The transmit side of the traffic classes: building the frames of a cycle, sending them or
  the mirrored ones, and the timer callbacks that drive a class.
\<close>

section \<open>Building a frame\<close>

definition set_lengths :: "u64 \<Rightarrow> mbuf \<Rightarrow> mbuf" where
  "set_lengths n m = m\<lparr>m_data_len := ucast n, m_pkt_len := ucast n\<rparr>"

text \<open>
  \<^verbatim>\<open>tsn_initialize_frame\<close>, \<^verbatim>\<open>rtc_initialize_frame\<close> and \<^verbatim>\<open>rta_initialize_frame\<close>. The length
  handed on is the 16-bit data length of the mbuf.
\<close>

definition pn_initialize_frame ::
  "'c platform \<Rightarrow> stat_frame_type \<Rightarrow> security_mode \<Rightarrow> mbuf \<Rightarrow> mbuf option" where
  "pn_initialize_frame P t mode m =
     (let c = cfg_of P t; m = set_lengths (frame_length c) m in do {
        b \<leftarrow> memset0 (frame_length c) (m_data m);
        b \<leftarrow> initialize_profinet_frame mode b (ucast (m_data_len m)) (mac P) (destination c)
               (pointee (payload_pattern c)) (payload_pattern_length c) (vlan_tci_of c)
               (class_frame_id t mode);
        Some (m\<lparr>m_data := b\<rparr>)
      })"

definition dcp_initialize_frame :: "'c platform \<Rightarrow> mbuf \<Rightarrow> mbuf option" where
  "dcp_initialize_frame P m = pn_initialize_frame P DCP_FRAME_TYPE SECURITY_MODE_NONE m"

definition lldp_initialize_frame :: "'c platform \<Rightarrow> mbuf \<Rightarrow> mbuf option" where
  "lldp_initialize_frame P m =
     (let c = cfg_of P LLDP_FRAME_TYPE; m = set_lengths (frame_length c) m in do {
        b \<leftarrow> memset0 (frame_length c) (m_data m);
        dst \<leftarrow> load 0 ETH_ALEN (destination c);
        b \<leftarrow> store (offsetof ethhdr ''h_dest'') dst b;
        src \<leftarrow> load 0 ETH_ALEN (mac P);
        b \<leftarrow> store (offsetof ethhdr ''h_source'') src b;
        b \<leftarrow> wr16 (offsetof ethhdr ''h_proto'') ETH_P_LLDP b;
        b \<leftarrow> store (sizeof ethhdr) (replicate (sizeof reference_meta_data) 0) b;
        p \<leftarrow> load 0 (unat (payload_pattern_length c)) (pointee (payload_pattern c));
        b \<leftarrow> store (sizeof ethhdr + sizeof reference_meta_data) p b;
        Some (m\<lparr>m_data := b\<rparr>)
      })"

definition l2_initialize_frame :: "'c platform \<Rightarrow> mbuf \<Rightarrow> mbuf option" where
  "l2_initialize_frame P m =
     (let c = cfg_of P L2_FRAME_TYPE; m = set_lengths (frame_length c) m in do {
        b \<leftarrow> memset0 (frame_length c) (m_data m);
        b \<leftarrow> write_vlan_ethernet_header (mac P) (destination c) (vlan_tci_of c) (ucast (ether_type c)) b;
        let meta = sizeof vlan_ethernet_header;
        b \<leftarrow> wr32 (meta + offsetof reference_meta_data ''frame_counter'') 0 b;
        b \<leftarrow> wr32 (meta + offsetof reference_meta_data ''cycle_counter'') 0 b;
        p \<leftarrow> load 0 (unat (payload_pattern_length c)) (pointee (payload_pattern c));
        b \<leftarrow> store (sizeof vlan_ethernet_header + sizeof reference_meta_data) p b;
        Some (m\<lparr>m_data := b\<rparr>)
      })"

text \<open>
  \<^verbatim>\<open>udp_initialize_frame\<close>. A failing \<^verbatim>\<open>inet_pton\<close> leaves the address as it is. The checksum
  functions of DPDK read the packet from the IP header on; they return the value in the
  order it has in memory.
\<close>

definition udp_initialize_frame :: "'c platform \<Rightarrow> stat_frame_type \<Rightarrow> mbuf \<Rightarrow> mbuf option" where
  "udp_initialize_frame P t m =
     (let c = cfg_of P t; m = set_lengths (frame_length c) m;
          ip = sizeof ethhdr; udp = ip + sizeof rte_ipv4_hdr;
          ipf = (\<lambda>f. ip + offsetof rte_ipv4_hdr f); udpf = (\<lambda>f. udp + offsetof rte_udp_hdr f)
      in do {
        b \<leftarrow> memset0 (frame_length c) (m_data m);
        src \<leftarrow> load 0 ETH_ALEN (mac P);
        b \<leftarrow> store (offsetof ethhdr ''h_source'') src b;
        dst \<leftarrow> load 0 ETH_ALEN (destination c);
        b \<leftarrow> store (offsetof ethhdr ''h_dest'') dst b;
        b \<leftarrow> wr16 (offsetof ethhdr ''h_proto'') ETH_P_IP b;
        b \<leftarrow> store (ipf ''version_ihl'') [0x45] b;
        b \<leftarrow> store (ipf ''time_to_live'') [64] b;
        b \<leftarrow> wr16 (ipf ''total_length'') (ucast (frame_length c - of_nat (sizeof ethhdr))) b;
        b \<leftarrow> store_opt (ipf ''src_addr'') (inet_pton P (pointee (ip_source c))) b;
        b \<leftarrow> store_opt (ipf ''dst_addr'') (inet_pton P (pointee (ip_destination c))) b;
        b \<leftarrow> store (ipf ''next_proto_id'') [17] b;
        b \<leftarrow> wr16 (ipf ''packet_id'') 0 b;
        b \<leftarrow> wr16 (ipf ''hdr_checksum'') 0 b;
        b \<leftarrow> store (ipf ''hdr_checksum'') (le_bytes 2 (unat (ipv4_cksum P (drop ip b)))) b;
        b \<leftarrow> wr16 (udpf ''src_port'') (udp_src_port c) b;
        b \<leftarrow> wr16 (udpf ''dst_port'') (udp_port c) b;
        b \<leftarrow> wr16 (udpf ''dgram_len'')
               (ucast (frame_length c - of_nat (sizeof ethhdr) - of_nat (sizeof rte_ipv4_hdr))) b;
        b \<leftarrow> wr16 (udpf ''dgram_cksum'') 0 b;
        let ck = udptcp_cksum P (drop ip b);
        b \<leftarrow> store (udpf ''dgram_cksum'') (le_bytes 2 (unat (if ck = 0 then 0xFFFF else ck))) b;
        b \<leftarrow> store udp_meta (replicate (sizeof reference_meta_data) 0) b;
        p \<leftarrow> load 0 (unat (payload_pattern_length c)) (pointee (payload_pattern c));
        b \<leftarrow> store (udp_meta + sizeof reference_meta_data) p b;
        Some (m\<lparr>m_data := b\<rparr>)
      })"

section \<open>Preparing and sending the frames of a cycle\<close>

text \<open>One frame of a cycle, with its sequence counter and time: \<open>nb\<close> is the number of packets.\<close>

definition pn_prepare ::
  "'c platform \<Rightarrow> stat_frame_type \<Rightarrow> u64 \<Rightarrow> u64 \<Rightarrow> u64 \<Rightarrow> mbuf \<Rightarrow> 'c world \<Rightarrow> (mbuf \<times> 'c world) option" where
  "pn_prepare P t nb seq tx_time m w =
     (let c = cfg_of P t in do {
        m \<leftarrow> pn_initialize_frame P t (tc_security_mode c) m;
        let fc = \<lparr>pf_mode = tc_security_mode c, pf_iv_prefix = pointee (security_iv_prefix c),
                  pf_payload_pattern = pointee (ctx_payload_pattern w),
                  pf_payload_pattern_length = ctx_payload_pattern_length w,
                  pf_frame_length = ucast (m_data_len m), pf_num_frames_per_cycle = nb,
                  pf_sequence_counter = seq, pf_tx_timestamp = tx_time,
                  pf_meta_data_offset = meta_data_offset w\<rparr>;
        (ret, ctx, b) \<leftarrow> prepare_frame_for_tx (evp P) (tx_security_context w) fc (m_data m);
        Some (m\<lparr>m_data := b\<rparr>, w\<lparr>tx_security_context := ctx\<rparr>)
      })"

text \<open>The classes without security: initialise, then write counter and time at an offset.\<close>

definition plain_prepare ::
  "(mbuf \<Rightarrow> mbuf option) \<Rightarrow> ('c world \<Rightarrow> nat) \<Rightarrow> u64 \<Rightarrow> u64 \<Rightarrow> u64 \<Rightarrow> mbuf \<Rightarrow> 'c world \<Rightarrow> (mbuf \<times> 'c world) option" where
  "plain_prepare init off nb seq tx_time m w = do {
     m \<leftarrow> init m;
     b \<leftarrow> sequence_counter_to_meta_data (off w) seq nb (m_data m);
     b \<leftarrow> tx_timestamp_to_meta_data (off w) tx_time b;
     Some (m\<lparr>m_data := b\<rparr>, w)
   }"

definition tx_prepare ::
  "'c platform \<Rightarrow> stat_frame_type \<Rightarrow> u64 \<Rightarrow> u64 \<Rightarrow> u64 \<Rightarrow> mbuf \<Rightarrow> 'c world \<Rightarrow> (mbuf \<times> 'c world) option" where
  "tx_prepare P t nb seq tx_time m w =
     (case t of
        DCP_FRAME_TYPE \<Rightarrow>
          plain_prepare (dcp_initialize_frame P)
            (\<lambda>_. sizeof vlan_ethernet_header + offsetof profinet_rt_header ''meta_data'') nb seq tx_time m w
      | LLDP_FRAME_TYPE \<Rightarrow> plain_prepare (lldp_initialize_frame P) (\<lambda>_. sizeof ethhdr) nb seq tx_time m w
      | UDP_HIGH_FRAME_TYPE \<Rightarrow>
          plain_prepare (udp_initialize_frame P t) (\<lambda>w. unat (meta_data_offset w))
            (num_frames_per_cycle (cfg_of P t)) seq tx_time m w
      | UDP_LOW_FRAME_TYPE \<Rightarrow>
          plain_prepare (udp_initialize_frame P t) (\<lambda>w. unat (meta_data_offset w))
            (num_frames_per_cycle (cfg_of P t)) seq tx_time m w
      | L2_FRAME_TYPE \<Rightarrow>
          plain_prepare (l2_initialize_frame P) (\<lambda>_. sizeof vlan_ethernet_header) nb seq tx_time m w
      | _ \<Rightarrow> pn_prepare P t nb seq tx_time m w)"

definition record_sent :: "'c platform \<Rightarrow> stat_frame_type \<Rightarrow> u64 \<Rightarrow> u64 \<Rightarrow> 'c world \<Rightarrow> 'c world option" where
  "record_sent P t seq ts w = do {
     st \<leftarrow> stat_frame_sent (env P) t seq ts (wstat w);
     Some (w\<lparr>wstat := st\<rparr>)
   }"

fun gen_loop ::
  "'c platform \<Rightarrow> stat_frame_type \<Rightarrow> u64 \<Rightarrow> u64 \<Rightarrow> u64 \<Rightarrow> mbuf list \<Rightarrow> 'c world \<Rightarrow> 'c world option" where
  "gen_loop P t nb seq tx_time [] w = Some w"
| "gen_loop P t nb seq tx_time (m # ms) w = do {
     (m, w) \<leftarrow> tx_prepare P t nb seq tx_time m w;
     w \<leftarrow> record_sent P t seq tx_time w;
     w \<leftarrow> queue_mbuf P m w;
     gen_loop P t nb (seq + 1) tx_time ms w
   }"

definition send_queued :: "'c platform \<Rightarrow> 'c world \<Rightarrow> 'c world" where
  "send_queued P w = w\<lparr>dev := snd (lport_send (nic P) (dev w))\<rparr>"

text \<open>
  \<^verbatim>\<open>tsn_gen_and_send_frames\<close> and its siblings. RTA and DCP return at once when there is
  nothing to send.
\<close>

definition gen_and_send_frames :: "'c platform \<Rightarrow> stat_frame_type \<Rightarrow> u64 \<Rightarrow> 'c world \<Rightarrow> 'c world option" where
  "gen_and_send_frames P t num_frames w =
     (if t \<in> {RTA_FRAME_TYPE, DCP_FRAME_TYPE} \<and> num_frames = 0 then Some w
      else let nb_pkts = ucast num_frames :: u16 in do {
        (ms, d) \<leftarrow> lport_tx_get_bulk (unat nb_pkts) (dev w);
        let w = w\<lparr>dev := d\<rparr>;
        (case ms of
           None \<Rightarrow> Some w
         | Some ms \<Rightarrow>
             (case clock_gettime_ns (clk P) w of (tx_time, w) \<Rightarrow> do {
                w \<leftarrow> gen_loop P t (ucast nb_pkts) (tx_sequence_counter w) tx_time ms w;
                let w = w\<lparr>tx_sequence_counter := tx_sequence_counter w + ucast nb_pkts\<rparr>;
                Some (send_queued P w)
              }))
      })"

text \<open>\<^verbatim>\<open>send_frames_common\<close>: account for the mirrored frames in the buffer and flush it.\<close>

fun sent_loop ::
  "'c platform \<Rightarrow> stat_frame_type \<Rightarrow> u32 \<Rightarrow> u64 \<Rightarrow> u64 \<Rightarrow> mbuf list \<Rightarrow> 'c world \<Rightarrow> 'c world option" where
  "sent_loop P t off n ts [] w = Some w"
| "sent_loop P t off n ts (m # ms) w = do {
     seq \<leftarrow> get_sequence_counter (m_data m) off n;
     w \<leftarrow> record_sent P t seq ts w;
     sent_loop P t off n ts ms w
   }"

definition send_frames_common ::
  "'c platform \<Rightarrow> stat_frame_type \<Rightarrow> u64 \<Rightarrow> 'c world \<Rightarrow> 'c world option" where
  "send_frames_common P t frames_per_cycle w =
     (case clock_gettime_ns (clk P) w of (timestamp, w) \<Rightarrow> do {
        w \<leftarrow> sent_loop P t (meta_data_offset w) frames_per_cycle timestamp (pkts (tx_buffer (dev w))) w;
        Some (send_queued P w)
      })"

section \<open>Timer callbacks\<close>

definition signal_next :: "'c world \<Rightarrow> 'c world" where
  "signal_next w = (case next_ctx w of None \<Rightarrow> w | Some i \<Rightarrow> w\<lparr>signals := signals w @ [i]\<rparr>)"

definition nsec_per_sec :: u64 where "nsec_per_sec = 1000000000"

definition base_cycle :: "'c platform \<Rightarrow> u64" where
  "base_cycle P = application_base_cycle_time_ns (app_config (env P))"

definition tx_first_timeout :: "'c platform \<Rightarrow> stat_frame_type \<Rightarrow> 'c world \<Rightarrow> u64" where
  "tx_first_timeout P t w =
     (if t \<in> {TSN_HIGH_FRAME_TYPE, TSN_LOW_FRAME_TYPE, RTC_FRAME_TYPE}
      then if is_first w then base_cycle P else nsec_per_sec
      else if t \<in> {RTA_FRAME_TYPE, DCP_FRAME_TYPE, LLDP_FRAME_TYPE} then nsec_per_sec
      else base_cycle P)"

definition generate_or_mirror :: "'c platform \<Rightarrow> stat_frame_type \<Rightarrow> u64 \<Rightarrow> u64 \<Rightarrow> 'c world \<Rightarrow> 'c world option" where
  "generate_or_mirror P t num_frames per_cycle w =
     (if mirror_of P then send_frames_common P t per_cycle w else gen_and_send_frames P t num_frames w)"

text \<open>
  The transmit callbacks behind their first call. TSN and RTC send in every cycle (when first of
  the chain) or when signalled; RTA, DCP and LLDP send what the generator has made
  available; UDP sends a whole burst when there is any; L2 is not part of the chain.
\<close>

definition tsn_rtc_tx :: "'c platform \<Rightarrow> stat_frame_type \<Rightarrow> bool \<Rightarrow> 'c world \<Rightarrow> 'c world option" where
  "tsn_rtc_tx P t signaled w =
     (if \<not> is_first w \<and> \<not> signaled then Some w
      else let n = num_frames_per_cycle (cfg_of P t) in do {
        w \<leftarrow> generate_or_mirror P t n n w;
        Some (signal_next w)
      })"

definition burst_tx :: "'c platform \<Rightarrow> stat_frame_type \<Rightarrow> bool \<Rightarrow> 'c world \<Rightarrow> 'c world option" where
  "burst_tx P t signaled w =
     (if \<not> signaled then Some w
      else let n = num_frames_available w; w = w\<lparr>num_frames_available := 0\<rparr> in do {
        w \<leftarrow> generate_or_mirror P t n n w;
        Some (signal_next w)
      })"

definition udp_tx :: "'c platform \<Rightarrow> stat_frame_type \<Rightarrow> bool \<Rightarrow> 'c world \<Rightarrow> 'c world option" where
  "udp_tx P t signaled w =
     (if \<not> signaled then Some w
      else let n = num_frames_available w; w = w\<lparr>num_frames_available := 0\<rparr>;
               all = num_frames_per_cycle (cfg_of P t) in do {
        w \<leftarrow> (if mirror_of P then send_frames_common P t all w
              else if n \<noteq> 0 then gen_and_send_frames P t all w else Some w);
        Some (signal_next w)
      })"

definition l2_tx :: "'c platform \<Rightarrow> 'c world \<Rightarrow> 'c world option" where
  "l2_tx P w = (let n = num_frames_per_cycle (cfg_of P L2_FRAME_TYPE) in generate_or_mirror P L2_FRAME_TYPE n n w)"

definition class_tx :: "'c platform \<Rightarrow> stat_frame_type \<Rightarrow> bool \<Rightarrow> 'c world \<Rightarrow> 'c world option" where
  "class_tx P t signaled w =
     (case t of
        TSN_HIGH_FRAME_TYPE \<Rightarrow> tsn_rtc_tx P t signaled w
      | TSN_LOW_FRAME_TYPE \<Rightarrow> tsn_rtc_tx P t signaled w
      | RTC_FRAME_TYPE \<Rightarrow> tsn_rtc_tx P t signaled w
      | L2_FRAME_TYPE \<Rightarrow> l2_tx P w
      | UDP_HIGH_FRAME_TYPE \<Rightarrow> udp_tx P t signaled w
      | UDP_LOW_FRAME_TYPE \<Rightarrow> udp_tx P t signaled w
      | _ \<Rightarrow> burst_tx P t signaled w)"

definition tx_thread_routine :: "'c platform \<Rightarrow> stat_frame_type \<Rightarrow> bool \<Rightarrow> 'c world \<Rightarrow> 'c world option" where
  "tx_thread_routine P t signaled w =
     (case do_once (tx_do_once w) of (v, first) \<Rightarrow>
        let w = w\<lparr>tx_do_once := v\<rparr>
        in if first then thread_timer_set TX_TIMER (tx_first_timeout P t w) w
           else class_tx P t signaled w)"

definition tx_generation_thread_routine :: "'c platform \<Rightarrow> stat_frame_type \<Rightarrow> 'c world \<Rightarrow> 'c world option" where
  "tx_generation_thread_routine P t w =
     (case do_once (tx_gen_do_once w) of (v, first) \<Rightarrow>
        let w = w\<lparr>tx_gen_do_once := v\<rparr>; c = cfg_of P t
        in if first then thread_timer_set TXGEN_TIMER (burst_period_ns c) w
           else Some (w\<lparr>num_frames_available := num_frames_per_cycle c\<rparr>))"

definition class_rx_frame :: "'c platform \<Rightarrow> stat_frame_type \<Rightarrow> mbuf list \<Rightarrow> 'c world \<Rightarrow> 'c world option" where
  "class_rx_frame P t ms w =
     (case t of
        TSN_HIGH_FRAME_TYPE \<Rightarrow> tsn_rx_frame P t ms w
      | TSN_LOW_FRAME_TYPE \<Rightarrow> tsn_rx_frame P t ms w
      | RTC_FRAME_TYPE \<Rightarrow> rtc_rx_frame P ms w
      | RTA_FRAME_TYPE \<Rightarrow> rta_rx_frame P ms w
      | DCP_FRAME_TYPE \<Rightarrow> dcp_rx_frame P ms w
      | LLDP_FRAME_TYPE \<Rightarrow> lldp_rx_frame P ms w
      | UDP_HIGH_FRAME_TYPE \<Rightarrow> udp_rx_frame P t ms w
      | UDP_LOW_FRAME_TYPE \<Rightarrow> udp_rx_frame P t ms w
      | L2_FRAME_TYPE \<Rightarrow> l2_rx_frame P ms w)"

definition rx_timeout :: "'c platform \<Rightarrow> stat_frame_type \<Rightarrow> u64" where
  "rx_timeout P t =
     (if t \<in> {TSN_HIGH_FRAME_TYPE, TSN_LOW_FRAME_TYPE, RTC_FRAME_TYPE, RTA_FRAME_TYPE}
      then mirror_delay P div 4 else mirror_delay P)"

definition lport_process_pkts ::
  "'c platform \<Rightarrow> int \<Rightarrow> (mbuf list \<Rightarrow> 'c world \<Rightarrow> 'c world option) \<Rightarrow> u64 \<Rightarrow> 'c world \<Rightarrow> 'c world option" where
  "lport_process_pkts P burst_sz fn timo w = do {
     r \<leftarrow> lport_rx (rx_pkts P) (clk P) (rx_fuel P) burst_sz timo (ticks w) (dev w);
     (case r of
        Inl _ \<Rightarrow> Some (w\<lparr>hung := True\<rparr>)
      | Inr (ms, tk, d) \<Rightarrow>
          let w = w\<lparr>ticks := tk, dev := d\<rparr> in if ms \<noteq> [] then fn ms w else Some w)
   }"

definition rx_thread_routine :: "'c platform \<Rightarrow> stat_frame_type \<Rightarrow> 'c world \<Rightarrow> 'c world option" where
  "rx_thread_routine P t w =
     (case do_once (rx_do_once w) of (v, first) \<Rightarrow>
        let w = w\<lparr>rx_do_once := v\<rparr>
        in if first then thread_timer_set RX_TIMER (base_cycle P) w
           else lport_process_pkts P (to_cint (uint (num_frames_per_cycle (cfg_of P t)))) (class_rx_frame P t)
                  (rx_timeout P t) w)"

text \<open>The callback of a timer. A thread that ended or hangs does nothing more.\<close>

definition class_callback ::
  "'c platform \<Rightarrow> stat_frame_type \<Rightarrow> timer_fn \<Rightarrow> bool \<Rightarrow> 'c world \<Rightarrow> 'c world option" where
  "class_callback P t f signaled w =
     (if exited (wstat w) \<or> hung w then Some w
      else case f of
        RX_ROUTINE \<Rightarrow> rx_thread_routine P t w
      | TX_ROUTINE \<Rightarrow> tx_thread_routine P t signaled w
      | TX_GENERATION_ROUTINE \<Rightarrow> tx_generation_thread_routine P t w)"

end
