(* ===== verification/Tx_Safety.thy ===== *)
theory Tx_Safety
  imports Tx
begin

text \<open>
  No transmit or receive routine of a well-configured class leaves its buffers: the class
  invariant, the totality of the frame builders, and the callbacks of every class as
  clients of the timer loop.
\<close>

section \<open>Building and preparing frames never faults\<close>

text \<open>The security mode a class works in, and the size of its headers in front of the payload (with the trailer).\<close>

definition class_mode :: "'c platform \<Rightarrow> stat_frame_type \<Rightarrow> security_mode" where
  "class_mode P t =
     (if t \<in> {TSN_HIGH_FRAME_TYPE, TSN_LOW_FRAME_TYPE, RTC_FRAME_TYPE, RTA_FRAME_TYPE}
      then tc_security_mode (cfg_of P t) else SECURITY_MODE_NONE)"

fun header_size :: "stat_frame_type \<Rightarrow> security_mode \<Rightarrow> nat" where
  "header_size LLDP_FRAME_TYPE _ = 30"
| "header_size UDP_HIGH_FRAME_TYPE _ = 58"
| "header_size UDP_LOW_FRAME_TYPE _ = 58"
| "header_size L2_FRAME_TYPE _ = 34"
| "header_size _ SECURITY_MODE_NONE = 36"
| "header_size _ _ = 60"

text \<open>A class configuration under which its frames can be built, sent and received.\<close>

definition class_conf :: "'c platform \<Rightarrow> stat_frame_type \<Rightarrow> bool" where
  "class_conf P t \<longleftrightarrow>
     (let c = cfg_of P t; plen = unat (payload_pattern_length c) in
      plen \<le> length (pointee (payload_pattern c)) \<and>
      60 + plen \<le> MAX_FRAME_SIZE \<and>
      header_size t (class_mode P t) + plen \<le> unat (frame_length c) \<and>
      unat (frame_length c) \<le> MAX_FRAME_SIZE \<and>
      0 < unat (num_frames_per_cycle c) \<and> unat (num_frames_per_cycle c) \<le> MAX_PKT_BURST \<and>
      6 \<le> length (mac P) \<and> 6 \<le> length (destination c) \<and>
      (t = DCP_FRAME_TYPE \<longrightarrow> plen \<le> DCP_LOG_BUFFER) \<and>
      (class_mode P t \<noteq> SECURITY_MODE_NONE \<longrightarrow>
         6 \<le> length (pointee (security_iv_prefix c)) \<and> evp_sizes (evp P) \<and>
         60 + 4 * unat (num_frames_per_cycle c) \<le> unat (frame_length c)) \<and>
      (\<forall>x y. inet_pton P x = Some y \<longrightarrow> length y = 4) \<and>
      (\<forall>k. \<forall>m\<in>set (rx_pkts P k). mbuf_ok m))"

definition class_sec :: "'c platform \<Rightarrow> stat_frame_type \<Rightarrow> 'c world \<Rightarrow> bool" where
  "class_sec P t w \<longleftrightarrow>
     (class_mode P t \<noteq> SECURITY_MODE_NONE \<longrightarrow> rx_security_context w \<noteq> None \<and> tx_security_context w \<noteq> None) \<and>
     (class_mode P t = SECURITY_MODE_AE \<longrightarrow>
        length (plaintext w) = MAX_FRAME_SIZE \<and>
        unat (ctx_payload_pattern_length w) \<le> length (pointee (ctx_payload_pattern w)) \<and>
        60 + unat (ctx_payload_pattern_length w) \<le> unat (frame_length (cfg_of P t)))"

definition class_inv :: "'c platform \<Rightarrow> stat_frame_type \<Rightarrow> 'c world \<Rightarrow> bool" where
  "class_inv P t w \<longleftrightarrow>
     class_conf P t \<and> stat_ok (env P) (wstat w) \<and> io_ok (dev w) \<and> class_sec P t w \<and>
     meta_data_offset w = get_meta_data_offset t (class_mode P t) \<and>
     num_frames_available w \<in> {0, num_frames_per_cycle (cfg_of P t)}"

lemma unat_ucast_64_16 [simp]: "unat (ucast (x :: u64) :: u16) = unat x mod 65536"
  by (simp add: unsigned_ucast_eq take_bit_eq_mod)

lemma unat_ucast_16_64 [simp]: "unat (ucast (x :: u16) :: u64) = unat x"
  using unsigned_less [of x, where ?'a = nat] by (simp add: unsigned_ucast_eq take_bit_nat_eq_self)

lemma frame_length_16:
  "unat (n :: u64) \<le> MAX_FRAME_SIZE \<Longrightarrow> (ucast (ucast n :: u16) :: u64) = n"
  by (rule word_unat_eq_iff [THEN iffD2]) (simp only: unat_ucast_16_64 unat_ucast_64_16, simp add: MAX_FRAME_SIZE_def)

text \<open>A builder that keeps the identity and the room of the mbuf and sets its length.\<close>

definition builds :: "u64 \<Rightarrow> mbuf \<Rightarrow> mbuf option \<Rightarrow> bool" where
  "builds n m r \<longleftrightarrow> (\<exists>m'. r = Some m' \<and> m_id m' = m_id m \<and> length (m_data m') = length (m_data m) \<and>
     m_data_len m' = ucast n \<and> m_pkt_len m' = ucast n)"

lemma set_lengths_simps [simp]:
  "m_id (set_lengths n m) = m_id m" "m_data (set_lengths n m) = m_data m"
  "m_data_len (set_lengths n m) = ucast n" "m_pkt_len (set_lengths n m) = ucast n"
  by (simp_all add: set_lengths_def)

lemma pn_initialize_frame_ok:
  assumes conf: "class_conf P t" and mode: "mode = class_mode P t"
    and t: "t \<in> {TSN_HIGH_FRAME_TYPE, TSN_LOW_FRAME_TYPE, RTC_FRAME_TYPE, RTA_FRAME_TYPE, DCP_FRAME_TYPE}"
    and m: "MAX_FRAME_SIZE \<le> length (m_data m)"
  shows "builds (frame_length (cfg_of P t)) m (pn_initialize_frame P t mode m)"
proof -
  let ?c = "cfg_of P t" and ?f = "frame_length (cfg_of P t)"
  have f: "unat ?f \<le> length (m_data m)" "unat ?f \<le> MAX_FRAME_SIZE"
    and s: "6 \<le> length (mac P)" "6 \<le> length (destination ?c)"
    and p: "unat (payload_pattern_length ?c) \<le> length (pointee (payload_pattern ?c))"
    and h: "(if mode = SECURITY_MODE_NONE then 36 else 60) + unat (payload_pattern_length ?c) \<le> unat ?f"
    using conf m t mode by (auto simp: class_conf_def Let_def) (cases mode; simp)+
  obtain b0 where b0: "memset0 ?f (m_data m) = Some b0" "length b0 = length (m_data m)"
    by (rule memset0_props [OF f(1)]) blast
  have fb: "unat ?f \<le> length b0" using f(1) b0(2) by simp
  have "\<exists>b. initialize_profinet_frame mode b0 ?f (mac P) (destination ?c) (pointee (payload_pattern ?c))
          (payload_pattern_length ?c) (vlan_tci_of ?c) (class_frame_id t mode) = Some b \<and> length b = length b0"
  proof (cases "mode = SECURITY_MODE_NONE")
    case True
    then have h': "36 + unat (payload_pattern_length ?c) \<le> unat ?f" using h by simp
    show ?thesis
      using True by (auto intro: initialize_rt_profinet_frame_props [OF h' fb s p])
  next
    case False
    then have h': "60 + unat (payload_pattern_length ?c) \<le> unat ?f" using h by simp
    obtain b where "initialize_secure_profinet_frame mode b0 ?f (mac P) (destination ?c) (pointee (payload_pattern ?c))
          (payload_pattern_length ?c) (vlan_tci_of ?c) (class_frame_id t mode) = Some b" "length b = length b0"
      by (rule initialize_secure_profinet_frame_props [OF h' fb s p]) blast
    then show ?thesis using False by (cases mode) auto
  qed
  then show ?thesis
    using b0 by (auto simp: builds_def pn_initialize_frame_def Let_def frame_length_16 [OF f(2)])
qed

lemma lldp_initialize_frame_ok:
  assumes conf: "class_conf P LLDP_FRAME_TYPE" and m: "MAX_FRAME_SIZE \<le> length (m_data m)"
  shows "builds (frame_length (cfg_of P LLDP_FRAME_TYPE)) m (lldp_initialize_frame P m)"
proof -
  let ?c = "cfg_of P LLDP_FRAME_TYPE"
  have f: "unat (frame_length ?c) \<le> length (m_data m)" "2048 \<le> length (m_data m)"
    and s: "6 \<le> length (mac P)" "6 \<le> length (destination ?c)"
    and p: "unat (payload_pattern_length ?c) \<le> length (pointee (payload_pattern ?c))"
    and h: "30 + unat (payload_pattern_length ?c) \<le> length (m_data m)"
    using conf m by (auto simp: class_conf_def Let_def MAX_FRAME_SIZE_def)
  obtain b0 where b0: "memset0 (frame_length ?c) (m_data m) = Some b0" "length b0 = length (m_data m)"
    by (rule memset0_props [OF f(1)]) blast
  show ?thesis
    using b0 f s p h
    by (simp add: builds_def lldp_initialize_frame_def Let_def size_simps load_in_bounds wr16_def buf_simps)
qed

lemma l2_initialize_frame_ok:
  assumes conf: "class_conf P L2_FRAME_TYPE" and m: "MAX_FRAME_SIZE \<le> length (m_data m)"
  shows "builds (frame_length (cfg_of P L2_FRAME_TYPE)) m (l2_initialize_frame P m)"
proof -
  let ?c = "cfg_of P L2_FRAME_TYPE"
  have f: "unat (frame_length ?c) \<le> length (m_data m)" "2048 \<le> length (m_data m)"
    and s: "6 \<le> length (mac P)" "6 \<le> length (destination ?c)"
    and p: "unat (payload_pattern_length ?c) \<le> length (pointee (payload_pattern ?c))"
    and h: "34 + unat (payload_pattern_length ?c) \<le> length (m_data m)"
    using conf m by (auto simp: class_conf_def Let_def MAX_FRAME_SIZE_def)
  obtain b0 where b0: "memset0 (frame_length ?c) (m_data m) = Some b0" "length b0 = length (m_data m)"
    by (rule memset0_props [OF f(1)]) blast
  have "18 \<le> length b0" using b0(2) f(2) by simp
  then obtain b1 where b1: "write_vlan_ethernet_header (mac P) (destination ?c) (vlan_tci_of ?c) (ucast (ether_type ?c)) b0 = Some b1"
    "length b1 = length b0"
    by (rule write_vlan_ethernet_header_props [OF _ s]) blast
  show ?thesis
    using b0 b1 f s p h
    by (simp add: builds_def l2_initialize_frame_def Let_def size_simps load_in_bounds wr32_def buf_simps)
qed

lemma udp_offsets [size_simps]:
  "offsetof rte_ipv4_hdr ''version_ihl'' = 0" "offsetof rte_ipv4_hdr ''total_length'' = 2"
  "offsetof rte_ipv4_hdr ''packet_id'' = 4" "offsetof rte_ipv4_hdr ''time_to_live'' = 8"
  "offsetof rte_ipv4_hdr ''next_proto_id'' = 9" "offsetof rte_ipv4_hdr ''hdr_checksum'' = 10"
  "offsetof rte_ipv4_hdr ''src_addr'' = 12" "offsetof rte_ipv4_hdr ''dst_addr'' = 16"
  "offsetof rte_udp_hdr ''src_port'' = 0" "offsetof rte_udp_hdr ''dst_port'' = 2"
  "offsetof rte_udp_hdr ''dgram_len'' = 4" "offsetof rte_udp_hdr ''dgram_cksum'' = 6"
  by code_simp+

text \<open>A chain of stores that stay inside a buffer of 2048 bytes.\<close>

lemma bind_store:
  "off + length v \<le> 2048 \<Longrightarrow> 2048 \<le> length b \<Longrightarrow>
   (\<And>b'. length b' = length b \<Longrightarrow> builds n m (f b')) \<Longrightarrow> builds n m (store off v b \<bind> f)"
  using store_ex [of off v b] by auto

lemma bind_wr16:
  "off + 2 \<le> 2048 \<Longrightarrow> 2048 \<le> length b \<Longrightarrow>
   (\<And>b'. length b' = length b \<Longrightarrow> builds n m (f b')) \<Longrightarrow> builds n m (wr16 off v b \<bind> f)"
  using wr16_ex [of off b v] by auto

lemma bind_store_opt:
  "(\<And>x. v = Some x \<Longrightarrow> off + length x \<le> 2048) \<Longrightarrow> 2048 \<le> length b \<Longrightarrow>
   (\<And>b'. length b' = length b \<Longrightarrow> builds n m (f b')) \<Longrightarrow> builds n m (store_opt off v b \<bind> f)"
  using store_opt_ex [of v off b] by (metis bind.bind_lunit order_trans)

lemma udp_initialize_frame_ok:
  assumes conf: "class_conf P t" and t: "t \<in> {UDP_HIGH_FRAME_TYPE, UDP_LOW_FRAME_TYPE}"
    and m: "MAX_FRAME_SIZE \<le> length (m_data m)"
  shows "builds (frame_length (cfg_of P t)) m (udp_initialize_frame P t m)"
proof -
  let ?c = "cfg_of P t"
  have f: "unat (frame_length ?c) \<le> length (m_data m)" "2048 \<le> length (m_data m)"
    and s: "6 \<le> length (mac P)" "6 \<le> length (destination ?c)"
    and p: "unat (payload_pattern_length ?c) \<le> length (pointee (payload_pattern ?c))"
    and h: "58 + unat (payload_pattern_length ?c) \<le> 2048"
    and i: "\<And>x y. inet_pton P x = Some y \<Longrightarrow> length y = 4"
    using conf m t by (auto simp: class_conf_def Let_def MAX_FRAME_SIZE_def)
  obtain b0 where b0: "memset0 (frame_length ?c) (m_data m) = Some b0" "length b0 = length (m_data m)"
    by (rule memset0_props [OF f(1)]) blast
  show ?thesis
    unfolding udp_initialize_frame_def Let_def set_lengths_simps b0(1) bind.bind_lunit
    by (simp add: size_simps udp_meta_42 load_in_bounds s p,
        (intro bind_store bind_wr16 bind_store_opt; (simp add: b0 f s h p)?))
      (auto simp: builds_def b0 i le_bytes_def)
qed

text \<open>A preparation step keeps the mbuf's identity and room, and at most replaces the transmit context.\<close>

definition prepares :: "mbuf \<Rightarrow> 'c world \<Rightarrow> (mbuf \<times> 'c world) option \<Rightarrow> bool" where
  "prepares m w r \<longleftrightarrow> (\<exists>m' ctx. r = Some (m', w\<lparr>tx_security_context := ctx\<rparr>) \<and> m_id m' = m_id m \<and>
     length (m_data m') = length (m_data m) \<and> (tx_security_context w \<noteq> None \<longrightarrow> ctx \<noteq> None))"

lemma prepare_frame_for_tx_ok:
  assumes n: "pf_num_frames_per_cycle fc \<noteq> 0" and b: "unat (pf_frame_length fc) \<le> length b" "44 \<le> length b"
    and off: "unat (pf_meta_data_offset fc) + 16 \<le> length b"
    and sec: "pf_mode fc \<noteq> SECURITY_MODE_NONE \<Longrightarrow>
      ctx \<noteq> None \<and> 60 \<le> unat (pf_frame_length fc) \<and> 6 \<le> length (pf_iv_prefix fc) \<and> evp_sizes E"
    and ae: "pf_mode fc = SECURITY_MODE_AE \<Longrightarrow>
      unat (pf_payload_pattern_length fc) \<le> length (pf_payload_pattern fc) \<and>
      60 + unat (pf_payload_pattern_length fc) \<le> unat (pf_frame_length fc)"
  shows "\<exists>r ctx' b'. prepare_frame_for_tx E ctx fc b = Some (r, ctx', b') \<and> length b' = length b \<and>
           (ctx \<noteq> None \<longrightarrow> ctx' \<noteq> None)"
proof (cases "pf_mode fc")
  case SECURITY_MODE_NONE
  obtain b1 where "write_meta (unat (pf_meta_data_offset fc)) fc b = Some b1" "length b1 = length b"
    by (rule write_meta_props [OF n off]) blast
  then show ?thesis using SECURITY_MODE_NONE by (simp add: prepare_frame_for_tx_def Let_def)
next
  case SECURITY_MODE_AO
  let ?l = "unat (pf_frame_length fc)"
  from sec SECURITY_MODE_AO obtain c where c: "ctx = Some c" and l: "60 \<le> ?l" and iv: "6 \<le> length (pf_iv_prefix fc)"
    and E: "evp_sizes E" by auto
  have sz: "unat (pf_frame_length fc - 34) = ?l - 34" "unat (pf_frame_length fc - 16) = ?l - 16"
    using unat_sub_nat [of 34 "pf_frame_length fc"] unat_sub_nat [of 16 "pf_frame_length fc"] l
    by simp_all
  have o28: "28 + 16 \<le> length b" using b(2) by simp
  obtain b1 where b1: "write_meta 28 fc b = Some b1" "length b1 = length b"
    by (rule write_meta_props [OF n o28]) blast
  obtain i where i: "prepare_iv (pf_iv_prefix fc) (pf_sequence_counter fc) = Some i"
    using prepare_iv_eq [OF iv] by blast
  have "18 + (?l - 34) \<le> length b1" using l b(1) b1(2) by linarith
  then obtain aad where aad: "load 18 (?l - 34) b1 = Some aad" using load_ex by blast
  obtain r c2 x tag where e: "security_encrypt E c None aad i = (r, c2, x, tag)"
    by (cases "security_encrypt E c None aad i") auto
  have "\<And>y. tag = Some y \<Longrightarrow> ?l - 16 + length y \<le> length b1"
    using E e l b(1) b1(2) unfolding evp_sizes_def by fastforce
  then obtain b2 where "store_opt (?l - 16) tag b1 = Some b2" "length b2 = length b1"
    using store_opt_ex by blast
  then show ?thesis
    using SECURITY_MODE_AO c b1 i aad e by (simp add: prepare_frame_for_tx_def Let_def size_simps sz)
next
  case SECURITY_MODE_AE
  let ?l = "unat (pf_frame_length fc)"
  from sec SECURITY_MODE_AE obtain c where c: "ctx = Some c" and l: "60 \<le> ?l" and iv: "6 \<le> length (pf_iv_prefix fc)"
    and E: "evp_sizes E" by auto
  have pl: "unat (pf_payload_pattern_length fc) \<le> length (pf_payload_pattern fc)"
    "60 + unat (pf_payload_pattern_length fc) \<le> ?l" using ae SECURITY_MODE_AE by auto
  have sz: "unat (pf_frame_length fc - 16) = ?l - 16"
    using unat_sub_nat [of 16 "pf_frame_length fc"] l by simp
  have o28: "28 + 16 \<le> length b" using b(2) by simp
  obtain b1 where b1: "write_meta 28 fc b = Some b1" "length b1 = length b"
    by (rule write_meta_props [OF n o28]) blast
  obtain i where i: "prepare_iv (pf_iv_prefix fc) (pf_sequence_counter fc) = Some i"
    using prepare_iv_eq [OF iv] by blast
  obtain aad where aad: "load 18 26 b1 = Some aad" using load_ex [of 18 26 b1] b(2) b1(2) by auto
  obtain pt where pt: "load 0 (unat (pf_payload_pattern_length fc)) (pf_payload_pattern fc) = Some pt"
    "length pt = unat (pf_payload_pattern_length fc)"
    using load_ex [of 0 "unat (pf_payload_pattern_length fc)" "pf_payload_pattern fc"] pl(1) by auto
  obtain r c2 x tag where e: "security_encrypt E c (Some pt) aad i = (r, c2, x, tag)"
    by (cases "security_encrypt E c (Some pt) aad i") auto
  have x: "44 + length y \<le> length b1" if "x = Some y" for y
  proof -
    have "length y \<le> length pt" using E e that unfolding evp_sizes_def by fastforce
    then show ?thesis using pl(2) pt(2) b(1) b1(2) by linarith
  qed
  obtain b2 where b2: "store_opt 44 x b1 = Some b2" "length b2 = length b1" using store_opt_ex [OF x] by blast
  have "\<And>y. tag = Some y \<Longrightarrow> ?l - 16 + length y \<le> length b2"
    using E e l b(1) b1(2) b2(2) unfolding evp_sizes_def by fastforce
  then obtain b3 where "store_opt (?l - 16) tag b2 = Some b3" "length b3 = length b2"
    using store_opt_ex by blast
  then show ?thesis
    using SECURITY_MODE_AE c b1 b2 i aad pt e by (simp add: prepare_frame_for_tx_def Let_def size_simps sz)
qed

lemma pn_prepare_ok:
  assumes inv: "class_inv P t w" and nb: "nb \<noteq> 0" and m: "MAX_FRAME_SIZE \<le> length (m_data m)"
    and t: "t \<in> {TSN_HIGH_FRAME_TYPE, TSN_LOW_FRAME_TYPE, RTC_FRAME_TYPE, RTA_FRAME_TYPE}"
  shows "prepares m w (pn_prepare P t nb seq ts m w)"
proof -
  let ?c = "cfg_of P t"
  have conf: "class_conf P t" and sec: "class_sec P t w" and off: "meta_data_offset w = get_meta_data_offset t (class_mode P t)"
    using inv by (simp_all add: class_inv_def)
  have mode: "tc_security_mode ?c = class_mode P t" using t by (auto simp: class_mode_def)
  have f: "unat (frame_length ?c) \<le> MAX_FRAME_SIZE" using conf by (simp add: class_conf_def Let_def)
  obtain m1 where i: "pn_initialize_frame P t (class_mode P t) m = Some m1" and m1: "m_id m1 = m_id m"
    "length (m_data m1) = length (m_data m)" "m_data_len m1 = ucast (frame_length ?c)"
    using pn_initialize_frame_ok [OF conf refl _ m] t by (auto simp: builds_def)
  define fc where "fc = \<lparr>pf_mode = class_mode P t, pf_iv_prefix = pointee (security_iv_prefix ?c),
                  pf_payload_pattern = pointee (ctx_payload_pattern w),
                  pf_payload_pattern_length = ctx_payload_pattern_length w,
                  pf_frame_length = frame_length ?c, pf_num_frames_per_cycle = nb,
                  pf_sequence_counter = seq, pf_tx_timestamp = ts,
                  pf_meta_data_offset = meta_data_offset w\<rparr>"
  have "unat (meta_data_offset w) \<le> 28"
    using t by (auto simp: off get_meta_data_offset_def size_simps)
  moreover have "class_mode P t \<noteq> SECURITY_MODE_NONE \<Longrightarrow> 60 \<le> unat (frame_length ?c)"
    using conf by (simp add: class_conf_def Let_def)
  ultimately obtain r ctx b where "prepare_frame_for_tx (evp P) (tx_security_context w) fc (m_data m1) = Some (r, ctx, b)"
    "length b = length (m_data m1)" "tx_security_context w \<noteq> None \<longrightarrow> ctx \<noteq> None"
    using prepare_frame_for_tx_ok [of fc "m_data m1" "tx_security_context w" "evp P"] nb f m m1(2) conf sec
    by (fastforce simp: fc_def class_conf_def class_sec_def Let_def MAX_FRAME_SIZE_def)
  then show ?thesis
    using i m1 by (auto simp: prepares_def pn_prepare_def mode Let_def fc_def frame_length_16 [OF f])
qed

lemma plain_prepare_ok:
  assumes i: "builds n m (init m)" and nb: "nb \<noteq> 0" and m: "MAX_FRAME_SIZE \<le> length (m_data m)"
    and off: "off w + 16 \<le> MAX_FRAME_SIZE"
  shows "prepares m w (plain_prepare init off nb seq ts m w)"
proof -
  obtain m1 where i1: "init m = Some m1" "m_id m1 = m_id m" "length (m_data m1) = length (m_data m)"
    using i by (auto simp: builds_def)
  define fc :: prepare_frame_config where "fc = \<lparr>pf_mode = SECURITY_MODE_NONE, pf_iv_prefix = [], pf_payload_pattern = [],
     pf_payload_pattern_length = 0, pf_frame_length = 0, pf_num_frames_per_cycle = nb, pf_sequence_counter = seq,
     pf_tx_timestamp = ts, pf_meta_data_offset = 0\<rparr>"
  have fc: "pf_num_frames_per_cycle fc \<noteq> 0" "off w + 16 \<le> length (m_data m1)"
    using nb m off i1(3) by (simp_all add: fc_def)
  obtain b where "write_meta (off w) fc (m_data m1) = Some b" "length b = length (m_data m1)"
    by (rule write_meta_props [OF fc]) blast
  then have p: "plain_prepare init off nb seq ts m w = Some (m1\<lparr>m_data := b\<rparr>, w)" and "length b = length (m_data m)"
    using i1 by (auto simp: plain_prepare_def write_meta_def fc_def bind_eq_Some_conv)
  have "w = w\<lparr>tx_security_context := tx_security_context w\<rparr>" by simp
  with p \<open>length b = length (m_data m)\<close> i1(2) show ?thesis unfolding prepares_def
    by (intro exI [of _ "m1\<lparr>m_data := b\<rparr>"] exI [of _ "tx_security_context w"]) simp
qed

lemma tx_prepare_ok:
  assumes inv: "class_inv P t w" and nb: "nb \<noteq> 0" and m: "MAX_FRAME_SIZE \<le> length (m_data m)"
  shows "prepares m w (tx_prepare P t nb seq ts m w)"
proof -
  have conf: "class_conf P t" and off: "meta_data_offset w = get_meta_data_offset t (class_mode P t)"
    using inv by (simp_all add: class_inv_def)
  have n: "num_frames_per_cycle (cfg_of P t) \<noteq> 0" using conf by (auto simp: class_conf_def Let_def)
  show ?thesis
  proof (cases t)
    case DCP_FRAME_TYPE
    have "builds (frame_length (cfg_of P t)) m (dcp_initialize_frame P m)"
      using pn_initialize_frame_ok [OF conf refl _ m] DCP_FRAME_TYPE by (simp add: dcp_initialize_frame_def class_mode_def)
    from plain_prepare_ok [where init = "dcp_initialize_frame P" and off = "\<lambda>_. 20", OF this nb m] show ?thesis
      using DCP_FRAME_TYPE by (simp add: tx_prepare_def size_simps MAX_FRAME_SIZE_def)
  next
    case LLDP_FRAME_TYPE
    from plain_prepare_ok [where init = "lldp_initialize_frame P" and off = "\<lambda>_. 14", OF lldp_initialize_frame_ok [OF conf [unfolded LLDP_FRAME_TYPE] m] nb m] show ?thesis
      using LLDP_FRAME_TYPE by (simp add: tx_prepare_def size_simps MAX_FRAME_SIZE_def)
  next
    case L2_FRAME_TYPE
    from plain_prepare_ok [where init = "l2_initialize_frame P" and off = "\<lambda>_. 18", OF l2_initialize_frame_ok [OF conf [unfolded L2_FRAME_TYPE] m] nb m] show ?thesis
      using L2_FRAME_TYPE by (simp add: tx_prepare_def size_simps MAX_FRAME_SIZE_def)
  next
    case UDP_HIGH_FRAME_TYPE
    have o: "unat (meta_data_offset w) + 16 \<le> MAX_FRAME_SIZE"
      using UDP_HIGH_FRAME_TYPE by (simp add: off get_meta_data_offset_def size_simps MAX_FRAME_SIZE_def)
    from plain_prepare_ok [where init = "udp_initialize_frame P t" and off = "\<lambda>w. unat (meta_data_offset w)", OF udp_initialize_frame_ok [OF conf _ m] n m o] show ?thesis
      using UDP_HIGH_FRAME_TYPE by (simp add: tx_prepare_def)
  next
    case UDP_LOW_FRAME_TYPE
    have o: "unat (meta_data_offset w) + 16 \<le> MAX_FRAME_SIZE"
      using UDP_LOW_FRAME_TYPE by (simp add: off get_meta_data_offset_def size_simps MAX_FRAME_SIZE_def)
    from plain_prepare_ok [where init = "udp_initialize_frame P t" and off = "\<lambda>w. unat (meta_data_offset w)", OF udp_initialize_frame_ok [OF conf _ m] n m o] show ?thesis
      using UDP_LOW_FRAME_TYPE by (simp add: tx_prepare_def)
  qed (use pn_prepare_ok [OF inv nb m] in \<open>simp_all add: tx_prepare_def\<close>)
qed

lemma record_sent_ex:
  assumes "stat_ok (env P) (wstat w)"
  shows "\<exists>st. record_sent P t seq ts w = Some (w\<lparr>wstat := st\<rparr>) \<and> stat_ok (env P) st"
  using stat_frame_sent_ok [OF assms, of t seq ts] by (auto simp: record_sent_def)

text \<open>What the class invariant depends on.\<close>

lemma class_inv_cong:
  assumes "class_inv P t w" and "stat_ok (env P) (wstat w')" and "io_ok (dev w')"
    and "meta_data_offset w' = meta_data_offset w"
    and "num_frames_available w' \<in> {0, num_frames_per_cycle (cfg_of P t)}"
    and "rx_security_context w \<noteq> None \<longrightarrow> rx_security_context w' \<noteq> None"
    and "tx_security_context w \<noteq> None \<longrightarrow> tx_security_context w' \<noteq> None"
    and "length (plaintext w') = length (plaintext w)"
    and "ctx_payload_pattern w' = ctx_payload_pattern w"
    and "ctx_payload_pattern_length w' = ctx_payload_pattern_length w"
  shows "class_inv P t w'"
  using assms by (auto simp: class_inv_def class_sec_def)

lemma gen_loop_ok:
  assumes "class_inv P t w" and nb: "nb \<noteq> 0" and "\<forall>m\<in>set ms. MAX_FRAME_SIZE \<le> length (m_data m)"
  shows "\<exists>w'. gen_loop P t nb seq ts ms w = Some w' \<and> class_inv P t w' \<and> timer w' = timer w \<and>
           image_mset m_id (mbufs_of (dev w')) = image_mset m_id (mbufs_of (dev w)) + mset (map m_id ms)"
  using assms(1,3)
proof (induction ms arbitrary: seq w)
  case Nil
  then show ?case by simp
next
  case (Cons m ms)
  have m: "MAX_FRAME_SIZE \<le> length (m_data m)" using Cons.prems(2) by simp
  obtain m' ctx where p: "tx_prepare P t nb seq ts m w = Some (m', w\<lparr>tx_security_context := ctx\<rparr>)"
    and m': "m_id m' = m_id m" "length (m_data m') = length (m_data m)" and c: "tx_security_context w \<noteq> None \<longrightarrow> ctx \<noteq> None"
    using tx_prepare_ok [OF Cons.prems(1) nb m, of seq ts] unfolding prepares_def by blast
  define w1 where "w1 = w\<lparr>tx_security_context := ctx\<rparr>"
  have ok: "stat_ok (env P) (wstat w1)" "io_ok (dev w1)" using Cons.prems(1) by (simp_all add: w1_def class_inv_def)
  obtain st where s: "record_sent P t seq ts w1 = Some (w1\<lparr>wstat := st\<rparr>)" "stat_ok (env P) st"
    using record_sent_ex [OF ok(1)] by blast
  have "io_ok (dev (w1\<lparr>wstat := st\<rparr>))" "MAX_FRAME_SIZE \<le> length (m_data m')" using ok(2) m m' by simp_all
  from queue_mbuf_ex [OF this, of P] obtain d where q: "queue_mbuf P m' (w1\<lparr>wstat := st\<rparr>) = Some (w1\<lparr>wstat := st, dev := d\<rparr>)"
    "io_ok d" "mbufs_of d = mbufs_of (dev w) + {#m'#}" by (auto simp: w1_def)
  define w2 where "w2 = w1\<lparr>wstat := st, dev := d\<rparr>"
  have inv2: "class_inv P t w2"
    by (rule class_inv_cong [OF Cons.prems(1)])
      (use s q c Cons.prems(1) in \<open>simp_all add: w2_def w1_def class_inv_def\<close>)
  from Cons.IH [OF inv2, of "seq + 1"] Cons.prems(2)
  obtain w' where "gen_loop P t nb (seq + 1) ts ms w2 = Some w'" "class_inv P t w'" "timer w' = timer w2"
    "image_mset m_id (mbufs_of (dev w')) = image_mset m_id (mbufs_of (dev w2)) + mset (map m_id ms)" by auto
  moreover have "timer w2 = timer w" "mbufs_of (dev w2) = mbufs_of (dev w) + {#m'#}"
    by (simp_all add: w2_def w1_def q(3))
  ultimately show ?case
    using p s q(1) m'(1) by (simp add: w1_def [symmetric] w2_def [symmetric])
qed

section \<open>The routines\<close>

lemma send_queued_ok:
  assumes "class_inv P t w"
  shows "class_inv P t (send_queued P w)" and "timer (send_queued P w) = timer w"
    and "mbufs_of (dev (send_queued P w)) = mbufs_of (dev w)"
proof -
  obtain n d where f: "lport_tx_buffer_flush (nic P) (dev w) = (n, d)" by fastforce
  have e: "send_queued P w = w\<lparr>dev := d\<rparr>" by (simp add: send_queued_def lport_send_def f)
  show "class_inv P t (send_queued P w)"
    unfolding e by (rule class_inv_cong [OF assms])
      (use assms flush_io_ok [OF f] in \<open>simp_all add: class_inv_def\<close>)
  show "timer (send_queued P w) = timer w" "mbufs_of (dev (send_queued P w)) = mbufs_of (dev w)"
    unfolding e using flush_props(1) [OF f] by simp_all
qed

lemma get_bulk_ok:
  assumes "io_ok s" and "n \<le> MAX_PKT_BURST"
  obtains ms d where "lport_tx_get_bulk n s = Some (ms, d)" "io_ok d" "mbufs_of d = mbufs_of s"
    "\<And>xs. ms = Some xs \<Longrightarrow> length xs = n \<and> (\<forall>m\<in>set xs. MAX_FRAME_SIZE \<le> length (m_data m))"
proof (cases "n \<le> length (tx_pool s)")
  case True
  show ?thesis
    by (rule that [of "Some (take n (tx_pool s))" "s\<lparr>tx_pool := drop n (tx_pool s)\<rparr>"])
      (use True assms in \<open>auto simp: lport_tx_get_bulk_def io_ok_def mbufs_of_def dest: in_set_dropD in_set_takeD\<close>)
next
  case False
  show ?thesis
    by (rule that [of None s]) (use False assms in \<open>auto simp: lport_tx_get_bulk_def\<close>)
qed

lemma gen_and_send_frames_ok:
  assumes inv: "class_inv P t w" and n: "unat num \<le> MAX_PKT_BURST"
  shows "\<exists>w'. gen_and_send_frames P t num w = Some w' \<and> class_inv P t w' \<and> timer w' = timer w"
proof (cases "t \<in> {RTA_FRAME_TYPE, DCP_FRAME_TYPE} \<and> num = 0")
  case True
  then show ?thesis using inv by (simp add: gen_and_send_frames_def)
next
  case False
  let ?nb = "ucast num :: u16"
  have nb: "unat ?nb = unat num" using n by (simp add: MAX_PKT_BURST_def)
  have io: "io_ok (dev w)" using inv by (simp add: class_inv_def)
  obtain ms d where g: "lport_tx_get_bulk (unat ?nb) (dev w) = Some (ms, d)" and d: "io_ok d"
    and ms: "\<And>xs. ms = Some xs \<Longrightarrow> length xs = unat ?nb \<and> (\<forall>m\<in>set xs. MAX_FRAME_SIZE \<le> length (m_data m))"
    using get_bulk_ok [OF io, of "unat ?nb"] n nb by metis
  have inv1: "class_inv P t (w\<lparr>dev := d, ticks := k\<rparr>)" "class_inv P t (w\<lparr>dev := d\<rparr>)" for k
    by (rule class_inv_cong [OF inv]; use inv d in \<open>simp add: class_inv_def\<close>)+
  show ?thesis
  proof (cases ms)
    case None
    then have "gen_and_send_frames P t num w = Some (w\<lparr>dev := d\<rparr>)"
      using False g by (auto simp: gen_and_send_frames_def Let_def)
    then show ?thesis using inv1(2) by simp
  next
    case (Some xs)
    define w1 where "w1 = w\<lparr>dev := d, ticks := Suc (ticks w)\<rparr>"
    have i1: "class_inv P t w1" unfolding w1_def by (rule inv1(1))
    have "\<exists>w2. gen_loop P t (ucast ?nb) (tx_sequence_counter w) (clk P (ticks w)) xs w1 = Some w2 \<and>
               class_inv P t w2 \<and> timer w2 = timer w1"
    proof (cases "xs = []")
      case True
      then show ?thesis using i1 by simp
    next
      case False
      then have "0 < length xs" by simp
      then have "0 < unat ?nb" using conjunct1 [OF ms [OF Some]] by (simp only:)
      then have nz: "(ucast ?nb :: u64) \<noteq> 0" by (metis unat_0 unat_ucast_16_64 less_irrefl)
      have xs: "\<forall>m\<in>set xs. MAX_FRAME_SIZE \<le> length (m_data m)" using ms [OF Some] by blast
      from gen_loop_ok [OF i1 nz xs] show ?thesis by blast
    qed
    then obtain w2 where w2: "gen_loop P t (ucast ?nb) (tx_sequence_counter w) (clk P (ticks w)) xs w1 = Some w2"
      "class_inv P t w2" and "timer w2 = timer w1" by blast
    then have w2t: "timer w2 = timer w" by (simp add: w1_def)
    define w3 where "w3 = w2\<lparr>tx_sequence_counter := tx_sequence_counter w2 + ucast ?nb\<rparr>"
    have i3: "class_inv P t w3"
      by (rule class_inv_cong [OF w2(2)]) (use w2(2) in \<open>simp_all add: w3_def class_inv_def\<close>)
    have "gen_and_send_frames P t num w = Some (send_queued P w3)"
      using False g Some w2(1)
      by (auto simp: gen_and_send_frames_def Let_def clock_gettime_ns_def w1_def [symmetric] w3_def)
    then show ?thesis using send_queued_ok [OF i3] w2t by (simp add: w3_def)
  qed
qed

lemma sent_loop_ok:
  assumes "class_inv P t w" and "\<forall>m\<in>set ms. unat off + 8 \<le> length (m_data m)"
  shows "\<exists>w'. sent_loop P t off n ts ms w = Some w' \<and> class_inv P t w' \<and> timer w' = timer w \<and> dev w' = dev w"
  using assms
proof (induction ms arbitrary: w)
  case Nil
  then show ?case by simp
next
  case (Cons m ms)
  obtain s where s: "get_sequence_counter (m_data m) off n = Some s"
    using rx_seq_ex [of "unat off" "m_data m" n] Cons.prems(2) by (auto simp: get_sequence_counter_def)
  have ok: "stat_ok (env P) (wstat w)" using Cons.prems(1) by (simp add: class_inv_def)
  obtain st where r: "record_sent P t s ts w = Some (w\<lparr>wstat := st\<rparr>)" "stat_ok (env P) st"
    using record_sent_ex [OF ok] by blast
  have "class_inv P t (w\<lparr>wstat := st\<rparr>)"
    by (rule class_inv_cong [OF Cons.prems(1)]) (use Cons.prems(1) r in \<open>simp_all add: class_inv_def\<close>)
  from Cons.IH [OF this] Cons.prems(2) show ?case using s r(1) by auto
qed

lemma meta_offset_small: "unat (get_meta_data_offset t mode) \<le> 42"
  by (cases t; cases mode) (simp_all add: get_meta_data_offset_def size_simps)

lemma send_frames_common_ok:
  assumes inv: "class_inv P t w"
  shows "\<exists>w'. send_frames_common P t n w = Some w' \<and> class_inv P t w' \<and> timer w' = timer w"
proof -
  define w1 where "w1 = w\<lparr>ticks := Suc (ticks w)\<rparr>"
  have i1: "class_inv P t w1"
    by (rule class_inv_cong [OF inv]) (use inv in \<open>simp_all add: w1_def class_inv_def\<close>)
  have "unat (meta_data_offset w1) \<le> 42"
    using i1 meta_offset_small by (simp add: class_inv_def)
  moreover have "\<forall>m\<in>set (pkts (tx_buffer (dev w1))). 2048 \<le> length (m_data m)"
    using i1 by (simp add: class_inv_def io_ok_def MAX_FRAME_SIZE_def)
  ultimately have "\<forall>m\<in>set (pkts (tx_buffer (dev w1))). unat (meta_data_offset w1) + 8 \<le> length (m_data m)"
    by fastforce
  from sent_loop_ok [OF i1 this] obtain w2 where
    w2: "sent_loop P t (meta_data_offset w1) n (clk P (ticks w)) (pkts (tx_buffer (dev w1))) w1 = Some w2"
    "class_inv P t w2" "timer w2 = timer w1" by blast
  then have "send_frames_common P t n w = Some (send_queued P w2)"
    by (simp add: send_frames_common_def clock_gettime_ns_def w1_def)
  then show ?thesis using send_queued_ok [OF w2(2)] w2(3) by (simp add: w1_def)
qed

section \<open>Receiving\<close>

definition pn_classes :: "stat_frame_type set" where
  "pn_classes = {TSN_HIGH_FRAME_TYPE, TSN_LOW_FRAME_TYPE, RTC_FRAME_TYPE, RTA_FRAME_TYPE}"

lemma class_mode_pn: "t \<in> pn_classes \<Longrightarrow> class_mode P t = tc_security_mode (cfg_of P t)"
  by (auto simp: class_mode_def pn_classes_def)

lemma class_inv_pn:
  assumes "class_inv P t w" and t: "t \<in> pn_classes" and n: "n \<le> unat (num_frames_per_cycle (cfg_of P t))"
  shows "pn_inv P t n (frame_length (cfg_of P t)) w"
  using assms(1) n class_mode_pn [OF t, of P]
  by (auto simp: class_inv_def class_conf_def class_sec_def pn_inv_def pn_conf_def pn_sec_def Let_def)

lemma class_inv_plain:
  assumes "class_inv P t w"
  shows "plain_inv P t n e w"
  using assms meta_offset_small [of t "class_mode P t"]
  by (auto simp: class_inv_def class_conf_def plain_inv_def Let_def MAX_FRAME_SIZE_def)

lemma class_inv_dcp: "class_inv P DCP_FRAME_TYPE w \<Longrightarrow> dcp_inv P n e w"
  by (simp add: class_inv_def class_conf_def dcp_inv_def Let_def)

lemma class_inv_after:
  assumes "class_inv P t w" and "same_ctx w w'" and "stat_ok (env P) (wstat w')" and "io_ok (dev w')"
    and "class_mode P t \<noteq> SECURITY_MODE_NONE \<Longrightarrow> rx_security_context w' \<noteq> None"
    and "class_mode P t = SECURITY_MODE_AE \<Longrightarrow> length (plaintext w') = MAX_FRAME_SIZE"
  shows "class_inv P t w'"
  using assms by (auto simp: class_inv_def class_sec_def same_ctx_def)

text \<open>A burst as every class handles it.\<close>

definition rx_done :: "'c platform \<Rightarrow> stat_frame_type \<Rightarrow> mbuf list \<Rightarrow> 'c world \<Rightarrow> 'c world option \<Rightarrow> bool" where
  "rx_done P t ms w r \<longleftrightarrow>
     (\<exists>w'. r = Some w' \<and> class_inv P t w' \<and> same_ctx w w' \<and>
        (\<not> exited (wstat w') \<longrightarrow>
           image_mset m_id (mbufs_of (dev w')) = image_mset m_id (mbufs_of (dev w)) + mset (map m_id ms)))"

lemma pn_frames_ok:
  assumes inv: "class_inv P t w" and t: "t \<in> pn_classes" and n: "length ms \<le> unat (num_frames_per_cycle (cfg_of P t))"
    and ms: "\<forall>m\<in>set ms. mbuf_ok m"
  shows "rx_done P t ms w (rx_frames (pn_rx_step P t) ms (frame_length (cfg_of P t)) [] w)"
proof -
  obtain w' k e' where r: "rx_frames (pn_rx_step P t) ms (frame_length (cfg_of P t)) [] w = Some w'"
    and i: "pn_inv P t k e' w'" and s: "same_ctx w w'"
    and c: "\<not> exited (wstat w') \<longrightarrow> image_mset m_id (mbufs_of (dev w')) =
              image_mset m_id (mbufs_of (dev w)) + mset (map m_id ([] :: mbuf list)) + mset (map m_id ms)"
    using pn.burst_ok [OF class_inv_pn [OF inv t n] ms, of "[]"] by blast
  have "class_inv P t w'"
    by (rule class_inv_after [OF inv s])
      (use i class_mode_pn [OF t, of P] in \<open>auto simp: pn_inv_def pn_sec_def Let_def\<close>)
  then show ?thesis using r s c by (simp add: rx_done_def)
qed

lemma plain_frames_ok:
  assumes inv: "class_inv P t w" and t: "t \<notin> pn_classes"
    and b: "\<exists>w' k e'. rx_frames step ms e [] w = Some w' \<and> I k e' w' \<and> same_ctx w w' \<and>
      (\<not> exited (wstat w') \<longrightarrow> image_mset m_id (mbufs_of (dev w')) =
         image_mset m_id (mbufs_of (dev w)) + mset (map m_id ([] :: mbuf list)) + mset (map m_id ms))"
    and I: "\<And>k e w. I k e w \<Longrightarrow> stat_ok (env P) (wstat w) \<and> io_ok (dev w)"
  shows "rx_done P t ms w (rx_frames step ms e [] w)"
proof -
  obtain w' k e' where r: "rx_frames step ms e [] w = Some w'" and i: "I k e' w'" and s: "same_ctx w w'"
    and c: "\<not> exited (wstat w') \<longrightarrow> image_mset m_id (mbufs_of (dev w')) =
              image_mset m_id (mbufs_of (dev w)) + mset (map m_id ([] :: mbuf list)) + mset (map m_id ms)"
    using b by blast
  have "class_mode P t = SECURITY_MODE_NONE" using t by (auto simp: class_mode_def pn_classes_def)
  then have "class_inv P t w'" using class_inv_after [OF inv s] I [OF i] by auto
  then show ?thesis using r s c by (simp add: rx_done_def)
qed

lemma plain_inv_ok: "plain_inv P t k e w \<Longrightarrow> stat_ok (env P) (wstat w) \<and> io_ok (dev w)"
  by (simp add: plain_inv_def)

lemma dcp_inv_ok: "dcp_inv P k e w \<Longrightarrow> stat_ok (env P) (wstat w) \<and> io_ok (dev w)"
  by (simp add: dcp_inv_def)

lemma class_rx_frame_ok:
  assumes inv: "class_inv P t w" and n: "length ms \<le> unat (num_frames_per_cycle (cfg_of P t))"
    and ms: "\<forall>m\<in>set ms. mbuf_ok m"
  shows "rx_done P t ms w (class_rx_frame P t ms w)"
proof (cases t)
  case DCP_FRAME_TYPE
  have "dcp_inv P (length ms) e w" for e using inv DCP_FRAME_TYPE by (simp add: class_inv_dcp)
  from plain_frames_ok [OF inv _ dcp.burst_ok [OF this ms] dcp_inv_ok] show ?thesis
    using DCP_FRAME_TYPE by (simp add: class_rx_frame_def dcp_rx_frame_def pn_classes_def)
next
  case LLDP_FRAME_TYPE
  have "plain_inv P LLDP_FRAME_TYPE (length ms) e w" for e using class_inv_plain [OF inv] LLDP_FRAME_TYPE by simp
  from plain_frames_ok [OF inv _ lldp.burst_ok [OF this ms] plain_inv_ok] show ?thesis
    using LLDP_FRAME_TYPE by (simp add: class_rx_frame_def lldp_rx_frame_def pn_classes_def)
next
  case UDP_HIGH_FRAME_TYPE
  from plain_frames_ok [OF inv _ udp.burst_ok [OF class_inv_plain [OF inv] ms] plain_inv_ok] show ?thesis
    using UDP_HIGH_FRAME_TYPE by (simp add: class_rx_frame_def udp_rx_frame_def pn_classes_def)
next
  case UDP_LOW_FRAME_TYPE
  from plain_frames_ok [OF inv _ udp.burst_ok [OF class_inv_plain [OF inv] ms] plain_inv_ok] show ?thesis
    using UDP_LOW_FRAME_TYPE by (simp add: class_rx_frame_def udp_rx_frame_def pn_classes_def)
next
  case L2_FRAME_TYPE
  have "plain_inv P L2_FRAME_TYPE (length ms) e w" for e using class_inv_plain [OF inv] L2_FRAME_TYPE by simp
  from plain_frames_ok [OF inv _ l2.burst_ok [OF this ms] plain_inv_ok] show ?thesis
    using L2_FRAME_TYPE by (simp add: class_rx_frame_def l2_rx_frame_def pn_classes_def)
qed (use pn_frames_ok [OF inv _ n ms] in
  \<open>simp_all add: class_rx_frame_def tsn_rx_frame_def rtc_rx_frame_def rta_rx_frame_def pn_classes_def\<close>)

section \<open>The timer callbacks\<close>

text \<open>Polling the NIC: the mbufs it hands over are among those the NIC delivers.\<close>

lemma rx_loop_ok:
  assumes "length got + to_recv \<le> MAX_PKT_BURST" and "\<forall>k. \<forall>m\<in>set (rx k). Q m" and "\<forall>m\<in>set got. Q m"
  shows "rx_loop rx clock deadline fuel to_recv got tk s = Some (Inl ()) \<or>
         (\<exists>got' tk' s'. rx_loop rx clock deadline fuel to_recv got tk s = Some (Inr (got', tk', s')) \<and>
            length got' \<le> length got + to_recv \<and> (\<forall>m\<in>set got'. Q m) \<and> tx_buffer s' = tx_buffer s \<and>
            mbufs_of s' = mbufs_of s \<and> tx_pool s' = tx_pool s)"
  using assms(1,3)
proof (induction fuel arbitrary: to_recv got tk s)
  case 0
  then show ?case by simp
next
  case (Suc fuel)
  let ?ms = "rte_eth_rx_burst rx (rx_calls s) to_recv"
  have l: "length ?ms \<le> to_recv" by (simp add: rte_eth_rx_burst_def)
  have q: "\<forall>m\<in>set ?ms. Q m" using assms(2) by (auto simp: rte_eth_rx_burst_def dest: in_set_takeD)
  consider "to_recv = 0" | "to_recv \<noteq> 0" "?ms \<noteq> []" | "to_recv \<noteq> 0" "?ms = []" "clock tk > deadline"
    | "to_recv \<noteq> 0" "?ms = []" "\<not> clock tk > deadline" by blast
  then show ?case
  proof cases
    case 1
    then show ?thesis using Suc.prems by simp
  next
    case 2
    then show ?thesis
      using Suc.IH [of "got @ ?ms" "to_recv - length ?ms" tk "s\<lparr>rx_calls := rx_calls s + 1\<rparr>"] Suc.prems l q
      by (auto simp: Let_def mbufs_of_def)
  next
    case 3
    then show ?thesis using Suc.prems by (simp add: Let_def mbufs_of_def)
  next
    case 4
    then show ?thesis
      using Suc.IH [of got to_recv "tk + 1" "s\<lparr>rx_calls := rx_calls s + 1\<rparr>"] Suc.prems
      by (auto simp: Let_def mbufs_of_def)
  qed
qed

lemma to_cint_small: "k < 2 ^ 31 \<Longrightarrow> to_cint (int k) = int k"
  by (simp add: to_cint_def sint_uint unsigned_of_nat take_bit_nat_eq_self signed_take_bit_int_eq_self)

lemma burst_size:
  assumes "unat (n :: u64) \<le> MAX_PKT_BURST"
  shows "unat (word_of_int (to_cint (uint n)) :: u16) = unat n"
proof -
  define k where "k = unat n"
  have k: "k \<le> 256" "uint n = int k" using assms by (simp_all add: MAX_PKT_BURST_def k_def)
  then have "word_of_int (to_cint (uint n)) = (word_of_nat k :: u16)" by (simp add: to_cint_small)
  then show ?thesis using k(1) by (simp add: k_def [symmetric] unat_of_nat)
qed

text \<open>What a callback may do to its thread.\<close>

definition called :: "'c platform \<Rightarrow> stat_frame_type \<Rightarrow> 'c world \<Rightarrow> 'c world option \<Rightarrow> bool" where
  "called P t w r \<longleftrightarrow> (\<exists>w'. r = Some w' \<and> class_inv P t w' \<and> timer_frame (timer w) (timer w'))"

lemma calledI: "r = Some w' \<Longrightarrow> class_inv P t w' \<Longrightarrow> timer w' = timer w \<Longrightarrow> called P t w r"
  by (auto simp: called_def)

lemma class_inv_free:
  assumes "class_inv P t w"
  shows "class_inv P t (w\<lparr>timer := x\<rparr>)" and "class_inv P t (w\<lparr>data_cond_var := v\<rparr>)"
    and "class_inv P t (w\<lparr>ticks := k\<rparr>)" and "class_inv P t (w\<lparr>rx_do_once := v\<rparr>)"
    and "class_inv P t (w\<lparr>tx_do_once := v\<rparr>)" and "class_inv P t (w\<lparr>tx_gen_do_once := v\<rparr>)"
    and "class_inv P t (w\<lparr>hung := h\<rparr>)" and "class_inv P t (w\<lparr>signals := sg\<rparr>)"
    and "class_inv P t (w\<lparr>num_frames_available := 0\<rparr>)"
    and "class_inv P t (w\<lparr>num_frames_available := num_frames_per_cycle (cfg_of P t)\<rparr>)"
  using assms by (simp_all add: class_inv_def class_sec_def)

lemma timer_set_called:
  assumes "class_inv P t w" and "timer_wf (timer w)" and "i < MAX_TIMERS"
  shows "called P t w (thread_timer_set i d w)"
  using thread_timer_set_ok [OF assms(2,3), of d] class_inv_free(1) [OF assms(1)] by (auto simp: called_def)

lemma process_pkts_called:
  assumes inv: "class_inv P t w"
  shows "called P t w (lport_process_pkts P (to_cint (uint (num_frames_per_cycle (cfg_of P t)))) (class_rx_frame P t) timo w)"
proof -
  let ?n = "num_frames_per_cycle (cfg_of P t)"
  let ?r = "lport_rx (rx_pkts P) (clk P) (rx_fuel P) (to_cint (uint ?n)) timo (ticks w) (dev w)"
  have n: "unat ?n \<le> MAX_PKT_BURST" and rx: "\<forall>k. \<forall>m\<in>set (rx_pkts P k). mbuf_ok m"
    using inv by (simp_all add: class_inv_def class_conf_def Let_def)
  from rx_loop_ok [of "[]" "unat ?n" "rx_pkts P" mbuf_ok "clk P" "timo + clk P (ticks w)" "rx_fuel P" "ticks w + 1" "dev w"] n rx
  consider "?r = Some (Inl ())"
    | ms tk d where "?r = Some (Inr (ms, tk, d))" "length ms \<le> unat ?n" "\<forall>m\<in>set ms. mbuf_ok m"
        "tx_buffer d = tx_buffer (dev w)" "tx_pool d = tx_pool (dev w)"
    by (auto simp: lport_rx_def burst_size [OF n])
  then show ?thesis
  proof cases
    case 1
    then show ?thesis using class_inv_free(7) [OF inv] by (simp add: lport_process_pkts_def called_def)
  next
    case 2
    define w1 where "w1 = w\<lparr>ticks := tk, dev := d\<rparr>"
    have i1: "class_inv P t w1"
      by (rule class_inv_cong [OF inv]) (use inv 2 in \<open>simp_all add: w1_def class_inv_def io_ok_def\<close>)
    have "called P t w (class_rx_frame P t ms w1)"
      using class_rx_frame_ok [OF i1 2(2,3)] by (auto simp: rx_done_def called_def same_ctx_def w1_def)
    then show ?thesis
      using 2(1) i1 by (auto simp: lport_process_pkts_def Let_def w1_def [symmetric]) (simp add: called_def w1_def)
  qed
qed

lemma generate_or_mirror_ok:
  assumes "class_inv P t w" and "unat n \<le> MAX_PKT_BURST"
  shows "\<exists>w'. generate_or_mirror P t n k w = Some w' \<and> class_inv P t w' \<and> timer w' = timer w"
  using gen_and_send_frames_ok [OF assms] send_frames_common_ok [OF assms(1)] by (simp add: generate_or_mirror_def)

lemma signal_next_ok:
  "class_inv P t w \<Longrightarrow> class_inv P t (signal_next w)" "timer (signal_next w) = timer w"
  by (auto simp: signal_next_def class_inv_free split: option.splits)

lemma class_tx_called:
  assumes inv: "class_inv P t w"
  shows "called P t w (class_tx P t s w)"
proof -
  let ?n = "num_frames_per_cycle (cfg_of P t)"
  have n: "unat ?n \<le> MAX_PKT_BURST" using inv by (simp add: class_inv_def class_conf_def Let_def)
  have a: "unat (num_frames_available w) \<le> MAX_PKT_BURST" using inv n by (auto simp: class_inv_def)
  define w0 where "w0 = w\<lparr>num_frames_available := 0\<rparr>"
  have i0: "class_inv P t w0" "timer w0 = timer w" by (simp_all add: w0_def class_inv_free inv)
  have tsn: "called P t w (tsn_rtc_tx P t s w)"
    using generate_or_mirror_ok [OF inv n, of ?n] inv by (auto simp: tsn_rtc_tx_def Let_def called_def signal_next_ok)
  have burst: "called P t w (burst_tx P t s w)"
    using generate_or_mirror_ok [OF i0(1) a, of "num_frames_available w"] inv i0(2)
    by (auto simp: burst_tx_def Let_def called_def signal_next_ok w0_def [symmetric])
  have udp: "called P t w (udp_tx P t s w)"
    using gen_and_send_frames_ok [OF i0(1) n] send_frames_common_ok [OF i0(1), of ?n] inv i0
    by (auto simp: udp_tx_def Let_def called_def signal_next_ok w0_def [symmetric])
  have l2: "called P t w (l2_tx P w)" if "t = L2_FRAME_TYPE"
    using generate_or_mirror_ok [OF inv n, of ?n] that by (auto simp: l2_tx_def called_def)
  show ?thesis
    by (cases t) (use tsn burst udp l2 in \<open>simp_all add: class_tx_def\<close>)
qed

lemma class_callback_ok:
  assumes inv: "class_inv P t w" and wf: "timer_wf (timer w)"
  shows "called P t w (class_callback P t f s w)"
proof -
  have T: "RX_TIMER < MAX_TIMERS" "TX_TIMER < MAX_TIMERS" "TXGEN_TIMER < MAX_TIMERS"
    by (simp_all add: RX_TIMER_def TX_TIMER_def TXGEN_TIMER_def MAX_TIMERS_def)
  have rx: "called P t w (rx_thread_routine P t w)"
    using timer_set_called [OF class_inv_free(4) [OF inv] _ T(1)] process_pkts_called [OF class_inv_free(4) [OF inv]] wf
    by (auto simp: rx_thread_routine_def Let_def called_def split: prod.splits)
  have tx: "called P t w (tx_thread_routine P t s w)"
    using timer_set_called [OF class_inv_free(5) [OF inv] _ T(2)] class_tx_called [OF class_inv_free(5) [OF inv]] wf
    by (auto simp: tx_thread_routine_def Let_def called_def split: prod.splits)
  have gen: "called P t w (tx_generation_thread_routine P t w)"
    using timer_set_called [OF class_inv_free(6) [OF inv] _ T(3)] class_inv_free(10) [OF class_inv_free(6) [OF inv]] wf
    by (auto simp: tx_generation_thread_routine_def Let_def called_def split: prod.splits)
  have "called P t w (Some w)" using inv by (simp add: called_def)
  then show ?thesis using rx tx gen by (auto simp: class_callback_def split: timer_fn.splits)
qed

interpretation cls: timer_client "class_callback P t" "class_inv P t" for P :: "'c platform" and t
proof
  show "\<exists>w'. class_callback P t f s w = Some w' \<and> class_inv P t w' \<and> timer_frame (timer w) (timer w')"
    if "class_inv P t w" "timer_wf (timer w)" for w f s
    using class_callback_ok [OF that] by (simp add: called_def)
qed (simp_all add: class_inv_free)

end
