(* ===== verification/Launch.thy ===== *)
theory Launch
  imports Tx_Safety
begin

text \<open>
  The life cycle of the traffic class threads (\<^verbatim>\<open>tsn_thread.c\<close>, \<^verbatim>\<open>rtc_thread.c\<close>,
  \<^verbatim>\<open>rta_thread.c\<close>, \<^verbatim>\<open>dcp_thread.c\<close>, \<^verbatim>\<open>lldp_thread.c\<close>, \<^verbatim>\<open>udp_thread.c\<close>,
  \<^verbatim>\<open>layer2_thread.c\<close>): creating a thread's resources, launching it, setting it up on
  its core, running its timers, freeing it. The table of VLAN queues (\<^verbatim>\<open>tsn.c\<close>) belongs
  here, since every class registers its queue while it is created.
\<close>

section \<open>VLAN queues\<close>

definition RTE_ETHER_MAX_VLAN_ID :: nat where "RTE_ETHER_MAX_VLAN_ID = 4095"
definition LLDP_FAKE_VLAN_ID :: u16 where "LLDP_FAKE_VLAN_ID = 200"
definition UDP_HIGH_FAKE_VLAN_ID :: u16 where "UDP_HIGH_FAKE_VLAN_ID = 201"
definition UDP_LOW_FAKE_VLAN_ID :: u16 where "UDP_LOW_FAKE_VLAN_ID = 202"

text \<open>
  \<^verbatim>\<open>vid2qid\<close> is null (\<open>None\<close>) or the array of \<^verbatim>\<open>RTE_ETHER_MAX_VLAN_ID + 1\<close> entries.
\<close>

type_synonym vlan_table = "u16 list option"

definition vlan_table_ok :: "vlan_table \<Rightarrow> bool" where
  "vlan_table_ok v \<longleftrightarrow> (\<exists>tbl. v = Some tbl \<and> length tbl = RTE_ETHER_MAX_VLAN_ID + 1)"

definition tsn_set_vlan_qid :: "u16 \<Rightarrow> u16 \<Rightarrow> vlan_table \<Rightarrow> int \<times> vlan_table" where
  "tsn_set_vlan_qid vlan_id queue_id v =
     (case v of
        Some tbl \<Rightarrow> if vlan_id > 0 \<and> unat vlan_id < RTE_ETHER_MAX_VLAN_ID
                   then (0, Some (tbl[unat vlan_id := queue_id])) else (-1, v)
      | None \<Rightarrow> (-1, v))"

text \<open>\<open>None\<close>: a read behind the array; there is no bounds check.\<close>

definition tsn_get_vlan_qid :: "u16 \<Rightarrow> vlan_table \<Rightarrow> u16 option" where
  "tsn_get_vlan_qid vlan_id v =
     (case v of None \<Rightarrow> Some 0
      | Some tbl \<Rightarrow> if unat vlan_id < length tbl then Some (tbl ! unat vlan_id) else None)"

text \<open>
  One packet of \<^verbatim>\<open>rx_vlan_callback\<close>: the queue the packet is given. \<open>None\<close> is an access
  outside the packet or the table.
\<close>

definition vid2qid_at :: "vlan_table \<Rightarrow> u16 \<Rightarrow> u16 option" where
  "vid2qid_at v i = do { tbl \<leftarrow> v; if unat i < length tbl then Some (tbl ! unat i) else None }"

definition packet_qid :: "application_config \<Rightarrow> vlan_table \<Rightarrow> bytes \<Rightarrow> u16 option" where
  "packet_qid c v b = do {
     ether_type \<leftarrow> rd16 (offsetof ethhdr ''h_proto'') b;
     if ether_type = ETH_P_8021Q
     then do { tci \<leftarrow> rd16 (sizeof ethhdr + offsetof rte_vlan_hdr ''vlan_tci'') b;
               vid2qid_at v (tci AND 0xFFF) }
     else if ether_type = ETH_P_IP
     then do { src_port \<leftarrow> rd16 (sizeof ethhdr + sizeof rte_ipv4_hdr + offsetof rte_udp_hdr ''src_port'') b;
               vid2qid_at v (if src_port = udp_src_port (tc c UDP_HIGH_FRAME_TYPE)
                             then UDP_HIGH_FAKE_VLAN_ID else UDP_LOW_FAKE_VLAN_ID) }
     else if ether_type = ETH_P_LLDP then vid2qid_at v LLDP_FAKE_VLAN_ID
     else Some 0
   }"

definition rx_vlan_callback :: "application_config \<Rightarrow> vlan_table \<Rightarrow> mbuf list \<Rightarrow> u16 list option" where
  "rx_vlan_callback c v ps = those (map (\<lambda>m. packet_qid c v (m_data m)) ps)"

section \<open>Launch state\<close>

text \<open>
  What the environment answers while a thread is created and started: the outcomes of the
  security set-up for both directions, the OpenSSL context made for a key, the outcomes of
  the allocations, whether the core is already running and what \<^verbatim>\<open>rte_eal_remote_launch\<close>
  returns.
\<close>

record 'c launch_env =
  tx_sec_env :: sec_env
  rx_sec_env :: sec_env
  make_ctx :: "security_context \<Rightarrow> 'c"
  config_alloc_ok :: bool
  payload_alloc_ok :: bool
  mbufs_alloc_ok :: bool
  timer_alloc_ok :: bool
  info_alloc_ok :: bool
  lcore_running :: bool
  remote_launch_ret :: int

text \<open>
  The thread, its private configuration (\<^verbatim>\<open>private_data\<close>, a copy of the members of its
  class), the VLAN table, the OpenSSL objects alive, how far the payload pointer has been
  moved into its block, and whether the thread was started.
\<close>

record 'c launch_state =
  l_thread :: "'c world"
  private_data :: "traffic_class option"
  vid2qid :: vlan_table
  sec_live :: sec_heap
  payload_off :: nat
  launched :: bool

definition on_thread :: "('c world \<Rightarrow> 'c world) \<Rightarrow> 'c launch_state \<Rightarrow> 'c launch_state" where
  "on_thread f s = s\<lparr>l_thread := f (l_thread s)\<rparr>"

definition secure_header_room :: nat where
  "secure_header_room = sizeof vlan_ethernet_header + sizeof profinet_secure_header"

lemma secure_header_room_eq [size_simps]: "secure_header_room = 44"
  by (simp add: secure_header_room_def size_simps)

section \<open>Creating the resources of a thread\<close>

text \<open>The two security contexts of a class, or null pointers without security.\<close>

definition open_security :: "'c launch_env \<Rightarrow> traffic_class \<Rightarrow> 'c launch_state \<Rightarrow> int \<times> 'c launch_state" where
  "open_security E c s =
     (if tc_security_mode c = SECURITY_MODE_NONE
      then (0, on_thread (\<lambda>w. w\<lparr>tx_security_context := None, rx_security_context := None\<rparr>) s)
      else
       case security_init (tx_sec_env E) (tc_security_algorithm c) (pointee (security_key c)) (sec_live s) of
         (tx, h) \<Rightarrow>
         let s = on_thread (\<lambda>w. w\<lparr>tx_security_context := map_option (make_ctx E) tx\<rparr>) (s\<lparr>sec_live := h\<rparr>) in
         if tx = None then (- ENOMEM, s)
         else
          case security_init (rx_sec_env E) (tc_security_algorithm c) (pointee (security_key c)) (sec_live s) of
            (rx, h) \<Rightarrow>
            let s = on_thread (\<lambda>w. w\<lparr>rx_security_context := map_option (make_ctx E) rx\<rparr>) (s\<lparr>sec_live := h\<rparr>) in
            if rx = None then (- ENOMEM, s) else (0, s))"

definition close_security :: "'c launch_state \<Rightarrow> 'c launch_state" where
  "close_security s =
     (let w = l_thread s;
          h = security_exit (rx_security_context w) (security_exit (tx_security_context w) (sec_live s))
      in s\<lparr>sec_live := h,
           l_thread := w\<lparr>ctx_payload_pattern := None, tx_security_context := None, rx_security_context := None\<rparr>\<rparr>)"

text \<open>
  The array of mbufs and the queue registration. A failing registration ends the
  program. \<open>err\<close> is what the class does when the mbuf array cannot be allocated.
\<close>

definition create_tail ::
  "'c launch_env \<Rightarrow> stat_frame_type \<Rightarrow> security_mode \<Rightarrow> u16 \<Rightarrow> u32
    \<Rightarrow> ('c launch_state \<Rightarrow> 'c launch_state run option) \<Rightarrow> 'c launch_state \<Rightarrow> 'c launch_state run option" where
  "create_tail E t mode vlan_id lid err s =
     (let s = on_thread (\<lambda>w. w\<lparr>meta_data_offset := get_meta_data_offset t mode, mbufs := mbufs_alloc_ok E\<rparr>) s
      in if \<not> mbufs_alloc_ok E then err s
         else case tsn_set_vlan_qid vlan_id (lport2qid lid) (vid2qid s) of (r, v) \<Rightarrow>
           if r < 0 then Some (Exited s) else Some (Returned 0 (s\<lparr>vid2qid := v\<rparr>)))"

definition tsn_threads_free :: "'c launch_state \<Rightarrow> 'c launch_state" where
  "tsn_threads_free s = (close_security s)\<lparr>private_data := None\<rparr>"

definition tsn_threads_init ::
  "'c platform \<Rightarrow> 'c launch_env \<Rightarrow> stat_frame_type \<Rightarrow> traffic_class \<Rightarrow> 'c launch_state \<Rightarrow> 'c launch_state run option" where
  "tsn_threads_init P E t cfg s =
     (if \<not> CONFIG_IS_TRAFFIC_CLASS_ACTIVE (app_config (env P)) t then Some (Returned 0 s)
      else let s = s\<lparr>private_data := Some cfg\<rparr> in
        case open_security E cfg s of (r, s) \<Rightarrow>
          if r \<noteq> 0 then Some (Returned r (tsn_threads_free s))
          else create_tail E t (tc_security_mode cfg) (word_of_int (vid cfg)) (lport_id cfg)
                 (\<lambda>s. Some (Returned (- ENOMEM) (tsn_threads_free s))) s)"

text \<open>Filling the private configuration from the members of the class.\<close>

definition tsn_config_init ::
  "'c platform \<Rightarrow> 'c launch_env \<Rightarrow> stat_frame_type \<Rightarrow> 'c launch_state \<Rightarrow> 'c launch_state run option" where
  "tsn_config_init P E t s =
     (if \<not> config_alloc_ok E then Some (Returned (- ENOMEM) s)
      else tsn_threads_init P E t (cfg_of P t) s)"

definition tsn_low_threads_init where
  "tsn_low_threads_init P E = tsn_config_init P E TSN_LOW_FRAME_TYPE"

definition tsn_high_threads_init where
  "tsn_high_threads_init P E = tsn_config_init P E TSN_HIGH_FRAME_TYPE"

text \<open>
  RTC allocates a zeroed block of the frame length for its payload. Freeing moves the
  pointer back by the header room; \<open>None\<close> is the release of a pointer that is not the
  start of the block.
\<close>

definition rtc_threads_free :: "'c launch_state \<Rightarrow> 'c launch_state option" where
  "rtc_threads_free s =
     (case ctx_payload_pattern (l_thread s) of
        None \<Rightarrow> Some (close_security s)
      | Some _ \<Rightarrow> if payload_off s = secure_header_room then Some ((close_security s)\<lparr>payload_off := 0\<rparr>) else None)"

definition rtc_threads_create ::
  "'c platform \<Rightarrow> 'c launch_env \<Rightarrow> 'c launch_state \<Rightarrow> 'c launch_state run option" where
  "rtc_threads_create P E s =
     (let c = cfg_of P RTC_FRAME_TYPE;
          err = (\<lambda>s. map_option (Returned (- ENOMEM)) (rtc_threads_free s)) in
      if \<not> CONFIG_IS_TRAFFIC_CLASS_ACTIVE (app_config (env P)) RTC_FRAME_TYPE then Some (Returned 0 s)
      else if \<not> payload_alloc_ok E
      then err (on_thread (\<lambda>w. w\<lparr>ctx_payload_pattern := None\<rparr>) s)
      else
       let s = (on_thread (\<lambda>w. w\<lparr>ctx_payload_pattern := Some (replicate (unat (frame_length c)) 0),
                                 ctx_payload_pattern_length := frame_length c\<rparr>) s)\<lparr>payload_off := 0\<rparr> in
       case open_security E c s of (r, s) \<Rightarrow>
         if r \<noteq> 0 then err s
         else create_tail E RTC_FRAME_TYPE (tc_security_mode c) (word_of_int (vid c)) (lport_id c) err s)"

definition rta_threads_free :: "'c launch_state \<Rightarrow> 'c launch_state" where
  "rta_threads_free s = close_security s"

definition rta_threads_create ::
  "'c platform \<Rightarrow> 'c launch_env \<Rightarrow> 'c launch_state \<Rightarrow> 'c launch_state run option" where
  "rta_threads_create P E s =
     (let c = cfg_of P RTA_FRAME_TYPE in
      if \<not> CONFIG_IS_TRAFFIC_CLASS_ACTIVE (app_config (env P)) RTA_FRAME_TYPE then Some (Returned 0 s)
      else case open_security E c s of (r, s) \<Rightarrow>
        if r \<noteq> 0 then Some (Returned r (rta_threads_free s))
        else create_tail E RTA_FRAME_TYPE (tc_security_mode c) (word_of_int (vid c)) (lport_id c)
               (\<lambda>s. Some (Returned (- ENOMEM) (rta_threads_free s))) s)"

text \<open>The classes without security end the program when the mbuf array cannot be allocated.\<close>

definition plain_threads_create ::
  "'c platform \<Rightarrow> 'c launch_env \<Rightarrow> stat_frame_type \<Rightarrow> u16 \<Rightarrow> 'c launch_state \<Rightarrow> 'c launch_state run option" where
  "plain_threads_create P E t vlan_id s =
     (if \<not> CONFIG_IS_TRAFFIC_CLASS_ACTIVE (app_config (env P)) t then Some (Returned 0 s)
      else create_tail E t SECURITY_MODE_NONE vlan_id (lport_id (cfg_of P t)) (\<lambda>s. Some (Exited s)) s)"

definition dcp_threads_create where
  "dcp_threads_create P E = plain_threads_create P E DCP_FRAME_TYPE (word_of_int (vid (cfg_of P DCP_FRAME_TYPE)))"

definition lldp_threads_create where
  "lldp_threads_create P E = plain_threads_create P E LLDP_FRAME_TYPE LLDP_FAKE_VLAN_ID"

definition l2_threads_create where
  "l2_threads_create P E = plain_threads_create P E L2_FRAME_TYPE (word_of_int (vid (cfg_of P L2_FRAME_TYPE)))"

text \<open>UDP stores its private configuration before it looks at the activity of the class.\<close>

definition udp_threads_create ::
  "'c platform \<Rightarrow> 'c launch_env \<Rightarrow> stat_frame_type \<Rightarrow> traffic_class \<Rightarrow> 'c launch_state \<Rightarrow> 'c launch_state run option" where
  "udp_threads_create P E t cfg s =
     plain_threads_create P E t (if t = UDP_HIGH_FRAME_TYPE then UDP_HIGH_FAKE_VLAN_ID else UDP_LOW_FAKE_VLAN_ID)
       (s\<lparr>private_data := Some cfg\<rparr>)"

definition udp_config_init ::
  "'c platform \<Rightarrow> 'c launch_env \<Rightarrow> stat_frame_type \<Rightarrow> 'c launch_state \<Rightarrow> 'c launch_state run option" where
  "udp_config_init P E t s =
     (if \<not> config_alloc_ok E then Some (Returned (- ENOMEM) s)
      else udp_threads_create P E t (cfg_of P t) s)"

definition udp_low_threads_init where
  "udp_low_threads_init P E = udp_config_init P E UDP_LOW_FRAME_TYPE"

definition udp_high_threads_init where
  "udp_high_threads_init P E = udp_config_init P E UDP_HIGH_FRAME_TYPE"

definition udp_threads_free :: "'c launch_state \<Rightarrow> 'c launch_state" where
  "udp_threads_free s = s\<lparr>private_data := None\<rparr>"

definition threads_create ::
  "'c platform \<Rightarrow> 'c launch_env \<Rightarrow> stat_frame_type \<Rightarrow> 'c launch_state \<Rightarrow> 'c launch_state run option" where
  "threads_create P E t =
     (case t of
        TSN_HIGH_FRAME_TYPE \<Rightarrow> tsn_high_threads_init P E
      | TSN_LOW_FRAME_TYPE \<Rightarrow> tsn_low_threads_init P E
      | RTC_FRAME_TYPE \<Rightarrow> rtc_threads_create P E
      | RTA_FRAME_TYPE \<Rightarrow> rta_threads_create P E
      | DCP_FRAME_TYPE \<Rightarrow> dcp_threads_create P E
      | LLDP_FRAME_TYPE \<Rightarrow> lldp_threads_create P E
      | UDP_HIGH_FRAME_TYPE \<Rightarrow> udp_high_threads_init P E
      | UDP_LOW_FRAME_TYPE \<Rightarrow> udp_low_threads_init P E
      | L2_FRAME_TYPE \<Rightarrow> l2_threads_create P E)"

section \<open>Launch and release\<close>

text \<open>
  The functions a class registers: \<open>class_init\<close>, \<open>class_launch\<close> and \<open>class_deinit\<close> are the
  common text of \<^verbatim>\<open>tsn_high_init\<close>, \<^verbatim>\<open>tsn_high_launch\<close>, \<^verbatim>\<open>tsn_high_deinit\<close> and of
  those of the other classes.
\<close>

definition class_init :: "'c platform \<Rightarrow> stat_frame_type \<Rightarrow> 'c launch_state \<Rightarrow> int \<times> 'c launch_state" where
  "class_init P t s = (0, on_thread (\<lambda>w. w\<lparr>lcore_id := thread_cpu (cfg_of P t)\<rparr>) s)"

definition class_launch ::
  "'c platform \<Rightarrow> 'c launch_env \<Rightarrow> stat_frame_type \<Rightarrow> 'c launch_state \<Rightarrow> 'c launch_state run option" where
  "class_launch P E t s =
     (if \<not> enabled (cfg_of P t) then Some (Returned 0 s)
      else do {
        r \<leftarrow> threads_create P E t s;
        (case r of
           Exited s \<Rightarrow> Some (Exited s)
         | Returned r s \<Rightarrow>
             if r \<noteq> 0 then Some (Returned (-1) s)
             else if lcore_running E then Some (Exited s)
             else Some (Returned (remote_launch_ret E) (s\<lparr>launched := (remote_launch_ret E = 0)\<rparr>)))
      })"

definition class_deinit :: "'c platform \<Rightarrow> stat_frame_type \<Rightarrow> 'c launch_state \<Rightarrow> 'c launch_state option" where
  "class_deinit P t s =
     (if \<not> enabled (cfg_of P t) then Some s
      else case t of
        TSN_HIGH_FRAME_TYPE \<Rightarrow> Some (tsn_threads_free s)
      | TSN_LOW_FRAME_TYPE \<Rightarrow> Some (tsn_threads_free s)
      | RTC_FRAME_TYPE \<Rightarrow> rtc_threads_free s
      | RTA_FRAME_TYPE \<Rightarrow> Some (rta_threads_free s)
      | UDP_HIGH_FRAME_TYPE \<Rightarrow> Some (udp_threads_free s)
      | UDP_LOW_FRAME_TYPE \<Rightarrow> Some (udp_threads_free s)
      | _ \<Rightarrow> Some s)"

end
