(* ===== verification/Tsn_Main.thy ===== *)
theory Tsn_Main
  imports Port_Props Launch "HOL-Library.Signed_Division"
begin

text \<open>
  The main program \<^verbatim>\<open>tsn.c\<close>: the set-up of the ports of all classes, start-up, the screen of
  statistics, the keyboard loop and the shutdown. The registered functions are called
  through a parameter (see \<open>Functions\<close>). Everything the operating system answers (poll,
  clock, terminal) is a parameter.
\<close>

section \<open>State\<close>

record eth_stats =
  ipackets :: u64
  opackets :: u64
  imissed :: u64
  ierrors :: u64
  oerrors :: u64

text \<open>
  What one call of \<^verbatim>\<open>print_stats\<close> shows: the position of the spinner, the elapsed hours,
  minutes and seconds, a row per enabled class with its statistics and packets per cycle,
  and per port its link state, totals, packets since the last screen, and errors.
\<close>

record screen =
  spin :: nat
  elapsed :: "int \<times> int \<times> int"
  class_rows :: "(stat_frame_type \<times> statistics \<times> u16) list"
  port_rows :: "(bool \<times> u64 \<times> u64 \<times> u64 \<times> u64 \<times> u64 \<times> u64 \<times> u64) list"

record ('p, 'f, 'c) tsn_state =
  main_config :: application_config
  ports :: port_state
  vlans :: vlan_table
  vlan_dynfield_offset :: int
  reg :: "('p, 'f, 'c) registry"
  timer_list :: "'f thread_timer list"
  main_stats :: stat_state
  mirror_mode :: bool
  config_file :: "string option"
  start_time :: timespec
  latency_fd :: int
  force_quit :: bool
  scrn_clear :: bool
  reset_stats :: bool
  tty_inited :: bool
  sig_caught :: bool
  spin_count :: nat
  prev_stats :: "eth_stats list"
  screens :: "screen list"

section \<open>Set-up of the ports\<close>

text \<open>
  One line of \<^verbatim>\<open>tsn_configure_lports\<close>: whether the part is enabled, the name, the logical
  port and the number of receive and transmit buffers.
\<close>

definition lport_lines :: "application_config \<Rightarrow> (bool \<times> string \<times> u32 \<times> u32 \<times> u32) list" where
  "lport_lines c =
     [(pkt_handler_enabled c, ''PktHdlrPhy'', pkt_handler_physical_lport_id c, 128 * 1024, 0),
      (pkt_handler_enabled c, ''PktHdlr'', pkt_handler_lport_id c, 2048, 16384),
      (enabled (tc c TSN_HIGH_FRAME_TYPE), ''tsnHigh'', lport_id (tc c TSN_HIGH_FRAME_TYPE), 2048, 8192),
      (enabled (tc c TSN_LOW_FRAME_TYPE), ''tsnLow'', lport_id (tc c TSN_LOW_FRAME_TYPE), 2048, 8192),
      (enabled (tc c RTC_FRAME_TYPE), ''RTC'', lport_id (tc c RTC_FRAME_TYPE), 2048, 2048),
      (enabled (tc c RTA_FRAME_TYPE), ''RTA'', lport_id (tc c RTA_FRAME_TYPE), 2048, 2048),
      (enabled (tc c DCP_FRAME_TYPE), ''DCP'', lport_id (tc c DCP_FRAME_TYPE), 2048, 2048),
      (enabled (tc c LLDP_FRAME_TYPE), ''LLDP'', lport_id (tc c LLDP_FRAME_TYPE), 2048, 2048),
      (enabled (tc c UDP_HIGH_FRAME_TYPE), ''udpHigh'', lport_id (tc c UDP_HIGH_FRAME_TYPE), 2048, 2048),
      (enabled (tc c UDP_LOW_FRAME_TYPE), ''udpLow'', lport_id (tc c UDP_LOW_FRAME_TYPE), 2048, 2048),
      (enabled (tc c L2_FRAME_TYPE), ''Layer2'', lport_id (tc c L2_FRAME_TYPE), 2048, 8192)]"

fun configure_lines ::
  "dpdk \<Rightarrow> application_config \<Rightarrow> (bool \<times> string \<times> u32 \<times> u32 \<times> u32) list \<Rightarrow> port_state \<Rightarrow> port_state run option" where
  "configure_lines D c [] s = Some (Returned 0 s)"
| "configure_lines D c ((en, nm, lid, rx, tx) # ls) s =
     (if \<not> en then configure_lines D c ls s
      else do {
        x \<leftarrow> lport_set_defaults D c lid;
        r \<leftarrow> lport_setup D c nm lid (Some (x\<lparr>lp_flags := 0, nb_rx_mbufs := rx, nb_tx_mbufs := tx\<rparr>)) s;
        case r of
          Exited s \<Rightarrow> Some (Exited s)
        | Returned e s \<Rightarrow> if e \<noteq> 0 then Some (Exited s) else configure_lines D c ls s
      })"

text \<open>
  \<^verbatim>\<open>port_id\<close> starts as the port number 65535 and keeps it when there is no device
  \<^verbatim>\<open>net_pflow\<close>: \<open>pflow\<close> is what \<^verbatim>\<open>rte_eth_dev_get_port_by_name\<close> finds.
\<close>

definition tsn_configure_lports ::
  "dpdk \<Rightarrow> u16 option \<Rightarrow> ('p, 'f, 'c) tsn_state \<Rightarrow> ('p, 'f, 'c) tsn_state run option" where
  "tsn_configure_lports D pflow st = do {
     let p = snd (eth D Port_By_Name (ports st));
     let c = (main_config st)\<lparr>pkt_handler_physical_lport_id := lport_make 0 0,
                               pkt_handler_lport_id := lport_make (case pflow of None \<Rightarrow> - 1 | Some x \<Rightarrow> x) 0\<rparr>;
     let st = st\<lparr>main_config := c\<rparr>;
     r \<leftarrow> configure_lines D c (lport_lines c) p;
     case r of
       Exited p \<Rightarrow> Some (Exited (st\<lparr>ports := p\<rparr>))
     | Returned _ p \<Rightarrow>
         (case eth D Dynfield_Register p of (off, p) \<Rightarrow>
            let st = st\<lparr>ports := p, vlan_dynfield_offset := off\<rparr> in
            if off < 0 then Some (Exited st)
            else case eth D Calloc_Vlans p of (a, p) \<Rightarrow>
              if a < 0 then Some (Exited (st\<lparr>ports := p, vlans := None\<rparr>))
              else let st = st\<lparr>vlans := Some (replicate (RTE_ETHER_MAX_VLAN_ID + 1) 0)\<rparr> in
                   case eth D (Pflow_Callback_Create (lport2pid (pkt_handler_lport_id c))
                          (lport2pid (pkt_handler_physical_lport_id c)) (lport2qid (pkt_handler_physical_lport_id c))) p of (r, p) \<Rightarrow>
                     let st = st\<lparr>ports := p\<rparr> in
                     if r < 0 then Some (Exited st) else Some (Returned 0 st))
   }"

section \<open>Signals, terminal, pauses\<close>

definition SIGINT :: int where "SIGINT = 2"
definition SIGTERM :: int where "SIGTERM = 15"

definition signal_handler :: "int \<Rightarrow> ('p, 'f, 'c) tsn_state \<Rightarrow> ('p, 'f, 'c) tsn_state" where
  "signal_handler sig st =
     (if sig = SIGINT \<or> sig = SIGTERM
      then st\<lparr>sig_caught := True, ports := lport_link_running_set 0 (ports st)\<rparr> else st)"

text \<open>Whether the terminal attributes could be read and written.\<close>

definition stdin_setup :: "bool \<Rightarrow> bool \<Rightarrow> ('p, 'f, 'c) tsn_state \<Rightarrow> int \<times> ('p, 'f, 'c) tsn_state" where
  "stdin_setup get_ok set_ok st =
     (let st = st\<lparr>tty_inited := False\<rparr> in
      if \<not> get_ok then (- 1, st) else if \<not> set_ok then (- 1, st) else (0, st\<lparr>tty_inited := True\<rparr>))"

text \<open>\<^verbatim>\<open>sleep_usec\<close>: the absolute time until which it sleeps, if it sleeps at all.\<close>

definition sleep_usec :: "u32 \<Rightarrow> timespec option \<Rightarrow> timespec option" where
  "sleep_usec usec now =
     (if usec > 0 then map_option (\<lambda>t. carry_nsec (t\<lparr>tv_nsec := tv_nsec t + int (unat usec) * 1000\<rparr>)) now else None)"

definition screen_clear :: "('p, 'f, 'c) tsn_state \<Rightarrow> ('p, 'f, 'c) tsn_state" where
  "screen_clear st = st\<lparr>scrn_clear := False\<rparr>"

text \<open>\<^verbatim>\<open>configure_cpu_latency\<close> and \<^verbatim>\<open>restore_cpu_latency\<close>: the descriptor of the opened file and whether the write was complete.\<close>

definition configure_cpu_latency :: "int \<Rightarrow> bool \<Rightarrow> ('p, 'f, 'c) tsn_state \<Rightarrow> ('p, 'f, 'c) tsn_state" where
  "configure_cpu_latency fd write_ok st = (if fd = - 1 then st else if \<not> write_ok then st else st\<lparr>latency_fd := fd\<rparr>)"

section \<open>The screen\<close>

text \<open>What is read from the system for one screen: the clock, and the counters of the available ports.\<close>

record sight =
  clock_now :: "timespec option"
  eth_now :: "eth_stats list"

definition zero_time :: timespec where "zero_time = \<lparr>tv_sec = 0, tv_nsec = 0\<rparr>"

definition elapsed_hms :: "int \<Rightarrow> int \<times> int \<times> int" where
  "elapsed_hms seconds = (seconds sdiv 3600, (seconds smod 3600) sdiv 60, seconds smod 60)"

definition stat_rows :: "application_config \<Rightarrow> stat_private \<Rightarrow> (stat_frame_type \<times> statistics \<times> u16) list" where
  "stat_rows c sp =
     map (\<lambda>t. (t, global_statistics sp t, ucast (num_frames_per_cycle (tc c t)))) (filter (\<lambda>t. enabled (tc c t)) all_frame_types)"

text \<open>
  The loop over the ports from port \<open>pid\<close> on. \<^verbatim>\<open>prev_stats\<close> has two elements, whatever the
  number of ports: beyond them is a fault. \<open>Inl\<close> when reading the link state ends the
  program.
\<close>

fun print_ports ::
  "dpdk \<Rightarrow> nat \<Rightarrow> eth_stats list \<Rightarrow> (bool \<times> u64 \<times> u64 \<times> u64 \<times> u64 \<times> u64 \<times> u64 \<times> u64) list
    \<Rightarrow> ('p, 'f, 'c) tsn_state
    \<Rightarrow> (('p, 'f, 'c) tsn_state + (bool \<times> u64 \<times> u64 \<times> u64 \<times> u64 \<times> u64 \<times> u64 \<times> u64) list \<times> ('p, 'f, 'c) tsn_state) option" where
  "print_ports D pid [] rows st = Some (Inr (rows, st))"
| "print_ports D pid (e # es) rows st =
     (if pid \<ge> length (prev_stats st) then None
      else let p = prev_stats st ! pid in
           case lport_link_get D (lport_make (of_nat pid) 0) (ports st) of
             None \<Rightarrow> Some (Inl st)
           | Some (up, ps) \<Rightarrow>
               print_ports D (Suc pid) es
                 (rows @ [(up, ipackets e, opackets e, ipackets e - ipackets p, opackets e - opackets p,
                           ierrors e, imissed e, oerrors e)])
                 (st\<lparr>ports := ps, prev_stats := (prev_stats st)[pid := e]\<rparr>))"

text \<open>What \<^verbatim>\<open>print_stats\<close> does before it prints: the screen, the reset that was asked for, the spinner.\<close>

definition screen_begin :: "('p, 'f, 'c) tsn_state \<Rightarrow> ('p, 'f, 'c) tsn_state" where
  "screen_begin st =
     (let st = screen_clear st;
          st = (if reset_stats st
                then st\<lparr>reset_stats := False,
                         main_stats := (main_stats st)\<lparr>stat_priv := stats_reset_all_stats (stat_priv (main_stats st))\<rparr>\<rparr>
                else st)
      in st\<lparr>spin_count := spin_count st + 1\<rparr>)"

definition print_stats :: "dpdk \<Rightarrow> sight \<Rightarrow> ('p, 'f, 'c) tsn_state \<Rightarrow> ('p, 'f, 'c) tsn_state run option" where
  "print_stats D v st =
     (let n = spin_count st mod 4;
          st = screen_begin st;
          now = (case clock_now v of None \<Rightarrow> zero_time | Some t \<Rightarrow> t);
          crows = stat_rows (main_config st) (stat_priv (main_stats st))
      in case print_ports D 0 (eth_now v) [] st of
           None \<Rightarrow> None
         | Some (Inl st) \<Rightarrow> Some (Exited st)
         | Some (Inr (prows, st)) \<Rightarrow>
             Some (Returned 0 (st\<lparr>screens := screens st @
               [\<lparr>spin = n, elapsed = elapsed_hms (tv_sec now - tv_sec (start_time st)), class_rows = crows, port_rows = prows\<rparr>]\<rparr>)))"

section \<open>The keyboard\<close>

record poll_in =
  poll_ret :: int
  rev_err :: bool
  rev_hup :: bool
  rev_in :: bool
  read_n :: int
  key :: byte

text \<open>The result and the character variable, which has no value before the first key.\<close>

definition poll_keyboard :: "poll_in \<Rightarrow> byte option \<Rightarrow> int \<times> byte option" where
  "poll_keyboard i c =
     (if poll_ret i \<noteq> 0 \<and> \<not> rev_err i
      then if rev_hup i then (- 1, c)
           else if rev_in i \<and> read_n i > 0 then (1, Some (key i)) else (0, c)
      else (0, c))"

definition key_char :: "byte \<Rightarrow> char \<Rightarrow> bool" where
  "key_char b ch \<longleftrightarrow> b = of_char ch"

text \<open>
  The loop over what happens in each pass: the sight (used in every fourth pass) and the
  keyboard. \<open>Returned 0\<close>: the loop was left; \<open>Returned 1\<close>: it is still running when the list
  ends. A result of \<^verbatim>\<open>poll_keyboard\<close> other than 0 counts as a key, also \<open>-1\<close>, for which
  the variable keeps the last key; without one it is uninitialised.
\<close>

fun keyboard_loop ::
  "dpdk \<Rightarrow> (sight \<times> poll_in) list \<Rightarrow> nat \<Rightarrow> byte option \<Rightarrow> ('p, 'f, 'c) tsn_state \<Rightarrow> ('p, 'f, 'c) tsn_state run option" where
  "keyboard_loop D [] n c st = Some (Returned (if force_quit st then 0 else 1) st)"
| "keyboard_loop D ((v, i) # xs) n c st =
     (if force_quit st then Some (Returned 0 st)
      else do {
        r \<leftarrow> (if n mod 4 = 0 then print_stats D v st else Some (Returned 0 st));
        case r of
          Exited st \<Rightarrow> Some (Exited st)
        | Returned _ st \<Rightarrow>
            (case poll_keyboard i c of (hit, c) \<Rightarrow>
               if hit = 0 then keyboard_loop D xs (n + 1) c st
               else do {
                 b \<leftarrow> c;
                 if key_char b (CHR ''q'') then Some (Returned 0 (st\<lparr>force_quit := True\<rparr>))
                 else if key_char b (CHR ''r'') then keyboard_loop D xs (n + 1) c (st\<lparr>reset_stats := True, scrn_clear := True\<rparr>)
                 else if key_char b (CHR ''c'') then keyboard_loop D xs (n + 1) c (st\<lparr>scrn_clear := True\<rparr>)
                 else keyboard_loop D xs (n + 1) c st
               })
      })"

definition keyboard ::
  "dpdk \<Rightarrow> bool \<Rightarrow> bool \<Rightarrow> timespec option \<Rightarrow> (sight \<times> poll_in) list \<Rightarrow> sight \<Rightarrow> ('f thread_timer \<Rightarrow> bool)
    \<Rightarrow> ('p, 'f, 'c) tsn_state \<Rightarrow> ('p, 'f, 'c) tsn_state run option" where
  "keyboard D get_ok set_ok now xs last_v stops_in_time st = do {
     let st = snd (stdin_setup get_ok set_ok st);
     let st = st\<lparr>start_time := (case now of None \<Rightarrow> zero_time | Some t \<Rightarrow> t)\<rparr>;
     r \<leftarrow> keyboard_loop D xs 0 None st;
     case r of
       Exited st \<Rightarrow> Some (Exited st)
     | Returned e st \<Rightarrow>
         if e \<noteq> 0 then Some (Returned e st)
         else do {
           r \<leftarrow> print_stats D last_v st;
           case r of
             Exited st \<Rightarrow> Some (Exited st)
           | Returned _ st \<Rightarrow>
               Some (Returned 0 (st\<lparr>reg := function_stop_all (reg st),
                 timer_list := thread_timer_stop_all stops_in_time (timer_list st), force_quit := True\<rparr>))
         }
   }"

section \<open>The main program\<close>

text \<open>
  What the operating system and the library answer to the main program: the lock of the
  memory, the latency file, the terminal, the clock, the keyboard, the result of every
  call that can end it.
\<close>

record 'f main_env =
  signal_ok :: bool
  eal_init_ret :: int
  lcore_count :: nat
  mlockall_ret :: int
  latency_open :: int
  latency_write_ok :: bool
  pflow_port :: "u16 option"
  tty_get_ok :: bool
  tty_set_ok :: bool
  now_at_start :: "timespec option"
  inputs :: "(sight \<times> poll_in) list"
  last_sight :: sight
  timer_stops :: "'f thread_timer \<Rightarrow> bool"
  hist_open_ok :: bool

text \<open>
  The options as \<^verbatim>\<open>getopt_long\<close> delivers them: the code and the argument. \<open>Inl\<close> is the exit
  code of an option that ends the program.
\<close>

fun parse_options :: "(char \<times> string option) list \<Rightarrow> ('p, 'f, 'c) tsn_state \<Rightarrow> int + ('p, 'f, 'c) tsn_state" where
  "parse_options [] st = Inr st"
| "parse_options ((ch, arg) # os) st =
     (if ch = CHR ''V'' then Inl 0
      else if ch = CHR ''c'' then parse_options os (st\<lparr>config_file := arg\<rparr>)
      else if ch = CHR ''m'' then parse_options os (st\<lparr>mirror_mode := True\<rparr>)
      else Inl 0)"

definition tsn_startup ::
  "'f main_env \<Rightarrow> ('p \<Rightarrow> nat \<Rightarrow> ('p, 'f, 'c) tsn_state \<Rightarrow> int \<times> ('p, 'f, 'c) tsn_state)
    \<Rightarrow> ('p, 'f, 'c) tsn_state \<Rightarrow> ('p, 'f, 'c) tsn_state run" where
  "tsn_startup E call st =
     (if mlockall_ret E \<noteq> 0 then Exited st
      else let st = configure_cpu_latency (latency_open E) (latency_write_ok E) st in
           case function_init_all call (funcs (reg st)) st of
             Exited st \<Rightarrow> Exited st
           | Returned _ st \<Rightarrow>
               (case function_link_pn_threads (main_config st) (threads (reg st)) of (r, ts) \<Rightarrow>
                  let st = st\<lparr>reg := (reg st)\<lparr>threads := ts\<rparr>\<rparr> in if r \<noteq> 0 then Exited st else Returned 0 st))"

definition tsn_launch ::
  "('p \<Rightarrow> nat \<Rightarrow> ('p, 'f, 'c) tsn_state \<Rightarrow> int \<times> ('p, 'f, 'c) tsn_state)
    \<Rightarrow> ('p, 'f, 'c) tsn_state \<Rightarrow> ('p, 'f, 'c) tsn_state run" where
  "tsn_launch call st = function_launch_all call (funcs (reg st)) st"

text \<open>
  \<^verbatim>\<open>rte_eal_mp_wait_lcore\<close> waits for the threads: \<open>wait\<close> is what they still do to the state.
  The report of the histograms is the second component.
\<close>

definition tsn_shutdown ::
  "'f main_env \<Rightarrow> (('p, 'f, 'c) tsn_state \<Rightarrow> ('p, 'f, 'c) tsn_state) \<Rightarrow> ('p \<Rightarrow> nat \<Rightarrow> ('p, 'f, 'c) tsn_state \<Rightarrow> ('p, 'f, 'c) tsn_state)
    \<Rightarrow> ('p, 'f, 'c) tsn_state
    \<Rightarrow> ((int \<times> (u64 \<times> u64 list) list \<times> u64 list \<times> u64 list) option \<times> ('p, 'f, 'c) tsn_state) option" where
  "tsn_shutdown E wait free st =
     (let st = st\<lparr>main_stats := (main_stats st)\<lparr>stat_priv := stats_reset_all_stats (stat_priv (main_stats st))\<rparr>\<rparr>;
          st = (wait st)\<lparr>force_quit := True\<rparr> in do {
        rep \<leftarrow> (if mirror_mode st then Some None
                else map_option Some (histogram_write (main_config st) (hist_open_ok E) (histos (main_stats st))));
        let st = function_free_all free (funcs (reg st)) st;
        Some (rep, st)
      })"

definition tsn_main ::
  "dpdk \<Rightarrow> 'f main_env
    \<Rightarrow> ('p \<Rightarrow> nat \<Rightarrow> ('p, 'f, 'c) tsn_state \<Rightarrow> int \<times> ('p, 'f, 'c) tsn_state)
    \<Rightarrow> ('p \<Rightarrow> nat \<Rightarrow> ('p, 'f, 'c) tsn_state \<Rightarrow> ('p, 'f, 'c) tsn_state)
    \<Rightarrow> (('p, 'f, 'c) tsn_state \<Rightarrow> ('p, 'f, 'c) tsn_state)
    \<Rightarrow> (char \<times> string option) list \<Rightarrow> ('p, 'f, 'c) tsn_state \<Rightarrow> ('p, 'f, 'c) tsn_state run option" where
  "tsn_main D E call free wait opts st =
     (if \<not> signal_ok E \<or> eal_init_ret E < 0 \<or> lcore_count E < MAX_PN_TYPES + 1 then Some (Exited st)
      else case parse_options opts (st\<lparr>mirror_mode := False, config_file := None\<rparr>) of
        Inl _ \<Rightarrow> Some (Exited st)
      | Inr st \<Rightarrow>
          (case tsn_startup E call st of
             Exited st \<Rightarrow> Some (Exited st)
           | Returned _ st \<Rightarrow> do {
               r \<leftarrow> tsn_configure_lports D (pflow_port E) st;
               case r of
                 Exited st \<Rightarrow> Some (Exited st)
               | Returned _ st \<Rightarrow>
                   (case tsn_launch call st of
                      Exited st \<Rightarrow> Some (Exited st)
                    | Returned _ st \<Rightarrow> do {
                        r \<leftarrow> keyboard D (tty_get_ok E) (tty_set_ok E) (now_at_start E) (inputs E) (last_sight E) (timer_stops E) st;
                        case r of
                          Exited st \<Rightarrow> Some (Exited st)
                        | Returned e st \<Rightarrow>
                            if e \<noteq> 0 then Some (Returned e st)
                            else do { (rep, st) \<leftarrow> tsn_shutdown E wait free st; Some (Returned 0 st) }
                      })
             }))"

end
