(* ===== verification/Main_Props.thy ===== *)
theory Main_Props
  imports Tsn_Main Config_Props
begin

text \<open>
  Properties of the main program: every enabled class gets a usable queue, the screen shows
  the right numbers, the keyboard ends the program, and the functions are started and
  released in order.
\<close>

section \<open>Set-up of the ports\<close>

definition lid_ok :: "dpdk \<Rightarrow> application_config \<Rightarrow> u32 \<Rightarrow> bool" where
  "lid_ok D c lid \<longleftrightarrow>
     (let n = cnt (qinfo c (unat (lport2pid lid))) in
      unat (lport2pid lid) < max_ethports D \<and> unat n \<le> DEFAULT_QUEUE_COUNT \<and> lport2qid lid < (if n = 0 then 1 else n))"

definition pq :: "u32 \<Rightarrow> u16 \<times> u16" where
  "pq lid = (lport2pid lid, lport2qid lid)"

text \<open>The enabled lines: the logical port and whether it gets a transmit pool.\<close>

definition wanted :: "(bool \<times> string \<times> u32 \<times> u32 \<times> u32) list \<Rightarrow> (bool \<times> u32) list" where
  "wanted ls = map (\<lambda>(en, nm, lid, rx, tx). (tx \<noteq> 0, lid)) (filter fst ls)"

lemma configure_lines_usable:
  assumes "ports_ok D {} s" and "\<forall>(tx, lid)\<in>set (ds @ wanted ls). lid_ok D c lid"
    and "distinct (map (pq \<circ> snd) (ds @ wanted ls))" and "\<forall>(tx, lid)\<in>set ds. usable D s tx lid"
  shows "\<exists>r. configure_lines D c ls s = Some r \<and>
     (\<forall>e s'. r = Returned e s' \<longrightarrow> ports_ok D {} s' \<and> (\<forall>(tx, lid)\<in>set (ds @ wanted ls). usable D s' tx lid))"
  using assms
proof (induction ls arbitrary: s ds)
  case Nil
  then show ?case by (simp add: wanted_def)
next
  case (Cons l ls)
  obtain en nm lid rx tx where l: "l = (en, nm, lid, rx, tx)" by (cases l)
  show ?case
  proof (cases en)
    case False
    then show ?thesis using Cons l by (simp add: wanted_def)
  next
    case True
    have w: "wanted (l # ls) = (tx \<noteq> 0, lid) # wanted ls" using True l by (simp add: wanted_def)
    have lid: "lid_ok D c lid" using Cons.prems(2) w by auto
    then obtain x where x: "lport_set_defaults D c lid = Some x" "nb_queues x = cnt (qinfo c (unat (lport2pid lid)))"
      by (auto simp: lport_set_defaults_def lid_ok_def Let_def)
    let ?x = "x\<lparr>lp_flags := 0, nb_rx_mbufs := rx, nb_tx_mbufs := tx\<rparr>"
    have "setup_result D lid ?x s (lport_setup D c nm lid (Some ?x) s)"
      by (rule lport_setup_result [OF Cons.prems(1)]) (use lid x in \<open>simp_all add: lid_ok_def Let_def\<close>)
    then obtain r where r: "lport_setup D c nm lid (Some ?x) s = Some r" and sr: "setup_result D lid ?x s (Some r)"
      by (auto simp: setup_result_def split: option.splits)
    show ?thesis
    proof (cases r)
      case (Exited s1)
      then show ?thesis using r x l True by simp
    next
      case (Returned e s1)
      have keep: "usable D s1 t' lid'" if "e = 0" "(t', lid') \<in> set ds" for t' lid'
      proof -
        have "(lport2pid lid', lport2qid lid') \<noteq> (lport2pid lid, lport2qid lid)"
          using Cons.prems(3) that(2) w by (force simp: pq_def)
        moreover have "lport2qid lid' < nb_queues (effective ?x)" if "lport2pid lid' = lport2pid lid"
        proof -
          have "lid_ok D c lid'" using Cons.prems(2) \<open>(t', lid') \<in> set ds\<close> by auto
          then show ?thesis using that x(2) by (auto simp: lid_ok_def effective_def Let_def split: if_splits)
        qed
        ultimately show ?thesis using sr that Cons.prems(4) unfolding Returned by (auto simp: setup_result_def)
      qed
      have new: "ports_ok D {} s1" "e = 0 \<Longrightarrow> usable D s1 (tx \<noteq> 0) lid" using sr Returned by (auto simp: setup_result_def)
      show ?thesis
      proof (cases "e = 0")
        case True
        have "\<exists>r. configure_lines D c ls s1 = Some r \<and> (\<forall>e s'. r = Returned e s' \<longrightarrow> ports_ok D {} s' \<and>
            (\<forall>(tx, lid)\<in>set ((ds @ [(tx \<noteq> 0, lid)]) @ wanted ls). usable D s' tx lid))"
          by (rule Cons.IH) (use Cons.prems(2,3) w new keep True in auto)
        then show ?thesis using r x l \<open>en\<close> Returned True w by auto
      qed (use r x l \<open>en\<close> Returned in simp)
    qed
  qed
qed

lemma lport_lines_eq:
  "lport_lines c =
     (pkt_handler_enabled c, ''PktHdlrPhy'', pkt_handler_physical_lport_id c, 128 * 1024, 0) #
     (pkt_handler_enabled c, ''PktHdlr'', pkt_handler_lport_id c, 2048, 16384) #
     map (\<lambda>t. (enabled (tc c t),
        (case t of TSN_HIGH_FRAME_TYPE \<Rightarrow> ''tsnHigh'' | TSN_LOW_FRAME_TYPE \<Rightarrow> ''tsnLow'' | RTC_FRAME_TYPE \<Rightarrow> ''RTC''
         | RTA_FRAME_TYPE \<Rightarrow> ''RTA'' | DCP_FRAME_TYPE \<Rightarrow> ''DCP'' | LLDP_FRAME_TYPE \<Rightarrow> ''LLDP'' | UDP_HIGH_FRAME_TYPE \<Rightarrow> ''udpHigh''
         | UDP_LOW_FRAME_TYPE \<Rightarrow> ''udpLow'' | L2_FRAME_TYPE \<Rightarrow> ''Layer2''),
        lport_id (tc c t), 2048, if t \<in> {TSN_HIGH_FRAME_TYPE, TSN_LOW_FRAME_TYPE, L2_FRAME_TYPE} then 8192 else 2048)) all_frame_types"
  by (simp add: lport_lines_def all_frame_types_def)

lemma wanted_lines:
  "wanted (lport_lines c) =
     (if pkt_handler_enabled c then [(False, pkt_handler_physical_lport_id c), (True, pkt_handler_lport_id c)] else []) @
     map (\<lambda>t. (True, lport_id (tc c t))) (filter (\<lambda>t. enabled (tc c t)) all_frame_types)"
  unfolding lport_lines_eq by (simp add: wanted_def filter_map comp_def)

lemma config_lids:
  assumes "config_read_tokens d ts c0 = Some (0, c)" and "2 \<le> max_ethports D"
    and c': "c' = c\<lparr>pkt_handler_physical_lport_id := lport_make 0 0, pkt_handler_lport_id := lport_make 1 0\<rparr>"
  shows "\<forall>(tx, lid)\<in>set (wanted (lport_lines c')). lid_ok D c' lid" and "distinct (map (pq \<circ> snd) (wanted (lport_lines c')))"
proof -
  let ?en = "filter (\<lambda>t. enabled (tc c' t)) all_frame_types"
  have q: "queues_ok all_frame_types (cnt (qinfo c 1), c)" "cnt (qinfo c 0) = 1" using config_read_queues [of d ts c0] assms(1) by auto
  have "length ?en \<le> length all_frame_types" by (rule length_filter_le)
  then have n: "length ?en \<le> 9" by (simp only: all_frame_types_def list.size)
  have en: "unat (cnt (qinfo c' 1)) = Suc (length ?en)" "cnt (qinfo c' 0) = 1"
    "\<And>i. i < length ?en \<Longrightarrow> lport_id (tc c' (?en ! i)) = lport_make 1 (word_of_nat (Suc i))"
    using q by (simp_all add: queues_ok_def Let_def c')
  have m: "map (\<lambda>t. lport_id (tc c' t)) ?en = map (\<lambda>i. lport_make 1 (word_of_nat (Suc i))) [0..<length ?en]"
    by (rule nth_equalityI) (simp_all add: en(3))
  have u: "unat (word_of_nat (Suc i) :: u16) = Suc i" if "i < length ?en" for i
    using that n by (simp add: unat_of_nat del: of_nat_Suc)
  have cls: "lid_ok D c' (lport_id (tc c' t))" if t: "t \<in> set ?en" for t
  proof -
    obtain i where i: "i < length ?en" "?en ! i = t" using in_set_conv_nth [THEN iffD1, OF t] by blast
    have l: "lport_id (tc c' t) = lport_make 1 (word_of_nat (Suc i))" using en(3) [OF i(1)] unfolding i(2) .
    have "cnt (qinfo c' 1) \<noteq> 0" using en(1) by (metis Zero_not_Suc unat_0)
    then show ?thesis using i(1) u [OF i(1)] en(1) n assms(2) unfolding l
      by (simp add: lid_ok_def Let_def DEFAULT_QUEUE_COUNT_def word_less_nat_alt)
  qed
  have "lid_ok D c' (lport_make 0 0)" "lid_ok D c' (lport_make 1 0)"
    using en(1,2) n assms(2) by (auto simp: lid_ok_def Let_def DEFAULT_QUEUE_COUNT_def word_less_nat_alt)
  then show "\<forall>(tx, lid)\<in>set (wanted (lport_lines c')). lid_ok D c' lid"
    using cls by (auto simp: wanted_lines c')
  have "distinct (map (\<lambda>i. (1 :: u16, word_of_nat (Suc i) :: u16)) [0..<length ?en])"
    unfolding distinct_map by (auto simp: inj_on_def dest: arg_cong [where f = unat] simp: u simp del: of_nat_Suc)
  moreover have "(0 :: u16) \<noteq> word_of_nat (Suc i)" if "i < length ?en" for i using u [OF that] by (metis unat_0 nat.simps(3))
  moreover have "map (pq \<circ> snd) (wanted (lport_lines c')) =
      (if pkt_handler_enabled c' then [(0, 0), (1, 0)] else []) @ map (\<lambda>i. (1, word_of_nat (Suc i))) [0..<length ?en]"
  proof -
    have "map (pq \<circ> snd) (map (\<lambda>t. (True, lport_id (tc c' t))) ?en) = map pq (map (\<lambda>t. lport_id (tc c' t)) ?en)" by simp
    also have "\<dots> = map (\<lambda>i. (1, word_of_nat (Suc i))) [0..<length ?en]" unfolding m by (simp add: pq_def)
    finally show ?thesis by (simp add: wanted_lines c' pq_def)
  qed
  ultimately show "distinct (map (pq \<circ> snd) (wanted (lport_lines c')))" by (auto simp: image_iff)
qed


definition ex_tsn :: "application_config \<Rightarrow> (nat, nat, unit) tsn_state" where
  "ex_tsn c = \<lparr>main_config = c, ports = ex_ports\<lparr>lports := replicate 2 zero_lport\<rparr>, vlans = None, vlan_dynfield_offset = 0,
     reg = \<lparr>funcs = [], threads = []\<rparr>, timer_list = [],
     main_stats = \<lparr>stat_priv = zero_stat_private, histos = (\<lambda>_. zero_histogram), mqtt_out = [], trace_out = [], exited = False\<rparr>,
     mirror_mode = False, config_file = None, start_time = zero_time, latency_fd = - 1, force_quit = False, scrn_clear = True,
     reset_stats = True, tty_inited = False, sig_caught = False, spin_count = 0,
     prev_stats = replicate 2 \<lparr>ipackets = 0, opackets = 0, imissed = 0, ierrors = 0, oerrors = 0\<rparr>, screens = []\<rparr>"


section \<open>The screen\<close>

lemma print_ports_rows:
  assumes "pid + length es \<le> length (prev_stats st)" and "\<And>cs p. answer D cs (Link_Get_Nowait p) = 0"
    and "pid + length es \<le> max_ethports D" and "pid + length es \<le> 65536"
  shows "\<exists>ps. print_ports D pid es rows st = Some (Inr (rows @
       map (\<lambda>i. (link_up D (calls (ports st) @ map (\<lambda>k. Link_Get_Nowait (of_nat (pid + k))) [0..<i]) (of_nat (pid + i)),
                 ipackets (es ! i), opackets (es ! i), ipackets (es ! i) - ipackets (prev_stats st ! (pid + i)),
                 opackets (es ! i) - opackets (prev_stats st ! (pid + i)), ierrors (es ! i), imissed (es ! i), oerrors (es ! i)))
           [0..<length es],
       st\<lparr>ports := ps, prev_stats := take pid (prev_stats st) @ es @ drop (pid + length es) (prev_stats st)\<rparr>))"
  using assms
proof (induction es arbitrary: pid rows st)
  case Nil
  then show ?case by (auto intro: exI [of _ "ports st"])
next
  case (Cons e es)
  let ?L = "\<lambda>k. Link_Get_Nowait (of_nat k)"
  let ?st = "st\<lparr>ports := ports st\<lparr>calls := calls (ports st) @ [?L pid]\<rparr>, prev_stats := (prev_stats st)[pid := e]\<rparr>"
  let ?up = "link_up D (calls (ports st)) (of_nat pid)" and ?p = "prev_stats st ! pid"
  let ?row = "(?up, ipackets e, opackets e, ipackets e - ipackets ?p, opackets e - opackets ?p, ierrors e, imissed e, oerrors e)"
  have "unat (word_of_nat pid :: u16) = pid" using Cons.prems(4) by (simp add: unat_of_nat)
  then have "lport_link_get D (lport_make (of_nat pid) 0) (ports st) = Some (?up, ports ?st)"
    using Cons.prems(2,3) by (simp add: link_get_cases)
  then have u: "print_ports D pid (e # es) rows st = print_ports D (Suc pid) es (rows @ [?row]) ?st"
    using Cons.prems(1) by (simp add: Let_def)
  have IH: "\<exists>ps. print_ports D (Suc pid) es (rows @ [?row]) ?st = Some (Inr ((rows @ [?row]) @
       map (\<lambda>i. (link_up D (calls (ports ?st) @ map (\<lambda>k. ?L (Suc pid + k)) [0..<i]) (of_nat (Suc pid + i)),
                 ipackets (es ! i), opackets (es ! i), ipackets (es ! i) - ipackets (prev_stats ?st ! (Suc pid + i)),
                 opackets (es ! i) - opackets (prev_stats ?st ! (Suc pid + i)), ierrors (es ! i), imissed (es ! i), oerrors (es ! i)))
           [0..<length es],
       ?st\<lparr>ports := ps, prev_stats := take (Suc pid) (prev_stats ?st) @ es @ drop (Suc pid + length es) (prev_stats ?st)\<rparr>))"
    by (rule Cons.IH) (use Cons.prems in simp_all)
  have m: "map f [0..<length (e # es)] = f 0 # map (\<lambda>i. f (Suc i)) [0..<length es]" for f :: "nat \<Rightarrow> 'x"
    by (simp add: upt_conv_Cons map_Suc_upt [symmetric] del: upt_Suc)
  have t: "take (Suc pid) ((prev_stats st)[pid := e]) = take pid (prev_stats st) @ [e]"
    using Cons.prems(1) by (simp add: take_Suc_conv_app_nth)
  have l: "calls (ports st) @ map (\<lambda>k. ?L (pid + k)) [0..<Suc i] = (calls (ports st) @ [?L pid]) @ map (\<lambda>k. ?L (Suc pid + k)) [0..<i]" for i
    by (simp add: upt_conv_Cons map_Suc_upt [symmetric] del: upt_Suc)
  from IH obtain ps where "print_ports D (Suc pid) es (rows @ [?row]) ?st = Some (Inr ((rows @ [?row]) @
       map (\<lambda>i. (link_up D (calls (ports ?st) @ map (\<lambda>k. ?L (Suc pid + k)) [0..<i]) (of_nat (Suc pid + i)),
                 ipackets (es ! i), opackets (es ! i), ipackets (es ! i) - ipackets (prev_stats ?st ! (Suc pid + i)),
                 opackets (es ! i) - opackets (prev_stats ?st ! (Suc pid + i)), ierrors (es ! i), imissed (es ! i), oerrors (es ! i)))
           [0..<length es],
       ?st\<lparr>ports := ps, prev_stats := take (Suc pid) (prev_stats ?st) @ es @ drop (Suc pid + length es) (prev_stats ?st)\<rparr>))" by blast
  then show ?case unfolding u m l by (intro exI [of _ ps]) (simp add: t)
qed

lemma print_ports_fault:
  assumes "length (prev_stats st) < pid + length es" and "pid \<le> length (prev_stats st)"
    and "\<And>cs p. answer D cs (Link_Get_Nowait p) = 0" and "length (prev_stats st) \<le> max_ethports D" and "length (prev_stats st) \<le> 65536"
  shows "print_ports D pid es rows st = None"
  using assms
proof (induction es arbitrary: pid rows st)
  case (Cons e es)
  show ?case
  proof (cases "pid = length (prev_stats st)")
    case False
    then have p: "pid < length (prev_stats st)" "pid < 65536" using Cons.prems by auto
    then have "unat (word_of_nat pid :: u16) = pid" by (simp add: unat_of_nat)
    then show ?thesis using Cons.prems p
      by (auto simp: link_get_cases Let_def intro!: Cons.IH)
  qed simp
qed simp

lemma elapsed_hms_nonneg:
  assumes "0 \<le> s"
  shows "case elapsed_hms s of (h, m, sec) \<Rightarrow> 3600 * h + 60 * m + sec = s \<and> 0 \<le> m \<and> m < 60 \<and> 0 \<le> sec \<and> sec < 60"
proof -
  have d: "a sdiv b = a div b" "a smod b = a mod b" if "0 \<le> a" "0 < b" for a b :: int
    using that by (cases "a = 0"; simp add: signed_divide_int_def signed_modulo_int_def)+
  have e: "elapsed_hms s = (s div 3600, s mod 3600 div 60, s mod 60)"
    using assms by (simp add: elapsed_hms_def d)
  have "s mod 3600 mod 60 = s mod 60" by (rule mod_mod_cancel) simp
  then have "60 * (s mod 3600 div 60) + s mod 60 = s mod 3600" using mult_div_mod_eq [of 60 "s mod 3600"] by simp
  then have "3600 * (s div 3600) + 60 * (s mod 3600 div 60) + s mod 60 = s" using mult_div_mod_eq [of 3600 s] by linarith
  moreover have "s mod 3600 \<le> 3599" using pos_mod_bound [of 3600 s] by linarith
  then have "s mod 3600 div 60 \<le> 3599 div 60" by (rule zdiv_mono1) simp
  moreover have "0 \<le> s mod 3600 div 60" by (simp add: pos_imp_zdiv_nonneg_iff)
  ultimately show ?thesis unfolding e by simp
qed

definition port_changes :: "eth_stats list \<Rightarrow> eth_stats list \<Rightarrow> (u64 \<times> u64) list" where
  "port_changes new old = map (\<lambda>(n, p). (ipackets n - ipackets p, opackets n - opackets p)) (zip new old)"

lemma screen_begin_simps [simp]:
  "main_config (screen_begin st) = main_config st" "ports (screen_begin st) = ports st" "prev_stats (screen_begin st) = prev_stats st"
  "screens (screen_begin st) = screens st" "start_time (screen_begin st) = start_time st" "reg (screen_begin st) = reg st"
  "force_quit (screen_begin st) = force_quit st" "timer_list (screen_begin st) = timer_list st"
  "\<not> reset_stats (screen_begin st)"
  "stat_priv (main_stats (screen_begin st)) =
     (if reset_stats st then stats_reset_all_stats (stat_priv (main_stats st)) else stat_priv (main_stats st))"
  by (simp_all add: screen_begin_def screen_clear_def Let_def)

lemma print_stats_result:
  assumes "length (eth_now v) \<le> length (prev_stats st)" and "\<And>cs p. answer D cs (Link_Get_Nowait p) = 0"
    and "length (prev_stats st) \<le> max_ethports D" and "length (prev_stats st) \<le> 65536"
  shows "\<exists>ps prows. print_stats D v st = Some (Returned 0 ((screen_begin st)\<lparr>ports := ps,
       prev_stats := eth_now v @ drop (length (eth_now v)) (prev_stats st),
       screens := screens st @ [\<lparr>spin = spin_count st mod 4,
          elapsed = elapsed_hms (tv_sec (case clock_now v of None \<Rightarrow> zero_time | Some t \<Rightarrow> t) - tv_sec (start_time st)),
          class_rows = stat_rows (main_config st) (stat_priv (main_stats (screen_begin st))), port_rows = prows\<rparr>]\<rparr>)) \<and>
     map (\<lambda>(_, i, p, d). (i, p)) prows = map (\<lambda>e. (ipackets e, opackets e)) (eth_now v) \<and>
     map (\<lambda>(_, i, p, di, dp, _). (di, dp)) prows = port_changes (eth_now v) (prev_stats st)"
proof -
  let ?es = "eth_now v" and ?st = "screen_begin st"
  let ?prows = "map (\<lambda>i. (link_up D (calls (ports ?st) @ map (\<lambda>k. Link_Get_Nowait (of_nat (0 + k))) [0..<i]) (of_nat (0 + i)),
                 ipackets (?es ! i), opackets (?es ! i), ipackets (?es ! i) - ipackets (prev_stats ?st ! (0 + i)),
                 opackets (?es ! i) - opackets (prev_stats ?st ! (0 + i)), ierrors (?es ! i), imissed (?es ! i), oerrors (?es ! i)))
           [0..<length ?es]"
  obtain ps where ps: "print_ports D 0 ?es [] ?st = Some (Inr ([] @ ?prows,
       ?st\<lparr>ports := ps, prev_stats := take 0 (prev_stats ?st) @ ?es @ drop (0 + length ?es) (prev_stats ?st)\<rparr>))"
    using print_ports_rows [of 0 ?es ?st D "[]"] assms by auto
  have "map (\<lambda>(_, i, p, d). (i, p)) ?prows = map (\<lambda>e. (ipackets e, opackets e)) ?es"
    "map (\<lambda>(_, i, p, di, dp, _). (di, dp)) ?prows = port_changes ?es (prev_stats st)"
    using assms(1) by (auto simp: port_changes_def intro!: nth_equalityI)
  then show ?thesis using ps unfolding print_stats_def Let_def
    by (intro exI [of _ ps] exI [of _ ?prows]) simp
qed

text \<open>
  C18: with at most two ports, every screen shows exactly the enabled classes with their
  current statistics (cleared when a reset was asked for), the elapsed time as hours,
  minutes and seconds, and for every port its counters and the change since the last
  screen; with a third port the program writes outside \<^verbatim>\<open>prev_stats\<close>.
\<close>

theorem screen_shows:
  assumes "length (prev_stats st) = 2" and "2 \<le> max_ethports D" and "\<And>cs p. answer D cs (Link_Get_Nowait p) = 0"
    and "clock_now v = Some now" and "tv_sec (start_time st) \<le> tv_sec now"
  shows "if length (eth_now v) \<le> 2
     then \<exists>st' sc. print_stats D v st = Some (Returned 0 st') \<and> screens st' = screens st @ [sc] \<and>
       class_rows sc = map (\<lambda>t. (t, global_statistics (stat_priv (main_stats st')) t, ucast (num_frames_per_cycle (tc (main_config st) t))))
         (filter (\<lambda>t. enabled (tc (main_config st) t)) all_frame_types) \<and>
       (reset_stats st \<longrightarrow> stat_priv (main_stats st') = stats_reset_all_stats (stat_priv (main_stats st))) \<and>
       (case elapsed sc of (h, m, s) \<Rightarrow> 3600 * h + 60 * m + s = tv_sec now - tv_sec (start_time st) \<and> m < 60 \<and> s < 60) \<and>
       map (\<lambda>(_, i, p, d). (i, p)) (port_rows sc) = map (\<lambda>e. (ipackets e, opackets e)) (eth_now v) \<and>
       map (\<lambda>(_, i, p, di, dp, _). (di, dp)) (port_rows sc) = port_changes (eth_now v) (prev_stats st)
     else print_stats D v st = None"
proof (cases "length (eth_now v) \<le> 2")
  case True
  obtain ps prows where p: "print_stats D v st = Some (Returned 0 ((screen_begin st)\<lparr>ports := ps,
       prev_stats := eth_now v @ drop (length (eth_now v)) (prev_stats st),
       screens := screens st @ [\<lparr>spin = spin_count st mod 4, elapsed = elapsed_hms (tv_sec now - tv_sec (start_time st)),
          class_rows = stat_rows (main_config st) (stat_priv (main_stats (screen_begin st))), port_rows = prows\<rparr>]\<rparr>))"
      "map (\<lambda>(_, i, p, d). (i, p)) prows = map (\<lambda>e. (ipackets e, opackets e)) (eth_now v)"
      "map (\<lambda>(_, i, p, di, dp, _). (di, dp)) prows = port_changes (eth_now v) (prev_stats st)"
    using print_stats_result [of v st D] True assms by auto
  then show ?thesis using True elapsed_hms_nonneg [of "tv_sec now - tv_sec (start_time st)"] assms(5)
    by (auto simp: stat_rows_def split: prod.split)
next
  case False
  then show ?thesis using assms print_ports_fault [of "screen_begin st" 0 "eth_now v" D "[]"]
    by (simp add: print_stats_def Let_def)
qed

lemma screen_shows_witness:
  "print_stats ex_dpdk \<lparr>clock_now = Some \<lparr>tv_sec = 3725, tv_nsec = 0\<rparr>,
     eth_now = replicate 3 \<lparr>ipackets = 1, opackets = 2, imissed = 0, ierrors = 0, oerrors = 0\<rparr>\<rparr> (ex_tsn zero_config) = None"
  using screen_shows [of "ex_tsn zero_config" ex_dpdk "\<lparr>clock_now = Some \<lparr>tv_sec = 3725, tv_nsec = 0\<rparr>,
     eth_now = replicate 3 \<lparr>ipackets = 1, opackets = 2, imissed = 0, ierrors = 0, oerrors = 0\<rparr>\<rparr>"]
  by (simp add: ex_tsn_def ex_dpdk_def zero_time_def)

section \<open>The keyboard\<close>

definition key_q :: "poll_in \<Rightarrow> bool" where
  "key_q i \<longleftrightarrow> poll_ret i \<noteq> 0 \<and> \<not> rev_err i \<and> \<not> rev_hup i \<and> rev_in i \<and> read_n i > 0 \<and> key i = of_char (CHR ''q'')"

text \<open>The terminal is not hung up.\<close>

definition no_hangup :: "poll_in \<Rightarrow> bool" where
  "no_hangup i \<longleftrightarrow> poll_ret i = 0 \<or> rev_err i \<or> \<not> rev_hup i"

definition screen_ready :: "dpdk \<Rightarrow> ('p, 'f, 'c) tsn_state \<Rightarrow> bool" where
  "screen_ready D st \<longleftrightarrow> length (prev_stats st) = 2 \<and> 2 \<le> max_ethports D \<and> (\<forall>cs p. answer D cs (Link_Get_Nowait p) = 0)"

lemma print_stats_ready:
  assumes "screen_ready D st" and "length (eth_now v) \<le> 2"
  shows "\<exists>st'. print_stats D v st = Some (Returned 0 st') \<and> screen_ready D st' \<and> force_quit st' = force_quit st \<and>
     reg st' = reg st \<and> timer_list st' = timer_list st"
proof -
  have "\<exists>ps prows. print_stats D v st = Some (Returned 0 ((screen_begin st)\<lparr>ports := ps,
       prev_stats := eth_now v @ drop (length (eth_now v)) (prev_stats st),
       screens := screens st @ [\<lparr>spin = spin_count st mod 4,
          elapsed = elapsed_hms (tv_sec (case clock_now v of None \<Rightarrow> zero_time | Some t \<Rightarrow> t) - tv_sec (start_time st)),
          class_rows = stat_rows (main_config st) (stat_priv (main_stats (screen_begin st))), port_rows = prows\<rparr>]\<rparr>))"
    (is "\<exists>ps prows. _ = Some (Returned 0 (?st ps prows))")
    using print_stats_result [of v st D] assms unfolding screen_ready_def by force
  then obtain ps prows where p: "print_stats D v st = Some (Returned 0 (?st ps prows))" by blast
  show ?thesis by (rule exI [of _ "?st ps prows"]) (use p assms in \<open>simp add: screen_ready_def\<close>)
qed

lemma every_fourth_pass:
  fixes n :: nat
  assumes "screen_ready D st" and "length (eth_now v) \<le> 2"
  shows "\<exists>st'. (if n mod 4 = 0 then print_stats D v st else Some (Returned 0 st)) = Some (Returned 0 st') \<and> screen_ready D st' \<and>
     reg st' = reg st \<and> timer_list st' = timer_list st"
  using print_stats_ready [OF assms] assms by (cases "n mod 4 = 0") auto

lemma poll_keyboard_hit:
  assumes "poll_keyboard i c = (r, c')" and "no_hangup i"
  shows "r = 0 \<or> (\<exists>b. c' = Some b)"
  using assms by (auto simp: poll_keyboard_def no_hangup_def split: if_splits)

lemma keyboard_loop_quits:
  assumes "screen_ready D st" and "\<forall>(v, i)\<in>set (pre @ [(v, i)]). length (eth_now v) \<le> 2 \<and> no_hangup i" and "key_q i"
  shows "\<exists>st'. keyboard_loop D (pre @ (v, i) # post) n c st = Some (Returned 0 st') \<and> screen_ready D st' \<and>
     reg st' = reg st \<and> timer_list st' = timer_list st"
  using assms
proof (induction pre arbitrary: n c st)
  case Nil
  obtain st1 where st1: "(if n mod 4 = 0 then print_stats D v st else Some (Returned 0 st)) = Some (Returned 0 st1)"
    "screen_ready D st1" "reg st1 = reg st" "timer_list st1 = timer_list st"
    using every_fourth_pass [OF Nil.prems(1), of v n] Nil.prems by auto
  have "poll_keyboard i c = (1, Some (of_char (CHR ''q'')))" using Nil.prems(3) by (simp add: poll_keyboard_def key_q_def)
  then show ?case using st1 Nil.prems(1) by (auto simp: key_char_def screen_ready_def)
next
  case (Cons x pre)
  obtain w j where x: "x = (w, j)" by (cases x)
  obtain st1 where st1: "(if n mod 4 = 0 then print_stats D w st else Some (Returned 0 st)) = Some (Returned 0 st1)"
    "screen_ready D st1" "reg st1 = reg st" "timer_list st1 = timer_list st"
    using every_fourth_pass [OF Cons.prems(1), of w n] Cons.prems x by auto
  obtain r c' where p: "poll_keyboard j c = (r, c')" by fastforce
  have hit: "r = 0 \<or> (\<exists>b. c' = Some b)" by (rule poll_keyboard_hit [OF p]) (use Cons.prems(2) x in auto)
  have IH: "\<exists>st'. keyboard_loop D (pre @ (v, i) # post) (n + 1) c' st2 = Some (Returned 0 st') \<and> screen_ready D st' \<and>
      reg st' = reg st \<and> timer_list st' = timer_list st"
    if "screen_ready D st2" "reg st2 = reg st" "timer_list st2 = timer_list st" for st2
    using Cons.IH [OF that(1), of "n + 1" c'] Cons.prems(2,3) that by auto
  show ?case
    using st1 p x hit IH [of st1] IH [of "st1\<lparr>reset_stats := True, scrn_clear := True\<rparr>"] IH [of "st1\<lparr>scrn_clear := True\<rparr>"] Cons.prems(1)
    by (auto simp: screen_ready_def)
qed

lemma stop_fold:
  fixes ts :: "('f, 'c) thread_context list"
  assumes "i < length ts" and "stop (ts ! i) \<or> (\<exists>fn\<in>set fs. f_valid fn \<and> thread_ctx fn = i)"
  shows "stop (fold (\<lambda>fn ts. if f_valid fn then ts[thread_ctx fn := (ts ! thread_ctx fn)\<lparr>stop := True\<rparr>] else ts) fs ts ! i)"
  using assms
proof (induction fs arbitrary: ts)
  case (Cons fn fs)
  let ?ts = "if f_valid fn then ts[thread_ctx fn := (ts ! thread_ctx fn)\<lparr>stop := True\<rparr>] else ts"
  have "stop (?ts ! i) \<or> (\<exists>fn\<in>set fs. f_valid fn \<and> thread_ctx fn = i)"
    using Cons.prems by (cases "thread_ctx fn = i") auto
  moreover have "i < length ?ts" using Cons.prems(1) by simp
  ultimately show ?case using Cons.IH [of ?ts] by simp
qed simp

text \<open>
  C19: the keyboard loop ends when \<^verbatim>\<open>q\<close> is pressed: whatever keys were pressed before, as
  long as the terminal is not hung up and there are at most two ports, the function prints
  a last screen, returns with \<^verbatim>\<open>force_quit\<close> set, and every registered function has been
  told to stop.
\<close>

theorem keyboard_quits:
  assumes "screen_ready D st" and "\<not> force_quit st" and "key_q i" and "length (eth_now v) \<le> 2" and "length (eth_now last_v) \<le> 2"
    and "\<forall>(v, i)\<in>set pre. length (eth_now v) \<le> 2 \<and> no_hangup i"
  shows "\<exists>st'. keyboard D get_ok set_ok now (pre @ (v, i) # post) last_v stops st = Some (Returned 0 st') \<and> force_quit st' \<and>
     (\<forall>fn\<in>set (funcs (reg st)). f_valid fn \<and> thread_ctx fn < length (threads (reg st)) \<longrightarrow> stop (threads (reg st') ! thread_ctx fn))"
proof -
  define st1 where "st1 = (snd (stdin_setup get_ok set_ok st))\<lparr>start_time := (case now of None \<Rightarrow> zero_time | Some t \<Rightarrow> t)\<rparr>"
  have 1: "screen_ready D st1" "reg st1 = reg st"
    using assms(1) by (simp_all add: st1_def stdin_setup_def Let_def screen_ready_def)
  have "\<forall>(v, i)\<in>set (pre @ [(v, i)]). length (eth_now v) \<le> 2 \<and> no_hangup i"
    using assms(3,4,6) by (auto simp: key_q_def no_hangup_def)
  from keyboard_loop_quits [OF 1(1) this assms(3)] obtain st2
    where 2: "keyboard_loop D (pre @ (v, i) # post) 0 None st1 = Some (Returned 0 st2)" "screen_ready D st2" "reg st2 = reg st"
    using 1(2) by fastforce
  from print_stats_ready [OF 2(2) assms(5)] obtain st3
    where 3: "print_stats D last_v st2 = Some (Returned 0 st3)" "reg st3 = reg st" using 2(3) by fastforce
  have "keyboard D get_ok set_ok now (pre @ (v, i) # post) last_v stops st =
      Some (Returned 0 (st3\<lparr>reg := function_stop_all (reg st3), timer_list := thread_timer_stop_all stops (timer_list st3), force_quit := True\<rparr>))"
    using 2(1) 3(1) by (simp add: keyboard_def Let_def st1_def [symmetric])
  then show ?thesis using 3(2) by (auto simp: function_stop_all_def intro!: stop_fold)
qed

lemma keyboard_quits_witness:
  "\<exists>st'. keyboard ex_dpdk True True None [(\<lparr>clock_now = None, eth_now = []\<rparr>,
      \<lparr>poll_ret = 1, rev_err = False, rev_hup = False, rev_in = True, read_n = 1, key = of_char (CHR ''r'')\<rparr>),
     (\<lparr>clock_now = None, eth_now = []\<rparr>, \<lparr>poll_ret = 1, rev_err = False, rev_hup = False, rev_in = True, read_n = 1, key = of_char (CHR ''q'')\<rparr>)]
     \<lparr>clock_now = None, eth_now = []\<rparr> (\<lambda>_. True) (ex_tsn zero_config) = Some (Returned 0 st') \<and> force_quit st'"
proof -
  let ?v = "\<lparr>clock_now = None, eth_now = []\<rparr>"
  let ?k = "\<lambda>ch. \<lparr>poll_ret = 1, rev_err = False, rev_hup = False, rev_in = True, read_n = 1, key = of_char ch\<rparr>"
  have "screen_ready ex_dpdk (ex_tsn zero_config)" by (simp add: screen_ready_def ex_tsn_def ex_dpdk_def)
  moreover have "key_q (?k (CHR ''q''))" "\<forall>(v, i)\<in>set [(?v, ?k (CHR ''r''))]. length (eth_now v) \<le> 2 \<and> no_hangup i"
    by (simp_all add: key_q_def no_hangup_def)
  moreover have "\<not> force_quit (ex_tsn zero_config)" by (simp add: ex_tsn_def)
  ultimately show ?thesis
    using keyboard_quits [of ex_dpdk "ex_tsn zero_config" "?k (CHR ''q'')" ?v ?v "[(?v, ?k (CHR ''r''))]" True True None "[]" "\<lambda>_. True"]
    by auto
qed

section \<open>The order of the functions\<close>

text \<open>A call that also notes the thread it was made for.\<close>

definition noting :: "('p \<Rightarrow> nat \<Rightarrow> 's \<Rightarrow> int \<times> 's) \<Rightarrow> 'p \<Rightarrow> nat \<Rightarrow> 's \<times> nat list \<Rightarrow> int \<times> 's \<times> nat list" where
  "noting call p i s = (case call p i (fst s) of (r, s') \<Rightarrow> (r, s', snd s @ [i]))"

definition called_idx :: "('p function_t \<Rightarrow> 'p option) \<Rightarrow> 'p function_t list \<Rightarrow> nat list" where
  "called_idx sel fs = map thread_ctx (filter (\<lambda>fn. f_valid fn \<and> sel fn \<noteq> None) fs)"

lemma call_all_order:
  "case function_call_all sel (noting call) fs (s, l) of
     Returned r (s', l') \<Rightarrow> r = 0 \<and> l' = l @ called_idx sel fs
   | Exited (s', l') \<Rightarrow> \<exists>k<length (called_idx sel fs). l' = l @ take (Suc k) (called_idx sel fs)"
proof (induction fs arbitrary: s l)
  case (Cons fn fs)
  show ?case
  proof (cases "f_valid fn \<and> sel fn \<noteq> None")
    case False
    then have "called_idx sel (fn # fs) = called_idx sel fs"
      "function_call_all sel (noting call) (fn # fs) = function_call_all sel (noting call) fs"
      by (auto simp: called_idx_def fun_eq_iff split: option.splits)
    then show ?thesis using Cons.IH [where s = s and l = l] by (simp only:)
  next
    case True
    then obtain p where p: "sel fn = Some p" by auto
    have c: "called_idx sel (fn # fs) = thread_ctx fn # called_idx sel fs" using True by (simp add: called_idx_def)
    obtain r s1 where n: "call p (thread_ctx fn) s = (r, s1)" by fastforce
    show ?thesis
    proof (cases "r = 0")
      case True
      then show ?thesis using Cons.IH [where s = s1 and l = "l @ [thread_ctx fn]"] \<open>f_valid fn \<and> sel fn \<noteq> None\<close> p n
        by (fastforce simp: noting_def c split: run.splits prod.splits)
    next
      case False
      then show ?thesis using \<open>f_valid fn \<and> sel fn \<noteq> None\<close> p n by (auto simp: noting_def c)
    qed
  qed
qed (simp add: called_idx_def)

lemma free_all_order:
  "function_free_all (\<lambda>p i s. (free p i (fst s), snd s @ [i])) fs (s, l) =
     (function_free_all free fs s, l @ rev (called_idx deinit_fn fs))"
proof -
  have "fold (\<lambda>fn s. if f_valid fn then (case deinit_fn fn of None \<Rightarrow> s | Some p \<Rightarrow> (free p (thread_ctx fn) (fst s), snd s @ [thread_ctx fn])) else s)
          gs (s, l) =
        (fold (\<lambda>fn s. if f_valid fn then (case deinit_fn fn of None \<Rightarrow> s | Some p \<Rightarrow> free p (thread_ctx fn) s) else s) gs s,
         l @ called_idx deinit_fn gs)" for gs
    by (induction gs arbitrary: s l) (auto simp: called_idx_def split: option.split)
  from this [of "rev fs"] show ?thesis by (simp add: function_free_all_def called_idx_def rev_map rev_filter [symmetric])
qed


end
