(* ===== verification/End_To_End.thy ===== *)
theory End_To_End
  imports Tx_Safety
begin

text \<open>
  A frame from the generator of a PROFINET class to its receiver: what the sealing of a
  frame preserves, and that an unmodified frame with the expected counter is accepted.
\<close>

section \<open>Sealing keeps the frame\<close>

lemma meta_cong:
  assumes "\<And>i n. meta \<le> i \<Longrightarrow> i + n \<le> meta + 16 \<Longrightarrow> load i n b' = load i n b"
  shows "meta_data_to_sequence_counter meta n b' = meta_data_to_sequence_counter meta n b"
    and "meta_data_to_tx_timestamp meta b' = meta_data_to_tx_timestamp meta b"
  using assms by (simp_all add: meta_data_to_sequence_counter_def meta_data_to_tx_timestamp_def
      rd32_def rd64_def size_simps)

text \<open>
  \<open>sealed meta hi fc b b'\<close>: \<open>b'\<close> carries counter and timestamp of \<open>fc\<close> at \<open>meta\<close> and is otherwise
  \<open>b\<close> up to \<open>hi\<close>.
\<close>

definition sealed :: "nat \<Rightarrow> nat \<Rightarrow> prepare_frame_config \<Rightarrow> bytes \<Rightarrow> bytes \<Rightarrow> bool" where
  "sealed meta hi fc b b' \<longleftrightarrow>
     length b' = length b \<and>
     meta_data_to_tx_timestamp meta b' = Some (pf_tx_timestamp fc) \<and>
     (\<exists>r. meta_data_to_sequence_counter meta (pf_num_frames_per_cycle fc) b' = Some r \<and>
          unat r = unat (pf_sequence_counter fc) mod (unat (pf_num_frames_per_cycle fc) * 4294967296)) \<and>
     (\<forall>i n. i + n \<le> meta \<or> meta + 16 \<le> i \<and> i + n \<le> hi \<longrightarrow> load i n b' = load i n b)"

lemma write_meta_sealed:
  assumes "write_meta meta fc b = Some b'" and "0 < pf_num_frames_per_cycle fc"
    and "unat (pf_num_frames_per_cycle fc) \<le> 4294967296" and "meta + 16 \<le> length b"
  shows "sealed meta hi fc b b'"
proof -
  have n: "pf_num_frames_per_cycle fc \<noteq> 0" using assms(2) by auto
  obtain b2 b1 where "write_meta meta fc b = Some b2" "length b2 = length b"
    "\<And>i n. i + n \<le> meta \<or> meta + 16 \<le> i \<Longrightarrow> load i n b2 = load i n b"
    "meta_data_to_tx_timestamp meta b2 = Some (pf_tx_timestamp fc)"
    "sequence_counter_to_meta_data meta (pf_sequence_counter fc) (pf_num_frames_per_cycle fc) b = Some b1"
    "\<And>n. meta_data_to_sequence_counter meta n b2 = meta_data_to_sequence_counter meta n b1"
    by (rule write_meta_props [OF n assms(4)]) blast
  then show ?thesis using assms(1) meta_roundtrip [OF _ assms(3)] by (auto simp: sealed_def)
qed

lemma sealed_store:
  assumes "sealed meta hi fc b b1" and "store_opt hi v b1 = Some b'" and "meta + 16 \<le> hi"
  shows "sealed meta hi fc b b'"
proof -
  have l: "length b' = length b1" "\<And>i n. i + n \<le> hi \<Longrightarrow> load i n b' = load i n b1"
    using assms(2) by (auto simp: store_opt_def store_length load_store_before split: option.splits)
  have "meta_data_to_sequence_counter meta n b' = meta_data_to_sequence_counter meta n b1"
    "meta_data_to_tx_timestamp meta b' = meta_data_to_tx_timestamp meta b1" for n
    by (rule meta_cong; use l(2) assms(3) in simp)+
  then show ?thesis using assms(1,3) l by (auto simp: sealed_def)
qed

lemma prepare_sealed:
  assumes r: "prepare_frame_for_tx E ctx fc b = Some (r, ctx', b')"
    and n: "0 < pf_num_frames_per_cycle fc" "unat (pf_num_frames_per_cycle fc) \<le> 4294967296"
    and mode: "pf_mode fc = SECURITY_MODE_NONE \<and> meta = unat (pf_meta_data_offset fc) \<and> hi = length b \<or>
               pf_mode fc = SECURITY_MODE_AO \<and> meta = 28 \<and> hi = unat (pf_frame_length fc) - 16 \<and>
                 60 \<le> unat (pf_frame_length fc)"
    and b: "meta + 16 \<le> length b"
  shows "sealed meta hi fc b b'"
  using mode
proof
  assume m: "pf_mode fc = SECURITY_MODE_NONE \<and> meta = unat (pf_meta_data_offset fc) \<and> hi = length b"
  then have "write_meta meta fc b = Some b'"
    using r by (auto simp: prepare_frame_for_tx_def Let_def bind_eq_Some_conv)
  then show ?thesis by (rule write_meta_sealed [OF _ n b])
next
  assume m: "pf_mode fc = SECURITY_MODE_AO \<and> meta = 28 \<and> hi = unat (pf_frame_length fc) - 16 \<and>
                 60 \<le> unat (pf_frame_length fc)"
  have sz: "unat (pf_frame_length fc - 16) = hi"
    using unat_sub_nat [of 16 "pf_frame_length fc"] m by simp
  from r m obtain b1 tag where b1: "write_meta meta fc b = Some b1" and t: "store_opt hi tag b1 = Some b'"
    by (auto simp: prepare_frame_for_tx_def Let_def bind_eq_Some_conv size_simps sz case_prod_unfold)
  show ?thesis by (rule sealed_store [OF write_meta_sealed [OF b1 n b] t]) (use m in linarith)
qed

section \<open>Opening a sealed frame\<close>

text \<open>What the receiver reads of a frame whose VLAN tag is in place.\<close>

definition rx_reads :: "nat \<Rightarrow> nat \<Rightarrow> u64 \<Rightarrow> bytes \<Rightarrow> 'c world \<Rightarrow> 'c rx_open \<Rightarrow> bool" where
  "rx_reads meta hi n b w r \<longleftrightarrow>
     (\<forall>fid seq ts pb po b' w'. r = Some (fid, seq, ts, pb, po, b', w') \<longrightarrow>
        rd16 18 b = Some fid \<and> meta_data_to_sequence_counter meta n b = Some seq \<and>
        meta_data_to_tx_timestamp meta b = Some ts \<and> po = meta + 16 \<and>
        (\<forall>k. po + k \<le> hi \<longrightarrow> load po k pb = load po k b) \<and>
        wstat w' = wstat w \<and> rx_sequence_counter w' = rx_sequence_counter w)"

lemma rx_open_none_reads: "rx_reads 20 (length b) (num_frames_per_cycle c) b w (rx_open_none P c txm 18 b w)"
  by (auto simp: rx_reads_def rx_open_none_def size_simps bind_eq_Some_conv tx_timestamp_to_meta_data_def
      intro: load_wr64)

lemma rx_open_ao_reads:
  assumes "60 \<le> unat len"
  shows "rx_reads 28 (unat len - 16) (num_frames_per_cycle c) b w (rx_open_ao P c txm len 18 b w)"
proof -
  have sz: "unat (len - 16) = unat len - 16" using unat_sub_nat [of 16 len] assms by simp
  have "load 44 k b2 = load 44 k b"
    if "tx_timestamp_to_meta_data 28 x b = Some b1" "store_opt (unat len - 16) tag b1 = Some b2" "44 + k \<le> unat len - 16"
    for x b1 b2 tag k
  proof -
    have "load 44 k b2 = load 44 k b1"
      using that(2,3) by (auto simp: store_opt_def load_store_before split: option.splits)
    also have "\<dots> = load 44 k b"
      using that(1) by (auto simp: tx_timestamp_to_meta_data_def size_simps intro: load_wr64)
    finally show ?thesis .
  qed
  then show ?thesis
    by (auto simp: rx_reads_def rx_open_ao_def size_simps bind_eq_Some_conv case_prod_unfold sz Let_def)
qed

lemma pn_rx_body_accepts:
  assumes r: "pn_rx_body P t len p vm m w = Some (d, m', w')"
    and o: "rx_open P (cfg_of P t) (clk P (ticks w)) len p (m_data m) (w\<lparr>ticks := ticks w + 1\<rparr>)
              = Some (class_frame_id t (tc_security_mode (cfg_of P t)), seq, ts, pb, po, b, w1)"
    and w1: "wstat w1 = wstat w" "rx_sequence_counter w1 = seq"
    and pm: "memcmp_neq po pb (pointee (payload_pattern (cfg_of P t))) (payload_pattern_length (cfg_of P t)) = Some False"
  shows "\<exists>now. stat_frame_received (env P) t seq False False False ts now (wstat w) = Some (wstat w') \<and>
           (\<not> exited (wstat w') \<longrightarrow> rx_sequence_counter w' = seq + 1 \<and> (d \<longleftrightarrow> \<not> mirror_of P))"
proof -
  from r o pm w1 obtain w2 where a: "rx_account P t seq False False False ts w1 = Some w2"
    by (auto simp: pn_rx_body_def clock_gettime_ns_def bind_eq_Some_conv Let_def)
  then have st: "stat_frame_received (env P) t seq False False False ts (clk P (ticks w1)) (wstat w) = Some (wstat w2)"
    and seq: "rx_sequence_counter w2 = seq"
    using w1 by (auto simp: rx_account_def clock_gettime_ns_def bind_eq_Some_conv)
  have "wstat w' = wstat w2 \<and> (\<not> exited (wstat w2) \<longrightarrow> rx_sequence_counter w' = seq + 1 \<and> (d \<longleftrightarrow> \<not> mirror_of P))"
  proof (cases "exited (wstat w2)")
    case True
    then show ?thesis using r o pm w1 a by (auto simp: pn_rx_body_def clock_gettime_ns_def Let_def)
  next
    case False
    define w3 where "w3 = w2\<lparr>rx_sequence_counter := seq + 1\<rparr>"
    have v: "rx_verdict True (mirror_of P) seq False False False w2 = (\<not> mirror_of P, w3)"
      by (simp add: rx_verdict_def Let_def w3_def seq)
    have w3: "wstat w3 = wstat w2" "rx_sequence_counter w3 = seq + 1" by (simp_all add: w3_def)
    show ?thesis
      using r o pm w1 a False v w3
      by (auto simp: pn_rx_body_def clock_gettime_ns_def bind_eq_Some_conv queue_mbuf_def Let_def split: if_splits)
  qed
  then show ?thesis using st by auto
qed

section \<open>From the generator to the receiver\<close>

text \<open>The frame the generator of a PROFINET class hands to the driver.\<close>

definition pn_frame_ok :: "traffic_class \<Rightarrow> u16 \<Rightarrow> u64 \<Rightarrow> u64 \<Rightarrow> mbuf \<Rightarrow> bool" where
  "pn_frame_ok c fid seq ts m \<longleftrightarrow>
     (let meta = (if tc_security_mode c = SECURITY_MODE_NONE then 20 else 28); b = m_data m in
      mbuf_ok m \<and> ucast (m_pkt_len m) = frame_length c \<and>
      rd16 12 b = Some ETH_P_8021Q \<and> rd16 16 b = Some ETH_P_PROFINET_RT \<and> rd16 18 b = Some fid \<and>
      meta_data_to_sequence_counter meta (num_frames_per_cycle c) b = Some seq \<and>
      meta_data_to_tx_timestamp meta b = Some ts \<and>
      load (meta + 16) (unat (payload_pattern_length c)) b =
        load 0 (unat (payload_pattern_length c)) (pointee (payload_pattern c)))"

lemma unat_ucast_16_32 [simp]: "unat (ucast (x :: u64) :: u32) = unat x mod 4294967296"
  by simp

lemma pkt_len_id: "unat (n :: u64) \<le> MAX_FRAME_SIZE \<Longrightarrow> (ucast (ucast n :: u32) :: u64) = n"
  by (rule word_unat_eq_iff [THEN iffD2]) (simp only: unat_ucast_32_64 unat_ucast_64_32, simp add: MAX_FRAME_SIZE_def)

lemma header_size_pn: "t \<in> pn_classes \<Longrightarrow> header_size t mode = (if mode = SECURITY_MODE_NONE then 36 else 60)"
  by (cases mode) (auto simp: pn_classes_def)

lemma class_conf_pn:
  assumes "class_conf P t" and "t \<in> pn_classes"
  shows "unat (frame_length (cfg_of P t)) \<le> MAX_FRAME_SIZE"
    and "0 < unat (num_frames_per_cycle (cfg_of P t))" and "unat (num_frames_per_cycle (cfg_of P t)) \<le> MAX_PKT_BURST"
    and "6 \<le> length (mac P)" and "6 \<le> length (destination (cfg_of P t))"
    and "unat (payload_pattern_length (cfg_of P t)) \<le> length (pointee (payload_pattern (cfg_of P t)))"
    and "(if tc_security_mode (cfg_of P t) = SECURITY_MODE_NONE then 36 else 60) + unat (payload_pattern_length (cfg_of P t))
         \<le> unat (frame_length (cfg_of P t))"
  using assms(1) unfolding class_conf_def Let_def class_mode_pn [OF assms(2)] header_size_pn [OF assms(2)] by simp_all

lemma pn_initialize_frame_props:
  assumes conf: "class_conf P t" and t: "t \<in> pn_classes" and m: "MAX_FRAME_SIZE \<le> length (m_data m)"
    and meta: "meta = (if tc_security_mode (cfg_of P t) = SECURITY_MODE_NONE then 20 else 28)"
  obtains m1 where "pn_initialize_frame P t (tc_security_mode (cfg_of P t)) m = Some m1"
    "length (m_data m1) = length (m_data m)" "m_data_len m1 = ucast (frame_length (cfg_of P t))"
    "m_pkt_len m1 = ucast (frame_length (cfg_of P t))"
    "rd16 12 (m_data m1) = Some ETH_P_8021Q" "rd16 16 (m_data m1) = Some ETH_P_PROFINET_RT"
    "rd16 18 (m_data m1) = Some (class_frame_id t (tc_security_mode (cfg_of P t)))"
    "load (meta + 16) (unat (payload_pattern_length (cfg_of P t))) (m_data m1) =
       load 0 (unat (payload_pattern_length (cfg_of P t))) (pointee (payload_pattern (cfg_of P t)))"
proof -
  let ?c = "cfg_of P t" let ?mode = "tc_security_mode ?c" let ?f = "frame_length ?c"
  let ?plen = "unat (payload_pattern_length ?c)"
  note f = class_conf_pn(1) [OF conf t] and s = class_conf_pn(4-6) [OF conf t] and h = class_conf_pn(7) [OF conf t]
  have fm: "unat ?f \<le> length (m_data m)" using f m by simp
  obtain b0 where b0: "memset0 ?f (m_data m) = Some b0" "length b0 = length (m_data m)"
    by (rule memset0_props [OF fm]) blast
  have fb: "unat ?f \<le> length b0" using fm b0(2) by simp
  obtain b1 where b1: "initialize_profinet_frame ?mode b0 ?f (mac P) (destination ?c) (pointee (payload_pattern ?c))
      (payload_pattern_length ?c) (vlan_tci_of ?c) (class_frame_id t ?mode) = Some b1" "length b1 = length b0"
    "rd16 12 b1 = Some ETH_P_8021Q" "rd16 16 b1 = Some ETH_P_PROFINET_RT" "rd16 18 b1 = Some (class_frame_id t ?mode)"
    "load (meta + 16) ?plen b1 = Some (take ?plen (pointee (payload_pattern ?c)))"
    by (rule initialize_profinet_frame_props [OF h fb s meta]) (auto simp: vlan_frame_hdr_def)
  show ?thesis
    by (rule that [of "(set_lengths ?f m)\<lparr>m_data := b1\<rparr>"])
      (use b0 b1 s(3) in \<open>simp_all add: pn_initialize_frame_def Let_def frame_length_16 [OF f] load_in_bounds [of 0]\<close>)
qed

lemma pn_prepare_frame_ok:
  assumes inv: "class_inv P t w" and t: "t \<in> pn_classes" and mode: "tc_security_mode (cfg_of P t) \<noteq> SECURITY_MODE_AE"
    and m: "MAX_FRAME_SIZE \<le> length (m_data m)"
    and seq: "unat seq < unat (num_frames_per_cycle (cfg_of P t)) * 2 ^ 32"
  shows "\<exists>m' w'. pn_prepare P t (num_frames_per_cycle (cfg_of P t)) seq ts m w = Some (m', w') \<and>
           pn_frame_ok (cfg_of P t) (class_frame_id t (tc_security_mode (cfg_of P t))) seq ts m'"
proof -
  let ?c = "cfg_of P t" let ?mode = "tc_security_mode ?c" let ?f = "frame_length ?c" let ?n = "num_frames_per_cycle ?c"
  let ?plen = "unat (payload_pattern_length ?c)"
  have conf: "class_conf P t" and off: "meta_data_offset w = get_meta_data_offset t ?mode"
    using inv class_mode_pn [OF t, of P] by (simp_all add: class_inv_def)
  note f = class_conf_pn(1) [OF conf t] and n = class_conf_pn(2,3) [OF conf t] and h = class_conf_pn(7) [OF conf t]
  define meta :: nat where "meta = (if ?mode = SECURITY_MODE_NONE then 20 else 28)"
  define hi where "hi = (if ?mode = SECURITY_MODE_NONE then length (m_data m) else unat ?f - 16)"
  obtain m1 where m1: "pn_initialize_frame P t ?mode m = Some m1"
    "length (m_data m1) = length (m_data m)" "m_data_len m1 = ucast ?f" "m_pkt_len m1 = ucast ?f"
    and c1: "rd16 12 (m_data m1) = Some ETH_P_8021Q" "rd16 16 (m_data m1) = Some ETH_P_PROFINET_RT"
      "rd16 18 (m_data m1) = Some (class_frame_id t ?mode)"
      "load (meta + 16) ?plen (m_data m1) = load 0 ?plen (pointee (payload_pattern ?c))"
    by (rule pn_initialize_frame_props [OF conf t m meta_def]) blast
  define fc where "fc = \<lparr>pf_mode = ?mode, pf_iv_prefix = pointee (security_iv_prefix ?c),
                  pf_payload_pattern = pointee (ctx_payload_pattern w),
                  pf_payload_pattern_length = ctx_payload_pattern_length w,
                  pf_frame_length = ?f, pf_num_frames_per_cycle = ?n,
                  pf_sequence_counter = seq, pf_tx_timestamp = ts,
                  pf_meta_data_offset = meta_data_offset w\<rparr>"
  have nz: "?n \<noteq> 0" "0 < ?n" using n(1) by (auto simp: word_gt_0)
  obtain m' ctx where p: "pn_prepare P t ?n seq ts m w = Some (m', w\<lparr>tx_security_context := ctx\<rparr>)"
    using pn_prepare_ok [OF inv nz(1) m, of seq ts] t by (auto simp: prepares_def pn_classes_def)
  then obtain r ctx2 where r: "prepare_frame_for_tx (evp P) (tx_security_context w) fc (m_data m1) = Some (r, ctx2, m_data m')"
    and lens: "m_pkt_len m' = ucast ?f"
    using m1 by (auto simp: pn_prepare_def bind_eq_Some_conv Let_def frame_length_16 [OF f] fc_def)
  have "sealed meta hi fc (m_data m1) (m_data m')"
  proof (rule prepare_sealed [OF r])
    show "0 < pf_num_frames_per_cycle fc" "unat (pf_num_frames_per_cycle fc) \<le> 4294967296"
      using nz n by (simp_all add: fc_def MAX_PKT_BURST_def)
    show "meta + 16 \<le> length (m_data m1)" using m1(2) m by (simp add: meta_def MAX_FRAME_SIZE_def)
    have "unat (meta_data_offset w) = meta"
      using t by (auto simp: off get_meta_data_offset_def size_simps pn_classes_def meta_def)
    then show "pf_mode fc = SECURITY_MODE_NONE \<and> meta = unat (pf_meta_data_offset fc) \<and> hi = length (m_data m1) \<or>
               pf_mode fc = SECURITY_MODE_AO \<and> meta = 28 \<and> hi = unat (pf_frame_length fc) - 16 \<and>
                 60 \<le> unat (pf_frame_length fc)"
      using mode h m1(2) by (cases ?mode) (simp_all add: fc_def hi_def meta_def)
  qed
  then have sl: "length (m_data m') = length (m_data m1)" "meta_data_to_tx_timestamp meta (m_data m') = Some ts"
    "\<exists>x. meta_data_to_sequence_counter meta ?n (m_data m') = Some x \<and> unat x = unat seq mod (unat ?n * 4294967296)"
    and fr: "\<And>i k. i + k \<le> meta \<or> meta + 16 \<le> i \<and> i + k \<le> hi \<Longrightarrow> load i k (m_data m') = load i k (m_data m1)"
    by (auto simp: sealed_def fc_def)
  have sq: "meta_data_to_sequence_counter meta ?n (m_data m') = Some seq"
    using sl(3) seq by (auto simp: word_unat_eq_iff)
  have hd: "rd16 i (m_data m') = rd16 i (m_data m1)" if "i \<le> 18" for i
    using fr [of i 2] that by (simp add: rd16_def meta_def split: if_splits)
  have "meta + 16 + ?plen \<le> hi" using h f m by (auto simp: meta_def hi_def split: if_splits)
  then have pl: "load (meta + 16) ?plen (m_data m') = load (meta + 16) ?plen (m_data m1)" by (intro fr) simp
  have ok: "mbuf_ok m'" using sl(1) m1(2) m f lens by (simp add: mbuf_ok_def MAX_FRAME_SIZE_def)
  have "pn_frame_ok ?c (class_frame_id t ?mode) seq ts m'"
    using ok lens sq sl(2) pl c1 hd [of 12] hd [of 16] hd [of 18] pkt_len_id [OF f]
    by (simp add: pn_frame_ok_def Let_def meta_def [symmetric])
  with p show ?thesis by blast
qed




lemma pn_rx_step_accepts:
  assumes inv: "class_inv Q t v" and t: "t \<in> pn_classes" and mode: "tc_security_mode (cfg_of Q t) \<noteq> SECURITY_MODE_AE"
    and fr: "pn_frame_ok (cfg_of Q t) (class_frame_id t (tc_security_mode (cfg_of Q t))) seq ts m"
    and rx: "rx_sequence_counter v = seq"
  shows "\<exists>d m' v' now. pn_rx_step Q t (frame_length (cfg_of Q t)) m v = Some (d, m', frame_length (cfg_of Q t), v') \<and>
           stat_frame_received (env Q) t seq False False False ts now (wstat v) = Some (wstat v') \<and>
           (\<not> exited (wstat v') \<longrightarrow> rx_sequence_counter v' = seq + 1 \<and> (d \<longleftrightarrow> \<not> mirror_of Q))"
proof -
  let ?c = "cfg_of Q t" let ?mode = "tc_security_mode ?c" let ?f = "frame_length ?c" let ?b = "m_data m"
  let ?plen = "unat (payload_pattern_length ?c)"
  define meta :: nat where "meta = (if ?mode = SECURITY_MODE_NONE then 20 else 28)"
  define hi where "hi = (if ?mode = SECURITY_MODE_NONE then length ?b else unat ?f - 16)"
  have m: "mbuf_ok m" "ucast (m_pkt_len m) = ?f" "rd16 12 ?b = Some ETH_P_8021Q" "rd16 16 ?b = Some ETH_P_PROFINET_RT"
    "rd16 18 ?b = Some (class_frame_id t ?mode)" "meta_data_to_sequence_counter meta (num_frames_per_cycle ?c) ?b = Some seq"
    "meta_data_to_tx_timestamp meta ?b = Some ts" "load (meta + 16) ?plen ?b = load 0 ?plen (pointee (payload_pattern ?c))"
    using fr by (simp_all add: pn_frame_ok_def meta_def Let_def)
  have conf: "class_conf Q t" using inv by (simp add: class_inv_def)
  note f = class_conf_pn(1) [OF conf t] and h = class_conf_pn(7) [OF conf t] and pl = class_conf_pn(6) [OF conf t]
  have n0: "1 \<le> unat (num_frames_per_cycle ?c)" using class_conf_pn(2) [OF conf t] by simp
  have pinv: "pn_inv Q t 1 ?f v" by (rule class_inv_pn [OF inv t n0])
  have flen: "18 \<le> unat ?f" "unat ?f \<le> length ?b" using h m(1) f by (auto simp: mbuf_ok_def split: if_splits)
  define v1 where "v1 = v\<lparr>ticks := ticks v + 1\<rparr>"
  have sec: "pn_conf Q t" "pn_sec Q t 1 ?f v1" using pinv by (simp_all add: pn_inv_def pn_sec_def v1_def)
  have bl: "MAX_FRAME_SIZE \<le> length ?b" using m(1) by (simp add: mbuf_ok_def)
  obtain fid sq tsx pb po b' x y where
    o: "rx_open Q ?c (clk Q (ticks v)) ?f 18 ?b v1 = Some (fid, sq, tsx, pb, po, b', v1\<lparr>rx_security_context := x, plaintext := y\<rparr>)"
    using rx_open_ok [OF sec _ bl flen(2), of 18 "clk Q (ticks v)"] unfolding opened_def by blast
  have "rx_reads meta hi (num_frames_per_cycle ?c) ?b v1 (rx_open Q ?c (clk Q (ticks v)) ?f 18 ?b v1)"
    using mode h rx_open_none_reads [of ?b ?c v1 Q] rx_open_ao_reads [of ?f ?c ?b v1 Q]
    by (cases ?mode) (simp_all add: rx_open_def meta_def hi_def)
  then have e: "fid = class_frame_id t ?mode" "sq = seq" "tsx = ts" "po = meta + 16"
    and ld: "\<And>k. po + k \<le> hi \<Longrightarrow> load po k pb = load po k ?b"
    using o m by (auto simp: rx_reads_def)
  have "po + ?plen \<le> hi" using h flen(2) e(4) by (auto simp: meta_def hi_def split: if_splits)
  then have pm: "memcmp_neq po pb (pointee (payload_pattern ?c)) (payload_pattern_length ?c) = Some False"
    using ld m(8) pl e(4) by (simp add: memcmp_neq_def load_in_bounds [of 0])
  obtain d m' v' where body: "pn_rx_body Q t ?f 18 False m v = Some (d, m', v')"
    using pn_rx_body_ok [OF pinv m(1), of 18 False] m(2) flen(1) by auto
  have "\<exists>now. stat_frame_received (env Q) t seq False False False ts now (wstat v) = Some (wstat v') \<and>
           (\<not> exited (wstat v') \<longrightarrow> rx_sequence_counter v' = seq + 1 \<and> (d \<longleftrightarrow> \<not> mirror_of Q))"
    by (rule pn_rx_body_accepts [OF body o [unfolded v1_def e(1-3)] _ _ pm]) (simp_all add: rx)
  moreover have "pn_rx_step Q t ?f m v = Some (d, m', ?f, v')"
    using body m(2-4) flen(1)
    by (simp add: pn_rx_step_def rx_eth_header_def size_simps word_less_nat_alt)
  ultimately show ?thesis by blast
qed

section \<open>The security envelope\<close>

text \<open>
  \<open>rx_verifies E d fc b p d'\<close>: verifying the frame \<open>b\<close> the way the receivers do (the secured part as
  associated data, the counter of the frame in the initialisation vector, the tag at the
  end) succeeds and yields the plaintext \<open>p\<close> (\<open>None\<close> without encryption).
\<close>

definition rx_verifies ::
  "'c evp \<Rightarrow> 'c \<Rightarrow> prepare_frame_config \<Rightarrow> bytes \<Rightarrow> bytes option \<Rightarrow> 'c \<Rightarrow> bool" where
  "rx_verifies E d fc b p d' \<longleftrightarrow>
     (let flen = unat (pf_frame_length fc) in
      \<exists>seq iv ct aad tag.
        meta_data_to_sequence_counter 28 (pf_num_frames_per_cycle fc) b = Some seq \<and>
        prepare_iv (pf_iv_prefix fc) seq = Some iv \<and>
        (p = None \<longrightarrow> ct = None \<and> load 18 (flen - 34) b = Some aad) \<and>
        (p \<noteq> None \<longrightarrow> ct = load 44 (flen - 60) b \<and> ct \<noteq> None \<and> load 18 26 b = Some aad) \<and>
        load (flen - 16) 16 b = Some tag \<and>
        security_decrypt E d ct aad tag iv = (0, d', p))"

lemma case_quad_Some:
  "(case x of (a, b, c, d) \<Rightarrow> f a b c d) = Some y \<longleftrightarrow> (\<exists>a b c d. x = (a, b, c, d) \<and> f a b c d = Some y)"
  by (cases x) auto

lemma prepare_iv_seq:
  assumes "sealed 28 hi fc b b'" and "unat (pf_sequence_counter fc) < unat (pf_num_frames_per_cycle fc) * 2 ^ 32"
  shows "meta_data_to_sequence_counter 28 (pf_num_frames_per_cycle fc) b' = Some (pf_sequence_counter fc)"
  using assms by (auto simp: sealed_def word_unat_eq_iff)

lemma prepare_ao_verifies:
  assumes E: "aead_ok E good" "good c" "good d" and mode: "pf_mode fc = SECURITY_MODE_AO"
    and r: "prepare_frame_for_tx E (Some c) fc b = Some (0, ctx, b')"
    and n: "0 < pf_num_frames_per_cycle fc" "unat (pf_num_frames_per_cycle fc) \<le> 4294967296"
    and b: "60 \<le> unat (pf_frame_length fc)" "unat (pf_frame_length fc) \<le> length b"
    and seq: "unat (pf_sequence_counter fc) < unat (pf_num_frames_per_cycle fc) * 2 ^ 32"
  shows "\<exists>d'. good d' \<and> rx_verifies E d fc b' None d'"
proof -
  let ?l = "unat (pf_frame_length fc)"
  have sz: "unat (pf_frame_length fc - 16) = ?l - 16" "unat (pf_frame_length fc - 34) = ?l - 34"
    using unat_sub_nat [of 16 "pf_frame_length fc"] unat_sub_nat [of 34 "pf_frame_length fc"] b(1) by simp_all
  from r mode obtain b1 iv aad c' x tag where b1: "write_meta 28 fc b = Some b1"
    and iv: "prepare_iv (pf_iv_prefix fc) (pf_sequence_counter fc) = Some iv"
    and aad: "load 18 (?l - 34) b1 = Some aad" and e: "security_encrypt E c None aad iv = (0, c', x, tag)"
    and st: "store_opt (?l - 16) tag b1 = Some b'"
    by (auto simp: prepare_frame_for_tx_def Let_def bind_eq_Some_conv size_simps sz case_quad_Some)
  obtain tg where tg: "tag = Some tg" using security_encrypt_tag [OF e] by auto
  obtain d' where t16: "length tg = 16" and x: "x = None" and d': "good d'" "security_decrypt E d None aad tg iv = (0, d', None)"
    using E e tg unfolding aead_ok_def by (metis option.map_disc_iff)
  have st': "store (?l - 16) tg b1 = Some b'" using st tg by (simp add: store_opt_def)
  have "load 18 (?l - 34) b' = Some aad"
    using load_store_before [OF st', of 18 "?l - 34"] aad b(1) by simp
  moreover have "load (?l - 16) 16 b' = Some tg" using load_store_same_n [OF st' t16] .
  moreover have "meta_data_to_sequence_counter 28 (pf_num_frames_per_cycle fc) b' = Some (pf_sequence_counter fc)"
  proof (rule prepare_iv_seq [OF _ seq])
    show "sealed 28 (?l - 16) fc b b'"
      using sealed_store [OF write_meta_sealed [OF b1 n] st] b by simp
  qed
  ultimately show ?thesis using iv d' by (auto simp: rx_verifies_def Let_def)
qed

lemma prepare_ae_verifies:
  assumes E: "aead_ok E good" "good c" "good d" and mode: "pf_mode fc = SECURITY_MODE_AE"
    and r: "prepare_frame_for_tx E (Some c) fc b = Some (0, ctx, b')"
    and n: "0 < pf_num_frames_per_cycle fc" "unat (pf_num_frames_per_cycle fc) \<le> 4294967296"
    and b: "60 \<le> unat (pf_frame_length fc)" "unat (pf_frame_length fc) \<le> length b"
    and plen: "unat (pf_payload_pattern_length fc) = unat (pf_frame_length fc) - 60"
    and seq: "unat (pf_sequence_counter fc) < unat (pf_num_frames_per_cycle fc) * 2 ^ 32"
  shows "\<exists>d'. good d' \<and>
     rx_verifies E d fc b' (Some (take (unat (pf_payload_pattern_length fc)) (pf_payload_pattern fc))) d'"
proof -
  let ?l = "unat (pf_frame_length fc)" and ?p = "unat (pf_payload_pattern_length fc)"
  have sz: "unat (pf_frame_length fc - 16) = ?l - 16"
    using unat_sub_nat [of 16 "pf_frame_length fc"] b(1) by simp
  from r mode obtain b1 iv aad pt c' ct tag b2 where b1: "write_meta 28 fc b = Some b1"
    and iv: "prepare_iv (pf_iv_prefix fc) (pf_sequence_counter fc) = Some iv"
    and aad: "load 18 26 b1 = Some aad" and pt: "load 0 ?p (pf_payload_pattern fc) = Some pt"
    and e: "security_encrypt E c (Some pt) aad iv = (0, c', ct, tag)"
    and s1: "store_opt 44 ct b1 = Some b2" and st: "store_opt (?l - 16) tag b2 = Some b'"
    by (auto simp: prepare_frame_for_tx_def Let_def bind_eq_Some_conv size_simps sz case_quad_Some)
  have pl: "length pt = ?p" "pt = take ?p (pf_payload_pattern fc)" using pt by (auto simp: load_eq_Some)
  obtain tg where tg: "tag = Some tg" using security_encrypt_tag [OF e] by auto
  obtain d' where t16: "length tg = 16" and cl: "map_option length ct = Some (length pt)"
    and d': "good d'" "security_decrypt E d ct aad tg iv = (0, d', Some pt)"
    using E e tg unfolding aead_ok_def by (metis option.simps(9))
  then obtain cx where cx: "ct = Some cx" "length cx = ?p" using pl by auto
  have s1': "store 44 cx b1 = Some b2" and st': "store (?l - 16) tg b2 = Some b'"
    using s1 st cx tg by (simp_all add: store_opt_def)
  have "load 18 26 b' = Some aad"
    using load_store_before [OF st', of 18 26] load_store_before [OF s1', of 18 26] aad b(1) by simp
  moreover have "load 44 (?l - 60) b' = ct"
    using load_store_before [OF st', of 44 "?l - 60"] load_store_same_n [OF s1' cx(2)] plen cx(1) b(1) by simp
  moreover have "load (?l - 16) 16 b' = Some tg" using load_store_same_n [OF st' t16] .
  moreover have "meta_data_to_sequence_counter 28 (pf_num_frames_per_cycle fc) b' = Some (pf_sequence_counter fc)"
  proof (rule prepare_iv_seq [OF _ seq])
    have "sealed 28 44 fc b b2" using sealed_store [OF write_meta_sealed [OF b1 n] s1] b by simp
    then show "sealed 28 44 fc b b'"
      using st' b(1) load_store_before [OF st'] store_length [OF st']
        meta_cong [of 28 b' b2] by (auto simp: sealed_def)
  qed
  ultimately show ?thesis using iv d' cx pl by (auto simp: rx_verifies_def Let_def)
qed

end
