(* ===== verification/Classes.thy ===== *)
theory Classes
  imports Launch
begin

text \<open>
  The code of the seven thread files as the program runs it: each function of a class is
  the routine its class shares with the others, at the configuration of that class. A
  thread sets itself up, arms its timers and runs the timer loop until it is stopped.
\<close>

section \<open>Set-up on the core\<close>

text \<open>
  \<^verbatim>\<open>prepare_openssl\<close>: one authentication and verification of a dummy frame, whose result is
  ignored; the cipher context moves on.
\<close>

definition dummy_frame :: bytes where
  "dummy_frame = 5 # replicate 2047 0"

definition prepare_openssl :: "'c evp \<Rightarrow> 'c option \<Rightarrow> 'c option" where
  "prepare_openssl E ctx =
     (case ctx of None \<Rightarrow> None
      | Some c \<Rightarrow>
          let iv = cstr ''012345678901''; aad = take (2048 - sizeof security_checksum) dummy_frame
          in case security_encrypt E c None aad iv of (r, c, _, tag) \<Rightarrow>
             if r \<noteq> 0 then Some c
             else case tag of None \<Rightarrow> Some c
             | Some tag \<Rightarrow> (case security_decrypt E c None aad tag iv of (r, c, _) \<Rightarrow> Some c))"

lemma prepare_openssl_None [simp]: "(prepare_openssl E ctx = None) = (ctx = None)"
  by (auto simp: prepare_openssl_def Let_def split: option.splits prod.splits)

text \<open>
  The payload pointer is moved behind the secure headers, and its length is what a secured
  frame leaves for the payload.
\<close>

definition advance_payload :: "u64 \<Rightarrow> 'c world \<Rightarrow> 'c world" where
  "advance_payload flen w = w\<lparr>
     ctx_payload_pattern := map_option (drop secure_header_room) (ctx_payload_pattern w),
     ctx_payload_pattern_length := flen - of_nat (sizeof vlan_ethernet_header)
       - of_nat (sizeof profinet_secure_header) - of_nat (sizeof security_checksum)\<rparr>"

definition secured_thread_setup :: "'c platform \<Rightarrow> stat_frame_type \<Rightarrow> 'c world \<Rightarrow> 'c world" where
  "secured_thread_setup P t w =
     advance_payload (frame_length (cfg_of P t))
       (w\<lparr>tx_security_context := prepare_openssl (evp P) (tx_security_context w),
          rx_security_context := prepare_openssl (evp P) (rx_security_context w)\<rparr>)"

definition tsn_thread_setup where "tsn_thread_setup P t = secured_thread_setup P t"
definition rtc_thread_setup where "rtc_thread_setup P = secured_thread_setup P RTC_FRAME_TYPE"
definition rta_thread_setup where "rta_thread_setup P = secured_thread_setup P RTA_FRAME_TYPE"

definition l2_thread_setup :: "'c platform \<Rightarrow> 'c world \<Rightarrow> 'c world" where
  "l2_thread_setup P w = advance_payload (frame_length (cfg_of P L2_FRAME_TYPE)) w"

definition class_thread_setup :: "'c platform \<Rightarrow> stat_frame_type \<Rightarrow> 'c world \<Rightarrow> 'c world" where
  "class_thread_setup P t =
     (case t of
        TSN_HIGH_FRAME_TYPE \<Rightarrow> tsn_thread_setup P t
      | TSN_LOW_FRAME_TYPE \<Rightarrow> tsn_thread_setup P t
      | RTC_FRAME_TYPE \<Rightarrow> rtc_thread_setup P
      | RTA_FRAME_TYPE \<Rightarrow> rta_thread_setup P
      | L2_FRAME_TYPE \<Rightarrow> l2_thread_setup P
      | _ \<Rightarrow> id)"

section \<open>Arming the timers\<close>

text \<open>
  The classes with a generator thread; UDP arms it with the period of UDP high in both
  instances.
\<close>

definition txgen_period :: "'c platform \<Rightarrow> stat_frame_type \<Rightarrow> u64 option" where
  "txgen_period P t =
     (case t of
        RTA_FRAME_TYPE \<Rightarrow> Some (burst_period_ns (cfg_of P t))
      | DCP_FRAME_TYPE \<Rightarrow> Some (burst_period_ns (cfg_of P t))
      | LLDP_FRAME_TYPE \<Rightarrow> Some (burst_period_ns (cfg_of P t))
      | UDP_HIGH_FRAME_TYPE \<Rightarrow> Some (burst_period_ns (cfg_of P UDP_HIGH_FRAME_TYPE))
      | UDP_LOW_FRAME_TYPE \<Rightarrow> Some (burst_period_ns (cfg_of P UDP_HIGH_FRAME_TYPE))
      | _ \<Rightarrow> None)"

fun timer_names :: "stat_frame_type \<Rightarrow> string \<times> string \<times> string \<times> string" where
  "timer_names TSN_HIGH_FRAME_TYPE = (''TSNHigh'', ''TSNHigh-Rx'', ''TSNHigh-Tx'', '''')"
| "timer_names TSN_LOW_FRAME_TYPE = (''TSNLow'', ''TSNLow-Rx'', ''TSNLow-Tx'', '''')"
| "timer_names RTC_FRAME_TYPE = (''RTC'', ''RTC-Rx'', ''RTC-Tx'', '''')"
| "timer_names RTA_FRAME_TYPE = (''RTA'', ''RTA-Rx'', ''RTA-Tx'', ''RTA-TxGen'')"
| "timer_names DCP_FRAME_TYPE = (''DCP'', ''DCP-Rx'', ''DCP-Tx'', ''DCP TXGEN'')"
| "timer_names LLDP_FRAME_TYPE = (''LLDP'', ''LLDP rx'', ''LLDP tx'', ''LLDP tx gen'')"
| "timer_names UDP_HIGH_FRAME_TYPE = (''UDP High'', ''UDP rx'', ''UDP tx'', ''UDP tx gen'')"
| "timer_names UDP_LOW_FRAME_TYPE = (''UDP Low'', ''UDP rx'', ''UDP tx'', ''UDP tx gen'')"
| "timer_names L2_FRAME_TYPE = (''L2'', ''L2-Rx'', ''L2-Tx'', '''')"

definition arm_timers ::
  "'c platform \<Rightarrow> 'c launch_env \<Rightarrow> stat_frame_type \<Rightarrow> 'c world \<Rightarrow> (int \<times> 'c world) option" where
  "arm_timers P E t w =
     (case timer_names t of (nm, rx_nm, tx_nm, gen_nm) \<Rightarrow>
      case thread_timer_alloc (timer_alloc_ok E) (info_alloc_ok E) nm (of_nat MAX_TIMERS) w of (r, _, _, w) \<Rightarrow>
      if r < 0 then Some (-1, w)
      else case clock_gettime_ns (clk P) w of (curr_ns, w) \<Rightarrow> do {
        (r, w) \<leftarrow> thread_timer_add RX_TIMER rx_nm False RX_ROUTINE curr_ns
                   (application_rx_base_offset_ns (app_config (env P))) w;
        if r \<noteq> 0 then Some (-1, w)
        else do {
          (r, w) \<leftarrow> thread_timer_add TX_TIMER tx_nm (t \<noteq> L2_FRAME_TYPE) TX_ROUTINE curr_ns
                     (application_tx_base_offset_ns (app_config (env P))) w;
          if r \<noteq> 0 then Some (-1, w)
          else (case txgen_period P t of
             None \<Rightarrow> Some (0, w)
           | Some d \<Rightarrow>
               if mirror_of P then Some (0, w)
               else do {
                 (r, w) \<leftarrow> thread_timer_add TXGEN_TIMER gen_nm False TX_GENERATION_ROUTINE curr_ns d w;
                 Some (if r \<noteq> 0 then -1 else 0, w)
               })
        }
      })"

text \<open>
  The function a thread runs. TSN and UDP read their private configuration first, which is
  null when the class is enabled without frames.
\<close>

definition needs_private :: "stat_frame_type \<Rightarrow> bool" where
  "needs_private t \<longleftrightarrow>
     t \<in> {TSN_HIGH_FRAME_TYPE, TSN_LOW_FRAME_TYPE, UDP_HIGH_FRAME_TYPE, UDP_LOW_FRAME_TYPE}"

definition class_threads_routine ::
  "'c platform \<Rightarrow> 'c launch_env \<Rightarrow> stat_frame_type \<Rightarrow> (nat \<Rightarrow> 'c world \<Rightarrow> 'c world) \<Rightarrow> nat
    \<Rightarrow> 'c launch_state \<Rightarrow> (int \<times> 'c world) option" where
  "class_threads_routine P E t interfere fuel s =
     (if needs_private t \<and> private_data s = None then None
      else do {
        (r, w) \<leftarrow> arm_timers P E t (class_thread_setup P t (l_thread s));
        if r \<noteq> 0 then Some (-1, w)
        else thread_timer_run (clk P) (class_callback P t) interfere fuel w
      })"

section \<open>The functions of each class\<close>

definition tsn_initialize_frame where
  "tsn_initialize_frame P t = pn_initialize_frame P t (tc_security_mode (cfg_of P t))"
definition tsn_gen_and_send_frames where "tsn_gen_and_send_frames P t = gen_and_send_frames P t"
definition tsn_tx_thread_routine where "tsn_tx_thread_routine P t = tx_thread_routine P t"
definition tsn_rx_thread_routine where "tsn_rx_thread_routine P t = rx_thread_routine P t"
definition tsn_threads_routine where "tsn_threads_routine P E t = class_threads_routine P E t"
definition tsn_low_init where "tsn_low_init P = class_init P TSN_LOW_FRAME_TYPE"
definition tsn_low_launch where "tsn_low_launch P E = class_launch P E TSN_LOW_FRAME_TYPE"
definition tsn_low_deinit where "tsn_low_deinit P = class_deinit P TSN_LOW_FRAME_TYPE"
definition tsn_high_init where "tsn_high_init P = class_init P TSN_HIGH_FRAME_TYPE"
definition tsn_high_launch where "tsn_high_launch P E = class_launch P E TSN_HIGH_FRAME_TYPE"
definition tsn_high_deinit where "tsn_high_deinit P = class_deinit P TSN_HIGH_FRAME_TYPE"

definition rtc_initialize_frame where
  "rtc_initialize_frame P = pn_initialize_frame P RTC_FRAME_TYPE (tc_security_mode (cfg_of P RTC_FRAME_TYPE))"
definition rtc_gen_and_send_frames where "rtc_gen_and_send_frames P = gen_and_send_frames P RTC_FRAME_TYPE"
definition rtc_tx_thread_routine where "rtc_tx_thread_routine P = tx_thread_routine P RTC_FRAME_TYPE"
definition rtc_rx_thread_routine where "rtc_rx_thread_routine P = rx_thread_routine P RTC_FRAME_TYPE"
definition rtc_threads_routine where "rtc_threads_routine P E = class_threads_routine P E RTC_FRAME_TYPE"
definition rtc_init where "rtc_init P = class_init P RTC_FRAME_TYPE"
definition rtc_launch where "rtc_launch P E = class_launch P E RTC_FRAME_TYPE"
definition rtc_deinit where "rtc_deinit P = class_deinit P RTC_FRAME_TYPE"

definition rta_initialize_frame where
  "rta_initialize_frame P = pn_initialize_frame P RTA_FRAME_TYPE (tc_security_mode (cfg_of P RTA_FRAME_TYPE))"
definition rta_gen_and_send_frames where "rta_gen_and_send_frames P = gen_and_send_frames P RTA_FRAME_TYPE"
definition rta_tx_thread_routine where "rta_tx_thread_routine P = tx_thread_routine P RTA_FRAME_TYPE"
definition rta_rx_thread_routine where "rta_rx_thread_routine P = rx_thread_routine P RTA_FRAME_TYPE"
definition rta_tx_generation_thread_routine where
  "rta_tx_generation_thread_routine P = tx_generation_thread_routine P RTA_FRAME_TYPE"
definition rta_threads_routine where "rta_threads_routine P E = class_threads_routine P E RTA_FRAME_TYPE"
definition rta_init where "rta_init P = class_init P RTA_FRAME_TYPE"
definition rta_launch where "rta_launch P E = class_launch P E RTA_FRAME_TYPE"
definition rta_deinit where "rta_deinit P = class_deinit P RTA_FRAME_TYPE"

definition dcp_gen_and_send_frames where "dcp_gen_and_send_frames P = gen_and_send_frames P DCP_FRAME_TYPE"
definition dcp_tx_thread_routine where "dcp_tx_thread_routine P = tx_thread_routine P DCP_FRAME_TYPE"
definition dcp_rx_thread_routine where "dcp_rx_thread_routine P = rx_thread_routine P DCP_FRAME_TYPE"
definition dcp_tx_generation_thread_routine where
  "dcp_tx_generation_thread_routine P = tx_generation_thread_routine P DCP_FRAME_TYPE"
definition dcp_threads_routine where "dcp_threads_routine P E = class_threads_routine P E DCP_FRAME_TYPE"
definition dcp_init where "dcp_init P = class_init P DCP_FRAME_TYPE"
definition dcp_launch where "dcp_launch P E = class_launch P E DCP_FRAME_TYPE"
definition dcp_deinit where "dcp_deinit P = class_deinit P DCP_FRAME_TYPE"

definition lldp_gen_and_send_frames where "lldp_gen_and_send_frames P = gen_and_send_frames P LLDP_FRAME_TYPE"
definition lldp_tx_thread_routine where "lldp_tx_thread_routine P = tx_thread_routine P LLDP_FRAME_TYPE"
definition lldp_rx_thread_routine where "lldp_rx_thread_routine P = rx_thread_routine P LLDP_FRAME_TYPE"
definition lldp_tx_generation_thread_routine where
  "lldp_tx_generation_thread_routine P = tx_generation_thread_routine P LLDP_FRAME_TYPE"
definition lldp_threads_routine where "lldp_threads_routine P E = class_threads_routine P E LLDP_FRAME_TYPE"
definition lldp_init where "lldp_init P = class_init P LLDP_FRAME_TYPE"
definition lldp_launch where "lldp_launch P E = class_launch P E LLDP_FRAME_TYPE"
definition lldp_deinit where "lldp_deinit P = class_deinit P LLDP_FRAME_TYPE"

definition udp_gen_and_send_frame where
  "udp_gen_and_send_frame P t = gen_and_send_frames P t (num_frames_per_cycle (cfg_of P t))"
definition udp_tx_thread_routine where "udp_tx_thread_routine P t = tx_thread_routine P t"
definition udp_rx_thread_routine where "udp_rx_thread_routine P t = rx_thread_routine P t"
definition udp_tx_generation_thread_routine where
  "udp_tx_generation_thread_routine P t = tx_generation_thread_routine P t"
definition udp_threads_routine where "udp_threads_routine P E t = class_threads_routine P E t"
definition udp_low_init where "udp_low_init P = class_init P UDP_LOW_FRAME_TYPE"
definition udp_low_launch where "udp_low_launch P E = class_launch P E UDP_LOW_FRAME_TYPE"
definition udp_low_deinit where "udp_low_deinit P = class_deinit P UDP_LOW_FRAME_TYPE"
definition udp_high_init where "udp_high_init P = class_init P UDP_HIGH_FRAME_TYPE"
definition udp_high_launch where "udp_high_launch P E = class_launch P E UDP_HIGH_FRAME_TYPE"
definition udp_high_deinit where "udp_high_deinit P = class_deinit P UDP_HIGH_FRAME_TYPE"

definition l2_gen_and_send_frames where
  "l2_gen_and_send_frames P = gen_and_send_frames P L2_FRAME_TYPE (num_frames_per_cycle (cfg_of P L2_FRAME_TYPE))"
definition l2_tx_thread_routine where "l2_tx_thread_routine P = tx_thread_routine P L2_FRAME_TYPE"
definition l2_rx_thread_routine where "l2_rx_thread_routine P = rx_thread_routine P L2_FRAME_TYPE"
definition l2_threads_routine where "l2_threads_routine P E = class_threads_routine P E L2_FRAME_TYPE"
definition l2_init where "l2_init P = class_init P L2_FRAME_TYPE"
definition l2_launch where "l2_launch P E = class_launch P E L2_FRAME_TYPE"
definition l2_deinit where "l2_deinit P = class_deinit P L2_FRAME_TYPE"

end
