(* ===== verification/Life_Cycle.thy ===== *)
theory Life_Cycle
  imports Classes
begin

text \<open>
  From launching a class to its end: a successful launch leaves the thread as its set-up
  needs it, set-up and timers establish the class invariant, and the timer loop keeps it
  until the thread is stopped.
\<close>

section \<open>A created thread runs until it is stopped\<close>

text \<open>What creating a thread has to establish for its set-up to reach the class invariant.\<close>

definition class_created :: "'c platform \<Rightarrow> stat_frame_type \<Rightarrow> 'c world \<Rightarrow> bool" where
  "class_created P t w \<longleftrightarrow>
     class_conf P t \<and> stat_ok (env P) (wstat w) \<and> io_ok (dev w) \<and>
     (class_mode P t \<noteq> SECURITY_MODE_NONE \<longrightarrow> rx_security_context w \<noteq> None \<and> tx_security_context w \<noteq> None) \<and>
     (class_mode P t = SECURITY_MODE_AE \<longrightarrow>
        length (plaintext w) = MAX_FRAME_SIZE \<and>
        unat (frame_length (cfg_of P t)) \<le> length (pointee (ctx_payload_pattern w))) \<and>
     meta_data_offset w = get_meta_data_offset t (class_mode P t) \<and>
     num_frames_available w \<in> {0, num_frames_per_cycle (cfg_of P t)}"

lemma class_mode_plain: "t \<notin> pn_classes \<Longrightarrow> class_mode P t = SECURITY_MODE_NONE"
  by (auto simp: class_mode_def pn_classes_def)

lemma class_thread_setup_pn: "t \<in> pn_classes \<Longrightarrow> class_thread_setup P t = secured_thread_setup P t"
  by (auto simp: pn_classes_def class_thread_setup_def tsn_thread_setup_def rtc_thread_setup_def rta_thread_setup_def)

lemma setup_ok:
  assumes "class_created P t w"
  shows "class_inv P t (class_thread_setup P t w)" and "timer (class_thread_setup P t w) = timer w"
proof -
  let ?f = "frame_length (cfg_of P t)"
  show "timer (class_thread_setup P t w) = timer w"
    by (cases t) (simp_all add: class_thread_setup_def tsn_thread_setup_def rtc_thread_setup_def rta_thread_setup_def
        l2_thread_setup_def secured_thread_setup_def advance_payload_def)
  show "class_inv P t (class_thread_setup P t w)"
  proof (cases "t \<in> pn_classes")
    case True
    have f60: "60 \<le> unat ?f" if "class_mode P t = SECURITY_MODE_AE"
      using assms that by (simp add: class_created_def class_conf_def Let_def)
    then have f: "unat (?f - 60) = unat ?f - 60" if "class_mode P t = SECURITY_MODE_AE"
      using that unat_sub_nat [of 60 ?f] by simp
    with f60 show ?thesis
      using assms
      by (auto simp: class_thread_setup_pn [OF True] secured_thread_setup_def advance_payload_def class_created_def
          class_inv_def class_sec_def size_simps pointee_def split: option.splits)
  next
    case False
    then show ?thesis
      using assms class_mode_plain [OF False, of P]
      by (cases t) (auto simp: class_thread_setup_def l2_thread_setup_def advance_payload_def class_created_def
          class_inv_def class_sec_def pn_classes_def)
  qed
qed


lemma arm_timers_ok:
  assumes inv: "class_inv P t w" and E: "timer_alloc_ok E" "info_alloc_ok E"
  shows "\<exists>w'. arm_timers P E t w = Some (0, w') \<and> class_inv P t w' \<and> timer_wf (timer w')"
proof -
  have i: "class_inv P t (w\<lparr>ticks := k, timer := x\<rparr>)" "class_inv P t (w\<lparr>timer := x, ticks := k\<rparr>)" for x k
    using inv by (simp_all add: class_inv_def class_sec_def)
  obtain nm rx tx gn where n: "timer_names t = (nm, rx, tx, gn)" by (cases "timer_names t") auto
  have T: "RX_TIMER = 0" "TX_TIMER = 1" "TXGEN_TIMER = 2" "MAX_TIMERS = 3"
    by (simp_all add: RX_TIMER_def TX_TIMER_def TXGEN_TIMER_def MAX_TIMERS_def)
  have r3: "replicate 3 z = [z, z, z]" for z :: "timer_fn thread_timer_info" by (simp add: numeral_3_eq_3)
  have used: "\<not> used zero_info" "\<not> active zero_info" by (simp_all add: zero_info_def)
  show ?thesis
    using E i
    by (cases "txgen_period P t"; cases "mirror_of P")
      (simp_all add: arm_timers_def n T thread_timer_alloc_def thread_timer_add_def Let_def clock_gettime_ns_def
        r3 used timer_wf_def)
qed

lemma threads_routine_returns:
  assumes c: "class_created P t (l_thread s)" and priv: "needs_private t \<longrightarrow> private_data s \<noteq> None"
    and E: "timer_alloc_ok E" "info_alloc_ok E"
    and keep: "\<And>k w. class_inv P t w \<Longrightarrow> timer_wf (timer w) \<Longrightarrow>
      class_inv P t (interfere k w) \<and> timer_wf (timer (interfere k w))"
    and stop: "\<And>w. timer_wf (timer w) \<Longrightarrow> timer_stop (interfere n w)" and fuel: "n < fuel"
  shows "\<exists>w'. class_threads_routine P E t interfere fuel s = Some (0, w') \<and> class_inv P t w' \<and>
              (\<exists>tm. timer w' = Some tm \<and> stopped tm)"
proof -
  obtain w1 where w1: "arm_timers P E t (class_thread_setup P t (l_thread s)) = Some (0, w1)"
    "class_inv P t w1" "timer_wf (timer w1)"
    using arm_timers_ok [OF setup_ok(1) [OF c] E] by blast
  have "\<exists>w'. thread_timer_run (clk P) (class_callback P t) interfere fuel w1 = Some (0, w') \<and> class_inv P t w' \<and>
              (\<exists>tm. timer w' = Some tm \<and> stopped tm)"
    by (rule cls.run_returns [OF w1(2,3), where n = n]) (use keep stop fuel in simp_all)
  then show ?thesis using w1(1) priv by (simp add: class_threads_routine_def)
qed



section \<open>Launching establishes what the thread needs\<close>

lemma open_security_ok:
  assumes "open_security E c s = (0, s')"
  obtains tx rx h where
    "s' = (on_thread (\<lambda>w. w\<lparr>tx_security_context := tx, rx_security_context := rx\<rparr>) s)\<lparr>sec_live := h\<rparr>"
    "tc_security_mode c \<noteq> SECURITY_MODE_NONE \<Longrightarrow> tx \<noteq> None \<and> rx \<noteq> None"
proof (cases "tc_security_mode c = SECURITY_MODE_NONE")
  case True
  then have "s' = (on_thread (\<lambda>w. w\<lparr>tx_security_context := None, rx_security_context := None\<rparr>) s)\<lparr>sec_live := sec_live s\<rparr>"
    using assms by (cases s) (auto simp: open_security_def on_thread_def)
  then show ?thesis using True that by blast
next
  case False
  obtain tx h where t: "security_init (tx_sec_env E) (tc_security_algorithm c) (pointee (security_key c)) (sec_live s) = (tx, h)"
    by fastforce
  obtain rx h' where r: "security_init (rx_sec_env E) (tc_security_algorithm c) (pointee (security_key c)) h = (rx, h')"
    by fastforce
  from assms False t r have n: "tx \<noteq> None" "rx \<noteq> None"
    and s': "s' = (on_thread (\<lambda>w. w\<lparr>tx_security_context := map_option (make_ctx E) tx,
                                   rx_security_context := map_option (make_ctx E) rx\<rparr>) s)\<lparr>sec_live := h'\<rparr>"
    by (auto simp: open_security_def on_thread_def Let_def ENOMEM_def split: if_splits)
  show ?thesis by (rule that [OF s']) (use n in simp)
qed

lemma create_tail_ok:
  assumes "create_tail E t mode v lid err s = Some (Returned 0 s')" and "\<And>s s'. err s \<noteq> Some (Returned 0 s')"
  obtains tbl where
    "s' = (on_thread (\<lambda>w. w\<lparr>meta_data_offset := get_meta_data_offset t mode, mbufs := True\<rparr>) s)\<lparr>vid2qid := tbl\<rparr>"
    "tsn_set_vlan_qid v (lport2qid lid) (vid2qid s) = (0, tbl)"
proof -
  have m: "mbufs_alloc_ok E" using assms by (auto simp: create_tail_def Let_def split: if_splits)
  obtain r tbl where r: "tsn_set_vlan_qid v (lport2qid lid) (vid2qid s) = (r, tbl)" by fastforce
  have "r = 0 \<or> r = -1" using r by (auto simp: tsn_set_vlan_qid_def split: option.splits if_splits)
  with assms(1) m r show ?thesis using that by (auto simp: create_tail_def on_thread_def Let_def split: if_splits)
qed

text \<open>The VLAN identifier under which a class registers its queue.\<close>

definition class_vid :: "'c platform \<Rightarrow> stat_frame_type \<Rightarrow> u16" where
  "class_vid P t =
     (case t of
        LLDP_FRAME_TYPE \<Rightarrow> LLDP_FAKE_VLAN_ID
      | UDP_HIGH_FRAME_TYPE \<Rightarrow> UDP_HIGH_FAKE_VLAN_ID
      | UDP_LOW_FRAME_TYPE \<Rightarrow> UDP_LOW_FAKE_VLAN_ID
      | _ \<Rightarrow> word_of_int (vid (cfg_of P t)))"

text \<open>
  \<open>prepared P t s s'\<close>: creating the thread of class \<open>t\<close> has turned \<open>s\<close> into \<open>s'\<close>.
\<close>

definition prepared :: "'c platform \<Rightarrow> stat_frame_type \<Rightarrow> 'c launch_state \<Rightarrow> 'c launch_state \<Rightarrow> bool" where
  "prepared P t s s' \<longleftrightarrow>
     (\<exists>tx rx pp pl.
        l_thread s' = (l_thread s)\<lparr>tx_security_context := tx, rx_security_context := rx, ctx_payload_pattern := pp,
          ctx_payload_pattern_length := pl, meta_data_offset := get_meta_data_offset t (class_mode P t), mbufs := True\<rparr> \<and>
        (class_mode P t \<noteq> SECURITY_MODE_NONE \<longrightarrow> tx \<noteq> None \<and> rx \<noteq> None) \<and>
        (t = RTC_FRAME_TYPE \<longrightarrow> length (pointee pp) = unat (frame_length (cfg_of P t)))) \<and>
     (needs_private t \<longrightarrow> private_data s' \<noteq> None) \<and>
     tsn_set_vlan_qid (class_vid P t) (lport2qid (lport_id (cfg_of P t))) (vid2qid s) = (0, vid2qid s')"

lemma secured_prepared:
  assumes o: "open_security E (cfg_of P t) s1 = (0, s2)" and t: "t \<in> pn_classes"
    and c: "create_tail E t (tc_security_mode (cfg_of P t)) (word_of_int (vid (cfg_of P t))) (lport_id (cfg_of P t)) err s2
              = Some (Returned 0 s')"
    and err: "\<And>s s'. err s \<noteq> Some (Returned 0 s')"
    and s1: "l_thread s1 = (l_thread s)\<lparr>ctx_payload_pattern := pp, ctx_payload_pattern_length := pl\<rparr>" "vid2qid s1 = vid2qid s"
    and priv: "needs_private t \<Longrightarrow> private_data s1 \<noteq> None"
    and rtc: "t = RTC_FRAME_TYPE \<Longrightarrow> length (pointee pp) = unat (frame_length (cfg_of P t))"
  shows "prepared P t s s'"
proof -
  obtain tx rx h where s2: "s2 = (on_thread (\<lambda>w. w\<lparr>tx_security_context := tx, rx_security_context := rx\<rparr>) s1)\<lparr>sec_live := h\<rparr>"
    and n: "tc_security_mode (cfg_of P t) \<noteq> SECURITY_MODE_NONE \<Longrightarrow> tx \<noteq> None \<and> rx \<noteq> None"
    using open_security_ok [OF o] by metis
  obtain tbl where s': "s' = (on_thread (\<lambda>w. w\<lparr>meta_data_offset := get_meta_data_offset t (tc_security_mode (cfg_of P t)), mbufs := True\<rparr>) s2)\<lparr>vid2qid := tbl\<rparr>"
    and v: "tsn_set_vlan_qid (word_of_int (vid (cfg_of P t))) (lport2qid (lport_id (cfg_of P t))) (vid2qid s2) = (0, tbl)"
    using create_tail_ok [OF c err] by metis
  have cv: "class_vid P t = word_of_int (vid (cfg_of P t))" using t by (auto simp: class_vid_def pn_classes_def)
  have l: "l_thread s' = (l_thread s)\<lparr>tx_security_context := tx, rx_security_context := rx, ctx_payload_pattern := pp,
          ctx_payload_pattern_length := pl, meta_data_offset := get_meta_data_offset t (class_mode P t), mbufs := True\<rparr>"
    by (simp add: s' s2 on_thread_def s1 class_mode_pn [OF t])
  show ?thesis
    unfolding prepared_def
    by (rule conjI, (rule exI)+, rule conjI [OF l])
      (use n rtc v priv in \<open>auto simp: class_mode_pn [OF t] cv s' s2 on_thread_def s1(2)\<close>)
qed

lemma plain_prepared:
  assumes c: "plain_threads_create P E t v s1 = Some (Returned 0 s')" and t: "t \<notin> pn_classes"
    and act: "CONFIG_IS_TRAFFIC_CLASS_ACTIVE (app_config (env P)) t" and v: "v = class_vid P t"
    and s1: "l_thread s1 = l_thread s" "vid2qid s1 = vid2qid s" and priv: "needs_private t \<Longrightarrow> private_data s1 \<noteq> None"
  shows "prepared P t s s'"
proof -
  from c act have c': "create_tail E t SECURITY_MODE_NONE v (lport_id (cfg_of P t)) (\<lambda>s. Some (Exited s)) s1 = Some (Returned 0 s')"
    by (simp add: plain_threads_create_def)
  obtain tbl where s': "s' = (on_thread (\<lambda>w. w\<lparr>meta_data_offset := get_meta_data_offset t SECURITY_MODE_NONE, mbufs := True\<rparr>) s1)\<lparr>vid2qid := tbl\<rparr>"
    and q: "tsn_set_vlan_qid v (lport2qid (lport_id (cfg_of P t))) (vid2qid s1) = (0, tbl)"
    using create_tail_ok [OF c'] by (metis option.inject run.distinct(1))
  have l: "l_thread s' = (l_thread s)\<lparr>tx_security_context := tx_security_context (l_thread s),
      rx_security_context := rx_security_context (l_thread s), ctx_payload_pattern := ctx_payload_pattern (l_thread s),
      ctx_payload_pattern_length := ctx_payload_pattern_length (l_thread s),
      meta_data_offset := get_meta_data_offset t (class_mode P t), mbufs := True\<rparr>"
    by (simp add: s' on_thread_def s1 class_mode_plain [OF t])
  show ?thesis
    unfolding prepared_def
    by (rule conjI, (rule exI)+, rule conjI [OF l])
      (use q v priv t in \<open>auto simp: class_mode_plain [OF t] s' on_thread_def s1(2) pn_classes_def\<close>)
qed


lemma tsn_prepared:
  assumes c: "tsn_config_init P E t s = Some (Returned 0 s')" and t: "t \<in> {TSN_HIGH_FRAME_TYPE, TSN_LOW_FRAME_TYPE}"
    and act: "CONFIG_IS_TRAFFIC_CLASS_ACTIVE (app_config (env P)) t"
  shows "prepared P t s s'"
proof -
  obtain r s2 where o: "open_security E (cfg_of P t) (s\<lparr>private_data := Some (cfg_of P t)\<rparr>) = (r, s2)" by fastforce
  with c act have r: "r = 0"
    and ct: "create_tail E t (tc_security_mode (cfg_of P t)) (word_of_int (vid (cfg_of P t))) (lport_id (cfg_of P t))
           (\<lambda>s. Some (Returned (- ENOMEM) (tsn_threads_free s))) s2 = Some (Returned 0 s')"
    by (auto simp: tsn_config_init_def tsn_threads_init_def ENOMEM_def split: if_splits)
  show ?thesis
    by (rule secured_prepared [OF o [unfolded r] _ ct, where pp = "ctx_payload_pattern (l_thread s)"
          and pl = "ctx_payload_pattern_length (l_thread s)"])
      (use t in \<open>auto simp: pn_classes_def ENOMEM_def\<close>)
qed

lemma rta_prepared:
  assumes c: "rta_threads_create P E s = Some (Returned 0 s')"
    and act: "CONFIG_IS_TRAFFIC_CLASS_ACTIVE (app_config (env P)) RTA_FRAME_TYPE"
  shows "prepared P RTA_FRAME_TYPE s s'"
proof -
  let ?c = "cfg_of P RTA_FRAME_TYPE"
  obtain r s2 where o: "open_security E ?c s = (r, s2)" by fastforce
  with c act have r: "r = 0"
    and ct: "create_tail E RTA_FRAME_TYPE (tc_security_mode ?c) (word_of_int (vid ?c)) (lport_id ?c)
           (\<lambda>s. Some (Returned (- ENOMEM) (rta_threads_free s))) s2 = Some (Returned 0 s')"
    by (auto simp: rta_threads_create_def Let_def ENOMEM_def split: if_splits)
  show ?thesis
    by (rule secured_prepared [OF o [unfolded r] _ ct, where pp = "ctx_payload_pattern (l_thread s)"
          and pl = "ctx_payload_pattern_length (l_thread s)"])
      (auto simp: pn_classes_def ENOMEM_def needs_private_def)
qed

lemma rtc_prepared:
  assumes c: "rtc_threads_create P E s = Some (Returned 0 s')"
    and act: "CONFIG_IS_TRAFFIC_CLASS_ACTIVE (app_config (env P)) RTC_FRAME_TYPE"
  shows "prepared P RTC_FRAME_TYPE s s'"
proof -
  let ?c = "cfg_of P RTC_FRAME_TYPE"
  let ?pp = "Some (replicate (unat (frame_length ?c)) 0)"
  define s1 where "s1 = (on_thread (\<lambda>w. w\<lparr>ctx_payload_pattern := ?pp, ctx_payload_pattern_length := frame_length ?c\<rparr>) s)
      \<lparr>payload_off := 0\<rparr>"
  obtain r s2 where o: "open_security E ?c s1 = (r, s2)" by fastforce
  have e: "map_option (Returned (- ENOMEM)) x \<noteq> Some (Returned 0 y)" for x and y :: "'a launch_state"
    by (cases x) (simp_all add: ENOMEM_def)
  from c act o e have r: "r = 0"
    and ct: "create_tail E RTC_FRAME_TYPE (tc_security_mode ?c) (word_of_int (vid ?c)) (lport_id ?c)
           (\<lambda>s. map_option (Returned (- ENOMEM)) (rtc_threads_free s)) s2 = Some (Returned 0 s')"
    unfolding rtc_threads_create_def Let_def s1_def [symmetric] by (auto split: if_splits)
  show ?thesis
    by (rule secured_prepared [OF o [unfolded r] _ ct, where pp = ?pp and pl = "frame_length ?c"])
      (use e in \<open>auto simp: pn_classes_def needs_private_def s1_def on_thread_def pointee_def\<close>)
qed

lemma udp_prepared:
  assumes c: "udp_config_init P E t s = Some (Returned 0 s')" and t: "t \<in> {UDP_HIGH_FRAME_TYPE, UDP_LOW_FRAME_TYPE}"
    and act: "CONFIG_IS_TRAFFIC_CLASS_ACTIVE (app_config (env P)) t"
  shows "prepared P t s s'"
proof -
  have "plain_threads_create P E t (class_vid P t) (s\<lparr>private_data := Some (cfg_of P t)\<rparr>) = Some (Returned 0 s')"
    using c t by (auto simp: udp_config_init_def udp_threads_create_def class_vid_def ENOMEM_def split: if_splits)
  from plain_prepared [OF this _ act] t show ?thesis by (auto simp: pn_classes_def)
qed

lemma threads_create_prepared:
  assumes c: "threads_create P E t s = Some (Returned 0 s')"
    and act: "CONFIG_IS_TRAFFIC_CLASS_ACTIVE (app_config (env P)) t"
  shows "prepared P t s s'"
proof -
  have plain: "prepared P t s s'" if "plain_threads_create P E t (class_vid P t) s = Some (Returned 0 s')"
    "t \<in> {DCP_FRAME_TYPE, LLDP_FRAME_TYPE, L2_FRAME_TYPE}"
    by (rule plain_prepared [OF that(1)]) (use that(2) act in \<open>auto simp: pn_classes_def needs_private_def\<close>)
  show ?thesis
    using c act plain tsn_prepared [of P E t s s'] rta_prepared [of P E s s'] rtc_prepared [of P E s s'] udp_prepared [of P E t s s']
    by (cases t) (simp_all add: threads_create_def tsn_high_threads_init_def tsn_low_threads_init_def
        udp_high_threads_init_def udp_low_threads_init_def dcp_threads_create_def lldp_threads_create_def
        l2_threads_create_def class_vid_def)
qed

text \<open>A thread that was launched can run: its set-up finds what it needs.\<close>

lemma launch_created:
  assumes l: "class_launch P E t s = Some (Returned 0 s')" and conf: "class_conf P t" and en: "enabled (cfg_of P t)"
    and w: "stat_ok (env P) (wstat (l_thread s))" "io_ok (dev (l_thread s))" "num_frames_available (l_thread s) = 0"
    and ae: "class_mode P t = SECURITY_MODE_AE \<longrightarrow> t = RTC_FRAME_TYPE \<and> length (plaintext (l_thread s)) = MAX_FRAME_SIZE"
  shows "prepared P t s s' \<and> class_created P t (l_thread s') \<and> (needs_private t \<longrightarrow> private_data s' \<noteq> None) \<and> launched s'"
proof -
  have "0 < num_frames_per_cycle (cfg_of P t)"
    using conf by (auto simp: class_conf_def Let_def word_gt_0)
  then have act: "CONFIG_IS_TRAFFIC_CLASS_ACTIVE (app_config (env P)) t"
    using en by (simp add: CONFIG_IS_TRAFFIC_CLASS_ACTIVE_def)
  obtain r where r: "threads_create P E t s = Some r"
    using l en by (cases "threads_create P E t s") (simp_all add: class_launch_def)
  obtain s1 where s1: "threads_create P E t s = Some (Returned 0 s1)" and s': "s' = s1\<lparr>launched := True\<rparr>"
    using l en r by (cases r) (auto simp: class_launch_def split: if_splits)
  from threads_create_prepared [OF s1 act] have p: "prepared P t s s1" .
  then have "prepared P t s s'" by (simp add: prepared_def s')
  then show ?thesis
    using conf w ae s' by (auto simp: prepared_def class_created_def)
qed

end
