(* ===== verification/Example.thy ===== *)
theory Example
  imports End_To_End Life_Cycle
begin

text \<open>
  A concrete platform and thread on which the hypotheses of the properties hold: seven
  payload bytes in frames of 200, two frames per cycle, a cipher that copies its input
  under a constant tag.
\<close>

definition ex_evp :: "unit evp" where
  "ex_evp = \<lparr>EncryptInit = \<lambda>c _. (c, True), EncryptAad = \<lambda>c _. (c, True), EncryptUpdate = \<lambda>c p. (c, p, True),
     EncryptFinal = \<lambda>c. (c, [], True), GetTag = \<lambda>c. (c, replicate 16 0, True),
     DecryptInit = \<lambda>c _. (c, True), DecryptAad = \<lambda>c _. (c, True), DecryptUpdate = \<lambda>c p. (c, p, True),
     SetTag = \<lambda>c _. (c, True), DecryptFinal = \<lambda>c. (c, [], True)\<rparr>"

definition ex_class :: "security_mode \<Rightarrow> traffic_class" where
  "ex_class mode = zero_class\<lparr>enabled := True, num_frames_per_cycle := 2, vid := 0x101, pcp := 6,
     payload_pattern := Some default_payload_pattern, payload_pattern_length := 7, frame_length := 200,
     destination := default_destination, lport_id := lport_make 1 3, tc_security_mode := mode,
     security_key := Some (replicate 32 7), security_key_length := 32,
     security_iv_prefix := Some (replicate 6 1), security_iv_prefix_length := 6\<rparr>"

definition ex_config :: "security_mode \<Rightarrow> application_config" where
  "ex_config mode = zero_config\<lparr>application_base_cycle_time_ns := 1000000,
     application_tx_base_offset_ns := 600000, application_rx_base_offset_ns := 200000, tc := \<lambda>_. ex_class mode\<rparr>"

definition ex_platform :: "security_mode \<Rightarrow> bool \<Rightarrow> unit platform" where
  "ex_platform mode mirror =
     \<lparr>env = \<lparr>app_config = ex_config mode, is_mirror_mode = mirror, with_mqtt = False\<rparr>,
      clk = \<lambda>k. of_nat k * 100000, nic = \<lambda>_. 64, rx_pkts = \<lambda>_. [], rx_fuel = 100, evp = ex_evp,
      mac = replicate 6 2, inet_pton = \<lambda>_. None, ipv4_cksum = \<lambda>_. 0, udptcp_cksum = \<lambda>_. 0\<rparr>"

definition ex_mbuf :: "nat \<Rightarrow> mbuf" where
  "ex_mbuf i = \<lparr>m_id = i, m_data = replicate 2048 0, m_pkt_len = 0, m_data_len = 0\<rparr>"

definition ex_io :: io where
  "ex_io = \<lparr>tx_buffer = \<lparr>tx_size = 1024, tx_capacity = 1024, pkts = []\<rparr>, tx_pool = [ex_mbuf 1, ex_mbuf 2],
     wire = [], freed = [], tx_calls = 0, rx_calls = 0, recv_timeout = 0\<rparr>"

definition ex_stat :: stat_state where
  "ex_stat = \<lparr>stat_priv = zero_stat_private\<lparr>round_trip_contexts :=
       \<lambda>_. \<lparr>backlog = replicate 2048 \<lparr>b_cycle_number = 0, b_timestamp = 0\<rparr>, backlog_len = 2048\<rparr>\<rparr>,
     histos = \<lambda>_. zero_histogram, mqtt_out = [], trace_out = [], exited = False\<rparr>"

definition ex_world :: "stat_frame_type \<Rightarrow> security_mode \<Rightarrow> unit world" where
  "ex_world t mode =
     \<lparr>name = [], stop = False, lcore_id = 1, mbufs = True, rx_sequence_counter = 0, tx_sequence_counter = 0,
      next_ctx = None, data_cond_var = 0, num_frames_available = 0, is_first = True,
      meta_data_offset = get_meta_data_offset t mode,
      tx_security_context = Some (), rx_security_context = Some (),
      ctx_payload_pattern = Some (replicate 156 0), ctx_payload_pattern_length = 140,
      rx_do_once = 0, tx_do_once = 0, tx_gen_do_once = 0, timer = None, ticks = 0,
      dev = ex_io, wstat = ex_stat, plaintext = replicate 2048 0, signals = [], hung = False\<rparr>"

definition ex_fc :: prepare_frame_config where
  "ex_fc = \<lparr>pf_mode = SECURITY_MODE_AE, pf_iv_prefix = replicate 6 1, pf_payload_pattern = [1, 2, 3, 4],
     pf_payload_pattern_length = 4, pf_frame_length = 64, pf_num_frames_per_cycle = 2, pf_sequence_counter = 9,
     pf_tx_timestamp = 5, pf_meta_data_offset = 28\<rparr>"

definition ex_timer :: "timer_fn thread_timer" where
  "ex_timer = \<lparr>tt_name = [], info = replicate 3 (zero_info\<lparr>used := True, active := True, ti_fn := Some RX_ROUTINE\<rparr>),
     nb_timers = 3, tt_stop = False, stopped = False\<rparr>"

definition ex_sec_env :: sec_env where
  "ex_sec_env = \<lparr>calloc_ok = True, cipher_fetch_ok = True, ctx_new_ok = True, encrypt_init_ok = True\<rparr>"

definition ex_launch_env :: "unit launch_env" where
  "ex_launch_env = \<lparr>tx_sec_env = ex_sec_env, rx_sec_env = ex_sec_env, make_ctx = \<lambda>_. (), config_alloc_ok = True,
     payload_alloc_ok = True, mbufs_alloc_ok = True, timer_alloc_ok = True, info_alloc_ok = True,
     lcore_running = False, remote_launch_ret = 0\<rparr>"

definition ex_launch_state :: "unit launch_state" where
  "ex_launch_state = \<lparr>l_thread = ex_world TSN_HIGH_FRAME_TYPE SECURITY_MODE_NONE, private_data = None,
     vid2qid = Some (replicate 4096 0), sec_live = \<lparr>live_context = 0, live_cipher = 0, live_ctx = 0\<rparr>,
     payload_off = 0, launched = False\<rparr>"

text \<open>The keyboard thread stops the timer before its third pass.\<close>

definition ex_stop :: "nat \<Rightarrow> unit world \<Rightarrow> unit world" where
  "ex_stop k w = (if 2 \<le> k then w\<lparr>timer := map_option (\<lambda>t. t\<lparr>tt_stop := True\<rparr>) (timer w)\<rparr> else w)"

lemma ex_aead: "aead_ok ex_evp (\<lambda>_. True)"
  by (auto simp: aead_ok_def ex_evp_def security_encrypt_def security_decrypt_def split: option.splits)

lemma ex_evp_sizes: "evp_sizes ex_evp"
  by (auto simp: evp_sizes_def ex_evp_def security_encrypt_def security_decrypt_def split: option.splits)

lemmas ex_defs = ex_platform_def ex_config_def ex_class_def zero_class_def zero_config_def

lemma ex_sel [simp]:
  "tc (ex_config mode) t = ex_class mode" "evp (ex_platform mode mi) = ex_evp" "cfg_of (ex_platform mode mi) t = ex_class mode"
  "mac (ex_platform mode mi) = replicate 6 2" "inet_pton (ex_platform mode mi) = (\<lambda>_. None)"
  "rx_pkts (ex_platform mode mi) = (\<lambda>_. [])" "mirror_of (ex_platform mode mi) = mi"
  "app_config (env (ex_platform mode mi)) = ex_config mode" "with_mqtt (env (ex_platform mode mi)) = False"
  "clk (ex_platform mode mi) = (\<lambda>k. of_nat k * 100000)"
  by (simp_all add: ex_platform_def ex_config_def)

lemma ex_class_sel [simp]:
  "enabled (ex_class mode)" "num_frames_per_cycle (ex_class mode) = 2"
  "payload_pattern (ex_class mode) = Some default_payload_pattern" "payload_pattern_length (ex_class mode) = 7"
  "frame_length (ex_class mode) = 200" "destination (ex_class mode) = default_destination"
  "tc_security_mode (ex_class mode) = mode" "security_iv_prefix (ex_class mode) = Some (replicate 6 1)"
  "vid (ex_class mode) = 0x101" "lport_id (ex_class mode) = lport_make 1 3"
  by (simp_all add: ex_class_def zero_class_def)

lemma ex_conf: "class_conf (ex_platform mode mi) t"
proof -
  have "header_size t m + 7 \<le> 200" for m by (cases t; cases m) simp_all
  then show ?thesis
    by (simp add: class_conf_def Let_def pointee_def default_payload_pattern_def cstr_def MAX_FRAME_SIZE_def
        MAX_PKT_BURST_def default_destination_def DCP_LOG_BUFFER_def ex_evp_sizes)
qed

lemma ex_inv:
  "class_inv (ex_platform mode mi) t (ex_world t (class_mode (ex_platform mode mi) t))"
  using ex_conf [of mode mi t]
  by (simp add: class_inv_def ex_world_def class_sec_def stat_ok_def ex_stat_def backlogs_ok_def io_ok_def ex_io_def
      ex_mbuf_def TX_BUFFER_SIZE_def MAX_FRAME_SIZE_def pointee_def ex_config_def zero_config_def)

lemma ex_fc_sel [simp]:
  "pf_mode ex_fc = SECURITY_MODE_AE" "pf_payload_pattern ex_fc = [1, 2, 3, 4]" "pf_payload_pattern_length ex_fc = 4"
  "pf_frame_length ex_fc = 64" "pf_num_frames_per_cycle ex_fc = 2" "pf_sequence_counter ex_fc = 9"
  by (simp_all add: ex_fc_def)

lemma ex_stop_ok:
  "class_inv P t w \<Longrightarrow> timer_wf (timer w) \<Longrightarrow> class_inv P t (ex_stop k w) \<and> timer_wf (timer (ex_stop k w))"
  "timer_wf (timer w) \<Longrightarrow> timer_stop (ex_stop 2 w)"
  by (auto simp: ex_stop_def class_inv_free timer_wf_def timer_stop_def split: option.splits)

lemma ex_timer_wf: "timer_wf (Some ex_timer)"
  by (simp add: timer_wf_def ex_timer_def MAX_TIMERS_def)

end
