(* ===== verification/System_Props.thy ===== *)
theory System_Props
  imports Example
begin

text \<open>
  Properties of whole bursts and of the threads' life cycle: the dispatch of received
  packets to queues, the ownership of received mbufs, and the failures of the code that
  the model exhibits.
\<close>

section \<open>Dispatch\<close>

lemma make_tci_vid:
  assumes "0 \<le> v" and "v < 4096"
  shows "make_tci v p AND 0xFFF = word_of_int v"
proof (rule bit_word_eqI)
  fix n assume n: "n < LENGTH(16)"
  have m: "(0xFFF :: u16) = mask 12" by (simp add: mask_eq_exp_minus_1)
  have "\<not> bit v n" if "12 \<le> n"
  proof -
    have "v = take_bit 12 v" using assms by (simp add: take_bit_int_eq_self)
    then show ?thesis using that by (metis bit_take_bit_iff not_le)
  qed
  then show "bit (make_tci v p AND 0xFFF) n = bit (word_of_int v :: u16) n"
    using n by (cases "n < 12") (auto simp: m make_tci_def bit_simps VLAN_PCP_SHIFT_def)
qed

text \<open>
  C22: received packets reach the queue of their class: once \<^verbatim>\<open>tsn_set_vlan_qid\<close> has
  registered queue \<open>q\<close> for the VLAN of a class, \<^verbatim>\<open>rx_vlan_callback\<close> gives every PROFINET frame
  that was initialised with that VLAN, whatever its priority, security mode and content,
  the queue \<open>q\<close>; registering another VLAN later does not change this.
\<close>

theorem vlan_dispatch:
  assumes "vlan_table_ok tbl" and "tsn_set_vlan_qid (word_of_int v) q tbl = (0, tbl1)" and "0 \<le> v" and "v < 4096"
    and "initialize_profinet_frame mode d flen src dst p plen (make_tci v prio) fid = Some b"
    and "(if mode = SECURITY_MODE_NONE then 36 else 60) + unat plen \<le> unat flen" and "unat flen \<le> length d"
    and "6 \<le> length src" and "6 \<le> length dst" and "unat plen \<le> length p"
    and "tsn_set_vlan_qid u q' tbl1 = (r, tbl2)" and "u \<noteq> word_of_int v"
  shows "packet_qid c tbl1 b = Some q \<and> packet_qid c tbl2 b = Some q"
proof -
  obtain xs where xs: "tbl = Some xs" "length xs = 4096"
    using assms(1) by (auto simp: vlan_table_ok_def RTE_ETHER_MAX_VLAN_ID_def)
  have t1: "tbl1 = Some (xs[unat (word_of_int v :: u16) := q])" "unat (word_of_int v :: u16) < 4095"
    using assms(2) by (auto simp: tsn_set_vlan_qid_def xs RTE_ETHER_MAX_VLAN_ID_def split: if_splits)
  have "unat (get_meta_data_offset RTC_FRAME_TYPE mode) = (if mode = SECURITY_MODE_NONE then 20 else 28)"
    by (simp add: get_meta_data_offset_def size_simps)
  from initialize_profinet_frame_props [OF assms(6-10) this, where tci = "make_tci v prio" and fid = fid]
  have h: "vlan_frame_hdr src dst (make_tci v prio) ETH_P_PROFINET_RT b" using assms(5) by auto
  have "packet_qid c (Some ys) b = Some (ys ! unat (word_of_int v :: u16))" if "length ys = 4096" for ys
    using h t1(2) that make_tci_vid [OF assms(3,4), of prio]
    by (simp add: packet_qid_def vlan_frame_hdr_def size_simps rte_vlan_hdr_def vid2qid_at_def)
  moreover have "tbl2 = Some (if r = 0 then (xs[unat (word_of_int v :: u16) := q])[unat u := q'] else xs[unat (word_of_int v :: u16) := q])"
    using assms(11) t1 by (auto simp: tsn_set_vlan_qid_def split: if_splits)
  moreover have "unat u \<noteq> unat (word_of_int v :: u16)" using assms(12) by (metis of_nat_unat ucast_id)
  ultimately show ?thesis using t1 xs(2) by (auto simp: nth_list_update)
qed

lemma vlan_dispatch_witness:
  "\<exists>tbl1 b. tsn_set_vlan_qid 257 3 (Some (replicate 4096 0)) = (0, tbl1) \<and>
     initialize_profinet_frame SECURITY_MODE_NONE (replicate 64 0) 60 (replicate 6 1) (replicate 6 2) [7] 1 (make_tci 257 6) 5 = Some b \<and>
     packet_qid zero_config tbl1 b = Some 3"
proof -
  have t: "vlan_table_ok (Some (replicate 4096 0))"
    "tsn_set_vlan_qid (word_of_int 257) 3 (Some (replicate 4096 0)) = (0, Some ((replicate 4096 0)[257 := 3]))"
    "(0 :: int) \<le> 257" "(257 :: int) < 4096"
    by (simp_all add: vlan_table_ok_def RTE_ETHER_MAX_VLAN_ID_def tsn_set_vlan_qid_def)
  have f: "(if SECURITY_MODE_NONE = SECURITY_MODE_NONE then 36 else 60) + unat (1 :: u64) \<le> unat (60 :: u64)"
    "unat (60 :: u64) \<le> length (replicate 64 (0 :: byte))" "6 \<le> length (replicate 6 (1 :: byte))"
    "6 \<le> length (replicate 6 (2 :: byte))" "unat (1 :: u64) \<le> length [7 :: byte]" by simp_all
  have "unat (get_meta_data_offset RTC_FRAME_TYPE SECURITY_MODE_NONE) = (if SECURITY_MODE_NONE = SECURITY_MODE_NONE then 20 else 28)"
    by (simp add: get_meta_data_offset_def size_simps)
  from initialize_profinet_frame_props [OF f this, of "make_tci 257 6" 5] obtain b
    where b: "initialize_profinet_frame SECURITY_MODE_NONE (replicate 64 0) 60 (replicate 6 1) (replicate 6 2) [7] 1 (make_tci 257 6) 5 = Some b"
    by metis
  have o: "tsn_set_vlan_qid 9 9 (Some ((replicate 4096 0)[257 := 3])) = (0, Some ((replicate 4096 0)[257 := 3, 9 := 9]))"
    by (simp add: tsn_set_vlan_qid_def RTE_ETHER_MAX_VLAN_ID_def)
  show ?thesis using vlan_dispatch [OF t b f o, of zero_config] t(2) b by (auto simp del: list_update.simps)
qed

section \<open>Bursts\<close>

text \<open>
  C21: no mbuf is lost or freed twice: when a class handles a burst of received packets,
  every mbuf of the burst is afterwards either freed, queued for transmission or on the
  wire, exactly once, together with those the thread owned before; the class invariant
  holds again and the rest of the thread context is untouched.
\<close>

theorem rx_burst_conserves:
  assumes "class_inv P t w" and "length ms \<le> unat (num_frames_per_cycle (cfg_of P t))" and "\<forall>m\<in>set ms. mbuf_ok m"
  shows "\<exists>w'. class_rx_frame P t ms w = Some w' \<and> class_inv P t w' \<and> same_ctx w w' \<and>
    (\<not> exited (wstat w') \<longrightarrow>
       image_mset m_id (mbufs_of (dev w')) = image_mset m_id (mbufs_of (dev w)) + mset (map m_id ms))"
  using class_rx_frame_ok [OF assms] by (simp add: rx_done_def)

lemma rx_burst_conserves_witness:
  "\<exists>w'. class_rx_frame (ex_platform SECURITY_MODE_NONE True) LLDP_FRAME_TYPE [ex_mbuf 3, ex_mbuf 4]
     (ex_world LLDP_FRAME_TYPE SECURITY_MODE_NONE) = Some w'"
proof -
  have m: "class_mode (ex_platform SECURITY_MODE_NONE True) LLDP_FRAME_TYPE = SECURITY_MODE_NONE" by (simp add: class_mode_def)
  have "length [ex_mbuf 3, ex_mbuf 4] \<le> unat (num_frames_per_cycle (cfg_of (ex_platform SECURITY_MODE_NONE True) LLDP_FRAME_TYPE))"
    "\<forall>m\<in>set [ex_mbuf 3, ex_mbuf 4]. mbuf_ok m"
    by (simp_all add: mbuf_ok_def ex_mbuf_def MAX_FRAME_SIZE_def)
  from rx_burst_conserves [OF ex_inv [of SECURITY_MODE_NONE True LLDP_FRAME_TYPE, unfolded m] this]
  show ?thesis by blast
qed



section \<open>Failing set-up\<close>

text \<open>
  A defect of \<^verbatim>\<open>rtc_threads_create\<close>: when the payload block was allocated and a later
  step fails (a security context or the mbuf array), the error path calls
  \<^verbatim>\<open>rtc_threads_free\<close>, which moves the payload pointer back by 44 bytes although no thread
  has moved it forward yet, and releases a pointer that no allocation returned.
\<close>

theorem rtc_create_failure_frees_invalid:
  assumes "CONFIG_IS_TRAFFIC_CLASS_ACTIVE (app_config (env P)) RTC_FRAME_TYPE" and "payload_alloc_ok E"
    and "\<not> mbufs_alloc_ok E \<or> tc_security_mode (cfg_of P RTC_FRAME_TYPE) \<noteq> SECURITY_MODE_NONE \<and> \<not> encrypt_init_ok (rx_sec_env E)"
  shows "rtc_threads_create P E s = None"
proof -
  have open_keeps: "payload_off (snd (open_security E c s)) = payload_off s"
    "ctx_payload_pattern (l_thread (snd (open_security E c s))) = ctx_payload_pattern (l_thread s)" for c and s :: "'a launch_state"
    by (simp_all add: open_security_def on_thread_def Let_def split: prod.split)
  have free: "rtc_threads_free s = None" if "payload_off s = 0" "ctx_payload_pattern (l_thread s) \<noteq> None" for s :: "'a launch_state"
    using that by (auto simp: rtc_threads_free_def secure_header_room_eq)
  have fail: "fst (open_security E (cfg_of P RTC_FRAME_TYPE) s) \<noteq> 0"
    if "tc_security_mode (cfg_of P RTC_FRAME_TYPE) \<noteq> SECURITY_MODE_NONE" "\<not> encrypt_init_ok (rx_sec_env E)" for s :: "'a launch_state"
    using that by (auto simp: open_security_def security_init_def ENOMEM_def Let_def split: prod.split if_splits)
  define s1 where "s1 = (on_thread (\<lambda>w. w\<lparr>ctx_payload_pattern := Some (replicate (unat (frame_length (cfg_of P RTC_FRAME_TYPE))) 0),
      ctx_payload_pattern_length := frame_length (cfg_of P RTC_FRAME_TYPE)\<rparr>) s)\<lparr>payload_off := 0\<rparr>"
  obtain r s2 where o: "open_security E (cfg_of P RTC_FRAME_TYPE) s1 = (r, s2)" by (cases "open_security E (cfg_of P RTC_FRAME_TYPE) s1")
  have "payload_off s1 = 0" "ctx_payload_pattern (l_thread s1) \<noteq> None" by (simp_all add: s1_def on_thread_def)
  then have s2: "payload_off s2 = 0" "ctx_payload_pattern (l_thread s2) \<noteq> None"
    using open_keeps [of "cfg_of P RTC_FRAME_TYPE" s1] o by simp_all
  have "rtc_threads_create P E s = (if r \<noteq> 0 then map_option (Returned (- ENOMEM)) (rtc_threads_free s2)
      else create_tail E RTC_FRAME_TYPE (tc_security_mode (cfg_of P RTC_FRAME_TYPE)) (word_of_int (vid (cfg_of P RTC_FRAME_TYPE)))
        (lport_id (cfg_of P RTC_FRAME_TYPE)) (\<lambda>s. map_option (Returned (- ENOMEM)) (rtc_threads_free s)) s2)"
    using assms(1,2) o by (simp add: rtc_threads_create_def s1_def Let_def)
  then show ?thesis
    using assms(3) fail [of s1] o free [OF s2] s2
    by (auto simp: create_tail_def Let_def on_thread_def intro!: free)
qed

lemma rtc_create_failure_frees_invalid_witness:
  "rtc_threads_create (ex_platform SECURITY_MODE_NONE False) (ex_launch_env\<lparr>mbufs_alloc_ok := False\<rparr>) ex_launch_state = None"
  by (rule rtc_create_failure_frees_invalid)
    (simp_all add: CONFIG_IS_TRAFFIC_CLASS_ACTIVE_def ex_launch_env_def)

text \<open>
  A defect of the TSN start: a TSN class that is enabled but has no frames per cycle is
  launched with success, since \<^verbatim>\<open>tsn_threads_init\<close> returns 0 early, and its thread then
  dereferences the private configuration that was never set.
\<close>

theorem tsn_launch_without_frames_faults:
  assumes "t \<in> {TSN_HIGH_FRAME_TYPE, TSN_LOW_FRAME_TYPE}" and "enabled (cfg_of P t)"
    and "num_frames_per_cycle (cfg_of P t) = 0" and "private_data s = None"
    and "config_alloc_ok E" and "\<not> lcore_running E" and "remote_launch_ret E = 0"
  shows "\<exists>s'. class_launch P E t s = Some (Returned 0 s') \<and> launched s' \<and>
              class_threads_routine P E t interfere fuel s' = None"
  using assms
  by (auto simp: class_launch_def threads_create_def tsn_high_threads_init_def tsn_low_threads_init_def tsn_config_init_def
      tsn_threads_init_def CONFIG_IS_TRAFFIC_CLASS_ACTIVE_def class_threads_routine_def needs_private_def)

definition ex_idle :: "unit platform" where
  "ex_idle = (ex_platform SECURITY_MODE_NONE False)\<lparr>env :=
     \<lparr>app_config = (ex_config SECURITY_MODE_NONE)\<lparr>tc := \<lambda>_. (ex_class SECURITY_MODE_NONE)\<lparr>num_frames_per_cycle := 0\<rparr>\<rparr>,
      is_mirror_mode = False, with_mqtt = False\<rparr>\<rparr>"

lemma tsn_launch_without_frames_faults_witness:
  "\<exists>s'. class_launch ex_idle ex_launch_env TSN_LOW_FRAME_TYPE ex_launch_state = Some (Returned 0 s') \<and>
        class_threads_routine ex_idle ex_launch_env TSN_LOW_FRAME_TYPE ex_stop 10 s' = None"
proof -
  have "TSN_LOW_FRAME_TYPE \<in> {TSN_HIGH_FRAME_TYPE, TSN_LOW_FRAME_TYPE}" "enabled (cfg_of ex_idle TSN_LOW_FRAME_TYPE)"
    "num_frames_per_cycle (cfg_of ex_idle TSN_LOW_FRAME_TYPE) = 0" "private_data ex_launch_state = None"
    "config_alloc_ok ex_launch_env" "\<not> lcore_running ex_launch_env" "remote_launch_ret ex_launch_env = 0"
    by (simp_all add: ex_idle_def ex_class_def ex_launch_state_def ex_launch_env_def)
  from tsn_launch_without_frames_faults [OF this, of ex_stop 10] show ?thesis by blast
qed

end
