(* ===== verification/M_Strings.thy ===== *)
theory M_Strings
  imports C_String
begin

text \<open>
  The string helpers of \<^verbatim>\<open>m_strings.h\<close>. They work in place on a buffer of characters with
  pointers into it: a pointer is an index, the null pointer \<open>None\<close>. A result \<open>None\<close> of a
  function is an access outside the buffer.
\<close>

section \<open>Buffers and the C library\<close>

definition NUL :: char where "NUL = CHR 0x00"

text \<open>The loop \<^verbatim>\<open>while (P(*p)) p++\<close>.\<close>

function scan_while :: "(char \<Rightarrow> bool) \<Rightarrow> string \<Rightarrow> nat \<Rightarrow> nat option" where
  "scan_while P b i = (if i < length b then if P (b ! i) then scan_while P b (Suc i) else Some i else None)"
  by pat_completeness auto

termination
  by (relation "measure (\<lambda>(P, b, i). length b - i)") auto

declare scan_while.simps [simp del]

text \<open>The loop \<^verbatim>\<open>while (p >= str && P(*p)) p--\<close> from \<open>p = e - 1\<close>; the result is \<open>p + 1\<close>.\<close>

fun scan_back :: "(char \<Rightarrow> bool) \<Rightarrow> string \<Rightarrow> nat \<Rightarrow> nat \<Rightarrow> nat" where
  "scan_back P b i e = (if e > i \<and> P (b ! (e - 1)) then scan_back P b i (e - 1) else e)"

declare scan_back.simps [simp del]

text \<open>The index of the terminator of the string at \<open>i\<close>, and the string.\<close>

definition str_end :: "string \<Rightarrow> nat \<Rightarrow> nat option" where
  "str_end = scan_while (\<lambda>c. c \<noteq> NUL)"

definition cstr_at :: "string \<Rightarrow> nat \<Rightarrow> string" where
  "cstr_at b i = takeWhile (\<lambda>c. c \<noteq> NUL) (drop i b)"

definition char_at :: "string \<Rightarrow> nat \<Rightarrow> char option" where
  "char_at b i = (if i < length b then Some (b ! i) else None)"

text \<open>
  \<^verbatim>\<open>strtok_r\<close>: skip delimiters, end the token at the next one. The result is the buffer,
  the token and the saved position.
\<close>

definition strtok_r :: "string \<Rightarrow> string \<Rightarrow> nat \<Rightarrow> (string \<times> nat option \<times> nat) option" where
  "strtok_r delim b start = do {
     i \<leftarrow> scan_while (\<lambda>c. c \<noteq> NUL \<and> c \<in> set delim) b start;
     if b ! i = NUL then Some (b, None, i)
     else do {
       e \<leftarrow> scan_while (\<lambda>c. c \<noteq> NUL \<and> c \<notin> set delim) b i;
       Some (if b ! e = NUL then (b, Some i, e) else (b[e := NUL], Some i, Suc e))
     }
   }"

section \<open>Trimming\<close>

definition trim_rest :: "(char \<Rightarrow> bool) \<Rightarrow> string \<Rightarrow> nat \<Rightarrow> (string \<times> nat) option" where
  "trim_rest P b i = do {
     c \<leftarrow> char_at b i;
     if c = NUL then Some (b, i)
     else do { e \<leftarrow> str_end b i; let e = scan_back P b i e; Some (b[e := NUL], i) }
   }"

definition strtrim :: "string \<Rightarrow> nat option \<Rightarrow> (string \<times> nat option) option" where
  "strtrim b p =
     (case p of
        None \<Rightarrow> Some (b, None)
      | Some i \<Rightarrow> do {
          c \<leftarrow> char_at b i;
          if c = NUL then Some (b, Some i)
          else do { i \<leftarrow> scan_while isspace b i; (b, i) \<leftarrow> trim_rest isspace b i; Some (b, Some i) }
        })"

definition strtrimset :: "string \<Rightarrow> nat option \<Rightarrow> string option \<Rightarrow> (string \<times> nat option) option" where
  "strtrimset b p cs =
     (case (p, cs) of
        (Some i, Some cs) \<Rightarrow> do {
          c \<leftarrow> char_at b i;
          if c = NUL \<or> length cs \<noteq> 2 then Some (b, None)
          else do {
            i \<leftarrow> scan_while (\<lambda>c. c = cs ! 0 \<or> isspace c) b i;
            (b, i) \<leftarrow> trim_rest (\<lambda>c. isspace c \<or> c = cs ! 1) b i;
            Some (b, Some i)
          }
        }
      | _ \<Rightarrow> Some (b, None))"

definition strtrim_quotes :: "string \<Rightarrow> nat \<Rightarrow> (string \<times> nat option) option" where
  "strtrim_quotes b i = do {
     e \<leftarrow> str_end b i;
     if e - i \<ge> 2
     then if b ! i = CHR 0x22 then strtrimset b (Some i) (Some [CHR 0x22, CHR 0x22])
          else if b ! i = CHR 0x27 then strtrimset b (Some i) (Some [CHR 0x27, CHR 0x27])
          else Some (b, Some i)
     else Some (b, Some i)
   }"

section \<open>Tokens\<close>

function strtok_loop :: "string \<Rightarrow> int \<Rightarrow> string \<Rightarrow> nat \<Rightarrow> nat list \<Rightarrow> (nat list \<times> string) option" where
  "strtok_loop delim maxtokens b pos acc = do {
     (b, t, pos) \<leftarrow> strtok_r delim b pos;
     (b, t) \<leftarrow> strtrim b t;
     case t of
       None \<Rightarrow> Some (acc, b)
     | Some t \<Rightarrow> if int (length acc) + 1 < maxtokens then strtok_loop delim maxtokens b pos (acc @ [t])
                 else Some (acc @ [t], b)
   }"
  by pat_completeness auto

termination
  by (relation "measure (\<lambda>(d, m, b, p, acc). nat (m - int (length acc)))") auto

declare strtok_loop.simps [simp del]

text \<open>The result with the pointers in \<^verbatim>\<open>entries\<close> and the buffer; the string starts at index 0.\<close>

definition m_strtok :: "string option \<Rightarrow> string option \<Rightarrow> int \<Rightarrow> (int \<times> nat list \<times> string) option" where
  "m_strtok str delim maxtokens =
     (case (str, delim) of
        (Some b, Some d) \<Rightarrow>
          if d = [] \<or> maxtokens = 0 then Some (- 1, [], b)
          else do {
            e \<leftarrow> str_end b 0;
            if e = 0 then Some (0, [], b)
            else do { (es, b) \<leftarrow> strtok_loop d maxtokens b 0 []; Some (int (length es), es, b) }
          }
      | _ \<Rightarrow> Some (- 1, [], []))"

definition STR_MAX_ARGVS :: int where "STR_MAX_ARGVS = 64"

definition skip_percent :: "string \<Rightarrow> string" where
  "skip_percent l = (case l of a # b # r \<Rightarrow> if a = CHR ''%'' \<and> b = CHR ''|'' then r else l | _ \<Rightarrow> l)"

fun index_of :: "string \<Rightarrow> string list \<Rightarrow> int \<Rightarrow> int" where
  "index_of s [] i = - 1"
| "index_of s (x # xs) i = (if x = s then i else index_of s xs (i + 1))"

text \<open>\<open>x\<close> is the last byte of the copy, which stays uninitialised.\<close>

definition m_stropt :: "char \<Rightarrow> string option \<Rightarrow> string option \<Rightarrow> string option \<Rightarrow> int option" where
  "m_stropt x l str delim =
     (case (l, str, delim) of
        (Some l, Some str, Some delim) \<Rightarrow>
          let l = skip_percent l in
          if l = [] then Some (- 1)
          else do {
            (nb, es, b) \<leftarrow> m_strtok (Some (l @ [NUL, x])) (Some delim) STR_MAX_ARGVS;
            Some (if nb < 0 then - 1 else index_of str (map (cstr_at b) es) 0)
          }
      | _ \<Rightarrow> Some (- 1))"

section \<open>Quoted tokens\<close>

datatype qstate = INIT | WORD | STRING_QUOTE | STRING_TICK | STRING_BRACKET

record qtok =
  q_buf :: string
  q_argv :: "nat list"
  q_state :: qstate
  q_start :: nat

definition end_token :: "nat \<Rightarrow> qtok \<Rightarrow> qtok" where
  "end_token p s = s\<lparr>q_buf := (q_buf s)[p := NUL], q_argv := q_argv s @ [q_start s], q_state := INIT\<rparr>"

definition qtok_char :: "string \<Rightarrow> nat \<Rightarrow> char \<Rightarrow> qtok \<Rightarrow> qtok" where
  "qtok_char delim p c s =
     (case q_state s of
        INIT \<Rightarrow>
          if c = CHR 0x22 then s\<lparr>q_state := STRING_QUOTE, q_start := Suc p\<rparr>
          else if c = CHR 0x27 then s\<lparr>q_state := STRING_TICK, q_start := Suc p\<rparr>
          else if c = CHR ''{'' then s\<lparr>q_state := STRING_BRACKET, q_start := Suc p\<rparr>
          else if c \<notin> set delim then s\<lparr>q_state := WORD, q_start := p\<rparr> else s
      | STRING_QUOTE \<Rightarrow> if c = CHR 0x22 then end_token p s else s
      | STRING_TICK \<Rightarrow> if c = CHR 0x27 then end_token p s else s
      | STRING_BRACKET \<Rightarrow> if c = CHR ''}'' then end_token p s else s
      | WORD \<Rightarrow> if c \<in> set delim then (end_token p s)\<lparr>q_start := Suc p\<rparr> else s)"

lemma length_qtok_char [simp]: "length (q_buf (qtok_char delim p c s)) = length (q_buf s)"
  by (simp add: qtok_char_def end_token_def split: qstate.split)

text \<open>
  The loop; a backslash skips the character behind it without looking at it. The result is
  the position and the state.
\<close>

function qtok_loop :: "string \<Rightarrow> int \<Rightarrow> nat \<Rightarrow> qtok \<Rightarrow> (nat \<times> qtok) option" where
  "qtok_loop delim maxtokens p s =
     (if int (length (q_argv s)) < maxtokens
      then if p < length (q_buf s)
           then let c = q_buf s ! p in
                if c = NUL then Some (p, s)
                else if c = CHR 0x5C then qtok_loop delim maxtokens (p + 2) (s\<lparr>q_start := Suc p\<rparr>)
                else qtok_loop delim maxtokens (Suc p) (qtok_char delim p c s)
           else None
      else Some (p, s))"
  by pat_completeness auto

termination
  by (relation "measure (\<lambda>(d, m, p, s). length (q_buf s) + 2 - p)") auto

declare qtok_loop.simps [simp del]

text \<open>
  \<open>slots\<close> is the number of elements of \<^verbatim>\<open>argv\<close>: the terminating null pointer is stored behind
  the tokens. The first component is the result.
\<close>

definition m_strqtok ::
  "nat \<Rightarrow> string option \<Rightarrow> string option \<Rightarrow> int \<Rightarrow> (int \<times> nat list \<times> string) option" where
  "m_strqtok slots str delim maxtokens =
     (case (str, delim) of
        (Some b, Some delim) \<Rightarrow>
          if maxtokens = 0 then Some (- 1, [], b)
          else do {
            (b, s) \<leftarrow> strtrim b (Some 0);
            s \<leftarrow> s;
            (p, t) \<leftarrow> qtok_loop delim maxtokens s \<lparr>q_buf = b, q_argv = [], q_state = WORD, q_start = s\<rparr>;
            let a = q_argv t;
            let a = (if q_state t \<noteq> INIT \<and> int (length a) < maxtokens then a @ [q_start t] else a);
            let a = (if a = [] \<and> p \<noteq> 0 then [0] else a);
            if length a < slots then Some (int (length a), a, q_buf t) else None
          }
      | _ \<Rightarrow> Some (- 1, [], []))"

section \<open>Case and counting\<close>

definition toupper :: "char \<Rightarrow> char" where
  "toupper c = (if 97 \<le> code c \<and> code c \<le> 122 then char_of (code c - 32) else c)"

text \<open>The loop of both conversions evaluates \<^verbatim>\<open>strlen\<close> again in every pass.\<close>

lemma scan_while_less: "scan_while P b i = Some j \<Longrightarrow> i \<le> j \<and> j < length b"
  by (induction P b i rule: scan_while.induct) (auto simp: scan_while.simps [of P b i for P b i] split: if_splits)

function case_loop :: "(char \<Rightarrow> char) \<Rightarrow> string \<Rightarrow> nat \<Rightarrow> string option" where
  "case_loop f b i =
     (case str_end b 0 of None \<Rightarrow> None
      | Some n \<Rightarrow> if i \<le> n then case_loop f (b[i := f (b ! i)]) (Suc i) else Some b)"
  by pat_completeness auto

termination
  by (relation "measure (\<lambda>(f, b, i). length b - i)") (auto simp: str_end_def dest: scan_while_less)

declare case_loop.simps [simp del]

definition m_strtolower :: "string option \<Rightarrow> string option option" where
  "m_strtolower b = (case b of None \<Rightarrow> Some None | Some b \<Rightarrow> map_option Some (case_loop tolower b 0))"

definition m_strtoupper :: "string option \<Rightarrow> string option option" where
  "m_strtoupper b = (case b of None \<Rightarrow> Some None | Some b \<Rightarrow> map_option Some (case_loop toupper b 0))"

function strcnt_at :: "char \<Rightarrow> string \<Rightarrow> nat \<Rightarrow> int option" where
  "strcnt_at c b i =
     (if i < length b
      then if b ! i = NUL then Some 0
           else do { n \<leftarrow> strcnt_at c b (Suc i); Some (n + (if b ! i = c then 1 else 0)) }
      else None)"
  by pat_completeness auto

termination
  by (relation "measure (\<lambda>(c, b, i). length b - i)") auto

declare strcnt_at.simps [simp del]

definition m_strcnt :: "string option \<Rightarrow> char \<Rightarrow> int option" where
  "m_strcnt s c = (case s of None \<Rightarrow> Some 0 | Some b \<Rightarrow> strcnt_at c b 0)"

text \<open>
  Replacing a duplicate: \<open>h\<close> is the heap of strings, \<open>new\<close> the address \<^verbatim>\<open>malloc\<close> returns,
  if any. Releasing an address that holds no string is a fault.
\<close>

definition m_strdupf ::
  "nat option \<Rightarrow> nat option \<Rightarrow> string option \<Rightarrow> (nat \<rightharpoonup> string) \<Rightarrow> (nat option \<times> (nat \<rightharpoonup> string)) option" where
  "m_strdupf new str newstr h = do {
     h \<leftarrow> (case str of None \<Rightarrow> Some h | Some a \<Rightarrow> if h a = None then None else Some (h(a := None)));
     Some (case (newstr, new) of (Some t, Some a) \<Rightarrow> (Some a, h(a \<mapsto> t)) | _ \<Rightarrow> (None, h))
   }"

section \<open>A backslash at the end\<close>

text \<open>A string that ends in a backslash is read behind its terminator: here the buffer ends there.\<close>

lemma m_strqtok_trailing_backslash:
  "m_strqtok 9 (Some [CHR ''a'', CHR 0x5C, NUL]) (Some '' '') 8 = None"
  by code_simp

end
