(* ===== verification/Strings_Props.thy ===== *)
theory Strings_Props
  imports M_Strings
begin

text \<open>
  The helpers of \<^verbatim>\<open>m_strings.h\<close> against their meaning on strings: trimming, splitting at
  delimiters, the position of an option in a list.
\<close>

section \<open>Strings in a buffer\<close>

lemma scan_while_app:
  assumes "\<forall>c\<in>set xs. P c" and "\<not> P y"
  shows "scan_while P (pre @ xs @ y # post) (length pre) = Some (length pre + length xs)"
  using assms
proof (induction xs arbitrary: pre)
  case Nil
  then show ?case by (subst scan_while.simps) simp
next
  case (Cons x xs)
  have "scan_while P (pre @ (x # xs) @ y # post) (length pre) = scan_while P ((pre @ [x]) @ xs @ y # post) (length (pre @ [x]))"
    using Cons.prems by (subst scan_while.simps) simp
  then show ?case using Cons.IH [of "pre @ [x]"] Cons.prems by simp
qed

lemma scan_while_stop:
  assumes "\<forall>c\<in>set xs. P c" and "ys \<noteq> []" and "\<not> P (hd ys)"
  shows "scan_while P (pre @ xs @ ys) (length pre) = Some (length pre + length xs)"
  using scan_while_app [of xs P "hd ys" pre "tl ys"] assms by simp

lemma scan_back_app:
  assumes "xs = [] \<or> \<not> P (last xs)" and "\<forall>c\<in>set ys. P c" and "b = pre @ xs @ ys @ post"
  shows "scan_back P b (length pre) (length pre + length xs + length ys) = length pre + length xs"
  using assms
proof (induction ys arbitrary: post rule: rev_induct)
  case Nil
  then show ?case by (cases xs rule: rev_cases) (subst scan_back.simps, simp add: nth_append)+
next
  case (snoc y ys)
  have "b ! (length pre + length xs + length ys) = y" using snoc.prems(3) by (simp add: nth_append)
  then have "scan_back P b (length pre) (length pre + length xs + length (ys @ [y])) =
      scan_back P b (length pre) (length pre + length xs + length ys)"
    using snoc.prems(2) by (subst scan_back.simps) simp
  then show ?case using snoc.IH [of "y # post"] snoc.prems by simp
qed

lemma hd_no_nul: "NUL \<notin> set s \<Longrightarrow> s \<noteq> [] \<Longrightarrow> hd s \<noteq> NUL"
  by (cases s) auto

lemma cstr_at_app:
  assumes "NUL \<notin> set s"
  shows "cstr_at (pre @ s @ NUL # post) (length pre) = s"
proof -
  have "\<forall>c\<in>set s. c \<noteq> NUL" using assms by blast
  then show ?thesis by (simp add: cstr_at_def takeWhile_append2)
qed

text \<open>Writing behind the terminator of a string keeps it.\<close>

lemma cstr_at_take:
  assumes "NUL \<in> set (drop i (take n b))" and "take n b' = take n b"
  shows "cstr_at b' i = cstr_at b i"
proof -
  have "cstr_at b j = takeWhile (\<lambda>c. c \<noteq> NUL) (drop j (take n b))" if "NUL \<in> set (drop j (take n b))" for b j
  proof -
    have "drop j b = drop j (take n b) @ drop (j - length (take n b)) (drop n b)" by (metis append_take_drop_id drop_append)
    then show ?thesis using that by (auto simp: cstr_at_def takeWhile_append1)
  qed
  then show ?thesis using assms by metis
qed

section \<open>Trimming and tokens as functions on strings\<close>

definition trim :: "string \<Rightarrow> string" where
  "trim s = rev (dropWhile isspace (rev (dropWhile isspace s)))"

function tokens :: "string \<Rightarrow> string \<Rightarrow> string list" where
  "tokens d s = (let r = dropWhile (\<lambda>c. c \<in> set d) s in
     if r = [] then [] else takeWhile (\<lambda>c. c \<notin> set d) r # tokens d (dropWhile (\<lambda>c. c \<notin> set d) r))"
  by pat_completeness auto

termination
proof (relation "measure (\<lambda>(d, s). length s)", simp, clarify)
  fix d s :: string
  assume r: "dropWhile (\<lambda>c. c \<in> set d) s \<noteq> []"
  let ?r = "dropWhile (\<lambda>c. c \<in> set d) s"
  have "hd ?r \<notin> set d" using hd_dropWhile [OF r] .
  then have "length (dropWhile (\<lambda>c. c \<notin> set d) ?r) < length ?r"
    using r by (cases ?r) (auto simp: less_Suc_eq_le length_dropWhile_le)
  then show "((d, dropWhile (\<lambda>c. c \<notin> set d) ?r), d, s) \<in> measure (\<lambda>(d, s). length s)"
    using length_dropWhile_le [of "\<lambda>c. c \<in> set d" s] by simp
qed

declare tokens.simps [simp del]

lemma trim_parts:
  "\<exists>l r. s = l @ trim s @ r \<and> (\<forall>c\<in>set l. isspace c) \<and> (\<forall>c\<in>set r. isspace c) \<and>
     (trim s = [] \<longrightarrow> r = []) \<and> (trim s \<noteq> [] \<longrightarrow> \<not> isspace (hd (trim s)) \<and> \<not> isspace (last (trim s)))"
proof -
  let ?d = "dropWhile isspace s"
  let ?r = "rev (takeWhile isspace (rev ?d))"
  have d: "?d = trim s @ ?r" by (metis trim_def rev_append rev_rev_ident takeWhile_dropWhile_id)
  have s: "s = takeWhile isspace s @ trim s @ ?r" using d by (metis takeWhile_dropWhile_id)
  have hd: "?d \<noteq> [] \<Longrightarrow> \<not> isspace (hd ?d)" by (rule hd_dropWhile)
  have "?r = []" if "trim s = []"
    using that d hd by (metis append_Nil hd_in_set set_rev set_takeWhileD)
  moreover have "\<not> isspace (hd (trim s)) \<and> \<not> isspace (last (trim s))" if "trim s \<noteq> []"
  proof
    show "\<not> isspace (hd (trim s))" using that hd d by (metis append_is_Nil_conv hd_append2)
    show "\<not> isspace (last (trim s))"
      using that hd_dropWhile [of isspace "rev ?d"] by (simp add: trim_def last_rev)
  qed
  ultimately show ?thesis using s by (metis set_rev set_takeWhileD)
qed

text \<open>\<^verbatim>\<open>strtrim\<close> of a string: the pointer and the string it finds; only the string itself is written.\<close>

lemma strtrim_app:
  assumes "NUL \<notin> set s" and "b = pre @ s @ NUL # post"
  shows "\<exists>b' j. strtrim b (Some (length pre)) = Some (b', Some j) \<and> length b' = length b \<and> take (length pre) b' = pre \<and>
     drop (length pre + length s) b' = NUL # post \<and> length pre \<le> j \<and> j \<le> length pre + length s \<and> cstr_at b' j = trim s"
proof -
  have ni: "\<not> isspace NUL" by (simp add: isspace_def code_def NUL_def)
  obtain l r where lr: "s = l @ trim s @ r" "\<forall>c\<in>set l. isspace c" "\<forall>c\<in>set r. isspace c" "trim s = [] \<Longrightarrow> r = []"
      "trim s \<noteq> [] \<Longrightarrow> \<not> isspace (hd (trim s)) \<and> \<not> isspace (last (trim s))" using trim_parts [of s] by blast
  have n: "\<forall>c\<in>set (trim s). c \<noteq> NUL" "\<forall>c\<in>set r. c \<noteq> NUL" using assms(1) lr(1) by (metis Un_iff set_append)+
  show ?thesis
  proof (cases "trim s = []")
    case True
    then have s: "s = l" using lr by simp
    have w: "scan_while isspace b (length pre) = Some (length pre + length s)"
      using scan_while_app [of l isspace NUL pre post] lr(2) ni s assms(2) by simp
    have c: "cstr_at b (length pre + length s) = []"
      using cstr_at_app [of "[]" "pre @ s" post] assms(2) by simp
    show ?thesis
    proof (cases "s = []")
      case True
      then show ?thesis using assms c \<open>trim s = []\<close> by (simp add: strtrim_def char_at_def)
    next
      case False
      then have "hd s \<noteq> NUL" using assms(1) by (metis hd_in_set)
      then have "b ! length pre \<noteq> NUL" using False assms(2) by (simp add: nth_append hd_conv_nth)
      then show ?thesis using assms(2) w c \<open>trim s = []\<close> False
        by (simp add: strtrim_def char_at_def trim_rest_def nth_append)
    qed
  next
    case False
    let ?t = "trim s" and ?j = "length pre + length l"
    have b: "b = pre @ l @ ?t @ r @ NUL # post" using assms(2) lr(1) by (metis append.assoc)
    have hd: "b ! length pre \<noteq> NUL" "b ! ?j \<noteq> NUL" "\<not> isspace (b ! ?j)"
    proof -
      have "s \<noteq> []" using False lr(1) by auto
      then show "b ! length pre \<noteq> NUL" using assms hd_no_nul [of s] by (simp add: nth_append hd_conv_nth)
      have "b ! ?j = hd ?t" using b False by (simp add: nth_append hd_conv_nth)
      then show "b ! ?j \<noteq> NUL" "\<not> isspace (b ! ?j)" using n(1) lr(5) False by auto
    qed
    have w: "scan_while isspace b (length pre) = Some ?j"
      using scan_while_stop [of l isspace "?t @ r @ NUL # post" pre] lr(2,5) False b by simp
    have e: "str_end b ?j = Some (?j + length ?t + length r)"
    proof -
      have "\<forall>c\<in>set (?t @ r). c \<noteq> NUL" using n by auto
      from scan_while_app [OF this, of NUL "pre @ l" post] show ?thesis using b by (simp add: str_end_def add.assoc)
    qed
    have sb: "scan_back isspace b ?j (?j + length ?t + length r) = ?j + length ?t"
      using scan_back_app [of ?t isspace r b "pre @ l" "NUL # post"] lr(3,5) False b by simp
    let ?b' = "b[?j + length ?t := NUL]"
    have b': "?b' = (pre @ l) @ ?t @ NUL # tl (r @ [NUL]) @ post"
      using b by (cases r) (simp_all add: list_update_append)
    have "strtrim b (Some (length pre)) = Some (?b', Some ?j)"
      using w e sb hd b False by (simp add: strtrim_def char_at_def trim_rest_def Let_def)
    moreover have "cstr_at ?b' ?j = ?t" using cstr_at_app [of ?t "pre @ l"] n(1) b' by auto
    moreover have len: "length s = length l + length ?t + length r" using arg_cong [OF lr(1), of length] by simp
    moreover have "take (length pre) ?b' = pre" unfolding b' by simp
    moreover have "drop (length pre + length s) ?b' = NUL # post" unfolding b' len by (cases r) simp_all
    ultimately show ?thesis by (intro exI [of _ ?b'] exI [of _ ?j]) simp
  qed
qed

text \<open>One token: it is trimmed in place and the rest of the buffer is untouched.\<close>

lemma token_step:
  assumes "NUL \<notin> set s" and b: "b = pre @ s @ NUL # post" and "tokens d s = t # ts"
  shows "\<exists>b1 i b' j pre' s'. strtok_r d b (length pre) = Some (b1, Some i, length pre') \<and> strtrim b1 (Some i) = Some (b', Some j) \<and>
     b' = pre' @ s' @ NUL # post \<and> NUL \<notin> set s' \<and> take (length pre) b' = pre \<and> length pre \<le> length pre' \<and>
     cstr_at b' j = trim t \<and> ts = tokens d s' \<and> (s' = [] \<or> NUL \<in> set (drop j pre'))"
proof -
  define ds r where "ds = takeWhile (\<lambda>c. c \<in> set d) s" and "r = dropWhile (\<lambda>c. c \<in> set d) s"
  define rest where "rest = dropWhile (\<lambda>c. c \<notin> set d) r"
  have s: "s = ds @ r" by (simp add: ds_def r_def)
  have r: "r \<noteq> []" "t = takeWhile (\<lambda>c. c \<notin> set d) r" "ts = tokens d rest"
    using assms(3) by (subst (asm) tokens.simps; simp add: r_def rest_def Let_def split: if_splits)+
  have rt: "r = t @ rest" by (simp add: r(2) rest_def)
  have nul: "\<forall>c\<in>set ds. c \<noteq> NUL" "\<forall>c\<in>set t. c \<noteq> NUL" "NUL \<notin> set rest" "NUL \<notin> set t" using assms(1) s rt by auto
  have ds: "\<forall>c\<in>set ds. c \<in> set d" unfolding ds_def by (blast dest: set_takeWhileD)
  have hr: "hd r \<notin> set d" using hd_dropWhile [of "\<lambda>c. c \<in> set d" s] r(1) by (simp add: r_def)
  have hn: "hd r \<noteq> NUL" using assms(1) r(1) s hd_no_nul [of r] by auto
  have t: "\<forall>c\<in>set t. c \<notin> set d" unfolding r(2) by (blast dest: set_takeWhileD)
  let ?i = "length pre + length ds"
  have w1: "scan_while (\<lambda>c. c \<noteq> NUL \<and> c \<in> set d) b (length pre) = Some ?i"
    using scan_while_stop [of ds "\<lambda>c. c \<noteq> NUL \<and> c \<in> set d" "r @ NUL # post" pre] ds hr nul(1) r(1) b s by simp
  have bi: "b ! ?i \<noteq> NUL" using b s r(1) hn by (simp add: nth_append hd_conv_nth)
  show ?thesis
  proof (cases rest)
    case Nil
    have w2: "scan_while (\<lambda>c. c \<noteq> NUL \<and> c \<notin> set d) b ?i = Some (?i + length t)"
      using scan_while_app [of t "\<lambda>c. c \<noteq> NUL \<and> c \<notin> set d" NUL "pre @ ds" post] t nul b s rt Nil by simp
    have bb: "b = (pre @ ds) @ t @ NUL # post" using b s rt Nil by simp
    obtain b' j where tr: "strtrim b (Some ?i) = Some (b', Some j)" "length b' = length b" "take ?i b' = pre @ ds"
        "drop (?i + length t) b' = NUL # post" "cstr_at b' j = trim t" using strtrim_app [OF nul(4) bb] by auto
    define pre' where "pre' = take (?i + length t) b'"
    have l: "length pre' = ?i + length t" using tr(2) bb by (simp add: pre'_def)
    have "b' = pre' @ [] @ NUL # post" using tr(4) by (metis append_Nil append_take_drop_id pre'_def)
    moreover have "take (length pre) b' = pre" using arg_cong [OF tr(3), of "take (length pre)"] by simp
    moreover have "strtok_r d b (length pre) = Some (b, Some ?i, length pre')"
      using w1 w2 bi bb l by (simp add: strtok_r_def nth_append)
    ultimately show ?thesis using tr(1,5) l r(3) Nil
      by (intro exI [of _ b] exI [of _ ?i] exI [of _ b'] exI [of _ j] exI [of _ pre'] exI [of _ "[]"]) simp
  next
    case (Cons x rest')
    have x: "x \<in> set d" "x \<noteq> NUL" "NUL \<notin> set rest'"
      using dropWhile_eq_Cons_conv [THEN iffD1, OF Cons [unfolded rest_def]] nul(3) Cons by auto
    have w2: "scan_while (\<lambda>c. c \<noteq> NUL \<and> c \<notin> set d) b ?i = Some (?i + length t)"
      using scan_while_app [of t "\<lambda>c. c \<noteq> NUL \<and> c \<notin> set d" x "pre @ ds" "rest' @ NUL # post"] t nul x b s rt Cons by simp
    let ?b1 = "b[?i + length t := NUL]"
    have bb: "?b1 = (pre @ ds) @ t @ NUL # rest' @ NUL # post" "b ! (?i + length t) = x"
      using b s rt Cons by (simp_all add: list_update_append nth_append)
    obtain b' j where tr: "strtrim ?b1 (Some ?i) = Some (b', Some j)" "length b' = length ?b1" "take ?i b' = pre @ ds"
        "drop (?i + length t) b' = NUL # rest' @ NUL # post" "j \<le> ?i + length t" "cstr_at b' j = trim t"
      using strtrim_app [OF nul(4) bb(1)] by auto
    define pre' where "pre' = take (?i + length t) b' @ [NUL]"
    have l: "length pre' = Suc (?i + length t)" using tr(2) b s rt by (simp add: pre'_def)
    have "b' = pre' @ rest' @ NUL # post" using tr(4) by (metis append.assoc append_Cons append_Nil append_take_drop_id pre'_def)
    moreover have "take (length pre) b' = pre" using arg_cong [OF tr(3), of "take (length pre)"] by simp
    moreover have "strtok_r d b (length pre) = Some (?b1, Some ?i, length pre')"
      using w1 w2 bi bb(2) x l by (simp add: strtok_r_def)
    moreover have "NUL \<in> set (drop j pre')" using tr(5) l by (simp add: pre'_def)
    moreover have "ts = tokens d rest'"
      using r(3) x(1) Cons by (simp add: tokens.simps [of d "x # rest'"] tokens.simps [of d rest'])
    ultimately show ?thesis using tr(1,6) l x(3)
      by (intro exI [of _ ?b1] exI [of _ ?i] exI [of _ b'] exI [of _ j] exI [of _ pre'] exI [of _ rest']) simp
  qed
qed

text \<open>No token is left.\<close>

lemma token_none:
  assumes "NUL \<notin> set s" and "b = pre @ s @ NUL # post" and "tokens d s = []"
  shows "\<exists>i. strtok_r d b (length pre) = Some (b, None, i)"
proof -
  have "dropWhile (\<lambda>c. c \<in> set d) s = []"
    using assms(3) by (subst (asm) tokens.simps) (simp add: Let_def split: if_splits)
  then have "\<forall>c\<in>set s. c \<noteq> NUL \<and> c \<in> set d" using assms(1) by (auto simp: dropWhile_eq_Nil_conv)
  from scan_while_app [OF this, of NUL pre post] show ?thesis using assms(2) by (simp add: strtok_r_def nth_append)
qed

lemma strtok_loop_tokens:
  assumes "NUL \<notin> set s" and "b = pre @ s @ NUL # post" and "\<forall>j\<in>set acc. NUL \<in> set (drop j pre)" and "int (length acc) < m"
  shows "\<exists>es b'. strtok_loop d m b (length pre) acc = Some (es, b') \<and>
     map (cstr_at b') es = map (cstr_at b) acc @ take (nat m - length acc) (map trim (tokens d s))"
  using assms
proof (induction "tokens d s" arbitrary: s b pre acc)
  case Nil
  obtain i where "strtok_r d b (length pre) = Some (b, None, i)" using token_none [OF Nil.prems(1,2) Nil.hyps [symmetric]] by blast
  then have "strtok_loop d m b (length pre) acc = Some (acc, b)" by (subst strtok_loop.simps) (simp add: strtrim_def)
  then show ?case using Nil.hyps by simp
next
  case (Cons t ts)
  from token_step [OF Cons.prems(1,2) Cons.hyps(2) [symmetric]] obtain b1 i b' j pre' s' where
    st: "strtok_r d b (length pre) = Some (b1, Some i, length pre')" "strtrim b1 (Some i) = Some (b', Some j)"
      "b' = pre' @ s' @ NUL # post" "NUL \<notin> set s'" "take (length pre) b' = pre" "length pre \<le> length pre'"
      "cstr_at b' j = trim t" "ts = tokens d s'" "s' = [] \<or> NUL \<in> set (drop j pre')" by blast
  have loop: "strtok_loop d m b (length pre) acc =
      (if int (length acc) + 1 < m then strtok_loop d m b' (length pre') (acc @ [j]) else Some (acc @ [j], b'))"
    by (subst strtok_loop.simps) (simp add: st(1,2))
  have old: "map (cstr_at b') acc = map (cstr_at b) acc"
  proof (rule map_cong [OF refl])
    fix k assume "k \<in> set acc"
    then show "cstr_at b' k = cstr_at b k"
      using Cons.prems(2,3) st(5) by (intro cstr_at_take [of _ "length pre"]) simp_all
  qed
  have tk: "take (nat m - length acc) (map trim (tokens d s)) = trim t # take (nat m - length (acc @ [j])) (map trim ts)"
  proof -
    have "nat m - length acc = Suc (nat m - length (acc @ [j]))" using Cons.prems(4) by simp
    then show ?thesis using Cons.hyps(2) [symmetric] by simp
  qed
  show ?case
  proof (cases "int (length acc) + 1 < m")
    case False
    then show ?thesis using loop old tk st(7) by simp
  next
    case True
    have pre: "take (length pre) pre' = pre" using st(3,5,6) by simp
    have "\<exists>es b''. strtok_loop d m b' (length pre') (acc @ [j]) = Some (es, b'') \<and>
        map (cstr_at b'') es = map (cstr_at b') (acc @ [j]) @ take (nat m - length (acc @ [j])) (map trim (tokens d s'))"
    proof (cases "s' = []")
      case True
      have none: "tokens d s' = []" using True by (simp add: tokens.simps)
      obtain i' where "strtok_r d b' (length pre') = Some (b', None, i')" using token_none [OF st(4,3) none] by blast
      then have "strtok_loop d m b' (length pre') (acc @ [j]) = Some (acc @ [j], b')"
        by (subst strtok_loop.simps) (simp add: strtrim_def)
      then show ?thesis using none by simp
    next
      case False
      have "NUL \<in> set (drop k pre')" if "k \<in> set acc" for k
        using Cons.prems(3) that pre by (metis drop_take in_set_takeD)
      then show ?thesis using False st(9) True by (intro Cons.hyps(1) [OF st(8,4,3)]) auto
    qed
    then show ?thesis using loop old tk st(7,8) True by simp
  qed
qed

text \<open>
  C40: looking up an option in a list of options agrees with its meaning: the list (without
  a leading \<^verbatim>\<open>%|\<close>) is split at the delimiters into its non-empty parts, white space around a
  part does not count, and the result is the position of the first of the first 64 parts
  that equals the option, or \<open>-1\<close>. The in-place splitting never leaves the copy.
\<close>

theorem m_stropt_equivalent:
  assumes "NUL \<notin> set l" and "d \<noteq> []"
  shows "m_stropt x (Some l) (Some str) (Some d) =
     Some (index_of str (take 64 (map trim (tokens d (skip_percent l)))) 0)"
proof -
  let ?l = "skip_percent l"
  have n: "NUL \<notin> set ?l" using assms(1) by (auto simp: skip_percent_def split: list.splits if_splits)
  show ?thesis
  proof (cases "?l = []")
    case True
    then show ?thesis by (simp add: m_stropt_def tokens.simps)
  next
    case False
    have "\<forall>c\<in>set ?l. c \<noteq> NUL" using n by blast
    from scan_while_app [OF this, of NUL "[]" "[x]"] have e: "str_end (?l @ [NUL, x]) 0 = Some (length ?l)" by (simp add: str_end_def)
    obtain es b where es: "strtok_loop d STR_MAX_ARGVS (?l @ [NUL, x]) 0 [] = Some (es, b)"
        "map (cstr_at b) es = take 64 (map trim (tokens d ?l))"
      using strtok_loop_tokens [OF n, of "?l @ [NUL, x]" "[]" "[x]" "[]" STR_MAX_ARGVS d] by (auto simp: STR_MAX_ARGVS_def)
    then show ?thesis using False assms(2) e
      by (simp add: m_stropt_def m_strtok_def Let_def STR_MAX_ARGVS_def)
  qed
qed

lemma m_stropt_equivalent_witness:
  "m_stropt NUL (Some ''%| red , green;blue'') (Some ''green'') (Some '',;'') = Some 1"
proof -
  have "tokens '',;'' ('' red , green;blue'') = ['' red '', '' green'', ''blue'']"
    by (subst tokens.simps, simp, subst tokens.simps, simp, subst tokens.simps, simp, subst tokens.simps, simp)
  moreover have "NUL \<notin> set ''%| red , green;blue''" by (simp add: NUL_def)
  ultimately show ?thesis using m_stropt_equivalent [of "''%| red , green;blue''" "'',;''" NUL "''green''"]
    by (simp add: skip_percent_def trim_def isspace_def code_def)
qed

end
