(* ===== verification/Log.thy ===== *)
theory Log
  imports Stats Functions C_String
begin

text \<open>
  The log of \<^verbatim>\<open>log.c\<close> and \<^verbatim>\<open>log.h\<close>: threads format messages into buffers of a memory pool and
  put them on a ring; the log thread formats the statistics once per period and writes the
  buffers to the file. The pool, the ring and the file are part of the state; how much
  the ring can hold is a parameter.
\<close>

section \<open>Formatting\<close>

text \<open>The conversions of \<^verbatim>\<open>printf\<close> the code uses: padded integers and numbers with a fixed number of decimals.\<close>

definition pad_left :: "nat \<Rightarrow> string \<Rightarrow> string" where
  "pad_left n s = replicate (n - length s) (CHR '' '') @ s"

definition fmt_int :: "int \<Rightarrow> string" where
  "fmt_int i = (if i < 0 then ''-'' @ decimal (nat (- i)) else decimal (nat i))"

definition fmt_u64 :: "u64 \<Rightarrow> string" where
  "fmt_u64 w = decimal (unat w)"

definition fmt_fixed :: "nat \<Rightarrow> double \<Rightarrow> string" where
  "fmt_fixed k x =
     (let n = nat (round_half_even (\<bar>x\<bar> * 10 ^ k)); frac = decimal (n mod 10 ^ k) in
      (if x < 0 then ''-'' else '''') @ decimal (n div 10 ^ k) @ ''.'' @ replicate (k - length frac) (CHR ''0'') @ frac)"

text \<open>
  \<^verbatim>\<open>snprintf(p, len, ...)\<close> of a text, followed by \<^verbatim>\<open>log_advance_buffer\<close>: what is written so far
  and the remaining length. A text that does not fit is cut and ended by a terminator,
  which the advanced pointer leaves behind.
\<close>

definition log_advance_buffer :: "string \<Rightarrow> string \<times> nat \<Rightarrow> string \<times> nat" where
  "log_advance_buffer txt = (\<lambda>(s, len).
     if length txt < len then (s @ txt, len - length txt)
     else if len = 0 then (s, 0) else (s @ take (len - 1) txt @ [CHR 0x00], 0))"

section \<open>State\<close>

datatype log_level = LOG_LEVEL_ERROR | LOG_LEVEL_WARNING | LOG_LEVEL_INFO | LOG_LEVEL_DEBUG

fun level_num :: "log_level \<Rightarrow> nat" where
  "level_num LOG_LEVEL_ERROR = 1"
| "level_num LOG_LEVEL_WARNING = 2"
| "level_num LOG_LEVEL_INFO = 3"
| "level_num LOG_LEVEL_DEBUG = 4"

fun log_level_to_string :: "log_level \<Rightarrow> string" where
  "log_level_to_string LOG_LEVEL_DEBUG = ''DEBUG''"
| "log_level_to_string LOG_LEVEL_INFO = ''INFO''"
| "log_level_to_string LOG_LEVEL_WARNING = ''WARNING''"
| "log_level_to_string LOG_LEVEL_ERROR = ''ERROR''"

definition LOG_RING_SIZE :: nat where "LOG_RING_SIZE = 8 * 1024"
definition LOG_MEMPOOL_BUFFER_COUNT :: nat where "LOG_MEMPOOL_BUFFER_COUNT = 16 * 1024"
definition LOG_MEMPOOL_BUFFER_SIZE :: nat where "LOG_MEMPOOL_BUFFER_SIZE = 6 * 1024"
definition LOG_BURST_COUNT :: nat where "LOG_BURST_COUNT = 128"

text \<open>A buffer: the length in its first two bytes and the characters behind it.\<close>

record log_buf =
  lb_len :: u16
  lb_text :: string

record log_private =
  file_handle :: "string option"
  global_ring :: "log_buf list option"
  log_pool :: "nat option"
  current_level :: log_level
  tracing_on :: "nat option"
  messages_dropped :: u64

section \<open>Initialisation\<close>

definition level_of_name :: "string \<Rightarrow> log_level" where
  "level_of_name s =
     (let l = LOG_LEVEL_DEBUG;
          l = (if strcasecmp_eq s ''Debug'' then LOG_LEVEL_DEBUG else l);
          l = (if strcasecmp_eq s ''Info'' then LOG_LEVEL_INFO else l);
          l = (if strcasecmp_eq s ''Warning'' then LOG_LEVEL_WARNING else l)
      in if strcasecmp_eq s ''Error'' then LOG_LEVEL_ERROR else l)"

text \<open>Whether the ring, the pool and the trace file could be created, and \<^verbatim>\<open>errno\<close> of the last.\<close>

definition log_init_private ::
  "application_config \<Rightarrow> bool \<Rightarrow> bool \<Rightarrow> bool \<Rightarrow> int \<Rightarrow> log_private \<Rightarrow> (int \<times> log_private) option" where
  "log_init_private c ring_ok pool_ok open_ok err s =
     (if \<not> ring_ok then Some (- ENOMEM, s\<lparr>global_ring := None\<rparr>)
      else let s = s\<lparr>global_ring := Some []\<rparr> in
           if \<not> pool_ok then Some (- ENOMEM, s\<lparr>log_pool := None, global_ring := None\<rparr>)
           else let s = s\<lparr>log_pool := Some LOG_MEMPOOL_BUFFER_COUNT\<rparr> in do {
             l \<leftarrow> log_level c;
             let s = s\<lparr>current_level := level_of_name (map (\<lambda>b. char_of (unat b)) l)\<rparr>;
             if debug_stop_trace_on_error c
             then if open_ok then Some (0, s\<lparr>tracing_on := Some 0\<rparr>) else Some (- err, s\<lparr>tracing_on := None\<rparr>)
             else Some (0, s)
           })"

definition log_init :: "application_config \<Rightarrow> bool \<Rightarrow> bool \<Rightarrow> bool \<Rightarrow> int \<Rightarrow> log_private \<Rightarrow> (int \<times> int \<times> log_private) option" where
  "log_init c ring_ok pool_ok open_ok err s =
     map_option (\<lambda>(r, s). (log_thread_cpu c, r, s)) (log_init_private c ring_ok pool_ok open_ok err s)"

section \<open>Messages\<close>

definition log_header :: "timespec \<Rightarrow> log_level \<Rightarrow> string" where
  "log_header t l =
     ''['' @ pad_left 8 (fmt_int (tv_sec t)) @ ''.'' @ pad_left 9 (fmt_int (tv_nsec t)) @ '']: ['' @ log_level_to_string l @ '']: ''"

text \<open>The buffer for a header and a message; what was in the buffer before is not modelled, since it is never read.\<close>

definition log_fill :: "string \<Rightarrow> string \<Rightarrow> log_buf" where
  "log_fill hdr msg =
     (let max_len = LOG_MEMPOOL_BUFFER_SIZE - 2;
          (s, len) = log_advance_buffer hdr ([], max_len);
          txt = (if len = 0 then s else s @ take (len - 1) msg @ [CHR 0x00]);
          written = length hdr + length msg
      in \<lparr>lb_len = of_nat (if written > max_len then max_len else written), lb_text = txt\<rparr>)"

text \<open>
  \<open>cap\<close> is the number of entries the ring can hold, \<open>now\<close> the time, if the clock can be
  read, and \<open>msg\<close> the formatted message.
\<close>

definition log_message ::
  "application_config \<Rightarrow> nat \<Rightarrow> timespec option \<Rightarrow> log_level \<Rightarrow> string \<Rightarrow> log_private \<Rightarrow> log_private option" where
  "log_message c cap now level msg s = do {
     s \<leftarrow> (if level = LOG_LEVEL_ERROR \<and> debug_stop_trace_on_error c
           then case tracing_on s of None \<Rightarrow> None | Some n \<Rightarrow> Some (s\<lparr>tracing_on := Some (n + 1)\<rparr>)
           else Some s);
     if level_num level > level_num (current_level s) then Some s
     else do {
       n \<leftarrow> log_pool s;
       if n = 0 then Some (s\<lparr>messages_dropped := messages_dropped s + 1\<rparr>)
       else do {
         let t = (case now of None \<Rightarrow> \<lparr>tv_sec = 0, tv_nsec = 0\<rparr> | Some t \<Rightarrow> t);
         let b = log_fill (log_header t level) msg;
         q \<leftarrow> global_ring s;
         if length q \<ge> cap then Some s
         else Some (s\<lparr>global_ring := Some (q @ [b]), log_pool := Some (n - 1)\<rparr>)
       }
     }
   }"

section \<open>The statistics line\<close>

definition class_pieces :: "string \<Rightarrow> stat_frame_type \<Rightarrow> statistics \<Rightarrow> string list" where
  "class_pieces nm t st =
     [nm @ ''Sent='' @ fmt_u64 (frames_sent st) @ '' | '' @ nm @ ''Received='' @ fmt_u64 (frames_received st) @ '' | '' @
      nm @ ''RttMin='' @ fmt_u64 (round_trip_min st) @ '' [us] | '' @ nm @ ''RttMax='' @ fmt_u64 (round_trip_max st) @ '' [us] | '' @
      nm @ ''RttAvg='' @ fmt_fixed 6 (round_trip_avg st) @ '' [us] | '' @ nm @ ''OnewayMin='' @ fmt_u64 (oneway_min st) @ '' [us] | '' @
      nm @ ''OnewayMax='' @ fmt_u64 (oneway_max st) @ '' [us] | '' @ nm @ ''OnewayAvg='' @ fmt_fixed 6 (oneway_avg st) @ '' [us] | ''] @
     (if stat_frame_type_is_real_time t
      then [nm @ ''RttOutliers='' @ fmt_u64 (round_trip_outliers st) @ '' | '' @ nm @ ''OnewayOutliers='' @ fmt_u64 (oneway_outliers st) @ '' | '']
      else []) @
     [nm @ ''OutOfOrderErrors='' @ fmt_u64 (out_of_order_errors st) @ '' | '' @ nm @ ''FrameIdErrors='' @ fmt_u64 (frame_id_errors st) @
      '' | '' @ nm @ ''PayloadErrors='' @ fmt_u64 (payload_errors st) @ '' | '',
      nm @ ''RxNextTimeAvg='' @ fmt_fixed 2 (rx_nexttime_avg st) @ '' [us] | '' @ nm @ ''TxNextTimeAvg='' @ fmt_fixed 2 (tx_nexttime_avg st) @ '' [us] | '',
      nm @ ''RxTimerAvg='' @ fmt_fixed 2 (rx_timer_avg st) @ '' [ns] | '' @ nm @ ''TxTimerAvg='' @ fmt_fixed 2 (tx_timer_avg st) @
      '' [ns] | '' @ nm @ ''TxGenTimerAvg='' @ fmt_fixed 2 (txgen_timer_avg st) @ '' [ns] | '']"

definition log_add_traffic_class :: "string \<Rightarrow> stat_frame_type \<Rightarrow> statistics \<Rightarrow> string \<times> nat \<Rightarrow> string \<times> nat" where
  "log_add_traffic_class nm t st = fold log_advance_buffer (class_pieces nm t st)"

definition log_add_logging_stats :: "u64 \<Rightarrow> string \<times> nat \<Rightarrow> string \<times> nat" where
  "log_add_logging_stats drops = log_advance_buffer (''LogDrops='' @ fmt_u64 drops @ '' | '')"

text \<open>The classes in the order of the code, with the names it gives them.\<close>

definition log_classes :: "(string \<times> stat_frame_type) list" where
  "log_classes = [(''TsnHigh'', TSN_HIGH_FRAME_TYPE), (''TsnLow'', TSN_LOW_FRAME_TYPE), (''Rtc'', RTC_FRAME_TYPE),
     (''Rta'', RTA_FRAME_TYPE), (''Dcp'', DCP_FRAME_TYPE), (''Lldp'', LLDP_FRAME_TYPE), (''UdpHigh'', UDP_HIGH_FRAME_TYPE),
     (''UdpLow'', UDP_LOW_FRAME_TYPE), (''L2'', L2_FRAME_TYPE)]"

definition stat_message :: "application_config \<Rightarrow> (stat_frame_type \<Rightarrow> statistics) \<Rightarrow> u64 \<Rightarrow> string" where
  "stat_message c stats drops =
     (let (s, len) = fold (\<lambda>(nm, t) x. if CONFIG_IS_TRAFFIC_CLASS_ACTIVE c t then log_add_traffic_class nm t (stats t) x else x)
                       log_classes ([], 8192 - 1);
          (s, len) = log_add_logging_stats drops (s, len)
      in takeWhile (\<lambda>ch. ch \<noteq> CHR 0x00) s)"

section \<open>The log thread\<close>

text \<open>
  The inner loop: bursts of buffers are written to the file and go back to the pool.
  \<open>None\<close>: the recorded length exceeds the buffer, or there is no file.
\<close>

definition log_written :: "log_buf \<Rightarrow> string option" where
  "log_written b = (if unat (lb_len b) \<le> length (lb_text b) then Some (take (unat (lb_len b)) (lb_text b)) else None)"

function log_drain :: "log_private \<Rightarrow> log_private option" where
  "log_drain s =
     (case global_ring s of
        None \<Rightarrow> None
      | Some q \<Rightarrow>
          let n = min LOG_BURST_COUNT (length q) in
          if n = 0 then Some s
          else case (file_handle s, log_pool s, those (map log_written (take n q))) of
            (Some f, Some k, Some ws) \<Rightarrow>
              log_drain (s\<lparr>global_ring := Some (drop n q), file_handle := Some (f @ concat ws), log_pool := Some (k + n)\<rparr>)
          | _ \<Rightarrow> None)"
  by pat_completeness auto

termination
  by (relation "measure (\<lambda>s. case global_ring s of None \<Rightarrow> 0 | Some q \<Rightarrow> length q)") (auto simp: LOG_BURST_COUNT_def Let_def)

declare log_drain.simps [simp del]

definition log_period ::
  "application_config \<Rightarrow> nat \<Rightarrow> (stat_frame_type \<Rightarrow> statistics) \<Rightarrow> timespec option \<Rightarrow> log_private \<Rightarrow> log_private option" where
  "log_period c cap stats now s = do {
     s \<leftarrow> log_message c cap now LOG_LEVEL_INFO (stat_message c stats (messages_dropped s) @ [CHR 0x0A]) s;
     log_drain s
   }"

text \<open>
  The thread over the periods until it is stopped: what the other threads log before each
  period, the statistics and the time at its end. \<open>Some (-1, ...)\<close> when the file or the
  clock cannot be opened.
\<close>

fun log_periods ::
  "application_config \<Rightarrow> nat \<Rightarrow> ((log_private \<Rightarrow> log_private option) \<times> (stat_frame_type \<Rightarrow> statistics) \<times> timespec option) list
    \<Rightarrow> log_private \<Rightarrow> log_private option" where
  "log_periods c cap [] s = Some s"
| "log_periods c cap ((others, stats, now) # ps) s = do {
     s \<leftarrow> others s;
     s \<leftarrow> log_period c cap stats now s;
     log_periods c cap ps s
   }"

definition log_thread_create :: "bool \<Rightarrow> log_private \<Rightarrow> int \<times> log_private" where
  "log_thread_create open_ok s = (if open_ok then (0, s\<lparr>file_handle := Some []\<rparr>) else (- 1, s\<lparr>file_handle := None\<rparr>))"

definition log_thread_routine ::
  "application_config \<Rightarrow> nat \<Rightarrow> bool \<Rightarrow> bool
    \<Rightarrow> ((log_private \<Rightarrow> log_private option) \<times> (stat_frame_type \<Rightarrow> statistics) \<times> timespec option) list
    \<Rightarrow> log_private \<Rightarrow> (int \<times> log_private) option" where
  "log_thread_routine c cap open_ok clock_ok ps s =
     (case log_thread_create open_ok s of (r, s) \<Rightarrow>
        if r \<noteq> 0 then Some (- 1, s)
        else if \<not> clock_ok then Some (- 1, s)
        else map_option (\<lambda>s. (0, s)) (log_periods c cap ps s))"

definition log_launch :: "bool \<Rightarrow> int \<Rightarrow> log_private \<Rightarrow> log_private run" where
  "log_launch lcore_running launch_ret s = (if lcore_running then Exited s else Returned launch_ret s)"

text \<open>
  The release of the pool, the ring and the files, none of which can be used afterwards.
  \<^verbatim>\<open>fclose\<close> of a null pointer is a fault.
\<close>

definition log_thread_free :: "application_config \<Rightarrow> log_private \<Rightarrow> log_private option" where
  "log_thread_free c s =
     (let s = s\<lparr>log_pool := None, global_ring := None\<rparr> in do {
        _ \<leftarrow> file_handle s;
        let s = s\<lparr>file_handle := None\<rparr>;
        if debug_stop_trace_on_error c
        then do { _ \<leftarrow> tracing_on s; Some (s\<lparr>tracing_on := None\<rparr>) }
        else Some s
      })"

definition log_deinit :: "application_config \<Rightarrow> log_private \<Rightarrow> log_private option" where
  "log_deinit c s = log_thread_free c s"

end
