(* ===== verification/Ring_Service.thy ===== *)
theory Ring_Service
  imports Prelude
begin

text \<open>
  The interface of the services that collect records in buffers of a pool and hand them out
  once per period: the log and the MQTT publisher. A provider says what one period puts
  out, depending on the free buffers at its start, and how many are free afterwards; its
  clients get the output of any number of periods.
\<close>

fun rounds :: "('r \<Rightarrow> 's \<Rightarrow> 's option) \<Rightarrow> 'r list \<Rightarrow> 's \<Rightarrow> 's option" where
  "rounds f [] s = Some s"
| "rounds f (r # rs) s = do { s \<leftarrow> f r s; rounds f rs s }"

fun free_after :: "(nat \<Rightarrow> 'r \<Rightarrow> nat) \<Rightarrow> 'r list \<Rightarrow> nat \<Rightarrow> nat" where
  "free_after g [] n = n"
| "free_after g (r # rs) n = free_after g rs (g n r)"

fun sent_all :: "(nat \<Rightarrow> 'r \<Rightarrow> 'o list) \<Rightarrow> (nat \<Rightarrow> 'r \<Rightarrow> nat) \<Rightarrow> 'r list \<Rightarrow> nat \<Rightarrow> 'o list" where
  "sent_all h g [] n = []"
| "sent_all h g (r # rs) n = h n r @ sent_all h g rs (g n r)"

lemma free_after_snoc: "free_after g (rs @ [r]) n = g (free_after g rs n) r"
  by (induction rs arbitrary: n) simp_all

lemma free_after_const: "(\<And>r. r \<in> set rs \<Longrightarrow> g n r = n) \<Longrightarrow> free_after g rs n = n"
  by (induction rs) simp_all

lemma sent_all_const: "(\<And>r. r \<in> set rs \<Longrightarrow> g n r = n) \<Longrightarrow> sent_all h g rs n = concat (map (h n) rs)"
  by (induction rs) simp_all

locale ring_service =
  fixes ok :: "'s \<Rightarrow> bool" and round :: "'r \<Rightarrow> 's \<Rightarrow> 's option" and out :: "'s \<Rightarrow> 'o list" and free :: "'s \<Rightarrow> nat"
    and sent :: "nat \<Rightarrow> 'r \<Rightarrow> 'o list" and left :: "nat \<Rightarrow> 'r \<Rightarrow> nat"
  assumes round_ok: "ok s \<Longrightarrow> \<exists>s'. round r s = Some s' \<and> ok s' \<and> out s' = out s @ sent (free s) r \<and> free s' = left (free s) r"
begin

lemma rounds_ok:
  "ok s \<Longrightarrow> \<exists>s'. rounds round rs s = Some s' \<and> ok s' \<and> out s' = out s @ sent_all sent left rs (free s) \<and>
     free s' = free_after left rs (free s)"
proof (induction rs arbitrary: s)
  case (Cons r rs)
  from round_ok [OF Cons.prems] obtain s1 where
    s1: "round r s = Some s1" "ok s1" "out s1 = out s @ sent (free s) r" "free s1 = left (free s) r" by blast
  from Cons.IH [OF s1(2)] s1 show ?case by auto
qed simp

lemma steady_rounds:
  assumes "ok s" and "\<And>r. r \<in> set rs \<Longrightarrow> left (free s) r = free s"
  shows "\<exists>s'. rounds round rs s = Some s' \<and> ok s' \<and> out s' = out s @ concat (map (sent (free s)) rs) \<and> free s' = free s"
  using rounds_ok [OF assms(1), of rs] sent_all_const [of rs left "free s" sent] free_after_const [of rs left "free s"] assms(2) by simp

end

end
