(* ===== verification/Log_Props.thy ===== *)
theory Log_Props
  imports Log Ring_Service
begin

text \<open>
  The log delivers: what is written to the file is exactly what was logged, in order, up to
  the capacity of the ring.
\<close>

section \<open>Messages in buffers\<close>

definition max_text :: nat where "max_text = LOG_MEMPOOL_BUFFER_SIZE - 2"

text \<open>The text of a message in the file: whole, or cut and ended by a NUL character.\<close>

definition rendered :: "timespec option \<times> log_level \<times> string \<Rightarrow> string" where
  "rendered m = (case m of (now, l, msg) \<Rightarrow>
     let txt = log_header (case now of None \<Rightarrow> \<lparr>tv_sec = 0, tv_nsec = 0\<rparr> | Some t \<Rightarrow> t) l @ msg in
     if length txt < max_text then txt else take (max_text - 1) txt @ [CHR 0x00])"

definition filled :: "timespec option \<times> log_level \<times> string \<Rightarrow> log_buf" where
  "filled m = (case m of (now, l, msg) \<Rightarrow>
     log_fill (log_header (case now of None \<Rightarrow> \<lparr>tv_sec = 0, tv_nsec = 0\<rparr> | Some t \<Rightarrow> t) l) msg)"

lemma max_text_eq: "max_text = 6142"
  by (simp add: max_text_def LOG_MEMPOOL_BUFFER_SIZE_def)

lemma log_fill_written:
  "log_written (log_fill h m) =
     Some (if length (h @ m) < max_text then h @ m else take (max_text - 1) (h @ m) @ [CHR 0x00])"
proof -
  have u: "unat (of_nat n :: u16) = n" if "n \<le> max_text" for n
    using that by (simp add: unat_of_nat max_text_eq)
  have s: "log_fill h m = \<lparr>lb_len = of_nat (if length h + length m > max_text then max_text else length h + length m),
      lb_text = (if length h < max_text then h @ take (max_text - length h - 1) m @ [CHR 0x00] else take (max_text - 1) h @ [CHR 0x00])\<rparr>"
    by (simp add: log_fill_def log_advance_buffer_def max_text_def [symmetric] Let_def max_text_eq)
  consider "length h + length m < max_text" | "length h < max_text" "max_text \<le> length h + length m" | "max_text \<le> length h" by linarith
  then show ?thesis
  proof cases
    case 1
    then have "unat (lb_len (log_fill h m)) = length h + length m" "lb_text (log_fill h m) = h @ m @ [CHR 0x00]"
      using u [of "length h + length m"] by (simp_all add: s)
    then show ?thesis using 1 by (simp add: log_written_def)
  next
    case 2
    then have "(if length h + length m > max_text then max_text else length h + length m) = max_text" by auto
    then have "unat (lb_len (log_fill h m)) = max_text" using u [of max_text] by (simp only: s log_buf.select_convs)
    moreover have "lb_text (log_fill h m) = take (max_text - 1) (h @ m) @ [CHR 0x00]" "length (lb_text (log_fill h m)) = max_text"
      using 2 by (simp_all add: s)
    ultimately show ?thesis using 2 by (simp add: log_written_def)
  next
    case 3
    then have "(if length h + length m > max_text then max_text else length h + length m) = max_text" by auto
    then have "unat (lb_len (log_fill h m)) = max_text" using u [of max_text] by (simp only: s log_buf.select_convs)
    moreover have "lb_text (log_fill h m) = take (max_text - 1) (h @ m) @ [CHR 0x00]" "length (lb_text (log_fill h m)) = max_text"
      using 3 by (simp_all add: s max_text_eq)
    ultimately show ?thesis using 3 by (simp add: log_written_def)
  qed
qed

lemma filled_written: "log_written (filled m) = Some (rendered m)"
  by (cases m) (simp add: filled_def rendered_def log_fill_written Let_def)

section \<open>The ring\<close>

fun log_all :: "application_config \<Rightarrow> nat \<Rightarrow> (timespec option \<times> log_level \<times> string) list \<Rightarrow> log_private \<Rightarrow> log_private option" where
  "log_all c cap [] s = Some s"
| "log_all c cap ((now, l, msg) # ms) s = do { s \<leftarrow> log_message c cap now l msg s; log_all c cap ms s }"

definition passes :: "log_level \<Rightarrow> timespec option \<times> log_level \<times> string \<Rightarrow> bool" where
  "passes lev m \<longleftrightarrow> level_num (fst (snd m)) \<le> level_num lev"

definition can_trace :: "application_config \<Rightarrow> log_private \<Rightarrow> bool" where
  "can_trace c s \<longleftrightarrow> (debug_stop_trace_on_error c \<longrightarrow> tracing_on s \<noteq> None)"

lemma log_message_step:
  assumes "global_ring s = Some q" and "log_pool s = Some n" and "can_trace c s" and "cap < n + length q" and "length q \<le> cap"
  shows "\<exists>tr. log_message c cap now l msg s = Some (
     if passes (current_level s) (now, l, msg) \<and> length q < cap
     then s\<lparr>tracing_on := tr, global_ring := Some (q @ [filled (now, l, msg)]), log_pool := Some (n - 1)\<rparr>
     else s\<lparr>tracing_on := tr\<rparr>) \<and> (tr = None \<longrightarrow> tracing_on s = None)"
proof -
  let ?tr = "if l = LOG_LEVEL_ERROR \<and> debug_stop_trace_on_error c then Some (the (tracing_on s) + 1) else tracing_on s"
  have s: "(if l = LOG_LEVEL_ERROR \<and> debug_stop_trace_on_error c
            then case tracing_on s of None \<Rightarrow> None | Some n \<Rightarrow> Some (s\<lparr>tracing_on := Some (n + 1)\<rparr>) else Some s) =
      Some (s\<lparr>tracing_on := ?tr\<rparr>)"
    using assms(3) by (auto simp: can_trace_def)
  have "0 < n" using assms(4,5) by linarith
  then show ?thesis unfolding log_message_def s using assms
    by (intro exI [of _ ?tr]) (auto simp: passes_def filled_def Let_def)
qed

lemma log_all_ring:
  assumes "global_ring s = Some q" and "log_pool s = Some n" and "can_trace c s" and "cap < n + length q" and "length q \<le> cap"
  shows "\<exists>tr. log_all c cap ms s = Some (
     let new = take (cap - length q) (map filled (filter (passes (current_level s)) ms)) in
     s\<lparr>tracing_on := tr, global_ring := Some (q @ new), log_pool := Some (n - length new)\<rparr>) \<and> (tr = None \<longrightarrow> tracing_on s = None)"
  using assms
proof (induction ms arbitrary: s q n)
  case Nil
  then show ?case by (intro exI [of _ "tracing_on s"]) simp
next
  case (Cons m ms)
  obtain now l msg where m: "m = (now, l, msg)" by (cases m)
  from log_message_step [OF Cons.prems, of now l msg] obtain tr where
    tr: "log_message c cap now l msg s = Some (
     if passes (current_level s) m \<and> length q < cap
     then s\<lparr>tracing_on := tr, global_ring := Some (q @ [filled m]), log_pool := Some (n - 1)\<rparr>
     else s\<lparr>tracing_on := tr\<rparr>)" "tr = None \<longrightarrow> tracing_on s = None" unfolding m by blast
  have ct: "can_trace c (t\<lparr>tracing_on := tr\<rparr>)" for t :: log_private using tr(2) Cons.prems(3) by (auto simp: can_trace_def)
  show ?case
  proof (cases "passes (current_level s) m \<and> length q < cap")
    case False
    then show ?thesis using tr Cons.IH [of "s\<lparr>tracing_on := tr\<rparr>" q n] Cons.prems ct m by auto
  next
    case True
    let ?s = "s\<lparr>tracing_on := tr, global_ring := Some (q @ [filled m]), log_pool := Some (n - 1)\<rparr>"
    have "can_trace c ?s" using ct [of s] by (simp add: can_trace_def)
    then obtain tr' where "log_all c cap ms ?s = Some (
        let new = take (cap - length (q @ [filled m])) (map filled (filter (passes (current_level ?s)) ms)) in
        ?s\<lparr>tracing_on := tr', global_ring := Some ((q @ [filled m]) @ new), log_pool := Some (n - 1 - length new)\<rparr>)"
        "tr' = None \<longrightarrow> tr = None"
      using Cons.IH [of ?s "q @ [filled m]" "n - 1"] Cons.prems True by auto
    moreover obtain k where "cap - length q = Suc k" "cap - length (q @ [filled m]) = k" using True by (cases "cap - length q") auto
    ultimately show ?thesis using tr True m by (intro exI [of _ tr']) (simp add: Let_def)
  qed
qed

lemma log_drain_all:
  assumes "global_ring s = Some q" and "file_handle s = Some f" and "log_pool s = Some n"
    and "those (map log_written q) = Some ws"
  shows "log_drain s = Some (s\<lparr>global_ring := Some [], file_handle := Some (f @ concat ws), log_pool := Some (n + length q)\<rparr>)"
  using assms
proof (induction s arbitrary: q f n ws rule: log_drain.induct)
  case (1 s)
  let ?n = "min LOG_BURST_COUNT (length q)"
  show ?case
  proof (cases "q = []")
    case True
    then show ?thesis using "1.prems" by (subst log_drain.simps) simp
  next
    case False
    have app: "those (xs @ ys) = Some zs \<Longrightarrow> \<exists>us vs. those xs = Some us \<and> those ys = Some vs \<and> zs = us @ vs"
      for xs ys :: "string option list" and zs
      by (induction xs arbitrary: zs) (auto split: option.splits)
    obtain us vs where w: "those (map log_written (take ?n q)) = Some us" "those (map log_written (drop ?n q)) = Some vs" "ws = us @ vs"
      using app [of "map log_written (take ?n q)" "map log_written (drop ?n q)" ws] "1.prems"(4) by (metis append_take_drop_id map_append)
    have n: "?n \<noteq> 0" using False by (simp add: LOG_BURST_COUNT_def)
    let ?s = "s\<lparr>global_ring := Some (drop ?n q), file_handle := Some (f @ concat us), log_pool := Some (n + ?n)\<rparr>"
    have "log_drain ?s = Some (?s\<lparr>global_ring := Some [], file_handle := Some ((f @ concat us) @ concat vs), log_pool := Some (n + ?n + length (drop ?n q))\<rparr>)"
      by (rule "1.IH" [OF "1.prems"(1) refl n refl "1.prems"(2) refl "1.prems"(3) w(1)]) (use w in simp_all)
    moreover have "log_drain s = log_drain ?s"
      using "1.prems"(1-3) w(1) n by (subst log_drain.simps) (simp only: Let_def option.case prod.case if_False)
    ultimately show ?thesis using w(3) by simp
  qed
qed

lemma log_all_append: "log_all c cap (ms @ ms') s = Option.bind (log_all c cap ms s) (log_all c cap ms')"
  by (induction ms arbitrary: s) (auto split: bind_splits)

section \<open>The thread as a service\<close>

text \<open>
  A log in which nothing is pending: an open file, an empty ring, more buffers than the
  ring has entries.
\<close>

definition log_ok :: "application_config \<Rightarrow> nat \<Rightarrow> log_level \<Rightarrow> u64 \<Rightarrow> log_private \<Rightarrow> bool" where
  "log_ok c cap lev d s \<longleftrightarrow> file_handle s \<noteq> None \<and> global_ring s = Some [] \<and> (\<exists>n. log_pool s = Some n \<and> cap < n) \<and> can_trace c s \<and>
     current_level s = lev \<and> messages_dropped s = d"

text \<open>A period: the messages of the other threads, the statistics and the time at its end.\<close>

type_synonym log_round = "(timespec option \<times> log_level \<times> string) list \<times> (stat_frame_type \<Rightarrow> statistics) \<times> timespec option"

definition log_round :: "application_config \<Rightarrow> nat \<Rightarrow> log_round \<Rightarrow> log_private \<Rightarrow> log_private option" where
  "log_round c cap r s = (case r of (ms, stats, now) \<Rightarrow> do { s \<leftarrow> log_all c cap ms s; log_period c cap stats now s })"

definition round_messages :: "application_config \<Rightarrow> u64 \<Rightarrow> log_round \<Rightarrow> (timespec option \<times> log_level \<times> string) list" where
  "round_messages c d r = (case r of (ms, stats, now) \<Rightarrow> ms @ [(now, LOG_LEVEL_INFO, stat_message c stats d @ [CHR 0x0A])])"

definition round_text :: "application_config \<Rightarrow> nat \<Rightarrow> log_level \<Rightarrow> u64 \<Rightarrow> log_round \<Rightarrow> string" where
  "round_text c cap lev d r = concat (map rendered (take cap (filter (passes lev) (round_messages c d r))))"

lemma log_periods_rounds:
  "log_periods c cap (map (\<lambda>(ms, stats, now). (log_all c cap ms, stats, now)) ps) s = rounds (log_round c cap) ps s"
  by (induction ps arbitrary: s) (auto simp: log_round_def split: bind_splits)

lemma log_round_all:
  assumes "log_all c cap ms s = Some t" and "messages_dropped t = d"
  shows "log_round c cap (ms, stats, now) s = Option.bind (log_all c cap (round_messages c d (ms, stats, now)) s) log_drain"
  using assms by (simp add: log_round_def log_period_def round_messages_def log_all_append bind_assoc)

lemma log_burst_drained:
  assumes "log_ok c cap lev d s"
  shows "\<exists>s1 s2. log_all c cap ms s = Some s1 \<and> messages_dropped s1 = d \<and> log_drain s1 = Some s2 \<and> log_ok c cap lev d s2 \<and>
     file_handle s2 = Some (the (file_handle s) @ concat (map rendered (take cap (filter (passes lev) ms)))) \<and> log_pool s2 = log_pool s"
proof -
  obtain f n where s: "file_handle s = Some f" "global_ring s = Some []" "log_pool s = Some n" "cap < n" "can_trace c s"
    "current_level s = lev" "messages_dropped s = d" using assms by (auto simp: log_ok_def)
  let ?new = "map filled (take cap (filter (passes lev) ms))"
  obtain tr where 1: "log_all c cap ms s = Some (s\<lparr>tracing_on := tr, global_ring := Some ?new, log_pool := Some (n - length ?new)\<rparr>)"
    and tr: "debug_stop_trace_on_error c \<longrightarrow> tr \<noteq> None"
  proof -
    from log_all_ring [OF s(2,3,5), of cap ms] s(4) obtain tr where
      "log_all c cap ms s = Some (s\<lparr>tracing_on := tr, global_ring := Some ?new, log_pool := Some (n - length ?new)\<rparr>)"
      "tr = None \<longrightarrow> tracing_on s = None" by (auto simp: Let_def take_map s(6))
    then show thesis using that [of tr] s(5) by (auto simp: can_trace_def)
  qed
  have "those (map (\<lambda>m. Some (rendered m)) xs) = Some (map rendered xs)" for xs by (induction xs) auto
  then have w: "those (map log_written ?new) = Some (map rendered (take cap (filter (passes lev) ms)))"
    by (simp add: comp_def filled_written)
  let ?s1 = "s\<lparr>tracing_on := tr, global_ring := Some ?new, log_pool := Some (n - length ?new)\<rparr>"
  have "length ?new \<le> n" using s(4) by simp
  then have "log_drain ?s1 = Some (?s1\<lparr>global_ring := Some [], file_handle := Some (f @ concat (map rendered (take cap (filter (passes lev) ms)))), log_pool := Some n\<rparr>)"
    using log_drain_all [OF _ _ _ w, of ?s1 f "n - length ?new"] s(1) by simp
  then show ?thesis using 1 s tr by (auto simp: log_ok_def can_trace_def)
qed

interpretation log_service: ring_service "log_ok c cap lev d" "log_round c cap" "\<lambda>s. the (file_handle s)" "\<lambda>s. the (log_pool s)"
  "\<lambda>_. round_text c cap lev d" "\<lambda>n _. n" for c cap lev d
proof
  fix s and r :: log_round assume ok: "log_ok c cap lev d s"
  obtain ms stats now where r: "r = (ms, stats, now)" by (cases r)
  obtain t where t: "log_all c cap ms s = Some t" "messages_dropped t = d" using log_burst_drained [OF ok, of ms] by blast
  obtain s1 s2 where "log_all c cap (round_messages c d r) s = Some s1" "log_drain s1 = Some s2" "log_ok c cap lev d s2"
    "file_handle s2 = Some (the (file_handle s) @ round_text c cap lev d r)" "log_pool s2 = log_pool s"
    using log_burst_drained [OF ok, of "round_messages c d r"] by (auto simp: round_text_def)
  then show "\<exists>s'. log_round c cap r s = Some s' \<and> log_ok c cap lev d s' \<and>
      the (file_handle s') = the (file_handle s) @ round_text c cap lev d r \<and> the (log_pool s') = the (log_pool s)"
    using log_round_all [OF t, of stats now] r by auto
qed

text \<open>
  C27: over any number of periods the log thread writes exactly what was logged: of the
  messages of each period and its line of statistics, those whose level is enabled and
  that found room in the ring appear in the file in order, each whole, or cut to the
  buffer and ended by a NUL, and all buffers are back in the pool. Since the pool has
  more buffers than the ring has entries, the messages that did not find room are never
  counted as dropped.
\<close>

theorem log_delivers:
  assumes "file_handle s = Some f" and "global_ring s = Some []" and "log_pool s = Some n" and "can_trace c s" and "cap < n"
  shows "\<exists>s'. log_periods c cap (map (\<lambda>(ms, stats, now). (log_all c cap ms, stats, now)) ps) s = Some s' \<and>
     file_handle s' = Some (f @ concat (map (\<lambda>(ms, stats, now). concat (map rendered (take cap (filter (passes (current_level s))
       (ms @ [(now, LOG_LEVEL_INFO, stat_message c stats (messages_dropped s) @ [CHR 0x0A])]))))) ps)) \<and>
     global_ring s' = Some [] \<and> log_pool s' = Some n \<and> messages_dropped s' = messages_dropped s"
proof -
  let ?text = "round_text c cap (current_level s) (messages_dropped s)"
  have "log_ok c cap (current_level s) (messages_dropped s) s" using assms by (simp add: log_ok_def)
  from log_service.steady_rounds [OF this, of ps] obtain s' where "rounds (log_round c cap) ps s = Some s'"
    "log_ok c cap (current_level s) (messages_dropped s) s'" "the (file_handle s') = f @ concat (map ?text ps)" "the (log_pool s') = n"
    using assms(1,3) by auto
  moreover have "?text = (\<lambda>(ms, stats, now). concat (map rendered (take cap (filter (passes (current_level s))
       (ms @ [(now, LOG_LEVEL_INFO, stat_message c stats (messages_dropped s) @ [CHR 0x0A])])))))"
    by (auto simp: round_text_def round_messages_def)
  ultimately show ?thesis unfolding log_periods_rounds by (auto simp: log_ok_def)
qed

lemma log_delivers_witness:
  "\<exists>s'. log_periods zero_config 2 (map (\<lambda>(ms, stats, now). (log_all zero_config 2 ms, stats, now))
       [([(None, LOG_LEVEL_INFO, ''a''), (None, LOG_LEVEL_DEBUG, ''b''), (None, LOG_LEVEL_ERROR, ''c'')], \<lambda>_. zero_statistics, None)])
     \<lparr>file_handle = Some [], global_ring = Some [], log_pool = Some 3, current_level = LOG_LEVEL_INFO, tracing_on = None, messages_dropped = 0\<rparr> = Some s' \<and>
     file_handle s' = Some (rendered (None, LOG_LEVEL_INFO, ''a'') @ rendered (None, LOG_LEVEL_ERROR, ''c'')) \<and> log_pool s' = Some 3"
proof -
  let ?s = "\<lparr>file_handle = Some [], global_ring = Some [], log_pool = Some 3, current_level = LOG_LEVEL_INFO, tracing_on = None, messages_dropped = 0\<rparr>"
  have "file_handle ?s = Some []" "global_ring ?s = Some []" "log_pool ?s = Some 3" "can_trace zero_config ?s"
    by (simp_all add: can_trace_def zero_config_def)
  from log_delivers [OF this, of 2 "[([(None, LOG_LEVEL_INFO, ''a''), (None, LOG_LEVEL_DEBUG, ''b''), (None, LOG_LEVEL_ERROR, ''c'')], \<lambda>_. zero_statistics, None)]"]
  show ?thesis by (auto simp: passes_def)
qed

end
