(* ===== verification/Mqtt.thy ===== *)
theory Mqtt
  imports Log
begin

text \<open>
  The MQTT publisher of \<^verbatim>\<open>logviamqtt.c\<close> (built with \<^verbatim>\<open>WITH_MQTT\<close>): at the end of a period the
  statistics of a class are copied into a buffer of a pool and put on a ring; the thread
  publishes them as JSON once per period. The mosquitto library is a parameter: its answer
  may depend on every call made before. \<open>None\<close> is the use of a null pointer or of released memory.
\<close>

section \<open>State\<close>

definition LOG_MQTT_RING_SIZE :: nat where "LOG_MQTT_RING_SIZE = 1024"
definition LOG_MQTT_MEMPOOL_BUFFER_COUNT :: nat where "LOG_MQTT_MEMPOOL_BUFFER_COUNT = 8 * 1024"
definition LOG_MQTT_MEMPOOL_BUFFER_SIZE :: nat where "LOG_MQTT_MEMPOOL_BUFFER_SIZE = 256"
definition LOG_MQTT_BUFFER_COUNT :: nat where "LOG_MQTT_BUFFER_COUNT = 128"

record log_statistics =
  ls_frame_type :: stat_frame_type
  ls_time_stamp :: u64
  ls_frames_sent :: u64
  ls_frames_received :: u64
  ls_out_of_order_errors :: u64
  ls_frame_id_errors :: u64
  ls_payload_errors :: u64
  ls_round_trip_min :: u64
  ls_round_trip_max :: u64
  ls_round_trip_outliers :: u64
  ls_oneway_min :: u64
  ls_oneway_max :: u64
  ls_oneway_outliers :: u64
  ls_round_trip_avg :: double
  ls_oneway_avg :: double

text \<open>A pointer to an object: null, to a live object, or to one that has been released.\<close>

datatype 'a obj = Null | Alive 'a | Released

fun alive :: "'a obj \<Rightarrow> 'a option" where
  "alive (Alive x) = Some x"
| "alive _ = None"

datatype mosq_call =
    Lib_Init | New bool | Connect bytes int int | Connect_Callback_Set | Loop_Start
  | Publish string string int bool | Disconnect | Loop_Stop bool | Destroy | Lib_Cleanup

text \<open>The pool is the number of its free buffers, those in the caches of the cores included.\<close>

record mqtt_state =
  mosq :: "unit obj"
  mqtt_ring :: "log_statistics list obj"
  mqtt_pool :: "nat obj"
  mosq_calls :: "mosq_call list"

type_synonym mosq_lib = "mosq_call list \<Rightarrow> mosq_call \<Rightarrow> int"

definition lib_call :: "mosq_lib \<Rightarrow> mosq_call \<Rightarrow> mqtt_state \<Rightarrow> int \<times> mqtt_state" where
  "lib_call L x s = (L (mosq_calls s) x, s\<lparr>mosq_calls := mosq_calls s @ [x]\<rparr>)"

text \<open>A call with the client as an argument.\<close>

definition client_call :: "mosq_lib \<Rightarrow> mosq_call \<Rightarrow> mqtt_state \<Rightarrow> (int \<times> mqtt_state) option" where
  "client_call L x s = do { _ \<leftarrow> alive (mosq s); Some (lib_call L x s) }"

section \<open>Initialisation and collection\<close>

definition log_via_mqtt_init :: "bool \<Rightarrow> bool \<Rightarrow> mqtt_state \<Rightarrow> int \<times> mqtt_state" where
  "log_via_mqtt_init ring_ok pool_ok s =
     (if \<not> ring_ok then (- ENOMEM, s\<lparr>mqtt_ring := Null\<rparr>)
      else if \<not> pool_ok then (- ENOMEM, s\<lparr>mqtt_pool := Null, mqtt_ring := Null\<rparr>)
      else (0, s\<lparr>mqtt_ring := Alive [], mqtt_pool := Alive LOG_MQTT_MEMPOOL_BUFFER_COUNT\<rparr>))"

definition collected :: "stat_frame_type \<Rightarrow> statistics \<Rightarrow> log_statistics" where
  "collected t st =
     \<lparr>ls_frame_type = t, ls_time_stamp = last_time_stamp st, ls_frames_sent = frames_sent st,
      ls_frames_received = frames_received st, ls_out_of_order_errors = out_of_order_errors st,
      ls_frame_id_errors = frame_id_errors st, ls_payload_errors = payload_errors st,
      ls_round_trip_min = round_trip_min st, ls_round_trip_max = round_trip_max st,
      ls_round_trip_outliers = round_trip_outliers st, ls_oneway_min = oneway_min st,
      ls_oneway_max = oneway_max st, ls_oneway_outliers = oneway_outliers st,
      ls_round_trip_avg = round_trip_avg st, ls_oneway_avg = oneway_avg st\<rparr>"

text \<open>\<open>cap\<close> is the number of entries the ring can hold.\<close>

definition log_via_mqtt_stats ::
  "application_config \<Rightarrow> nat \<Rightarrow> stat_frame_type \<Rightarrow> statistics \<Rightarrow> mqtt_state \<Rightarrow> mqtt_state option" where
  "log_via_mqtt_stats c cap t st s =
     (if \<not> log_via_mqtt c then Some s
      else do {
        n \<leftarrow> alive (mqtt_pool s);
        if n = 0 then Some s
        else do {
          let s = s\<lparr>mqtt_pool := Alive (n - 1)\<rparr>;
          q \<leftarrow> alive (mqtt_ring s);
          if length q \<ge> cap then Some s else Some (s\<lparr>mqtt_ring := Alive (q @ [collected t st])\<rparr>)
        }
      })"

section \<open>Publication\<close>

definition QT :: string where "QT = [CHR 0x22]"
definition NL :: string where "NL = [CHR 0x0A]"
definition TAB :: string where "TAB = [CHR 0x09]"

definition json_field :: "string \<Rightarrow> string \<Rightarrow> string" where
  "json_field k v = TAB @ TAB @ TAB @ QT @ k @ QT @ '' : '' @ v"

definition mqtt_pieces :: "string \<Rightarrow> log_statistics \<Rightarrow> string list" where
  "mqtt_pieces topic st =
     [''{'' @ QT @ ''reference'' @ QT @ '' :'' @ NL @ TAB @ ''{'' @ QT @ ''Timestamp'' @ QT @ '' : '' @ fmt_u64 (ls_time_stamp st) @ '','' @ NL @
      TAB @ '' '' @ QT @ ''MeasurementName'' @ QT @ '' : '' @ QT @ topic @ QT,
      '','' @ NL @ TAB @ TAB @ QT @ ''stats'' @ QT @ '' : '' @ NL @ TAB @ TAB @ ''{'' @ NL @
      concat (map (\<lambda>(k, v). json_field k v @ '','' @ NL)
        [(''TCName'', QT @ stat_frame_type_to_string (ls_frame_type st) @ QT),
         (''FramesSent'', fmt_u64 (ls_frames_sent st)),
         (''FramesReceived'', fmt_u64 (ls_frames_received st)),
         (''RoundTripTimeMin'', fmt_u64 (ls_round_trip_min st)),
         (''RoundTripMax'', fmt_u64 (ls_round_trip_max st)),
         (''RoundTripAv'', fmt_fixed 6 (ls_round_trip_avg st)),
         (''OnewayMin'', fmt_u64 (ls_oneway_min st)),
         (''OnewayMax'', fmt_u64 (ls_oneway_max st)),
         (''OnewayAv'', fmt_fixed 6 (ls_oneway_avg st)),
         (''OutofOrderErrors'', fmt_u64 (ls_out_of_order_errors st)),
         (''FrameIdErrors'', fmt_u64 (ls_frame_id_errors st)),
         (''PayloadErrors'', fmt_u64 (ls_payload_errors st)),
         (''RoundTripOutliers'', fmt_u64 (ls_round_trip_outliers st))]) @
      json_field ''OnewayOutliers'' (fmt_u64 (ls_oneway_outliers st)) @ NL @ TAB @ TAB @ ''}'',
      TAB @ TAB @ NL @ ''}'' @ TAB @ NL @ ''}'' @ NL]"

text \<open>The text in the buffer of 2048 bytes up to its terminator.\<close>

definition mqtt_message :: "string \<Rightarrow> log_statistics \<Rightarrow> string" where
  "mqtt_message topic st =
     takeWhile (\<lambda>ch. ch \<noteq> CHR 0x00) (fst (fold log_advance_buffer (mqtt_pieces topic st) ([], 2048 - 1)))"

definition log_via_mqtt_add_traffic_class ::
  "mosq_lib \<Rightarrow> string \<Rightarrow> log_statistics \<Rightarrow> mqtt_state \<Rightarrow> mqtt_state option" where
  "log_via_mqtt_add_traffic_class L topic st s =
     map_option snd (client_call L (Publish ''testbench'' (mqtt_message topic st) 2 False) s)"

definition log_via_mqtt_on_connect :: "mosq_lib \<Rightarrow> int \<Rightarrow> mqtt_state \<Rightarrow> mqtt_state option" where
  "log_via_mqtt_on_connect L reason_code s =
     (if reason_code \<noteq> 0 then map_option snd (client_call L Disconnect s) else Some s)"

fun publish_all :: "mosq_lib \<Rightarrow> string \<Rightarrow> log_statistics list \<Rightarrow> mqtt_state \<Rightarrow> mqtt_state option" where
  "publish_all L topic [] s = Some s"
| "publish_all L topic (st # sts) s = do {
     s \<leftarrow> log_via_mqtt_add_traffic_class L topic st s;
     publish_all L topic sts s
   }"

text \<open>
  The inner loop of the thread. \<open>k\<close> bounds the number of bursts: it ends when the ring is
  empty, which it is after as many bursts as it has entries; the bound is never reached.
\<close>

fun mqtt_drain :: "mosq_lib \<Rightarrow> string \<Rightarrow> nat \<Rightarrow> mqtt_state \<Rightarrow> mqtt_state option" where
  "mqtt_drain L topic 0 s = None"
| "mqtt_drain L topic (Suc k) s = do {
     q \<leftarrow> alive (mqtt_ring s);
     let n = min LOG_MQTT_BUFFER_COUNT (length q);
     if n = 0 then Some s
     else do {
       s \<leftarrow> publish_all L topic (take n q) (s\<lparr>mqtt_ring := Alive (drop n q)\<rparr>);
       p \<leftarrow> alive (mqtt_pool s);
       mqtt_drain L topic k (s\<lparr>mqtt_pool := Alive (p + n)\<rparr>)
     }
   }"

text \<open>The loop of the thread: what the other threads report before each period ends.\<close>

definition mqtt_period ::
  "application_config \<Rightarrow> mosq_lib \<Rightarrow> (mqtt_state \<Rightarrow> mqtt_state option) \<Rightarrow> mqtt_state \<Rightarrow> mqtt_state option" where
  "mqtt_period c L others s = do {
     s \<leftarrow> others s;
     q \<leftarrow> alive (mqtt_ring s);
     topic \<leftarrow> log_via_mqtt_measurement_name c;
     mqtt_drain L (map (\<lambda>b. char_of (unat b)) topic) (Suc (length q)) s
   }"

fun mqtt_periods ::
  "application_config \<Rightarrow> mosq_lib \<Rightarrow> (mqtt_state \<Rightarrow> mqtt_state option) list \<Rightarrow> mqtt_state \<Rightarrow> mqtt_state option" where
  "mqtt_periods c L [] s = Some s"
| "mqtt_periods c L (p # ps) s = do { s \<leftarrow> mqtt_period c L p s; mqtt_periods c L ps s }"

text \<open>The common exit of the failures: the client is destroyed, but its pointer is kept.\<close>

definition mqtt_err :: "mosq_lib \<Rightarrow> mqtt_state \<Rightarrow> (int \<times> mqtt_state) option" where
  "mqtt_err L s = do {
     s \<leftarrow> (if mosq s \<noteq> Null
           then map_option (\<lambda>(_, s). s\<lparr>mosq := Released\<rparr>) (client_call L Destroy s)
           else Some s);
     Some (-1, snd (lib_call L Lib_Cleanup s))
   }"

definition log_via_mqtt_thread_routine ::
  "application_config \<Rightarrow> mosq_lib \<Rightarrow> bool \<Rightarrow> (mqtt_state \<Rightarrow> mqtt_state option) list \<Rightarrow> mqtt_state \<Rightarrow> (int \<times> mqtt_state) option" where
  "log_via_mqtt_thread_routine c L clock_ok ps s =
     (let s = snd (lib_call L Lib_Init s);
          (p, s) = lib_call L (New True) s;
          s = s\<lparr>mosq := if p = 0 then Null else Alive ()\<rparr> in
      if p = 0 then mqtt_err L s
      else do {
        ip \<leftarrow> log_via_mqtt_broker_ip c;
        (connect_status, s) \<leftarrow> client_call L (Connect ip (log_via_mqtt_broker_port c) (log_via_mqtt_keep_alive_secs c)) s;
        if connect_status \<noteq> 0 then mqtt_err L s
        else do {
          (_, s) \<leftarrow> client_call L Connect_Callback_Set s;
          (ret, s) \<leftarrow> client_call L Loop_Start s;
          if ret \<noteq> 0 then mqtt_err L s
          else if \<not> clock_ok then mqtt_err L s
          else map_option (\<lambda>s. (0, s)) (mqtt_periods c L ps s)
        }
      })"

section \<open>Life cycle\<close>

definition log_via_mqtt_thread_create :: "application_config \<Rightarrow> int" where
  "log_via_mqtt_thread_create c = (if log_via_mqtt c then 0 else -1)"

definition log_via_mqtt_thread_free :: "application_config \<Rightarrow> mosq_lib \<Rightarrow> mqtt_state \<Rightarrow> mqtt_state option" where
  "log_via_mqtt_thread_free c L s =
     (if \<not> log_via_mqtt c then Some s
      else do {
        s \<leftarrow> (if mosq s \<noteq> Null
              then do {
                (_, s) \<leftarrow> client_call L Disconnect s;
                (_, s) \<leftarrow> client_call L (Loop_Stop True) s;
                (_, s) \<leftarrow> client_call L Destroy s;
                Some (s\<lparr>mosq := Released\<rparr>)
              }
              else Some s);
        Some (snd (lib_call L Lib_Cleanup s))
      })"

definition log_mqtt_init :: "application_config \<Rightarrow> bool \<Rightarrow> bool \<Rightarrow> int \<times> mqtt_state \<Rightarrow> int \<times> int \<times> mqtt_state" where
  "log_mqtt_init c ring_ok pool_ok = (\<lambda>(lcore, s).
     if \<not> log_via_mqtt c then (0, lcore, s)
     else case log_via_mqtt_init ring_ok pool_ok s of (r, s) \<Rightarrow> (r, log_via_mqtt_thread_cpu c, s))"

definition log_mqtt_launch :: "application_config \<Rightarrow> bool \<Rightarrow> int \<Rightarrow> mqtt_state \<Rightarrow> mqtt_state run" where
  "log_mqtt_launch c running launch_ret s =
     (if \<not> log_via_mqtt c then Returned 0 s
      else if log_via_mqtt_thread_create c \<noteq> 0 then Returned (-1) s
      else if running then Exited s else Returned launch_ret s)"

definition release :: "'a obj \<Rightarrow> 'a obj option" where
  "release x = (case x of Null \<Rightarrow> Some Null | Alive _ \<Rightarrow> Some Released | Released \<Rightarrow> None)"

definition log_mqtt_deinit :: "application_config \<Rightarrow> mosq_lib \<Rightarrow> mqtt_state \<Rightarrow> mqtt_state option" where
  "log_mqtt_deinit c L s =
     (if \<not> log_via_mqtt c then Some s
      else do {
        p \<leftarrow> release (mqtt_pool s);
        r \<leftarrow> release (mqtt_ring s);
        log_via_mqtt_thread_free c L (s\<lparr>mqtt_pool := p, mqtt_ring := r\<rparr>)
      })"

end
