(* ===== verification/Mqtt_Props.thy ===== *)
theory Mqtt_Props
  imports Mqtt Ring_Service
begin

text \<open>
  What the MQTT publisher delivers, period by period, and what happens to its buffers when
  the ring is full or the broker refuses the connection.
\<close>

section \<open>One period\<close>

fun report_all :: "application_config \<Rightarrow> nat \<Rightarrow> (stat_frame_type \<times> statistics) list \<Rightarrow> mqtt_state \<Rightarrow> mqtt_state option" where
  "report_all c cap [] s = Some s"
| "report_all c cap ((t, st) # rs) s = do { s \<leftarrow> log_via_mqtt_stats c cap t st s; report_all c cap rs s }"

definition publication :: "bytes \<Rightarrow> stat_frame_type \<times> statistics \<Rightarrow> mosq_call" where
  "publication nm r = Publish ''testbench'' (mqtt_message (map (\<lambda>b. char_of (unat b)) nm) (collected (fst r) (snd r))) 2 False"

lemma report_all_ring:
  assumes "log_via_mqtt c" and "mqtt_ring s = Alive q" and "mqtt_pool s = Alive n"
  shows "report_all c cap rs s = Some (s\<lparr>mqtt_pool := Alive (n - length rs),
     mqtt_ring := Alive (q @ map (\<lambda>(t, st). collected t st) (take (min n (cap - length q)) rs))\<rparr>)"
  using assms(2,3)
proof (induction rs arbitrary: s q n)
  case Nil
  then show ?case by simp
next
  case (Cons r rs)
  obtain t st where r: "r = (t, st)" by (cases r)
  consider "n = 0" | "0 < n" "cap \<le> length q" | "0 < n" "length q < cap" by linarith
  then show ?case
  proof cases
    case 1
    then show ?thesis using Cons.IH [OF Cons.prems] Cons.prems assms(1) r by (simp add: log_via_mqtt_stats_def)
  next
    case 2
    then show ?thesis using Cons.IH [of "s\<lparr>mqtt_pool := Alive (n - 1)\<rparr>" q "n - 1"] Cons.prems assms(1) r
      by (simp add: log_via_mqtt_stats_def)
  next
    case 3
    let ?s = "s\<lparr>mqtt_pool := Alive (n - 1), mqtt_ring := Alive (q @ [collected t st])\<rparr>"
    obtain m k where m: "n = Suc m" "cap - length q = Suc k" using 3 by (metis Suc_diff_Suc Suc_pred')
    then have k: "cap - Suc (length q) = k" by simp
    have "log_via_mqtt_stats c cap t st s = Some ?s"
      using 3 Cons.prems assms(1) by (simp add: log_via_mqtt_stats_def)
    then show ?thesis using Cons.IH [of ?s "q @ [collected t st]" "n - 1"] r m k by simp
  qed
qed

lemma publish_all_calls:
  "mosq s = Alive () \<Longrightarrow> publish_all L topic sts s =
     Some (s\<lparr>mosq_calls := mosq_calls s @ map (\<lambda>st. Publish ''testbench'' (mqtt_message topic st) 2 False) sts\<rparr>)"
  by (induction sts arbitrary: s) (simp_all add: log_via_mqtt_add_traffic_class_def client_call_def lib_call_def)

lemma mqtt_drain_all:
  assumes "mosq s = Alive ()" and "mqtt_ring s = Alive q" and "mqtt_pool s = Alive n" and "length q < k"
  shows "mqtt_drain L topic k s = Some (s\<lparr>mqtt_ring := Alive [], mqtt_pool := Alive (n + length q),
     mosq_calls := mosq_calls s @ map (\<lambda>st. Publish ''testbench'' (mqtt_message topic st) 2 False) q\<rparr>)"
  using assms
proof (induction k arbitrary: s q n)
  case (Suc k)
  let ?n = "min LOG_MQTT_BUFFER_COUNT (length q)"
  show ?case
  proof (cases "q = []")
    case True
    then show ?thesis using Suc.prems by simp
  next
    case False
    then have n: "?n \<noteq> 0" "0 < length q" by (simp_all add: LOG_MQTT_BUFFER_COUNT_def)
    have less: "length q - ?n < k" using Suc.prems(4) n by linarith
    let ?pub = "map (\<lambda>st. Publish ''testbench'' (mqtt_message topic st) 2 False)"
    let ?s = "s\<lparr>mqtt_ring := Alive (drop ?n q), mosq_calls := mosq_calls s @ ?pub (take ?n q), mqtt_pool := Alive (n + ?n)\<rparr>"
    have "mqtt_drain L topic (Suc k) s = mqtt_drain L topic k ?s"
      using Suc.prems(1-3) n by (simp add: publish_all_calls Let_def del: min_0R) (metis n(1))
    also have "\<dots> = Some (?s\<lparr>mqtt_ring := Alive [], mqtt_pool := Alive (n + ?n + length (drop ?n q)),
        mosq_calls := mosq_calls ?s @ ?pub (drop ?n q)\<rparr>)"
      by (rule Suc.IH) (use Suc.prems n less in simp_all)
    also have "mosq_calls ?s @ ?pub (drop ?n q) = mosq_calls s @ ?pub q"
      by (simp flip: map_append)
    finally show ?thesis using n by simp
  qed
qed simp

lemma mqtt_period_result:
  assumes "log_via_mqtt c" and "log_via_mqtt_measurement_name c = Some nm" and "mosq s = Alive ()"
    and "mqtt_ring s = Alive []" and "mqtt_pool s = Alive n"
  shows "mqtt_period c L (report_all c cap rs) s =
     Some (s\<lparr>mqtt_pool := Alive (n - (min n (length rs) - cap)),
             mosq_calls := mosq_calls s @ map (publication nm) (take (min n cap) rs)\<rparr>)"
proof -
  let ?q = "map (\<lambda>(t, st). collected t st) (take (min n cap) rs)"
  let ?s = "s\<lparr>mqtt_pool := Alive (n - length rs), mqtt_ring := Alive ?q\<rparr>"
  have "n - length rs + length ?q = n - (min n (length rs) - cap)" by (simp add: min_def)
  moreover have "map (\<lambda>st. Publish ''testbench'' (mqtt_message (map (\<lambda>b. char_of (unat b)) nm) st) 2 False) ?q =
      map (publication nm) (take (min n cap) rs)" by (simp add: publication_def case_prod_beta)
  moreover have "mqtt_drain L (map (\<lambda>b. char_of (unat b)) nm) (Suc (length ?q)) ?s = Some (?s\<lparr>mqtt_ring := Alive [],
      mqtt_pool := Alive (n - length rs + length ?q),
      mosq_calls := mosq_calls ?s @ map (\<lambda>st. Publish ''testbench'' (mqtt_message (map (\<lambda>b. char_of (unat b)) nm) st) 2 False) ?q\<rparr>)"
    by (rule mqtt_drain_all) (use assms(3) in simp_all)
  moreover have "report_all c cap rs s = Some ?s" using report_all_ring [OF assms(1,4,5), of cap rs] by simp
  then have "mqtt_period c L (report_all c cap rs) s = mqtt_drain L (map (\<lambda>b. char_of (unat b)) nm) (Suc (length ?q)) ?s"
    using assms(2) by (simp add: mqtt_period_def del: mqtt_drain.simps)
  ultimately show ?thesis using assms(4) by (simp del: mqtt_drain.simps)
qed

section \<open>All periods\<close>

text \<open>The reports that are published in a period with \<open>n\<close> free buffers, and the buffers free after it.\<close>

definition reports_sent :: "nat \<Rightarrow> nat \<Rightarrow> 'r list \<Rightarrow> 'r list" where
  "reports_sent cap n rs = take (min n cap) rs"

definition buffers_left :: "nat \<Rightarrow> nat \<Rightarrow> 'r list \<Rightarrow> nat" where
  "buffers_left cap n rs = n - (min n (length rs) - cap)"

definition mqtt_ok :: "application_config \<Rightarrow> bytes \<Rightarrow> mqtt_state \<Rightarrow> bool" where
  "mqtt_ok c nm s \<longleftrightarrow> log_via_mqtt c \<and> log_via_mqtt_measurement_name c = Some nm \<and> mosq s = Alive () \<and> mqtt_ring s = Alive [] \<and>
     (\<exists>n. mqtt_pool s = Alive n)"

lemma mqtt_periods_rounds:
  "mqtt_periods c L (map (report_all c cap) bs) s = rounds (\<lambda>rs. mqtt_period c L (report_all c cap rs)) bs s"
  by (induction bs arbitrary: s) (auto split: bind_splits)

interpretation mqtt_service: ring_service "mqtt_ok c nm" "\<lambda>rs. mqtt_period c L (report_all c cap rs)" mosq_calls
  "\<lambda>s. the (alive (mqtt_pool s))" "\<lambda>n rs. map (publication nm) (reports_sent cap n rs)" "buffers_left cap" for c nm L cap
proof
  fix s and rs :: "(stat_frame_type \<times> statistics) list" assume ok: "mqtt_ok c nm s"
  then obtain n where s: "log_via_mqtt c" "log_via_mqtt_measurement_name c = Some nm" "mosq s = Alive ()" "mqtt_ring s = Alive []" "mqtt_pool s = Alive n"
    by (auto simp: mqtt_ok_def)
  from mqtt_period_result [OF s, of L cap rs] s
  show "\<exists>s'. mqtt_period c L (report_all c cap rs) s = Some s' \<and> mqtt_ok c nm s' \<and>
      mosq_calls s' = mosq_calls s @ map (publication nm) (reports_sent cap (the (alive (mqtt_pool s))) rs) \<and>
      the (alive (mqtt_pool s')) = buffers_left cap (the (alive (mqtt_pool s))) rs"
    by (simp add: mqtt_ok_def reports_sent_def buffers_left_def)
qed

text \<open>
  C28: the publisher sends the reports of every period to the broker, each once and in
  order, as long as no period has more reports than the ring holds, and then all buffers
  are back in the pool. A period with more reports publishes the first ones only, and one
  buffer of the pool is lost for ever for every report that met a full ring.
\<close>

theorem mqtt_delivers:
  assumes "log_via_mqtt c" and "log_via_mqtt_measurement_name c = Some nm" and "mosq s = Alive ()"
    and "mqtt_ring s = Alive []" and "mqtt_pool s = Alive n"
  shows "\<exists>s'. mqtt_periods c L (map (report_all c cap) bs) s = Some s' \<and> mqtt_ring s' = Alive [] \<and>
     mosq_calls s' = mosq_calls s @ sent_all (\<lambda>n rs. map (publication nm) (reports_sent cap n rs)) (buffers_left cap) bs n \<and>
     mqtt_pool s' = Alive (free_after (buffers_left cap) bs n) \<and>
     ((\<forall>rs \<in> set bs. length rs \<le> cap \<and> length rs \<le> n) \<longrightarrow>
        mosq_calls s' = mosq_calls s @ map (publication nm) (concat bs) \<and> mqtt_pool s' = Alive n)"
proof -
  have "mqtt_ok c nm s" using assms by (simp add: mqtt_ok_def)
  from mqtt_service.rounds_ok [OF this, of L cap bs] assms(5) obtain s' where
    s': "rounds (\<lambda>rs. mqtt_period c L (report_all c cap rs)) bs s = Some s'" "mqtt_ok c nm s'"
    "mosq_calls s' = mosq_calls s @ sent_all (\<lambda>n rs. map (publication nm) (reports_sent cap n rs)) (buffers_left cap) bs n"
    "the (alive (mqtt_pool s')) = free_after (buffers_left cap) bs n" by auto
  then have p: "mqtt_pool s' = Alive (free_after (buffers_left cap) bs n)" "mqtt_ring s' = Alive []" by (auto simp: mqtt_ok_def)
  have "mosq_calls s' = mosq_calls s @ map (publication nm) (concat bs) \<and> mqtt_pool s' = Alive n"
    if small: "\<forall>rs \<in> set bs. length rs \<le> cap \<and> length rs \<le> n"
  proof -
    have "buffers_left cap n rs = n" "reports_sent cap n rs = rs" if "rs \<in> set bs" for rs
      using that small by (simp_all add: buffers_left_def reports_sent_def)
    moreover from this(1) have "sent_all (\<lambda>n rs. map (publication nm) (reports_sent cap n rs)) (buffers_left cap) bs n =
        concat (map (\<lambda>rs. map (publication nm) (reports_sent cap n rs)) bs)" "free_after (buffers_left cap) bs n = n"
      by (simp_all add: sent_all_const free_after_const)
    ultimately show ?thesis using s'(3) p by (simp add: map_concat cong: map_cong)
  qed
  then show ?thesis using s' p mqtt_periods_rounds by metis
qed

definition ex_mqtt_config :: application_config where
  "ex_mqtt_config = zero_config\<lparr>log_via_mqtt := True, log_via_mqtt_broker_ip := Some [49], log_via_mqtt_measurement_name := Some [116]\<rparr>"

definition ex_mqtt_state :: mqtt_state where
  "ex_mqtt_state = \<lparr>mosq = Alive (), mqtt_ring = Alive [], mqtt_pool = Alive 5, mosq_calls = []\<rparr>"

lemma mqtt_delivers_witness:
  "\<exists>s'. mqtt_periods ex_mqtt_config (\<lambda>_ _. 0)
       (map (report_all ex_mqtt_config 1) [[(RTC_FRAME_TYPE, zero_statistics)], replicate 3 (RTA_FRAME_TYPE, zero_statistics)]) ex_mqtt_state = Some s' \<and>
     mqtt_pool s' = Alive 3 \<and>
     mosq_calls s' = map (publication [116]) [(RTC_FRAME_TYPE, zero_statistics), (RTA_FRAME_TYPE, zero_statistics)]"
proof -
  have "log_via_mqtt ex_mqtt_config" "log_via_mqtt_measurement_name ex_mqtt_config = Some [116]" "mosq ex_mqtt_state = Alive ()"
    "mqtt_ring ex_mqtt_state = Alive []" "mqtt_pool ex_mqtt_state = Alive 5"
    by (simp_all add: ex_mqtt_config_def ex_mqtt_state_def)
  from mqtt_delivers [OF this, of "\<lambda>_ _. 0" 1 "[[(RTC_FRAME_TYPE, zero_statistics)], replicate 3 (RTA_FRAME_TYPE, zero_statistics)]"]
  show ?thesis by (auto simp: ex_mqtt_state_def buffers_left_def reports_sent_def)
qed

section \<open>A refused connection\<close>

text \<open>
  When the broker refuses the connection the thread destroys the client and keeps its
  pointer; the release at the end of the program uses it again.
\<close>

lemma mqtt_refused_then_released:
  assumes "log_via_mqtt c" and "log_via_mqtt_broker_ip c = Some ip"
    and "\<And>xs. L xs (New True) \<noteq> 0" and "\<And>xs. L xs (Connect ip (log_via_mqtt_broker_port c) (log_via_mqtt_keep_alive_secs c)) \<noteq> 0"
  shows "\<exists>s'. log_via_mqtt_thread_routine c L ok ps s = Some (-1, s') \<and> log_mqtt_deinit c L s' = None"
  using assms by (simp add: log_via_mqtt_thread_routine_def lib_call_def client_call_def mqtt_err_def log_mqtt_deinit_def
      log_via_mqtt_thread_free_def Let_def split: option.splits bind_splits)

end
