(* ===== verification/Packet_Handler.thy ===== *)
theory Packet_Handler
  imports Functions
begin

text \<open>
  The packet handler of \<^verbatim>\<open>packet_handler.c\<close>: a thread that empties a queue nobody else reads.
  What it asks of the device is recorded as a list of events; the packets the device
  returns and the readings of \<^verbatim>\<open>force_quit\<close> are its input.
\<close>

definition DEFAULT_BURST_COUNT :: nat where "DEFAULT_BURST_COUNT = 128"

datatype 'm ph_event = Rx_Burst u16 u16 nat | Free_Bulk "'m list" | Tx_Burst u16 u16 nat

text \<open>
  One element of the input per round: \<^verbatim>\<open>force_quit\<close> and the packets of the burst. The
  result is \<open>None\<close> as long as \<^verbatim>\<open>force_quit\<close> has not been set.
\<close>

fun ph_loop :: "u16 \<Rightarrow> u16 \<Rightarrow> (bool \<times> 'm list) list \<Rightarrow> 'm ph_event list \<Rightarrow> (int \<times> 'm ph_event list) option" where
  "ph_loop pid qid [] ev = None"
| "ph_loop pid qid ((force_quit, ms) # rs) ev =
     (if force_quit then Some (0, ev)
      else let ms = take DEFAULT_BURST_COUNT ms;
               ev = ev @ [Rx_Burst pid qid DEFAULT_BURST_COUNT];
               ev = (if ms \<noteq> [] then ev @ [Free_Bulk ms] else ev)
           in ph_loop pid qid rs (ev @ [Tx_Burst pid qid 0]))"

definition pkt_handler_threads_routine ::
  "application_config \<Rightarrow> (bool \<times> 'm list) list \<Rightarrow> (int \<times> 'm ph_event list) option" where
  "pkt_handler_threads_routine c rs =
     (let lid = pkt_handler_lport_id c in ph_loop (lport2pid lid) (lport2qid lid) rs [])"

text \<open>The release does nothing: the array of mbufs stays allocated.\<close>

definition pkt_handler_threads_free :: "('f, 'c, 'z) thread_context_scheme option \<Rightarrow> ('f, 'c, 'z) thread_context_scheme option" where
  "pkt_handler_threads_free ctx = (case ctx of None \<Rightarrow> None | Some w \<Rightarrow> Some w)"

definition pkt_handler_threads_create ::
  "application_config \<Rightarrow> bool \<Rightarrow> ('f, 'c, 'z) thread_context_scheme \<Rightarrow> int \<times> ('f, 'c, 'z) thread_context_scheme" where
  "pkt_handler_threads_create c alloc_ok w =
     (if \<not> pkt_handler_enabled c then (0, w)
      else let w = w\<lparr>mbufs := alloc_ok\<rparr> in
           if \<not> mbufs w then (- ENOMEM, the (pkt_handler_threads_free (Some w))) else (0, w))"

definition pkt_handler_init ::
  "application_config \<Rightarrow> ('f, 'c, 'z) thread_context_scheme \<Rightarrow> int \<times> ('f, 'c, 'z) thread_context_scheme" where
  "pkt_handler_init c w = (0, w\<lparr>lcore_id := pkt_handler_thread_cpu c\<rparr>)"

definition pkt_handler_launch ::
  "application_config \<Rightarrow> bool \<Rightarrow> bool \<Rightarrow> int \<Rightarrow> ('f, 'c, 'z) thread_context_scheme \<Rightarrow> ('f, 'c, 'z) thread_context_scheme run" where
  "pkt_handler_launch c alloc_ok running launch_ret w =
     (if \<not> pkt_handler_enabled c then Returned 0 w
      else case pkt_handler_threads_create c alloc_ok w of (r, w) \<Rightarrow>
        if r \<noteq> 0 then Returned (-1) w
        else if running then Exited w else Returned launch_ret w)"

definition pkt_handler_deinit ::
  "application_config \<Rightarrow> ('f, 'c, 'z) thread_context_scheme option \<Rightarrow> ('f, 'c, 'z) thread_context_scheme option" where
  "pkt_handler_deinit c w = (if pkt_handler_enabled c then pkt_handler_threads_free w else w)"

section \<open>Nothing is kept\<close>

text \<open>Every packet received before \<^verbatim>\<open>force_quit\<close> is seen is freed once, in order, and the routine returns.\<close>

fun freed_of :: "'m ph_event \<Rightarrow> 'm list" where
  "freed_of (Free_Bulk ms) = ms"
| "freed_of _ = []"

lemma ph_loop_frees:
  assumes "\<forall>(fq, ms) \<in> set rs. \<not> fq \<and> length ms \<le> DEFAULT_BURST_COUNT"
  shows "\<exists>ev'. ph_loop pid qid (rs @ [(True, ms)]) ev = Some (0, ev') \<and>
     concat (map freed_of ev') = concat (map freed_of ev) @ concat (map snd rs)"
  using assms
proof (induction rs arbitrary: ev)
  case (Cons r rs)
  obtain ps where r: "r = (False, ps)" "length ps \<le> DEFAULT_BURST_COUNT" using Cons.prems by (cases r) auto
  let ?ev = "(if ps \<noteq> [] then (ev @ [Rx_Burst pid qid DEFAULT_BURST_COUNT]) @ [Free_Bulk ps]
              else ev @ [Rx_Burst pid qid DEFAULT_BURST_COUNT]) @ [Tx_Burst pid qid 0]"
  have "concat (map freed_of ?ev) = concat (map freed_of ev) @ ps" by simp
  moreover obtain ev' where "ph_loop pid qid (rs @ [(True, ms)]) ?ev = Some (0, ev')"
    "concat (map freed_of ev') = concat (map freed_of ?ev) @ concat (map snd rs)"
    using Cons.IH [of ?ev] Cons.prems by auto
  ultimately show ?case using r by (auto simp: Let_def)
qed simp

lemma pkt_handler_frees_all:
  assumes "\<forall>(fq, ms) \<in> set rs. \<not> fq \<and> length ms \<le> DEFAULT_BURST_COUNT"
  shows "\<exists>ev. pkt_handler_threads_routine c (rs @ [(True, ms)]) = Some (0, ev) \<and> concat (map freed_of ev) = concat (map snd rs)"
  using ph_loop_frees [OF assms, of _ _ ms "[]"] by (auto simp: pkt_handler_threads_routine_def Let_def)

end
