(* ===== verification/Ratt.thy ===== *)
theory Ratt
  imports Lport
begin

text \<open>
  The round-trip test of \<^verbatim>\<open>apps/ratt\<close>: its data (\<^verbatim>\<open>ratt.h\<close>, \<^verbatim>\<open>stats.h\<close>), the reference side that
  sends a burst per cycle and measures its return (\<^verbatim>\<open>reference.c\<close>), and the mirror that
  returns what it receives (\<^verbatim>\<open>mirror.c\<close>). The clock, the flag other threads set, the link and
  the network device are parameters. A result \<open>None\<close> is an access outside a buffer or an
  array, or fuel that was used up.
\<close>

section \<open>Data\<close>

definition THE_BEEF_TIMESTAMP :: u16 where "THE_BEEF_TIMESTAMP = 0xBEEF"
definition BIG_NUM :: u64 where "BIG_NUM = 1000000"
definition MAX_BURST_COUNT :: nat where "MAX_BURST_COUNT = 2 * 1024"
definition MIN_PKT_LENGTH :: u16 where "MIN_PKT_LENGTH = 64"
definition MAX_PKT_LENGTH :: u16 where "MAX_PKT_LENGTH = 1536"
definition FCS_SIZE :: u16 where "FCS_SIZE = 4"
definition DEFAULT_DELAY_SEC :: u16 where "DEFAULT_DELAY_SEC = 2"
definition DEFAULT_SKIP_COUNT :: u32 where "DEFAULT_SKIP_COUNT = 10"
definition WORKLOAD_MAX_ARGS :: nat where "WORKLOAD_MAX_ARGS = 1024"

record min_avg_max_t =
  min_ns :: u64
  max_ns :: u64
  avg_ns :: u64
  sum_ns :: u64
  count_ns :: u64

record stats_t =
  rtt :: min_avg_max_t
  spike :: min_avg_max_t
  snapshot :: min_avg_max_t
  rx_snapshot :: min_avg_max_t
  tx_snapshot :: min_avg_max_t
  workload_time :: min_avg_max_t
  workload_snapshot :: min_avg_max_t
  total_rx :: u64
  total_tx :: u64
  rx_pps :: u64
  tx_pps :: u64
  no_mbufs :: u64
  no_timestamp :: u64
  id_error :: u64
  tx_ring_full :: u64
  rx_timeout_cnt :: u64
  rx_try_extra_time :: u64
  prev_rx_timeout :: u64

text \<open>Strings are held by value; the terminal settings are not modelled.\<close>

record workload_t =
  wl_enabled :: bool
  wl_file :: "string option"
  wl_func :: "string option"
  wl_args :: string
  wl_argv :: "string list"

record info_t =
  cycle_time_ns :: u64
  mqtt_lcore_id :: u16
  worker_lcore_id :: u16
  delay_sec :: u16
  burst_count :: u16
  pkt_length :: u16
  link_speed_mbps :: u32
  pkt_skip_cnt :: u32
  run_duration_sec :: u32
  burst_length_str :: "string option"
  run_duration_str :: "string option"
  dest_mac_str :: "string option"
  run_duration_end_ns :: u64
  r_start_time :: timespec
  mirror_enabled :: bool
  running :: bool
  screen_clear_flag :: bool
  reset_stats_flag :: bool
  log_enabled :: bool
  mqtt_enabled :: bool
  deltas_enabled :: bool
  mirror_serial_enabled :: bool
  internal_debug_enabled :: bool
  promiscuous_mode :: bool
  continue_on_error :: bool
  rt_workload :: workload_t

record lcore_t =
  src_mac :: bytes
  dst_mac :: bytes
  end_cycle_ns :: u64
  tx_id :: u16
  rx_id :: u16
  skip_cnt :: u32
  lstats :: stats_t

text \<open>
  What the worker thread uses of its surroundings: the clock, the flag \<^verbatim>\<open>running\<close> as the other
  threads leave it, the link, the device, the checksum DPDK computes of an IPv4 header.
  Each is read in order; the counters below say how often.
\<close>

record ratt_env =
  r_clock :: "nat \<Rightarrow> u64"
  r_flag :: "nat \<Rightarrow> bool"
  r_link_up :: "nat \<Rightarrow> bool"
  r_nic :: "nat \<Rightarrow> nat"
  r_rx :: "nat \<Rightarrow> mbuf list"
  r_cksum :: "bytes \<Rightarrow> u16"

record ratt =
  r_info :: info_t
  lcore :: lcore_t
  r_pool :: "mbuf list"
  r_wire :: "mbuf list"
  r_freed :: "mbuf list"
  delta_out :: "u64 list"
  r_ticks :: nat
  r_flags :: nat
  r_links :: nat
  r_tx_calls :: nat
  r_rx_calls :: nat

definition upd_stats :: "(stats_t \<Rightarrow> stats_t) \<Rightarrow> ratt \<Rightarrow> ratt" where
  "upd_stats f s = s\<lparr>lcore := (lcore s)\<lparr>lstats := f (lstats (lcore s))\<rparr>\<rparr>"

definition upd_lcore :: "(lcore_t \<Rightarrow> lcore_t) \<Rightarrow> ratt \<Rightarrow> ratt" where
  "upd_lcore f s = s\<lparr>lcore := f (lcore s)\<rparr>"

section \<open>Helpers\<close>

definition clock_get_ns :: "ratt_env \<Rightarrow> ratt \<Rightarrow> u64 \<times> ratt" where
  "clock_get_ns E s = (r_clock E (r_ticks s), s\<lparr>r_ticks := r_ticks s + 1\<rparr>)"

definition stop_running :: "ratt \<Rightarrow> ratt" where
  "stop_running s = s\<lparr>r_info := (r_info s)\<lparr>running := False\<rparr>\<rparr>"

definition is_running :: "ratt_env \<Rightarrow> ratt \<Rightarrow> bool \<times> ratt" where
  "is_running E s =
     (let run = running (r_info s) \<and> r_flag E (r_flags s); s = s\<lparr>r_flags := r_flags s + 1\<rparr> in
      if \<not> run then (False, s)
      else if run_duration_end_ns (r_info s) \<noteq> 0
           then case clock_get_ns E s of (t, s) \<Rightarrow> (t < run_duration_end_ns (r_info s), s)
           else (True, s))"

definition is_link_up :: "ratt_env \<Rightarrow> ratt \<Rightarrow> bool \<times> ratt" where
  "is_link_up E s = (r_link_up E (r_links s), s\<lparr>r_links := r_links s + 1\<rparr>)"

fun send_packets :: "ratt_env \<Rightarrow> nat \<Rightarrow> mbuf list \<Rightarrow> ratt \<Rightarrow> ratt option" where
  "send_packets E 0 ms s = None"
| "send_packets E (Suc k) ms s =
     (let n = rte_eth_tx_burst (r_nic E) (r_tx_calls s) ms;
          s = s\<lparr>r_tx_calls := r_tx_calls s + 1, r_wire := r_wire s @ take n ms\<rparr>;
          ms = drop n ms in
      if ms = [] then Some s
      else case is_running E (upd_stats (\<lambda>t. t\<lparr>tx_ring_full := tx_ring_full t + 1\<rparr>) s) of (run, s) \<Rightarrow>
        if run then send_packets E k ms s else Some (s\<lparr>r_freed := r_freed s @ ms\<rparr>))"

definition min_avg_max_update :: "u64 \<Rightarrow> min_avg_max_t \<Rightarrow> min_avg_max_t" where
  "min_avg_max_update ns m =
     (let m = (if ns < min_ns m then m\<lparr>min_ns := ns\<rparr> else m);
          m = (if ns > max_ns m then m\<lparr>max_ns := ns\<rparr> else m)
      in m\<lparr>sum_ns := sum_ns m + ns, count_ns := count_ns m + 1\<rparr>)"

definition begin_time :: "ratt_env \<Rightarrow> u64 \<Rightarrow> ratt \<Rightarrow> u64 \<times> ratt" where
  "begin_time E b s = (if internal_debug_enabled (r_info s) then clock_get_ns E s else (b, s))"

definition end_time :: "ratt_env \<Rightarrow> ((min_avg_max_t \<Rightarrow> min_avg_max_t) \<Rightarrow> stats_t \<Rightarrow> stats_t) \<Rightarrow> u64 \<Rightarrow> ratt \<Rightarrow> ratt" where
  "end_time E on b s =
     (if internal_debug_enabled (r_info s)
      then case clock_get_ns E s of (t, s) \<Rightarrow> upd_stats (on (min_avg_max_update (t - b))) s
      else s)"

definition pow2roundup :: "u32 \<Rightarrow> u32" where
  "pow2roundup x =
     (let x = x - 1;
          x = x OR drop_bit 1 x;
          x = x OR drop_bit 2 x;
          x = x OR drop_bit 4 x;
          x = x OR drop_bit 8 x;
          x = x OR drop_bit 16 x
      in x + 1)"

section \<open>Reference\<close>

definition tx_ip_src_addr :: u32 where "tx_ip_src_addr = push_bit 24 198 OR push_bit 16 18 OR push_bit 8 0 OR 1"
definition tx_ip_dst_addr :: u32 where "tx_ip_dst_addr = push_bit 24 198 OR push_bit 16 18 OR push_bit 8 0 OR 2"

text \<open>The two headers; the checksum of the IPv4 header is computed with its own field left out.\<close>

definition setup_pkt_udp_ip_headers :: "ratt_env \<Rightarrow> u16 \<Rightarrow> bytes \<times> bytes" where
  "setup_pkt_udp_ip_headers E pkt_data_len =
     (let pkt_len = pkt_data_len + 8;
          udp = be_bytes 2 9 @ be_bytes 2 9 @ be_bytes 2 (unat pkt_len) @ [0, 0];
          pkt_len = pkt_len + 20;
          hdr = (\<lambda>ck. [0x45, 0] @ be_bytes 2 (unat pkt_len) @ [0, 0] @ [0, 0] @ [64, 17] @ ck @
                      be_bytes 4 (unat tx_ip_src_addr) @ be_bytes 4 (unat tx_ip_dst_addr))
      in (hdr (le_bytes 2 (unat (r_cksum E (hdr [0, 0])))), udp))"

text \<open>
  One packet: the addresses, the EtherType, both headers, and the fields of \<^verbatim>\<open>timestamp_t\<close>
  at offset 42: the time, the mark and the number of the packet, in the order of the host.
\<close>

definition tx_packet :: "ratt_env \<Rightarrow> ratt \<Rightarrow> u64 \<Rightarrow> u16 \<Rightarrow> mbuf \<Rightarrow> mbuf option" where
  "tx_packet E s curr_ns i m =
     (case setup_pkt_udp_ip_headers E (pkt_length (r_info s)) of (ip, udp) \<Rightarrow> do {
        b \<leftarrow> store 6 (src_mac (lcore s)) (m_data m);
        b \<leftarrow> store 0 (dst_mac (lcore s)) b;
        b \<leftarrow> wr16 12 0x0800 b;
        b \<leftarrow> store 14 ip b;
        b \<leftarrow> store 34 udp b;
        b \<leftarrow> store 42 (le_bytes 8 (unat curr_ns)) b;
        b \<leftarrow> store 50 (le_bytes 2 (unat THE_BEEF_TIMESTAMP)) b;
        b \<leftarrow> store 52 (le_bytes 2 (unat i)) b;
        Some (m\<lparr>m_data := b, m_pkt_len := ucast (pkt_length (r_info s)), m_data_len := pkt_length (r_info s)\<rparr>)
      })"

fun tx_loop :: "ratt_env \<Rightarrow> u64 \<Rightarrow> mbuf list \<Rightarrow> ratt \<Rightarrow> (mbuf list \<times> ratt) option" where
  "tx_loop E curr_ns [] s = Some ([], s)"
| "tx_loop E curr_ns (m # ms) s = do {
     m \<leftarrow> tx_packet E s curr_ns (tx_id (lcore s)) m;
     (ms, s) \<leftarrow> tx_loop E curr_ns ms (upd_lcore (\<lambda>l. l\<lparr>tx_id := tx_id l + 1\<rparr>) s);
     Some (m # ms, s)
   }"

text \<open>
  \<^verbatim>\<open>rte_mempool_get_bulk\<close> hands out all mbufs or none; the array holds \<open>MAX_BURST_COUNT\<close> of
  them. The first component is the result of the function.
\<close>

definition tx_timestamping :: "ratt_env \<Rightarrow> nat \<Rightarrow> ratt \<Rightarrow> (int \<times> ratt) option" where
  "tx_timestamping E k s =
     (let n = unat (burst_count (r_info s)) in
      if length (r_pool s) < n then Some (-1, upd_stats (\<lambda>t. t\<lparr>no_mbufs := no_mbufs t + 1\<rparr>) s)
      else if MAX_BURST_COUNT < n then None
      else case clock_get_ns E (s\<lparr>r_pool := drop n (r_pool s)\<rparr>) of (curr_ns, s') \<Rightarrow> do {
        (ms, s) \<leftarrow> tx_loop E curr_ns (take n (r_pool s)) s';
        s \<leftarrow> send_packets E k ms s;
        Some (0, upd_stats (\<lambda>t. t\<lparr>total_tx := total_tx t + ucast (burst_count (r_info s))\<rparr>) s)
      })"

text \<open>
  Polling until \<open>to_recv\<close> packets are there or the time is over: whether all are there, and
  the packets.
\<close>

fun rx_poll :: "ratt_env \<Rightarrow> nat \<Rightarrow> u64 \<Rightarrow> nat \<Rightarrow> mbuf list \<Rightarrow> ratt \<Rightarrow> (bool \<times> mbuf list \<times> ratt) option" where
  "rx_poll E 0 stop_ns to_recv got s = None"
| "rx_poll E (Suc k) stop_ns to_recv got s =
     (let ms = rte_eth_rx_burst (r_rx E) (r_rx_calls s) to_recv;
          s = s\<lparr>r_rx_calls := r_rx_calls s + 1\<rparr> in
      if MAX_BURST_COUNT < length got + length ms then None
      else if ms \<noteq> [] \<and> to_recv = length ms then Some (True, got @ ms, s)
      else case clock_get_ns E s of (t, s) \<Rightarrow>
        if t < stop_ns then rx_poll E k stop_ns (to_recv - length ms) (got @ ms) s
        else Some (False, got @ ms, s))"

definition le_val :: "bytes \<Rightarrow> nat" where
  "le_val b = be_val (rev b)"

text \<open>The label \<^verbatim>\<open>process_packets\<close>.\<close>

definition process_packets :: "ratt_env \<Rightarrow> u64 \<Rightarrow> mbuf list \<Rightarrow> ratt \<Rightarrow> ratt option" where
  "process_packets E begin_ns ms s =
     (let s = end_time E (\<lambda>f t. t\<lparr>rx_snapshot := f (rx_snapshot t)\<rparr>) begin_ns s in
      case clock_get_ns E s of (curr_ns, s) \<Rightarrow>
      let n = of_nat (length ms);
          s = upd_stats (\<lambda>t. t\<lparr>total_rx := total_rx t + of_nat (length ms)\<rparr>) s;
          skip = skip_cnt (lcore s) in
      if ms \<noteq> [] \<and> skip \<noteq> 0
      then Some (upd_lcore (\<lambda>l. l\<lparr>skip_cnt := skip - 1, rx_id := rx_id l + n\<rparr>) (s\<lparr>r_freed := r_freed s @ ms\<rparr>))
      else do {
        m \<leftarrow> (case ms of [] \<Rightarrow> None | m # _ \<Rightarrow> Some m);
        beef \<leftarrow> load 50 2 (m_data m);
        if le_val beef = unat THE_BEEF_TIMESTAMP
        then do {
          i \<leftarrow> load 52 2 (m_data m);
          tstamp \<leftarrow> load 42 8 (m_data m);
          let s = (if rx_id (lcore s) \<noteq> of_nat (le_val i) then upd_stats (\<lambda>t. t\<lparr>id_error := id_error t + 1\<rparr>) s else s);
          let s = upd_lcore (\<lambda>l. l\<lparr>rx_id := rx_id l + n\<rparr>) s;
          let delta_ns = curr_ns - of_nat (le_val tstamp);
          let s = upd_stats (\<lambda>t. t\<lparr>rtt := min_avg_max_update delta_ns (rtt t),
                                   snapshot := min_avg_max_update delta_ns (snapshot t)\<rparr>) s;
          let s = (if delta_ns \<ge> cycle_time_ns (r_info s) * 2
                   then upd_stats (\<lambda>t. t\<lparr>spike := min_avg_max_update delta_ns (spike t)\<rparr>) s else s);
          Some (s\<lparr>delta_out := delta_out s @ [delta_ns], r_freed := r_freed s @ ms\<rparr>)
        }
        else Some ((upd_stats (\<lambda>t. t\<lparr>no_timestamp := no_timestamp t + 1\<rparr>) s)\<lparr>r_freed := r_freed s @ ms\<rparr>)
      })"

text \<open>The result of the function is always 0.\<close>

definition rx_timestamping :: "ratt_env \<Rightarrow> nat \<Rightarrow> ratt \<Rightarrow> (int \<times> ratt) option" where
  "rx_timestamping E k s =
     (let to_recv = unat (burst_count (r_info s)); stop_ns = end_cycle_ns (lcore s) in
      case begin_time E 0 s of (begin_ns, s) \<Rightarrow> do {
        (complete, ms, s) \<leftarrow> rx_poll E k stop_ns to_recv [] s;
        if complete then map_option (\<lambda>s. (0, s)) (process_packets E begin_ns ms s)
        else do {
          let s = upd_stats (\<lambda>t. t\<lparr>rx_try_extra_time := rx_try_extra_time t + 1\<rparr>) s;
          (complete, ms, s) \<leftarrow> rx_poll E k (stop_ns + cycle_time_ns (r_info s) div 4) (to_recv - length ms) ms s;
          if complete then map_option (\<lambda>s. (0, s)) (process_packets E begin_ns ms s)
          else case is_running E s of (run, s) \<Rightarrow>
            if \<not> run \<or> ms = [] then Some (0, s)
            else map_option (\<lambda>s. (0, s)) (process_packets E begin_ns ms s)
        }
      })"

text \<open>The wait for the link: \<open>Some (False, ...)\<close> when the program was stopped first.\<close>

fun wait_link :: "ratt_env \<Rightarrow> nat \<Rightarrow> ratt \<Rightarrow> (bool \<times> ratt) option" where
  "wait_link E 0 s = None"
| "wait_link E (Suc k) s =
     (case is_link_up E s of (up, s) \<Rightarrow>
        if up then Some (True, s)
        else case is_running E s of (run, s) \<Rightarrow> if run then wait_link E k s else Some (False, s))"

fun reference_loop :: "ratt_env \<Rightarrow> nat \<Rightarrow> u64 \<Rightarrow> ratt \<Rightarrow> ratt run option" where
  "reference_loop E 0 begin_ns s = None"
| "reference_loop E (Suc k) begin_ns s =
     (case is_running E s of (run, s) \<Rightarrow>
        if \<not> run then Some (Returned 0 s)
        else case clock_get_ns E s of (t, s) \<Rightarrow>
          if t < end_cycle_ns (lcore s) then reference_loop E k begin_ns s
          else let s = upd_lcore (\<lambda>l. l\<lparr>end_cycle_ns := end_cycle_ns l + cycle_time_ns (r_info s)\<rparr>) s in
            case begin_time E begin_ns s of (begin_ns, s) \<Rightarrow> do {
              (ret, s) \<leftarrow> tx_timestamping E k s;
              if ret \<noteq> 0 then Some (Exited s)
              else do {
                let s = end_time E (\<lambda>f t. t\<lparr>tx_snapshot := f (tx_snapshot t)\<rparr>) begin_ns s;
                (ret, s) \<leftarrow> rx_timestamping E k s;
                if ret \<noteq> 0 \<and> \<not> continue_on_error (r_info s)
                then reference_loop E k begin_ns
                       (stop_running (end_time E (\<lambda>f t. t\<lparr>rx_snapshot := f (rx_snapshot t)\<rparr>) begin_ns s))
                else reference_loop E k begin_ns s
              }
            })"

definition reference_routine :: "ratt_env \<Rightarrow> nat \<Rightarrow> ratt \<Rightarrow> ratt run option" where
  "reference_routine E k s = do {
     (up, s) \<leftarrow> wait_link E k s;
     if \<not> up then Some (Returned 0 s)
     else case clock_get_ns E s of (t, s) \<Rightarrow>
       reference_loop E k 0 (upd_lcore (\<lambda>l. l\<lparr>end_cycle_ns := t, skip_cnt := pkt_skip_cnt (r_info s)\<rparr>) s)
   }"

section \<open>Mirror\<close>

fun update_mac_addrs :: "lcore_t \<Rightarrow> mbuf list \<Rightarrow> mbuf list option" where
  "update_mac_addrs l [] = Some []"
| "update_mac_addrs l (m # ms) = do {
     b \<leftarrow> store 6 (src_mac l) (m_data m);
     b \<leftarrow> store 0 (dst_mac l) b;
     ms \<leftarrow> update_mac_addrs l ms;
     Some (m\<lparr>m_data := b\<rparr> # ms)
   }"

text \<open>The reception of a whole burst in serial mode: the packets, and whether the burst is complete.\<close>

fun serial_rx :: "ratt_env \<Rightarrow> nat \<Rightarrow> nat \<Rightarrow> mbuf list \<Rightarrow> ratt \<Rightarrow> (mbuf list \<times> ratt) option" where
  "serial_rx E 0 to_recv got s = None"
| "serial_rx E (Suc k) to_recv got s =
     (let ms = rte_eth_rx_burst (r_rx E) (r_rx_calls s) to_recv;
          s = s\<lparr>r_rx_calls := r_rx_calls s + 1\<rparr> in
      if MAX_BURST_COUNT < length got + length ms then None
      else if ms \<noteq> [] \<and> to_recv = length ms
      then let n = of_nat (length (got @ ms)) in
           Some (got @ ms, upd_stats (\<lambda>t. t\<lparr>total_rx := total_rx t + n, total_tx := total_tx t + n\<rparr>) s)
      else case is_running E s of (run, s) \<Rightarrow>
        if run then serial_rx E k (to_recv - length ms) (got @ ms) s
        else Some (got @ ms, upd_stats (\<lambda>t. t\<lparr>rx_timeout_cnt := rx_timeout_cnt t + 1\<rparr>) s))"

definition run_workload :: "ratt_env \<Rightarrow> ratt \<Rightarrow> ratt" where
  "run_workload E s =
     (if wl_enabled (rt_workload (r_info s))
      then case clock_get_ns E s of (b, s) \<Rightarrow> case clock_get_ns E s of (t, s) \<Rightarrow>
             upd_stats (\<lambda>st. st\<lparr>workload_time := min_avg_max_update (t - b) (workload_time st),
                               workload_snapshot := min_avg_max_update (t - b) (workload_snapshot st)\<rparr>) s
      else s)"

definition mirror_send :: "ratt_env \<Rightarrow> nat \<Rightarrow> u64 \<Rightarrow> mbuf list \<Rightarrow> ratt \<Rightarrow> (u64 \<times> ratt) option" where
  "mirror_send E k begin_ns ms s =
     (case begin_time E begin_ns s of (begin_ns, s) \<Rightarrow> do {
        ms \<leftarrow> update_mac_addrs (lcore s) ms;
        s \<leftarrow> send_packets E k ms s;
        Some (begin_ns, end_time E (\<lambda>f t. t\<lparr>tx_snapshot := f (tx_snapshot t)\<rparr>) begin_ns s)
      })"

fun serial_loop :: "ratt_env \<Rightarrow> nat \<Rightarrow> u64 \<Rightarrow> ratt \<Rightarrow> ratt option" where
  "serial_loop E 0 begin_ns s = None"
| "serial_loop E (Suc k) begin_ns s =
     (case is_running E s of (run, s) \<Rightarrow>
        if \<not> run then Some s
        else case begin_time E begin_ns s of (begin_ns, s) \<Rightarrow> do {
          (ms, s) \<leftarrow> serial_rx E k (unat (burst_count (r_info s))) [] s;
          let s = end_time E (\<lambda>f t. t\<lparr>rx_snapshot := f (rx_snapshot t)\<rparr>) begin_ns s;
          (begin_ns, s) \<leftarrow> mirror_send E k begin_ns ms (run_workload E s);
          serial_loop E k begin_ns s
        })"

fun mirror_loop :: "ratt_env \<Rightarrow> nat \<Rightarrow> u64 \<Rightarrow> ratt \<Rightarrow> ratt option" where
  "mirror_loop E 0 begin_ns s = None"
| "mirror_loop E (Suc k) begin_ns s =
     (case is_running E s of (run, s) \<Rightarrow>
        if \<not> run then Some s
        else case begin_time E begin_ns s of (begin_ns, s) \<Rightarrow>
          let ms = rte_eth_rx_burst (r_rx E) (r_rx_calls s) MAX_BURST_COUNT;
              s = s\<lparr>r_rx_calls := r_rx_calls s + 1\<rparr> in
          if ms = [] then mirror_loop E k begin_ns s
          else do {
            let s = end_time E (\<lambda>f t. t\<lparr>rx_snapshot := f (rx_snapshot t)\<rparr>) begin_ns s;
            let n = of_nat (length ms);
            (begin_ns, s) \<leftarrow> mirror_send E k begin_ns ms (upd_stats (\<lambda>t. t\<lparr>total_rx := total_rx t + n, total_tx := total_tx t + n\<rparr>) s);
            mirror_loop E k begin_ns s
          })"

definition mirror_routine :: "ratt_env \<Rightarrow> nat \<Rightarrow> ratt \<Rightarrow> (int \<times> ratt) option" where
  "mirror_routine E k s = do {
     (up, s) \<leftarrow> wait_link E k s;
     if \<not> up then Some (0, s)
     else do {
       let s = (if wl_enabled (rt_workload (r_info s))
                then upd_stats (\<lambda>t. t\<lparr>workload_time := (workload_time t)\<lparr>min_ns := BIG_NUM\<rparr>\<rparr>) s else s);
       s \<leftarrow> (if mirror_serial_enabled (r_info s) then serial_loop E k 0 s else mirror_loop E k 0 s);
       Some (0, s)
     }
   }"

end
