(* ===== verification/Burst_Sender.thy ===== *)
theory Burst_Sender
  imports Prelude
begin

text \<open>
  The contract of the three copies of \<^verbatim>\<open>send_packets\<close>: a burst takes a prefix of what it is
  offered; while packets are left and the program runs the rest is offered again, else the
  rest is freed. \<open>polls\<close> counts the looks at the flag of the other threads, \<open>live\<close>.
\<close>

locale burst_sender =
  fixes send :: "nat \<Rightarrow> 'm list \<Rightarrow> 's \<Rightarrow> 's option"
    and offer :: "'m list \<Rightarrow> 's \<Rightarrow> nat \<times> 's" and runs :: "'s \<Rightarrow> bool \<times> 's" and give_back :: "'m list \<Rightarrow> 's \<Rightarrow> 's"
    and wire :: "'s \<Rightarrow> 'm list" and freed :: "'s \<Rightarrow> 'm list" and polls :: "'s \<Rightarrow> nat" and rest :: "'s \<Rightarrow> 'r" and live :: "nat \<Rightarrow> bool"
  assumes send_Suc: "send (Suc k) ms s =
      (case offer ms s of (n, s) \<Rightarrow>
         if drop n ms = [] then Some s
         else case runs s of (r, s) \<Rightarrow> if r then send k (drop n ms) s else Some (give_back (drop n ms) s))"
    and offer_ok: "offer ms s = (n, s') \<Longrightarrow>
      wire s' = wire s @ take n ms \<and> freed s' = freed s \<and> polls s' = polls s \<and> rest s' = rest s"
    and runs_ok: "runs s = (r, s') \<Longrightarrow>
      wire s' = wire s \<and> freed s' = freed s \<and> polls s' = Suc (polls s) \<and> rest s' = rest s \<and> (r \<longrightarrow> live (polls s))"
    and give_back_ok: "wire (give_back ms s) = wire s" "freed (give_back ms s) = freed s @ ms" "polls (give_back ms s) = polls s"
      "rest (give_back ms s) = rest s"
begin

lemma send_split:
  assumes "\<not> live K" and "polls s \<le> K" and "K - polls s < k"
  shows "\<exists>s' n. send k ms s = Some s' \<and> wire s' = wire s @ take n ms \<and> freed s' = freed s @ drop n ms \<and> rest s' = rest s \<and> polls s \<le> polls s'"
  using assms(2,3)
proof (induction k arbitrary: s ms)
  case (Suc k)
  obtain n t where o: "offer ms s = (n, t)" by (cases "offer ms s")
  note t = offer_ok [OF o]
  obtain r u where r: "runs t = (r, u)" by (cases "runs t")
  note u = runs_ok [OF r]
  consider "drop n ms = []" | "drop n ms \<noteq> []" "\<not> r" | "drop n ms \<noteq> []" "r" by blast
  then show ?case
  proof cases
    case 1
    then show ?thesis using o t by (intro exI [of _ t] exI [of _ n]) (simp add: send_Suc)
  next
    case 2
    then show ?thesis using o r t u
      by (intro exI [of _ "give_back (drop n ms) u"] exI [of _ n]) (simp add: send_Suc give_back_ok)
  next
    case 3
    then have "polls s \<noteq> K" using t u assms(1) by auto
    then have "polls u \<le> K" "K - polls u < k" using Suc.prems t u by auto
    from Suc.IH [OF this, of "drop n ms"] obtain s' m where s': "send k (drop n ms) u = Some s'"
      "wire s' = wire u @ take m (drop n ms)" "freed s' = freed u @ drop m (drop n ms)" "rest s' = rest u" "polls u \<le> polls s'" by blast
    have "take (n + m) ms = take n ms @ take m (drop n ms)" "drop (n + m) ms = drop m (drop n ms)"
      by (simp_all add: take_add add.commute [of m])
    then show ?thesis using 3 o r t u s'
      by (intro exI [of _ s'] exI [of _ "n + m"]) (simp add: send_Suc del: drop_drop)
  qed
qed simp

text \<open>When the device takes all, one offer is enough.\<close>

lemma send_whole:
  assumes "offer ms s = (n, s')" and "length ms \<le> n"
  shows "send (Suc k) ms s = Some s'"
  using assms by (simp add: send_Suc)

end

end
