(* ===== verification/Ratt_Props.thy ===== *)
theory Ratt_Props
  imports Ratt Burst_Sender
begin

text \<open>
  Properties of the round-trip test: the size of its rings, the packets it sends, and the
  time it measures for a burst that comes back.
\<close>

section \<open>The size of the delta ring\<close>

lemma smear_step:
  fixes z :: u32
  assumes "\<And>i. bit z i \<longleftrightarrow> (\<exists>j<m. bit y (i + j))"
  shows "bit (z OR drop_bit m z) i \<longleftrightarrow> (\<exists>j<2 * m. bit y (i + j))"
proof -
  have "(\<exists>j<2 * m. P j) \<longleftrightarrow> (\<exists>j<m. P j) \<or> (\<exists>j<m. P (m + j))" for P :: "nat \<Rightarrow> bool"
    by (metis add_less_cancel_left le_add_diff_inverse mult_2 not_less trans_less_add1)
  from this [of "\<lambda>j. bit y (i + j)"] show ?thesis
    using assms by (simp add: bit_or_iff bit_drop_bit_eq ac_simps)
qed

definition smear :: "u32 \<Rightarrow> u32" where
  "smear y = pow2roundup (y + 1) - 1"

lemma bit_smear: "bit (smear y) i \<longleftrightarrow> (\<exists>j<32. bit y (i + j))"
proof -
  have 1: "bit y i \<longleftrightarrow> (\<exists>j<1. bit y (i + j))" for i by simp
  note 2 = smear_step [of y 1 y, OF 1]
  note 4 = smear_step [of _ 2 y, simplified, OF 2 [simplified]]
  note 8 = smear_step [of _ 4 y, simplified, OF 4 [simplified]]
  note 16 = smear_step [of _ 8 y, simplified, OF 8 [simplified]]
  note 32 = smear_step [of _ 16 y, simplified, OF 16 [simplified]]
  show ?thesis unfolding smear_def pow2roundup_def Let_def using 32 by simp
qed

lemma highest_bit:
  fixes y :: u32
  assumes "y \<noteq> 0"
  obtains n where "n < 32" and "bit y n" and "\<And>j. bit y j \<Longrightarrow> j \<le> n"
    and "2 ^ n \<le> unat y" and "unat y < 2 ^ Suc n"
proof -
  have fin: "finite {j. bit y j}" by (rule finite_subset [of _ "{..<32}"]) (auto dest: bit_imp_le_length)
  have ne: "{j. bit y j} \<noteq> {}" using assms by (auto simp: bit_eq_iff)
  let ?n = "Max {j. bit y j}"
  have b: "bit y ?n" using Max_in [OF fin ne] by simp
  have m: "j \<le> ?n" if "bit y j" for j using that Max_ge [OF fin] by simp
  have "take_bit (Suc ?n) y = y" by (rule bit_word_eqI) (auto simp: bit_take_bit_iff dest: m)
  then have "unat y < 2 ^ Suc ?n" by (metis take_bit_nat_less_exp unsigned_take_bit_eq)
  moreover have "2 ^ ?n \<le> unat y"
  proof (rule ccontr)
    assume "\<not> 2 ^ ?n \<le> unat y"
    then have "take_bit ?n (unat y) = unat y" by (simp add: take_bit_nat_eq_self)
    then have "\<not> bit (unat y) ?n" by (metis bit_take_bit_iff less_irrefl)
    then show False using b by (simp add: bit_unsigned_iff)
  qed
  moreover have "?n < 32" using b bit_imp_le_length by fastforce
  ultimately show thesis using that b m by blast
qed

text \<open>
  The size of the delta ring is the least power of two that is not below the requested
  number, for every number up to $2^{31}$.
\<close>

theorem pow2roundup_least:
  assumes "0 < x" and "x \<le> 2 ^ 31"
  shows "\<exists>k. unat (pow2roundup x) = 2 ^ k \<and> unat x \<le> 2 ^ k \<and> 2 ^ k < 2 * unat x"
proof (cases "x - 1 = 0")
  case True
  then have "x = 1" by simp
  then show ?thesis by (intro exI [of _ 0]) (simp add: pow2roundup_def Let_def)
next
  case False
  then obtain n where n: "n < 32" "bit (x - 1) n" "\<And>j. bit (x - 1) j \<Longrightarrow> j \<le> n" "2 ^ n \<le> unat (x - 1)" "unat (x - 1) < 2 ^ Suc n"
    by (rule highest_bit) blast
  have ux: "unat (x - 1) = unat x - 1" "0 < unat x" "unat x \<le> 2 ^ 31"
    using assms by (auto simp: unat_minus_one word_gt_0 unat_gt_0 word_le_nat_alt)
  have "n < 31"
  proof (rule ccontr)
    assume "\<not> n < 31"
    then have "(2::nat) ^ 31 \<le> 2 ^ n" by (intro power_increasing) auto
    then show False using n(4) ux by linarith
  qed
  have "smear (x - 1) = mask (Suc n)"
  proof (rule bit_word_eqI)
    fix i assume "i < LENGTH(32)"
    have "(\<exists>j<32. bit (x - 1) (i + j)) \<longleftrightarrow> i \<le> n"
    proof
      assume "i \<le> n"
      then show "\<exists>j<32. bit (x - 1) (i + j)" using n(1,2) by (intro exI [of _ "n - i"]) simp
    qed (use n(3) in fastforce)
    then show "bit (smear (x - 1)) i \<longleftrightarrow> bit (mask (Suc n) :: u32) i"
      using \<open>i < LENGTH(32)\<close> by (simp add: bit_smear bit_mask_iff less_Suc_eq_le)
  qed
  then have p: "pow2roundup x = word_of_nat (2 ^ Suc n)" by (simp add: smear_def mask_eq_exp_minus_1)
  have "(2::nat) ^ Suc n < 2 ^ 32" using \<open>n < 31\<close> by (intro power_strict_increasing) auto
  then have "unat (pow2roundup x) = 2 ^ Suc n" unfolding p by (simp add: unat_of_nat del: of_nat_power power_Suc)
  then show ?thesis using n(4,5) ux by (intro exI [of _ "Suc n"]) auto
qed

lemma pow2roundup_least_witness:
  "\<exists>k. unat (pow2roundup 64000) = 2 ^ k \<and> unat (64000 :: u32) \<le> 2 ^ k \<and> 2 ^ k < 2 * unat (64000 :: u32)"
  by (rule pow2roundup_least) simp_all

section \<open>Sending\<close>

definition ratt_offer :: "ratt_env \<Rightarrow> mbuf list \<Rightarrow> ratt \<Rightarrow> nat \<times> ratt" where
  "ratt_offer E ms s =
     (let n = rte_eth_tx_burst (r_nic E) (r_tx_calls s) ms in
      (n, s\<lparr>r_tx_calls := r_tx_calls s + 1, r_wire := r_wire s @ take n ms\<rparr>))"

definition ratt_runs :: "ratt_env \<Rightarrow> ratt \<Rightarrow> bool \<times> ratt" where
  "ratt_runs E s = is_running E (upd_stats (\<lambda>t. t\<lparr>tx_ring_full := tx_ring_full t + 1\<rparr>) s)"

interpretation ratt_sender: burst_sender "send_packets E" "ratt_offer E" "ratt_runs E" "\<lambda>ms s. s\<lparr>r_freed := r_freed s @ ms\<rparr>"
  r_wire r_freed r_flags "\<lambda>s. (r_info s, r_pool s, delta_out s)" "r_flag E" for E
proof
  show "send_packets E (Suc k) ms s =
      (case ratt_offer E ms s of (n, s) \<Rightarrow>
         if drop n ms = [] then Some s
         else case ratt_runs E s of (r, s) \<Rightarrow>
           if r then send_packets E k (drop n ms) s else Some (s\<lparr>r_freed := r_freed s @ drop n ms\<rparr>))" for k ms s
    by (simp add: ratt_offer_def ratt_runs_def Let_def)
qed (auto simp: ratt_offer_def ratt_runs_def upd_stats_def is_running_def clock_get_ns_def Let_def split: if_splits)

text \<open>
  Sending always ends once the program is told to stop, and every packet given to it is
  then either with the device, in order, or freed: none is lost and none is used twice.
\<close>

theorem ratt_send_conserves:
  assumes "\<not> r_flag E K" and "r_flags s \<le> K" and "K - r_flags s < k"
  shows "\<exists>s' n. send_packets E k ms s = Some s' \<and> r_wire s' = r_wire s @ take n ms \<and> r_freed s' = r_freed s @ drop n ms"
  using ratt_sender.send_split [OF assms] by blast

section \<open>A round trip\<close>

text \<open>The fields of \<^verbatim>\<open>timestamp_t\<close> in a frame.\<close>

definition stamped :: "u64 \<Rightarrow> u16 \<Rightarrow> mbuf \<Rightarrow> bool" where
  "stamped t i m \<longleftrightarrow> load 42 8 (m_data m) = Some (le_bytes 8 (unat t)) \<and>
     load 50 2 (m_data m) = Some (le_bytes 2 (unat THE_BEEF_TIMESTAMP)) \<and> load 52 2 (m_data m) = Some (le_bytes 2 (unat i))"

definition macs_ok :: "lcore_t \<Rightarrow> bool" where
  "macs_ok l \<longleftrightarrow> length (src_mac l) = 6 \<and> length (dst_mac l) = 6"

lemma le_val_le_bytes: "v < 256 ^ n \<Longrightarrow> le_val (le_bytes n v) = v"
  by (simp add: le_val_def le_bytes_def be_val_be_bytes)

lemma headers_length: "setup_pkt_udp_ip_headers E n = (ip, udp) \<Longrightarrow> length ip = 20 \<and> length udp = 8"
  by (auto simp: setup_pkt_udp_ip_headers_def Let_def length_be_bytes le_bytes_def)

lemma tx_packet_stamped:
  assumes "macs_ok (lcore s)" and "58 \<le> length (m_data m)"
  shows "\<exists>m'. tx_packet E s t i m = Some m' \<and> length (m_data m') = length (m_data m) \<and> stamped t i m'"
proof -
  obtain ip udp where h: "setup_pkt_udp_ip_headers E (pkt_length (r_info s)) = (ip, udp)"
    by (cases "setup_pkt_udp_ip_headers E (pkt_length (r_info s))")
  note l = headers_length [OF h] assms [unfolded macs_ok_def]
  have le: "length (le_bytes k v) = k" for k v by (simp add: le_bytes_def length_be_bytes)
  obtain b1 where b1: "store 6 (src_mac (lcore s)) (m_data m) = Some b1" "length b1 = length (m_data m)" 
    using store_ex [of 6 "src_mac (lcore s)" "m_data m"] l by auto
  obtain b2 where b2: "store 0 (dst_mac (lcore s)) b1 = Some b2" "length b2 = length (m_data m)"
    using store_ex [of 0 "dst_mac (lcore s)" b1] b1 l by auto
  obtain b3 where b3: "wr16 12 0x0800 b2 = Some b3" "length b3 = length (m_data m)" using wr16_ex [of 12 b2 "0x0800"] b2 l by auto
  obtain b4 where b4: "store 14 ip b3 = Some b4" "length b4 = length (m_data m)" using store_ex [of 14 ip b3] b3 l by auto
  obtain b5 where b5: "store 34 udp b4 = Some b5" "length b5 = length (m_data m)" using store_ex [of 34 udp b4] b4 l by auto
  obtain b6 where b6: "store 42 (le_bytes 8 (unat t)) b5 = Some b6" "length b6 = length (m_data m)"
    using store_ex [of 42 "le_bytes 8 (unat t)" b5] b5 l by (auto simp: le)
  obtain b7 where b7: "store 50 (le_bytes 2 (unat THE_BEEF_TIMESTAMP)) b6 = Some b7" "length b7 = length (m_data m)"
    using store_ex [of 50 "le_bytes 2 (unat THE_BEEF_TIMESTAMP)" b6] b6 l by (auto simp: le)
  obtain b8 where b8: "store 52 (le_bytes 2 (unat i)) b7 = Some b8" "length b8 = length (m_data m)"
    using store_ex [of 52 "le_bytes 2 (unat i)" b7] b7 l by (auto simp: le)
  have "load 42 8 b8 = Some (le_bytes 8 (unat t))"
    using load_store_same_n [OF b6(1) le] load_store [OF b7(1), of 42 8] load_store [OF b8(1), of 42 8] by simp
  moreover have "load 50 2 b8 = Some (le_bytes 2 (unat THE_BEEF_TIMESTAMP))"
    using load_store_same_n [OF b7(1) le] load_store [OF b8(1), of 50 2] by simp
  moreover have "load 52 2 b8 = Some (le_bytes 2 (unat i))" using load_store_same_n [OF b8(1) le] .
  ultimately show ?thesis using h b1 b2 b3 b4 b5 b6 b7 b8 by (simp add: tx_packet_def stamped_def)
qed

lemma tx_loop_frames:
  assumes "macs_ok (lcore s)" and "\<forall>m \<in> set ms. 58 \<le> length (m_data m)"
  shows "\<exists>ws. tx_loop E t ms s = Some (ws, upd_lcore (\<lambda>l. l\<lparr>tx_id := tx_id l + of_nat (length ms)\<rparr>) s) \<and> length ws = length ms \<and>
     (\<forall>w \<in> set ws. 58 \<le> length (m_data w)) \<and> (ms \<noteq> [] \<longrightarrow> stamped t (tx_id (lcore s)) (hd ws))"
  using assms
proof (induction ms arbitrary: s)
  case Nil
  then show ?case by (simp add: upd_lcore_def)
next
  case (Cons m ms)
  obtain m' where m': "tx_packet E s t (tx_id (lcore s)) m = Some m'" "length (m_data m') = length (m_data m)" "stamped t (tx_id (lcore s)) m'"
    using tx_packet_stamped Cons.prems by (metis list.set_intros(1))
  let ?s = "upd_lcore (\<lambda>l. l\<lparr>tx_id := tx_id l + 1\<rparr>) s"
  have "macs_ok (lcore ?s)" using Cons.prems(1) by (simp add: macs_ok_def upd_lcore_def)
  then obtain ws where "tx_loop E t ms ?s = Some (ws, upd_lcore (\<lambda>l. l\<lparr>tx_id := tx_id l + of_nat (length ms)\<rparr>) ?s)"
    "length ws = length ms" "\<forall>w \<in> set ws. 58 \<le> length (m_data w)" using Cons.IH [of ?s] Cons.prems(2) by auto
  then show ?case using m' Cons.prems(2) by (simp add: upd_lcore_def ac_simps)
qed

lemma mirrored_frames:
  assumes "macs_ok l" and "\<forall>w \<in> set ws. 58 \<le> length (m_data w)"
  shows "\<exists>ws'. update_mac_addrs l ws = Some ws' \<and> length ws' = length ws \<and> (ws \<noteq> [] \<and> stamped t i (hd ws) \<longrightarrow> stamped t i (hd ws'))"
  using assms(2)
proof (induction ws)
  case (Cons w ws)
  obtain b1 where b1: "store 6 (src_mac l) (m_data w) = Some b1" "length b1 = length (m_data w)"
    using store_ex [of 6 "src_mac l" "m_data w"] Cons.prems assms(1) by (auto simp: macs_ok_def)
  obtain b2 where b2: "store 0 (dst_mac l) b1 = Some b2" using store_ex [of 0 "dst_mac l" b1] Cons.prems b1 assms(1) by (auto simp: macs_ok_def)
  have "load j n b2 = load j n (m_data w)" if "12 \<le> j" for j n
    using load_store [OF b2, of j n] load_store [OF b1(1), of j n] that assms(1) by (simp add: macs_ok_def)
  then have "stamped t i w \<longrightarrow> stamped t i (w\<lparr>m_data := b2\<rparr>)" by (simp add: stamped_def)
  then show ?case using Cons b1 b2 by auto
qed simp

lemma process_stamped:
  fixes E :: ratt_env
  assumes "ms \<noteq> []" and "stamped t0 i (hd ms)" and "skip_cnt (lcore s) = 0" and "\<not> internal_debug_enabled (r_info s)"
  defines "d \<equiv> r_clock E (r_ticks s) - t0"
  shows "\<exists>s'. process_packets E b ms s = Some s' \<and> rtt (lstats (lcore s')) = min_avg_max_update d (rtt (lstats (lcore s))) \<and>
     delta_out s' = delta_out s @ [d] \<and> r_freed s' = r_freed s @ ms \<and> rx_id (lcore s') = rx_id (lcore s) + of_nat (length ms) \<and>
     tx_id (lcore s') = tx_id (lcore s) \<and>
     id_error (lstats (lcore s')) = id_error (lstats (lcore s)) + (if rx_id (lcore s) = i then 0 else 1)"
proof -
  obtain m rest where ms: "ms = m # rest" using assms(1) by (cases ms) auto
  have v: "le_val (le_bytes 8 (unat t0)) = unat t0" "le_val (le_bytes 2 (unat i)) = unat i"
    "le_val (le_bytes 2 (unat THE_BEEF_TIMESTAMP)) = unat THE_BEEF_TIMESTAMP"
    using unsigned_less [of t0, where ?'a = nat] unsigned_less [of i, where ?'a = nat] by (simp_all add: le_val_le_bytes THE_BEEF_TIMESTAMP_def)
  show ?thesis using assms(2-4) unfolding ms d_def
    by (simp add: process_packets_def stamped_def v end_time_def clock_get_ns_def upd_stats_def upd_lcore_def Let_def)
qed

text \<open>The frames of the burst sent in state \<open>s\<close>.\<close>

definition sent_frames :: "ratt_env \<Rightarrow> ratt \<Rightarrow> mbuf list" where
  "sent_frames E s =
     (let n = unat (burst_count (r_info s)) in
      case tx_loop E (r_clock E (r_ticks s)) (take n (r_pool s)) (s\<lparr>r_pool := drop n (r_pool s), r_ticks := r_ticks s + 1\<rparr>) of
        Some (ws, _) \<Rightarrow> ws | None \<Rightarrow> [])"

text \<open>What a burst needs: a valid size, free mbufs with room, valid addresses.\<close>

definition burst_ready :: "ratt \<Rightarrow> bool" where
  "burst_ready s \<longleftrightarrow> (let n = unat (burst_count (r_info s)) in
     0 < n \<and> n \<le> MAX_BURST_COUNT \<and> n \<le> length (r_pool s) \<and> macs_ok (lcore s) \<and> (\<forall>m \<in> set (r_pool s). 58 \<le> length (m_data m)))"

lemma sent_frames_ok:
  assumes "burst_ready s"
  defines "n \<equiv> unat (burst_count (r_info s))"
  defines "s0 \<equiv> s\<lparr>r_pool := drop n (r_pool s), r_ticks := r_ticks s + 1\<rparr>"
  shows "tx_loop E (r_clock E (r_ticks s)) (take n (r_pool s)) s0 = Some (sent_frames E s, upd_lcore (\<lambda>l. l\<lparr>tx_id := tx_id l + of_nat n\<rparr>) s0)"
    and "length (sent_frames E s) = n" and "\<forall>w \<in> set (sent_frames E s). 58 \<le> length (m_data w)"
    and "stamped (r_clock E (r_ticks s)) (tx_id (lcore s)) (hd (sent_frames E s))"
proof -
  have r: "0 < n" "n \<le> length (r_pool s)" "macs_ok (lcore s0)" "\<forall>m \<in> set (take n (r_pool s)). 58 \<le> length (m_data m)"
    using assms(1) by (auto simp: burst_ready_def n_def s0_def Let_def dest: in_set_takeD)
  obtain ws where ws: "tx_loop E (r_clock E (r_ticks s)) (take n (r_pool s)) s0 = Some (ws, upd_lcore (\<lambda>l. l\<lparr>tx_id := tx_id l + of_nat n\<rparr>) s0)"
    "length ws = n" "\<forall>w \<in> set ws. 58 \<le> length (m_data w)" "take n (r_pool s) \<noteq> [] \<longrightarrow> stamped (r_clock E (r_ticks s)) (tx_id (lcore s0)) (hd ws)"
    using tx_loop_frames [OF r(3,4), of E "r_clock E (r_ticks s)"] r(2) by (auto simp: min_absorb2)
  have "sent_frames E s = ws" using ws(1) by (simp add: sent_frames_def n_def s0_def)
  moreover have "take n (r_pool s) \<noteq> []" using r(1,2) by (cases "r_pool s") auto
  ultimately show "tx_loop E (r_clock E (r_ticks s)) (take n (r_pool s)) s0 = Some (sent_frames E s, upd_lcore (\<lambda>l. l\<lparr>tx_id := tx_id l + of_nat n\<rparr>) s0)"
    "length (sent_frames E s) = n" "\<forall>w \<in> set (sent_frames E s). 58 \<le> length (m_data w)"
    "stamped (r_clock E (r_ticks s)) (tx_id (lcore s)) (hd (sent_frames E s))"
    using ws by (simp_all add: s0_def)
qed

lemma returned_frames:
  assumes "burst_ready s" and "macs_ok l" and "update_mac_addrs l (sent_frames E s) = Some ms"
  shows "length ms = unat (burst_count (r_info s))" and "stamped (r_clock E (r_ticks s)) (tx_id (lcore s)) (hd ms)"
proof -
  note f = sent_frames_ok [OF assms(1), of E]
  obtain ws' where w: "update_mac_addrs l (sent_frames E s) = Some ws'" "length ws' = length (sent_frames E s)"
    "sent_frames E s \<noteq> [] \<and> stamped (r_clock E (r_ticks s)) (tx_id (lcore s)) (hd (sent_frames E s)) \<longrightarrow>
       stamped (r_clock E (r_ticks s)) (tx_id (lcore s)) (hd ws')"
    using mirrored_frames [OF assms(2) f(3)] by blast
  moreover have "sent_frames E s \<noteq> []" using assms(1) f(2) by (auto simp: burst_ready_def Let_def)
  moreover have "ws' = ms" using w(1) assms(3) by simp
  ultimately show "length ms = unat (burst_count (r_info s))" "stamped (r_clock E (r_ticks s)) (tx_id (lcore s)) (hd ms)"
    using f(2,4) by simp_all
qed

lemma tx_burst_sent:
  assumes "burst_ready s" and "unat (burst_count (r_info s)) \<le> r_nic E (r_tx_calls s)"
  shows "\<exists>s1. tx_timestamping E (Suc k) s = Some (0, s1) \<and> r_wire s1 = r_wire s @ sent_frames E s \<and> r_info s1 = r_info s \<and>
     r_freed s1 = r_freed s \<and> delta_out s1 = delta_out s \<and> r_ticks s1 = r_ticks s + 1 \<and> r_rx_calls s1 = r_rx_calls s \<and>
     tx_id (lcore s1) = tx_id (lcore s) + burst_count (r_info s) \<and> rx_id (lcore s1) = rx_id (lcore s) \<and>
     skip_cnt (lcore s1) = skip_cnt (lcore s) \<and> rtt (lstats (lcore s1)) = rtt (lstats (lcore s)) \<and>
     id_error (lstats (lcore s1)) = id_error (lstats (lcore s))"
proof -
  note f = sent_frames_ok [OF assms(1), of E]
  have n: "unat (burst_count (r_info s)) \<le> length (r_pool s)" "unat (burst_count (r_info s)) \<le> MAX_BURST_COUNT"
    using assms(1) by (simp_all add: burst_ready_def Let_def)
  have "rte_eth_tx_burst (r_nic E) (r_tx_calls s) (sent_frames E s) = length (sent_frames E s)"
    using assms(2) f(2) by (simp add: rte_eth_tx_burst_def)
  then show ?thesis using f(1) n
    by (simp add: tx_timestamping_def clock_get_ns_def Let_def upd_lcore_def upd_stats_def)
qed

lemma rx_whole_burst:
  assumes "length ms = unat (burst_count (r_info s))" and "ms \<noteq> []" and "length ms \<le> MAX_BURST_COUNT" and "ms = r_rx E (r_rx_calls s)"
    and "\<not> internal_debug_enabled (r_info s)"
  shows "rx_timestamping E (Suc k) s =
     map_option (\<lambda>s. (0, s)) (process_packets E 0 ms (s\<lparr>r_rx_calls := r_rx_calls s + 1\<rparr>))"
proof -
  have "unat (burst_count (r_info s)) \<noteq> 0" using assms(1,2) by (metis length_0_conv)
  then have "rx_poll E (Suc k) (end_cycle_ns (lcore s)) (unat (burst_count (r_info s))) [] s = Some (True, ms, s\<lparr>r_rx_calls := r_rx_calls s + 1\<rparr>)"
    using assms(1-4) by (simp add: rte_eth_rx_burst_def Let_def)
  then show ?thesis using assms(5) by (simp add: rx_timestamping_def begin_time_def Let_def del: rx_poll.simps)
qed


section \<open>An example\<close>

definition zero_mma :: min_avg_max_t where
  "zero_mma = \<lparr>min_ns = BIG_NUM, max_ns = 0, avg_ns = 0, sum_ns = 0, count_ns = 0\<rparr>"

definition ex_info :: info_t where
  "ex_info = \<lparr>cycle_time_ns = 31250, mqtt_lcore_id = 0, worker_lcore_id = 1, delay_sec = 2, burst_count = 1, pkt_length = 60,
     link_speed_mbps = 0, pkt_skip_cnt = 10, run_duration_sec = 0, burst_length_str = None, run_duration_str = None,
     dest_mac_str = None, run_duration_end_ns = 0, r_start_time = \<lparr>tv_sec = 0, tv_nsec = 0\<rparr>, mirror_enabled = False, running = True,
     screen_clear_flag = False, reset_stats_flag = False, log_enabled = False, mqtt_enabled = False, deltas_enabled = False,
     mirror_serial_enabled = False, internal_debug_enabled = False, promiscuous_mode = False, continue_on_error = False,
     rt_workload = \<lparr>wl_enabled = False, wl_file = None, wl_func = None, wl_args = [], wl_argv = []\<rparr>\<rparr>"

definition ex_lcore :: lcore_t where
  "ex_lcore = \<lparr>src_mac = [1, 2, 3, 4, 5, 6], dst_mac = [6, 5, 4, 3, 2, 1], end_cycle_ns = 0, tx_id = 7, rx_id = 7, skip_cnt = 0,
     lstats = \<lparr>rtt = zero_mma, spike = zero_mma, snapshot = zero_mma, rx_snapshot = zero_mma, tx_snapshot = zero_mma,
       workload_time = zero_mma, workload_snapshot = zero_mma, total_rx = 0, total_tx = 0, rx_pps = 0, tx_pps = 0, no_mbufs = 0,
       no_timestamp = 0, id_error = 0, tx_ring_full = 0, rx_timeout_cnt = 0, rx_try_extra_time = 0, prev_rx_timeout = 0\<rparr>\<rparr>"

definition ex_ratt :: ratt where
  "ex_ratt = \<lparr>r_info = ex_info, lcore = ex_lcore, r_pool = [\<lparr>m_id = 0, m_data = replicate 64 0, m_pkt_len = 0, m_data_len = 0\<rparr>],
     r_wire = [], r_freed = [], delta_out = [], r_ticks = 0, r_flags = 0, r_links = 0, r_tx_calls = 0, r_rx_calls = 0\<rparr>"

definition ex_ratt_env :: ratt_env where
  "ex_ratt_env = \<lparr>r_clock = (\<lambda>k. of_nat (1000 * k)), r_flag = (\<lambda>k. k < 5), r_link_up = (\<lambda>_. True), r_nic = (\<lambda>_. 1),
     r_rx = (\<lambda>_. []), r_cksum = (\<lambda>_. 0)\<rparr>"

lemma tx_loop_rx: "tx_loop (E\<lparr>r_rx := f\<rparr>) t ms s = tx_loop E t ms s"
  by (induction ms arbitrary: s) (simp_all add: tx_packet_def setup_pkt_udp_ip_headers_def)

lemma sent_frames_rx: "sent_frames (E\<lparr>r_rx := f\<rparr>) s = sent_frames E s"
  by (simp add: sent_frames_def tx_loop_rx)

lemma ex_ratt_ready: "burst_ready ex_ratt" "macs_ok ex_lcore"
  by (simp_all add: burst_ready_def macs_ok_def ex_ratt_def ex_info_def ex_lcore_def MAX_BURST_COUNT_def)

lemma ratt_send_conserves_witness:
  "\<exists>s' n. send_packets ex_ratt_env 6 (r_pool ex_ratt) ex_ratt = Some s' \<and> r_wire s' = take n (r_pool ex_ratt) \<and>
     r_freed s' = drop n (r_pool ex_ratt)"
proof -
  have "\<not> r_flag ex_ratt_env 5" "r_flags ex_ratt \<le> 5" "5 - r_flags ex_ratt < 6" "r_wire ex_ratt = []" "r_freed ex_ratt = []"
    by (simp_all add: ex_ratt_env_def ex_ratt_def)
  from ratt_send_conserves [OF this(1-3), of "r_pool ex_ratt"] this(4,5) show ?thesis by simp
qed


end
