(* ===== verification/Ratt_Io.thy ===== *)
theory Ratt_Io
  imports Ratt Mqtt
begin

text \<open>
  The log (\<^verbatim>\<open>apps/ratt/log.c\<close>) and the MQTT publisher (\<^verbatim>\<open>apps/ratt/mqtt.c\<close>) of the round-trip
  test: rings of formatted lines, of time differences and of statistics, written to a
  file by the main thread and published by the MQTT thread. The number of entries a ring
  holds is a parameter, as is the mosquitto library. \<open>None\<close> is the use of a null or
  released object or a division by zero.
\<close>

section \<open>State\<close>

definition RATT_LOG_BUFFER_POOL_COUNT :: nat where "RATT_LOG_BUFFER_POOL_COUNT = 4 * 1024"
definition RATT_LOG_BUFFER_SIZE :: nat where "RATT_LOG_BUFFER_SIZE = 2048"
definition RATT_LOG_BURST_COUNT :: nat where "RATT_LOG_BURST_COUNT = 256"
definition RATT_MQTT_BUFFER_COUNT :: nat where "RATT_MQTT_BUFFER_COUNT = 256"
definition RATT_MQTT_BUFFER_SIZE :: nat where "RATT_MQTT_BUFFER_SIZE = 4096"

record log_info_t =
  li_ring :: "string list obj"
  li_pool :: "nat obj"
  li_delta_ring :: "u64 list obj"
  li_fd :: "string obj"
  li_file :: "string option"

record port_stats_t =
  ps_ipackets :: u64
  ps_opackets :: u64
  ps_ibytes :: u64
  ps_obytes :: u64
  ps_imissed :: u64
  ps_ierrors :: u64
  ps_oerrors :: u64
  ps_rx_nombuf :: u64

record mqtt_statistics_t =
  ms_timestamp :: u64
  ms_stats :: stats_t
  ms_port :: port_stats_t

record mqtt_info_t =
  mi_ring :: "mqtt_statistics_t list obj"
  mi_pool :: "nat obj"
  mi_delta_ring :: "u64 list obj"
  mi_mosq :: "unit obj"
  mi_message :: "unit obj"

text \<open>\<open>written_files\<close>: the contents of the files that have been closed.\<close>

record ratt_app =
  app_info :: info_t
  log_info :: log_info_t
  mqtt_info :: mqtt_info_t
  written_files :: "string list"
  app_calls :: "mosq_call list"

text \<open>
  The outcomes of allocations and of opening the file, and how much the rings hold; the
  creation of a delta ring depends on its size. \<open>io_now\<close> is the time of a log message,
  by the number of calls of the library made before it.
\<close>

record app_io =
  io_ring_ok :: bool
  io_pool_ok :: bool
  io_delta_ok :: "u32 \<Rightarrow> bool"
  io_alloc_ok :: bool
  io_open_ok :: bool
  io_ring_cap :: nat
  io_delta_cap :: nat
  io_now :: "nat \<Rightarrow> timespec option"

definition zero_log_info :: log_info_t where
  "zero_log_info = \<lparr>li_ring = Null, li_pool = Null, li_delta_ring = Null, li_fd = Null, li_file = None\<rparr>"

definition zero_mqtt_info :: mqtt_info_t where
  "zero_mqtt_info = \<lparr>mi_ring = Null, mi_pool = Null, mi_delta_ring = Null, mi_mosq = Null, mi_message = Null\<rparr>"

definition upd_log :: "(log_info_t \<Rightarrow> log_info_t) \<Rightarrow> ratt_app \<Rightarrow> ratt_app" where
  "upd_log f a = a\<lparr>log_info := f (log_info a)\<rparr>"

definition upd_mqtt :: "(mqtt_info_t \<Rightarrow> mqtt_info_t) \<Rightarrow> ratt_app \<Rightarrow> ratt_app" where
  "upd_mqtt f a = a\<lparr>mqtt_info := f (mqtt_info a)\<rparr>"

definition upd_info :: "(info_t \<Rightarrow> info_t) \<Rightarrow> ratt_app \<Rightarrow> ratt_app" where
  "upd_info f a = a\<lparr>app_info := f (app_info a)\<rparr>"

section \<open>The log\<close>

text \<open>Closing the file: a second \<^verbatim>\<open>fclose\<close> of it is a fault.\<close>

definition close_file :: "ratt_app \<Rightarrow> ratt_app option" where
  "close_file a =
     (case li_fd (log_info a) of
        Null \<Rightarrow> Some a
      | Released \<Rightarrow> None
      | Alive c \<Rightarrow> Some ((upd_log (\<lambda>l. l\<lparr>li_fd := Released\<rparr>) a)\<lparr>written_files := written_files a @ [c]\<rparr>))"

definition ratt_log_open :: "app_io \<Rightarrow> ratt_app \<Rightarrow> (int \<times> ratt_app) option" where
  "ratt_log_open I a = do {
     a \<leftarrow> close_file a;
     if li_file (log_info a) = None then Some (0, a)
     else if io_open_ok I then Some (0, upd_log (\<lambda>l. l\<lparr>li_fd := Alive []\<rparr>) a)
     else Some (-1, upd_log (\<lambda>l. l\<lparr>li_fd := Null\<rparr>) a)
   }"

text \<open>The size of the delta rings, \<^verbatim>\<open>pow2roundup((NS_PER_S / cycle_time_ns) * 2)\<close>.\<close>

definition delta_ring_size :: "info_t \<Rightarrow> u32 option" where
  "delta_ring_size i =
     (if cycle_time_ns i = 0 then None else Some (pow2roundup (ucast ((1000000000 div cycle_time_ns i) * 2))))"

definition ratt_log_init :: "app_io \<Rightarrow> string \<Rightarrow> ratt_app \<Rightarrow> (int \<times> ratt_app) option" where
  "ratt_log_init I logfile a =
     (if \<not> io_ring_ok I then Some (- ENOMEM, upd_log (\<lambda>l. l\<lparr>li_ring := Null\<rparr>) a)
      else let a = upd_log (\<lambda>l. l\<lparr>li_ring := Alive []\<rparr>) a in
           if \<not> io_pool_ok I then Some (- ENOMEM, upd_log (\<lambda>l. l\<lparr>li_pool := Null, li_ring := Null\<rparr>) a)
           else let a = upd_log (\<lambda>l. l\<lparr>li_pool := Alive RATT_LOG_BUFFER_POOL_COUNT\<rparr>) a in do {
             sz \<leftarrow> delta_ring_size (app_info a);
             if \<not> io_delta_ok I sz
             then Some (- ENOMEM, upd_log (\<lambda>l. l\<lparr>li_delta_ring := Null, li_pool := Null, li_ring := Null\<rparr>) a)
             else if \<not> io_alloc_ok I
             then Some (- ENOMEM, upd_log (\<lambda>l. l\<lparr>li_file := None, li_delta_ring := Null, li_pool := Null, li_ring := Null\<rparr>) a)
             else ratt_log_open I (upd_log (\<lambda>l. l\<lparr>li_delta_ring := Alive [], li_file := Some logfile\<rparr>) a)
           })"

definition ratt_log_header :: "timespec \<Rightarrow> string" where
  "ratt_log_header t = ''['' @ pad_left 8 (fmt_int (tv_sec t)) @ ''.'' @ pad_left 9 (fmt_int (tv_nsec t)) @ '']: ''"

text \<open>
  The text in a buffer: the header, or nothing of it behind which the message is written
  over it when it does not fit, and as much of the message as fits.
\<close>

definition ratt_log_text :: "timespec \<Rightarrow> string \<Rightarrow> string" where
  "ratt_log_text t msg =
     (let len = RATT_LOG_BUFFER_SIZE - 1; hdr = ratt_log_header t in
      if 0 < length hdr \<and> length hdr < len then hdr @ take (len - length hdr - 1) msg else take (len - 1) msg)"

definition ratt_log_message :: "app_io \<Rightarrow> timespec option \<Rightarrow> string \<Rightarrow> ratt_app \<Rightarrow> ratt_app option" where
  "ratt_log_message I now msg a =
     (if \<not> log_enabled (app_info a) then Some a
      else do {
        n \<leftarrow> alive (li_pool (log_info a));
        if n = 0 then Some a
        else do {
          q \<leftarrow> alive (li_ring (log_info a));
          let txt = ratt_log_text (case now of None \<Rightarrow> \<lparr>tv_sec = 0, tv_nsec = 0\<rparr> | Some t \<Rightarrow> t) msg;
          if length q \<ge> io_ring_cap I then Some a
          else Some (upd_log (\<lambda>l. l\<lparr>li_ring := Alive (q @ [txt]), li_pool := Alive (n - 1)\<rparr>) a)
        }
      })"

definition ratt_log_delta :: "app_io \<Rightarrow> u64 \<Rightarrow> ratt_app \<Rightarrow> ratt_app option" where
  "ratt_log_delta I d a =
     (if \<not> log_enabled (app_info a) \<or> \<not> deltas_enabled (app_info a) then Some a
      else do {
        q \<leftarrow> alive (li_delta_ring (log_info a));
        if length q \<ge> io_delta_cap I then Some a
        else Some (upd_log (\<lambda>l. l\<lparr>li_delta_ring := Alive (q @ [d])\<rparr>) a)
      })"

text \<open>The loops over the bursts; \<open>k\<close> bounds their number, which is never reached.\<close>

fun flush_logs_loop :: "nat \<Rightarrow> ratt_app \<Rightarrow> ratt_app option" where
  "flush_logs_loop 0 a = None"
| "flush_logs_loop (Suc k) a = do {
     q \<leftarrow> alive (li_ring (log_info a));
     if q = [] then Some a
     else do {
       f \<leftarrow> alive (li_fd (log_info a));
       n \<leftarrow> alive (li_pool (log_info a));
       let b = take RATT_LOG_BURST_COUNT q;
       flush_logs_loop k (upd_log (\<lambda>l. l\<lparr>li_ring := Alive (drop RATT_LOG_BURST_COUNT q),
         li_fd := Alive (f @ concat (map (\<lambda>s. s @ [CHR 0x0A]) b)), li_pool := Alive (n + length b)\<rparr>) a)
     }
   }"

definition flush_logs :: "ratt_app \<Rightarrow> ratt_app option" where
  "flush_logs a =
     (if \<not> log_enabled (app_info a) \<or> li_ring (log_info a) = Null then Some a
      else do { q \<leftarrow> alive (li_ring (log_info a)); flush_logs_loop (Suc (length q)) a })"

definition delta_lines :: "u64 list \<Rightarrow> string" where
  "delta_lines ds = ''Deltas('' @ fmt_int (int (length ds)) @ ''):'' @ [CHR 0x0A] @
     concat (map (\<lambda>d. [CHR 0x09] @ fmt_u64 d @ [CHR 0x0A]) ds)"

fun flush_deltas_loop :: "nat \<Rightarrow> ratt_app \<Rightarrow> ratt_app option" where
  "flush_deltas_loop 0 a = None"
| "flush_deltas_loop (Suc k) a = do {
     q \<leftarrow> alive (li_delta_ring (log_info a));
     if q = [] then Some a
     else do {
       f \<leftarrow> alive (li_fd (log_info a));
       flush_deltas_loop k (upd_log (\<lambda>l. l\<lparr>li_delta_ring := Alive (drop RATT_LOG_BURST_COUNT q),
         li_fd := Alive (f @ delta_lines (take RATT_LOG_BURST_COUNT q))\<rparr>) a)
     }
   }"

definition flush_deltas :: "ratt_app \<Rightarrow> ratt_app option" where
  "flush_deltas a =
     (if \<not> log_enabled (app_info a) then Some a
      else if \<not> deltas_enabled (app_info a) \<or> li_delta_ring (log_info a) = Null then Some a
      else do { q \<leftarrow> alive (li_delta_ring (log_info a)); flush_deltas_loop (Suc (length q)) a })"

definition ratt_log_flush :: "ratt_app \<Rightarrow> ratt_app option" where
  "ratt_log_flush a = do {
     a \<leftarrow> flush_logs a;
     a \<leftarrow> flush_deltas a;
     if li_fd (log_info a) = Null then Some a else do { _ \<leftarrow> alive (li_fd (log_info a)); Some a }
   }"

text \<open>\<^verbatim>\<open>log_enabled\<close> is cleared before the flush, which then writes nothing.\<close>

definition ratt_log_close :: "ratt_app \<Rightarrow> ratt_app option" where
  "ratt_log_close a =
     (if \<not> log_enabled (app_info a) then Some a
      else do {
        a \<leftarrow> ratt_log_flush (upd_info (\<lambda>i. i\<lparr>log_enabled := False\<rparr>) a);
        _ \<leftarrow> release (li_ring (log_info a));
        _ \<leftarrow> release (li_delta_ring (log_info a));
        _ \<leftarrow> release (li_pool (log_info a));
        a \<leftarrow> close_file a;
        Some (upd_log (\<lambda>_. zero_log_info) a)
      })"

section \<open>MQTT\<close>

definition ratt_lib :: "mosq_lib \<Rightarrow> mosq_call \<Rightarrow> ratt_app \<Rightarrow> int \<times> ratt_app" where
  "ratt_lib L x a = (L (app_calls a) x, a\<lparr>app_calls := app_calls a @ [x]\<rparr>)"

definition ratt_mosq :: "mosq_lib \<Rightarrow> mosq_call \<Rightarrow> ratt_app \<Rightarrow> (int \<times> ratt_app) option" where
  "ratt_mosq L x a = do { _ \<leftarrow> alive (mi_mosq (mqtt_info a)); Some (ratt_lib L x a) }"

definition mqtt_delta :: "app_io \<Rightarrow> u64 \<Rightarrow> ratt_app \<Rightarrow> ratt_app option" where
  "mqtt_delta I d a =
     (if \<not> deltas_enabled (app_info a) \<or> mi_delta_ring (mqtt_info a) = Null then Some a
      else do {
        q \<leftarrow> alive (mi_delta_ring (mqtt_info a));
        if length q \<ge> io_delta_cap I then Some a
        else Some (upd_mqtt (\<lambda>m. m\<lparr>mi_delta_ring := Alive (q @ [d])\<rparr>) a)
      })"

definition mqtt_stats :: "app_io \<Rightarrow> u64 \<Rightarrow> stats_t \<Rightarrow> port_stats_t \<Rightarrow> ratt_app \<Rightarrow> ratt_app option" where
  "mqtt_stats I now st pt a =
     (if max_ns (snapshot st) = 0 then Some a
      else if \<not> mqtt_enabled (app_info a) \<or> mi_ring (mqtt_info a) = Null \<or> mi_pool (mqtt_info a) = Null then Some a
      else do {
        n \<leftarrow> alive (mi_pool (mqtt_info a));
        if n = 0 then Some a
        else do {
          let a = upd_mqtt (\<lambda>m. m\<lparr>mi_pool := Alive (n - 1)\<rparr>) a;
          q \<leftarrow> alive (mi_ring (mqtt_info a));
          if length q \<ge> io_ring_cap I then Some a
          else Some (upd_mqtt (\<lambda>m. m\<lparr>mi_ring := Alive (q @ [\<lparr>ms_timestamp = now, ms_stats = st, ms_port = pt\<rparr>])\<rparr>) a)
        }
      })"

definition tabs :: "nat \<Rightarrow> string" where "tabs n = replicate n (CHR 0x09)"

definition deltas_message :: "u64 \<Rightarrow> u64 list \<Rightarrow> string" where
  "deltas_message now ds =
     (let pieces =
        [''{'' @ NL @ tabs 1 @ QT @ ''reference'' @ QT @ '': {'' @ NL @ tabs 2 @ QT @ ''Timestamp'' @ QT @ '': '' @ fmt_u64 now @ '','' @ NL @
         tabs 2 @ QT @ ''MeasurementName'' @ QT @ '': '' @ QT @ ''rtdk-deltas'' @ QT @ '','' @ NL,
         tabs 2 @ QT @ ''stats'' @ QT @ '': {'' @ NL @ tabs 2 @ QT @ ''info'' @ QT @ '': '' @ QT @ ''dtag'' @ QT @ '','' @ NL @
         tabs 3 @ QT @ ''deltas'' @ QT @ '': ['' @ NL] @
        map (\<lambda>(i, d). tabs 4 @ fmt_u64 d @ (if i + 1 < length ds then '','' @ NL else NL)) (zip [0..<length ds] ds) @
        [tabs 3 @ '']'' @ NL @ tabs 2 @ ''}'' @ NL @ tabs 1 @ ''}'' @ NL @ ''}'' @ NL]
      in takeWhile (\<lambda>ch. ch \<noteq> CHR 0x00) (fst (fold log_advance_buffer pieces ([], RATT_MQTT_BUFFER_SIZE - 1))))"

text \<open>\<open>now k\<close> is the time read for the \<open>k\<close>-th message. The result of the function is always 0.\<close>

fun mqtt_add_deltas_loop :: "mosq_lib \<Rightarrow> (nat \<Rightarrow> u64) \<Rightarrow> nat \<Rightarrow> ratt_app \<Rightarrow> ratt_app option" where
  "mqtt_add_deltas_loop L now 0 a = None"
| "mqtt_add_deltas_loop L now (Suc k) a = do {
     q \<leftarrow> alive (mi_delta_ring (mqtt_info a));
     if q = [] then Some a
     else do {
       _ \<leftarrow> alive (mi_message (mqtt_info a));
       let a = upd_mqtt (\<lambda>m. m\<lparr>mi_delta_ring := Alive (drop RATT_MQTT_BUFFER_COUNT q)\<rparr>) a;
       (_, a) \<leftarrow> ratt_mosq L (Publish ''rtdk-data'' (deltas_message (now (length (app_calls a))) (take RATT_MQTT_BUFFER_COUNT q)) 2 False) a;
       mqtt_add_deltas_loop L now k a
     }
   }"

definition mqtt_add_deltas :: "mosq_lib \<Rightarrow> (nat \<Rightarrow> u64) \<Rightarrow> ratt_app \<Rightarrow> (int \<times> ratt_app) option" where
  "mqtt_add_deltas L now a =
     (if \<not> deltas_enabled (app_info a) then Some (0, a)
      else do {
        q \<leftarrow> alive (mi_delta_ring (mqtt_info a));
        a \<leftarrow> mqtt_add_deltas_loop L now (Suc (length q)) a;
        Some (0, a)
      })"

definition append_mqtt_stats :: "string \<Rightarrow> u64 \<Rightarrow> string \<times> nat \<Rightarrow> string \<times> nat" where
  "append_mqtt_stats nm v = log_advance_buffer (tabs 3 @ QT @ nm @ QT @ '' : '' @ fmt_u64 v @ '','' @ NL)"

definition mma_fields :: "string \<Rightarrow> min_avg_max_t \<Rightarrow> (string \<times> u64) list" where
  "mma_fields nm m = [(nm @ ''MinNs'', min_ns m), (nm @ ''MaxNs'', max_ns m), (nm @ ''SumNs'', sum_ns m), (nm @ ''Count'', count_ns m),
     (nm @ ''AvgNs'', avg_ns m)]"

definition stats_fields :: "stats_t \<Rightarrow> port_stats_t \<Rightarrow> (string \<times> u64) list" where
  "stats_fields st p =
     mma_fields ''rtt'' (rtt st) @ mma_fields ''snapRtt'' (snapshot st) @ mma_fields ''spikeRtt'' (spike st) @
     mma_fields ''rxSnapshot'' (rx_snapshot st) @ mma_fields ''txSnapshot'' (tx_snapshot st) @
     [(''rxPPS'', rx_pps st), (''txPPS'', tx_pps st), (''noMBufs'', no_mbufs st), (''noTimestamp'', no_timestamp st),
      (''idError'', id_error st), (''txRingFull'', tx_ring_full st), (''rxTimeout'', rx_timeout_cnt st),
      (''rxTryExtraTime'', rx_try_extra_time st), (''totalPktsRx'', total_rx st), (''totalPktsTx'', total_tx st),
      (''ipackets'', ps_ipackets p), (''opackets'', ps_opackets p), (''ibytes'', ps_ibytes p), (''obytes'', ps_obytes p),
      (''imissed'', ps_imissed p), (''ierrors'', ps_ierrors p), (''oerrors'', ps_oerrors p), (''rxNoMbuf'', ps_rx_nombuf p)]"

text \<open>The text of one report: the last comma and line end are taken back before the closing brackets.\<close>

definition ratt_stats_message :: "mqtt_statistics_t \<Rightarrow> string" where
  "ratt_stats_message m =
     (let b = log_advance_buffer (''{'' @ NL @ tabs 1 @ QT @ ''reference'' @ QT @ '': {'' @ NL @ tabs 2 @ QT @ ''Timestamp'' @ QT @ '':'' @
                fmt_u64 (ms_timestamp m) @ '','' @ NL @ tabs 2 @ QT @ ''MeasurementName'' @ QT @ '':'' @ QT @ ''rtdk-stats'' @ QT @ '','' @ NL @
                tabs 2 @ QT @ ''stats'' @ QT @ '': {'' @ NL) ([], RATT_MQTT_BUFFER_SIZE - 1);
          (s, len) = fold (\<lambda>(nm, v). append_mqtt_stats nm v) (stats_fields (ms_stats m) (ms_port m)) b;
          (s, len) = log_advance_buffer (NL @ tabs 2 @ ''}'' @ tabs 2 @ NL @ tabs 1 @ ''}'' @ NL @ ''}'' @ NL) (take (length s - 2) s, len + 2)
      in takeWhile (\<lambda>ch. ch \<noteq> CHR 0x00) s)"

text \<open>A failed publication ends the loop; the buffers of the burst are then not given back.\<close>

fun mqtt_publish_stats :: "app_io \<Rightarrow> mosq_lib \<Rightarrow> mqtt_statistics_t list \<Rightarrow> ratt_app \<Rightarrow> (int \<times> ratt_app) option" where
  "mqtt_publish_stats I L [] a = Some (0, a)"
| "mqtt_publish_stats I L (m # ms) a = do {
     _ \<leftarrow> alive (mi_message (mqtt_info a));
     a \<leftarrow> ratt_log_message I (io_now I (length (app_calls a))) (''stats:'' @ ratt_stats_message m @ NL) a;
     (r, a) \<leftarrow> ratt_mosq L (Publish ''rtdk-data'' (ratt_stats_message m) 2 False) a;
     if r \<noteq> 0 then Some (-1, a) else mqtt_publish_stats I L ms a
   }"

definition mqtt_add_stats :: "app_io \<Rightarrow> mosq_lib \<Rightarrow> ratt_app \<Rightarrow> (int \<times> ratt_app) option" where
  "mqtt_add_stats I L a =
     (if \<not> mqtt_enabled (app_info a) \<or> mi_ring (mqtt_info a) = Null \<or> mi_pool (mqtt_info a) = Null then Some (0, a)
      else do {
        q \<leftarrow> alive (mi_ring (mqtt_info a));
        let b = take RATT_MQTT_BUFFER_COUNT q;
        if b = [] then Some (0, a)
        else do {
          (r, a) \<leftarrow> mqtt_publish_stats I L b (upd_mqtt (\<lambda>m. m\<lparr>mi_ring := Alive (drop RATT_MQTT_BUFFER_COUNT q)\<rparr>) a);
          if r \<noteq> 0 then Some (r, a)
          else do { n \<leftarrow> alive (mi_pool (mqtt_info a)); Some (0, upd_mqtt (\<lambda>m. m\<lparr>mi_pool := Alive (n + length b)\<rparr>) a) }
        }
      })"

definition mqtt_on_connect :: "mosq_lib \<Rightarrow> int \<Rightarrow> ratt_app \<Rightarrow> ratt_app option" where
  "mqtt_on_connect L reason_code a =
     (if reason_code \<noteq> 0 then map_option snd (ratt_mosq L Disconnect a) else Some a)"

definition mqtt_close :: "mosq_lib \<Rightarrow> ratt_app \<Rightarrow> ratt_app option" where
  "mqtt_close L a =
     (if \<not> mqtt_enabled (app_info a) then Some a
      else do {
        let a = upd_info (\<lambda>i. i\<lparr>mqtt_enabled := False\<rparr>) a;
        a \<leftarrow> (if mi_mosq (mqtt_info a) \<noteq> Null
              then do {
                (_, a) \<leftarrow> ratt_mosq L Disconnect a;
                (_, a) \<leftarrow> ratt_mosq L (Loop_Stop True) a;
                (_, a) \<leftarrow> ratt_mosq L Destroy a;
                Some a
              }
              else Some a);
        let a = snd (ratt_lib L Lib_Cleanup a);
        _ \<leftarrow> release (mi_ring (mqtt_info a));
        _ \<leftarrow> release (mi_pool (mqtt_info a));
        _ \<leftarrow> release (mi_delta_ring (mqtt_info a));
        _ \<leftarrow> release (mi_message (mqtt_info a));
        Some (upd_mqtt (\<lambda>_. zero_mqtt_info) a)
      })"

definition mqtt_init :: "app_io \<Rightarrow> ratt_app \<Rightarrow> (int \<times> ratt_app) option" where
  "mqtt_init I a =
     (if \<not> io_ring_ok I then Some (- ENOMEM, upd_mqtt (\<lambda>m. m\<lparr>mi_ring := Null\<rparr>) a)
      else if \<not> io_pool_ok I then Some (- ENOMEM, upd_mqtt (\<lambda>m. m\<lparr>mi_pool := Null, mi_ring := Null\<rparr>) a)
      else do {
        sz \<leftarrow> delta_ring_size (app_info a);
        if \<not> io_delta_ok I sz
        then Some (- ENOMEM, upd_mqtt (\<lambda>m. m\<lparr>mi_delta_ring := Null, mi_pool := Null, mi_ring := Null\<rparr>) a)
        else if \<not> io_alloc_ok I
        then Some (- ENOMEM, upd_mqtt (\<lambda>m. m\<lparr>mi_message := Null, mi_delta_ring := Null, mi_pool := Null, mi_ring := Null\<rparr>) a)
        else Some (0, upd_mqtt (\<lambda>m. m\<lparr>mi_ring := Alive [], mi_pool := Alive RATT_MQTT_BUFFER_COUNT,
                                       mi_delta_ring := Alive [], mi_message := Alive ()\<rparr>) a)
      })"

text \<open>
  The thread over its periods: per period whether the program runs, whether the sleep
  succeeds, what the other threads do, and the times read. The first failure of the
  publication ends the loop with success.
\<close>

record mqtt_round =
  mr_running :: bool
  mr_sleep_ok :: bool
  mr_others :: "ratt_app \<Rightarrow> ratt_app option"
  mr_now :: "nat \<Rightarrow> u64"

fun mqtt_rounds :: "app_io \<Rightarrow> mosq_lib \<Rightarrow> mqtt_round list \<Rightarrow> ratt_app \<Rightarrow> (int \<times> ratt_app) option" where
  "mqtt_rounds I L [] a = Some (0, a)"
| "mqtt_rounds I L (r # rs) a =
     (if \<not> mr_running r then Some (0, a)
      else if \<not> mr_sleep_ok r then map_option (\<lambda>a. (-1, a)) (mqtt_close L a)
      else do {
        a \<leftarrow> mr_others r a;
        (e, a) \<leftarrow> mqtt_add_stats I L a;
        if e \<noteq> 0 then Some (0, a)
        else do {
          (e, a) \<leftarrow> mqtt_add_deltas L (mr_now r) a;
          if e \<noteq> 0 then Some (0, a) else mqtt_rounds I L rs a
        }
      })"

definition mqtt_thread_routine :: "app_io \<Rightarrow> mosq_lib \<Rightarrow> bool \<Rightarrow> mqtt_round list \<Rightarrow> ratt_app \<Rightarrow> (int \<times> ratt_app) option" where
  "mqtt_thread_routine I L clock_ok rs a =
     (let a = snd (ratt_lib L Lib_Init a);
          (p, a) = ratt_lib L (New True) a;
          a = upd_mqtt (\<lambda>m. m\<lparr>mi_mosq := if p = 0 then Null else Alive ()\<rparr>) a;
          fail = (\<lambda>a. map_option (\<lambda>a. (-1, a)) (mqtt_close L a)) in
      if p = 0 then fail a
      else do {
        (r, a) \<leftarrow> ratt_mosq L (Connect (map of_char ''127.0.0.1'') 1883 60) a;
        if r \<noteq> 0 then fail a
        else do {
          (_, a) \<leftarrow> ratt_mosq L Connect_Callback_Set a;
          (r, a) \<leftarrow> ratt_mosq L Loop_Start a;
          if r \<noteq> 0 then fail a
          else if \<not> clock_ok then fail a
          else mqtt_rounds I L rs a
        }
      })"

section \<open>Closing the log\<close>

text \<open>The lines and differences still in the rings are not in the file that is closed.\<close>

lemma ratt_log_close_drops_pending:
  assumes "log_enabled (app_info a)" and "li_fd (log_info a) = Alive f" and "li_ring (log_info a) = Alive q"
    and "li_delta_ring (log_info a) = Alive ds" and "li_pool (log_info a) = Alive n"
  shows "\<exists>a'. ratt_log_close a = Some a' \<and> written_files a' = written_files a @ [f] \<and> li_ring (log_info a') = Null"
  using assms by (simp add: ratt_log_close_def ratt_log_flush_def flush_logs_def flush_deltas_def close_file_def release_def
      upd_log_def upd_info_def zero_log_info_def)

end
