(* ===== verification/Ratt_Args.thy ===== *)
theory Ratt_Args
  imports Ratt_Io M_Strings
begin

text \<open>
  The command line of the round-trip test (\<^verbatim>\<open>apps/ratt/parse-args.c\<close>). The options come as
  \<^verbatim>\<open>getopt_long\<close> delivers them, with their arguments; duplication of strings and the dynamic
  loader are parameters. \<open>Exited\<close> is \<^verbatim>\<open>rte_exit\<close> or \<^verbatim>\<open>exit\<close>.
\<close>

section \<open>Numbers\<close>

text \<open>\<^verbatim>\<open>strtoul\<close> with base 0: the base is chosen by the prefix.\<close>

definition number_base :: "string \<Rightarrow> nat" where
  "number_base s =
     (case snd (skip_sign (dropWhile isspace s)) of
        a # b # c # _ \<Rightarrow> if a = CHR ''0'' then if tolower b = CHR ''x'' \<and> digit_val c < 16 then 16 else 8 else 10
      | a # _ \<Rightarrow> if a = CHR ''0'' then 8 else 10
      | [] \<Rightarrow> 10)"

definition strtoul0 :: "string \<Rightarrow> u64 \<times> bool \<times> bool" where
  "strtoul0 s = strtoull (number_base s) s"

text \<open>\<^verbatim>\<open>sscanf\<close> with a format of literal characters and \<^verbatim>\<open>%u\<close> or \<^verbatim>\<open>%hu\<close>: the values converted before the first failure.\<close>

datatype fmt = Lit char | U

fun sscanf_u :: "fmt list \<Rightarrow> string \<Rightarrow> u64 list" where
  "sscanf_u [] s = []"
| "sscanf_u (Lit c # fs) s = (case s of d # r \<Rightarrow> if d = c then sscanf_u fs r else [] | [] \<Rightarrow> [])"
| "sscanf_u (U # fs) s =
     (case scan_number 10 s of (neg, ds, rest) \<Rightarrow>
        if ds = [] then [] else fst (ull_value 10 neg ds) # sscanf_u fs rest)"

fun count_chr :: "string \<Rightarrow> char \<Rightarrow> nat" where
  "count_chr [] c = 0"
| "count_chr (d # s) c = (if d = c then 1 else 0) + count_chr s c"

section \<open>Parts of the command line\<close>

record args_env =
  ae_dup_ok :: "string \<Rightarrow> bool"
  ae_dlopen_ok :: "string option \<Rightarrow> bool"
  ae_dlsym_ok :: "string \<Rightarrow> bool"

definition pad_zero :: "nat \<Rightarrow> nat \<Rightarrow> string" where
  "pad_zero w n = (let s = decimal n in replicate (w - length s) (CHR ''0'') @ s)"

text \<open>The formats of the duration by the number of colons, and which of hours, minutes and seconds they give.\<close>

definition duration_values :: "string \<Rightarrow> (u32 \<times> u32 \<times> u32) option" where
  "duration_values s =
     (let col = CHR '':''; u = (\<lambda>v. ucast v :: u32);
          n = count_chr s col in
      if n = 0 then (case sscanf_u [U] s of [x] \<Rightarrow> Some (0, 0, u x) | _ \<Rightarrow> None)
      else if n = 1 then
        (if take 1 s = [col] then (case sscanf_u [Lit col, U] s of [x] \<Rightarrow> Some (0, 0, u x) | _ \<Rightarrow> None)
         else (case sscanf_u [U, Lit col, U] s of [m, x] \<Rightarrow> Some (0, u m, u x) | _ \<Rightarrow> None))
      else if n = 2 then
        (if take 2 s = [col, col] then (case sscanf_u [Lit col, Lit col, U] s of [x] \<Rightarrow> Some (0, 0, u x) | _ \<Rightarrow> None)
         else if take 1 s = [col] then (case sscanf_u [Lit col, U, Lit col, U] s of [m, x] \<Rightarrow> Some (0, u m, u x) | _ \<Rightarrow> None)
         else (case sscanf_u [U, Lit col, U, Lit col, U] s of [h, m, x] \<Rightarrow> Some (u h, u m, u x) | _ \<Rightarrow> None))
      else None)"

definition process_duration :: "args_env \<Rightarrow> string \<Rightarrow> ratt_app \<Rightarrow> ratt_app run" where
  "process_duration A s a =
     (case duration_values s of
        None \<Rightarrow> Exited a
      | Some (hours, minutes, seconds) \<Rightarrow>
          if hours > 99999 \<or> minutes > 59 \<or> seconds > 59 then Exited a
          else let d = pad_zero 3 (unat hours) @ '':'' @ pad_zero 2 (unat minutes) @ '':'' @ pad_zero 2 (unat seconds);
                   a = upd_info (\<lambda>i. i\<lparr>run_duration_sec := hours * 3600 + minutes * 60 + seconds\<rparr>) a in
               if ae_dup_ok A d then Returned 0 (upd_info (\<lambda>i. i\<lparr>run_duration_str := Some d\<rparr>) a) else Exited a)"

text \<open>\<^verbatim>\<open>strtok\<close> with one delimiter: the nonempty pieces of the string.\<close>

function split_tokens :: "char \<Rightarrow> string \<Rightarrow> string list" where
  "split_tokens d s =
     (case dropWhile (\<lambda>c. c = d) s of
        [] \<Rightarrow> []
      | c # r \<Rightarrow> takeWhile (\<lambda>c. c \<noteq> d) (c # r) # split_tokens d (dropWhile (\<lambda>c. c \<noteq> d) (c # r)))"
  by pat_completeness auto

termination
proof (relation "measure (\<lambda>(d, s). length s)")
  fix d s c r assume *: "dropWhile (\<lambda>c. c = d) s = c # r"
  then have "c \<noteq> d" using hd_dropWhile [of "\<lambda>c. c = d" s] by simp
  moreover have "length (dropWhile (\<lambda>c. c \<noteq> d) r) \<le> length r" by (rule length_dropWhile_le)
  moreover have "length (c # r) \<le> length s" using * length_dropWhile_le [of "\<lambda>c. c = d" s] by simp
  ultimately show "((d, dropWhile (\<lambda>c. c \<noteq> d) (c # r)), (d, s)) \<in> measure (\<lambda>(d, s). length s)" by simp
qed simp

declare split_tokens.simps [simp del]

definition strncat :: "string \<Rightarrow> string \<Rightarrow> nat \<Rightarrow> string" where
  "strncat s t n = s @ take n t"

text \<open>The file, the function and the other parameters, which are joined again.\<close>

fun workload_tokens :: "string list \<Rightarrow> bool \<Rightarrow> string option \<times> string option \<times> string \<Rightarrow> string option \<times> string option \<times> string" where
  "workload_tokens [] firstExtra w = w"
| "workload_tokens (t # ts) firstExtra (file, func, extra) =
     (if take 5 t = ''file='' then workload_tokens ts firstExtra (Some (drop 5 t), func, extra)
      else if take 5 t = ''func='' then workload_tokens ts firstExtra (file, Some (drop 5 t), extra)
      else let extra = (if \<not> firstExtra then strncat extra '','' (WORKLOAD_MAX_ARGS - length extra - 1) else extra);
               extra = strncat extra t (WORKLOAD_MAX_ARGS - length extra - 1)
           in workload_tokens ts False (file, func, extra))"

definition strqtok :: "nat \<Rightarrow> string option \<Rightarrow> string option \<Rightarrow> int \<Rightarrow> (int \<times> nat list \<times> string) option" where
  "strqtok slots str delim maxtokens = m_strqtok slots str delim maxtokens"

definition upd_workload :: "(workload_t \<Rightarrow> workload_t) \<Rightarrow> ratt_app \<Rightarrow> ratt_app" where
  "upd_workload f = upd_info (\<lambda>i. i\<lparr>rt_workload := f (rt_workload i)\<rparr>)"

text \<open>The array for the arguments has \<open>WORKLOAD_MAX_ARGS\<close> elements, as has the buffer of their text.\<close>

definition process_workload :: "args_env \<Rightarrow> string \<Rightarrow> ratt_app \<Rightarrow> ratt_app run option" where
  "process_workload A arg a =
     (let w = rt_workload (app_info a);
          (file, func, extra) = workload_tokens (split_tokens (CHR '','') arg) True (wl_file w, wl_func w, []);
          a = upd_workload (\<lambda>w. w\<lparr>wl_file := file, wl_func := func, wl_args := extra\<rparr>) a in do {
        (argc, es, b) \<leftarrow> strqtok WORKLOAD_MAX_ARGS (Some (extra @ replicate (WORKLOAD_MAX_ARGS - length extra) NUL))
                          (Some [CHR '' '', CHR 0x0D, CHR 0x0A]) (int WORKLOAD_MAX_ARGS);
        let a = upd_workload (\<lambda>w. w\<lparr>wl_argv := map (cstr_at b) es\<rparr>) a;
        if \<not> ae_dlopen_ok A file then Some (Exited (upd_info (\<lambda>i. i\<lparr>running := False\<rparr>) a))
        else do {
          f \<leftarrow> func;
          if \<not> ae_dlsym_ok A f then Some (Exited (upd_info (\<lambda>i. i\<lparr>running := False\<rparr>) a))
          else Some (Returned 0 (upd_workload (\<lambda>w. w\<lparr>wl_enabled := True\<rparr>) a))
        }
      })"

section \<open>The options\<close>

datatype ratt_option =
    O_reference | O_mirror | O_cycle_time string | O_burst_length string | O_dest_mac string | O_log_file string | O_mqtt
  | O_deltas | O_link_speed string | O_run_duration string | O_promiscuous | O_mirror_serial | O_internal_debug | O_help
  | O_skip_count string | O_delay_time string | O_continue_on_err | O_workload string | O_unknown

definition clip_length :: "u16 \<Rightarrow> u16" where
  "clip_length l = (if l > MAX_PKT_LENGTH then MAX_PKT_LENGTH else if l < MIN_PKT_LENGTH then MIN_PKT_LENGTH else l) - FCS_SIZE"

definition parse_burst_length :: "args_env \<Rightarrow> string \<Rightarrow> ratt_app \<Rightarrow> ratt_app run" where
  "parse_burst_length A arg a =
     (if count_chr arg (CHR ''/'') \<noteq> 1 then Exited a
      else case sscanf_u [U, Lit (CHR ''/''), U] arg of
        [b, l] \<Rightarrow>
          (let a = upd_info (\<lambda>i. i\<lparr>burst_count := ucast b, pkt_length := ucast l\<rparr>) a in
           if unat (burst_count (app_info a)) > MAX_BURST_COUNT then Exited a
           else let a = upd_info (\<lambda>i. i\<lparr>pkt_length := clip_length (pkt_length i)\<rparr>) a in
             if ae_dup_ok A arg then Returned 0 (upd_info (\<lambda>i. i\<lparr>burst_length_str := Some arg\<rparr>) a) else Exited a)
      | _ \<Rightarrow> Exited a)"

text \<open>A number with an upper limit; the second and third component of the conversion are the error and whether all was read.\<close>

definition parse_number :: "string \<Rightarrow> u64 \<Rightarrow> (u64 \<Rightarrow> info_t \<Rightarrow> info_t) \<Rightarrow> ratt_app \<Rightarrow> ratt_app run" where
  "parse_number arg limit set_it a =
     (case strtoul0 arg of (v, err, whole) \<Rightarrow>
        if err \<or> \<not> whole \<or> v > limit then Exited a else Returned 0 (upd_info (set_it v) a))"

fun parse_option :: "args_env \<Rightarrow> app_io \<Rightarrow> ratt_option \<Rightarrow> ratt_app \<Rightarrow> ratt_app run option" where
  "parse_option A I O_reference a = Some (Returned 0 (upd_info (\<lambda>i. i\<lparr>mirror_enabled := False\<rparr>) a))"
| "parse_option A I O_mirror a = Some (Returned 0 (upd_info (\<lambda>i. i\<lparr>mirror_enabled := True\<rparr>) a))"
| "parse_option A I (O_cycle_time s) a = Some (parse_number s (-1) (\<lambda>v i. i\<lparr>cycle_time_ns := v\<rparr>) a)"
| "parse_option A I (O_burst_length s) a = Some (parse_burst_length A s a)"
| "parse_option A I (O_dest_mac s) a =
     Some (if ae_dup_ok A s then Returned 0 (upd_info (\<lambda>i. i\<lparr>dest_mac_str := Some s\<rparr>) a) else Exited a)"
| "parse_option A I (O_log_file s) a =
     (if log_enabled (app_info a) then Some (Returned 0 a)
      else do {
        (r, a) \<leftarrow> ratt_log_init I s a;
        Some (if r \<noteq> 0 then Exited a else Returned 0 (upd_info (\<lambda>i. i\<lparr>log_enabled := True\<rparr>) a))
      })"
| "parse_option A I O_mqtt a =
     (if mqtt_enabled (app_info a) then Some (Returned 0 a)
      else do {
        (r, a) \<leftarrow> mqtt_init I a;
        Some (if r \<noteq> 0 then Exited a else Returned 0 (upd_info (\<lambda>i. i\<lparr>mqtt_enabled := True\<rparr>) a))
      })"
| "parse_option A I O_deltas a = Some (Returned 0 (upd_info (\<lambda>i. i\<lparr>deltas_enabled := True\<rparr>) a))"
| "parse_option A I (O_link_speed s) a = Some (parse_number s 0xFFFFFFFF (\<lambda>v i. i\<lparr>link_speed_mbps := ucast v\<rparr>) a)"
| "parse_option A I (O_run_duration s) a = Some (process_duration A s a)"
| "parse_option A I O_promiscuous a = Some (Returned 0 (upd_info (\<lambda>i. i\<lparr>promiscuous_mode := True\<rparr>) a))"
| "parse_option A I O_mirror_serial a = Some (Returned 0 (upd_info (\<lambda>i. i\<lparr>mirror_serial_enabled := True\<rparr>) a))"
| "parse_option A I O_internal_debug a = Some (Returned 0 (upd_info (\<lambda>i. i\<lparr>internal_debug_enabled := True\<rparr>) a))"
| "parse_option A I O_help a = Some (Exited a)"
| "parse_option A I (O_skip_count s) a = Some (parse_number s 0xFFFFFFFF (\<lambda>v i. i\<lparr>pkt_skip_cnt := ucast v\<rparr>) a)"
| "parse_option A I (O_delay_time s) a = Some (parse_number s 0xFFFF (\<lambda>v i. i\<lparr>delay_sec := ucast v\<rparr>) a)"
| "parse_option A I O_continue_on_err a = Some (Returned 0 (upd_info (\<lambda>i. i\<lparr>continue_on_error := True\<rparr>) a))"
| "parse_option A I (O_workload s) a = process_workload A s a"
| "parse_option A I O_unknown a = Some (Exited a)"

fun parse_ratt_options :: "args_env \<Rightarrow> app_io \<Rightarrow> ratt_option list \<Rightarrow> ratt_app \<Rightarrow> ratt_app run option" where
  "parse_ratt_options A I [] a = Some (Returned 0 a)"
| "parse_ratt_options A I (x # xs) a = do {
     r \<leftarrow> parse_option A I x a;
     (case r of Exited a \<Rightarrow> Some (Exited a) | Returned _ a \<Rightarrow> parse_ratt_options A I xs a)
   }"

definition parse_args :: "args_env \<Rightarrow> app_io \<Rightarrow> ratt_option list \<Rightarrow> ratt_app \<Rightarrow> ratt_app run option" where
  "parse_args A I xs a =
     (let a = upd_info (\<lambda>i. i\<lparr>delay_sec := DEFAULT_DELAY_SEC, link_speed_mbps := RTE_ETH_SPEED_NUM_UNKNOWN,
                              pkt_skip_cnt := DEFAULT_SKIP_COUNT\<rparr>) a in
      if \<not> ae_dup_ok A ''000:00:00'' then Some (Exited a)
      else let a = upd_info (\<lambda>i. i\<lparr>run_duration_str := Some ''000:00:00''\<rparr>) a in
      if \<not> ae_dup_ok A ''FF:FF:FF:FF:FF:FF'' then Some (Exited a)
      else do {
        r \<leftarrow> parse_ratt_options A I xs (upd_info (\<lambda>i. i\<lparr>dest_mac_str := Some ''FF:FF:FF:FF:FF:FF''\<rparr>) a);
        (case r of
           Exited a \<Rightarrow> Some (Exited a)
         | Returned _ a \<Rightarrow>
             let i = app_info a in
             if wl_enabled (rt_workload i) \<and> \<not> mirror_serial_enabled i then Some (Exited a)
             else if wl_enabled (rt_workload i) \<and> \<not> mirror_enabled i then Some (Exited a)
             else if cycle_time_ns i = 0 \<or> burst_count i = 0 \<or> pkt_length i = 0 then Some (Exited a)
             else Some (Returned 0 a))
      })"

end
