(* ===== verification/Ratt_Args_Props.thy ===== *)
theory Ratt_Args_Props
  imports Ratt_Args
begin

text \<open>
  What the command line of the round-trip test guarantees to the threads that use it.
\<close>

definition options_ok :: "info_t \<Rightarrow> bool" where
  "options_ok i \<longleftrightarrow> unat (burst_count i) \<le> MAX_BURST_COUNT \<and>
     (pkt_length i = 0 \<or> 60 \<le> unat (pkt_length i) \<and> unat (pkt_length i) \<le> 1532) \<and>
     unat (run_duration_sec i) \<le> 359999999 \<and> length (wl_argv (rt_workload i)) < WORKLOAD_MAX_ARGS"

lemma upd_info_simps [simp]:
  "app_info (upd_info f a) = f (app_info a)" "app_info (upd_log g a) = app_info a" "app_info (upd_mqtt h a) = app_info a"
  "app_info (upd_workload w a) = (app_info a)\<lparr>rt_workload := w (rt_workload (app_info a))\<rparr>"
  by (simp_all add: upd_info_def upd_log_def upd_mqtt_def upd_workload_def)

lemma options_ok_simps [simp]:
  "options_ok (i\<lparr>cycle_time_ns := u\<rparr>) = options_ok i" "options_ok (i\<lparr>delay_sec := v\<rparr>) = options_ok i"
  "options_ok (i\<lparr>link_speed_mbps := w\<rparr>) = options_ok i" "options_ok (i\<lparr>pkt_skip_cnt := w\<rparr>) = options_ok i"
  "options_ok (i\<lparr>run_duration_str := d\<rparr>) = options_ok i" "options_ok (i\<lparr>dest_mac_str := d\<rparr>) = options_ok i"
  "options_ok (i\<lparr>mirror_enabled := b\<rparr>) = options_ok i" "options_ok (i\<lparr>running := b\<rparr>) = options_ok i"
  "options_ok (i\<lparr>log_enabled := b\<rparr>) = options_ok i" "options_ok (i\<lparr>mqtt_enabled := b\<rparr>) = options_ok i"
  "options_ok (i\<lparr>deltas_enabled := b\<rparr>) = options_ok i" "options_ok (i\<lparr>mirror_serial_enabled := b\<rparr>) = options_ok i"
  "options_ok (i\<lparr>internal_debug_enabled := b\<rparr>) = options_ok i" "options_ok (i\<lparr>promiscuous_mode := b\<rparr>) = options_ok i"
  "options_ok (i\<lparr>continue_on_error := b\<rparr>) = options_ok i"
  by (simp_all add: options_ok_def)

lemma ratt_log_init_ok: "ratt_log_init I f a = Some (r, a') \<Longrightarrow> options_ok (app_info a) \<Longrightarrow> options_ok (app_info a')"
  by (auto simp: ratt_log_init_def ratt_log_open_def close_file_def Let_def split: if_splits obj.splits bind_splits)

lemma mqtt_init_ok: "mqtt_init I a = Some (r, a') \<Longrightarrow> options_ok (app_info a) \<Longrightarrow> options_ok (app_info a')"
  by (auto simp: mqtt_init_def split: if_splits bind_splits)

lemma parse_number_ok:
  assumes "parse_number s limit f a = Returned r a'" and "options_ok (app_info a)" and "\<And>v i. options_ok (f v i) = options_ok i"
  shows "options_ok (app_info a')"
  using assms by (auto simp: parse_number_def split: prod.splits if_splits)

lemma clip_length_bounds: "60 \<le> unat (clip_length l) \<and> unat (clip_length l) \<le> 1532"
  by (auto simp: clip_length_def MAX_PKT_LENGTH_def MIN_PKT_LENGTH_def FCS_SIZE_def unat_sub word_le_nat_alt not_less word_less_nat_alt)

lemma parse_burst_length_ok:
  assumes "parse_burst_length A s a = Returned r a'" and "options_ok (app_info a)"
  shows "options_ok (app_info a')"
  using assms clip_length_bounds by (auto simp: parse_burst_length_def options_ok_def Let_def split: list.splits if_splits)

lemma process_duration_ok:
  assumes "process_duration A s a = Returned r a'" and "options_ok (app_info a)"
  shows "options_ok (app_info a')"
proof -
  have "unat (h * 3600 + m * 60 + s) \<le> 359999999" if "h \<le> 99999" "m \<le> 59" "s \<le> 59" for h m s :: u32
  proof -
    have u: "unat h \<le> 99999" "unat m \<le> 59" "unat s \<le> 59" using that by (simp_all add: word_le_nat_alt)
    then have "unat (h * 3600 + m * 60 + s) = unat h * 3600 + unat m * 60 + unat s"
      by (simp add: unat_word_ariths)
    then show ?thesis using u by linarith
  qed
  then show ?thesis using assms by (auto simp: process_duration_def options_ok_def Let_def not_less split: option.splits if_splits)
qed

lemma process_workload_ok:
  assumes "process_workload A s a = Some (Returned r a')" and "options_ok (app_info a)"
  shows "options_ok (app_info a')"
proof -
  have "length es < n" if "strqtok n (Some b) (Some d) k = Some (c, es, b')" and "0 < n" for n b d k c es b'
    using that by (auto simp: strqtok_def m_strqtok_def Let_def split: if_splits bind_splits)
  then show ?thesis using assms
    by (auto simp: process_workload_def options_ok_def WORKLOAD_MAX_ARGS_def Let_def split: prod.splits if_splits bind_splits)
qed

lemma parse_option_ok:
  assumes "parse_option A I x a = Some (Returned r a')" and "options_ok (app_info a)"
  shows "options_ok (app_info a')"
proof (cases x)
  case (O_log_file f)
  then have "a' = a \<or> (\<exists>q b. ratt_log_init I f a = Some (q, b) \<and> a' = upd_info (\<lambda>i. i\<lparr>log_enabled := True\<rparr>) b)"
    using assms(1) by (auto split: if_splits bind_splits)
  then show ?thesis using assms(2) by (elim disjE exE conjE) (simp_all add: ratt_log_init_ok)
next
  case O_mqtt
  then have "a' = a \<or> (\<exists>q b. mqtt_init I a = Some (q, b) \<and> a' = upd_info (\<lambda>i. i\<lparr>mqtt_enabled := True\<rparr>) b)"
    using assms(1) by (auto split: if_splits bind_splits)
  then show ?thesis using assms(2) by (elim disjE exE conjE) (simp_all add: mqtt_init_ok)
qed (use assms in \<open>auto split: if_splits intro: process_workload_ok process_duration_ok parse_burst_length_ok parse_number_ok\<close>)

lemma parse_ratt_options_ok:
  "parse_ratt_options A I xs a = Some (Returned r a') \<Longrightarrow> options_ok (app_info a) \<Longrightarrow> options_ok (app_info a') \<and> r = 0"
  by (induction xs arbitrary: a) (auto split: bind_splits run.splits dest: parse_option_ok)


section \<open>An example\<close>

text \<open>A command line. A log file in front of the cycle time is a division by zero.\<close>

definition ex_args :: args_env where
  "ex_args = \<lparr>ae_dup_ok = (\<lambda>_. True), ae_dlopen_ok = (\<lambda>_. True), ae_dlsym_ok = (\<lambda>_. True)\<rparr>"

definition ex_app_io :: app_io where
  "ex_app_io = \<lparr>io_ring_ok = True, io_pool_ok = True, io_delta_ok = (\<lambda>_. True), io_alloc_ok = True, io_open_ok = True,
     io_ring_cap = 2047, io_delta_cap = 65535, io_now = (\<lambda>_. None)\<rparr>"

definition zero_info_t :: info_t where
  "zero_info_t = \<lparr>cycle_time_ns = 0, mqtt_lcore_id = 0, worker_lcore_id = 0, delay_sec = 0, burst_count = 0, pkt_length = 0,
     link_speed_mbps = 0, pkt_skip_cnt = 0, run_duration_sec = 0, burst_length_str = None, run_duration_str = None,
     dest_mac_str = None, run_duration_end_ns = 0, r_start_time = \<lparr>tv_sec = 0, tv_nsec = 0\<rparr>, mirror_enabled = False, running = False,
     screen_clear_flag = False, reset_stats_flag = False, log_enabled = False, mqtt_enabled = False, deltas_enabled = False,
     mirror_serial_enabled = False, internal_debug_enabled = False, promiscuous_mode = False, continue_on_error = False,
     rt_workload = \<lparr>wl_enabled = False, wl_file = None, wl_func = None, wl_args = [], wl_argv = []\<rparr>\<rparr>"

definition zero_app :: ratt_app where
  "zero_app = \<lparr>app_info = zero_info_t, log_info = zero_log_info, mqtt_info = zero_mqtt_info, written_files = [], app_calls = []\<rparr>"

lemma log_file_before_cycle_time:
  "parse_args ex_args ex_app_io (O_log_file f # xs) zero_app = None"
  by (simp add: parse_args_def ex_args_def ex_app_io_def zero_app_def zero_info_t_def ratt_log_init_def delta_ring_size_def)

lemma zero_info_ok: "options_ok zero_info_t"
  by (simp add: options_ok_def zero_info_t_def WORKLOAD_MAX_ARGS_def)

definition ex_options :: "ratt_option list" where
  "ex_options = [O_cycle_time ''31250'', O_burst_length ''4/128'', O_deltas]"

lemma ex_options_parsed:
  "case parse_args ex_args ex_app_io ex_options zero_app of
     Some (Returned r a) \<Rightarrow> r = 0 \<and> burst_count (app_info a) = 4 \<and> pkt_length (app_info a) = 124
   | _ \<Rightarrow> False"
  by (simp add: parse_args_def ex_options_def ex_args_def ex_app_io_def zero_app_def zero_info_t_def parse_number_def parse_burst_length_def
      strtoul0_def number_base_def strtoull_def scan_number_def skip_sign_def skip_0x_def ull_value_def digits_val_def digit_val_def
      isspace_def code_def tolower_def clip_length_def MAX_BURST_COUNT_def MAX_PKT_LENGTH_def MIN_PKT_LENGTH_def FCS_SIZE_def)


end
