(* ===== verification/Ratt_Main.thy ===== *)
theory Ratt_Main
  imports Ratt_Args "HOL-Library.Signed_Division"
begin

text \<open>
  The main thread of the round-trip test: the numbers on the screen (\<^verbatim>\<open>apps/ratt/stats.c\<close>), the
  keyboard loop (\<^verbatim>\<open>keyboard.c\<close>), the set-up of the port (\<^verbatim>\<open>port-setup.c\<close>) and \<^verbatim>\<open>main\<close> (\<^verbatim>\<open>ratt.c\<close>). The
  layout of the screen and the wire time shown there are left out.
\<close>

section \<open>The screen\<close>

definition cleared :: min_avg_max_t where
  "cleared = \<lparr>min_ns = 0, max_ns = 0, avg_ns = 0, sum_ns = 0, count_ns = 0\<rparr>"

definition reset_stats :: stats_t where
  "reset_stats = \<lparr>rtt = cleared\<lparr>min_ns := BIG_NUM\<rparr>, spike = cleared\<lparr>min_ns := BIG_NUM\<rparr>, snapshot = cleared\<lparr>min_ns := BIG_NUM\<rparr>,
     rx_snapshot = cleared, tx_snapshot = cleared, workload_time = cleared\<lparr>min_ns := BIG_NUM\<rparr>,
     workload_snapshot = cleared\<lparr>min_ns := BIG_NUM\<rparr>, total_rx = 0, total_tx = 0, rx_pps = 0, tx_pps = 0, no_mbufs = 0,
     no_timestamp = 0, id_error = 0, tx_ring_full = 0, rx_timeout_cnt = 0, rx_try_extra_time = 0, prev_rx_timeout = 0\<rparr>"

definition reset_snapshot :: "bool \<Rightarrow> stats_t \<Rightarrow> stats_t" where
  "reset_snapshot workload st =
     (let st = st\<lparr>snapshot := cleared\<lparr>min_ns := BIG_NUM\<rparr>\<rparr> in
      if workload then st\<lparr>workload_snapshot := cleared\<lparr>min_ns := BIG_NUM\<rparr>\<rparr> else st)"

definition reset_rxtx_snapshot :: "stats_t \<Rightarrow> stats_t" where
  "reset_rxtx_snapshot st = st\<lparr>rx_snapshot := cleared\<lparr>min_ns := BIG_NUM\<rparr>, tx_snapshot := cleared\<lparr>min_ns := BIG_NUM\<rparr>\<rparr>"

definition with_avg :: "min_avg_max_t \<Rightarrow> min_avg_max_t" where
  "with_avg m = m\<lparr>avg_ns := if count_ns m = 0 then 0 else sum_ns m div count_ns m\<rparr>"

definition print_min_avg_max :: "min_avg_max_t \<Rightarrow> u64 list" where
  "print_min_avg_max m = [min_ns m, avg_ns m, max_ns m]"

record ratt_screen =
  sc_cleared :: bool
  sc_twirl :: char
  sc_mirror :: bool
  sc_hms :: "int \<times> int \<times> int"
  sc_rows :: "(string \<times> u64 list) list"

record ratt_prog =
  prog_app :: ratt_app
  prog_lcore :: lcore_t
  port_now :: port_stats_t
  port_prev :: port_stats_t
  tty_set :: bool
  twirl_toggle :: nat
  screens :: "ratt_screen list"

text \<open>What one call reads from outside: the time, the counters of the port if they can be read, the time of the MQTT report.\<close>

record ratt_sight =
  rs_now :: "timespec option"
  rs_port :: "port_stats_t option"
  rs_mqtt_now :: u64

definition averaged :: "stats_t \<Rightarrow> stats_t" where
  "averaged st = st\<lparr>rtt := with_avg (rtt st), snapshot := with_avg (snapshot st), spike := with_avg (spike st),
     workload_time := with_avg (workload_time st), workload_snapshot := with_avg (workload_snapshot st)\<rparr>"

definition screen_rows :: "stats_t \<Rightarrow> port_stats_t \<Rightarrow> (string \<times> u64 list) list" where
  "screen_rows st p =
     [(''RTT'', print_min_avg_max (rtt st)), (''Snapshot'', print_min_avg_max (snapshot st)), (''Spike'', print_min_avg_max (spike st)),
      (''Workload'', print_min_avg_max (workload_time st)), (''Workload Snapshot'', print_min_avg_max (workload_snapshot st)),
      (''RTT/Snapshot/Spike Count'', [count_ns (rtt st), count_ns (snapshot st), count_ns (spike st)]),
      (''RxMissed/RxError/TxError'', [ps_imissed p, ps_ierrors p, ps_oerrors p]),
      (''Total Rx/Tx Packets'', [total_rx st, total_tx st]), (''Rx/Tx PPS'', [rx_pps st, tx_pps st]),
      (''Rx Timeout/Per Sec'', [rx_timeout_cnt st, rx_timeout_cnt st - prev_rx_timeout st]),
      (''No Mbufs/Timestamp'', [no_mbufs st, no_timestamp st]), (''ID Error/Tx Full'', [id_error st, tx_ring_full st])]"

definition ratt_print_stats :: "app_io \<Rightarrow> ratt_sight \<Rightarrow> ratt_prog \<Rightarrow> ratt_prog option" where
  "ratt_print_stats I v g =
     (let i = app_info (prog_app g);
          clear = screen_clear_flag i;
          st = (if reset_stats_flag i then reset_stats else lstats (prog_lcore g));
          app = upd_info (\<lambda>i. i\<lparr>screen_clear_flag := False, reset_stats_flag := False\<rparr>) (prog_app g);
          now = (case rs_now v of None \<Rightarrow> \<lparr>tv_sec = 0, tv_nsec = 0\<rparr> | Some t \<Rightarrow> t);
          seconds = tv_sec now - tv_sec (r_start_time i);
          prev = port_now g;
          p = (case rs_port v of None \<Rightarrow> prev | Some p \<Rightarrow> p);
          st = (averaged st)\<lparr>rx_pps := ps_ipackets p - ps_ipackets prev, tx_pps := ps_opackets p - ps_opackets prev\<rparr>;
          rows = screen_rows st p;
          st = st\<lparr>prev_rx_timeout := rx_timeout_cnt st\<rparr> in do {
        app \<leftarrow> mqtt_stats I (rs_mqtt_now v) st p app;
        let st = reset_snapshot (wl_enabled (rt_workload i)) st;
        let dbg = internal_debug_enabled i;
        let st = (if dbg then st\<lparr>rx_snapshot := with_avg (rx_snapshot st), tx_snapshot := with_avg (tx_snapshot st)\<rparr> else st);
        let rows = (if dbg then rows @ [(''Rx Timing'', print_min_avg_max (rx_snapshot st)), (''Tx Timing'', print_min_avg_max (tx_snapshot st))]
                    else rows);
        let st = (if dbg then reset_rxtx_snapshot st else st);
        Some (g\<lparr>prog_app := app, prog_lcore := (prog_lcore g)\<lparr>lstats := st\<rparr>, port_prev := prev, port_now := p,
                twirl_toggle := twirl_toggle g + 1,
                screens := screens g @ [\<lparr>sc_cleared = clear, sc_twirl = [CHR ''|'', CHR ''/'', CHR ''-'', CHR 0x5C] ! (twirl_toggle g mod 4), sc_mirror = mirror_enabled i,
                  sc_hms = (seconds sdiv 3600, (seconds smod 3600) sdiv 60, seconds smod 60), sc_rows = rows\<rparr>]\<rparr>)
      })"

section \<open>The keyboard\<close>

record key_poll =
  kp_ready :: bool
  kp_err :: bool
  kp_hup :: bool
  kp_in :: bool
  kp_char :: "char option"

text \<open>The result and the character variable, which keeps its old value when nothing is read; at first it has none.\<close>

definition ratt_poll_keyboard :: "key_poll \<Rightarrow> char option \<Rightarrow> int \<times> char option" where
  "ratt_poll_keyboard p c =
     (if kp_ready p \<and> \<not> kp_err p
      then if kp_hup p then (-1, c)
           else if kp_in p then (case kp_char p of Some d \<Rightarrow> (1, Some d) | None \<Rightarrow> (0, c))
           else (0, c)
      else (0, c))"

definition ratt_stdin_setup :: "bool \<Rightarrow> bool \<Rightarrow> ratt_prog \<Rightarrow> int \<times> ratt_prog" where
  "ratt_stdin_setup get_ok set_ok g =
     (let g = g\<lparr>tty_set := False\<rparr> in if \<not> get_ok then (-1, g) else if \<not> set_ok then (-1, g) else (0, g\<lparr>tty_set := True\<rparr>))"

text \<open>
  One pass of the loop: the flag \<^verbatim>\<open>running\<close> as the other threads leave it and the time, what
  the other threads do to the program, what the screen reads, and the key.
\<close>

record key_pass =
  kb_flag :: bool
  kb_clock :: u64
  kb_others :: "ratt_prog \<Rightarrow> ratt_prog option"
  kb_sight :: ratt_sight
  kb_key :: key_poll

definition prog_info :: "(info_t \<Rightarrow> info_t) \<Rightarrow> ratt_prog \<Rightarrow> ratt_prog" where
  "prog_info f g = g\<lparr>prog_app := upd_info f (prog_app g)\<rparr>"

definition prog_running :: "key_pass \<Rightarrow> ratt_prog \<Rightarrow> bool" where
  "prog_running p g =
     (let i = app_info (prog_app g) in
      running i \<and> kb_flag p \<and> \<not> (run_duration_end_ns i \<noteq> 0 \<and> kb_clock p \<ge> run_duration_end_ns i))"

definition prog_log :: "(ratt_app \<Rightarrow> ratt_app option) \<Rightarrow> ratt_prog \<Rightarrow> ratt_prog option" where
  "prog_log f g = do { a \<leftarrow> f (prog_app g); Some (g\<lparr>prog_app := a\<rparr>) }"

text \<open>A key: \<open>True\<close> ends the loop. \<open>None\<close> is the use of a character that was never read.\<close>

definition ratt_key :: "app_io \<Rightarrow> char option \<Rightarrow> ratt_prog \<Rightarrow> (bool \<times> ratt_prog) option" where
  "ratt_key I c g = do {
     c \<leftarrow> c;
     if c = CHR ''q'' then Some (True, g)
     else if c = CHR ''r''
     then do {
       g \<leftarrow> prog_log (\<lambda>a. map_option snd (ratt_log_open I a)) (prog_info (\<lambda>i. i\<lparr>reset_stats_flag := True\<rparr>) g);
       Some (False, prog_info (\<lambda>i. i\<lparr>screen_clear_flag := True\<rparr>) g)
     }
     else if c = CHR ''c'' then Some (False, prog_info (\<lambda>i. i\<lparr>screen_clear_flag := True\<rparr>) g)
     else Some (False, g)
   }"

fun ratt_keys :: "app_io \<Rightarrow> u32 \<Rightarrow> char option \<Rightarrow> key_pass list \<Rightarrow> ratt_prog \<Rightarrow> ratt_prog option" where
  "ratt_keys I pass_no c [] g = Some g"
| "ratt_keys I pass_no c (p # ps) g = do {
     g \<leftarrow> kb_others p g;
     if \<not> prog_running p g then Some g
     else do {
       g \<leftarrow> (if pass_no mod 4 = 0 then ratt_print_stats I (kb_sight p) g else Some g);
       g \<leftarrow> prog_log ratt_log_flush g;
       (case ratt_poll_keyboard (kb_key p) c of (r, c) \<Rightarrow>
          if r = 0 then ratt_keys I (pass_no + 1) c ps g
          else do {
            (quit, g) \<leftarrow> ratt_key I c g;
            if quit then Some g else ratt_keys I (pass_no + 1) c ps g
          })
     }
   }"

record keyboard_env =
  ke_now :: "timespec option"
  ke_clock :: u64
  ke_get_ok :: bool
  ke_set_ok :: bool
  ke_passes :: "key_pass list"
  ke_last :: ratt_sight

definition ratt_keyboard_loop :: "app_io \<Rightarrow> mosq_lib \<Rightarrow> keyboard_env \<Rightarrow> ratt_prog \<Rightarrow> ratt_prog option" where
  "ratt_keyboard_loop I L K g =
     (let now = (case ke_now K of None \<Rightarrow> \<lparr>tv_sec = 0, tv_nsec = 0\<rparr> | Some t \<Rightarrow> t);
          g = prog_info (\<lambda>i. i\<lparr>screen_clear_flag := True, r_start_time := now\<rparr>) g;
          (_, g) = ratt_stdin_setup (ke_get_ok K) (ke_set_ok K) g;
          d = run_duration_sec (app_info (prog_app g));
          g = (if d > 0 then prog_info (\<lambda>i. i\<lparr>run_duration_end_ns := ke_clock K + ucast d * 1000000000\<rparr>) g else g);
          g = prog_info (\<lambda>i. i\<lparr>reset_stats_flag := True\<rparr>) g in do {
        g \<leftarrow> ratt_keys I 0 None (ke_passes K) g;
        g \<leftarrow> ratt_print_stats I (ke_last K) g;
        let g = prog_info (\<lambda>i. i\<lparr>running := False\<rparr>) g;
        g \<leftarrow> prog_log ratt_log_close g;
        prog_log (mqtt_close L) g
      })"

section \<open>The port\<close>

text \<open>
  The calls of DPDK with the arguments the code chooses; an answer may depend on the calls
  made before. Pools are named by numbers.
\<close>

datatype port_call =
    Is_Valid u16 | Info_Get u16 | Pool_Create string u16 u16 nat nat nat | Configure u16 u16 u16 u64 bool bool bool u32
  | Adjust_Desc u16 u16 u16 | Rx_Queue_Setup u16 u16 u16 int | Tx_Queue_Setup u16 u16 u16 | Macaddr_Get u16 | Set_Ptypes u16 | Dev_Start u16
  | Promiscuous_Enable u16

record port_dev =
  pd_driver :: string
  pd_rss_offloads :: u64
  pd_max_vfs :: u16
  pd_intr_lsc :: bool
  pd_fast_free :: bool

record port_env =
  pe_answer :: "port_call list \<Rightarrow> port_call \<Rightarrow> int"
  pe_dev :: port_dev
  pe_desc :: "u16 \<times> u16"
  pe_mac :: bytes
  pe_unformat :: "string \<Rightarrow> bytes option"
  pe_speed_flag :: "u32 \<Rightarrow> u32"
  pe_rss_default :: u64
  pe_mbuf_size :: nat

record ratt_port_state =
  po_lcore :: lcore_t
  po_rx_mp :: int
  po_tx_mp :: int
  po_calls :: "port_call list"

definition port_ask :: "port_env \<Rightarrow> port_call \<Rightarrow> ratt_port_state \<Rightarrow> int \<times> ratt_port_state" where
  "port_ask P x s = (pe_answer P (po_calls s) x, s\<lparr>po_calls := po_calls s @ [x]\<rparr>)"

text \<open>\<^verbatim>\<open>lport_pktmbuf_pool\<close> ends the program when there is no pool.\<close>

definition ratt_pktmbuf_pool :: "port_env \<Rightarrow> string \<Rightarrow> nat \<Rightarrow> ratt_port_state \<Rightarrow> int \<times> ratt_port_state" where
  "ratt_pktmbuf_pool P nm num_mbufs s = port_ask P (Pool_Create nm 0 0 num_mbufs (pe_mbuf_size P) 128) s"

definition port_init_pools :: "port_env \<Rightarrow> ratt_port_state \<Rightarrow> ratt_port_state run" where
  "port_init_pools P s =
     (if pd_driver (pe_dev P) \<noteq> ''net_af_xdp''
      then case ratt_pktmbuf_pool P ''rx'' (32 * 1024) s of (mp, s) \<Rightarrow>
             if mp = 0 then Exited s
             else case ratt_pktmbuf_pool P ''tx'' (32 * 1024) (s\<lparr>po_rx_mp := mp\<rparr>) of (mp, s) \<Rightarrow>
               if mp = 0 then Exited s else Returned 0 (s\<lparr>po_tx_mp := mp\<rparr>)
      else case ratt_pktmbuf_pool P ''rx'' (32 * 1024 * 2) s of (mp, s) \<Rightarrow>
             if mp = 0 then Exited s else Returned 0 (s\<lparr>po_rx_mp := mp, po_tx_mp := mp\<rparr>))"

text \<open>A call whose result, when \<open>bad\<close>, is returned.\<close>

definition port_then :: "port_env \<Rightarrow> port_call \<Rightarrow> (int \<Rightarrow> bool) \<Rightarrow> (ratt_port_state \<Rightarrow> ratt_port_state run) \<Rightarrow> ratt_port_state \<Rightarrow> ratt_port_state run" where
  "port_then P x bad k s = (case port_ask P x s of (r, s) \<Rightarrow> if bad r then Returned r s else k s)"

definition port_init_rest :: "port_env \<Rightarrow> info_t \<Rightarrow> ratt_port_state \<Rightarrow> ratt_port_state run" where
  "port_init_rest P i =
     (let d = pe_dev P;
          rss = pe_rss_default P AND pd_rss_offloads d;
          speeds = (if link_speed_mbps i \<noteq> RTE_ETH_SPEED_NUM_UNKNOWN then pe_speed_flag P (link_speed_mbps i) else 0);
          (rxd, txd) = pe_desc P in
      port_then P (Configure 0 1 1 rss (pd_max_vfs d \<noteq> 0 \<and> rss \<noteq> 0) (pd_intr_lsc d) (pd_fast_free d) speeds) (\<lambda>r. r \<noteq> 0)
       (port_then P (Adjust_Desc 0 4096 4096) (\<lambda>r. r \<noteq> 0)
        (\<lambda>s. port_then P (Rx_Queue_Setup 0 0 rxd (po_rx_mp s)) (\<lambda>r. r < 0)
         (port_then P (Tx_Queue_Setup 0 0 txd) (\<lambda>r. r < 0)
          (\<lambda>s. case port_ask P (Macaddr_Get 0) s of (r, s) \<Rightarrow>
             if r < 0 then Exited s
             else case Option.bind (dest_mac_str i) (pe_unformat P) of
               None \<Rightarrow> Exited s
             | Some m \<Rightarrow>
                 let s = s\<lparr>po_lcore := (po_lcore s)\<lparr>src_mac := pe_mac P, dst_mac := m\<rparr>\<rparr> in
                 case port_ask P (Set_Ptypes 0) s of (_, s) \<Rightarrow>
                 port_then P (Dev_Start 0) (\<lambda>r. r < 0)
                  (if promiscuous_mode i then port_then P (Promiscuous_Enable 0) (\<lambda>r. r \<noteq> 0) (Returned 0) else Returned 0) s)) s)))"

definition port_init :: "port_env \<Rightarrow> info_t \<Rightarrow> ratt_port_state \<Rightarrow> ratt_port_state run" where
  "port_init P i s =
     (case port_ask P (Is_Valid 0) s of (r, s) \<Rightarrow>
        if r = 0 then Exited s
        else port_then P (Info_Get 0) (\<lambda>r. r \<noteq> 0)
               (\<lambda>s. case port_init_pools P s of Exited s \<Rightarrow> Exited s | Returned _ s \<Rightarrow> port_init_rest P i s) s)"

section \<open>Main\<close>

definition ratt_signal_handler :: "int \<Rightarrow> ratt_prog \<Rightarrow> ratt_prog" where
  "ratt_signal_handler signum g =
     (if signum = 2 \<or> signum = 15 then prog_info (\<lambda>i. i\<lparr>running := False\<rparr>) g else g)"

text \<open>\<open>RTE_MAX_LCORE\<close> and the answers of DPDK are parameters; \<open>rm_next\<close> is \<^verbatim>\<open>rte_get_next_lcore(i, 1, 0)\<close>.\<close>

record ratt_main_env =
  rm_signal_ok :: bool
  rm_eal_ret :: int
  rm_options :: "ratt_option list"
  rm_lcores :: nat
  rm_ports :: nat
  rm_max_lcore :: nat
  rm_main_lcore :: nat
  rm_next :: "nat \<Rightarrow> nat"
  rm_rx_mbufs_ok :: bool
  rm_tx_mbufs_ok :: bool
  rm_mqtt_launch :: int
  rm_worker_launch :: int
  rm_keyboard :: keyboard_env
  rm_waited :: "ratt_prog \<Rightarrow> ratt_prog option"

text \<open>The cores for the threads: \<open>None\<close> when there are not enough.\<close>

definition assign_lcores :: "ratt_main_env \<Rightarrow> info_t \<Rightarrow> info_t option" where
  "assign_lcores M i =
     (let n = rm_main_lcore M in do {
        (n, i) \<leftarrow> (if mqtt_enabled i
                  then let n = rm_next M n in if n \<ge> rm_max_lcore M then None else Some (n, i\<lparr>mqtt_lcore_id := of_nat n\<rparr>)
                  else Some (n, i));
        let n = rm_next M n;
        if n \<ge> rm_max_lcore M then None else Some (i\<lparr>worker_lcore_id := of_nat n\<rparr>)
      })"

definition ratt_main ::
  "args_env \<Rightarrow> app_io \<Rightarrow> mosq_lib \<Rightarrow> port_env \<Rightarrow> ratt_main_env \<Rightarrow> ratt_prog \<Rightarrow> ratt_prog run option" where
  "ratt_main A I L P M g =
     (if \<not> rm_signal_ok M \<or> rm_eal_ret M < 0 then Some (Exited g)
      else do {
        r \<leftarrow> parse_args A I (rm_options M) (prog_app g);
        (case r of
           Exited a \<Rightarrow> Some (Exited (g\<lparr>prog_app := a\<rparr>))
         | Returned _ a \<Rightarrow>
             let g = g\<lparr>prog_app := a\<rparr> in
             if rm_lcores M < (if mqtt_enabled (app_info a) then 3 else 2) \<or> rm_ports M = 0 then Some (Exited g)
             else case assign_lcores M (app_info a) of
               None \<Rightarrow> Some (Exited g)
             | Some i \<Rightarrow>
                 let g = prog_info (\<lambda>_. i) g in
                 if \<not> rm_rx_mbufs_ok M \<or> \<not> rm_tx_mbufs_ok M then Some (Exited g)
                 else (case port_init P i \<lparr>po_lcore = prog_lcore g, po_rx_mp = 0, po_tx_mp = 0, po_calls = []\<rparr> of
                     Exited s \<Rightarrow> Some (Exited (g\<lparr>prog_lcore := po_lcore s\<rparr>))
                   | Returned r s \<Rightarrow>
                       let g = g\<lparr>prog_lcore := po_lcore s\<rparr> in
                       if r < 0 then Some (Exited g)
                       else let g = prog_info (\<lambda>i. i\<lparr>running := True\<rparr>) g in
                       if mqtt_enabled i \<and> rm_mqtt_launch M < 0 then Some (Exited g)
                       else if rm_worker_launch M < 0 then Some (Exited g)
                       else do {
                         g \<leftarrow> ratt_keyboard_loop I L (rm_keyboard M) g;
                         g \<leftarrow> rm_waited M g;
                         g \<leftarrow> prog_log ratt_log_flush g;
                         Some (Returned 0 g)
                       }))
      })"

end
