(* ===== verification/App_Common.thy ===== *)
theory App_Common
  imports Ratt
begin

text \<open>
  What the launch-time and the CNP program have in common: the word of flags that all threads
  update with compare-and-set, the times of the sleeps, the state of the link, mbufs with
  their flags and dynamic fields. Each program has its own copy of this code; the round-trip
  test has the same times and link.
\<close>

section \<open>Flags\<close>

definition flag_set :: "nat \<Rightarrow> u32 \<Rightarrow> u32" where "flag_set n e = e OR push_bit n 1"
definition flag_clr :: "nat \<Rightarrow> u32 \<Rightarrow> u32" where "flag_clr n e = e AND NOT (push_bit n 1)"
definition flag_tst :: "nat \<Rightarrow> u32 \<Rightarrow> bool" where "flag_tst n e \<longleftrightarrow> e AND push_bit n 1 \<noteq> 0"

text \<open>
  The loop of \<^verbatim>\<open>_bset\<close> and \<^verbatim>\<open>_bclr\<close>: read the flags, compute the new value, store it if the
  flags are still what was read. \<open>others k\<close> is what the other threads do to the flags
  before access \<open>k\<close>; the reads and the stores are the accesses, in turn.
\<close>

fun cas_loop :: "(nat \<Rightarrow> u32 \<Rightarrow> u32) \<Rightarrow> (u32 \<Rightarrow> u32) \<Rightarrow> nat \<Rightarrow> nat \<Rightarrow> u32 \<Rightarrow> u32 option" where
  "cas_loop others f 0 k flags = None"
| "cas_loop others f (Suc fuel) k flags =
     (let e = others k flags; s = f e; now = others (Suc k) e in
      if now = e then Some s else cas_loop others f fuel (Suc (Suc k)) now)"

definition bset :: "(nat \<Rightarrow> u32 \<Rightarrow> u32) \<Rightarrow> nat \<Rightarrow> nat \<Rightarrow> u32 \<Rightarrow> u32 option" where
  "bset others fuel n = cas_loop others (flag_set n) fuel 0"

definition bclr :: "(nat \<Rightarrow> u32 \<Rightarrow> u32) \<Rightarrow> nat \<Rightarrow> nat \<Rightarrow> u32 \<Rightarrow> u32 option" where
  "bclr others fuel n = cas_loop others (flag_clr n) fuel 0"

lemma flag_bits:
  "n < 32 \<Longrightarrow> bit (flag_set n e) m \<longleftrightarrow> m = n \<or> bit e m" "n < 32 \<Longrightarrow> bit (flag_clr n e) m \<longleftrightarrow> m \<noteq> n \<and> bit e m"
  by (auto simp: flag_set_def flag_clr_def bit_or_iff bit_and_iff bit_not_iff bit_exp_iff possible_bit_word dest: bit_imp_le_length)

lemma flag_tst_bit: "flag_tst n e \<longleftrightarrow> bit e n"
  by (simp add: flag_tst_def and_exp_eq_0_iff_not_bit)

lemma flag_tst_set [simp]: "n < 32 \<Longrightarrow> m < 32 \<Longrightarrow> flag_tst m (flag_set n e) \<longleftrightarrow> m = n \<or> flag_tst m e"
  and flag_tst_clr [simp]: "n < 32 \<Longrightarrow> m < 32 \<Longrightarrow> flag_tst m (flag_clr n e) \<longleftrightarrow> m \<noteq> n \<and> flag_tst m e"
  by (simp_all add: flag_tst_bit flag_bits)

text \<open>The flags before access \<open>k\<close>, when only the other threads change them.\<close>

fun changed :: "(nat \<Rightarrow> u32 \<Rightarrow> u32) \<Rightarrow> nat \<Rightarrow> nat \<Rightarrow> u32 \<Rightarrow> u32" where
  "changed others k0 0 e = e"
| "changed others k0 (Suc k) e = changed others (Suc k0) k (others k0 e)"

lemma cas_loop_atomic:
  assumes "\<exists>j<fuel. changed others k0 (2 * j + 2) e = changed others k0 (2 * j + 1) e"
  shows "\<exists>j<fuel. cas_loop others f fuel k0 e = Some (f (changed others k0 (2 * j + 2) e))"
  using assms
proof (induction fuel arbitrary: k0 e)
  case (Suc fuel)
  show ?case
  proof (cases "others (Suc k0) (others k0 e) = others k0 e")
    case True
    then show ?thesis by (intro exI [of _ 0]) simp
  next
    case False
    let ?e = "others (Suc k0) (others k0 e)" and ?k = "Suc (Suc k0)"
    from Suc.prems obtain j where j: "j < Suc fuel" "changed others k0 (2 * j + 2) e = changed others k0 (2 * j + 1) e" by blast
    with False obtain i where i: "j = Suc i" by (cases j) simp_all
    with j have "\<exists>i<fuel. changed others ?k (2 * i + 2) ?e = changed others ?k (2 * i + 1) ?e" by auto
    from Suc.IH [OF this] obtain l where "l < fuel" "cas_loop others f fuel ?k ?e = Some (f (changed others ?k (2 * l + 2) ?e))"
      by blast
    then show ?thesis using False by (intro exI [of _ "Suc l"]) (simp add: Let_def)
  qed
qed simp

section \<open>Time\<close>

text \<open>\<^verbatim>\<open>tv_nsec\<close> has 64 bits; adding an unsigned number to it is done modulo \<open>2 ^ 64\<close>.\<close>

definition wrap_long :: "int \<Rightarrow> int" where "wrap_long x = signed_take_bit 63 x"

definition ts_to_ns :: "timespec \<Rightarrow> u64" where
  "ts_to_ns t = word_of_int (tv_sec t) * word_of_int NSEC_PER_SEC + word_of_int (tv_nsec t)"

text \<open>The time to wake up, or \<open>None\<close> when there is no sleep; \<open>now\<close> is the time the call reads.\<close>

definition sleep_sec :: "u32 \<Rightarrow> timespec \<Rightarrow> timespec option" where
  "sleep_sec sec now = (if sec > 0 then Some (now\<lparr>tv_sec := tv_sec now + int (unat sec)\<rparr>) else None)"

definition sleep_nsec :: "u64 \<Rightarrow> timespec \<Rightarrow> timespec option" where
  "sleep_nsec nsec now =
     (if nsec > 0 then Some (carry_nsec (now\<lparr>tv_nsec := wrap_long (tv_nsec now + int (unat nsec))\<rparr>)) else None)"

definition app_sleep_usec :: "u32 \<Rightarrow> timespec \<Rightarrow> timespec option" where
  "app_sleep_usec usec now =
     (if usec > 0 then Some (carry_nsec (now\<lparr>tv_nsec := wrap_long (tv_nsec now + int (unat (ucast usec * 1000 :: u64)))\<rparr>)) else None)"

definition sleep_msec :: "u32 \<Rightarrow> timespec \<Rightarrow> timespec option" where
  "sleep_msec msec = app_sleep_usec (ucast (ucast msec * 1000 :: u64))"

section \<open>The link\<close>

record eth_link =
  link_speed :: u32
  link_duplex :: u16
  link_autoneg :: u16
  link_status :: u16

definition RTE_ETH_SPEED_10G :: u32 where "RTE_ETH_SPEED_10G = 10000"

text \<open>
  \<open>got\<close> is what \<^verbatim>\<open>rte_eth_link_get_nowait\<close> stores, \<open>None\<close> when it fails. The result is the link
  of the port and the text for a buffer of \<open>len\<close> characters; the digits are not grouped
  here, as in the C locale.
\<close>

definition link_status_no_wait :: "eth_link option \<Rightarrow> nat \<Rightarrow> eth_link \<Rightarrow> string \<times> eth_link" where
  "link_status_no_wait got len l =
     (let l = (case got of
                 None \<Rightarrow> l
               | Some l \<Rightarrow> if link_speed l = RTE_ETH_SPEED_NUM_UNKNOWN
                           then l\<lparr>link_speed := RTE_ETH_SPEED_10G, link_duplex := 1, link_autoneg := 0, link_status := 1\<rparr> else l);
          txt = (if link_status l = 0 then ''<Down>''
                 else ''<UP-'' @ decimal (unat (link_speed l)) @ ''-'' @ (if link_duplex l = 1 then ''FD'' else ''HD'') @ ''>'')
      in (take (len - 1) txt, l))"

definition is_link_up_now :: "eth_link option \<Rightarrow> bool" where
  "is_link_up_now got = (case got of None \<Rightarrow> False | Some l \<Rightarrow> link_status l = 1)"

section \<open>Mbufs\<close>

text \<open>An mbuf with its flags and its dynamic fields by offset.\<close>

record tmbuf = mbuf +
  m_ol_flags :: u64
  m_dyn :: "int \<Rightarrow> u64"

end
