(* ===== verification/Cnp.thy ===== *)
theory Cnp
  imports App_Common Ratt_Io
begin

text \<open>
  The probes of \<^verbatim>\<open>apps/cnp\<close>: the data of the program (\<^verbatim>\<open>cnp-tuning.h\<close>, \<^verbatim>\<open>stats.h\<close>, \<^verbatim>\<open>probe.h\<close>) and
  the transmission and reception of probes (\<^verbatim>\<open>rxtx.c\<close>). A client sends a probe per interval,
  a server returns what it receives, and the client measures the time between. The clock,
  the flag other threads clear, the link, the device and its timestamps are parameters,
  read in order; the counters say how often. \<open>None\<close> is an access outside a buffer or an
  array, or fuel that was used up.
\<close>

section \<open>Data\<close>

definition THE_MAGIC :: u16 where "THE_MAGIC = 0xBEEF"
definition CNP_RX_BURST_SIZE :: nat where "CNP_RX_BURST_SIZE = 16"
definition TYPE_PROBE_SEND :: u16 where "TYPE_PROBE_SEND = 1"
definition RTE_ETHER_TYPE_1588 :: u16 where "RTE_ETHER_TYPE_1588 = 0x88F7"
definition RTE_MBUF_F_TX_IEEE1588_TMST :: u64 where "RTE_MBUF_F_TX_IEEE1588_TMST = push_bit 51 1"
definition MAX_TX_TMST_WAIT_MICROSECS :: nat where "MAX_TX_TMST_WAIT_MICROSECS = 1000"

definition C_APP_RUNNING :: nat where "C_APP_RUNNING = 0"
definition C_TTY_IS_INITED :: nat where "C_TTY_IS_INITED = 1"
definition C_PROMISCUOUS :: nat where "C_PROMISCUOUS = 2"
definition C_HW_TIMESTAMP :: nat where "C_HW_TIMESTAMP = 3"
definition C_SW_TIMESTAMP :: nat where "C_SW_TIMESTAMP = 4"
definition C_DEBUG_MODE :: nat where "C_DEBUG_MODE = 5"
definition C_CLEAR_SCREEN :: nat where "C_CLEAR_SCREEN = 6"
definition C_RESET_STATS :: nat where "C_RESET_STATS = 7"

lemmas cnp_flag_defs = C_APP_RUNNING_def C_TTY_IS_INITED_def C_PROMISCUOUS_def C_HW_TIMESTAMP_def C_SW_TIMESTAMP_def
  C_DEBUG_MODE_def C_CLEAR_SCREEN_def C_RESET_STATS_def

record probe_payload_t =
  pp_magic :: u16
  pp_packet_type :: u16
  pp_sequence_number :: u32
  pp_T1 :: u64

record cnp_min_avg_max_t = min_avg_max_t +
  start_ns :: u64

record cnp_stats_t =
  cs_total_rx :: u64
  cs_total_tx :: u64
  cs_rx_pps :: u64
  cs_tx_pps :: u64
  cs_no_mbufs :: u64
  cs_many_rx :: u64
  cs_rx_frame_errors :: u64
  cs_rx_unknown_frames :: u64
  cs_rx_no_probe_frames :: u64
  cs_tx_frame_errors :: u64
  cs_tx_timestamp_errors :: u64
  cs_tx_timestamp_timeouts :: u64
  cs_rx_timestamp_errors :: u64
  cs_rx_no_timestamp :: u64
  cs_hw_rx_rtt_invalid :: u64
  cs_sw_rtt :: cnp_min_avg_max_t
  cs_hw_rtt :: cnp_min_avg_max_t
  cs_poll :: cnp_min_avg_max_t

record desc_lim =
  dl_min :: u16
  dl_max :: u16

record eth_dev_info =
  di_max_rx_queues :: u16
  di_rss_offloads :: u64
  di_max_lro :: u32
  di_max_vfs :: u16
  di_dev_flags :: u32
  di_rx_capa :: u64
  di_tx_capa :: u64
  di_rx_lim :: desc_lim
  di_tx_lim :: desc_lim

datatype mq_mode = MQ_RX_NONE | MQ_RX_RSS | MQ_RX_VMDQ_RSS

record cnp_eth_conf =
  pc_rss_hf :: u64
  pc_rx_mq_mode :: mq_mode
  pc_max_lro :: u32
  pc_lsc :: bool
  pc_rx_offloads :: u64
  pc_tx_offloads :: u64

record cnp_lport_t =
  cl_dev_info :: eth_dev_info
  cl_port_conf :: cnp_eth_conf
  cl_src_mac :: bytes
  cl_dst_mac :: bytes
  cl_rx_mp :: int
  cl_tx_mp :: int
  cl_tx_sequence :: u32
  cl_rx_sequence :: u32
  cl_pid :: u16
  cl_qid :: u16
  cl_sid :: u16
  cl_nb_rxd :: u16
  cl_nb_txd :: u16
  cl_rx_queues :: u16
  cl_tx_queues :: u16
  cl_link :: eth_link
  cl_stats :: port_stats_t
  cl_stats_prev :: port_stats_t
  cl_tx_timestamp :: u64
  cl_other :: cnp_stats_t

text \<open>A port before its set-up; all data of the program starts with zeros.\<close>

definition zero_timer :: cnp_min_avg_max_t where
  "zero_timer = \<lparr>min_ns = 0, max_ns = 0, avg_ns = 0, sum_ns = 0, count_ns = 0, start_ns = 0\<rparr>"

definition zero_cnp_stats :: cnp_stats_t where
  "zero_cnp_stats = \<lparr>cs_total_rx = 0, cs_total_tx = 0, cs_rx_pps = 0, cs_tx_pps = 0, cs_no_mbufs = 0, cs_many_rx = 0,
     cs_rx_frame_errors = 0, cs_rx_unknown_frames = 0, cs_rx_no_probe_frames = 0, cs_tx_frame_errors = 0, cs_tx_timestamp_errors = 0,
     cs_tx_timestamp_timeouts = 0, cs_rx_timestamp_errors = 0, cs_rx_no_timestamp = 0, cs_hw_rx_rtt_invalid = 0,
     cs_sw_rtt = zero_timer, cs_hw_rtt = zero_timer, cs_poll = zero_timer\<rparr>"

definition zero_dev_info :: eth_dev_info where
  "zero_dev_info = \<lparr>di_max_rx_queues = 0, di_rss_offloads = 0, di_max_lro = 0, di_max_vfs = 0, di_dev_flags = 0, di_rx_capa = 0,
     di_tx_capa = 0, di_rx_lim = \<lparr>dl_min = 0, dl_max = 0\<rparr>, di_tx_lim = \<lparr>dl_min = 0, dl_max = 0\<rparr>\<rparr>"

definition zero_cnp_conf :: cnp_eth_conf where
  "zero_cnp_conf = \<lparr>pc_rss_hf = 0, pc_rx_mq_mode = MQ_RX_NONE, pc_max_lro = 0, pc_lsc = False, pc_rx_offloads = 0, pc_tx_offloads = 0\<rparr>"

definition zero_port_stats :: port_stats_t where
  "zero_port_stats = \<lparr>ps_ipackets = 0, ps_opackets = 0, ps_ibytes = 0, ps_obytes = 0, ps_imissed = 0, ps_ierrors = 0, ps_oerrors = 0,
     ps_rx_nombuf = 0\<rparr>"

definition zero_cnp_lport :: cnp_lport_t where
  "zero_cnp_lport = \<lparr>cl_dev_info = zero_dev_info, cl_port_conf = zero_cnp_conf, cl_src_mac = replicate 6 0, cl_dst_mac = replicate 6 0,
     cl_rx_mp = 0, cl_tx_mp = 0, cl_tx_sequence = 0, cl_rx_sequence = 0, cl_pid = 0, cl_qid = 0, cl_sid = 0, cl_nb_rxd = 0,
     cl_nb_txd = 0, cl_rx_queues = 0, cl_tx_queues = 0,
     cl_link = \<lparr>link_speed = 0, link_duplex = 0, link_autoneg = 0, link_status = 0\<rparr>, cl_stats = zero_port_stats,
     cl_stats_prev = zero_port_stats, cl_tx_timestamp = 0, cl_other = zero_cnp_stats\<rparr>"

record cnp_info_t =
  ci_flags :: u32
  ci_pkt_length :: u16
  ci_lport_idx :: u16
  ci_client_mode :: bool
  ci_client_addr_str :: "string option"
  ci_dst_mac_str :: "string option"
  ci_tx_interval_ns :: u64

record cnp_env =
  ce_clock :: "nat \<Rightarrow> timespec option"
  ce_flag :: "nat \<Rightarrow> bool"
  ce_link :: "nat \<Rightarrow> eth_link option"
  ce_nic :: "nat \<Rightarrow> nat"
  ce_rx :: "nat \<Rightarrow> tmbuf list"
  ce_tx_ts :: "nat \<Rightarrow> timespec option"
  ce_rx_ts :: "nat \<Rightarrow> timespec option"

record cnp =
  c_info :: cnp_info_t
  c_lport :: cnp_lport_t
  c_pool :: "tmbuf list"
  c_wire :: "tmbuf list"
  c_freed :: "tmbuf list"
  c_ticks :: nat
  c_polls :: nat
  c_links :: nat
  c_tx_calls :: nat
  c_rx_calls :: nat
  c_tx_reads :: nat
  c_rx_reads :: nat

definition cnp_btst :: "nat \<Rightarrow> cnp \<Rightarrow> bool" where
  "cnp_btst n s = flag_tst n (ci_flags (c_info s))"

definition upd_cport :: "(cnp_lport_t \<Rightarrow> cnp_lport_t) \<Rightarrow> cnp \<Rightarrow> cnp" where
  "upd_cport f s = s\<lparr>c_lport := f (c_lport s)\<rparr>"

definition upd_cstats :: "(cnp_stats_t \<Rightarrow> cnp_stats_t) \<Rightarrow> cnp \<Rightarrow> cnp" where
  "upd_cstats f = upd_cport (\<lambda>l. l\<lparr>cl_other := f (cl_other l)\<rparr>)"

definition upd_cflags :: "(u32 \<Rightarrow> u32) \<Rightarrow> cnp \<Rightarrow> cnp" where
  "upd_cflags f s = s\<lparr>c_info := (c_info s)\<lparr>ci_flags := f (ci_flags (c_info s))\<rparr>\<rparr>"

definition cnp_free :: "tmbuf list \<Rightarrow> cnp \<Rightarrow> cnp" where
  "cnp_free ms s = s\<lparr>c_freed := c_freed s @ ms\<rparr>"

section \<open>Helpers\<close>

definition cnp_clock :: "cnp_env \<Rightarrow> nat \<Rightarrow> u64" where
  "cnp_clock E k = (case ce_clock E k of None \<Rightarrow> 0 | Some t \<Rightarrow> ts_to_ns t)"

definition cnp_clock_get_ns :: "cnp_env \<Rightarrow> cnp \<Rightarrow> u64 \<times> cnp" where
  "cnp_clock_get_ns E s = (cnp_clock E (c_ticks s), s\<lparr>c_ticks := c_ticks s + 1\<rparr>)"

definition start_stats_timer :: "u64 \<Rightarrow> cnp_min_avg_max_t \<Rightarrow> cnp_min_avg_max_t" where
  "start_stats_timer now_ns t = t\<lparr>start_ns := now_ns\<rparr>"

definition end_stats_timer :: "u64 \<Rightarrow> cnp_min_avg_max_t \<Rightarrow> cnp_min_avg_max_t" where
  "end_stats_timer now_ns t =
     (let delta = now_ns - start_ns t in
      if start_ns t = 0 then t
      else let t = t\<lparr>count_ns := count_ns t + 1, sum_ns := sum_ns t + delta\<rparr>;
               t = (if delta < min_ns t then t\<lparr>min_ns := delta\<rparr> else t)
           in if delta > max_ns t then t\<lparr>max_ns := delta\<rparr> else t)"

definition cnp_start_running :: "cnp \<Rightarrow> cnp" where "cnp_start_running = upd_cflags (flag_set C_APP_RUNNING)"
definition cnp_stop_running :: "cnp \<Rightarrow> cnp" where "cnp_stop_running = upd_cflags (flag_clr C_APP_RUNNING)"

definition cnp_is_running :: "cnp_env \<Rightarrow> cnp \<Rightarrow> bool \<times> cnp" where
  "cnp_is_running E s = (cnp_btst C_APP_RUNNING s \<and> ce_flag E (c_polls s), s\<lparr>c_polls := c_polls s + 1\<rparr>)"

definition cnp_is_link_up :: "cnp_env \<Rightarrow> cnp \<Rightarrow> bool \<times> cnp" where
  "cnp_is_link_up E s = (is_link_up_now (ce_link E (c_links s)), s\<lparr>c_links := c_links s + 1\<rparr>)"

definition cnp_offer :: "cnp_env \<Rightarrow> tmbuf list \<Rightarrow> cnp \<Rightarrow> nat \<times> cnp" where
  "cnp_offer E ms s =
     (let n = min (ce_nic E (c_tx_calls s)) (length ms) in
      (n, s\<lparr>c_tx_calls := c_tx_calls s + 1, c_wire := c_wire s @ take n ms\<rparr>))"

fun cnp_send_packets :: "cnp_env \<Rightarrow> nat \<Rightarrow> tmbuf list \<Rightarrow> cnp \<Rightarrow> cnp option" where
  "cnp_send_packets E 0 ms s = None"
| "cnp_send_packets E (Suc k) ms s =
     (case cnp_offer E ms s of (n, s) \<Rightarrow>
        if drop n ms = [] then Some s
        else case cnp_is_running E s of (r, s) \<Rightarrow>
          if r then cnp_send_packets E k (drop n ms) s else Some (cnp_free (drop n ms) s))"

section \<open>Transmission\<close>

definition write_probe :: "nat \<Rightarrow> probe_payload_t \<Rightarrow> bytes \<Rightarrow> bytes option" where
  "write_probe off p b = do {
     b \<leftarrow> store off (replicate 16 0) b;
     b \<leftarrow> wr16 off (pp_magic p) b;
     b \<leftarrow> wr16 (off + 2) (pp_packet_type p) b;
     b \<leftarrow> wr32 (off + 4) (pp_sequence_number p) b;
     wr64 (off + 8) (pp_T1 p) b
   }"

text \<open>The loop that waits for the timestamp: the microseconds waited and the last answer.\<close>

function poll_tx_loop :: "cnp_env \<Rightarrow> nat \<Rightarrow> cnp \<Rightarrow> nat \<times> timespec option \<times> cnp" where
  "poll_tx_loop E wait_us s =
     (let r = ce_tx_ts E (c_tx_reads s); s = s\<lparr>c_tx_reads := c_tx_reads s + 1\<rparr> in
      if r = None \<and> wait_us < MAX_TX_TMST_WAIT_MICROSECS then poll_tx_loop E (wait_us + 1) s else (wait_us, r, s))"
  by pat_completeness auto

termination by (relation "measure (\<lambda>(E, wait_us, s). MAX_TX_TMST_WAIT_MICROSECS - wait_us)") auto

declare poll_tx_loop.simps [simp del]

text \<open>The timestamp is stored on success only.\<close>

definition poll_tx_timestamp :: "cnp_env \<Rightarrow> cnp \<Rightarrow> int \<times> cnp" where
  "poll_tx_timestamp E s =
     (case poll_tx_loop E 0 s of (wait_us, r, s) \<Rightarrow>
        if wait_us \<ge> MAX_TX_TMST_WAIT_MICROSECS then (-1, s)
        else (0, upd_cport (\<lambda>l. l\<lparr>cl_tx_timestamp := ts_to_ns (case r of Some t \<Rightarrow> t | None \<Rightarrow> \<lparr>tv_sec = 0, tv_nsec = 0\<rparr>)\<rparr>) s))"

text \<open>The probe written behind the PTP header when software timestamps are on.\<close>

definition cnp_tx_probe :: "cnp_env \<Rightarrow> bytes \<Rightarrow> cnp \<Rightarrow> (bytes \<times> cnp) option" where
  "cnp_tx_probe E b s =
     (if cnp_btst C_SW_TIMESTAMP s
      then let sq = cl_tx_sequence (c_lport s); s = upd_cport (\<lambda>l. l\<lparr>cl_tx_sequence := cl_tx_sequence l + 1\<rparr>) s in
        case cnp_clock_get_ns E s of (t, s) \<Rightarrow> do {
          let s = upd_cstats (\<lambda>st. st\<lparr>cs_sw_rtt := start_stats_timer t (cs_sw_rtt st)\<rparr>) s;
          b \<leftarrow> write_probe 16 \<lparr>pp_magic = THE_MAGIC, pp_packet_type = TYPE_PROBE_SEND, pp_sequence_number = sq, pp_T1 = t\<rparr> b;
          Some (b, s)
        }
      else Some (b, s))"

text \<open>The timestamp of the device for the packet just sent.\<close>

definition cnp_tx_hw :: "cnp_env \<Rightarrow> cnp \<Rightarrow> cnp" where
  "cnp_tx_hw E s =
     (if cnp_btst C_HW_TIMESTAMP s
      then case cnp_clock_get_ns E (upd_cport (\<lambda>l. l\<lparr>cl_tx_timestamp := -1\<rparr>) s) of (t, s) \<Rightarrow>
        case poll_tx_timestamp E (upd_cstats (\<lambda>st. st\<lparr>cs_poll := start_stats_timer t (cs_poll st)\<rparr>) s) of (ret, s) \<Rightarrow>
          let s = (if ret \<noteq> 0 then s
                   else if cl_tx_timestamp (c_lport s) = -1
                   then upd_cstats (\<lambda>st. st\<lparr>cs_tx_timestamp_errors := cs_tx_timestamp_errors st + 1\<rparr>) s
                   else upd_cstats (\<lambda>st. st\<lparr>cs_hw_rtt := start_stats_timer (cl_tx_timestamp (c_lport s)) (cs_hw_rtt st)\<rparr>) s) in
          case cnp_clock_get_ns E s of (t, s) \<Rightarrow> upd_cstats (\<lambda>st. st\<lparr>cs_poll := end_stats_timer t (cs_poll st)\<rparr>) s
      else s)"

definition cnp_tx_frame :: "cnp_env \<Rightarrow> tmbuf \<Rightarrow> cnp \<Rightarrow> (tmbuf \<times> cnp) option" where
  "cnp_tx_frame E m s = do {
     b \<leftarrow> store 6 (cl_src_mac (c_lport s)) (m_data m);
     b \<leftarrow> store 0 (cl_dst_mac (c_lport s)) b;
     b \<leftarrow> wr16 12 RTE_ETHER_TYPE_1588 b;
     b \<leftarrow> store 14 [0, 2] b;
     (b, s) \<leftarrow> cnp_tx_probe E b s;
     Some (m\<lparr>m_data := b, m_pkt_len := ucast (ci_pkt_length (c_info s)), m_data_len := ci_pkt_length (c_info s),
             m_ol_flags := if cnp_btst C_HW_TIMESTAMP s then RTE_MBUF_F_TX_IEEE1588_TMST else 0\<rparr>, s)
   }"

definition cnp_tx_timestamping :: "cnp_env \<Rightarrow> nat \<Rightarrow> cnp \<Rightarrow> (int \<times> cnp) option" where
  "cnp_tx_timestamping E k s =
     (case c_pool s of
        [] \<Rightarrow> Some (-1, upd_cstats (\<lambda>st. st\<lparr>cs_no_mbufs := cs_no_mbufs st + 1\<rparr>) s)
      | m # ms \<Rightarrow> do {
          (m, s) \<leftarrow> cnp_tx_frame E m (s\<lparr>c_pool := ms\<rparr>);
          s \<leftarrow> cnp_send_packets E k [m] s;
          Some (0, cnp_tx_hw E s)
        })"

section \<open>Reception\<close>

datatype probe_verdict = Drop_Probe | Keep_Probe

text \<open>The probe in a packet, when software timestamps are on.\<close>

definition cnp_rx_sw :: "cnp_env \<Rightarrow> bytes \<Rightarrow> cnp \<Rightarrow> (probe_verdict \<times> cnp) option" where
  "cnp_rx_sw E b s =
     (if cnp_btst C_SW_TIMESTAMP s
      then do {
        mg \<leftarrow> rd16 16 b;
        if mg \<noteq> THE_MAGIC then Some (Drop_Probe, upd_cstats (\<lambda>st. st\<lparr>cs_rx_no_probe_frames := cs_rx_no_probe_frames st + 1\<rparr>) s)
        else do {
          sq \<leftarrow> rd32 20 b;
          if sq \<noteq> cl_rx_sequence (c_lport s) then Some (Drop_Probe, upd_cport (\<lambda>l. l\<lparr>cl_rx_sequence := sq\<rparr>) s)
          else do {
            _ \<leftarrow> load 24 8 b;
            let s = upd_cport (\<lambda>l. l\<lparr>cl_rx_sequence := cl_rx_sequence l + 1\<rparr>) s;
            (case cnp_clock_get_ns E s of (t, s) \<Rightarrow>
               Some (Keep_Probe, upd_cstats (\<lambda>st. st\<lparr>cs_sw_rtt := end_stats_timer t (cs_sw_rtt st)\<rparr>) s))
          }
        }
      }
      else Some (Keep_Probe, s))"

definition cnp_rx_hw :: "cnp_env \<Rightarrow> cnp \<Rightarrow> cnp" where
  "cnp_rx_hw E s =
     (if cnp_btst C_HW_TIMESTAMP s
      then let r = ce_rx_ts E (c_rx_reads s); s = s\<lparr>c_rx_reads := c_rx_reads s + 1\<rparr> in
        case r of
          None \<Rightarrow> upd_cstats (\<lambda>st. st\<lparr>cs_rx_no_timestamp := cs_rx_no_timestamp st + 1\<rparr>) s
        | Some t \<Rightarrow> upd_cstats (\<lambda>st. st\<lparr>cs_hw_rtt := end_stats_timer (ts_to_ns t) (cs_hw_rtt st)\<rparr>) s
      else s)"

definition cnp_swap_macs :: "bytes \<Rightarrow> bytes option" where
  "cnp_swap_macs b = do {
     tmp \<leftarrow> load 0 6 b;
     src \<leftarrow> load 6 6 b;
     b \<leftarrow> store 0 src b;
     store 6 tmp b
   }"

text \<open>One packet: the packet to return, or \<open>None\<close> when it was freed.\<close>

definition cnp_rx_packet :: "cnp_env \<Rightarrow> tmbuf \<Rightarrow> cnp \<Rightarrow> (tmbuf option \<times> cnp) option" where
  "cnp_rx_packet E m s =
     (let s = upd_cstats (\<lambda>st. st\<lparr>cs_total_rx := cs_total_rx st + 1\<rparr>) s in
      if m_pkt_len m < 14 + 2 + 16
      then Some (None, cnp_free [m] (upd_cstats (\<lambda>st. st\<lparr>cs_rx_frame_errors := cs_rx_frame_errors st + 1\<rparr>) s))
      else do {
        ty \<leftarrow> rd16 12 (m_data m);
        if ty \<noteq> RTE_ETHER_TYPE_1588
        then Some (None, cnp_free [m] (upd_cstats (\<lambda>st. st\<lparr>cs_rx_unknown_frames := cs_rx_unknown_frames st + 1\<rparr>) s))
        else do {
          (v, s) \<leftarrow> cnp_rx_sw E (m_data m) s;
          case v of
            Drop_Probe \<Rightarrow> Some (None, cnp_free [m] s)
          | Keep_Probe \<Rightarrow> do { b \<leftarrow> cnp_swap_macs (m_data m); Some (Some (m\<lparr>m_data := b\<rparr>), cnp_rx_hw E s) }
        }
      })"

fun cnp_rx_loop :: "cnp_env \<Rightarrow> tmbuf list \<Rightarrow> cnp \<Rightarrow> (tmbuf list \<times> cnp) option" where
  "cnp_rx_loop E [] s = Some ([], s)"
| "cnp_rx_loop E (m # ms) s = do {
     (r, s) \<leftarrow> cnp_rx_packet E m s;
     (tx, s) \<leftarrow> cnp_rx_loop E ms s;
     Some ((case r of None \<Rightarrow> tx | Some m \<Rightarrow> m # tx), s)
   }"

text \<open>The packets of a burst; more than one is counted.\<close>

definition cnp_rx_burst :: "cnp_env \<Rightarrow> cnp \<Rightarrow> tmbuf list \<times> cnp" where
  "cnp_rx_burst E s =
     (let ms = take CNP_RX_BURST_SIZE (ce_rx E (c_rx_calls s)); s = s\<lparr>c_rx_calls := c_rx_calls s + 1\<rparr> in
      (ms, if length ms > 1 then upd_cstats (\<lambda>st. st\<lparr>cs_many_rx := cs_many_rx st + 1\<rparr>) s else s))"

text \<open>The result of the function is always 0.\<close>

definition cnp_rx_timestamping :: "cnp_env \<Rightarrow> nat \<Rightarrow> cnp \<Rightarrow> (int \<times> cnp) option" where
  "cnp_rx_timestamping E k s =
     (case cnp_rx_burst E s of (ms, s) \<Rightarrow> do {
        (tx, s) \<leftarrow> cnp_rx_loop E ms s;
        s \<leftarrow> (if ci_client_mode (c_info s) then Some (cnp_free tx s) else cnp_send_packets E k tx s);
        Some (0, upd_cstats (\<lambda>st. st\<lparr>cs_total_tx := cs_total_tx st + of_nat (length tx)\<rparr>) s)
      })"

section \<open>The loop of the thread\<close>

fun cnp_wait_link :: "cnp_env \<Rightarrow> nat \<Rightarrow> cnp \<Rightarrow> (bool \<times> cnp) option" where
  "cnp_wait_link E 0 s = None"
| "cnp_wait_link E (Suc k) s =
     (case cnp_is_link_up E s of (up, s) \<Rightarrow>
        if up then Some (True, s)
        else case cnp_is_running E s of (r, s) \<Rightarrow> if r then cnp_wait_link E k s else Some (False, s))"

fun cnp_loop :: "cnp_env \<Rightarrow> nat \<Rightarrow> u64 \<Rightarrow> cnp \<Rightarrow> cnp option" where
  "cnp_loop E 0 tx_begin_ns s = None"
| "cnp_loop E (Suc k) tx_begin_ns s =
     (case cnp_is_running E s of (r, s) \<Rightarrow>
        if \<not> r then Some s
        else do {
          (ret, s) \<leftarrow> cnp_rx_timestamping E k s;
          if ret < 0 then Some s
          else case cnp_clock_get_ns E s of (curr_ns, s) \<Rightarrow>
            if curr_ns \<ge> tx_begin_ns
            then if ci_client_mode (c_info s)
                 then do {
                   (ret, s) \<leftarrow> cnp_tx_timestamping E k s;
                   if ret < 0 then Some s else cnp_loop E k (curr_ns + ci_tx_interval_ns (c_info s)) s
                 }
                 else cnp_loop E k (curr_ns + ci_tx_interval_ns (c_info s)) s
            else cnp_loop E k tx_begin_ns s
        })"

end
