(* ===== verification/Cnp_Props.thy ===== *)
theory Cnp_Props
  imports Cnp Burst_Sender
begin

text \<open>
  Properties of the probes: what happens to the mbufs of a burst, the wait for a timestamp,
  the time measured for a probe that is returned, and what a lost probe does.
\<close>

section \<open>Flags\<close>

text \<open>
  C35: an update of one flag while other threads update the flags ends as soon as one attempt
  is not disturbed, and none of the updates is lost: the other flags are as the other
  threads left them, the flag itself is set.
\<close>

theorem bset_loses_no_update:
  assumes "n < 32" and "j < fuel" and "changed others 0 (2 * j + 2) e = changed others 0 (2 * j + 1) e"
  shows "\<exists>e' i. i < fuel \<and> bset others fuel n e = Some e' \<and>
     (\<forall>m. flag_tst m e' \<longleftrightarrow> m = n \<or> flag_tst m (changed others 0 (2 * i + 2) e))"
proof -
  obtain i where "i < fuel" "cas_loop others (flag_set n) fuel 0 e = Some (flag_set n (changed others 0 (2 * i + 2) e))"
    using cas_loop_atomic [of fuel others 0 e "flag_set n"] assms(2,3) by blast
  then show ?thesis using assms(1) by (auto simp: bset_def flag_tst_bit flag_bits)
qed

lemma bset_loses_no_update_witness:
  "\<exists>e' i. i < 3 \<and> bset (\<lambda>k. if k = 1 then flag_set 7 else (\<lambda>e. e)) 3 0 6 = Some e' \<and>
     (\<forall>m. flag_tst m e' \<longleftrightarrow> m = 0 \<or> flag_tst m (changed (\<lambda>k. if k = 1 then flag_set 7 else (\<lambda>e. e)) 0 (2 * i + 2) 6))"
  by (rule bset_loses_no_update [of _ 1]) (simp_all add: numeral_eq_Suc)

section \<open>Sending\<close>

interpretation cnp_sender: burst_sender "cnp_send_packets E" "cnp_offer E" "cnp_is_running E" cnp_free
  c_wire c_freed c_polls "\<lambda>s. (c_info s, c_lport s, c_pool s, c_rx_calls s, c_ticks s)" "ce_flag E" for E
  by unfold_locales (auto simp: cnp_offer_def cnp_is_running_def cnp_free_def Let_def)

section \<open>The mbufs of a burst\<close>

text \<open>A buffer holds its packet.\<close>

definition frame_ok :: "tmbuf \<Rightarrow> bool" where
  "frame_ok m \<longleftrightarrow> unat (m_pkt_len m) \<le> length (m_data m)"

text \<open>What the reception of packets leaves alone.\<close>

definition rx_same :: "cnp \<Rightarrow> cnp \<Rightarrow> bool" where
  "rx_same s s' \<longleftrightarrow> c_info s' = c_info s \<and> c_wire s' = c_wire s \<and> c_pool s' = c_pool s \<and> c_polls s' = c_polls s \<and>
     c_tx_calls s' = c_tx_calls s \<and> c_rx_calls s' = c_rx_calls s"

lemma upd_c_same [simp]:
  "rx_same s (upd_cport f s)" "rx_same s (upd_cstats g s)" "c_freed (upd_cport f s) = c_freed s" "c_freed (upd_cstats g s) = c_freed s"
  by (simp_all add: rx_same_def upd_cport_def upd_cstats_def)

lemma rx_same_trans [trans]: "rx_same s t \<Longrightarrow> rx_same t u \<Longrightarrow> rx_same s u"
  by (simp add: rx_same_def)

lemma cnp_rx_sw_ok:
  assumes "32 \<le> length b"
  shows "\<exists>v s'. cnp_rx_sw E b s = Some (v, s') \<and> rx_same s s' \<and> c_freed s' = c_freed s \<and>
     cs_total_rx (cl_other (c_lport s')) = cs_total_rx (cl_other (c_lport s))"
  using assms
  by (auto simp: cnp_rx_sw_def rd16_def rd32_def load_def cnp_clock_get_ns_def rx_same_def upd_cport_def upd_cstats_def Let_def)

lemma cnp_rx_hw_ok: "rx_same s (cnp_rx_hw E s) \<and> c_freed (cnp_rx_hw E s) = c_freed s \<and>
   cs_total_rx (cl_other (c_lport (cnp_rx_hw E s))) = cs_total_rx (cl_other (c_lport s))"
  by (simp add: cnp_rx_hw_def rx_same_def upd_cport_def upd_cstats_def Let_def split: option.splits)

lemma cnp_swap_macs_ok:
  assumes "12 \<le> length b"
  shows "\<exists>b'. cnp_swap_macs b = Some b' \<and> length b' = length b \<and> load 0 6 b' = load 6 6 b \<and> load 6 6 b' = load 0 6 b \<and>
     (\<forall>i n. 12 \<le> i \<longrightarrow> load i n b' = load i n b)"
proof -
  obtain d where d: "load 0 6 b = Some d" "length d = 6" using load_ex [of 0 6 b] assms by auto
  obtain sa where sa: "load 6 6 b = Some sa" "length sa = 6" using load_ex [of 6 6 b] assms by auto
  obtain b1 where b1: "store 0 sa b = Some b1" "length b1 = length b" using store_ex [of 0 sa b] sa(2) assms by auto
  obtain b2 where b2: "store 6 d b1 = Some b2" "length b2 = length b" using store_ex [of 6 d b1] d(2) b1(2) assms by auto
  have "load 0 6 b2 = Some sa" using load_store [OF b2(1), of 0 6] load_store_same_n [OF b1(1) sa(2)] by simp
  moreover have "load 6 6 b2 = Some d" using load_store_same_n [OF b2(1) d(2)] .
  moreover have "load i n b2 = load i n b" if "12 \<le> i" for i n
    using load_store [OF b2(1), of i n] load_store [OF b1(1), of i n] that d(2) sa(2) by simp
  ultimately show ?thesis using d sa b1 b2 by (simp add: cnp_swap_macs_def)
qed

lemma cnp_rx_packet_ok:
  assumes "frame_ok m"
  shows "\<exists>r s'. cnp_rx_packet E m s = Some (r, s') \<and> rx_same s s' \<and>
     cs_total_rx (cl_other (c_lport s')) = cs_total_rx (cl_other (c_lport s)) + 1 \<and>
     (case r of None \<Rightarrow> c_freed s' = c_freed s @ [m] | Some m' \<Rightarrow> c_freed s' = c_freed s \<and> m_id m' = m_id m)"
proof (cases "m_pkt_len m < 32")
  case True
  then show ?thesis by (simp add: cnp_rx_packet_def Let_def rx_same_def cnp_free_def upd_cstats_def upd_cport_def)
next
  case False
  then have l: "32 \<le> length (m_data m)" using assms by (simp add: frame_ok_def word_less_nat_alt)
  then obtain ty where ty: "rd16 12 (m_data m) = Some ty" by (auto simp: rd16_def load_def)
  let ?s = "upd_cstats (\<lambda>st. st\<lparr>cs_total_rx := cs_total_rx st + 1\<rparr>) s"
  have s: "rx_same s ?s" "c_freed ?s = c_freed s" "cs_total_rx (cl_other (c_lport ?s)) = cs_total_rx (cl_other (c_lport s)) + 1"
    by simp_all (simp add: upd_cstats_def upd_cport_def)
  obtain v t where t: "cnp_rx_sw E (m_data m) ?s = Some (v, t)" "rx_same ?s t" "c_freed t = c_freed ?s"
    "cs_total_rx (cl_other (c_lport t)) = cs_total_rx (cl_other (c_lport ?s))"
    using cnp_rx_sw_ok [OF l, of E ?s] by blast
  obtain b where b: "cnp_swap_macs (m_data m) = Some b" using cnp_swap_macs_ok [of "m_data m"] l by auto
  note st = rx_same_trans [OF s(1) t(2)]
  consider "ty \<noteq> RTE_ETHER_TYPE_1588" | "ty = RTE_ETHER_TYPE_1588" "v = Drop_Probe" | "ty = RTE_ETHER_TYPE_1588" "v = Keep_Probe"
    by (cases v) auto
  then show ?thesis
  proof cases
    case 1
    then show ?thesis using False ty
      by (simp add: cnp_rx_packet_def Let_def rx_same_def cnp_free_def upd_cstats_def upd_cport_def)
  next
    case 2
    then have "cnp_rx_packet E m s = Some (None, cnp_free [m] t)" using False ty t(1) by (simp add: cnp_rx_packet_def Let_def)
    then show ?thesis using st s t by (simp add: rx_same_def cnp_free_def)
  next
    case 3
    then have "cnp_rx_packet E m s = Some (Some (m\<lparr>m_data := b\<rparr>), cnp_rx_hw E t)"
      using False ty t(1) b by (simp add: cnp_rx_packet_def Let_def)
    then show ?thesis using rx_same_trans [OF st] cnp_rx_hw_ok [of t E] s t by simp
  qed
qed

lemma cnp_rx_loop_ok:
  assumes "\<forall>m \<in> set ms. frame_ok m"
  shows "\<exists>tx s' fr. cnp_rx_loop E ms s = Some (tx, s') \<and> rx_same s s' \<and> c_freed s' = c_freed s @ fr \<and>
     cs_total_rx (cl_other (c_lport s')) = cs_total_rx (cl_other (c_lport s)) + of_nat (length ms) \<and>
     mset (map m_id tx) + mset (map m_id fr) = mset (map m_id ms)"
  using assms
proof (induction ms arbitrary: s)
  case (Cons m ms)
  then obtain r s1 where r: "cnp_rx_packet E m s = Some (r, s1)" "rx_same s s1"
    "cs_total_rx (cl_other (c_lport s1)) = cs_total_rx (cl_other (c_lport s)) + 1"
    "case r of None \<Rightarrow> c_freed s1 = c_freed s @ [m] | Some m' \<Rightarrow> c_freed s1 = c_freed s \<and> m_id m' = m_id m"
    using cnp_rx_packet_ok [of m E s] by auto
  from Cons obtain tx s' fr where l: "cnp_rx_loop E ms s1 = Some (tx, s')" "rx_same s1 s'" "c_freed s' = c_freed s1 @ fr"
    "cs_total_rx (cl_other (c_lport s')) = cs_total_rx (cl_other (c_lport s1)) + of_nat (length ms)"
    "mset (map m_id tx) + mset (map m_id fr) = mset (map m_id ms)" by auto metis
  note sm = rx_same_trans [OF r(2) l(2)]
  show ?case
  proof (cases r)
    case None
    then show ?thesis using r l sm by (intro exI [of _ tx] exI [of _ s'] exI [of _ "m # fr"]) simp
  next
    case (Some m')
    then show ?thesis using r l sm by (intro exI [of _ "m' # tx"] exI [of _ s'] exI [of _ fr]) simp
  qed
qed (simp add: rx_same_def)

text \<open>
  C32: reception ends once the program is told to stop, and each mbuf received is afterwards
  exactly once either with the device or freed, whatever the packets hold; a client puts
  none of them on the wire. All packets are counted.
\<close>

theorem cnp_rx_conserves:
  fixes E :: cnp_env and s :: cnp
  defines "ms \<equiv> take CNP_RX_BURST_SIZE (ce_rx E (c_rx_calls s))"
  assumes "\<forall>m \<in> set ms. frame_ok m" and "\<not> ce_flag E K" and "c_polls s \<le> K" and "K - c_polls s < k"
  shows "\<exists>s' sent fr. cnp_rx_timestamping E k s = Some (0, s') \<and> c_wire s' = c_wire s @ sent \<and> c_freed s' = c_freed s @ fr \<and>
     mset (map m_id sent) + mset (map m_id fr) = mset (map m_id ms) \<and> c_pool s' = c_pool s \<and>
     (ci_client_mode (c_info s) \<longrightarrow> sent = []) \<and>
     cs_total_rx (cl_other (c_lport s')) = cs_total_rx (cl_other (c_lport s)) + of_nat (length ms)"
proof -
  obtain t where t: "cnp_rx_burst E s = (ms, t)" "c_info t = c_info s" "c_wire t = c_wire s" "c_freed t = c_freed s"
    "c_pool t = c_pool s" "c_polls t = c_polls s" "cs_total_rx (cl_other (c_lport t)) = cs_total_rx (cl_other (c_lport s))"
    by (simp add: cnp_rx_burst_def ms_def Let_def upd_cstats_def upd_cport_def)
  obtain tx u fr where u: "cnp_rx_loop E ms t = Some (tx, u)" "rx_same t u" "c_freed u = c_freed t @ fr"
    "cs_total_rx (cl_other (c_lport u)) = cs_total_rx (cl_other (c_lport t)) + of_nat (length ms)"
    "mset (map m_id tx) + mset (map m_id fr) = mset (map m_id ms)"
    using cnp_rx_loop_ok [OF assms(2)] by blast
  let ?f = "upd_cstats (\<lambda>st. st\<lparr>cs_total_tx := cs_total_tx st + of_nat (length tx)\<rparr>)"
  have f: "c_wire (?f x) = c_wire x" "c_freed (?f x) = c_freed x" "c_pool (?f x) = c_pool x"
    "cs_total_rx (cl_other (c_lport (?f x))) = cs_total_rx (cl_other (c_lport x))" for x
    by (simp_all add: upd_cstats_def upd_cport_def)
  show ?thesis
  proof (cases "ci_client_mode (c_info s)")
    case True
    then have "cnp_rx_timestamping E k s = Some (0, ?f (cnp_free tx u))"
      using u(1,2) t(1,2) by (simp add: cnp_rx_timestamping_def rx_same_def)
    then show ?thesis using t u f
      by (intro exI [of _ "?f (cnp_free tx u)"] exI [of _ "[]"] exI [of _ "fr @ tx"]) (auto simp: cnp_free_def rx_same_def union_commute)
  next
    case False
    have "c_polls u \<le> K" "K - c_polls u < k" using u(2) t(6) assms(4,5) by (simp_all add: rx_same_def)
    from cnp_sender.send_split [OF assms(3) this, of tx] obtain v n where v: "cnp_send_packets E k tx u = Some v"
      "c_wire v = c_wire u @ take n tx" "c_freed v = c_freed u @ drop n tx" "c_lport v = c_lport u" "c_pool v = c_pool u" by auto
    have "cnp_rx_timestamping E k s = Some (0, ?f v)"
      using False u(1,2) t(1,2) v(1) by (simp add: cnp_rx_timestamping_def rx_same_def)
    moreover have "mset (map m_id (take n tx)) + mset (map m_id (fr @ drop n tx)) = mset (map m_id ms)"
      unfolding u(5) [symmetric] by (subst (3) append_take_drop_id [of n tx, symmetric]) (simp del: append_take_drop_id add: ac_simps)
    ultimately show ?thesis using False t u v f
      by (intro exI [of _ "?f v"] exI [of _ "take n tx"] exI [of _ "fr @ drop n tx"]) (auto simp: rx_same_def)
  qed
qed

section \<open>The wait for a timestamp\<close>

lemma poll_tx_loop_spec:
  assumes "poll_tx_loop E w s = (w', r, s')" and "w \<le> MAX_TX_TMST_WAIT_MICROSECS"
  shows "w \<le> w' \<and> w' \<le> MAX_TX_TMST_WAIT_MICROSECS \<and> s' = s\<lparr>c_tx_reads := c_tx_reads s + (w' - w) + 1\<rparr> \<and>
     r = ce_tx_ts E (c_tx_reads s + (w' - w)) \<and> (\<forall>j < w' - w. ce_tx_ts E (c_tx_reads s + j) = None) \<and>
     (r = None \<longrightarrow> w' = MAX_TX_TMST_WAIT_MICROSECS)"
  using assms
proof (induction E w s rule: poll_tx_loop.induct)
  case (1 E w s)
  let ?r = "ce_tx_ts E (c_tx_reads s)" and ?s = "s\<lparr>c_tx_reads := c_tx_reads s + 1\<rparr>"
  show ?case
  proof (cases "?r = None \<and> w < MAX_TX_TMST_WAIT_MICROSECS")
    case True
    then have l: "poll_tx_loop E (w + 1) ?s = (w', r, s')" using "1.prems"(1) by (simp add: poll_tx_loop.simps [of E w s] Let_def)
    have le: "w + 1 \<le> MAX_TX_TMST_WAIT_MICROSECS" using True by simp
    note ih = "1.IH" [OF refl refl True l le]
    from ih have "w + 1 \<le> w'" by blast
    then obtain i where i: "w' = w + 1 + i" using le_Suc_ex by blast
    then have d: "w' - w = Suc i" "w' - (w + 1) = i" by simp_all
    note ih' = ih [unfolded d]
    have "ce_tx_ts E (c_tx_reads s + j) = None" if "j < w' - w" for j
    proof (cases j)
      case (Suc i')
      then have "i' < i" using that d by simp
      then have "ce_tx_ts E (c_tx_reads ?s + i') = None" using ih' by blast
      then show ?thesis using Suc by simp
    qed (use True in simp)
    moreover have "s' = s\<lparr>c_tx_reads := c_tx_reads s + Suc i + 1\<rparr>" "r = ce_tx_ts E (c_tx_reads s + Suc i)"
      using ih' by (elim conjE, simp)+
    moreover from ih' have "w' \<le> MAX_TX_TMST_WAIT_MICROSECS" and "r = None \<longrightarrow> w' = MAX_TX_TMST_WAIT_MICROSECS" by blast+
    moreover have "w \<le> w'" using i by simp
    ultimately show ?thesis unfolding d by (intro conjI allI impI) (assumption | simp only:)+
  next
    case False
    then show ?thesis using "1.prems" by (auto simp: poll_tx_loop.simps [of E w s] Let_def split: if_splits)
  qed
qed

text \<open>
  C34: the wait for the timestamp of a packet ends after at most 1001 looks at the device. It
  succeeds exactly when one of the first 1000 looks finds a timestamp, and then gives the
  first one found; else the port is left as it was.
\<close>

theorem poll_tx_timestamp_bounded:
  fixes E :: cnp_env and s :: cnp
  defines "found \<equiv> \<lambda>j. j < 1000 \<and> ce_tx_ts E (c_tx_reads s + j) \<noteq> None"
  shows "\<exists>s'. c_tx_reads s' \<le> c_tx_reads s + 1001 \<and> poll_tx_timestamp E s = (if \<exists>j. found j then 0 else -1, s') \<and>
     c_lport s' = (if \<exists>j. found j
                   then (c_lport s)\<lparr>cl_tx_timestamp := ts_to_ns (the (ce_tx_ts E (c_tx_reads s + (LEAST j. found j))))\<rparr>
                   else c_lport s)"
proof -
  obtain w r t where l: "poll_tx_loop E 0 s = (w, r, t)" by (cases "poll_tx_loop E 0 s") auto
  note p = poll_tx_loop_spec [OF l le0, unfolded diff_zero]
  from p have t: "t = s\<lparr>c_tx_reads := c_tx_reads s + w + 1\<rparr>" and r: "r = ce_tx_ts E (c_tx_reads s + w)"
    and none: "\<forall>j<w. ce_tx_ts E (c_tx_reads s + j) = None" and last: "r = None \<longrightarrow> w = MAX_TX_TMST_WAIT_MICROSECS"
    and "w \<le> MAX_TX_TMST_WAIT_MICROSECS" by blast+
  from this(5) have w: "w \<le> 1000" by (simp add: MAX_TX_TMST_WAIT_MICROSECS_def)
  show ?thesis
  proof (cases "w = 1000")
    case True
    then have "\<not> (\<exists>j. found j)" using none by (auto simp: found_def)
    then show ?thesis using True t l by (simp add: poll_tx_timestamp_def MAX_TX_TMST_WAIT_MICROSECS_def)
  next
    case False
    then obtain ts where ts: "r = Some ts" using last by (cases r) (auto simp: MAX_TX_TMST_WAIT_MICROSECS_def)
    have v: "ce_tx_ts E (c_tx_reads s + w) = Some ts" using r ts by simp
    have f: "found w" using False w v by (simp add: found_def)
    have "(LEAST j. found j) = w"
      by (rule Least_equality, rule f) (metis found_def leI none)
    moreover have "\<exists>j. found j" using f by blast
    moreover have "\<not> w \<ge> MAX_TX_TMST_WAIT_MICROSECS" using False w by (simp add: MAX_TX_TMST_WAIT_MICROSECS_def)
    ultimately show ?thesis using w t l ts v by (simp add: poll_tx_timestamp_def upd_cport_def)
  qed
qed

section \<open>A probe and its return\<close>

text \<open>A probe with number \<open>sq\<close>, as it is received.\<close>

definition is_probe :: "u32 \<Rightarrow> tmbuf \<Rightarrow> bool" where
  "is_probe sq m \<longleftrightarrow> 32 \<le> unat (m_pkt_len m) \<and> 32 \<le> length (m_data m) \<and> rd16 12 (m_data m) = Some RTE_ETHER_TYPE_1588 \<and>
     rd16 16 (m_data m) = Some THE_MAGIC \<and> rd32 20 (m_data m) = Some sq"

lemma is_probe_swapped:
  assumes "is_probe sq m"
  shows "\<exists>b. cnp_swap_macs (m_data m) = Some b \<and> is_probe sq (m\<lparr>m_data := b\<rparr>)"
proof -
  have "12 \<le> length (m_data m)" using assms by (simp add: is_probe_def)
  then obtain b where b: "cnp_swap_macs (m_data m) = Some b" "length b = length (m_data m)"
    "\<forall>i n. 12 \<le> i \<longrightarrow> load i n b = load i n (m_data m)" using cnp_swap_macs_ok [of "m_data m"] by blast
  then show ?thesis using assms by (simp add: is_probe_def rd16_def rd32_def)
qed

lemma cnp_rx_expected:
  assumes "is_probe (cl_rx_sequence (c_lport s)) m" and "cnp_btst C_SW_TIMESTAMP s" and "cnp_swap_macs (m_data m) = Some b"
  shows "\<exists>s'. cnp_rx_packet E m s = Some (Some (m\<lparr>m_data := b\<rparr>), s') \<and> rx_same s s' \<and> c_freed s' = c_freed s \<and>
     cl_rx_sequence (c_lport s') = cl_rx_sequence (c_lport s) + 1 \<and> cl_tx_sequence (c_lport s') = cl_tx_sequence (c_lport s) \<and>
     cs_sw_rtt (cl_other (c_lport s')) = end_stats_timer (cnp_clock E (c_ticks s)) (cs_sw_rtt (cl_other (c_lport s)))"
proof -
  obtain v where "load 24 8 (m_data m) = Some v" using assms(1) by (auto simp: is_probe_def load_def)
  then show ?thesis using assms
    by (auto simp: cnp_rx_packet_def cnp_rx_sw_def cnp_rx_hw_def is_probe_def word_less_nat_alt upd_cstats_def upd_cport_def
        cnp_clock_get_ns_def cnp_btst_def rx_same_def Let_def split: option.splits)
qed

lemma cnp_rx_unexpected:
  assumes "is_probe sq m" and "sq \<noteq> cl_rx_sequence (c_lport s)" and "cnp_btst C_SW_TIMESTAMP s"
  shows "\<exists>s'. cnp_rx_packet E m s = Some (None, s') \<and> rx_same s s' \<and> c_freed s' = c_freed s @ [m] \<and>
     cl_rx_sequence (c_lport s') = sq \<and> cs_sw_rtt (cl_other (c_lport s')) = cs_sw_rtt (cl_other (c_lport s))"
  using assms
  by (auto simp: cnp_rx_packet_def cnp_rx_sw_def is_probe_def word_less_nat_alt upd_cstats_def upd_cport_def cnp_free_def
      cnp_btst_def rx_same_def Let_def)

text \<open>The frame sent in state \<open>s\<close> and its return.\<close>

definition sent_probe :: "cnp_env \<Rightarrow> cnp \<Rightarrow> tmbuf" where
  "sent_probe E s = (case cnp_tx_frame E (hd (c_pool s)) (s\<lparr>c_pool := tl (c_pool s)\<rparr>) of Some (m, _) \<Rightarrow> m | None \<Rightarrow> hd (c_pool s))"

definition returned :: "tmbuf \<Rightarrow> tmbuf" where
  "returned m = (case cnp_swap_macs (m_data m) of Some b \<Rightarrow> m\<lparr>m_data := b\<rparr> | None \<Rightarrow> m)"

definition probe_ready :: "cnp \<Rightarrow> bool" where
  "probe_ready s \<longleftrightarrow> c_pool s \<noteq> [] \<and> 32 \<le> length (m_data (hd (c_pool s))) \<and> length (cl_src_mac (c_lport s)) = 6 \<and>
     length (cl_dst_mac (c_lport s)) = 6 \<and> 32 \<le> unat (ci_pkt_length (c_info s)) \<and> cnp_btst C_SW_TIMESTAMP s"

lemma unat_ucast_pkt_len: "unat (ucast (x :: u16) :: u32) = unat x"
  using unsigned_less [of x, where ?'a = nat] by (simp add: unsigned_ucast_eq take_bit_nat_eq_self)

lemma sent_probe_ok:
  assumes "probe_ready s"
  shows "cnp_tx_frame E (hd (c_pool s)) (s\<lparr>c_pool := tl (c_pool s)\<rparr>) =
     Some (sent_probe E s, s\<lparr>c_pool := tl (c_pool s), c_ticks := c_ticks s + 1,
       c_lport := (c_lport s)\<lparr>cl_tx_sequence := cl_tx_sequence (c_lport s) + 1,
         cl_other := (cl_other (c_lport s))\<lparr>cs_sw_rtt := start_stats_timer (cnp_clock E (c_ticks s)) (cs_sw_rtt (cl_other (c_lport s)))\<rparr>\<rparr>\<rparr>)"
    and "is_probe (cl_tx_sequence (c_lport s)) (sent_probe E s)" and "m_id (sent_probe E s) = m_id (hd (c_pool s))"
  using assms
  by (simp_all add: sent_probe_def is_probe_def probe_ready_def cnp_tx_frame_def cnp_tx_probe_def cnp_btst_def cnp_clock_get_ns_def
      upd_cport_def upd_cstats_def write_probe_def wr16_def wr32_def wr64_def rd16_def rd32_def buf_simps unat_ucast_pkt_len Let_def)

lemma poll_tx_same:
  assumes "poll_tx_timestamp E s = (r, s')"
  obtains n x where "s' = s\<lparr>c_tx_reads := n, c_lport := (c_lport s)\<lparr>cl_tx_timestamp := x\<rparr>\<rparr>"
proof -
  obtain w t u where l: "poll_tx_loop E 0 s = (w, t, u)" by (cases "poll_tx_loop E 0 s") auto
  obtain n where u: "u = s\<lparr>c_tx_reads := n\<rparr>" using poll_tx_loop_spec [OF l le0] by blast
  show thesis
  proof (cases "w \<ge> MAX_TX_TMST_WAIT_MICROSECS")
    case True
    then have "s' = s\<lparr>c_tx_reads := n, c_lport := (c_lport s)\<lparr>cl_tx_timestamp := cl_tx_timestamp (c_lport s)\<rparr>\<rparr>"
      using assms l u by (auto simp: poll_tx_timestamp_def)
    then show thesis by (rule that)
  next
    case False
    then have "s' = s\<lparr>c_tx_reads := n, c_lport := (c_lport s)\<lparr>cl_tx_timestamp :=
        ts_to_ns (case t of Some t \<Rightarrow> t | None \<Rightarrow> \<lparr>tv_sec = 0, tv_nsec = 0\<rparr>)\<rparr>\<rparr>"
      using assms l u by (auto simp: poll_tx_timestamp_def upd_cport_def)
    then show thesis by (rule that)
  qed
qed

lemma cnp_tx_hw_same:
  fixes E :: cnp_env and s :: cnp
  defines "s' \<equiv> cnp_tx_hw E s"
  shows "rx_same s s' \<and> c_freed s' = c_freed s \<and> cl_tx_sequence (c_lport s') = cl_tx_sequence (c_lport s) \<and>
     cl_rx_sequence (c_lport s') = cl_rx_sequence (c_lport s) \<and> cs_sw_rtt (cl_other (c_lport s')) = cs_sw_rtt (cl_other (c_lport s))"
proof (cases "cnp_btst C_HW_TIMESTAMP s")
  case True
  let ?t = "upd_cstats (\<lambda>st. st\<lparr>cs_poll := start_stats_timer (cnp_clock E (c_ticks s)) (cs_poll st)\<rparr>)
    ((upd_cport (\<lambda>l. l\<lparr>cl_tx_timestamp := -1\<rparr>) s)\<lparr>c_ticks := c_ticks s + 1\<rparr>)"
  obtain r u where u: "poll_tx_timestamp E ?t = (r, u)" by (cases "poll_tx_timestamp E ?t")
  then obtain n x where "u = ?t\<lparr>c_tx_reads := n, c_lport := (c_lport ?t)\<lparr>cl_tx_timestamp := x\<rparr>\<rparr>" by (rule poll_tx_same)
  then show ?thesis using True u unfolding s'_def
    by (simp add: cnp_tx_hw_def cnp_clock_get_ns_def upd_cstats_def upd_cport_def rx_same_def Let_def)
qed (simp add: s'_def cnp_tx_hw_def rx_same_def)

lemma cnp_tx_sends_probe:
  assumes "probe_ready s" and "0 < ce_nic E (c_tx_calls s)"
  shows "\<exists>s1. cnp_tx_timestamping E (Suc k) s = Some (0, s1) \<and> c_wire s1 = c_wire s @ [sent_probe E s] \<and> c_freed s1 = c_freed s \<and>
     c_info s1 = c_info s \<and> c_rx_calls s1 = c_rx_calls s \<and> cl_tx_sequence (c_lport s1) = cl_tx_sequence (c_lport s) + 1 \<and>
     cl_rx_sequence (c_lport s1) = cl_rx_sequence (c_lport s) \<and>
     cs_sw_rtt (cl_other (c_lport s1)) = start_stats_timer (cnp_clock E (c_ticks s)) (cs_sw_rtt (cl_other (c_lport s)))"
proof -
  obtain t where t: "cnp_tx_frame E (hd (c_pool s)) (s\<lparr>c_pool := tl (c_pool s)\<rparr>) = Some (sent_probe E s, t)" "c_wire t = c_wire s"
    "c_freed t = c_freed s" "c_info t = c_info s" "c_rx_calls t = c_rx_calls s" "c_tx_calls t = c_tx_calls s"
    "cl_tx_sequence (c_lport t) = cl_tx_sequence (c_lport s) + 1" "cl_rx_sequence (c_lport t) = cl_rx_sequence (c_lport s)"
    "cs_sw_rtt (cl_other (c_lport t)) = start_stats_timer (cnp_clock E (c_ticks s)) (cs_sw_rtt (cl_other (c_lport s)))"
    using sent_probe_ok(1) [OF assms(1), of E] by simp
  let ?u = "t\<lparr>c_tx_calls := c_tx_calls t + 1, c_wire := c_wire t @ [sent_probe E s]\<rparr>"
  have "min (ce_nic E (c_tx_calls s)) 1 = 1" using assms(2) by simp
  then have o: "cnp_offer E [sent_probe E s] t = (1, ?u)" using t(6) by (simp add: cnp_offer_def)
  have sp: "cnp_send_packets E (Suc k) [sent_probe E s] t = Some ?u" by (rule cnp_sender.send_whole [OF o]) simp
  have p: "c_pool s = hd (c_pool s) # tl (c_pool s)" using assms(1) by (simp add: probe_ready_def)
  have "cnp_tx_timestamping E (Suc k) s = Some (0, cnp_tx_hw E ?u)"
    unfolding cnp_tx_timestamping_def by (subst p) (use t(1) sp in \<open>simp del: cnp_send_packets.simps\<close>)
  then show ?thesis using cnp_tx_hw_same [of ?u E] t by (simp add: rx_same_def)
qed

lemma cnp_rx_one_probe:
  assumes "ce_rx E (c_rx_calls s) = [m]" and "is_probe (cl_rx_sequence (c_lport s)) m" and "cnp_btst C_SW_TIMESTAMP s"
    and "ci_client_mode (c_info s) \<or> 0 < ce_nic E (c_tx_calls s)"
  shows "\<exists>s'. cnp_rx_timestamping E (Suc k) s = Some (0, s') \<and>
     c_freed s' = c_freed s @ (if ci_client_mode (c_info s) then [returned m] else []) \<and>
     c_wire s' = c_wire s @ (if ci_client_mode (c_info s) then [] else [returned m]) \<and>
     cl_rx_sequence (c_lport s') = cl_rx_sequence (c_lport s) + 1 \<and> cl_tx_sequence (c_lport s') = cl_tx_sequence (c_lport s) \<and>
     cs_sw_rtt (cl_other (c_lport s')) = end_stats_timer (cnp_clock E (c_ticks s)) (cs_sw_rtt (cl_other (c_lport s)))"
proof -
  let ?s = "s\<lparr>c_rx_calls := c_rx_calls s + 1\<rparr>"
  obtain b where b: "cnp_swap_macs (m_data m) = Some b" using is_probe_swapped [OF assms(2)] by blast
  then have r: "returned m = m\<lparr>m_data := b\<rparr>" by (simp add: returned_def)
  have i: "is_probe (cl_rx_sequence (c_lport ?s)) m" "cnp_btst C_SW_TIMESTAMP ?s" using assms(2,3) by (simp_all add: cnp_btst_def)
  obtain t where t: "cnp_rx_packet E m ?s = Some (Some (returned m), t)" "rx_same ?s t" "c_freed t = c_freed ?s"
    "cl_rx_sequence (c_lport t) = cl_rx_sequence (c_lport s) + 1" "cl_tx_sequence (c_lport t) = cl_tx_sequence (c_lport s)"
    "cs_sw_rtt (cl_other (c_lport t)) = end_stats_timer (cnp_clock E (c_ticks s)) (cs_sw_rtt (cl_other (c_lport s)))"
    using cnp_rx_expected [OF i b, of E] unfolding r by auto
  have bu: "cnp_rx_burst E s = ([m], ?s)" using assms(1) by (simp add: cnp_rx_burst_def CNP_RX_BURST_SIZE_def)
  have l: "cnp_rx_loop E [m] ?s = Some ([returned m], t)" using t(1) by simp
  show ?thesis
  proof (cases "ci_client_mode (c_info s)")
    case True
    then show ?thesis using bu l t
      by (simp add: cnp_rx_timestamping_def rx_same_def cnp_free_def upd_cstats_def upd_cport_def del: cnp_rx_loop.simps)
  next
    case False
    let ?u = "t\<lparr>c_tx_calls := c_tx_calls t + 1, c_wire := c_wire t @ [returned m]\<rparr>"
    have "min (ce_nic E (c_tx_calls s)) 1 = 1" using assms(4) False by simp
    then have o: "cnp_offer E [returned m] t = (1, ?u)" using t(2) by (simp add: cnp_offer_def rx_same_def)
    have sp: "cnp_send_packets E (Suc k) [returned m] t = Some ?u" by (rule cnp_sender.send_whole [OF o]) simp
    then show ?thesis using False bu l t
      by (simp add: cnp_rx_timestamping_def rx_same_def upd_cstats_def upd_cport_def del: cnp_rx_loop.simps cnp_send_packets.simps)
  qed
qed


section \<open>A lost probe\<close>

fun cnp_rx_rounds :: "cnp_env \<Rightarrow> nat \<Rightarrow> nat \<Rightarrow> cnp \<Rightarrow> cnp option" where
  "cnp_rx_rounds E k 0 s = Some s"
| "cnp_rx_rounds E k (Suc n) s = do { (_, s) \<leftarrow> cnp_rx_timestamping E k s; cnp_rx_rounds E k n s }"

text \<open>The packets of the next \<open>n\<close> bursts, and probes numbered without a gap.\<close>

definition next_packets :: "cnp_env \<Rightarrow> nat \<Rightarrow> cnp \<Rightarrow> tmbuf list" where
  "next_packets E n s = concat (map (\<lambda>i. take CNP_RX_BURST_SIZE (ce_rx E (c_rx_calls s + i))) [0..<n])"

fun probes_from :: "u32 \<Rightarrow> tmbuf list \<Rightarrow> bool" where
  "probes_from a [] = True"
| "probes_from a (m # ms) = (is_probe a m \<and> probes_from (a + 1) ms)"

lemma probes_from_append: "probes_from a (xs @ ys) \<longleftrightarrow> probes_from a xs \<and> probes_from (a + of_nat (length xs)) ys"
  by (induction xs arbitrary: a) (auto simp: ac_simps)

lemma cnp_rx_loop_late:
  assumes "probes_from a ms" and "cl_rx_sequence (c_lport s) \<noteq> a" and "cnp_btst C_SW_TIMESTAMP s"
  shows "\<exists>s'. cnp_rx_loop E ms s = Some ([], s') \<and> rx_same s s' \<and> c_freed s' = c_freed s @ ms \<and>
     cl_rx_sequence (c_lport s') \<noteq> a + of_nat (length ms) \<and> cs_sw_rtt (cl_other (c_lport s')) = cs_sw_rtt (cl_other (c_lport s))"
  using assms
proof (induction ms arbitrary: a s)
  case (Cons m ms)
  then have "is_probe a m" "a \<noteq> cl_rx_sequence (c_lport s)" by auto
  from cnp_rx_unexpected [OF this Cons.prems(3), of E] obtain t where t: "cnp_rx_packet E m s = Some (None, t)" "rx_same s t"
    "c_freed t = c_freed s @ [m]" "cl_rx_sequence (c_lport t) = a" "cs_sw_rtt (cl_other (c_lport t)) = cs_sw_rtt (cl_other (c_lport s))"
    by blast
  have "probes_from (a + 1) ms" "cl_rx_sequence (c_lport t) \<noteq> a + 1" "cnp_btst C_SW_TIMESTAMP t"
    using Cons.prems t(2,4) by (auto simp: rx_same_def cnp_btst_def)
  from Cons.IH [OF this] obtain u where u: "cnp_rx_loop E ms t = Some ([], u)" "rx_same t u" "c_freed u = c_freed t @ ms"
    "cl_rx_sequence (c_lport u) \<noteq> a + 1 + of_nat (length ms)" "cs_sw_rtt (cl_other (c_lport u)) = cs_sw_rtt (cl_other (c_lport t))" by blast
  then show ?case using t rx_same_trans [OF t(2) u(2)] by (simp add: add.assoc)
qed (simp add: rx_same_def)

lemma cnp_rx_burst_late:
  fixes E :: cnp_env and s :: cnp
  defines "ms \<equiv> take CNP_RX_BURST_SIZE (ce_rx E (c_rx_calls s))"
  assumes "probes_from a ms" and "cl_rx_sequence (c_lport s) \<noteq> a" and "cnp_btst C_SW_TIMESTAMP s"
  shows "\<exists>s'. cnp_rx_timestamping E (Suc k) s = Some (0, s') \<and> c_info s' = c_info s \<and> c_rx_calls s' = c_rx_calls s + 1 \<and>
     c_wire s' = c_wire s \<and> c_freed s' = c_freed s @ ms \<and> cl_rx_sequence (c_lport s') \<noteq> a + of_nat (length ms) \<and>
     cs_sw_rtt (cl_other (c_lport s')) = cs_sw_rtt (cl_other (c_lport s))"
proof -
  obtain t where t: "cnp_rx_burst E s = (ms, t)" "c_info t = c_info s" "c_wire t = c_wire s" "c_freed t = c_freed s"
    "c_rx_calls t = c_rx_calls s + 1" "cl_rx_sequence (c_lport t) = cl_rx_sequence (c_lport s)"
    "cs_sw_rtt (cl_other (c_lport t)) = cs_sw_rtt (cl_other (c_lport s))"
    by (simp add: cnp_rx_burst_def ms_def Let_def upd_cstats_def upd_cport_def)
  have n: "cl_rx_sequence (c_lport t) \<noteq> a" "cnp_btst C_SW_TIMESTAMP t" using assms(3,4) t(2,6) by (simp_all add: cnp_btst_def)
  obtain u where u: "cnp_rx_loop E ms t = Some ([], u)" "rx_same t u" "c_freed u = c_freed t @ ms"
    "cl_rx_sequence (c_lport u) \<noteq> a + of_nat (length ms)" "cs_sw_rtt (cl_other (c_lport u)) = cs_sw_rtt (cl_other (c_lport t))"
    using cnp_rx_loop_late [OF assms(2) n, of E] by auto
  let ?f = "upd_cstats (\<lambda>st. st\<lparr>cs_total_tx := cs_total_tx st + of_nat (length ([] :: tmbuf list))\<rparr>)"
  let ?v = "if ci_client_mode (c_info s) then u else u\<lparr>c_tx_calls := c_tx_calls u + 1\<rparr>"
  have "c_info u = c_info s" using t(2) u(2) by (simp add: rx_same_def)
  then have "cnp_rx_timestamping E (Suc k) s = Some (0, ?f ?v)"
    using t(1) u(1) by (simp add: cnp_rx_timestamping_def cnp_free_def cnp_offer_def)
  then show ?thesis using t u by (simp add: rx_same_def upd_cstats_def upd_cport_def)
qed

text \<open>
  C33: once a receiver expects another number than the one that comes next, it measures and
  returns nothing any more: of all the probes that follow, numbered without a gap, each is
  freed, since the number of a probe that is out of order, not its successor, becomes the
  expected one.
\<close>

theorem cnp_lost_probe_never_resyncs:
  assumes "probes_from a (next_packets E n s)" and "cl_rx_sequence (c_lport s) \<noteq> a" and "cnp_btst C_SW_TIMESTAMP s"
  shows "\<exists>s'. cnp_rx_rounds E (Suc k) n s = Some s' \<and> c_wire s' = c_wire s \<and> c_freed s' = c_freed s @ next_packets E n s \<and>
     cs_sw_rtt (cl_other (c_lport s')) = cs_sw_rtt (cl_other (c_lport s))"
  using assms
proof (induction n arbitrary: a s)
  case (Suc n)
  let ?ms = "take CNP_RX_BURST_SIZE (ce_rx E (c_rx_calls s))"
  have split: "next_packets E (Suc n) s = ?ms @ next_packets E n t" if "c_rx_calls t = c_rx_calls s + 1" for t :: cnp
    using that by (simp add: next_packets_def upt_conv_Cons map_Suc_upt [symmetric] comp_def del: upt_Suc)
  have "probes_from a ?ms" using Suc.prems(1) split [of "s\<lparr>c_rx_calls := c_rx_calls s + 1\<rparr>"] by (simp add: probes_from_append)
  from cnp_rx_burst_late [OF this Suc.prems(2,3), of k] obtain t where t: "cnp_rx_timestamping E (Suc k) s = Some (0, t)"
    "c_info t = c_info s" "c_rx_calls t = c_rx_calls s + 1" "c_wire t = c_wire s" "c_freed t = c_freed s @ ?ms"
    "cl_rx_sequence (c_lport t) \<noteq> a + of_nat (length ?ms)" "cs_sw_rtt (cl_other (c_lport t)) = cs_sw_rtt (cl_other (c_lport s))" by blast
  have "probes_from (a + of_nat (length ?ms)) (next_packets E n t)" "cnp_btst C_SW_TIMESTAMP t"
    using Suc.prems(1,3) split [OF t(3)] t(2) by (simp_all add: probes_from_append cnp_btst_def)
  from Suc.IH [OF this(1) t(6) this(2)] show ?case using t split [OF t(3)] by auto
qed (simp add: next_packets_def)

section \<open>An example\<close>

definition ex_probe_mbuf :: tmbuf where
  "ex_probe_mbuf = \<lparr>m_id = 3, m_data = replicate 64 0, m_pkt_len = 20, m_data_len = 20, m_ol_flags = 0, m_dyn = (\<lambda>_. 0)\<rparr>"

definition ex_cnp :: "bool \<Rightarrow> cnp" where
  "ex_cnp client = \<lparr>c_info = \<lparr>ci_flags = flag_set C_SW_TIMESTAMP 1, ci_pkt_length = 60, ci_lport_idx = 1, ci_client_mode = client,
       ci_client_addr_str = None, ci_dst_mac_str = None, ci_tx_interval_ns = 31250\<rparr>,
     c_lport = zero_cnp_lport\<lparr>cl_tx_sequence := 7, cl_rx_sequence := 7\<rparr>, c_pool = [ex_probe_mbuf], c_wire = [], c_freed = [], c_ticks = 0,
     c_polls = 0, c_links = 0, c_tx_calls = 0, c_rx_calls = 0, c_tx_reads = 0, c_rx_reads = 0\<rparr>"

definition ex_cnp_env :: "tmbuf list \<Rightarrow> cnp_env" where
  "ex_cnp_env ms = \<lparr>ce_clock = (\<lambda>k. Some \<lparr>tv_sec = 1, tv_nsec = 500 * int k\<rparr>), ce_flag = (\<lambda>k. k < 4), ce_link = (\<lambda>_. None),
     ce_nic = (\<lambda>_. 1), ce_rx = (\<lambda>_. ms), ce_tx_ts = (\<lambda>_. None), ce_rx_ts = (\<lambda>_. None)\<rparr>"

lemma ex_cnp_ready: "probe_ready (ex_cnp True)" "cnp_btst C_SW_TIMESTAMP (ex_cnp client)"
  by (simp_all add: probe_ready_def ex_cnp_def cnp_btst_def zero_cnp_lport_def ex_probe_mbuf_def cnp_flag_defs)

lemma sent_probe_rx: "sent_probe (ex_cnp_env ms) s = sent_probe (ex_cnp_env []) s"
proof -
  have c: "cnp_clock_get_ns (ex_cnp_env ms) = cnp_clock_get_ns (ex_cnp_env [])"
    by (rule ext) (simp add: cnp_clock_get_ns_def cnp_clock_def ex_cnp_env_def)
  show ?thesis by (simp only: sent_probe_def cnp_tx_frame_def cnp_tx_probe_def c)
qed

lemma cnp_rx_conserves_witness:
  "\<exists>s' sent fr. cnp_rx_timestamping (ex_cnp_env [ex_probe_mbuf]) 5 (ex_cnp False) = Some (0, s') \<and>
     mset (map m_id sent) + mset (map m_id fr) = {#3#} \<and> c_wire s' = sent \<and> c_freed s' = fr"
proof -
  let ?E = "ex_cnp_env [ex_probe_mbuf]" and ?s = "ex_cnp False"
  have b: "take CNP_RX_BURST_SIZE (ce_rx ?E (c_rx_calls ?s)) = [ex_probe_mbuf]"
    by (simp add: CNP_RX_BURST_SIZE_def ex_cnp_env_def)
  have c: "\<forall>m \<in> set (take CNP_RX_BURST_SIZE (ce_rx ?E (c_rx_calls ?s))). frame_ok m" "\<not> ce_flag ?E 4" "c_polls ?s \<le> 4" "4 - c_polls ?s < 5"
    "c_wire ?s = []" "c_freed ?s = []"
    unfolding b by (simp_all add: ex_cnp_env_def ex_cnp_def frame_ok_def ex_probe_mbuf_def)
  from cnp_rx_conserves [OF c(1-4)] c(5,6) show ?thesis unfolding b by (auto simp: ex_probe_mbuf_def)
qed


lemma cnp_lost_probe_never_resyncs_witness:
  "\<exists>E s s'. cnp_rx_rounds E 1 1 s = Some s' \<and> c_wire s' = [] \<and> c_freed s' \<noteq> [] \<and>
     cs_sw_rtt (cl_other (c_lport s')) = cs_sw_rtt (cl_other (c_lport s))"
proof -
  let ?p = "sent_probe (ex_cnp_env []) (ex_cnp True)" and ?s = "upd_cport (\<lambda>l. l\<lparr>cl_rx_sequence := 3\<rparr>) (ex_cnp False)"
  let ?E = "ex_cnp_env [?p]"
  have n: "next_packets ?E 1 ?s = [?p]" by (simp add: next_packets_def ex_cnp_env_def CNP_RX_BURST_SIZE_def)
  have "is_probe 7 ?p" using sent_probe_ok(2) [OF ex_cnp_ready(1), of "ex_cnp_env []"] by (simp add: ex_cnp_def)
  then have p: "probes_from 7 (next_packets ?E 1 ?s)" unfolding n by simp
  have c: "cl_rx_sequence (c_lport ?s) \<noteq> 7" "cnp_btst C_SW_TIMESTAMP ?s" "c_wire ?s = []"
    using ex_cnp_ready(2) [of False] by (simp_all add: upd_cport_def cnp_btst_def ex_cnp_def)
  from cnp_lost_probe_never_resyncs [OF p c(1,2), of 0] obtain s' where "cnp_rx_rounds ?E (Suc 0) 1 ?s = Some s'"
    "c_wire s' = c_wire ?s" "c_freed s' = c_freed ?s @ [?p]" "cs_sw_rtt (cl_other (c_lport s')) = cs_sw_rtt (cl_other (c_lport ?s))"
    unfolding n by blast
  then show ?thesis using c(3) by (intro exI [of _ ?E] exI [of _ ?s] exI [of _ s'] conjI) (simp_all only: One_nat_def, simp_all)
qed

end
