(* ===== verification/Cnp_Live.thy ===== *)
theory Cnp_Live
  imports Cnp_Props
begin

text \<open>
  The worker of the probes ends: its loop returns once the program is told to stop, whatever
  the device delivers.
\<close>

text \<open>What the thread needs: addresses of six bytes and mbufs with room for a probe.\<close>

definition worker_ok :: "cnp \<Rightarrow> bool" where
  "worker_ok s \<longleftrightarrow> length (cl_src_mac (c_lport s)) = 6 \<and> length (cl_dst_mac (c_lport s)) = 6 \<and>
     (\<forall>m \<in> set (c_pool s). 32 \<le> length (m_data m))"

text \<open>What a step of the thread keeps; looks at the flag only go on.\<close>

definition worker_step :: "cnp \<Rightarrow> cnp \<Rightarrow> bool" where
  "worker_step s s' \<longleftrightarrow> (worker_ok s \<longrightarrow> worker_ok s') \<and> c_polls s \<le> c_polls s' \<and> c_info s' = c_info s"

lemma worker_step_trans: "worker_step s t \<Longrightarrow> worker_step t u \<Longrightarrow> worker_step s u"
  by (auto simp: worker_step_def)

definition stats_only :: "(cnp_lport_t \<Rightarrow> cnp_lport_t) \<Rightarrow> bool" where
  "stats_only f \<longleftrightarrow> (\<forall>l. cl_src_mac (f l) = cl_src_mac l \<and> cl_dst_mac (f l) = cl_dst_mac l)"

lemma worker_step_upd:
  "stats_only f \<Longrightarrow> worker_step s (upd_cport f s)" "worker_step s (upd_cstats g s)" "worker_step s (cnp_free ms s)"
  by (auto simp: worker_step_def worker_ok_def upd_cport_def upd_cstats_def cnp_free_def stats_only_def)

lemma cnp_rx_packet_step:
  assumes "cnp_rx_packet E m s = Some (r, s')"
  shows "worker_step s s'"
  using assms
  by (auto simp: cnp_rx_packet_def cnp_rx_sw_def cnp_rx_hw_def cnp_clock_get_ns_def upd_cstats_def upd_cport_def cnp_free_def
      worker_step_def worker_ok_def Let_def split: if_splits bind_splits option.splits probe_verdict.splits)

lemma cnp_rx_loop_step: "cnp_rx_loop E ms s = Some (tx, s') \<Longrightarrow> worker_step s s'"
proof (induction ms arbitrary: s tx)
  case (Cons m ms)
  then obtain r t tx' where "cnp_rx_packet E m s = Some (r, t)" "cnp_rx_loop E ms t = Some (tx', s')" by (auto split: bind_splits)
  then show ?case using cnp_rx_packet_step Cons.IH worker_step_trans by blast
qed (simp add: worker_step_def)

text \<open>The flag is off from look \<open>K\<close> on.\<close>

definition off_from :: "cnp_env \<Rightarrow> nat \<Rightarrow> bool" where
  "off_from E K \<longleftrightarrow> (\<forall>j\<ge>K. \<not> ce_flag E j)"

lemma cnp_send_step:
  assumes "off_from E K" and "K - c_polls s < k"
  shows "\<exists>s'. cnp_send_packets E k ms s = Some s' \<and> worker_step s s'"
proof -
  let ?K = "max K (c_polls s)"
  have "\<not> ce_flag E ?K" "c_polls s \<le> ?K" "?K - c_polls s < k" using assms by (auto simp: off_from_def)
  from cnp_sender.send_split [OF this, of ms] show ?thesis by (auto simp: worker_step_def worker_ok_def)
qed

lemma cnp_rx_step:
  assumes "off_from E K" and "K - c_polls s < k" and "\<forall>n. \<forall>m \<in> set (ce_rx E n). frame_ok m"
  shows "\<exists>s'. cnp_rx_timestamping E k s = Some (0, s') \<and> worker_step s s'"
proof -
  obtain ms t where t: "cnp_rx_burst E s = (ms, t)" by (cases "cnp_rx_burst E s")
  then have st: "worker_step s t" and ms: "\<forall>m \<in> set ms. frame_ok m"
    using assms(3) by (auto simp: cnp_rx_burst_def worker_step_def worker_ok_def upd_cstats_def upd_cport_def Let_def dest: in_set_takeD split: if_splits)
  obtain tx u where u: "cnp_rx_loop E ms t = Some (tx, u)" using cnp_rx_loop_ok [OF ms, of E t] by blast
  have su: "worker_step s u" using worker_step_trans [OF st cnp_rx_loop_step [OF u]] .
  let ?f = "upd_cstats (\<lambda>st. st\<lparr>cs_total_tx := cs_total_tx st + of_nat (length tx)\<rparr>)"
  show ?thesis
  proof (cases "ci_client_mode (c_info u)")
    case True
    then have "cnp_rx_timestamping E k s = Some (0, ?f (cnp_free tx u))" using t u by (simp add: cnp_rx_timestamping_def)
    then show ?thesis using worker_step_trans [OF su worker_step_trans [OF worker_step_upd(3) worker_step_upd(2)]] by blast
  next
    case False
    have "K - c_polls u < k" using su assms(2) by (auto simp: worker_step_def)
    then obtain v where v: "cnp_send_packets E k tx u = Some v" "worker_step u v" using cnp_send_step [OF assms(1)] by blast
    then have "cnp_rx_timestamping E k s = Some (0, ?f v)" using False t u by (simp add: cnp_rx_timestamping_def)
    then show ?thesis using worker_step_trans [OF su worker_step_trans [OF v(2) worker_step_upd(2)]] by blast
  qed
qed

lemma cnp_tx_hw_step: "worker_step s (cnp_tx_hw E s)"
proof (cases "cnp_btst C_HW_TIMESTAMP s")
  case True
  let ?t = "upd_cstats (\<lambda>st. st\<lparr>cs_poll := start_stats_timer (cnp_clock E (c_ticks s)) (cs_poll st)\<rparr>)
    ((upd_cport (\<lambda>l. l\<lparr>cl_tx_timestamp := -1\<rparr>) s)\<lparr>c_ticks := c_ticks s + 1\<rparr>)"
  obtain r u where u: "poll_tx_timestamp E ?t = (r, u)" by (cases "poll_tx_timestamp E ?t")
  then obtain n x where "u = ?t\<lparr>c_tx_reads := n, c_lport := (c_lport ?t)\<lparr>cl_tx_timestamp := x\<rparr>\<rparr>" by (rule poll_tx_same)
  then show ?thesis using True u
    by (simp add: cnp_tx_hw_def cnp_clock_get_ns_def upd_cstats_def upd_cport_def worker_step_def worker_ok_def Let_def)
qed (simp add: cnp_tx_hw_def worker_step_def)

lemma cnp_tx_frame_step:
  assumes "worker_ok s" and "32 \<le> length (m_data m)"
  shows "\<exists>m' s'. cnp_tx_frame E m s = Some (m', s') \<and> worker_step s s'"
  using assms
  by (simp add: cnp_tx_frame_def cnp_tx_probe_def cnp_btst_def cnp_clock_get_ns_def upd_cport_def upd_cstats_def write_probe_def
      wr16_def wr32_def wr64_def buf_simps worker_ok_def worker_step_def Let_def)

lemma cnp_tx_step:
  assumes "worker_ok s" and "off_from E K" and "K - c_polls s < k"
  shows "\<exists>r s'. cnp_tx_timestamping E k s = Some (r, s') \<and> worker_step s s'"
proof (cases "c_pool s")
  case Nil
  then show ?thesis using worker_step_upd(2) by (auto simp: cnp_tx_timestamping_def)
next
  case (Cons m ms)
  let ?s = "s\<lparr>c_pool := ms\<rparr>"
  have "worker_ok ?s" "32 \<le> length (m_data m)" and s: "worker_step s ?s" using assms(1) Cons by (auto simp: worker_ok_def worker_step_def)
  then obtain m' t where t: "cnp_tx_frame E m ?s = Some (m', t)" "worker_step ?s t" using cnp_tx_frame_step by blast
  then have "K - c_polls t < k" using assms(3) by (auto simp: worker_step_def)
  then obtain u where u: "cnp_send_packets E k [m'] t = Some u" "worker_step t u" using cnp_send_step [OF assms(2)] by blast
  have "cnp_tx_timestamping E k s = Some (0, cnp_tx_hw E u)" using Cons t u by (simp add: cnp_tx_timestamping_def)
  then show ?thesis using worker_step_trans [OF worker_step_trans [OF worker_step_trans [OF s t(2)] u(2)] cnp_tx_hw_step] by blast
qed

text \<open>
  C31: the loop of the worker ends, with no access outside a buffer, once the program is told
  to stop, whatever packets the device delivers and however often it refuses packets.
\<close>

theorem cnp_worker_ends:
  assumes "worker_ok s" and "off_from E K" and "K - c_polls s < k" and "\<forall>n. \<forall>m \<in> set (ce_rx E n). frame_ok m"
  shows "\<exists>s'. cnp_loop E k tx_begin_ns s = Some s' \<and> worker_ok s' \<and> c_info s' = c_info s"
  using assms(1,3)
proof (induction k arbitrary: s tx_begin_ns)
  case (Suc k)
  obtain r t where t: "cnp_is_running E s = (r, t)" by (cases "cnp_is_running E s")
  then have wt: "worker_ok t" "c_info t = c_info s" "c_polls t = Suc (c_polls s)" and r: "r \<longrightarrow> ce_flag E (c_polls s)"
    using Suc.prems(1) by (auto simp: cnp_is_running_def worker_ok_def)
  show ?case
  proof (cases r)
    case False
    then show ?thesis using t wt by simp
  next
    case True
    then have "c_polls s < K" using r assms(2) by (auto simp: off_from_def not_le)
    then have k: "K - c_polls t < k" using Suc.prems(2) wt(3) by simp
    obtain u where u: "cnp_rx_timestamping E k t = Some (0, u)" "worker_step t u" using cnp_rx_step [OF assms(2) k assms(4)] by blast
    let ?u = "u\<lparr>c_ticks := c_ticks u + 1\<rparr>"
    have wu: "worker_ok ?u" "c_info ?u = c_info s" "K - c_polls ?u < k" using wt k u(2) by (auto simp: worker_step_def worker_ok_def)
    obtain ret v where v: "cnp_tx_timestamping E k ?u = Some (ret, v)" "worker_step ?u v" using cnp_tx_step [OF wu(1) assms(2) wu(3)] by blast
    have wv: "worker_ok v" "c_info v = c_info s" "K - c_polls v < k" using wu v(2) by (auto simp: worker_step_def)
    show ?thesis using True t u(1) v(1) wv wu Suc.IH [OF wu(1,3)] Suc.IH [OF wv(1,3)]
      by (auto simp: cnp_clock_get_ns_def simp del: cnp_loop.simps(1))
  qed
qed simp

lemma cnp_worker_ends_witness:
  "\<exists>s'. cnp_loop (ex_cnp_env [ex_probe_mbuf]) 5 0 (ex_cnp True) = Some s' \<and> worker_ok s' \<and> c_info s' = c_info (ex_cnp True)"
  by (rule cnp_worker_ends [of _ _ 4])
    (simp_all add: worker_ok_def off_from_def ex_cnp_def ex_cnp_env_def zero_cnp_lport_def ex_probe_mbuf_def frame_ok_def)

end
