(* ===== verification/Lt.thy ===== *)
theory Lt
  imports App_Common Ratt_Io
begin

text \<open>
  The launch-time test of \<^verbatim>\<open>apps/launch-time\<close>: the data of the program (\<^verbatim>\<open>launch-time.h\<close>, \<^verbatim>\<open>stats.h\<close>) and
  the worker thread (\<^verbatim>\<open>rxtx.c\<close>), which sends a burst per interval, the first packet of it with
  a launch time for the device, and measures the time between the bursts it receives. The
  clocks, the flag other threads clear, the link and the device are parameters, read in
  order; the counters say how often. \<open>None\<close> is an access outside a buffer or an array, a
  time that was not read, or fuel that was used up.
\<close>

section \<open>Data\<close>

definition LT_BIG_NUM :: u64 where "LT_BIG_NUM = 60000000"
definition LT_MAX_BURST_COUNT :: nat where "LT_MAX_BURST_COUNT = 256"
definition LT_ETHER_TYPE_1588 :: u16 where "LT_ETHER_TYPE_1588 = 0x88F7"
definition LT_F_TX_IEEE1588_TMST :: u64 where "LT_F_TX_IEEE1588_TMST = push_bit 51 1"

definition L_APP_RUNNING :: nat where "L_APP_RUNNING = 0"
definition L_TTY_IS_INITED :: nat where "L_TTY_IS_INITED = 1"
definition L_LOG :: nat where "L_LOG = 2"
definition L_MQTT :: nat where "L_MQTT = 3"
definition L_LAUNCH_TIME :: nat where "L_LAUNCH_TIME = 4"
definition L_PROMISCUOUS :: nat where "L_PROMISCUOUS = 5"
definition L_HW_TIMESTAMP :: nat where "L_HW_TIMESTAMP = 6"
definition L_CLEAR_SCREEN :: nat where "L_CLEAR_SCREEN = 7"
definition L_RESET_STATS :: nat where "L_RESET_STATS = 8"

lemmas lt_flag_defs = L_APP_RUNNING_def L_TTY_IS_INITED_def L_LOG_def L_MQTT_def L_LAUNCH_TIME_def L_PROMISCUOUS_def L_HW_TIMESTAMP_def
  L_CLEAR_SCREEN_def L_RESET_STATS_def

record lt_stats_t =
  ls_launch_time :: min_avg_max_t
  ls_total_rx :: u64
  ls_total_tx :: u64
  ls_rx_pps :: u64
  ls_tx_pps :: u64
  ls_no_mbufs :: u64

record lt_lport_t =
  lp_src_mac :: bytes
  lp_dst_mac :: bytes
  lp_rx_mp :: int
  lp_tx_mp :: int
  lp_lcore_id :: u16
  lp_pid :: u16
  lp_qid :: u16
  lp_link :: eth_link
  lp_stats :: port_stats_t
  lp_stats_prev :: port_stats_t

record lt_lcore_t =
  lc_lport :: lt_lport_t
  lc_stats :: lt_stats_t

record lt_info_t =
  lf_flags :: u32
  lf_launch_interval_ns :: u64
  lf_mqtt_lcore_id :: u16
  lf_worker_lcore_id :: u16
  lf_delay_sec :: u16
  lf_burst_count :: u16
  lf_pkt_length :: u16
  lf_link_speed :: u32
  lf_run_duration_sec :: u32
  lf_tx_burst_offset_ns :: u32
  lf_burst_length_str :: "string option"
  lf_run_duration_str :: "string option"
  lf_dest_mac_str :: "string option"
  lf_run_duration_end_ns :: u64
  lf_rx_timestamp_flag :: u64
  lf_tx_timestamp_flag :: u64
  lf_rx_timestamp_offset :: int
  lf_tx_timestamp_offset :: int
  lf_start_time :: timespec

text \<open>All data of the program starts with zeros.\<close>

definition zero_lt_stats :: lt_stats_t where
  "zero_lt_stats = \<lparr>ls_launch_time = \<lparr>min_ns = 0, max_ns = 0, avg_ns = 0, sum_ns = 0, count_ns = 0\<rparr>, ls_total_rx = 0, ls_total_tx = 0,
     ls_rx_pps = 0, ls_tx_pps = 0, ls_no_mbufs = 0\<rparr>"

definition lt_zero_port :: port_stats_t where
  "lt_zero_port = \<lparr>ps_ipackets = 0, ps_opackets = 0, ps_ibytes = 0, ps_obytes = 0, ps_imissed = 0, ps_ierrors = 0, ps_oerrors = 0,
     ps_rx_nombuf = 0\<rparr>"

definition zero_lt_lport :: lt_lport_t where
  "zero_lt_lport = \<lparr>lp_src_mac = replicate 6 0, lp_dst_mac = replicate 6 0, lp_rx_mp = 0, lp_tx_mp = 0, lp_lcore_id = 0, lp_pid = 0,
     lp_qid = 0, lp_link = \<lparr>link_speed = 0, link_duplex = 0, link_autoneg = 0, link_status = 0\<rparr>, lp_stats = lt_zero_port,
     lp_stats_prev = lt_zero_port\<rparr>"

definition zero_lt_info :: lt_info_t where
  "zero_lt_info = \<lparr>lf_flags = 0, lf_launch_interval_ns = 0, lf_mqtt_lcore_id = 0, lf_worker_lcore_id = 0, lf_delay_sec = 0,
     lf_burst_count = 0, lf_pkt_length = 0, lf_link_speed = 0, lf_run_duration_sec = 0, lf_tx_burst_offset_ns = 0,
     lf_burst_length_str = None, lf_run_duration_str = None, lf_dest_mac_str = None, lf_run_duration_end_ns = 0,
     lf_rx_timestamp_flag = 0, lf_tx_timestamp_flag = 0, lf_rx_timestamp_offset = 0, lf_tx_timestamp_offset = 0,
     lf_start_time = \<lparr>tv_sec = 0, tv_nsec = 0\<rparr>\<rparr>"

record lt_env =
  le_clock :: "nat \<Rightarrow> timespec option"
  le_port_clock :: "nat \<Rightarrow> u64 option"
  le_flag :: "nat \<Rightarrow> bool"
  le_link :: "nat \<Rightarrow> eth_link option"
  le_nic :: "nat \<Rightarrow> nat"
  le_rx :: "nat \<Rightarrow> tmbuf list"

record lt =
  l_info :: lt_info_t
  l_lcore :: lt_lcore_t
  l_prev_rx :: u64
  l_pool :: "tmbuf list"
  l_wire :: "tmbuf list"
  l_freed :: "tmbuf list"
  l_sleeps :: "timespec list"
  l_ticks :: nat
  l_port_ticks :: nat
  l_polls :: nat
  l_links :: nat
  l_tx_calls :: nat
  l_rx_calls :: nat

definition lt_btst :: "nat \<Rightarrow> lt \<Rightarrow> bool" where
  "lt_btst n s = flag_tst n (lf_flags (l_info s))"

definition upd_lflags :: "(u32 \<Rightarrow> u32) \<Rightarrow> lt \<Rightarrow> lt" where
  "upd_lflags f s = s\<lparr>l_info := (l_info s)\<lparr>lf_flags := f (lf_flags (l_info s))\<rparr>\<rparr>"

definition upd_lt_stats :: "(lt_stats_t \<Rightarrow> lt_stats_t) \<Rightarrow> lt \<Rightarrow> lt" where
  "upd_lt_stats f s = s\<lparr>l_lcore := (l_lcore s)\<lparr>lc_stats := f (lc_stats (l_lcore s))\<rparr>\<rparr>"

definition lt_free :: "tmbuf list \<Rightarrow> lt \<Rightarrow> lt" where
  "lt_free ms s = s\<lparr>l_freed := l_freed s @ ms\<rparr>"

section \<open>Helpers\<close>

definition lt_ts_to_ns :: "timespec \<Rightarrow> u64" where
  "lt_ts_to_ns t = word_of_int (tv_sec t) * word_of_int NSEC_PER_SEC + word_of_int (tv_nsec t)"

definition lt_clock :: "lt_env \<Rightarrow> nat \<Rightarrow> u64" where
  "lt_clock E k = (case le_clock E k of None \<Rightarrow> 0 | Some t \<Rightarrow> lt_ts_to_ns t)"

definition lt_clock_get_ns :: "lt_env \<Rightarrow> lt \<Rightarrow> u64 \<times> lt" where
  "lt_clock_get_ns E s = (lt_clock E (l_ticks s), s\<lparr>l_ticks := l_ticks s + 1\<rparr>)"

definition lt_port_clock_get_ns :: "lt_env \<Rightarrow> lt \<Rightarrow> u64 \<times> lt" where
  "lt_port_clock_get_ns E s =
     (case le_port_clock E (l_port_ticks s) of None \<Rightarrow> 0 | Some t \<Rightarrow> t, s\<lparr>l_port_ticks := l_port_ticks s + 1\<rparr>)"

definition lt_start_running :: "lt \<Rightarrow> lt" where "lt_start_running = upd_lflags (flag_set L_APP_RUNNING)"
definition lt_stop_running :: "lt \<Rightarrow> lt" where "lt_stop_running = upd_lflags (flag_clr L_APP_RUNNING)"

definition lt_is_running :: "lt_env \<Rightarrow> lt \<Rightarrow> bool \<times> lt" where
  "lt_is_running E s =
     (let run = lt_btst L_APP_RUNNING s \<and> le_flag E (l_polls s); s = s\<lparr>l_polls := l_polls s + 1\<rparr> in
      if \<not> run then (False, s)
      else if lf_run_duration_end_ns (l_info s) \<noteq> 0
           then case lt_clock_get_ns E s of (t, s) \<Rightarrow> (t < lf_run_duration_end_ns (l_info s), s)
           else (True, s))"

text \<open>The sleep reads the clock for the time to wake up; a reading that fails leaves it unset.\<close>

definition lt_sleep_sec :: "lt_env \<Rightarrow> u32 \<Rightarrow> lt \<Rightarrow> lt option" where
  "lt_sleep_sec E sec s =
     (if sec > 0
      then do {
        now \<leftarrow> le_clock E (l_ticks s);
        Some (s\<lparr>l_ticks := l_ticks s + 1, l_sleeps := l_sleeps s @ [now\<lparr>tv_sec := tv_sec now + int (unat sec)\<rparr>]\<rparr>)
      }
      else Some s)"

definition lt_is_link_up :: "lt_env \<Rightarrow> lt \<Rightarrow> bool \<times> lt" where
  "lt_is_link_up E s =
     (case le_link E (l_links s) of None \<Rightarrow> False | Some l \<Rightarrow> link_status l = 1, s\<lparr>l_links := l_links s + 1\<rparr>)"

definition lt_offer :: "lt_env \<Rightarrow> tmbuf list \<Rightarrow> lt \<Rightarrow> nat \<times> lt" where
  "lt_offer E ms s =
     (let n = min (le_nic E (l_tx_calls s)) (length ms) in
      (n, s\<lparr>l_tx_calls := l_tx_calls s + 1, l_wire := l_wire s @ take n ms\<rparr>))"

fun lt_send_packets :: "lt_env \<Rightarrow> nat \<Rightarrow> tmbuf list \<Rightarrow> lt \<Rightarrow> lt option" where
  "lt_send_packets E 0 ms s = None"
| "lt_send_packets E (Suc k) ms s =
     (case lt_offer E ms s of (n, s) \<Rightarrow>
        if drop n ms = [] then Some s
        else case lt_is_running E s of (r, s) \<Rightarrow>
          if r then lt_send_packets E k (drop n ms) s else Some (lt_free (drop n ms) s))"

definition lt_min_avg_max_update :: "u64 \<Rightarrow> min_avg_max_t \<Rightarrow> min_avg_max_t" where
  "lt_min_avg_max_update ns m =
     (let m = (if ns < min_ns m then m\<lparr>min_ns := ns\<rparr> else m);
          m = (if ns > max_ns m then m\<lparr>max_ns := ns\<rparr> else m)
      in m\<lparr>sum_ns := sum_ns m + ns, count_ns := count_ns m + 1\<rparr>)"

section \<open>Transmission\<close>

text \<open>One packet; \<open>mark\<close> says that it carries the launch time. The flags of an mbuf from the pool are those of its last use.\<close>

definition lt_tx_packet :: "lt \<Rightarrow> u64 \<Rightarrow> bool \<Rightarrow> tmbuf \<Rightarrow> tmbuf option" where
  "lt_tx_packet s port_ns mark m =
     (let i = l_info s; l = lc_lport (l_lcore s) in do {
        b \<leftarrow> store 6 (lp_src_mac l) (m_data m);
        b \<leftarrow> store 0 (lp_dst_mac l) b;
        b \<leftarrow> wr16 12 LT_ETHER_TYPE_1588 b;
        let m = m\<lparr>m_data := b, m_pkt_len := ucast (lf_pkt_length i), m_data_len := lf_pkt_length i\<rparr>;
        Some (if mark
              then m\<lparr>m_ol_flags := m_ol_flags m OR lf_tx_timestamp_flag i OR LT_F_TX_IEEE1588_TMST,
                     m_dyn := (m_dyn m)(lf_tx_timestamp_offset i := port_ns)\<rparr>
              else m\<lparr>m_ol_flags := m_ol_flags m AND NOT (lf_tx_timestamp_flag i) AND NOT LT_F_TX_IEEE1588_TMST\<rparr>)
      })"

fun lt_tx_loop :: "lt \<Rightarrow> u64 \<Rightarrow> nat \<Rightarrow> tmbuf list \<Rightarrow> tmbuf list option" where
  "lt_tx_loop s port_ns i [] = Some []"
| "lt_tx_loop s port_ns i (m # ms) = do {
     m \<leftarrow> lt_tx_packet s port_ns (lt_btst L_LAUNCH_TIME s \<and> i = 0) m;
     ms \<leftarrow> lt_tx_loop s port_ns (i + 1) ms;
     Some (m # ms)
   }"

definition lt_tx_timestamping :: "lt_env \<Rightarrow> nat \<Rightarrow> lt \<Rightarrow> (int \<times> lt) option" where
  "lt_tx_timestamping E k s =
     (let n = unat (lf_burst_count (l_info s)) in
      if length (l_pool s) < n then Some (-1, upd_lt_stats (\<lambda>t. t\<lparr>ls_no_mbufs := ls_no_mbufs t + 1\<rparr>) s)
      else if LT_MAX_BURST_COUNT < n then None
      else let ms = take n (l_pool s);
               (port_ns, s) = (if lt_btst L_LAUNCH_TIME s then lt_port_clock_get_ns E s else (0, s));
               s = s\<lparr>l_pool := drop n (l_pool s)\<rparr> in do {
        ms \<leftarrow> lt_tx_loop s port_ns 0 ms;
        s \<leftarrow> lt_send_packets E k ms s;
        Some (0, upd_lt_stats (\<lambda>t. t\<lparr>ls_total_tx := ls_total_tx t + ucast (lf_burst_count (l_info s))\<rparr>) s)
      })"

section \<open>Reception\<close>

definition reset_rx_timestamp :: "lt \<Rightarrow> lt" where
  "reset_rx_timestamp s = s\<lparr>l_prev_rx := 0\<rparr>"

text \<open>The time of a burst: that of the device if the first packet has one, else that of the clock.\<close>

definition lt_rx_time :: "lt_env \<Rightarrow> tmbuf \<Rightarrow> lt \<Rightarrow> u64 \<times> lt" where
  "lt_rx_time E m s =
     (if m_ol_flags m AND lf_rx_timestamp_flag (l_info s) \<noteq> 0 then (m_dyn m (lf_rx_timestamp_offset (l_info s)), s)
      else lt_clock_get_ns E s)"

definition lt_rx_burst_done :: "lt_env \<Rightarrow> tmbuf list \<Rightarrow> lt \<Rightarrow> lt option" where
  "lt_rx_burst_done E ms s =
     (let s = upd_lt_stats (\<lambda>t. t\<lparr>ls_total_rx := ls_total_rx t + of_nat (length ms)\<rparr>) s in
      case ms of
        [] \<Rightarrow> None
      | m # _ \<Rightarrow>
          (case lt_rx_time E m s of (curr_ns, s) \<Rightarrow>
             Some ((if l_prev_rx s = 0 then s
                    else upd_lt_stats (\<lambda>t. t\<lparr>ls_launch_time := lt_min_avg_max_update (curr_ns - l_prev_rx s) (ls_launch_time t)\<rparr>) s)
                   \<lparr>l_prev_rx := curr_ns\<rparr>)))"

text \<open>The result of the function is always 0.\<close>

definition lt_rx_timestamping :: "lt_env \<Rightarrow> lt \<Rightarrow> (int \<times> lt) option" where
  "lt_rx_timestamping E s =
     (let to_recv = unat (lf_burst_count (l_info s));
          ms = take to_recv (le_rx E (l_rx_calls s));
          s = s\<lparr>l_rx_calls := l_rx_calls s + 1\<rparr> in
      if LT_MAX_BURST_COUNT < length ms then None
      else if ms = [] then Some (0, s)
      else do {
        s \<leftarrow> (if length ms = to_recv then lt_rx_burst_done E ms s else Some s);
        Some (0, lt_free ms s)
      })"

section \<open>The thread\<close>

fun lt_wait_link :: "lt_env \<Rightarrow> nat \<Rightarrow> lt \<Rightarrow> (bool \<times> lt) option" where
  "lt_wait_link E 0 s = None"
| "lt_wait_link E (Suc k) s =
     (case lt_is_link_up E s of (up, s) \<Rightarrow>
        if up then Some (True, s)
        else case lt_is_running E s of (r, s) \<Rightarrow> if r then lt_wait_link E k s else Some (False, s))"

fun lt_loop :: "lt_env \<Rightarrow> nat \<Rightarrow> u64 \<Rightarrow> lt \<Rightarrow> lt run option" where
  "lt_loop E 0 tx_begin_ns s = None"
| "lt_loop E (Suc k) tx_begin_ns s =
     (case lt_is_running E s of (r, s) \<Rightarrow>
        if \<not> r then Some (Returned 0 s)
        else case lt_clock_get_ns E s of (t, s) \<Rightarrow> do {
          (ret, tx_begin_ns, s) \<leftarrow>
            (if t \<ge> tx_begin_ns - ucast (lf_tx_burst_offset_ns (l_info s))
             then map_option (\<lambda>(ret, s'). (ret, tx_begin_ns + lf_launch_interval_ns (l_info s), s')) (lt_tx_timestamping E k s)
             else Some (0, tx_begin_ns, s));
          if ret \<noteq> 0 then Some (Exited s)
          else do {
            (ret, s) \<leftarrow> lt_rx_timestamping E s;
            lt_loop E k tx_begin_ns (if ret \<noteq> 0 then lt_stop_running s else s)
          }
        })"

definition lt_rxtx_routine :: "lt_env \<Rightarrow> nat \<Rightarrow> lt \<Rightarrow> lt run option" where
  "lt_rxtx_routine E k s = do {
     (up, s) \<leftarrow> lt_wait_link E k s;
     if \<not> up then Some (Returned 0 s)
     else do {
       s \<leftarrow> lt_sleep_sec E (ucast (lf_delay_sec (l_info s))) s;
       (case lt_clock_get_ns E s of (t, s) \<Rightarrow> lt_loop E k (t + lf_launch_interval_ns (l_info s)) s)
     }
   }"

end
