(* ===== verification/Lt_Props.thy ===== *)
theory Lt_Props
  imports Lt Burst_Sender
begin

text \<open>
  Properties of the launch-time test: which packets of a burst carry the launch time, and
  what the times between received bursts add up to.
\<close>

section \<open>Sending\<close>

interpretation lt_sender: burst_sender "lt_send_packets E" "lt_offer E" "lt_is_running E" lt_free
  l_wire l_freed l_polls "\<lambda>s. (l_info s, l_lcore s, l_pool s, l_prev_rx s)" "le_flag E" for E
  by unfold_locales (auto simp: lt_offer_def lt_is_running_def lt_free_def lt_clock_get_ns_def Let_def split: if_splits)

text \<open>What a burst needs.\<close>

definition lt_ready :: "lt \<Rightarrow> bool" where
  "lt_ready s \<longleftrightarrow> (let n = unat (lf_burst_count (l_info s)); l = lc_lport (l_lcore s) in
     0 < n \<and> n \<le> LT_MAX_BURST_COUNT \<and> n \<le> length (l_pool s) \<and> length (lp_src_mac l) = 6 \<and> length (lp_dst_mac l) = 6 \<and>
     (\<forall>m \<in> set (l_pool s). 14 \<le> length (m_data m)))"

text \<open>A packet with the addresses and the type of the test, and whether it is marked with a launch time.\<close>

definition lt_frame :: "lt \<Rightarrow> tmbuf \<Rightarrow> bool" where
  "lt_frame s m \<longleftrightarrow> load 0 6 (m_data m) = Some (lp_dst_mac (lc_lport (l_lcore s))) \<and>
     load 6 6 (m_data m) = Some (lp_src_mac (lc_lport (l_lcore s))) \<and> rd16 12 (m_data m) = Some LT_ETHER_TYPE_1588 \<and>
     m_data_len m = lf_pkt_length (l_info s)"

definition lt_marks :: "lt \<Rightarrow> u64" where
  "lt_marks s = lf_tx_timestamp_flag (l_info s) OR LT_F_TX_IEEE1588_TMST"

lemma lt_tx_packet_ok:
  assumes "length (lp_src_mac (lc_lport (l_lcore s))) = 6" and "length (lp_dst_mac (lc_lport (l_lcore s))) = 6" and "14 \<le> length (m_data m)"
  shows "\<exists>m'. lt_tx_packet s t mark m = Some m' \<and> lt_frame s m' \<and> m_id m' = m_id m \<and>
     (if mark then m_ol_flags m' AND lt_marks s = lt_marks s \<and> m_dyn m' (lf_tx_timestamp_offset (l_info s)) = t
      else m_ol_flags m' AND lt_marks s = 0)"
proof -
  have b: "(f OR g OR h) AND (g OR h) = g OR h" "(f AND NOT g AND NOT h) AND (g OR h) = 0" for f g h :: u64
    by (auto simp: bit_eq_iff bit_and_iff bit_or_iff bit_not_iff)
  show ?thesis using assms
    by (simp add: lt_tx_packet_def lt_frame_def lt_marks_def b wr16_def rd16_def buf_simps Let_def)
qed

lemma lt_tx_rest:
  assumes "length (lp_src_mac (lc_lport (l_lcore s))) = 6" and "length (lp_dst_mac (lc_lport (l_lcore s))) = 6"
    and "\<forall>m \<in> set ms. 14 \<le> length (m_data m)" and "0 < i"
  shows "\<exists>ms'. lt_tx_loop s t i ms = Some ms' \<and> map m_id ms' = map m_id ms \<and>
     (\<forall>m \<in> set ms'. lt_frame s m \<and> m_ol_flags m AND lt_marks s = 0)"
  using assms(3,4)
proof (induction ms arbitrary: i)
  case (Cons m ms)
  obtain m' where "lt_tx_packet s t False m = Some m'" "lt_frame s m'" "m_id m' = m_id m" "m_ol_flags m' AND lt_marks s = 0"
    using lt_tx_packet_ok [OF assms(1,2), of m t False] Cons.prems(1) by auto
  moreover obtain ms' where "lt_tx_loop s t (i + 1) ms = Some ms'" "map m_id ms' = map m_id ms"
    "\<forall>m \<in> set ms'. lt_frame s m \<and> m_ol_flags m AND lt_marks s = 0"
    using Cons.IH [of "i + 1"] Cons.prems(1) by auto
  ultimately show ?case using Cons.prems(2) by simp
qed simp


section \<open>Receiving\<close>

fun lt_rx_rounds :: "lt_env \<Rightarrow> nat \<Rightarrow> lt \<Rightarrow> lt option" where
  "lt_rx_rounds E 0 s = Some s"
| "lt_rx_rounds E (Suc n) s = do { (_, s) \<leftarrow> lt_rx_timestamping E s; lt_rx_rounds E n s }"

text \<open>The burst \<open>i\<close> from now is complete and its first packet has the device time \<open>t\<close>, which is not zero.\<close>

definition burst_at :: "lt_env \<Rightarrow> lt \<Rightarrow> nat \<Rightarrow> u64 \<Rightarrow> bool" where
  "burst_at E s i t \<longleftrightarrow> (let ms = le_rx E (l_rx_calls s + i) in
     unat (lf_burst_count (l_info s)) \<le> length ms \<and> m_ol_flags (hd ms) AND lf_rx_timestamp_flag (l_info s) \<noteq> 0 \<and>
     m_dyn (hd ms) (lf_rx_timestamp_offset (l_info s)) = t \<and> t \<noteq> 0)"

definition count_ok :: "lt \<Rightarrow> bool" where
  "count_ok s \<longleftrightarrow> 0 < unat (lf_burst_count (l_info s)) \<and> unat (lf_burst_count (l_info s)) \<le> LT_MAX_BURST_COUNT"

lemma lt_rx_one:
  assumes "burst_at E s 0 t" and "count_ok s"
  shows "\<exists>s'. lt_rx_timestamping E s = Some (0, s') \<and> l_info s' = l_info s \<and> l_rx_calls s' = l_rx_calls s + 1 \<and> l_prev_rx s' = t \<and>
     l_freed s' = l_freed s @ take (unat (lf_burst_count (l_info s))) (le_rx E (l_rx_calls s)) \<and>
     ls_launch_time (lc_stats (l_lcore s')) = (if l_prev_rx s = 0 then ls_launch_time (lc_stats (l_lcore s))
        else lt_min_avg_max_update (t - l_prev_rx s) (ls_launch_time (lc_stats (l_lcore s))))"
proof -
  let ?n = "unat (lf_burst_count (l_info s))" and ?ms = "le_rx E (l_rx_calls s)"
  have b: "?n \<le> length ?ms" "m_ol_flags (hd ?ms) AND lf_rx_timestamp_flag (l_info s) \<noteq> 0"
    "m_dyn (hd ?ms) (lf_rx_timestamp_offset (l_info s)) = t" "0 < ?n" "?n \<le> LT_MAX_BURST_COUNT"
    using assms by (simp_all add: burst_at_def count_ok_def Let_def)
  then obtain m ms where m: "take ?n ?ms = m # ms" by (cases ?ms; cases ?n) auto
  then have "hd ?ms = m" by (metis b(4) hd_take list.sel(1))
  moreover have "length (m # ms) = ?n" using m b(1) by (metis length_take min.absorb2)
  ultimately show ?thesis using b m
    by (simp add: lt_rx_timestamping_def lt_rx_burst_done_def lt_rx_time_def upd_lt_stats_def lt_free_def Let_def)
qed

fun diffs :: "u64 list \<Rightarrow> u64 list" where
  "diffs (a # b # ts) = (b - a) # diffs (b # ts)"
| "diffs ts = []"

lemma sum_diffs: "sum_list (diffs (a # ts)) = last (a # ts) - a"
  by (induction ts arbitrary: a) auto

lemma length_diffs: "length (diffs (a # ts)) = length ts"
  by (induction ts arbitrary: a) auto

lemma fold_mma: "sum_ns (fold lt_min_avg_max_update ds m) = sum_ns m + sum_list ds \<and>
   count_ns (fold lt_min_avg_max_update ds m) = count_ns m + of_nat (length ds)"
  by (induction ds arbitrary: m) (auto simp: lt_min_avg_max_update_def Let_def)

lemma burst_at_later:
  assumes "l_info s' = l_info s" and "l_rx_calls s' = l_rx_calls s + 1"
  shows "burst_at E s' i t = burst_at E s (Suc i) t"
  using assms by (simp add: burst_at_def)

lemma lt_rx_rounds_from:
  assumes "\<forall>i < length ts. burst_at E s i (ts ! i)" and "count_ok s" and "l_prev_rx s \<noteq> 0"
  shows "\<exists>s'. lt_rx_rounds E (length ts) s = Some s' \<and> l_prev_rx s' = last (l_prev_rx s # ts) \<and>
     ls_launch_time (lc_stats (l_lcore s')) = fold lt_min_avg_max_update (diffs (l_prev_rx s # ts)) (ls_launch_time (lc_stats (l_lcore s)))"
  using assms
proof (induction ts arbitrary: s)
  case (Cons t ts)
  have b: "burst_at E s 0 t" using Cons.prems(1) by force
  obtain s1 where s1: "lt_rx_timestamping E s = Some (0, s1)" "l_info s1 = l_info s" "l_rx_calls s1 = l_rx_calls s + 1" "l_prev_rx s1 = t"
    "ls_launch_time (lc_stats (l_lcore s1)) = lt_min_avg_max_update (t - l_prev_rx s) (ls_launch_time (lc_stats (l_lcore s)))"
    using lt_rx_one [OF b Cons.prems(2)] Cons.prems(3) by auto
  have "\<forall>i < length ts. burst_at E s1 i (ts ! i)" using Cons.prems(1) burst_at_later [OF s1(2,3)] by fastforce
  moreover have "count_ok s1" "l_prev_rx s1 \<noteq> 0" using Cons.prems(2) s1(2,4) b by (simp_all add: count_ok_def burst_at_def Let_def)
  ultimately obtain s' where "lt_rx_rounds E (length ts) s1 = Some s'" "l_prev_rx s' = last (l_prev_rx s1 # ts)"
    "ls_launch_time (lc_stats (l_lcore s')) = fold lt_min_avg_max_update (diffs (l_prev_rx s1 # ts)) (ls_launch_time (lc_stats (l_lcore s1)))"
    using Cons.IH by blast
  then show ?case using s1 by simp
qed simp


section \<open>An example\<close>

definition ex_tmbuf :: "nat \<Rightarrow> u64 \<Rightarrow> tmbuf" where
  "ex_tmbuf i t = \<lparr>m_id = i, m_data = replicate 64 0, m_pkt_len = 60, m_data_len = 60, m_ol_flags = 1, m_dyn = (\<lambda>_. t)\<rparr>"

definition ex_lt :: lt where
  "ex_lt = \<lparr>l_info = zero_lt_info\<lparr>lf_flags := flag_set L_LAUNCH_TIME 1, lf_burst_count := 2, lf_pkt_length := 60,
       lf_rx_timestamp_flag := 1, lf_tx_timestamp_flag := 2\<rparr>,
     l_lcore = \<lparr>lc_lport = zero_lt_lport, lc_stats = zero_lt_stats\<rparr>, l_prev_rx = 0, l_pool = [ex_tmbuf 1 0, ex_tmbuf 2 0], l_wire = [],
     l_freed = [], l_sleeps = [], l_ticks = 0, l_port_ticks = 0, l_polls = 0, l_links = 0, l_tx_calls = 0, l_rx_calls = 0\<rparr>"

definition ex_lt_env :: lt_env where
  "ex_lt_env = \<lparr>le_clock = (\<lambda>_. None), le_port_clock = (\<lambda>_. Some 77), le_flag = (\<lambda>k. k < 3), le_link = (\<lambda>_. None), le_nic = (\<lambda>_. 1),
     le_rx = (\<lambda>k. [ex_tmbuf 7 (1000 + 250 * of_nat k), ex_tmbuf 8 0])\<rparr>"



end
