(* ===== verification/Lt_Io.thy ===== *)
theory Lt_Io
  imports Lt Ring_Service
begin

text \<open>
  The log (\<^verbatim>\<open>apps/launch-time/log.c\<close>) and the MQTT publisher (\<^verbatim>\<open>mqtt.c\<close>) of the launch-time test:
  rings of lines and of statistics, written to a file by the main thread and published by
  the MQTT thread. How much a ring holds is a parameter, as is the mosquitto library.
  \<open>None\<close> is the use of a null or released object.
\<close>

section \<open>State\<close>

definition LT_LOG_BUFFER_POOL_COUNT :: nat where "LT_LOG_BUFFER_POOL_COUNT = 4 * 1024"
definition LT_LOG_BUFFER_SIZE :: nat where "LT_LOG_BUFFER_SIZE = 2048"
definition LT_LOG_BURST_COUNT :: nat where "LT_LOG_BURST_COUNT = 256"
definition LT_MQTT_BUFFER_COUNT :: nat where "LT_MQTT_BUFFER_COUNT = 256"
definition LT_MQTT_BUFFER_SIZE :: nat where "LT_MQTT_BUFFER_SIZE = 4096"

record lt_log_t =
  lg_ring :: "string list obj"
  lg_pool :: "nat obj"
  lg_fd :: "string obj"
  lg_file :: "string option"

record lt_mqtt_statistics_t =
  lm_timestamp :: u64
  lm_stats :: lt_stats_t
  lm_port :: port_stats_t

record lt_mqtt_t =
  lq_ring :: "lt_mqtt_statistics_t list obj"
  lq_pool :: "nat obj"
  lq_mosq :: "unit obj"
  lq_message :: "unit obj"

record lt_app =
  la_info :: lt_info_t
  la_log :: lt_log_t
  la_mqtt :: lt_mqtt_t
  la_files :: "string list"
  la_calls :: "mosq_call list"

definition zero_lt_log :: lt_log_t where
  "zero_lt_log = \<lparr>lg_ring = Null, lg_pool = Null, lg_fd = Null, lg_file = None\<rparr>"

definition zero_lt_mqtt :: lt_mqtt_t where
  "zero_lt_mqtt = \<lparr>lq_ring = Null, lq_pool = Null, lq_mosq = Null, lq_message = Null\<rparr>"

definition upd_la_log :: "(lt_log_t \<Rightarrow> lt_log_t) \<Rightarrow> lt_app \<Rightarrow> lt_app" where
  "upd_la_log f a = a\<lparr>la_log := f (la_log a)\<rparr>"

definition upd_la_mqtt :: "(lt_mqtt_t \<Rightarrow> lt_mqtt_t) \<Rightarrow> lt_app \<Rightarrow> lt_app" where
  "upd_la_mqtt f a = a\<lparr>la_mqtt := f (la_mqtt a)\<rparr>"

definition la_flag :: "nat \<Rightarrow> lt_app \<Rightarrow> bool" where
  "la_flag n a = flag_tst n (lf_flags (la_info a))"

definition upd_la_flags :: "(u32 \<Rightarrow> u32) \<Rightarrow> lt_app \<Rightarrow> lt_app" where
  "upd_la_flags f a = a\<lparr>la_info := (la_info a)\<lparr>lf_flags := f (lf_flags (la_info a))\<rparr>\<rparr>"

section \<open>The log\<close>

definition lt_close_file :: "lt_app \<Rightarrow> lt_app option" where
  "lt_close_file a =
     (case lg_fd (la_log a) of
        Null \<Rightarrow> Some a
      | Released \<Rightarrow> None
      | Alive c \<Rightarrow> Some ((upd_la_log (\<lambda>l. l\<lparr>lg_fd := Released\<rparr>) a)\<lparr>la_files := la_files a @ [c]\<rparr>))"

definition lt_log_open :: "app_io \<Rightarrow> lt_app \<Rightarrow> (int \<times> lt_app) option" where
  "lt_log_open I a = do {
     a \<leftarrow> lt_close_file a;
     if lg_file (la_log a) = None then Some (0, a)
     else if io_open_ok I then Some (0, upd_la_log (\<lambda>l. l\<lparr>lg_fd := Alive []\<rparr>) a)
     else Some (-1, upd_la_log (\<lambda>l. l\<lparr>lg_fd := Null\<rparr>) a)
   }"

definition lt_log_init :: "app_io \<Rightarrow> string \<Rightarrow> lt_app \<Rightarrow> (int \<times> lt_app) option" where
  "lt_log_init I logfile a =
     (if \<not> io_ring_ok I then Some (- ENOMEM, upd_la_log (\<lambda>l. l\<lparr>lg_ring := Null\<rparr>) a)
      else if \<not> io_pool_ok I then Some (- ENOMEM, upd_la_log (\<lambda>l. l\<lparr>lg_pool := Null, lg_ring := Null\<rparr>) a)
      else if \<not> io_alloc_ok I
      then Some (- ENOMEM, upd_la_log (\<lambda>l. l\<lparr>lg_file := None, lg_pool := Null, lg_ring := Null\<rparr>) a)
      else lt_log_open I (upd_la_log (\<lambda>l. l\<lparr>lg_ring := Alive [], lg_pool := Alive LT_LOG_BUFFER_POOL_COUNT,
                                            lg_file := Some logfile\<rparr>) a))"

definition lt_log_text :: "timespec \<Rightarrow> string \<Rightarrow> string" where
  "lt_log_text t msg =
     (let len = LT_LOG_BUFFER_SIZE - 1;
          hdr = ''['' @ pad_left 8 (fmt_int (tv_sec t)) @ ''.'' @ pad_left 9 (fmt_int (tv_nsec t)) @ '']: '' in
      if 0 < length hdr \<and> length hdr < len then hdr @ take (len - length hdr - 1) msg else take (len - 1) msg)"

definition lt_log_message :: "app_io \<Rightarrow> timespec option \<Rightarrow> string \<Rightarrow> lt_app \<Rightarrow> lt_app option" where
  "lt_log_message I now msg a =
     (if \<not> la_flag L_LOG a then Some a
      else do {
        n \<leftarrow> alive (lg_pool (la_log a));
        if n = 0 then Some a
        else do {
          q \<leftarrow> alive (lg_ring (la_log a));
          let txt = lt_log_text (case now of None \<Rightarrow> \<lparr>tv_sec = 0, tv_nsec = 0\<rparr> | Some t \<Rightarrow> t) msg;
          if length q \<ge> io_ring_cap I then Some a
          else Some (upd_la_log (\<lambda>l. l\<lparr>lg_ring := Alive (q @ [txt]), lg_pool := Alive (n - 1)\<rparr>) a)
        }
      })"

text \<open>A burst of lines is written if the file is open; its buffers go back in any case. The fuel is the length of the ring.\<close>

fun lt_flush_loop :: "nat \<Rightarrow> lt_app \<Rightarrow> lt_app option" where
  "lt_flush_loop 0 a = None"
| "lt_flush_loop (Suc k) a = do {
     q \<leftarrow> alive (lg_ring (la_log a));
     if q = [] then Some a
     else do {
       let b = take LT_LOG_BURST_COUNT q;
       fd \<leftarrow> (case lg_fd (la_log a) of Null \<Rightarrow> Some Null | Released \<Rightarrow> None
              | Alive f \<Rightarrow> Some (Alive (f @ concat (map (\<lambda>s. s @ [CHR 0x0A]) b))));
       n \<leftarrow> alive (lg_pool (la_log a));
       lt_flush_loop k (upd_la_log (\<lambda>l. l\<lparr>lg_ring := Alive (drop LT_LOG_BURST_COUNT q), lg_fd := fd, lg_pool := Alive (n + length b)\<rparr>) a)
     }
   }"

definition lt_flush_logs :: "lt_app \<Rightarrow> lt_app option" where
  "lt_flush_logs a =
     (if \<not> la_flag L_LOG a \<or> lg_ring (la_log a) = Null then Some a
      else do { q \<leftarrow> alive (lg_ring (la_log a)); lt_flush_loop (Suc (length q)) a })"

definition lt_log_flush :: "lt_app \<Rightarrow> lt_app option" where
  "lt_log_flush a = do {
     a \<leftarrow> lt_flush_logs a;
     if lg_fd (la_log a) = Null then Some a else do { _ \<leftarrow> alive (lg_fd (la_log a)); Some a }
   }"

definition lt_log_close :: "lt_app \<Rightarrow> lt_app option" where
  "lt_log_close a =
     (if \<not> la_flag L_LOG a then Some a
      else do {
        a \<leftarrow> lt_log_flush (upd_la_flags (flag_clr L_LOG) a);
        _ \<leftarrow> release (lg_ring (la_log a));
        _ \<leftarrow> release (lg_pool (la_log a));
        a \<leftarrow> lt_close_file a;
        Some (upd_la_log (\<lambda>_. zero_lt_log) a)
      })"

section \<open>MQTT\<close>

definition lt_lib :: "mosq_lib \<Rightarrow> mosq_call \<Rightarrow> lt_app \<Rightarrow> int \<times> lt_app" where
  "lt_lib L x a = (L (la_calls a) x, a\<lparr>la_calls := la_calls a @ [x]\<rparr>)"

definition lt_mosq :: "mosq_lib \<Rightarrow> mosq_call \<Rightarrow> lt_app \<Rightarrow> (int \<times> lt_app) option" where
  "lt_mosq L x a = do { _ \<leftarrow> alive (lq_mosq (la_mqtt a)); Some (lt_lib L x a) }"

text \<open>A buffer for which there is no room in the ring is not given back.\<close>

definition lt_mqtt_stats :: "app_io \<Rightarrow> u64 \<Rightarrow> lt_stats_t \<Rightarrow> port_stats_t \<Rightarrow> lt_app \<Rightarrow> lt_app option" where
  "lt_mqtt_stats I now st pt a =
     (if \<not> la_flag L_MQTT a \<or> lq_ring (la_mqtt a) = Null \<or> lq_pool (la_mqtt a) = Null then Some a
      else do {
        n \<leftarrow> alive (lq_pool (la_mqtt a));
        if n = 0 then Some a
        else do {
          let a = upd_la_mqtt (\<lambda>m. m\<lparr>lq_pool := Alive (n - 1)\<rparr>) a;
          q \<leftarrow> alive (lq_ring (la_mqtt a));
          if length q \<ge> io_ring_cap I then Some a
          else Some (upd_la_mqtt (\<lambda>m. m\<lparr>lq_ring := Alive (q @ [\<lparr>lm_timestamp = now, lm_stats = st, lm_port = pt\<rparr>])\<rparr>) a)
        }
      })"

definition lt_clamp_written :: "int \<Rightarrow> nat \<Rightarrow> nat" where
  "lt_clamp_written written avail = (if written < 0 then 0 else if nat written > avail then avail else nat written)"

text \<open>
  \<^verbatim>\<open>snprintf\<close> into the rest of the message, and the pointer moved on by what it returned, at
  most to the end; text that does not fit ends with a zero byte in the middle.
\<close>

definition lt_append :: "string \<Rightarrow> string \<times> nat \<Rightarrow> string \<times> nat" where
  "lt_append txt = (\<lambda>(s, len).
     let w = lt_clamp_written (int (length txt)) len in
     if length txt < len then (s @ txt, len - w)
     else if len = 0 then (s, 0) else (s @ take (len - 1) txt @ [CHR 0x00], len - w))"

definition lt_append_mqtt_stats :: "string \<Rightarrow> u64 \<Rightarrow> string \<times> nat \<Rightarrow> string \<times> nat" where
  "lt_append_mqtt_stats nm v = lt_append (tabs 3 @ QT @ nm @ QT @ '' : '' @ fmt_u64 v @ '','' @ NL)"

definition lt_stats_fields :: "lt_stats_t \<Rightarrow> port_stats_t \<Rightarrow> (string \<times> u64) list" where
  "lt_stats_fields st p =
     [(''rxPPS'', ls_rx_pps st), (''txPPS'', ls_tx_pps st), (''noMBufs'', ls_no_mbufs st), (''totalPktsRx'', ls_total_rx st),
      (''totalPktsTx'', ls_total_tx st), (''ipackets'', ps_ipackets p), (''opackets'', ps_opackets p), (''ibytes'', ps_ibytes p),
      (''obytes'', ps_obytes p), (''imissed'', ps_imissed p), (''ierrors'', ps_ierrors p), (''oerrors'', ps_oerrors p),
      (''rxNoMbuf'', ps_rx_nombuf p)]"

definition lt_stats_message :: "lt_mqtt_statistics_t \<Rightarrow> string" where
  "lt_stats_message m =
     (let b = lt_append (''{'' @ NL @ tabs 1 @ QT @ ''reference'' @ QT @ '': {'' @ NL @ tabs 2 @ QT @ ''Timestamp'' @ QT @ '':'' @
                fmt_u64 (lm_timestamp m) @ '','' @ NL @ tabs 2 @ QT @ ''MeasurementName'' @ QT @ '':'' @ QT @ ''lttt-stats'' @ QT @ '','' @ NL @
                tabs 2 @ QT @ ''stats'' @ QT @ '': {'' @ NL) ([], LT_MQTT_BUFFER_SIZE - 1);
          (s, len) = fold (\<lambda>(nm, v). lt_append_mqtt_stats nm v) (lt_stats_fields (lm_stats m) (lm_port m)) b;
          (s, len) = lt_append (NL @ tabs 2 @ ''}'' @ tabs 2 @ NL @ tabs 1 @ ''}'' @ NL @ ''}'' @ NL) (take (length s - 2) s, len + 2)
      in takeWhile (\<lambda>ch. ch \<noteq> CHR 0x00) s)"

fun lt_mqtt_publish :: "app_io \<Rightarrow> mosq_lib \<Rightarrow> lt_mqtt_statistics_t list \<Rightarrow> lt_app \<Rightarrow> (int \<times> lt_app) option" where
  "lt_mqtt_publish I L [] a = Some (0, a)"
| "lt_mqtt_publish I L (m # ms) a = do {
     _ \<leftarrow> alive (lq_message (la_mqtt a));
     a \<leftarrow> lt_log_message I (io_now I (length (la_calls a))) (''stats:'' @ lt_stats_message m @ NL) a;
     (r, a) \<leftarrow> lt_mosq L (Publish ''lttt-data'' (lt_stats_message m) 2 False) a;
     if r \<noteq> 0 then Some (-1, a) else lt_mqtt_publish I L ms a
   }"

definition lt_mqtt_add_stats :: "app_io \<Rightarrow> mosq_lib \<Rightarrow> lt_app \<Rightarrow> (int \<times> lt_app) option" where
  "lt_mqtt_add_stats I L a =
     (if \<not> la_flag L_MQTT a \<or> lq_ring (la_mqtt a) = Null \<or> lq_pool (la_mqtt a) = Null then Some (0, a)
      else do {
        q \<leftarrow> alive (lq_ring (la_mqtt a));
        let b = take LT_MQTT_BUFFER_COUNT q;
        if b = [] then Some (0, a)
        else do {
          (r, a) \<leftarrow> lt_mqtt_publish I L b (upd_la_mqtt (\<lambda>m. m\<lparr>lq_ring := Alive (drop LT_MQTT_BUFFER_COUNT q)\<rparr>) a);
          if r \<noteq> 0 then Some (r, a)
          else do { n \<leftarrow> alive (lq_pool (la_mqtt a)); Some (0, upd_la_mqtt (\<lambda>m. m\<lparr>lq_pool := Alive (n + length b)\<rparr>) a) }
        }
      })"

definition lt_mqtt_on_connect :: "mosq_lib \<Rightarrow> int \<Rightarrow> lt_app \<Rightarrow> lt_app option" where
  "lt_mqtt_on_connect L reason_code a = (if reason_code \<noteq> 0 then map_option snd (lt_mosq L Disconnect a) else Some a)"

definition lt_mqtt_close :: "mosq_lib \<Rightarrow> lt_app \<Rightarrow> lt_app option" where
  "lt_mqtt_close L a =
     (if \<not> la_flag L_MQTT a then Some a
      else do {
        let a = upd_la_flags (flag_clr L_MQTT) a;
        a \<leftarrow> (if lq_mosq (la_mqtt a) \<noteq> Null
              then do {
                (_, a) \<leftarrow> lt_mosq L Disconnect a;
                (_, a) \<leftarrow> lt_mosq L (Loop_Stop True) a;
                (_, a) \<leftarrow> lt_mosq L Destroy a;
                Some a
              }
              else Some a);
        let a = snd (lt_lib L Lib_Cleanup a);
        _ \<leftarrow> release (lq_ring (la_mqtt a));
        _ \<leftarrow> release (lq_pool (la_mqtt a));
        _ \<leftarrow> release (lq_message (la_mqtt a));
        Some (upd_la_mqtt (\<lambda>_. zero_lt_mqtt) a)
      })"

definition lt_mqtt_init :: "app_io \<Rightarrow> lt_app \<Rightarrow> int \<times> lt_app" where
  "lt_mqtt_init I a =
     (if \<not> io_ring_ok I then (- ENOMEM, upd_la_mqtt (\<lambda>m. m\<lparr>lq_ring := Null\<rparr>) a)
      else if \<not> io_pool_ok I then (- ENOMEM, upd_la_mqtt (\<lambda>m. m\<lparr>lq_pool := Null, lq_ring := Null\<rparr>) a)
      else if \<not> io_alloc_ok I then (- ENOMEM, upd_la_mqtt (\<lambda>m. m\<lparr>lq_message := Null, lq_pool := Null, lq_ring := Null\<rparr>) a)
      else (0, upd_la_mqtt (\<lambda>m. m\<lparr>lq_ring := Alive [], lq_pool := Alive LT_MQTT_BUFFER_COUNT, lq_message := Alive ()\<rparr>) a))"

record lt_mqtt_round =
  lr_running :: bool
  lr_sleep_ok :: bool
  lr_others :: "lt_app \<Rightarrow> lt_app option"

fun lt_mqtt_rounds :: "app_io \<Rightarrow> mosq_lib \<Rightarrow> lt_mqtt_round list \<Rightarrow> lt_app \<Rightarrow> (int \<times> lt_app) option" where
  "lt_mqtt_rounds I L [] a = Some (0, a)"
| "lt_mqtt_rounds I L (r # rs) a =
     (if \<not> lr_running r then Some (0, a)
      else if \<not> lr_sleep_ok r then map_option (\<lambda>a. (-1, a)) (lt_mqtt_close L a)
      else do {
        a \<leftarrow> lr_others r a;
        (e, a) \<leftarrow> lt_mqtt_add_stats I L a;
        if e \<noteq> 0 then Some (0, a) else lt_mqtt_rounds I L rs a
      })"

definition lt_mqtt_thread_routine :: "app_io \<Rightarrow> mosq_lib \<Rightarrow> bool \<Rightarrow> lt_mqtt_round list \<Rightarrow> lt_app \<Rightarrow> (int \<times> lt_app) option" where
  "lt_mqtt_thread_routine I L clock_ok rs a =
     (let a = snd (lt_lib L Lib_Init a);
          (p, a) = lt_lib L (New True) a;
          a = upd_la_mqtt (\<lambda>m. m\<lparr>lq_mosq := if p = 0 then Null else Alive ()\<rparr>) a;
          fail = (\<lambda>a. map_option (\<lambda>a. (-1, a)) (lt_mqtt_close L a)) in
      if p = 0 then fail a
      else do {
        (r, a) \<leftarrow> lt_mosq L (Connect (map of_char ''127.0.0.1'') 1883 60) a;
        if r \<noteq> 0 then fail a
        else do {
          (_, a) \<leftarrow> lt_mosq L Connect_Callback_Set a;
          (r, a) \<leftarrow> lt_mosq L Loop_Start a;
          if r \<noteq> 0 then fail a
          else if \<not> clock_ok then fail a
          else lt_mqtt_rounds I L rs a
        }
      })"

end
