(* ===== verification/Lt_Main.thy ===== *)
theory Lt_Main
  imports Lt_Io Ratt_Main
begin

text \<open>
  The main thread of the launch-time test: the command line (\<^verbatim>\<open>apps/launch-time/parse-args.c\<close>), the
  numbers on the screen (\<^verbatim>\<open>stats.c\<close>), the keyboard (\<^verbatim>\<open>keyboard.c\<close>), the set-up of the port
  (\<^verbatim>\<open>port-setup.c\<close>) and \<^verbatim>\<open>main\<close> (\<^verbatim>\<open>launch-time.c\<close>). The layout of the screen and the wire time shown
  there are left out. \<open>Exited\<close> is \<^verbatim>\<open>rte_exit\<close> or \<^verbatim>\<open>exit\<close>.
\<close>

section \<open>The command line\<close>

datatype lt_option =
    T_launch_interval string | T_burst_length string | T_dest_mac string | T_log_file string | T_mqtt | T_link_speed string
  | T_run_duration string | T_promiscuous | T_launch_time | T_hw_timestamp | T_help | T_delay_time string
  | T_tx_burst_offset string | T_unknown

definition upd_la_info :: "(lt_info_t \<Rightarrow> lt_info_t) \<Rightarrow> lt_app \<Rightarrow> lt_app" where
  "upd_la_info f a = a\<lparr>la_info := f (la_info a)\<rparr>"

text \<open>The formats of the duration by the number of colons.\<close>

definition lt_duration_values :: "string \<Rightarrow> (u32 \<times> u32 \<times> u32) option" where
  "lt_duration_values s =
     (let col = CHR '':''; u = (\<lambda>v. ucast v :: u32);
          n = count_chr s col in
      if n = 0 then (case sscanf_u [U] s of [x] \<Rightarrow> Some (0, 0, u x) | _ \<Rightarrow> None)
      else if n = 1 then
        (if take 1 s = [col] then (case sscanf_u [Lit col, U] s of [x] \<Rightarrow> Some (0, 0, u x) | _ \<Rightarrow> None)
         else (case sscanf_u [U, Lit col, U] s of [m, x] \<Rightarrow> Some (0, u m, u x) | _ \<Rightarrow> None))
      else if n = 2 then
        (if take 2 s = [col, col] then (case sscanf_u [Lit col, Lit col, U] s of [x] \<Rightarrow> Some (0, 0, u x) | _ \<Rightarrow> None)
         else if take 1 s = [col] then (case sscanf_u [Lit col, U, Lit col, U] s of [m, x] \<Rightarrow> Some (0, u m, u x) | _ \<Rightarrow> None)
         else (case sscanf_u [U, Lit col, U, Lit col, U] s of [h, m, x] \<Rightarrow> Some (u h, u m, u x) | _ \<Rightarrow> None))
      else None)"

definition lt_process_duration :: "args_env \<Rightarrow> string \<Rightarrow> lt_app \<Rightarrow> lt_app run" where
  "lt_process_duration A s a =
     (case lt_duration_values s of
        None \<Rightarrow> Exited a
      | Some (hours, minutes, seconds) \<Rightarrow>
          if hours > 99999 \<or> minutes > 59 \<or> seconds > 59 then Exited a
          else let d = pad_zero 3 (unat hours) @ '':'' @ pad_zero 2 (unat minutes) @ '':'' @ pad_zero 2 (unat seconds);
                   a = upd_la_info (\<lambda>i. i\<lparr>lf_run_duration_sec := hours * 3600 + minutes * 60 + seconds\<rparr>) a in
               if ae_dup_ok A d then Returned 0 (upd_la_info (\<lambda>i. i\<lparr>lf_run_duration_str := Some d\<rparr>) a)
               else Exited (upd_la_info (\<lambda>i. i\<lparr>lf_run_duration_str := None\<rparr>) a))"

definition lt_clip_length :: "u16 \<Rightarrow> u16" where
  "lt_clip_length l = (if l > MAX_PKT_LENGTH then MAX_PKT_LENGTH else if l < MIN_PKT_LENGTH then MIN_PKT_LENGTH else l) - FCS_SIZE"

definition lt_set_burst :: "args_env \<Rightarrow> string \<Rightarrow> lt_app \<Rightarrow> lt_app run" where
  "lt_set_burst A arg a =
     (if count_chr arg (CHR ''/'') \<noteq> 1 then Exited a
      else case sscanf_u [U, Lit (CHR ''/''), U] arg of
        [b, l] \<Rightarrow>
          (let a = upd_la_info (\<lambda>i. i\<lparr>lf_burst_count := ucast b, lf_pkt_length := ucast l\<rparr>) a in
           if unat (lf_burst_count (la_info a)) > LT_MAX_BURST_COUNT then Exited a
           else let a = upd_la_info (\<lambda>i. i\<lparr>lf_pkt_length := lt_clip_length (lf_pkt_length i)\<rparr>) a in
             if ae_dup_ok A arg then Returned 0 (upd_la_info (\<lambda>i. i\<lparr>lf_burst_length_str := Some arg\<rparr>) a)
             else Exited (upd_la_info (\<lambda>i. i\<lparr>lf_burst_length_str := None\<rparr>) a))
      | _ \<Rightarrow> Exited a)"

definition lt_number :: "string \<Rightarrow> u64 \<Rightarrow> (u64 \<Rightarrow> lt_info_t \<Rightarrow> lt_info_t) \<Rightarrow> lt_app \<Rightarrow> lt_app run" where
  "lt_number arg limit set_it a =
     (case strtoul0 arg of (v, err, whole) \<Rightarrow>
        if err \<or> \<not> whole \<or> v > limit then Exited a else Returned 0 (upd_la_info (set_it v) a))"

fun lt_parse_option :: "args_env \<Rightarrow> app_io \<Rightarrow> lt_option \<Rightarrow> lt_app \<Rightarrow> lt_app run option" where
  "lt_parse_option A I (T_launch_interval s) a =
     Some (case strtoul0 s of (v, err, whole) \<Rightarrow>
             let a = upd_la_info (\<lambda>i. i\<lparr>lf_launch_interval_ns := v\<rparr>) a in if err \<or> \<not> whole then Exited a else Returned 0 a)"
| "lt_parse_option A I (T_burst_length s) a = Some (lt_set_burst A s a)"
| "lt_parse_option A I (T_dest_mac s) a =
     Some (if ae_dup_ok A s then Returned 0 (upd_la_info (\<lambda>i. i\<lparr>lf_dest_mac_str := Some s\<rparr>) a)
           else Exited (upd_la_info (\<lambda>i. i\<lparr>lf_dest_mac_str := None\<rparr>) a))"
| "lt_parse_option A I (T_delay_time s) a = Some (lt_number s 0xFFFF (\<lambda>v i. i\<lparr>lf_delay_sec := ucast v\<rparr>) a)"
| "lt_parse_option A I (T_log_file s) a =
     (if la_flag L_LOG a then Some (Returned 0 (upd_la_flags (flag_set L_LOG) a))
      else do {
        (r, a) \<leftarrow> lt_log_init I s a;
        Some (if r \<noteq> 0 then Exited a else Returned 0 (upd_la_flags (flag_set L_LOG) a))
      })"
| "lt_parse_option A I T_mqtt a =
     (if la_flag L_MQTT a then Some (Returned 0 (upd_la_flags (flag_set L_MQTT) a))
      else case lt_mqtt_init I a of (r, a) \<Rightarrow> Some (if r \<noteq> 0 then Exited a else Returned 0 (upd_la_flags (flag_set L_MQTT) a)))"
| "lt_parse_option A I (T_link_speed s) a = Some (lt_number s 0xFFFFFFFF (\<lambda>v i. i\<lparr>lf_link_speed := ucast v\<rparr>) a)"
| "lt_parse_option A I (T_run_duration s) a = Some (lt_process_duration A s a)"
| "lt_parse_option A I T_promiscuous a = Some (Returned 0 (upd_la_flags (flag_set L_PROMISCUOUS) a))"
| "lt_parse_option A I T_launch_time a = Some (Returned 0 (upd_la_flags (flag_set L_LAUNCH_TIME) a))"
| "lt_parse_option A I T_hw_timestamp a = Some (Returned 0 (upd_la_flags (flag_set L_HW_TIMESTAMP) a))"
| "lt_parse_option A I (T_tx_burst_offset s) a = Some (lt_number s 0xFFFFFFFF (\<lambda>v i. i\<lparr>lf_tx_burst_offset_ns := ucast v\<rparr>) a)"
| "lt_parse_option A I T_help a = Some (Exited a)"
| "lt_parse_option A I T_unknown a = Some (Exited a)"

fun lt_parse_options :: "args_env \<Rightarrow> app_io \<Rightarrow> lt_option list \<Rightarrow> lt_app \<Rightarrow> lt_app run option" where
  "lt_parse_options A I [] a = Some (Returned 0 a)"
| "lt_parse_options A I (x # xs) a = do {
     r \<leftarrow> lt_parse_option A I x a;
     (case r of Exited a \<Rightarrow> Some (Exited a) | Returned _ a \<Rightarrow> lt_parse_options A I xs a)
   }"

text \<open>The default of the offset: two per cent of the interval, at most 60 microseconds; the quotient is cut to 32 bits.\<close>

definition lt_default_offset :: "lt_info_t \<Rightarrow> lt_info_t" where
  "lt_default_offset i =
     (if lf_tx_burst_offset_ns i = 0
      then let calculated_offset = ucast (lf_launch_interval_ns i div 50) :: u32 in
           i\<lparr>lf_tx_burst_offset_ns := if calculated_offset < 60000 then calculated_offset else 60000\<rparr>
      else i)"

definition lt_parse_args :: "args_env \<Rightarrow> app_io \<Rightarrow> lt_option list \<Rightarrow> lt_app \<Rightarrow> lt_app run option" where
  "lt_parse_args A I xs a =
     (let a = upd_la_info (\<lambda>i. i\<lparr>lf_delay_sec := DEFAULT_DELAY_SEC, lf_link_speed := RTE_ETH_SPEED_NUM_UNKNOWN\<rparr>) a in
      if \<not> ae_dup_ok A ''000:00:00'' then Some (Exited (upd_la_info (\<lambda>i. i\<lparr>lf_run_duration_str := None\<rparr>) a))
      else let a = upd_la_info (\<lambda>i. i\<lparr>lf_run_duration_str := Some ''000:00:00''\<rparr>) a in
      if \<not> ae_dup_ok A ''FF:FF:FF:FF:FF:FF'' then Some (Exited (upd_la_info (\<lambda>i. i\<lparr>lf_dest_mac_str := None\<rparr>) a))
      else do {
        r \<leftarrow> lt_parse_options A I xs (upd_la_info (\<lambda>i. i\<lparr>lf_dest_mac_str := Some ''FF:FF:FF:FF:FF:FF'', lf_rx_timestamp_offset := -1,
                                                           lf_tx_timestamp_offset := -1\<rparr>) a);
        (case r of
           Exited a \<Rightarrow> Some (Exited a)
         | Returned _ a \<Rightarrow>
             let i = la_info a in
             if lf_launch_interval_ns i = 0 \<or> lf_burst_count i = 0 \<or> lf_pkt_length i = 0 then Some (Exited a)
             else Some (Returned 0 (upd_la_info lt_default_offset a)))
      })"

section \<open>The screen\<close>

record lt_prog =
  lg_app :: lt_app
  lg_lcore :: lt_lcore_t
  lg_prev_rx :: u64
  lg_toggle :: nat
  lg_screens :: "(bool \<times> char \<times> (int \<times> int \<times> int) \<times> string \<times> (string \<times> u64 list) list) list"

definition upd_lg :: "(lt_app \<Rightarrow> lt_app) \<Rightarrow> lt_prog \<Rightarrow> lt_prog" where
  "upd_lg f g = g\<lparr>lg_app := f (lg_app g)\<rparr>"

definition upd_lg_flags :: "(u32 \<Rightarrow> u32) \<Rightarrow> lt_prog \<Rightarrow> lt_prog" where
  "upd_lg_flags f = upd_lg (upd_la_flags f)"

definition lt_reset_stats :: "lt_prog \<Rightarrow> lt_prog" where
  "lt_reset_stats g =
     g\<lparr>lg_lcore := (lg_lcore g)\<lparr>lc_stats := zero_lt_stats\<lparr>ls_launch_time := (ls_launch_time zero_lt_stats)\<lparr>min_ns := LT_BIG_NUM\<rparr>\<rparr>\<rparr>,
       lg_prev_rx := 0\<rparr>"

definition lt_with_avg :: "min_avg_max_t \<Rightarrow> min_avg_max_t" where
  "lt_with_avg m = m\<lparr>avg_ns := if count_ns m = 0 then 0 else sum_ns m div count_ns m\<rparr>"

definition lt_rows :: "lt_stats_t \<Rightarrow> port_stats_t \<Rightarrow> (string \<times> u64 list) list" where
  "lt_rows st p =
     [(''Launch'', [min_ns (ls_launch_time st), avg_ns (ls_launch_time st), max_ns (ls_launch_time st)]),
      (''RxMissed/RxError/TxError'', [ps_imissed p, ps_ierrors p, ps_oerrors p]), (''Total Rx/Tx Packets'', [ls_total_rx st, ls_total_tx st]),
      (''Rx/Tx PPS'', [ls_rx_pps st, ls_tx_pps st])]"

text \<open>What one call reads: the time, the counters of the port, its link, and the time of the MQTT report.\<close>

record lt_sight =
  lv_now :: "timespec option"
  lv_port :: "port_stats_t option"
  lv_link :: "eth_link option"
  lv_mqtt_now :: u64

definition lt_clear_screen :: "lt_prog \<Rightarrow> bool \<times> lt_prog" where
  "lt_clear_screen g = (if la_flag L_CLEAR_SCREEN (lg_app g) then (True, upd_lg_flags (flag_clr L_CLEAR_SCREEN) g) else (False, g))"

definition lt_print_stats :: "app_io \<Rightarrow> lt_sight \<Rightarrow> lt_prog \<Rightarrow> lt_prog option" where
  "lt_print_stats I v g =
     (case lt_clear_screen g of (clear, g) \<Rightarrow>
      let g = (if la_flag L_RESET_STATS (lg_app g) then lt_reset_stats (upd_lg_flags (flag_clr L_RESET_STATS) g) else g);
          now = (case lv_now v of None \<Rightarrow> \<lparr>tv_sec = 0, tv_nsec = 0\<rparr> | Some t \<Rightarrow> t);
          seconds = tv_sec now - tv_sec (lf_start_time (la_info (lg_app g)));
          l = lc_lport (lg_lcore g);
          prev = lp_stats l;
          p = (case lv_port v of None \<Rightarrow> prev | Some p \<Rightarrow> p);
          (txt, lk) = link_status_no_wait (lv_link v) 256 (lp_link l);
          st = lc_stats (lg_lcore g);
          st = st\<lparr>ls_launch_time := lt_with_avg (ls_launch_time st), ls_rx_pps := ps_ipackets p - ps_ipackets prev,
                  ls_tx_pps := ps_opackets p - ps_opackets prev\<rparr> in do {
        app \<leftarrow> lt_mqtt_stats I (lv_mqtt_now v) st p (lg_app g);
        Some (g\<lparr>lg_app := app, lg_lcore := \<lparr>lc_lport = l\<lparr>lp_stats_prev := prev, lp_stats := p, lp_link := lk\<rparr>, lc_stats = st\<rparr>,
                lg_toggle := lg_toggle g + 1,
                lg_screens := lg_screens g @ [(clear, [CHR ''|'', CHR ''/'', CHR ''-'', CHR 0x5C] ! (lg_toggle g mod 4),
                  (seconds sdiv 3600, (seconds smod 3600) sdiv 60, seconds smod 60), txt, lt_rows st p)]\<rparr>)
      })"

section \<open>The keyboard\<close>

definition lt_poll_keyboard :: "key_poll \<Rightarrow> char option \<Rightarrow> int \<times> char option" where
  "lt_poll_keyboard p c =
     (if kp_ready p \<and> \<not> kp_err p
      then if kp_hup p then (-1, c)
           else if kp_in p then (case kp_char p of Some d \<Rightarrow> (1, Some d) | None \<Rightarrow> (0, c))
           else (0, c)
      else (0, c))"

definition lt_stdin_setup :: "bool \<Rightarrow> bool \<Rightarrow> lt_prog \<Rightarrow> int \<times> lt_prog" where
  "lt_stdin_setup get_ok set_ok g =
     (let g = upd_lg_flags (flag_clr L_TTY_IS_INITED) g in
      if \<not> get_ok then (-1, g) else if \<not> set_ok then (-1, g) else (0, upd_lg_flags (flag_set L_TTY_IS_INITED) g))"

record lt_pass =
  lk_flag :: bool
  lk_clock :: u64
  lk_others :: "lt_prog \<Rightarrow> lt_prog option"
  lk_sight :: lt_sight
  lk_key :: key_poll

definition lt_prog_running :: "lt_pass \<Rightarrow> lt_prog \<Rightarrow> bool" where
  "lt_prog_running p g =
     (let i = la_info (lg_app g) in
      la_flag L_APP_RUNNING (lg_app g) \<and> lk_flag p \<and> \<not> (lf_run_duration_end_ns i \<noteq> 0 \<and> lk_clock p \<ge> lf_run_duration_end_ns i))"

definition lt_prog_app :: "(lt_app \<Rightarrow> lt_app option) \<Rightarrow> lt_prog \<Rightarrow> lt_prog option" where
  "lt_prog_app f g = do { a \<leftarrow> f (lg_app g); Some (g\<lparr>lg_app := a\<rparr>) }"

definition lt_key :: "app_io \<Rightarrow> char \<Rightarrow> lt_prog \<Rightarrow> lt_prog option" where
  "lt_key I c g =
     (if c = CHR ''q'' then Some (upd_lg_flags (flag_clr L_APP_RUNNING) g)
      else if c = CHR ''r''
      then do {
        g \<leftarrow> lt_prog_app (\<lambda>a. map_option snd (lt_log_open I a)) (upd_lg_flags (flag_set L_RESET_STATS) g);
        Some (upd_lg_flags (flag_set L_CLEAR_SCREEN) g)
      }
      else if c = CHR ''c'' then Some (upd_lg_flags (flag_set L_CLEAR_SCREEN) g)
      else Some g)"

text \<open>\<open>None\<close> includes the use of a character that was never read.\<close>

fun lt_keys :: "app_io \<Rightarrow> u32 \<Rightarrow> char option \<Rightarrow> lt_pass list \<Rightarrow> lt_prog \<Rightarrow> lt_prog option" where
  "lt_keys I pass_no c [] g = Some g"
| "lt_keys I pass_no c (p # ps) g = do {
     g \<leftarrow> lk_others p g;
     if \<not> lt_prog_running p g then Some g
     else do {
       g \<leftarrow> (if pass_no mod 4 = 0 then lt_print_stats I (lk_sight p) g else Some g);
       g \<leftarrow> lt_prog_app lt_log_flush g;
       (case lt_poll_keyboard (lk_key p) c of (r, c) \<Rightarrow>
          if r = 0 then lt_keys I (pass_no + 1) c ps g
          else do { d \<leftarrow> c; g \<leftarrow> lt_key I d g; lt_keys I (pass_no + 1) c ps g })
     }
   }"

record lt_keyboard_env =
  lke_now :: "timespec option"
  lke_clock :: u64
  lke_get_ok :: bool
  lke_set_ok :: bool
  lke_passes :: "lt_pass list"
  lke_last :: lt_sight

definition lt_keyboard_loop :: "app_io \<Rightarrow> mosq_lib \<Rightarrow> lt_keyboard_env \<Rightarrow> lt_prog \<Rightarrow> lt_prog option" where
  "lt_keyboard_loop I L K g =
     (let g = upd_lg_flags (flag_set L_CLEAR_SCREEN) g;
          now = (case lke_now K of None \<Rightarrow> \<lparr>tv_sec = 0, tv_nsec = 0\<rparr> | Some t \<Rightarrow> t);
          g = upd_lg (upd_la_info (\<lambda>i. i\<lparr>lf_start_time := now\<rparr>)) g;
          g = snd (lt_stdin_setup (lke_get_ok K) (lke_set_ok K) g);
          d = lf_run_duration_sec (la_info (lg_app g));
          g = (if d > 0 then upd_lg (upd_la_info (\<lambda>i. i\<lparr>lf_run_duration_end_ns := lke_clock K + ucast d * 1000000000\<rparr>)) g else g);
          g = upd_lg_flags (flag_set L_RESET_STATS) g in do {
        g \<leftarrow> lt_keys I 0 None (lke_passes K) g;
        g \<leftarrow> lt_print_stats I (lke_last K) g;
        let g = upd_lg_flags (flag_clr L_APP_RUNNING) g;
        g \<leftarrow> lt_prog_app lt_log_close g;
        lt_prog_app (lt_mqtt_close L) g
      })"

end
