(* ===== verification/Lt_Port.thy ===== *)
theory Lt_Port
  imports Lt_Main
begin

text \<open>
  The set-up of the port (\<^verbatim>\<open>apps/launch-time/port-setup.c\<close>) and \<^verbatim>\<open>main\<close> (\<^verbatim>\<open>launch-time.c\<close>). The answers of DPDK
  are a parameter and may depend on the calls made before.
\<close>

section \<open>The port\<close>

definition LT_RX_OFFLOAD_CHECKSUM :: u64 where "LT_RX_OFFLOAD_CHECKSUM = 0xE"
definition LT_RX_OFFLOAD_TIMESTAMP :: u64 where "LT_RX_OFFLOAD_TIMESTAMP = push_bit 14 1"
definition LT_TX_OFFLOAD_MBUF_FAST_FREE :: u64 where "LT_TX_OFFLOAD_MBUF_FAST_FREE = push_bit 16 1"
definition LT_TX_OFFLOAD_SEND_ON_TIMESTAMP :: u64 where "LT_TX_OFFLOAD_SEND_ON_TIMESTAMP = push_bit 21 1"

datatype lt_mq_mode = LT_MQ_NONE | LT_MQ_RSS | LT_MQ_VMDQ_RSS

record lt_conf =
  lcf_mq_mode :: lt_mq_mode
  lcf_max_lro :: u32
  lcf_rx_offloads :: u64
  lcf_tx_offloads :: u64
  lcf_rss_hf :: u64
  lcf_lsc :: bool
  lcf_link_speeds :: u32

datatype lt_call =
    T_Is_Valid u16 | T_Info u16 | T_Pool string u16 u16 nat nat nat | T_Configure u16 u16 u16 lt_conf | T_Adjust u16 u16 u16
  | T_Rx_Queue u16 u16 u16 u64 int | T_Tx_Queue u16 u16 u16 u64 | T_Macaddr u16 | T_Ptypes u16 | T_Start u16
  | T_Promiscuous u16 | T_Timesync u16 | T_Rx_Register | T_Tx_Register

record lt_dev =
  ld_max_rx_queues :: u16
  ld_rss_offloads :: u64
  ld_max_vfs :: u16
  ld_intr_lsc :: bool
  ld_rx_capa :: u64
  ld_tx_capa :: u64

text \<open>The two registrations give an offset in the mbuf and a flag.\<close>

record lt_port_env =
  lo_answer :: "lt_call list \<Rightarrow> lt_call \<Rightarrow> int"
  lo_dev :: lt_dev
  lo_desc :: "u16 \<times> u16"
  lo_mac :: bytes
  lo_unformat :: "string \<Rightarrow> bytes option"
  lo_speed_flag :: "u32 \<Rightarrow> u32"
  lo_rss_default :: u64
  lo_rx_dyn :: "int \<times> u64"
  lo_tx_dyn :: "int \<times> u64"

record lt_setup =
  lu_info :: lt_info_t
  lu_lport :: lt_lport_t
  lu_calls :: "lt_call list"

definition lt_ask :: "lt_port_env \<Rightarrow> lt_call \<Rightarrow> lt_setup \<Rightarrow> int \<times> lt_setup" where
  "lt_ask P x s = (lo_answer P (lu_calls s) x, s\<lparr>lu_calls := lu_calls s @ [x]\<rparr>)"

text \<open>A call whose result, when \<open>bad\<close>, is returned, or ends the program.\<close>

definition lt_then :: "lt_port_env \<Rightarrow> lt_call \<Rightarrow> (int \<Rightarrow> bool) \<Rightarrow> (lt_setup \<Rightarrow> lt_setup run) \<Rightarrow> lt_setup \<Rightarrow> lt_setup run" where
  "lt_then P x bad k s = (case lt_ask P x s of (r, s) \<Rightarrow> if bad r then Returned r s else k s)"

definition lt_must :: "lt_port_env \<Rightarrow> lt_call \<Rightarrow> (int \<Rightarrow> bool) \<Rightarrow> (lt_setup \<Rightarrow> lt_setup run) \<Rightarrow> lt_setup \<Rightarrow> lt_setup run" where
  "lt_must P x bad k s = (case lt_ask P x s of (r, s) \<Rightarrow> if bad r then Exited s else k s)"

definition lu_flag :: "nat \<Rightarrow> lt_setup \<Rightarrow> bool" where
  "lu_flag n s = flag_tst n (lf_flags (lu_info s))"

definition upd_lu_info :: "(lt_info_t \<Rightarrow> lt_info_t) \<Rightarrow> lt_setup \<Rightarrow> lt_setup" where
  "upd_lu_info f s = s\<lparr>lu_info := f (lu_info s)\<rparr>"

definition lt_base_conf :: "lt_port_env \<Rightarrow> lt_conf" where
  "lt_base_conf P =
     (let d = lo_dev P; rss = lo_rss_default P AND ld_rss_offloads d;
          mode = (if ld_max_rx_queues d = 1 then LT_MQ_NONE else LT_MQ_RSS);
          mode = (if ld_max_vfs d \<noteq> 0 \<and> rss \<noteq> 0 then LT_MQ_VMDQ_RSS else mode) in
      \<lparr>lcf_mq_mode = mode, lcf_max_lro = 1518, lcf_rx_offloads = LT_RX_OFFLOAD_CHECKSUM,
       lcf_tx_offloads = if ld_tx_capa d AND LT_TX_OFFLOAD_MBUF_FAST_FREE \<noteq> 0 then LT_TX_OFFLOAD_MBUF_FAST_FREE else 0,
       lcf_rss_hf = rss, lcf_lsc = ld_intr_lsc d, lcf_link_speeds = 0\<rparr>)"

text \<open>The offloads for the timestamps; a device without them ends the program.\<close>

definition lt_offloads :: "lt_port_env \<Rightarrow> lt_conf \<Rightarrow> (lt_conf \<Rightarrow> lt_setup \<Rightarrow> lt_setup run) \<Rightarrow> lt_setup \<Rightarrow> lt_setup run" where
  "lt_offloads P c k s =
     (let d = lo_dev P; hw = lu_flag L_HW_TIMESTAMP s; launch = lu_flag L_LAUNCH_TIME s in
      if hw \<and> ld_rx_capa d AND LT_RX_OFFLOAD_TIMESTAMP = 0 then Exited (upd_lu_info (\<lambda>i. i\<lparr>lf_flags := flag_clr L_HW_TIMESTAMP (lf_flags i)\<rparr>) s)
      else let c = (if hw then c\<lparr>lcf_rx_offloads := lcf_rx_offloads c OR LT_RX_OFFLOAD_TIMESTAMP\<rparr> else c) in
      if launch \<and> ld_tx_capa d AND LT_TX_OFFLOAD_SEND_ON_TIMESTAMP = 0
      then Exited (upd_lu_info (\<lambda>i. i\<lparr>lf_flags := flag_clr L_LAUNCH_TIME (lf_flags i)\<rparr>) s)
      else k (if launch then c\<lparr>lcf_tx_offloads := lcf_tx_offloads c OR LT_TX_OFFLOAD_SEND_ON_TIMESTAMP\<rparr> else c) s)"

text \<open>The end of the set-up: promiscuous mode, then the dynamic fields for the timestamps.\<close>

definition lt_register_tx :: "lt_port_env \<Rightarrow> lt_setup \<Rightarrow> lt_setup run" where
  "lt_register_tx P s =
     (if lu_flag L_LAUNCH_TIME s
      then lt_must P T_Tx_Register (\<lambda>r. r < 0)
             (\<lambda>s. Returned 0 (upd_lu_info (\<lambda>i. i\<lparr>lf_tx_timestamp_offset := fst (lo_tx_dyn P), lf_tx_timestamp_flag := snd (lo_tx_dyn P)\<rparr>) s)) s
      else Returned 0 s)"

definition lt_register :: "lt_port_env \<Rightarrow> u16 \<Rightarrow> lt_setup \<Rightarrow> lt_setup run" where
  "lt_register P pid s =
     (if lu_flag L_HW_TIMESTAMP s
      then lt_must P (T_Timesync pid) (\<lambda>r. r \<noteq> 0)
             (lt_must P T_Rx_Register (\<lambda>r. r < 0)
               (\<lambda>s. lt_register_tx P (upd_lu_info (\<lambda>i. i\<lparr>lf_rx_timestamp_offset := fst (lo_rx_dyn P), lf_rx_timestamp_flag := snd (lo_rx_dyn P)\<rparr>) s))) s
      else lt_register_tx P s)"

definition lt_start_port :: "lt_port_env \<Rightarrow> u16 \<Rightarrow> lt_setup \<Rightarrow> lt_setup run" where
  "lt_start_port P pid =
     lt_must P (T_Macaddr pid) (\<lambda>r. r < 0)
      (\<lambda>s. case Option.bind (lf_dest_mac_str (lu_info s)) (lo_unformat P) of
         None \<Rightarrow> Exited (s\<lparr>lu_lport := (lu_lport s)\<lparr>lp_src_mac := lo_mac P\<rparr>\<rparr>)
       | Some m \<Rightarrow>
           lt_must P (T_Ptypes pid) (\<lambda>r. r < 0)
            (lt_then P (T_Start pid) (\<lambda>r. r < 0)
              (\<lambda>s. if lu_flag L_PROMISCUOUS s then lt_then P (T_Promiscuous pid) (\<lambda>r. r \<noteq> 0) (lt_register P pid) s else lt_register P pid s))
            (s\<lparr>lu_lport := (lu_lport s)\<lparr>lp_src_mac := lo_mac P, lp_dst_mac := m\<rparr>\<rparr>))"

definition lt_configure :: "lt_port_env \<Rightarrow> u16 \<Rightarrow> lt_setup \<Rightarrow> lt_setup run" where
  "lt_configure P pid =
     lt_offloads P (lt_base_conf P)
      (\<lambda>c s. let sp = lf_link_speed (lu_info s);
                 c = (if sp \<noteq> RTE_ETH_SPEED_NUM_UNKNOWN then c\<lparr>lcf_link_speeds := lo_speed_flag P sp\<rparr> else c);
                 (rxd, txd) = lo_desc P in
         lt_then P (T_Configure pid 1 1 c) (\<lambda>r. r \<noteq> 0)
          (lt_then P (T_Adjust pid 1024 1024) (\<lambda>r. r \<noteq> 0)
           (lt_then P (T_Rx_Queue pid 0 rxd (lcf_rx_offloads c) (lp_rx_mp (lu_lport s))) (\<lambda>r. r < 0)
            (lt_then P (T_Tx_Queue pid 0 txd (lcf_tx_offloads c)) (\<lambda>r. r < 0) (lt_start_port P pid)))) s)"

definition lt_pktmbuf_pool :: "lt_port_env \<Rightarrow> string \<Rightarrow> lt_setup \<Rightarrow> int \<times> lt_setup" where
  "lt_pktmbuf_pool P nm s = lt_ask P (T_Pool nm (lp_pid (lu_lport s)) (lp_qid (lu_lport s)) 8192 2048 128) s"

definition lt_port_init :: "lt_port_env \<Rightarrow> lt_setup \<Rightarrow> lt_setup run" where
  "lt_port_init P s =
     (let pid = lp_pid (lu_lport s) in
      lt_must P (T_Is_Valid pid) (\<lambda>r. r = 0)
       (lt_then P (T_Info pid) (\<lambda>r. r \<noteq> 0)
        (\<lambda>s. case lt_pktmbuf_pool P ''rx'' s of (mp, s) \<Rightarrow>
           if mp = 0 then Exited s
           else case lt_pktmbuf_pool P ''tx'' (s\<lparr>lu_lport := (lu_lport s)\<lparr>lp_rx_mp := mp\<rparr>\<rparr>) of (mp, s) \<Rightarrow>
             if mp = 0 then Exited s else lt_configure P pid (s\<lparr>lu_lport := (lu_lport s)\<lparr>lp_tx_mp := mp\<rparr>\<rparr>))) s)"

section \<open>Main\<close>

definition lt_signal_handler :: "int \<Rightarrow> lt_prog \<Rightarrow> lt_prog" where
  "lt_signal_handler signum g = (if signum = 2 \<or> signum = 15 then upd_lg_flags (flag_clr L_APP_RUNNING) g else g)"

record lt_main_env =
  ln_signal_ok :: bool
  ln_eal_ret :: int
  ln_options :: "lt_option list"
  ln_lcores :: nat
  ln_ports :: nat
  ln_max_lcore :: nat
  ln_main_lcore :: nat
  ln_next :: "nat \<Rightarrow> nat"
  ln_rx_mbufs_ok :: bool
  ln_tx_mbufs_ok :: bool
  ln_mqtt_launch :: int
  ln_worker_launch :: int
  ln_keyboard :: lt_keyboard_env
  ln_waited :: "lt_prog \<Rightarrow> lt_prog option"

definition lt_assign_lcores :: "lt_main_env \<Rightarrow> lt_info_t \<Rightarrow> lt_info_t option" where
  "lt_assign_lcores M i =
     (let n = ln_main_lcore M in do {
        (n, i) \<leftarrow> (if flag_tst L_MQTT (lf_flags i)
                  then let n = ln_next M n in if n \<ge> ln_max_lcore M then None else Some (n, i\<lparr>lf_mqtt_lcore_id := of_nat n\<rparr>)
                  else Some (n, i));
        let n = ln_next M n;
        if n \<ge> ln_max_lcore M then None else Some (i\<lparr>lf_worker_lcore_id := of_nat n\<rparr>)
      })"

definition lt_main ::
  "args_env \<Rightarrow> app_io \<Rightarrow> mosq_lib \<Rightarrow> lt_port_env \<Rightarrow> lt_main_env \<Rightarrow> lt_prog \<Rightarrow> lt_prog run option" where
  "lt_main A I L P M g =
     (if \<not> ln_signal_ok M \<or> ln_eal_ret M < 0 then Some (Exited g)
      else do {
        r \<leftarrow> lt_parse_args A I (ln_options M) (lg_app g);
        (case r of
           Exited a \<Rightarrow> Some (Exited (g\<lparr>lg_app := a\<rparr>))
         | Returned _ a \<Rightarrow>
             let g = g\<lparr>lg_app := a\<rparr> in
             if ln_lcores M < (if la_flag L_MQTT a then 3 else 2) \<or> ln_ports M = 0 then Some (Exited g)
             else case lt_assign_lcores M (la_info a) of
               None \<Rightarrow> Some (Exited g)
             | Some i \<Rightarrow>
                 let g = upd_lg (upd_la_info (\<lambda>_. i)) g;
                     l = (lc_lport (lg_lcore g))\<lparr>lp_lcore_id := lf_worker_lcore_id i, lp_pid := 0, lp_qid := 0\<rparr> in
                 if \<not> ln_rx_mbufs_ok M \<or> \<not> ln_tx_mbufs_ok M then Some (Exited g)
                 else (case lt_port_init P \<lparr>lu_info = i, lu_lport = l, lu_calls = []\<rparr> of
                     Exited s \<Rightarrow> Some (Exited (upd_lg (upd_la_info (\<lambda>_. lu_info s)) g))
                   | Returned r s \<Rightarrow>
                       let g = (upd_lg (upd_la_info (\<lambda>_. lu_info s)) g)\<lparr>lg_lcore := (lg_lcore g)\<lparr>lc_lport := lu_lport s\<rparr>\<rparr> in
                       if r < 0 then Some (Exited g)
                       else let g = upd_lg_flags (flag_set L_APP_RUNNING) g in
                       if la_flag L_MQTT (lg_app g) \<and> ln_mqtt_launch M < 0 then Some (Exited g)
                       else if ln_worker_launch M < 0 then Some (Exited g)
                       else do {
                         g \<leftarrow> lt_keyboard_loop I L (ln_keyboard M) g;
                         g \<leftarrow> ln_waited M g;
                         g \<leftarrow> lt_prog_app lt_log_flush g;
                         Some (Returned 0 g)
                       }))
      })"

end
