(* ===== verification/Cnp_Port.thy ===== *)
theory Cnp_Port
  imports Cnp Ratt_Args
begin

text \<open>
  The command line (\<^verbatim>\<open>apps/cnp/parse-args.c\<close>) and the set-up of a port (\<^verbatim>\<open>port-setup.c\<close>). The
  options come as \<^verbatim>\<open>getopt_long\<close> delivers them; the answers of DPDK are a parameter and may
  depend on the calls made before. \<open>Exited\<close> is \<^verbatim>\<open>rte_exit\<close> or \<^verbatim>\<open>exit\<close>.
\<close>

section \<open>The command line\<close>

datatype cnp_option =
    K_client string | K_tx_interval string | K_pkt_length string | K_dst_mac string | K_promiscuous | K_hw_timestamp
  | K_sw_timestamp | K_debug | K_help | K_unknown

definition upd_ciflags :: "(u32 \<Rightarrow> u32) \<Rightarrow> cnp_info_t \<Rightarrow> cnp_info_t" where
  "upd_ciflags f i = i\<lparr>ci_flags := f (ci_flags i)\<rparr>"

definition cnp_set_client :: "args_env \<Rightarrow> string \<Rightarrow> cnp_info_t \<Rightarrow> cnp_info_t run" where
  "cnp_set_client A s i =
     (if count_chr s (CHR '':'') \<noteq> 1 then Exited i
      else if \<not> ae_dup_ok A s then Exited (i\<lparr>ci_client_addr_str := None\<rparr>)
      else Returned 0 (i\<lparr>ci_client_addr_str := Some s, ci_client_mode := True\<rparr>))"

definition cnp_set_length :: "string \<Rightarrow> cnp_info_t \<Rightarrow> cnp_info_t run" where
  "cnp_set_length s i =
     (case strtoul0 s of (v, err, whole) \<Rightarrow>
        if err \<or> \<not> whole \<or> v > 0xFFFF then Exited i
        else let i = i\<lparr>ci_pkt_length := ucast v\<rparr>;
                 i = (if ci_pkt_length i > MAX_PKT_LENGTH then i\<lparr>ci_pkt_length := MAX_PKT_LENGTH\<rparr>
                      else if ci_pkt_length i < MIN_PKT_LENGTH then i\<lparr>ci_pkt_length := MIN_PKT_LENGTH\<rparr> else i)
             in Returned 0 (i\<lparr>ci_pkt_length := ci_pkt_length i - FCS_SIZE\<rparr>))"

fun cnp_parse_option :: "args_env \<Rightarrow> cnp_option \<Rightarrow> cnp_info_t \<Rightarrow> cnp_info_t run" where
  "cnp_parse_option A (K_client s) i = cnp_set_client A s i"
| "cnp_parse_option A (K_tx_interval s) i =
     (case strtoul0 s of (v, err, whole) \<Rightarrow>
        let i = i\<lparr>ci_tx_interval_ns := v\<rparr> in if err \<or> \<not> whole then Exited i else Returned 0 i)"
| "cnp_parse_option A (K_pkt_length s) i = cnp_set_length s i"
| "cnp_parse_option A (K_dst_mac s) i =
     (if ae_dup_ok A s then Returned 0 (i\<lparr>ci_dst_mac_str := Some s\<rparr>) else Exited (i\<lparr>ci_dst_mac_str := None\<rparr>))"
| "cnp_parse_option A K_debug i = Returned 0 (upd_ciflags (flag_set C_DEBUG_MODE) i)"
| "cnp_parse_option A K_promiscuous i = Returned 0 (upd_ciflags (flag_set C_PROMISCUOUS) i)"
| "cnp_parse_option A K_hw_timestamp i = Returned 0 (upd_ciflags (flag_set C_HW_TIMESTAMP) i)"
| "cnp_parse_option A K_sw_timestamp i = Returned 0 (upd_ciflags (flag_set C_SW_TIMESTAMP) i)"
| "cnp_parse_option A K_help i = Exited i"
| "cnp_parse_option A K_unknown i = Exited i"

fun cnp_parse_options :: "args_env \<Rightarrow> cnp_option list \<Rightarrow> cnp_info_t \<Rightarrow> cnp_info_t run" where
  "cnp_parse_options A [] i = Returned 0 i"
| "cnp_parse_options A (x # xs) i =
     (case cnp_parse_option A x i of Exited i \<Rightarrow> Exited i | Returned _ i \<Rightarrow> cnp_parse_options A xs i)"

definition cnp_parse_args :: "args_env \<Rightarrow> cnp_option list \<Rightarrow> cnp_info_t \<Rightarrow> cnp_info_t run" where
  "cnp_parse_args A xs i =
     (if \<not> ae_dup_ok A ''FF:FF:FF:FF:FF:FF'' then Exited (i\<lparr>ci_dst_mac_str := None\<rparr>)
      else case cnp_parse_options A xs (i\<lparr>ci_dst_mac_str := Some ''FF:FF:FF:FF:FF:FF''\<rparr>) of
        Exited i \<Rightarrow> Exited i
      | Returned _ i \<Rightarrow> if ci_tx_interval_ns i = 0 \<or> ci_pkt_length i = 0 then Exited i else Returned 0 i)"

section \<open>The port\<close>

definition RTE_ETH_RX_OFFLOAD_TIMESTAMP :: u64 where "RTE_ETH_RX_OFFLOAD_TIMESTAMP = push_bit 14 1"
definition RTE_ETH_TX_OFFLOAD_MULTI_SEGS :: u64 where "RTE_ETH_TX_OFFLOAD_MULTI_SEGS = push_bit 15 1"
definition RTE_ETH_TX_OFFLOAD_MBUF_FAST_FREE :: u64 where "RTE_ETH_TX_OFFLOAD_MBUF_FAST_FREE = push_bit 16 1"
definition RTE_ETH_DEV_INTR_LSC :: u32 where "RTE_ETH_DEV_INTR_LSC = 2"
definition RTE_ETHER_MAX_LEN :: u32 where "RTE_ETHER_MAX_LEN = 1518"

datatype cnp_call =
    Q_Is_Valid u16 | Q_Socket u16 | Q_Info u16 | Q_Configure u16 u16 u16 cnp_eth_conf | Q_Adjust u16 u16 u16
  | Q_Pool string u16 u16 nat nat nat | Q_Rx_Queue u16 u16 u16 u16 u64 int | Q_Tx_Queue u16 u16 u16 u16 u64 | Q_Macaddr u16
  | Q_Ptypes u16 | Q_Start u16 | Q_Timesync u16 | Q_Read_Tx u16 | Q_Promiscuous u16

record cnp_port_env =
  qe_answer :: "cnp_call list \<Rightarrow> cnp_call \<Rightarrow> int"
  qe_info :: eth_dev_info
  qe_desc :: "u16 \<Rightarrow> u16 \<Rightarrow> u16 \<times> u16"
  qe_mac :: bytes
  qe_unformat :: "string \<Rightarrow> bytes option"
  qe_max_ports :: nat

record cnp_setup =
  cq_info :: cnp_info_t
  cq_lport :: cnp_lport_t
  cq_locked :: bool
  cq_calls :: "cnp_call list"

definition cq_ask :: "cnp_port_env \<Rightarrow> cnp_call \<Rightarrow> cnp_setup \<Rightarrow> int \<times> cnp_setup" where
  "cq_ask P x s = (qe_answer P (cq_calls s) x, s\<lparr>cq_calls := cq_calls s @ [x]\<rparr>)"

definition upd_cq :: "(cnp_lport_t \<Rightarrow> cnp_lport_t) \<Rightarrow> cnp_setup \<Rightarrow> cnp_setup" where
  "upd_cq f s = s\<lparr>cq_lport := f (cq_lport s)\<rparr>"

definition upd_cq_conf :: "(cnp_eth_conf \<Rightarrow> cnp_eth_conf) \<Rightarrow> cnp_setup \<Rightarrow> cnp_setup" where
  "upd_cq_conf f = upd_cq (\<lambda>l. l\<lparr>cl_port_conf := f (cl_port_conf l)\<rparr>)"

definition upd_cq_flags :: "(u32 \<Rightarrow> u32) \<Rightarrow> cnp_setup \<Rightarrow> cnp_setup" where
  "upd_cq_flags f s = s\<lparr>cq_info := upd_ciflags f (cq_info s)\<rparr>"

text \<open>The answer \<open>-1\<close> for the socket is \<^verbatim>\<open>SOCKET_ID_ANY\<close>.\<close>

definition init_setup_defaults :: "cnp_port_env \<Rightarrow> cnp_setup \<Rightarrow> cnp_setup run" where
  "init_setup_defaults P s =
     (let s = upd_cq (\<lambda>l. l\<lparr>cl_dev_info := zero_dev_info, cl_port_conf := zero_cnp_conf, cl_nb_rxd := 1024, cl_nb_txd := 1024,
                             cl_rx_queues := 1, cl_tx_queues := 1\<rparr>) s in
      case cq_ask P (Q_Socket (cl_pid (cq_lport s))) s of (sid, s) \<Rightarrow>
      let s = upd_cq (\<lambda>l. l\<lparr>cl_sid := word_of_int (if sid = -1 then 0 else sid)\<rparr>) s in
      case cq_ask P (Q_Info (cl_pid (cq_lport s))) s of (r, s) \<Rightarrow>
        if r \<noteq> 0 then Returned (-1) s else Returned 0 (upd_cq (\<lambda>l. l\<lparr>cl_dev_info := qe_info P\<rparr>) s))"

definition init_port_configure :: "cnp_port_env \<Rightarrow> cnp_setup \<Rightarrow> cnp_setup run" where
  "init_port_configure P s =
     (let d = cl_dev_info (cq_lport s);
          s = upd_cq_conf (\<lambda>c. c\<lparr>pc_rss_hf := pc_rss_hf c AND di_rss_offloads d,
                                  pc_rx_mq_mode := if di_max_rx_queues d = 1 then MQ_RX_NONE else MQ_RX_RSS\<rparr>) s;
          s = (if di_max_lro d > RTE_ETHER_MAX_LEN then upd_cq_conf (\<lambda>c. c\<lparr>pc_max_lro := RTE_ETHER_MAX_LEN\<rparr>) s else s);
          s = (if di_max_vfs d \<noteq> 0 \<and> pc_rss_hf (cl_port_conf (cq_lport s)) \<noteq> 0
               then upd_cq_conf (\<lambda>c. c\<lparr>pc_rx_mq_mode := MQ_RX_VMDQ_RSS\<rparr>) s else s);
          s = (if di_dev_flags d AND RTE_ETH_DEV_INTR_LSC \<noteq> 0 then upd_cq_conf (\<lambda>c. c\<lparr>pc_lsc := True\<rparr>) s else s);
          s = (if di_tx_capa d AND RTE_ETH_TX_OFFLOAD_MULTI_SEGS \<noteq> 0
               then upd_cq_conf (\<lambda>c. c\<lparr>pc_tx_offloads := pc_tx_offloads c OR RTE_ETH_TX_OFFLOAD_MULTI_SEGS\<rparr>) s else s);
          s = (if di_tx_capa d AND RTE_ETH_TX_OFFLOAD_MBUF_FAST_FREE \<noteq> 0
               then upd_cq_conf (\<lambda>c. c\<lparr>pc_tx_offloads := pc_tx_offloads c OR RTE_ETH_TX_OFFLOAD_MBUF_FAST_FREE\<rparr>) s else s);
          s = (if di_rx_capa d AND RTE_ETH_RX_OFFLOAD_TIMESTAMP \<noteq> 0
               then upd_cq_conf (\<lambda>c. c\<lparr>pc_rx_offloads := pc_rx_offloads c OR RTE_ETH_RX_OFFLOAD_TIMESTAMP\<rparr>) s
               else upd_cq_flags (flag_clr C_HW_TIMESTAMP) s)
      in Returned 0 s)"

text \<open>A call whose failure is the result \<open>-1\<close>.\<close>

definition cq_call :: "cnp_port_env \<Rightarrow> cnp_call \<Rightarrow> (int \<Rightarrow> bool) \<Rightarrow> cnp_setup \<Rightarrow> cnp_setup run" where
  "cq_call P x bad s = (case cq_ask P x s of (r, s) \<Rightarrow> Returned (if bad r then -1 else 0) s)"

definition init_device_configure :: "cnp_port_env \<Rightarrow> cnp_setup \<Rightarrow> cnp_setup run" where
  "init_device_configure P s =
     (let l = cq_lport s in cq_call P (Q_Configure (cl_pid l) (cl_rx_queues l) (cl_tx_queues l) (cl_port_conf l)) (\<lambda>r. r < 0) s)"

definition clip_desc :: "desc_lim \<Rightarrow> u16 \<Rightarrow> u16" where
  "clip_desc d n =
     (let n = (if dl_min d > n then dl_min d else n) in if dl_max d > 0 \<and> n > dl_max d then dl_max d else n)"

definition init_adjust_rx_tx_desc :: "cnp_port_env \<Rightarrow> cnp_setup \<Rightarrow> cnp_setup run" where
  "init_adjust_rx_tx_desc P s =
     (let s = upd_cq (\<lambda>l. l\<lparr>cl_nb_rxd := clip_desc (di_rx_lim (cl_dev_info l)) (cl_nb_rxd l),
                             cl_nb_txd := clip_desc (di_tx_lim (cl_dev_info l)) (cl_nb_txd l)\<rparr>) s;
          l = cq_lport s in
      case cq_ask P (Q_Adjust (cl_pid l) (cl_nb_rxd l) (cl_nb_txd l)) s of (r, s) \<Rightarrow>
        if r \<noteq> 0 then Returned (-1) s
        else case qe_desc P (cl_nb_rxd l) (cl_nb_txd l) of (rxd, txd) \<Rightarrow>
          Returned 0 (upd_cq (\<lambda>l. l\<lparr>cl_nb_rxd := rxd, cl_nb_txd := txd\<rparr>) s))"

text \<open>\<^verbatim>\<open>lport_pktmbuf_pool\<close> ends the program when there is no pool.\<close>

definition cnp_pktmbuf_pool :: "cnp_port_env \<Rightarrow> string \<Rightarrow> cnp_setup \<Rightarrow> int \<times> cnp_setup" where
  "cnp_pktmbuf_pool P nm s = cq_ask P (Q_Pool nm (cl_pid (cq_lport s)) (cl_qid (cq_lport s)) (32 * 1024) 2048 128) s"

definition init_mempools :: "cnp_port_env \<Rightarrow> cnp_setup \<Rightarrow> cnp_setup run" where
  "init_mempools P s =
     (case cnp_pktmbuf_pool P ''rx'' s of (mp, s) \<Rightarrow>
        if mp = 0 then Exited s
        else case cnp_pktmbuf_pool P ''tx'' (upd_cq (\<lambda>l. l\<lparr>cl_rx_mp := mp\<rparr>) s) of (mp, s) \<Rightarrow>
          if mp = 0 then Exited s else Returned 0 (upd_cq (\<lambda>l. l\<lparr>cl_tx_mp := mp\<rparr>) s))"

text \<open>The queues \<open>q\<close> and following, \<open>n\<close> of them.\<close>

fun init_queues :: "cnp_port_env \<Rightarrow> (u16 \<Rightarrow> cnp_call) \<Rightarrow> nat \<Rightarrow> u16 \<Rightarrow> cnp_setup \<Rightarrow> cnp_setup run" where
  "init_queues P f 0 q s = Returned 0 s"
| "init_queues P f (Suc n) q s =
     (case cq_ask P (f q) s of (r, s) \<Rightarrow> if r < 0 then Returned (-1) s else init_queues P f n (q + 1) s)"

definition init_rx_queues :: "cnp_port_env \<Rightarrow> cnp_setup \<Rightarrow> cnp_setup run" where
  "init_rx_queues P s =
     (let l = cq_lport s in
      init_queues P (\<lambda>q. Q_Rx_Queue (cl_pid l) q (cl_nb_rxd l) (cl_sid l) (pc_rx_offloads (cl_port_conf l)) (cl_rx_mp l))
        (unat (cl_rx_queues l)) 0 s)"

definition init_tx_queues :: "cnp_port_env \<Rightarrow> cnp_setup \<Rightarrow> cnp_setup run" where
  "init_tx_queues P s =
     (let l = cq_lport s in
      init_queues P (\<lambda>q. Q_Tx_Queue (cl_pid l) q (cl_nb_txd l) (cl_sid l) (pc_tx_offloads (cl_port_conf l))) (unat (cl_tx_queues l)) 0 s)"

definition init_macaddr :: "cnp_port_env \<Rightarrow> cnp_setup \<Rightarrow> cnp_setup run" where
  "init_macaddr P s =
     (case cq_ask P (Q_Macaddr (cl_pid (cq_lport s))) s of (r, s) \<Rightarrow>
        if r < 0 then Returned (-1) s
        else let s = upd_cq (\<lambda>l. l\<lparr>cl_src_mac := qe_mac P\<rparr>) s in
          case Option.bind (ci_dst_mac_str (cq_info s)) (qe_unformat P) of
            None \<Rightarrow> Exited s
          | Some m \<Rightarrow> Returned 0 (upd_cq (\<lambda>l. l\<lparr>cl_dst_mac := m\<rparr>) s))"

definition init_set_ptypes :: "cnp_port_env \<Rightarrow> cnp_setup \<Rightarrow> cnp_setup run" where
  "init_set_ptypes P s = cq_call P (Q_Ptypes (cl_pid (cq_lport s))) (\<lambda>r. r < 0) s"

definition init_start_device :: "cnp_port_env \<Rightarrow> cnp_setup \<Rightarrow> cnp_setup run" where
  "init_start_device P s = (case cq_ask P (Q_Start (cl_pid (cq_lport s))) s of (r, s) \<Rightarrow> Returned r s)"

definition init_enable_timestamping :: "cnp_port_env \<Rightarrow> cnp_setup \<Rightarrow> cnp_setup run" where
  "init_enable_timestamping P s =
     (if flag_tst C_HW_TIMESTAMP (ci_flags (cq_info s))
      then case cq_ask P (Q_Timesync (cl_pid (cq_lport s))) s of (r, s) \<Rightarrow>
        if r \<noteq> 0 then Returned 0 (upd_cq_flags (flag_clr C_HW_TIMESTAMP) s)
        else Returned 0 (snd (cq_ask P (Q_Read_Tx (cl_pid (cq_lport s))) s))
      else Returned 0 s)"

definition init_promiscuous :: "cnp_port_env \<Rightarrow> cnp_setup \<Rightarrow> cnp_setup run" where
  "init_promiscuous P s =
     (if flag_tst C_PROMISCUOUS (ci_flags (cq_info s)) then cq_call P (Q_Promiscuous (cl_pid (cq_lport s))) (\<lambda>r. r < 0) s
      else Returned 0 s)"

definition cnp_inits :: "cnp_port_env \<Rightarrow> (cnp_setup \<Rightarrow> cnp_setup run) list" where
  "cnp_inits P = [init_setup_defaults P, init_port_configure P, init_device_configure P, init_adjust_rx_tx_desc P, init_mempools P,
     init_rx_queues P, init_tx_queues P, init_macaddr P, init_set_ptypes P, init_start_device P, init_enable_timestamping P,
     init_promiscuous P]"

fun run_inits :: "(cnp_setup \<Rightarrow> cnp_setup run) list \<Rightarrow> cnp_setup \<Rightarrow> cnp_setup run" where
  "run_inits [] s = Returned 0 (s\<lparr>cq_locked := False\<rparr>)"
| "run_inits (f # fs) s =
     (case f s of
        Exited s \<Rightarrow> Exited s
      | Returned r s \<Rightarrow> if r < 0 then Returned (-1) (s\<lparr>cq_locked := False\<rparr>) else run_inits fs s)"

definition cnp_port_init :: "cnp_port_env \<Rightarrow> cnp_setup \<Rightarrow> cnp_setup run" where
  "cnp_port_init P s =
     (case cq_ask P (Q_Is_Valid (cl_pid (cq_lport s))) s of (r, s) \<Rightarrow>
        if r = 0 then Exited s else run_inits (cnp_inits P) (s\<lparr>cq_locked := True\<rparr>))"

end
