(* ===== verification/Cnp_Main.thy ===== *)
theory Cnp_Main
  imports Cnp_Port Ratt_Main
begin

text \<open>
  The threads of \<^verbatim>\<open>apps/cnp\<close>: the worker (\<^verbatim>\<open>rxtx_routine\<close> of \<^verbatim>\<open>rxtx.c\<close>), the numbers on the screen
  (\<^verbatim>\<open>stats.c\<close>), the keyboard (\<^verbatim>\<open>keyboard.c\<close>) and \<^verbatim>\<open>main\<close> (\<^verbatim>\<open>cnp-tuning.c\<close>). The layout of the screen and
  the wire times shown there are left out.
\<close>

section \<open>The worker\<close>

text \<open>\<open>None\<close> includes a port number outside the array of ports.\<close>

definition cnp_rxtx_routine :: "cnp_env \<Rightarrow> cnp_port_env \<Rightarrow> nat \<Rightarrow> cnp \<Rightarrow> cnp run option" where
  "cnp_rxtx_routine E P k s =
     (let pid = ci_lport_idx (c_info s); s = s\<lparr>c_info := (c_info s)\<lparr>ci_lport_idx := pid + 1\<rparr>\<rparr> in
      if unat pid \<ge> qe_max_ports P then None
      else let s = upd_cport (\<lambda>l. l\<lparr>cl_pid := pid, cl_qid := 0\<rparr>) s in
        case cnp_port_init P \<lparr>cq_info = c_info s, cq_lport = c_lport s, cq_locked = False, cq_calls = []\<rparr> of
          Exited q \<Rightarrow> Some (Exited (s\<lparr>c_info := cq_info q, c_lport := cq_lport q\<rparr>))
        | Returned r q \<Rightarrow>
            let s = s\<lparr>c_info := cq_info q, c_lport := cq_lport q\<rparr> in
            if r < 0 then Some (Returned 0 (cnp_stop_running s))
            else do {
              (up, s) \<leftarrow> cnp_wait_link E k s;
              if \<not> up then Some (Returned 0 (cnp_stop_running s))
              else case cnp_clock_get_ns E (upd_cflags (flag_set C_RESET_STATS) s) of (curr_ns, s) \<Rightarrow> do {
                s \<leftarrow> cnp_loop E k (curr_ns + ci_tx_interval_ns (c_info s)) s;
                Some (Returned 0 (cnp_stop_running s))
              }
            })"

section \<open>The screen\<close>

definition cnp_reset_stats :: "cnp_lport_t \<Rightarrow> cnp_lport_t" where
  "cnp_reset_stats l =
     l\<lparr>cl_stats := zero_port_stats, cl_stats_prev := zero_port_stats,
       cl_other := zero_cnp_stats\<lparr>cs_sw_rtt := zero_timer\<lparr>min_ns := 1000000\<rparr>, cs_hw_rtt := zero_timer\<lparr>min_ns := 1000000\<rparr>,
                                   cs_poll := zero_timer\<lparr>min_ns := 1000000, max_ns := 0\<rparr>\<rparr>\<rparr>"

record cnp_screen =
  cv_cleared :: bool
  cv_twirl :: char
  cv_client :: bool
  cv_interval :: u64
  cv_length :: nat
  cv_modes :: "bool \<times> bool \<times> bool"
  cv_macs :: "bytes \<times> bytes"
  cv_link :: string
  cv_rows :: "(string \<times> u64 list) list"

record cnp_prog =
  p_cnp :: cnp
  p_toggle :: nat
  p_screens :: "cnp_screen list"

text \<open>What one call reads from the device: the counters of the port and its link.\<close>

record cnp_sight =
  cg_port :: "port_stats_t option"
  cg_link :: "eth_link option"

definition timer_avg :: "cnp_min_avg_max_t \<Rightarrow> cnp_min_avg_max_t" where
  "timer_avg t = t\<lparr>avg_ns := if count_ns t = 0 then 0 else sum_ns t div count_ns t\<rparr>"

definition cnp_print_min_avg_max :: "cnp_min_avg_max_t \<Rightarrow> u64 list" where
  "cnp_print_min_avg_max t = [min_ns t, avg_ns t, max_ns t]"

definition cnp_total_packets :: "port_stats_t \<Rightarrow> u64 list" where
  "cnp_total_packets p =
     (let rx = ps_ipackets p; tx = ps_opackets p in [rx, tx, if tx > rx then tx - rx else rx - tx])"

definition cnp_rows :: "bool \<Rightarrow> cnp_stats_t \<Rightarrow> port_stats_t \<Rightarrow> (string \<times> u64 list) list" where
  "cnp_rows hw st p =
     [(''Rx/Tx PPS'', [cs_rx_pps st, cs_tx_pps st]), (''SW RTT'', cnp_print_min_avg_max (cs_sw_rtt st)),
      (''HW RTT'', cnp_print_min_avg_max (cs_hw_rtt st)), (''  TX TS Poll'', cnp_print_min_avg_max (cs_poll st)),
      (''Total Rx/Tx/Delta Packets'', cnp_total_packets p), (''RxMissed/RxError/TxError'', [ps_imissed p, ps_ierrors p, ps_oerrors p]),
      (''Many Rx'', [cs_many_rx st])] @
     (if hw
      then [(''TX TS Errors'', [cs_tx_timestamp_errors st]), (''TX TS Timeouts'', [cs_tx_timestamp_timeouts st]),
            (''RX TS Errors'', [cs_rx_timestamp_errors st]), (''RX No TS Flag'', [cs_rx_no_timestamp st]),
            (''HW Rx RTT Invalid'', [cs_hw_rx_rtt_invalid st])]
      else [])"

definition cnp_clear_screen :: "cnp \<Rightarrow> bool \<times> cnp" where
  "cnp_clear_screen s = (if cnp_btst C_CLEAR_SCREEN s then (True, upd_cflags (flag_clr C_CLEAR_SCREEN) s) else (False, s))"

definition cnp_print_stats :: "cnp_sight \<Rightarrow> cnp_prog \<Rightarrow> cnp_prog" where
  "cnp_print_stats v g =
     (case cnp_clear_screen (p_cnp g) of (clear, s) \<Rightarrow>
      let s = (if cnp_btst C_RESET_STATS s then upd_cport cnp_reset_stats (upd_cflags (flag_clr C_RESET_STATS) s) else s);
          l = c_lport s;
          p = (case cg_port v of None \<Rightarrow> cl_stats l | Some p \<Rightarrow> p);
          (txt, lk) = link_status_no_wait (cg_link v) 256 (cl_link l);
          st = (cl_other l)\<lparr>cs_rx_pps := ps_ipackets p - ps_ipackets (cl_stats_prev l),
                            cs_tx_pps := ps_opackets p - ps_opackets (cl_stats_prev l)\<rparr>;
          st = st\<lparr>cs_sw_rtt := timer_avg (cs_sw_rtt st), cs_hw_rtt := timer_avg (cs_hw_rtt st), cs_poll := timer_avg (cs_poll st)\<rparr>;
          hw = cnp_btst C_HW_TIMESTAMP s
      in g\<lparr>p_cnp := upd_cport (\<lambda>l. l\<lparr>cl_stats := p, cl_stats_prev := p, cl_link := lk, cl_other := st\<rparr>) s, p_toggle := p_toggle g + 1,
           p_screens := p_screens g @
             [\<lparr>cv_cleared = clear, cv_twirl = [CHR ''|'', CHR ''/'', CHR ''-'', CHR 0x5C] ! (p_toggle g mod 4),
               cv_client = ci_client_mode (c_info s), cv_interval = ci_tx_interval_ns (c_info s),
               cv_length = unat (ci_pkt_length (c_info s)) + unat FCS_SIZE,
               cv_modes = (cnp_btst C_SW_TIMESTAMP s, hw, cnp_btst C_PROMISCUOUS s), cv_macs = (cl_dst_mac l, cl_src_mac l),
               cv_link = txt, cv_rows = cnp_rows hw st p\<rparr>]\<rparr>)"

section \<open>The keyboard\<close>

definition cnp_poll_keyboard :: "key_poll \<Rightarrow> char option \<Rightarrow> int \<times> char option" where
  "cnp_poll_keyboard p c =
     (if kp_ready p \<and> \<not> kp_err p
      then if kp_hup p then (-1, c)
           else if kp_in p then (case kp_char p of Some d \<Rightarrow> (1, Some d) | None \<Rightarrow> (0, c))
           else (0, c)
      else (0, c))"

definition upd_pcnp :: "(cnp \<Rightarrow> cnp) \<Rightarrow> cnp_prog \<Rightarrow> cnp_prog" where
  "upd_pcnp f g = g\<lparr>p_cnp := f (p_cnp g)\<rparr>"

definition cnp_stdin_setup :: "bool \<Rightarrow> bool \<Rightarrow> cnp_prog \<Rightarrow> int \<times> cnp_prog" where
  "cnp_stdin_setup get_ok set_ok g =
     (let g = upd_pcnp (upd_cflags (flag_clr C_TTY_IS_INITED)) g in
      if \<not> get_ok then (-1, g) else if \<not> set_ok then (-1, g) else (0, upd_pcnp (upd_cflags (flag_set C_TTY_IS_INITED)) g))"

text \<open>One pass: the flag as the other threads leave it, what they do, what the screen reads, the key.\<close>

record cnp_pass =
  ck_flag :: bool
  ck_others :: "cnp \<Rightarrow> cnp"
  ck_sight :: cnp_sight
  ck_key :: key_poll

definition cnp_key :: "char \<Rightarrow> cnp_prog \<Rightarrow> cnp_prog" where
  "cnp_key c g =
     (if c = CHR ''q'' then upd_pcnp cnp_stop_running g
      else if c = CHR ''r'' then upd_pcnp (\<lambda>s. upd_cflags (flag_set C_CLEAR_SCREEN) (upd_cflags (flag_set C_RESET_STATS) s)) g
      else if c = CHR ''c'' then upd_pcnp (upd_cflags (flag_set C_CLEAR_SCREEN)) g
      else g)"

text \<open>\<open>None\<close> is the use of a character that was never read.\<close>

fun cnp_keys :: "u32 \<Rightarrow> char option \<Rightarrow> cnp_pass list \<Rightarrow> cnp_prog \<Rightarrow> cnp_prog option" where
  "cnp_keys pass_no c [] g = Some g"
| "cnp_keys pass_no c (p # ps) g =
     (let g = upd_pcnp (ck_others p) g in
      if \<not> (cnp_btst C_APP_RUNNING (p_cnp g) \<and> ck_flag p) then Some g
      else let g = (if pass_no mod 4 = 0 then cnp_print_stats (ck_sight p) g else g) in
        case cnp_poll_keyboard (ck_key p) c of (r, c) \<Rightarrow>
          if r = 0 then cnp_keys (pass_no + 1) c ps g
          else do { d \<leftarrow> c; cnp_keys (pass_no + 1) c ps (cnp_key d g) })"

record cnp_keyboard_env =
  cke_get_ok :: bool
  cke_set_ok :: bool
  cke_passes :: "cnp_pass list"
  cke_last :: cnp_sight

definition cnp_keyboard_loop :: "cnp_keyboard_env \<Rightarrow> cnp_prog \<Rightarrow> cnp_prog option" where
  "cnp_keyboard_loop K g =
     (let g = upd_pcnp (upd_cflags (flag_set C_CLEAR_SCREEN)) g;
          g = snd (cnp_stdin_setup (cke_get_ok K) (cke_set_ok K) g);
          g = upd_pcnp (upd_cflags (flag_set C_RESET_STATS)) g in do {
        g \<leftarrow> cnp_keys 0 None (cke_passes K) g;
        let g = cnp_print_stats (cke_last K) g;
        Some (upd_pcnp cnp_stop_running g)
      })"

section \<open>Main\<close>

definition cnp_signal_handler :: "int \<Rightarrow> cnp \<Rightarrow> cnp" where
  "cnp_signal_handler signum s = (if signum = 2 \<or> signum = 15 then cnp_stop_running s else s)"

record cnp_main_env =
  cm_signal_ok :: bool
  cm_eal_ret :: int
  cm_lcores :: nat
  cm_ports :: "u16 list"
  cm_options :: "cnp_option list"
  cm_launch :: int
  cm_keyboard :: cnp_keyboard_env
  cm_last :: cnp_sight
  cm_waited :: "cnp \<Rightarrow> cnp option"

text \<open>The result lists the ports that were stopped and closed at the end.\<close>

definition cnp_main :: "args_env \<Rightarrow> cnp_main_env \<Rightarrow> cnp_prog \<Rightarrow> (cnp_prog run \<times> u16 list) option" where
  "cnp_main A M g =
     (if \<not> cm_signal_ok M \<or> cm_eal_ret M < 0 \<or> cm_lcores M < 2 \<or> cm_ports M = [] then Some (Exited g, [])
      else case cnp_parse_args A (cm_options M) (c_info (p_cnp g)) of
        Exited i \<Rightarrow> Some (Exited (upd_pcnp (\<lambda>s. s\<lparr>c_info := i\<rparr>) g), [])
      | Returned _ i \<Rightarrow>
          let g = upd_pcnp (\<lambda>s. cnp_start_running (s\<lparr>c_info := i\<rparr>)) g in
          if cm_launch M < 0 then Some (Exited g, [])
          else do {
            g \<leftarrow> cnp_keyboard_loop (cm_keyboard M) g;
            let g = cnp_print_stats (cm_last M) g;
            s \<leftarrow> cm_waited M (p_cnp g);
            Some (Returned 0 (g\<lparr>p_cnp := s\<rparr>), cm_ports M)
          })"

end
