(* ===== verification/App_Args_Props.thy ===== *)
theory App_Args_Props
  imports Lt_Port Cnp_Main
begin

text \<open>
  What the command lines of the launch-time test and of the probes guarantee to the threads.
\<close>

section \<open>Launch time\<close>

definition lt_ok :: "lt_info_t \<Rightarrow> bool" where
  "lt_ok i \<longleftrightarrow> unat (lf_burst_count i) \<le> LT_MAX_BURST_COUNT \<and>
     (lf_pkt_length i = 0 \<or> 60 \<le> unat (lf_pkt_length i) \<and> unat (lf_pkt_length i) \<le> 1532) \<and> unat (lf_run_duration_sec i) \<le> 359999999"

lemma la_simps [simp]:
  "la_info (upd_la_info f a) = f (la_info a)" "la_info (upd_la_log g a) = la_info a" "la_info (upd_la_mqtt h a) = la_info a"
  "la_info (upd_la_flags p a) = (la_info a)\<lparr>lf_flags := p (lf_flags (la_info a))\<rparr>"
  by (simp_all add: upd_la_info_def upd_la_log_def upd_la_mqtt_def upd_la_flags_def)

lemma lt_log_init_info: "lt_log_init I f a = Some (r, a') \<Longrightarrow> la_info a' = la_info a"
  by (auto simp: lt_log_init_def lt_log_open_def lt_close_file_def split: if_splits obj.splits bind_splits)

lemma lt_mqtt_init_info: "lt_mqtt_init I a = (r, a') \<Longrightarrow> la_info a' = la_info a"
  by (auto simp: lt_mqtt_init_def split: if_splits)

lemma lt_clip_bounds: "60 \<le> unat (lt_clip_length l) \<and> unat (lt_clip_length l) \<le> 1532"
  by (auto simp: lt_clip_length_def MAX_PKT_LENGTH_def MIN_PKT_LENGTH_def FCS_SIZE_def unat_sub word_le_nat_alt not_less word_less_nat_alt)

lemma duration_bound:
  fixes h m s :: u32
  assumes "h \<le> 99999" and "m \<le> 59" and "s \<le> 59"
  shows "unat (h * 3600 + m * 60 + s) \<le> 359999999"
proof -
  have u: "unat h \<le> 99999" "unat m \<le> 59" "unat s \<le> 59" using assms by (simp_all add: word_le_nat_alt)
  then have "unat (h * 3600 + m * 60 + s) = unat h * 3600 + unat m * 60 + unat s" by (simp add: unat_word_ariths)
  then show ?thesis using u by linarith
qed

lemma lt_duration_ok:
  assumes "lt_process_duration A s a = Returned r a'" and "lt_ok (la_info a)"
  shows "lt_ok (la_info a') \<and> lf_tx_burst_offset_ns (la_info a') = lf_tx_burst_offset_ns (la_info a)"
  using assms by (auto simp: lt_process_duration_def lt_ok_def Let_def not_less duration_bound split: option.splits if_splits)

lemma lt_set_burst_ok:
  assumes "lt_set_burst A s a = Returned r a'" and "lt_ok (la_info a)"
  shows "lt_ok (la_info a') \<and> lf_tx_burst_offset_ns (la_info a') = lf_tx_burst_offset_ns (la_info a)"
  using assms lt_clip_bounds by (auto simp: lt_set_burst_def lt_ok_def Let_def split: list.splits if_splits)

definition no_offset :: "lt_option \<Rightarrow> bool" where
  "no_offset x \<longleftrightarrow> (\<forall>s. x \<noteq> T_tx_burst_offset s)"

lemma lt_parse_option_ok:
  assumes "lt_parse_option A I x a = Some (Returned r a')" and "lt_ok (la_info a)"
  shows "lt_ok (la_info a') \<and> (no_offset x \<longrightarrow> lf_tx_burst_offset_ns (la_info a') = lf_tx_burst_offset_ns (la_info a))"
proof (cases x)
  case (T_log_file f)
  then have "a' = upd_la_flags (flag_set L_LOG) a \<or> (\<exists>q b. lt_log_init I f a = Some (q, b) \<and> a' = upd_la_flags (flag_set L_LOG) b)"
    using assms(1) by (auto split: if_splits bind_splits)
  then show ?thesis using assms(2) by (elim disjE exE conjE) (simp_all add: lt_log_init_info lt_ok_def)
next
  case T_mqtt
  then have "a' = upd_la_flags (flag_set L_MQTT) a \<or> (\<exists>q b. lt_mqtt_init I a = (q, b) \<and> a' = upd_la_flags (flag_set L_MQTT) b)"
    using assms(1) by (auto split: if_splits prod.splits)
  then show ?thesis using assms(2) by (elim disjE exE conjE) (simp_all add: lt_mqtt_init_info lt_ok_def)
next
  case (T_burst_length s)
  then show ?thesis using assms lt_set_burst_ok by auto
next
  case (T_run_duration s)
  then show ?thesis using assms lt_duration_ok by auto
qed (use assms in \<open>auto simp: lt_number_def lt_ok_def no_offset_def Let_def split: if_splits prod.splits\<close>)

lemma lt_parse_options_ok:
  "lt_parse_options A I xs a = Some (Returned r a') \<Longrightarrow> lt_ok (la_info a) \<Longrightarrow>
   lt_ok (la_info a') \<and> (list_all no_offset xs \<longrightarrow> lf_tx_burst_offset_ns (la_info a') = lf_tx_burst_offset_ns (la_info a))"
proof (induction xs arbitrary: a)
  case (Cons x xs)
  then obtain q b where "lt_parse_option A I x a = Some (Returned q b)" "lt_parse_options A I xs b = Some (Returned r a')"
    by (auto split: bind_splits run.splits)
  with lt_parse_option_ok Cons show ?case by fastforce
qed simp

lemma lt_default_offset_bound:
  assumes "lf_tx_burst_offset_ns i = 0"
  shows "unat (lf_tx_burst_offset_ns (lt_default_offset i)) \<le> min 60000 (unat (lf_launch_interval_ns i) div 50)"
proof -
  let ?q = "lf_launch_interval_ns i div 50"
  have q: "unat ?q = unat (lf_launch_interval_ns i) div 50" by (simp add: unat_div)
  have c: "unat (ucast ?q :: u32) \<le> unat ?q" by (simp add: unsigned_ucast_eq take_bit_nat_less_eq_self)
  show ?thesis using assms q c by (auto simp: lt_default_offset_def Let_def word_less_nat_alt not_less)
qed

text \<open>
  C38: when the command line of the launch-time test is accepted, the interval is not zero, a
  burst has between 1 and 256 packets, as many as the arrays of the thread hold, a packet
  has between 60 and 1532 bytes and the duration has not wrapped around; without an option
  for it, the offset before the launch is at most 60 microseconds and at most 2 per cent
  of the interval.
\<close>

theorem lt_args_valid:
  assumes "lt_parse_args A I xs a = Some (Returned r a')" and "lt_ok (la_info a)"
  defines "i \<equiv> la_info a'"
  shows "r = 0 \<and> lf_launch_interval_ns i \<noteq> 0 \<and> 1 \<le> unat (lf_burst_count i) \<and> unat (lf_burst_count i) \<le> LT_MAX_BURST_COUNT \<and>
     60 \<le> unat (lf_pkt_length i) \<and> unat (lf_pkt_length i) \<le> 1532 \<and> unat (lf_run_duration_sec i) \<le> 359999999 \<and>
     (list_all no_offset xs \<and> lf_tx_burst_offset_ns (la_info a) = 0 \<longrightarrow>
        unat (lf_tx_burst_offset_ns i) \<le> 60000 \<and> unat (lf_tx_burst_offset_ns i) \<le> unat (lf_launch_interval_ns i) div 50)"
proof -
  let ?f = "\<lambda>i. i\<lparr>lf_delay_sec := DEFAULT_DELAY_SEC, lf_link_speed := RTE_ETH_SPEED_NUM_UNKNOWN, lf_run_duration_str := Some ''000:00:00'',
    lf_dest_mac_str := Some ''FF:FF:FF:FF:FF:FF'', lf_rx_timestamp_offset := -1, lf_tx_timestamp_offset := -1\<rparr>"
  obtain q b where b: "lt_parse_options A I xs (upd_la_info ?f a) = Some (Returned q b)" "a' = upd_la_info lt_default_offset b" "r = 0"
    "lf_launch_interval_ns (la_info b) \<noteq> 0" "lf_burst_count (la_info b) \<noteq> 0" "lf_pkt_length (la_info b) \<noteq> 0"
    using assms(1) by (auto simp: lt_parse_args_def upd_la_info_def Let_def split: if_splits bind_splits run.splits)
  have k: "lt_ok (la_info (upd_la_info ?f a))" using assms(2) by (simp add: lt_ok_def)
  note o = lt_parse_options_ok [OF b(1) k]
  have "lf_launch_interval_ns i = lf_launch_interval_ns (la_info b)" "lf_burst_count i = lf_burst_count (la_info b)"
    "lf_pkt_length i = lf_pkt_length (la_info b)" "lf_run_duration_sec i = lf_run_duration_sec (la_info b)"
    "i = lt_default_offset (la_info b)"
    unfolding i_def b(2) by (simp_all add: lt_default_offset_def Let_def)
  moreover have "1 \<le> unat (lf_burst_count (la_info b))" using b(5) by (simp add: unat_gt_0 Suc_le_eq)
  ultimately show ?thesis using o b(3,4,6) lt_default_offset_bound [of "la_info b"] by (auto simp: lt_ok_def)
qed

section \<open>Probes\<close>

definition cnp_ok :: "cnp_info_t \<Rightarrow> bool" where
  "cnp_ok i \<longleftrightarrow> (ci_pkt_length i = 0 \<or> 60 \<le> unat (ci_pkt_length i) \<and> unat (ci_pkt_length i) \<le> 1532) \<and>
     (ci_client_mode i \<longleftrightarrow> ci_client_addr_str i \<noteq> None)"

lemma cnp_set_length_ok:
  assumes "cnp_set_length s i = Returned r i'" and "cnp_ok i"
  shows "cnp_ok i'"
proof -
  let ?v = "ucast (fst (strtoul0 s)) :: u16"
  have "i' = i\<lparr>ci_pkt_length := lt_clip_length ?v\<rparr>"
    using assms(1) by (auto simp: cnp_set_length_def lt_clip_length_def Let_def split: prod.splits if_splits)
  then show ?thesis using assms(2) lt_clip_bounds [of ?v] by (simp add: cnp_ok_def)
qed

lemma cnp_parse_option_ok:
  assumes "cnp_parse_option A x i = Returned r i'" and "cnp_ok i"
  shows "cnp_ok i'"
proof (cases x)
  case (K_pkt_length s)
  then show ?thesis using assms cnp_set_length_ok by auto
qed (use assms in \<open>auto simp: cnp_ok_def upd_ciflags_def cnp_set_client_def Let_def split: if_splits prod.splits\<close>)

lemma cnp_parse_options_ok: "cnp_parse_options A xs i = Returned r i' \<Longrightarrow> cnp_ok i \<Longrightarrow> cnp_ok i'"
  by (induction xs arbitrary: i) (auto split: run.splits dest: cnp_parse_option_ok)

text \<open>
  When the command line of the probes is accepted, the interval is not zero, a packet has room
  for a probe, and the program is a client exactly when it has an address.
\<close>

lemma cnp_args_valid:
  assumes "cnp_parse_args A xs i = Returned r i'" and "cnp_ok i"
  shows "r = 0 \<and> ci_tx_interval_ns i' \<noteq> 0 \<and> 60 \<le> unat (ci_pkt_length i') \<and> unat (ci_pkt_length i') \<le> 1532 \<and>
     (ci_client_mode i' \<longleftrightarrow> ci_client_addr_str i' \<noteq> None)"
proof -
  have k: "cnp_ok (i\<lparr>ci_dst_mac_str := Some ''FF:FF:FF:FF:FF:FF''\<rparr>)" using assms(2) by (simp add: cnp_ok_def)
  then show ?thesis using assms(1)
    by (auto simp: cnp_parse_args_def cnp_ok_def split: if_splits run.splits dest!: cnp_parse_options_ok)
qed

section \<open>An example\<close>

definition all_ok :: args_env where
  "all_ok = \<lparr>ae_dup_ok = (\<lambda>_. True), ae_dlopen_ok = (\<lambda>_. True), ae_dlsym_ok = (\<lambda>_. True)\<rparr>"

definition ex_lt_io :: app_io where
  "ex_lt_io = \<lparr>io_ring_ok = True, io_pool_ok = True, io_delta_ok = (\<lambda>_. True), io_alloc_ok = True, io_open_ok = True,
     io_ring_cap = 2047, io_delta_cap = 65535, io_now = (\<lambda>_. None)\<rparr>"

definition zero_lt_app :: lt_app where
  "zero_lt_app = \<lparr>la_info = zero_lt_info, la_log = zero_lt_log, la_mqtt = zero_lt_mqtt, la_files = [], la_calls = []\<rparr>"

definition ex_lt_options :: "lt_option list" where
  "ex_lt_options = [T_launch_interval ''1000000'', T_burst_length ''4/128'', T_launch_time]"

lemma ex_lt_options_parsed:
  "case lt_parse_args all_ok ex_lt_io ex_lt_options zero_lt_app of
     Some (Returned r a) \<Rightarrow> lf_tx_burst_offset_ns (la_info a) = 20000
   | _ \<Rightarrow> False"
  by (simp add: lt_parse_args_def ex_lt_options_def all_ok_def ex_lt_io_def zero_lt_app_def zero_lt_info_def lt_set_burst_def
      strtoul0_def number_base_def strtoull_def scan_number_def skip_sign_def skip_0x_def ull_value_def digits_val_def digit_val_def
      isspace_def code_def tolower_def lt_clip_length_def lt_default_offset_def LT_MAX_BURST_COUNT_def MAX_PKT_LENGTH_def MIN_PKT_LENGTH_def
      FCS_SIZE_def upd_la_info_def upd_la_flags_def)

lemma lt_args_valid_witness:
  "\<exists>a'. lt_parse_args all_ok ex_lt_io ex_lt_options zero_lt_app = Some (Returned 0 a') \<and> 60 \<le> unat (lf_pkt_length (la_info a')) \<and>
     unat (lf_tx_burst_offset_ns (la_info a')) \<le> 60000"
proof -
  have z: "lt_ok (la_info zero_lt_app)" "lf_tx_burst_offset_ns (la_info zero_lt_app) = 0" "list_all no_offset ex_lt_options"
    by (simp_all add: zero_lt_app_def zero_lt_info_def lt_ok_def ex_lt_options_def no_offset_def)
  obtain r a' where p: "lt_parse_args all_ok ex_lt_io ex_lt_options zero_lt_app = Some (Returned r a')"
    using ex_lt_options_parsed by (auto split: option.splits run.splits)
  from lt_args_valid [OF p z(1)] z(2,3) p show ?thesis by auto
qed

end
