(* ===== verification/Dump.thy ===== *)
theory Dump
  imports Prelude
begin

text \<open>
  The dumps of \<^verbatim>\<open>apps/testbench/utils.c\<close>: \<^verbatim>\<open>print_mac_address\<close>, \<^verbatim>\<open>print_payload_pattern\<close>, \<^verbatim>\<open>hexdump\<close> and
  \<^verbatim>\<open>memdump\<close>, as the text they print. A line is built in a buffer of \<open>LINE_LEN\<close> characters;
  text that does not fit is cut by \<^verbatim>\<open>snprintf\<close>, while the position moves on.
\<close>

section \<open>Hexadecimal digits\<close>

definition hex_chars :: "bool \<Rightarrow> string" where
  "hex_chars upper = (if upper then ''0123456789ABCDEF'' else ''0123456789abcdef'')"

definition hex2 :: "bool \<Rightarrow> byte \<Rightarrow> string" where
  "hex2 upper b = [hex_chars upper ! (unat b div 16), hex_chars upper ! (unat b mod 16)]"

fun hex_nat :: "nat \<Rightarrow> nat \<Rightarrow> string" where
  "hex_nat 0 n = []"
| "hex_nat (Suc k) n = hex_nat k (n div 16) @ [hex_chars True ! (n mod 16)]"

text \<open>\<^verbatim>\<open>%08zX\<close>: at least eight digits, at most the sixteen of a \<^verbatim>\<open>size_t\<close>.\<close>

definition fmt_08zX :: "u64 \<Rightarrow> string" where
  "fmt_08zX w =
     (let ds = dropWhile (\<lambda>c. c = CHR ''0'') (hex_nat 16 (unat w)) in replicate (8 - length ds) (CHR ''0'') @ ds)"

section \<open>Printing\<close>

definition print_mac_address :: "bytes \<Rightarrow> string" where
  "print_mac_address m = concat (map (\<lambda>i. hex2 False (m ! i) @ (if i \<noteq> 5 then ''-'' else '''')) [0..<6])"

text \<open>A \<^verbatim>\<open>char\<close> is signed: one above 127 is printed with the sign extended to the width of an \<^verbatim>\<open>int\<close>.\<close>

definition print_payload_pattern :: "bytes \<Rightarrow> string" where
  "print_payload_pattern p =
     concat (map (\<lambda>b. ''0x'' @ (if unat b > 127 then ''ffffff'' else '''') @ hex2 False b @ '' '') p)"

definition LINE_LEN :: nat where "LINE_LEN = 128"

text \<open>The text in the line and the position.\<close>

definition put :: "string \<Rightarrow> string \<times> nat \<Rightarrow> string \<times> nat" where
  "put txt = (\<lambda>(s, n). (if n < LINE_LEN then s @ take (LINE_LEN - n - 1) txt else s, n + length txt))"

section \<open>hexdump\<close>

definition printable :: "byte \<Rightarrow> char" where
  "printable b = (if b < 32 \<or> b > 126 then CHR ''.'' else char_of (unat b))"

definition hexdump_line :: "u64 \<Rightarrow> bytes \<Rightarrow> string" where
  "hexdump_line ofs row =
     fst (fold put (map (\<lambda>b. [printable b]) row)
       (put '' | ''
         (fold put (map (\<lambda>i. if i < length row then '' '' @ hex2 True (row ! i) else ''   '') [0..<16])
           (put (fmt_08zX ofs @ '':'') ([], 0)))))"

function hexdump_lines :: "nat \<Rightarrow> bytes \<Rightarrow> string list" where
  "hexdump_lines ofs data =
     (if ofs < length data
      then hexdump_line (word_of_nat ofs) (take 16 (drop ofs data)) # hexdump_lines (ofs + 16) data else [])"
  by pat_completeness auto

termination by (relation "measure (\<lambda>(ofs, data). length data - ofs)") auto

declare hexdump_lines.simps [simp del]

text \<open>\<open>at\<close> is the text of the heading, with the address and the length.\<close>

definition hexdump :: "string \<Rightarrow> bytes \<Rightarrow> string list" where
  "hexdump at data = at # hexdump_lines 0 data"

section \<open>memdump\<close>

fun memdump_loop :: "bytes \<Rightarrow> string \<times> nat \<Rightarrow> string \<Rightarrow> string" where
  "memdump_loop [] (l, n) printed = (if n > 0 then printed @ l else printed)"
| "memdump_loop (b # bs) (l, n) printed =
     (let (printed, l, n) = (if n \<ge> LINE_LEN - 4 then (printed @ l, [], 0) else (printed, l, n))
      in memdump_loop bs (put (hex2 False b @ (if bs \<noteq> [] then '':'' else '''')) (l, n)) printed)"

definition memdump :: "string option \<Rightarrow> bytes \<Rightarrow> string" where
  "memdump title data =
     memdump_loop data ([], 0) (case title of None \<Rightarrow> [] | Some t \<Rightarrow> t @ '': '') @ [CHR 0x0A]"

section \<open>Lines fit\<close>

lemma fold_put:
  "length s = n \<Longrightarrow> n + length (concat ts) < LINE_LEN \<Longrightarrow> fold put ts (s, n) = (s @ concat ts, n + length (concat ts))"
proof (induction ts arbitrary: s n)
  case (Cons t ts)
  then have "put t (s, n) = (s @ t, n + length t)" by (simp add: put_def)
  then show ?case using Cons.IH [of "s @ t" "n + length t"] Cons.prems by (simp add: add.assoc)
qed simp

lemma fmt_08zX_length: "length (fmt_08zX w) \<le> 16"
proof -
  have "length (hex_nat k n) = k" for k n by (induction k arbitrary: n) auto
  then have "length (dropWhile (\<lambda>c. c = CHR ''0'') (hex_nat 16 (unat w))) \<le> 16" by (metis length_dropWhile_le)
  then show ?thesis by (simp add: fmt_08zX_def Let_def)
qed

text \<open>No line of a hexadecimal dump is cut either.\<close>

lemma hexdump_line_exact:
  assumes "length row \<le> 16"
  shows "hexdump_line ofs row = fmt_08zX ofs @ '':'' @
     concat (map (\<lambda>i. if i < length row then '' '' @ hex2 True (row ! i) else ''   '') [0..<16]) @ '' | '' @ map printable row"
proof -
  let ?h = "fmt_08zX ofs @ '':''" and ?ts = "map (\<lambda>i. if i < length row then '' '' @ hex2 True (row ! i) else ''   '') [0..<16]"
  have h: "length ?h \<le> 17" using fmt_08zX_length [of ofs] by simp
  have "length (concat (map f is)) = 3 * length is" if "\<And>i. length (f i) = 3" for f :: "nat \<Rightarrow> string" and "is"
    by (induction "is") (simp_all add: that)
  then have ts: "length (concat ?ts) = 48" by (simp add: hex2_def)
  have 1: "put ?h ([], 0) = (?h, length ?h)" using h by (simp add: put_def LINE_LEN_def)
  have 2: "fold put ?ts (?h, length ?h) = (?h @ concat ?ts, length ?h + 48)"
    using fold_put [of ?h "length ?h" ?ts] h ts by (simp add: LINE_LEN_def)
  have 3: "put '' | '' (?h @ concat ?ts, length ?h + 48) = (?h @ concat ?ts @ '' | '', length ?h + 51)"
    using h by (simp add: put_def LINE_LEN_def)
  have r: "concat (map (\<lambda>b. [printable b]) row) = map printable row" by (induction row) auto
  have 4: "fold put (map (\<lambda>b. [printable b]) row) (?h @ concat ?ts @ '' | '', length ?h + 51) =
      ((?h @ concat ?ts @ '' | '') @ map printable row, length ?h + 51 + length row)"
    using fold_put [of "?h @ concat ?ts @ '' | ''" "length ?h + 51" "map (\<lambda>b. [printable b]) row"] h ts assms
    unfolding r by (simp add: LINE_LEN_def)
  show ?thesis unfolding hexdump_line_def 1 2 3 4 by simp
qed

fun hex_join :: "bytes \<Rightarrow> string" where
  "hex_join [] = []"
| "hex_join (b # bs) = hex2 False b @ (if bs \<noteq> [] then '':'' else '''') @ hex_join bs"

lemma memdump_loop_exact:
  "length l = n \<Longrightarrow> n < LINE_LEN \<Longrightarrow> memdump_loop bs (l, n) p = p @ l @ hex_join bs"
proof (induction bs arbitrary: l n p)
  case (Cons b bs)
  let ?t = "hex2 False b @ (if bs \<noteq> [] then '':'' else '''')"
  have t: "length ?t \<le> 3" by (simp add: hex2_def)
  show ?case
  proof (cases "n \<ge> LINE_LEN - 4")
    case True
    then have "memdump_loop (b # bs) (l, n) p = memdump_loop bs (?t, length ?t) (p @ l)"
      using t by (simp add: put_def LINE_LEN_def)
    also have "\<dots> = (p @ l) @ ?t @ hex_join bs" by (rule Cons.IH) (use t in \<open>simp_all add: LINE_LEN_def\<close>)
    finally show ?thesis by simp
  next
    case False
    then have "memdump_loop (b # bs) (l, n) p = memdump_loop bs (l @ ?t, n + length ?t) p"
      using t by (simp add: put_def LINE_LEN_def)
    also have "\<dots> = p @ (l @ ?t) @ hex_join bs" by (rule Cons.IH) (use t False Cons.prems in \<open>simp_all add: LINE_LEN_def\<close>)
    finally show ?thesis by simp
  qed
qed auto

text \<open>Reading a dump.\<close>

definition hex_value :: "char \<Rightarrow> nat" where
  "hex_value c = (let n = of_char c in if n < 58 then n - 48 else n - 87)"

fun undump :: "string \<Rightarrow> bytes" where
  "undump (a # b # r) = word_of_nat (16 * hex_value a + hex_value b) # (case r of [] \<Rightarrow> [] | c # r \<Rightarrow> undump r)"
| "undump r = []"

lemma hex_value_char: "n < 16 \<Longrightarrow> hex_value (hex_chars False ! n) = n"
  by (auto simp: hex_value_def hex_chars_def less_Suc_eq numeral_eq_Suc)

lemma undump_join: "undump (hex_join bs) = bs"
proof (induction bs)
  case (Cons b bs)
  have "unat b < 256" using unsigned_less [of b, where ?'a = nat] by simp
  then have "hex_value (hex_chars False ! (unat b div 16)) = unat b div 16" "hex_value (hex_chars False ! (unat b mod 16)) = unat b mod 16"
    by (simp_all add: hex_value_char)
  then have "word_of_nat (16 * hex_value (hex_chars False ! (unat b div 16)) + hex_value (hex_chars False ! (unat b mod 16))) = b"
    by (simp del: of_nat_add of_nat_mult)
  then show ?case using Cons by (auto simp: hex2_def)
qed simp

text \<open>
  The line buffer of a memory dump is never too short, so that nothing of the data is cut,
  and the data can be read back from the text.
\<close>

theorem memdump_roundtrip:
  "\<exists>txt. memdump title data = (case title of None \<Rightarrow> [] | Some t \<Rightarrow> t @ '': '') @ txt @ [CHR 0x0A] \<and> undump txt = data"
  using memdump_loop_exact [of "[]" 0 data] undump_join [of data] by (auto simp: memdump_def LINE_LEN_def)

end
