(* ===== verification/Config_Print.thy ===== *)
theory Config_Print
  imports Config_Props Log Dump Port
begin

text \<open>
  \<^verbatim>\<open>config_print_values\<close> of \<^verbatim>\<open>config.c\<close>: the text that shows the configuration after it was read. \<open>g\<close>
  writes a number the way the locale groups its digits (the conversions \<^verbatim>\<open>%'u\<close>). \<open>None\<close> is the
  use of a null pointer or an access behind the end of a string.
\<close>

section \<open>Conversions\<close>

definition truth :: "bool \<Rightarrow> string" where
  "truth b = (if b then ''True'' else ''False'')"

text \<open>\<^verbatim>\<open>%s\<close> of a string, which ends at its first zero byte.\<close>

definition text_of :: "bytes option \<Rightarrow> string option" where
  "text_of p = map_option (\<lambda>b. map (\<lambda>x. char_of (unat x)) (takeWhile (\<lambda>x. x \<noteq> 0) b)) p"

text \<open>\<^verbatim>\<open>0x%04x\<close> of a number with 32 bits.\<close>

definition fmt_04x :: "u32 \<Rightarrow> string" where
  "fmt_04x w =
     (let ds = dropWhile (\<lambda>c. c = CHR ''0'') (map (\<lambda>i. hex_chars False ! (unat w div 16 ^ i mod 16)) (rev [0..<8]))
      in replicate (4 - length ds) (CHR ''0'') @ ds)"

definition cfg_line :: "string \<Rightarrow> string \<Rightarrow> string" where
  "cfg_line k v = ''   '' @ k @ ''='' @ v @ [CHR 0x0A]"

definition cfg_lines :: "(string \<times> string) list \<Rightarrow> string" where
  "cfg_lines kvs = concat (map (\<lambda>(k, v). cfg_line k v) kvs)"

definition cfg_disabled :: string where
  "cfg_disabled = ''   ** Disabled **'' @ [CHR 0x0A]"

text \<open>The payload pattern and the address of a class.\<close>

definition cfg_pattern :: "traffic_class \<Rightarrow> string option" where
  "cfg_pattern x =
     (if payload_pattern_length x = 0 then Some []
      else do { p \<leftarrow> payload_pattern x; p \<leftarrow> load 0 (unat (payload_pattern_length x)) p; Some (print_payload_pattern p) })"

definition cfg_mac :: "bytes \<Rightarrow> string option" where
  "cfg_mac m = map_option print_mac_address (load 0 6 m)"

section \<open>The parts of the configuration\<close>

definition print_application :: "(nat \<Rightarrow> string) \<Rightarrow> application_config \<Rightarrow> string option" where
  "print_application g c = Some (cfg_lines
     [(''ClockId'', if application_clock_id c = CLOCK_TAI then ''CLOCK_TAI'' else ''CLOCK_MONOTONIC''),
      (''BaseCycleTimeNS'', g (unat (application_base_cycle_time_ns c))), (''TxBaseOffsetNS'', g (unat (application_tx_base_offset_ns c))),
      (''RxBaseOffsetNS'', g (unat (application_rx_base_offset_ns c))), (''NumMbufs'', g (unat (application_num_mbufs c))),
      (''MbufSize'', g (unat (application_mbuf_size c))), (''CacheSize'', g (unat (application_cache_size c))),
      (''NumRxDescriptors'', g (unat (application_num_rx_descriptors c))), (''NumTxDescriptors'', g (unat (application_num_tx_descriptors c))),
      (''LinkSpeed'', if application_link_speed c = RTE_ETH_SPEED_NUM_UNKNOWN then ''AutoNeg'' else g (unat (application_link_speed c)) @ ''Mbps''),
      (''LinkHalfDuplex'', if application_link_half_duplex c then ''Half'' else ''Full''),
      (''WaitTimeBeforeStart'', g (unat (application_wait_time_before_start c)))])"

definition pkt_handler_config :: "application_config \<Rightarrow> string option" where
  "pkt_handler_config c = Some
     (if pkt_handler_enabled c
      then cfg_lines [(''Enabled'', truth (pkt_handler_enabled c)), (''LPortID'', lport_format (pkt_handler_lport_id c)),
             (''ThreadCpu'', fmt_int (pkt_handler_thread_cpu c))]
      else cfg_disabled)"

text \<open>
  The lines of a class: \<open>pre\<close> come before the number of frames, \<open>mid\<close> follow the length of the frames, \<open>post\<close>
  the core of the thread.
\<close>

definition cfg_class ::
  "(string \<times> string) list \<Rightarrow> (string \<times> string) list \<Rightarrow> (traffic_class \<Rightarrow> string option) \<Rightarrow> traffic_class \<Rightarrow> string option" where
  "cfg_class pre mid post x =
     (if enabled x
      then do {
        pat \<leftarrow> cfg_pattern x;
        rest \<leftarrow> post x;
        Some (cfg_lines ((''Enabled'', truth (enabled x)) # pre @
                [(''NumFramesPerCycle'', fmt_u64 (num_frames_per_cycle x)), (''PayloadPattern'', pat), (''FrameLength'', fmt_u64 (frame_length x))] @
                mid @ [(''LPortID'', lport_format (lport_id x)), (''ThreadCpu'', fmt_int (thread_cpu x))]) @ rest)
      }
      else Some cfg_disabled)"

definition cfg_destination :: "traffic_class \<Rightarrow> string option" where
  "cfg_destination x = do { m \<leftarrow> cfg_mac (destination x); Some (cfg_line ''Destination'' m) }"

definition cfg_tx_time :: "traffic_class \<Rightarrow> (string \<times> string) list" where
  "cfg_tx_time x = [(''TxTimeEnabled'', truth (tx_time_enabled x)), (''TxTimeOffsetNS'', fmt_u64 (tx_time_offset_ns x))]"

definition cfg_vlan :: "traffic_class \<Rightarrow> (string \<times> string) list" where
  "cfg_vlan x = [(''Vid'', fmt_int (vid x)), (''Pcp'', fmt_int (pcp x))]"

definition cfg_period :: "(nat \<Rightarrow> string) \<Rightarrow> traffic_class \<Rightarrow> (string \<times> string) list" where
  "cfg_period g x = [(''BurstPeriodNS'', g (unat (burst_period_ns x)))]"

text \<open>Of the key and the prefix only that they have a line is shown.\<close>

definition cfg_security :: "traffic_class \<Rightarrow> (string \<times> string) list" where
  "cfg_security x =
     [(''SecurityMode'', security_mode_to_string (tc_security_mode x)),
      (''SecurityAlgorithm'', security_algorithm_to_string (tc_security_algorithm x)), (''SecurityKey'', ''<set>''),
      (''SecurityIvPrefix'', ''<set>'')]"

definition tsn_high_config :: "application_config \<Rightarrow> string option" where
  "tsn_high_config c = (let x = tc c TSN_HIGH_FRAME_TYPE in cfg_class (cfg_tx_time x @ cfg_vlan x) (cfg_security x) cfg_destination x)"

definition tsn_low_config :: "application_config \<Rightarrow> string option" where
  "tsn_low_config c = (let x = tc c TSN_LOW_FRAME_TYPE in cfg_class (cfg_tx_time x @ cfg_vlan x) (cfg_security x) cfg_destination x)"

definition rtc_config :: "application_config \<Rightarrow> string option" where
  "rtc_config c = (let x = tc c RTC_FRAME_TYPE in cfg_class (cfg_vlan x) (cfg_security x) cfg_destination x)"

definition rta_config :: "(nat \<Rightarrow> string) \<Rightarrow> application_config \<Rightarrow> string option" where
  "rta_config g c = (let x = tc c RTA_FRAME_TYPE in cfg_class (cfg_vlan x @ cfg_period g x) (cfg_security x) cfg_destination x)"

definition dcp_config :: "(nat \<Rightarrow> string) \<Rightarrow> application_config \<Rightarrow> string option" where
  "dcp_config g c = (let x = tc c DCP_FRAME_TYPE in cfg_class (cfg_vlan x @ cfg_period g x) [] cfg_destination x)"

definition lldp_config :: "(nat \<Rightarrow> string) \<Rightarrow> application_config \<Rightarrow> string option" where
  "lldp_config g c = (let x = tc c LLDP_FRAME_TYPE in cfg_class (cfg_period g x) [] cfg_destination x)"

text \<open>There is no end of line behind the address of the UDP classes.\<close>

definition cfg_udp :: "traffic_class \<Rightarrow> string option" where
  "cfg_udp x = do {
     dst \<leftarrow> text_of (ip_destination x);
     src \<leftarrow> text_of (ip_source x);
     m \<leftarrow> cfg_mac (destination x);
     Some (cfg_lines [(''DstPort'', decimal (unat (udp_port x))), (''SrcPort'', decimal (unat (udp_src_port x))), (''Destination'', dst),
             (''Source'', src)] @ ''   Mac Destination='' @ m)
   }"

definition udp_high_config :: "(nat \<Rightarrow> string) \<Rightarrow> application_config \<Rightarrow> string option" where
  "udp_high_config g c = (let x = tc c UDP_HIGH_FRAME_TYPE in cfg_class (cfg_period g x) [] cfg_udp x)"

definition udp_low_config :: "(nat \<Rightarrow> string) \<Rightarrow> application_config \<Rightarrow> string option" where
  "udp_low_config g c = (let x = tc c UDP_LOW_FRAME_TYPE in cfg_class (cfg_period g x) [] cfg_udp x)"

definition l2_config :: "application_config \<Rightarrow> string option" where
  "l2_config c =
     (let x = tc c L2_FRAME_TYPE in
      cfg_class (cfg_tx_time x @ cfg_vlan x @ [(''EtherType'', ''0x'' @ fmt_04x (ether_type x))]) [] cfg_destination x)"

definition log_config :: "application_config \<Rightarrow> string option" where
  "log_config c = do {
     f \<leftarrow> text_of (log_file c);
     l \<leftarrow> text_of (application_config.log_level c);
     Some (cfg_lines [(''ThreadPeriodNS'', fmt_u64 (log_thread_period_ns c)), (''ThreadPriority'', fmt_int (log_thread_priority c)),
             (''ThreadCpu'', fmt_int (log_thread_cpu c)), (''File'', f), (''Level'', l)])
   }"

definition debug_config :: "application_config \<Rightarrow> string option" where
  "debug_config c = do {
     m \<leftarrow> cfg_mac (debug_monitor_destination c);
     Some (cfg_lines [(''StopTraceOnOutlier'', truth (debug_stop_trace_on_outlier c)), (''StopTraceOnError'', truth (debug_stop_trace_on_error c)),
             (''MonitorMode'', truth (debug_monitor_mode c)), (''MonitorDestination'', m)])
   }"

definition stats_histogram_config :: "application_config \<Rightarrow> string option" where
  "stats_histogram_config c =
     (if stats_histogram_enabled c
      then do {
        f \<leftarrow> text_of (stats_histogram_file c);
        Some (cfg_lines [(''HistogramEnabled'', truth (stats_histogram_enabled c)), (''HistogramMinimumNS'', fmt_u64 (stats_histogram_minimum_ns c)),
                (''HistogramMaximumNS'', fmt_u64 (stats_histogram_maximum_ns c)), (''HistogramFile'', f),
                (''CollectionIntervalNS'', fmt_u64 (stats_collection_interval_ns c))])
      }
      else Some cfg_disabled)"

definition log_mqtt_config :: "application_config \<Rightarrow> string option" where
  "log_mqtt_config c =
     (if log_via_mqtt c
      then do {
        ip \<leftarrow> text_of (log_via_mqtt_broker_ip c);
        nm \<leftarrow> text_of (log_via_mqtt_measurement_name c);
        Some (cfg_lines [(''MQTT'', truth (log_via_mqtt c)), (''MQTTThreadPriority'', fmt_int (log_via_mqtt_thread_priority c)),
                (''MQTTThreadCpu'', fmt_int (log_via_mqtt_thread_cpu c)), (''MQTTThreadPeriodNS'', fmt_u64 (log_via_mqtt_thread_period_ns c)),
                (''MQTTBrokerIP'', ip), (''MQTTBrokerPort'', fmt_int (log_via_mqtt_broker_port c)),
                (''MQTTKeepAliveSecs'', fmt_int (log_via_mqtt_keep_alive_secs c)), (''MQTTMeasurementName'', nm)])
      }
      else Some cfg_disabled)"

definition print_config :: "string \<Rightarrow> string option \<Rightarrow> string option" where
  "print_config desc body = do {
     b \<leftarrow> body;
     Some (''>> '' @ desc @ replicate (30 - length desc) (CHR '' '') @ '' '' @ replicate 47 (CHR ''-'') @ [CHR 0x0A] @ b)
   }"

fun print_configs :: "(string \<times> string option) list \<Rightarrow> string option" where
  "print_configs [] = Some (replicate 81 (CHR ''-'') @ [CHR 0x0A])"
| "print_configs ((desc, body) # ds) = do { a \<leftarrow> print_config desc body; b \<leftarrow> print_configs ds; Some (a @ b) }"

definition quoted :: "string \<Rightarrow> string" where
  "quoted s = CHR 0x27 # s @ [CHR 0x27]"

definition config_print_values :: "(nat \<Rightarrow> string) \<Rightarrow> application_config \<Rightarrow> string option" where
  "config_print_values g c = print_configs
     [(''Application'', print_application g c), (''Packet Handler '' @ quoted ''PktHandler'', pkt_handler_config c),
      (''TSN High '' @ quoted ''TsnHigh'', tsn_high_config c), (''TSN Low '' @ quoted ''TsnLow'', tsn_low_config c), (''RTC '' @ quoted ''Rtc'', rtc_config c),
      (''RTA '' @ quoted ''Rta'', rta_config g c), (''DCP '' @ quoted ''Dcp'', dcp_config g c), (''LLDP '' @ quoted ''Lldp'', lldp_config g c),
      (''UDP High '' @ quoted ''UdpHigh'', udp_high_config g c), (''UDP Low '' @ quoted ''UdpLow'', udp_low_config g c), (''Generic L2 '' @ quoted ''L2'', l2_config c),
      (''Log'', log_config c), (''Debug'', debug_config c), (''Statistic Histogram '' @ quoted ''Stats'', stats_histogram_config c),
      (''Log via MQTT '' @ quoted ''LogVia'', log_mqtt_config c)]"

section \<open>What printing needs\<close>

definition class_prints :: "stat_frame_type \<Rightarrow> traffic_class \<Rightarrow> bool" where
  "class_prints t x \<longleftrightarrow> (\<exists>p. payload_pattern x = Some p \<and> unat (payload_pattern_length x) \<le> length p) \<and> length (destination x) = 6 \<and>
     (t \<in> {UDP_HIGH_FRAME_TYPE, UDP_LOW_FRAME_TYPE} \<longrightarrow> ip_destination x \<noteq> None \<and> ip_source x \<noteq> None)"

definition config_prints :: "application_config \<Rightarrow> bool" where
  "config_prints c \<longleftrightarrow> (\<forall>t. class_prints t (tc c t)) \<and> length (debug_monitor_destination c) = 6 \<and> log_file c \<noteq> None \<and>
     application_config.log_level c \<noteq> None \<and> stats_histogram_file c \<noteq> None \<and> log_via_mqtt_broker_ip c \<noteq> None \<and> log_via_mqtt_measurement_name c \<noteq> None"

lemma cfg_mac_ok: "length m = 6 \<Longrightarrow> \<exists>txt. cfg_mac m = Some txt"
  by (simp add: cfg_mac_def load_def)

lemma cfg_class_ok:
  assumes "class_prints t x" and "\<exists>txt. post x = Some txt"
  shows "\<exists>txt. cfg_class pre mid post x = Some txt"
  using assms by (auto simp: cfg_class_def class_prints_def cfg_pattern_def load_def)

lemma cfg_destination_ok: "class_prints t x \<Longrightarrow> \<exists>txt. cfg_destination x = Some txt"
  using cfg_mac_ok [of "destination x"] by (auto simp: cfg_destination_def class_prints_def)

lemma cfg_udp_ok: "class_prints t x \<Longrightarrow> t \<in> {UDP_HIGH_FRAME_TYPE, UDP_LOW_FRAME_TYPE} \<Longrightarrow> \<exists>txt. cfg_udp x = Some txt"
  using cfg_mac_ok [of "destination x"] by (auto simp: cfg_udp_def class_prints_def text_of_def)

lemma print_configs_ok: "\<forall>(d, b) \<in> set ds. b \<noteq> None \<Longrightarrow> \<exists>txt. print_configs ds = Some txt"
  by (induction ds) (auto simp: print_config_def)

lemmas class_config_defs = tsn_high_config_def tsn_low_config_def rtc_config_def rta_config_def dcp_config_def lldp_config_def
  udp_high_config_def udp_low_config_def l2_config_def

lemma config_prints_text:
  assumes "config_prints c"
  shows "\<exists>txt. config_print_values g c = Some txt"
proof -
  have t: "class_prints t (tc c t)" for t using assms by (simp add: config_prints_def)
  have d: "\<exists>txt. cfg_class pre mid cfg_destination (tc c t) = Some txt" for pre mid t
    by (rule cfg_class_ok [where t = t]) (use t cfg_destination_ok [OF t] in simp_all)
  have u: "\<exists>txt. cfg_class pre mid cfg_udp (tc c t) = Some txt" if "t \<in> {UDP_HIGH_FRAME_TYPE, UDP_LOW_FRAME_TYPE}" for pre mid t
    by (rule cfg_class_ok [where t = t]) (use t cfg_udp_ok [OF t that] in simp_all)
  have "\<exists>txt. log_config c = Some txt" "\<exists>txt. debug_config c = Some txt" "\<exists>txt. stats_histogram_config c = Some txt"
    "\<exists>txt. log_mqtt_config c = Some txt"
    using assms cfg_mac_ok [of "debug_monitor_destination c"]
    by (auto simp: config_prints_def log_config_def debug_config_def stats_histogram_config_def log_mqtt_config_def text_of_def)
  then show ?thesis unfolding config_print_values_def
    by (intro print_configs_ok) (simp add: class_config_defs Let_def d u print_application_def pkt_handler_config_def)
qed

section \<open>The configuration that was read\<close>

lemma unat_of_length: "unat (of_nat (length v) :: u64) \<le> length v"
  by (simp add: unat_of_nat)

text \<open>The members that matter for printing are set to strings and addresses only; an address keeps its length.\<close>

fun param_prints :: "param \<Rightarrow> bool" where
  "param_prints (PBool k f) = (\<forall>v c. config_prints c \<longrightarrow> config_prints (f v c))"
| "param_prints (PInt k f) = (\<forall>v c. config_prints c \<longrightarrow> config_prints (f v c))"
| "param_prints (PUint k f) = (\<forall>v c. config_prints c \<longrightarrow> config_prints (f v c))"
| "param_prints (PUlong k f) = (\<forall>v c. config_prints c \<longrightarrow> config_prints (f v c))"
| "param_prints (PString k f nul) = (\<forall>v c. config_prints c \<longrightarrow> config_prints (f v c))"
| "param_prints (PMac k f) = (\<forall>g c. (\<forall>m. length (g m) = length m) \<longrightarrow> config_prints c \<longrightarrow> config_prints (f g c))"
| "param_prints (PClock k f) = (\<forall>v c. config_prints c \<longrightarrow> config_prints (f v c))"
| "param_prints (PEther k f) = (\<forall>v c. config_prints c \<longrightarrow> config_prints (f v c))"
| "param_prints (PSecMode k f) = (\<forall>v c. config_prints c \<longrightarrow> config_prints (f v c))"
| "param_prints (PSecAlg k f) = (\<forall>v c. config_prints c \<longrightarrow> config_prints (f v c))"

lemma class_prints_same [simp]:
  "class_prints t (enabled_update h1 x) = class_prints t x" "class_prints t (tx_time_enabled_update h2 x) = class_prints t x" "class_prints t (tx_time_offset_ns_update h3 x) = class_prints t x"
  "class_prints t (vid_update h4 x) = class_prints t x" "class_prints t (pcp_update h5 x) = class_prints t x" "class_prints t (burst_period_ns_update h6 x) = class_prints t x"
  "class_prints t (ether_type_update h7 x) = class_prints t x" "class_prints t (num_frames_per_cycle_update h8 x) = class_prints t x" "class_prints t (frame_length_update h9 x) = class_prints t x"
  "class_prints t (tc_security_mode_update h10 x) = class_prints t x" "class_prints t (tc_security_algorithm_update h11 x) = class_prints t x" "class_prints t (security_key_update h12 x) = class_prints t x"
  "class_prints t (security_key_length_update h13 x) = class_prints t x" "class_prints t (security_iv_prefix_update h14 x) = class_prints t x" "class_prints t (security_iv_prefix_length_update h15 x) = class_prints t x"
  "class_prints t (lport_id_update h16 x) = class_prints t x" "class_prints t (thread_cpu_update h17 x) = class_prints t x" "class_prints t (udp_port_update h18 x) = class_prints t x"
  "class_prints t (udp_src_port_update h19 x) = class_prints t x" "class_prints t (ip_destination_length_update h20 x) = class_prints t x" "class_prints t (ip_source_length_update h21 x) = class_prints t x"
  by (simp_all add: class_prints_def)

lemma class_prints_keeps [simp]:
  "class_prints t x \<Longrightarrow> class_prints t (x\<lparr>payload_pattern := Some v, payload_pattern_length := of_nat (length v)\<rparr>)"
  "class_prints t x \<Longrightarrow> class_prints t (x\<lparr>ip_destination := Some v\<rparr>)" "class_prints t x \<Longrightarrow> class_prints t (x\<lparr>ip_source := Some v\<rparr>)"
  "class_prints t x \<Longrightarrow> \<forall>m. length (h m) = length m \<Longrightarrow> class_prints t (x\<lparr>destination := h (destination x)\<rparr>)"
  by (simp_all add: class_prints_def unat_of_length)

lemma config_prints_upd:
  "\<forall>x. class_prints t x \<longrightarrow> class_prints t (f x) \<Longrightarrow> config_prints c \<Longrightarrow> config_prints (upd_tc t f c)"
  by (simp add: config_prints_def upd_tc_def)

lemma params_print_app:
  "list_all param_prints application_params" "list_all param_prints log_params"
  by (simp_all add: application_params_def log_params_def config_prints_def)

lemma params_print_classes:
  "list_all param_prints tsn_high_params" "list_all param_prints tsn_low_params" "list_all param_prints rtc_params"
  "list_all param_prints rta_params" "list_all param_prints dcp_params" "list_all param_prints lldp_params"
  "list_all param_prints udp_high_params" "list_all param_prints udp_low_params" "list_all param_prints l2_params"
  by (simp_all add: tsn_high_params_def tsn_low_params_def rtc_params_def rta_params_def dcp_params_def lldp_params_def udp_high_params_def
      udp_low_params_def l2_params_def config_prints_upd)

lemma store_octets_length: "length (fst (store_octets i vs m)) = length m"
  by (induction i vs m rule: store_octets.induct) simp_all

lemma config_store_param_prints:
  assumes "param_prints p" and "config_prints c" and "config_store_param d r v p c = (None, c')"
  shows "config_prints c'"
  using assms by (cases p) (auto simp: store_octets_length Let_def split: option.splits prod.splits if_splits)

lemma setting_param_prints:
  assumes "setting_param k = Some p"
  shows "param_prints p"
proof -
  have "list_all param_prints config_params" by (simp add: config_params_def params_print_app params_print_classes)
  moreover have "p \<in> set config_params" using assms by (auto simp: setting_param_def find_Some_iff)
  ultimately show ?thesis by (simp add: list_all_iff)
qed

lemma config_store_param_error: "config_store_param d 1 v p c = (Some r, c') \<Longrightarrow> r \<noteq> 0"
  by (cases p) (auto simp: ERANGE_def ENOMEM_def EINVAL_def Let_def split: option.splits prod.splits if_splits)

lemma config_token_loop_prints:
  "config_token_loop d ts sk key c = (0, c') \<Longrightarrow> config_prints c \<Longrightarrow> config_prints c'"
proof (induction ts arbitrary: sk key c)
  case (Cons t ts)
  show ?case
  proof (cases t)
    case (YAML_SCALAR_TOKEN v)
    then show ?thesis using Cons.prems
      by (auto simp: config_store_params split: if_splits option.splits prod.splits intro: Cons.IH
          dest: config_store_param_prints [OF setting_param_prints] config_store_param_error)
  qed (use Cons in \<open>auto simp: EINVAL_def intro: Cons.IH\<close>)
qed (simp add: EINVAL_def)

lemma config_prints_cong:
  "config_prints (c\<lparr>qinfo := q\<rparr>) = config_prints c" "config_prints (config_derive c) = config_prints c"
  by (simp_all add: config_prints_def config_derive_def)

lemma max_queue_prints: "max_queue t s = Some s' \<Longrightarrow> config_prints (snd s) \<Longrightarrow> config_prints (snd s')"
  by (cases s) (auto simp: max_queue_def config_prints_cong config_prints_upd Let_def split: if_splits)

lemma assign_queues_prints: "assign_queues ts s = Some s' \<Longrightarrow> config_prints (snd s) \<Longrightarrow> config_prints (snd s')"
  by (induction ts arbitrary: s) (auto split: bind_splits dest: max_queue_prints)

lemma default_prints: "config_prints (fold step_ok default_steps c)"
proof -
  have "class_prints t (tc (fold step_ok default_steps c) t)" for t
    by (cases t) (simp_all add: class_prints_def default_steps_def default_defs log_defaults_def application_defaults_def
        default_destination_def default_lldp_destination_def default_udp_destination_def default_dcp_identify_def)
  then show ?thesis
    by (simp add: config_prints_def default_steps_def step_defs upd_tc_def set_payload_pattern_def log_defaults_def
        default_debug_monitor_destination_def)
qed

lemma config_read_prints:
  assumes "config_read_tokens d ts c = Some (0, c')" and "config_prints c"
  shows "config_prints c'"
  using assms by (auto simp: config_read_tokens_def config_prints_cong Let_def split: prod.splits if_splits bind_splits
      dest!: assign_queues_prints config_token_loop_prints)

lemma config_init_prints:
  assumes "config_init oks d src c = Some (0, c')"
  shows "config_prints c'"
proof -
  obtain c1 ts where "src = Tokens ts" "config_read_tokens d ts (fold step_ok default_steps c1) = Some (0, c')"
    using assms run_defaults_result
    by (cases src) (fastforce simp: config_init_def config_set_defaults_def EINVAL_def EIO_def ENOMEM_def Let_def split: prod.splits if_splits)+
  then show ?thesis using config_read_prints default_prints by blast
qed

section \<open>Secrets\<close>

text \<open>The same configuration with other keys and prefixes.\<close>

definition with_secrets :: "(stat_frame_type \<Rightarrow> bytes option \<times> u64) \<Rightarrow> (stat_frame_type \<Rightarrow> bytes option \<times> u64) \<Rightarrow> application_config \<Rightarrow> application_config" where
  "with_secrets k v c = c\<lparr>tc := \<lambda>t. (tc c t)\<lparr>security_key := fst (k t), security_key_length := snd (k t),
     security_iv_prefix := fst (v t), security_iv_prefix_length := snd (v t)\<rparr>\<rparr>"

lemma secret_free:
  "cfg_pattern (x\<lparr>security_key := a, security_key_length := b, security_iv_prefix := d, security_iv_prefix_length := e\<rparr>) = cfg_pattern x"
  "cfg_destination (x\<lparr>security_key := a, security_key_length := b, security_iv_prefix := d, security_iv_prefix_length := e\<rparr>) = cfg_destination x"
  "cfg_udp (x\<lparr>security_key := a, security_key_length := b, security_iv_prefix := d, security_iv_prefix_length := e\<rparr>) = cfg_udp x"
  by (simp_all add: cfg_pattern_def cfg_destination_def cfg_udp_def)

lemma class_with_secrets:
  "tsn_high_config (with_secrets k v c) = tsn_high_config c" "tsn_low_config (with_secrets k v c) = tsn_low_config c"
  "rtc_config (with_secrets k v c) = rtc_config c" "rta_config g (with_secrets k v c) = rta_config g c"
  "dcp_config g (with_secrets k v c) = dcp_config g c" "lldp_config g (with_secrets k v c) = lldp_config g c"
  "udp_high_config g (with_secrets k v c) = udp_high_config g c" "udp_low_config g (with_secrets k v c) = udp_low_config g c"
  "l2_config (with_secrets k v c) = l2_config c"
  by (simp_all add: with_secrets_def class_config_defs cfg_class_def secret_free cfg_tx_time_def cfg_vlan_def cfg_period_def cfg_security_def Let_def)

lemma rest_with_secrets:
  "print_application g (with_secrets k v c) = print_application g c" "pkt_handler_config (with_secrets k v c) = pkt_handler_config c"
  "log_config (with_secrets k v c) = log_config c" "debug_config (with_secrets k v c) = debug_config c"
  "stats_histogram_config (with_secrets k v c) = stats_histogram_config c" "log_mqtt_config (with_secrets k v c) = log_mqtt_config c"
  by (simp_all add: with_secrets_def print_application_def pkt_handler_config_def log_config_def debug_config_def stats_histogram_config_def
      log_mqtt_config_def)

lemma print_with_secrets: "config_print_values g (with_secrets k v c) = config_print_values g c"
  by (simp only: config_print_values_def class_with_secrets rest_with_secrets)

text \<open>
  C11: a configuration that was read with success is printed without an access outside a string
  or to a null pointer, and the text shows nothing of the secrets: with any other keys and
  prefixes it would be the same.
\<close>

theorem config_print_hides_secrets:
  assumes "config_init oks d src c0 = Some (0, c)"
  shows "\<exists>txt. config_print_values g c = Some txt \<and> (\<forall>k v. config_print_values g (with_secrets k v c) = Some txt)"
  using config_prints_text [OF config_init_prints [OF assms]] by (simp add: print_with_secrets)

lemma run_defaults_no_failure: "run_defaults [] ss c = (0, fold step_ok ss c)"
  by (induction "[] :: bool list" ss c rule: run_defaults.induct) simp_all

lemma config_init_empty_file: "\<exists>c. config_init [] True (Tokens [YAML_STREAM_END_TOKEN]) zero_config = Some (0, c)"
proof -
  define c1 where "c1 = fold step_ok default_steps (zero_config\<lparr>qinfo := \<lambda>_. \<lparr>qids = replicate MAX_QUEUES_ENABLED 0, cnt = 0\<rparr>\<rparr>)"
  obtain r c where c: "config_read_tokens True [YAML_STREAM_END_TOKEN] c1 = Some (r, c)" using config_read_queues by blast
  then have "r = 0" by (auto simp: config_read_tokens_def split: bind_splits)
  with c show ?thesis by (simp add: config_init_def config_set_defaults_def run_defaults_no_failure c1_def Let_def)
qed

lemma config_print_hides_secrets_witness:
  "\<exists>c txt. config_init [] True (Tokens [YAML_STREAM_END_TOKEN]) zero_config = Some (0, c) \<and> config_print_values decimal c = Some txt \<and>
     (\<forall>k v. config_print_values decimal (with_secrets k v c) = Some txt)"
proof -
  obtain c where c: "config_init [] True (Tokens [YAML_STREAM_END_TOKEN]) zero_config = Some (0, c)" using config_init_empty_file by blast
  show ?thesis using config_print_hides_secrets [OF c, of decimal] c by blast
qed

end
