(* ===== verification/Mutex.thy ===== *)
theory Mutex
  imports Prelude
begin

text \<open>
  The mutex helpers of \<^verbatim>\<open>apps/testbench/utils.h\<close> and \<^verbatim>\<open>utils.c\<close>. The answers of the pthread library are a
  parameter and may depend on the calls made before.
\<close>

datatype pthread_call =
    Mutexattr_Init | Mutexattr_Settype int | Mutexattr_Setprotocol | Mutex_Init | Mutexattr_Destroy | Mutex_Destroy
  | Condattr_Init | Condattr_Setclock | Cond_Init

definition EFAULT :: int where "EFAULT = 14"

type_synonym pthread_lib = "pthread_call list \<Rightarrow> pthread_call \<Rightarrow> int"

text \<open>The calls of the macro \<^verbatim>\<open>__do\<close>, one after the other until one fails; the calls made are at the end.\<close>

fun do_calls :: "pthread_lib \<Rightarrow> pthread_call list \<Rightarrow> pthread_call list \<Rightarrow> int \<times> pthread_call list" where
  "do_calls P [] made = (0, made)"
| "do_calls P (x # xs) made = (let ret = P made x in if ret \<noteq> 0 then (ret, made @ [x]) else do_calls P xs (made @ [x]))"

text \<open>The result, \<^verbatim>\<open>errno\<close> when it was set, and the calls.\<close>

definition mutex_create :: "pthread_lib \<Rightarrow> bool \<Rightarrow> int \<Rightarrow> pthread_call list \<Rightarrow> int \<times> int option \<times> pthread_call list" where
  "mutex_create P null flags made =
     (if null then (-1, Some EFAULT, made)
      else case do_calls P [Mutexattr_Init] made of (ret, made) \<Rightarrow>
        if ret \<noteq> 0 then (-1, Some ret, made)
        else case do_calls P [Mutexattr_Settype flags, Mutex_Init, Mutexattr_Destroy] made of (ret, made) \<Rightarrow>
          if ret \<noteq> 0 then (-1, Some ret, made @ [Mutexattr_Destroy]) else (0, None, made))"

definition mutex_destroy :: "pthread_lib \<Rightarrow> bool \<Rightarrow> pthread_call list \<Rightarrow> int \<times> int option \<times> pthread_call list" where
  "mutex_destroy P null made =
     (if null then (0, Some 0, made)
      else let ret = P made Mutex_Destroy in (if ret \<noteq> 0 then -1 else 0, Some ret, made @ [Mutex_Destroy]))"

text \<open>These two ignore the answers and never destroy the attributes.\<close>

definition init_mutex :: "pthread_call list \<Rightarrow> pthread_call list" where
  "init_mutex made = made @ [Mutexattr_Init, Mutexattr_Setprotocol, Mutex_Init]"

definition init_condition_variable :: "pthread_call list \<Rightarrow> pthread_call list" where
  "init_condition_variable made = made @ [Condattr_Init, Condattr_Setclock, Cond_Init]"

text \<open>
  The attributes of a mutex are destroyed as often as they were initialised, except when destroying them
  fails: then they are destroyed twice, and the call fails although the mutex was initialised.
\<close>

lemma mutex_create_balance:
  assumes "mutex_create P null flags [] = (r, e, made)"
  shows "r = 0 \<and> made = [Mutexattr_Init, Mutexattr_Settype flags, Mutex_Init, Mutexattr_Destroy] \<or>
     r = -1 \<and> (made = [] \<or> made = [Mutexattr_Init] \<and> P [] Mutexattr_Init \<noteq> 0 \<or>
       (\<exists>pre. made = Mutexattr_Init # pre @ [Mutexattr_Destroy] \<and> Mutexattr_Destroy \<notin> set pre) \<or>
       made = [Mutexattr_Init, Mutexattr_Settype flags, Mutex_Init, Mutexattr_Destroy, Mutexattr_Destroy])"
  using assms by (auto simp: mutex_create_def Let_def split: if_splits)

end
