(* ===== verification/Spec2Isabelle.thy ===== *)
theory Spec2Isabelle
  imports Frame_Props Config_Props Stats_Props Device_Props Callbacks Main_Props System_Props Strings_Props Log_Props Mqtt_Props
    Packet_Handler Ratt_Props Ratt_Args_Props Ratt_Main Cnp_Live Lt_Props App_Args_Props Config_Print Mutex
begin

text \<open>
  A verification of the DPDK Real-Time Development Kit: the TSN testbench
  (\<^verbatim>\<open>src/apps/testbench\<close>) and the smaller programs \<^verbatim>\<open>ratt\<close>, \<^verbatim>\<open>cnp\<close> and \<^verbatim>\<open>launch-time\<close>. The
  testbench is a program that sends and receives the frames of nine
  industrial traffic classes (TSN high and low, PROFINET RTC, RTA and DCP, LLDP, UDP high
  and low, plain layer 2) over DPDK ports, measures their round-trip and one-way times, and
  can run as the mirror that sends the frames back.

  \<^bold>\<open>Parts and theories.\<close>

  \<^item> \<^verbatim>\<open>Prelude\<close>: fixed-width types, byte buffers with checked loads and stores, big-endian
    numbers, and the named theorem collections.
  \<^item> \<^verbatim>\<open>Net_Def\<close> (\<^verbatim>\<open>net_def.h\<close>): the header structs as field layouts, protocol constants,
    the frame types and security modes.
  \<^item> \<^verbatim>\<open>Security\<close> (\<^verbatim>\<open>security.c\<close>): creation and release of a context with the OpenSSL objects
    counted, encryption and decryption over the EVP calls, which are a parameter.
  \<^item> \<^verbatim>\<open>Frame\<close> (\<^verbatim>\<open>utils.c\<close>, \<^verbatim>\<open>utils.h\<close>, \<^verbatim>\<open>tx_time.c\<close>): counters and timestamps in a frame,
    VLAN tag, address swap, construction and sealing of PROFINET frames, signal flags.
    \<^verbatim>\<open>Frame_Props\<close> holds their properties.
  \<^item> \<^verbatim>\<open>C_String\<close>, \<^verbatim>\<open>Config\<close>, \<^verbatim>\<open>Config_Keys\<close> (\<^verbatim>\<open>config.c\<close>, \<^verbatim>\<open>config.h\<close>): the number parsers of
    the C library, the defaults with every allocation failure, the YAML token loop with
    every parameter, the assignment of queues, the sanity check.
  \<^item> \<^verbatim>\<open>Histogram\<close> (\<^verbatim>\<open>hist.c\<close>) and \<^verbatim>\<open>Stats\<close> (\<^verbatim>\<open>stat.c\<close>): the backlog of transmit times, the
    counters and averages, the resets.
  \<^item> \<^verbatim>\<open>Thread\<close> (\<^verbatim>\<open>thread.h\<close>, \<^verbatim>\<open>thread_timer.c\<close>): the context of a thread, its timers and the
    loop that runs them. The locale \<open>timer_client\<close> states what the callbacks promise the
    loop.
  \<^item> \<^verbatim>\<open>Functions\<close> (\<^verbatim>\<open>functions.c\<close>): the table of functions, started and released in order, and
    the chain of the PROFINET threads.
  \<^item> \<^verbatim>\<open>Lport\<close> (\<^verbatim>\<open>lport.c\<close>, \<^verbatim>\<open>lport-priv.h\<close>): transmit buffers, sending, receiving, and the mbufs
    alive.
  \<^item> \<^verbatim>\<open>Rx_Common\<close>, \<^verbatim>\<open>Pn_Rx\<close>, \<^verbatim>\<open>Rx_Misc\<close> (the \<^verbatim>\<open>*_rx_frame\<close> functions): the receive handlers. The
    locale \<open>rx_handler\<close> states the contract of a handler of one frame; it is interpreted
    on the handlers of all classes.
  \<^item> \<^verbatim>\<open>Tx\<close>, \<^verbatim>\<open>Tx_Safety\<close> (the \<^verbatim>\<open>*_gen_and_send_frames\<close> and \<^verbatim>\<open>*_thread_routine\<close> functions): the
    transmit side and the timer callbacks, with the class invariant that all of them keep;
    \<open>timer_client\<close> is interpreted on them.
  \<^item> \<^verbatim>\<open>Launch\<close>, \<^verbatim>\<open>Classes\<close>, \<^verbatim>\<open>Life_Cycle\<close> (the \<^verbatim>\<open>*_threads_create\<close>, \<^verbatim>\<open>*_launch\<close>,
    \<^verbatim>\<open>*_threads_routine\<close> functions, \<^verbatim>\<open>tsn.c\<close>): creation, start and release of the threads, the
    table from VLAN to queue.
  \<^item> \<^verbatim>\<open>End_To_End\<close>: what a generator seals a receiver opens. \<^verbatim>\<open>Example\<close>: a concrete
    configuration and device on which the properties are evaluated.
  \<^item> \<^verbatim>\<open>Config_Props\<close>, \<^verbatim>\<open>Stats_Props\<close>, \<^verbatim>\<open>Device_Props\<close>, \<^verbatim>\<open>System_Props\<close>: the properties of the
    configuration, of the statistics and histograms, of the queues, timers and function
    table, and those of several components together.
  \<^item> \<^verbatim>\<open>Port\<close>, \<^verbatim>\<open>Port_Props\<close>, \<^verbatim>\<open>Callbacks\<close> (\<^verbatim>\<open>lport.c\<close>, \<^verbatim>\<open>lport.h\<close>): the table of ports, the set-up of
    queues and devices with every failure and the pools counted, the link state, the
    receive callbacks.
  \<^item> \<^verbatim>\<open>Tsn_Main\<close>, \<^verbatim>\<open>Main_Props\<close> (\<^verbatim>\<open>tsn.c\<close>): the ports of all classes, options, start-up, what the
    screen shows, the keyboard loop, shutdown.
  \<^item> \<^verbatim>\<open>M_Strings\<close>, \<^verbatim>\<open>Strings_Props\<close> (\<^verbatim>\<open>m_strings.h\<close>): the string helpers over buffers with
    terminators.
  \<^item> \<^verbatim>\<open>Log\<close>, \<^verbatim>\<open>Log_Props\<close> (\<^verbatim>\<open>log.c\<close>), \<^verbatim>\<open>Mqtt\<close>, \<^verbatim>\<open>Mqtt_Props\<close> (\<^verbatim>\<open>logviamqtt.c\<close>): messages and
    reports in the buffers of a pool, the ring to the thread that writes or publishes
    them, and their text. The locale \<open>ring_service\<close> of \<^verbatim>\<open>Ring_Service\<close> states what one period
    of such a thread puts out; it is interpreted on both. \<^verbatim>\<open>Packet_Handler\<close> (\<^verbatim>\<open>packet_handler.c\<close>): the thread that empties a
    queue.

  \<^item> \<^verbatim>\<open>Ratt\<close>, \<^verbatim>\<open>Ratt_Props\<close> (\<^verbatim>\<open>apps/ratt/ratt.h\<close>, \<^verbatim>\<open>reference.c\<close>, \<^verbatim>\<open>mirror.c\<close>): the round-trip test, a
    second program that sends a burst per cycle and measures its return, or mirrors what
    it receives. \<^verbatim>\<open>Ratt_Io\<close> (\<^verbatim>\<open>log.c\<close>, \<^verbatim>\<open>mqtt.c\<close>), \<^verbatim>\<open>Ratt_Args\<close>, \<^verbatim>\<open>Ratt_Args_Props\<close>
    (\<^verbatim>\<open>parse-args.c\<close>), \<^verbatim>\<open>Ratt_Main\<close> (\<^verbatim>\<open>stats.c\<close>, \<^verbatim>\<open>keyboard.c\<close>, \<^verbatim>\<open>port-setup.c\<close>, \<^verbatim>\<open>ratt.c\<close>): its log
    and publisher, command line, screen, keyboard, port and main function.

  \<^item> \<^verbatim>\<open>App_Common\<close>: what the launch-time test and the CNP program share, each in its own copy: the
    flags that all threads update by compare-and-set, the times of the sleeps, the link.
  \<^item> \<^verbatim>\<open>Burst_Sender\<close>: the locale \<open>burst_sender\<close> states what a loop that offers packets to the
    device until all are taken or the program stops does to them; it is interpreted on
    \<^verbatim>\<open>send_packets\<close> of the three programs.
  \<^item> \<^verbatim>\<open>Cnp\<close>, \<^verbatim>\<open>Cnp_Props\<close>, \<^verbatim>\<open>Cnp_Live\<close> (\<^verbatim>\<open>apps/cnp/cnp-tuning.h\<close>, \<^verbatim>\<open>rxtx.c\<close>), \<^verbatim>\<open>Cnp_Port\<close>
    (\<^verbatim>\<open>parse-args.c\<close>, \<^verbatim>\<open>port-setup.c\<close>), \<^verbatim>\<open>Cnp_Main\<close> (\<^verbatim>\<open>stats.c\<close>, \<^verbatim>\<open>keyboard.c\<close>, \<^verbatim>\<open>cnp-tuning.c\<close>): a
    client that sends probes and measures their return, and the server that returns them.
    Shown: the times are exact, no mbuf is lost, waiting for a timestamp and the worker
    end, and one lost probe is the end of the measurement.
  \<^item> \<^verbatim>\<open>Lt\<close>, \<^verbatim>\<open>Lt_Props\<close> (\<^verbatim>\<open>apps/launch-time/launch-time.h\<close>, \<^verbatim>\<open>rxtx.c\<close>), \<^verbatim>\<open>Lt_Io\<close> (\<^verbatim>\<open>log.c\<close>, \<^verbatim>\<open>mqtt.c\<close>), \<^verbatim>\<open>Lt_Main\<close>
    (\<^verbatim>\<open>parse-args.c\<close>, \<^verbatim>\<open>stats.c\<close>, \<^verbatim>\<open>keyboard.c\<close>), \<^verbatim>\<open>Lt_Port\<close> (\<^verbatim>\<open>port-setup.c\<close>, \<^verbatim>\<open>launch-time.c\<close>): bursts
    whose first packet carries a launch time for the device, and the times between the
    bursts received. \<^verbatim>\<open>App_Args_Props\<close>: what an accepted command line of the two programs
    guarantees.
  \<^item> \<^verbatim>\<open>Dump\<close>, \<^verbatim>\<open>Mutex\<close> (\<^verbatim>\<open>utils.c\<close>, \<^verbatim>\<open>utils.h\<close>): the text of the dumps and the mutexes of the testbench.
    \<^verbatim>\<open>Config_Print\<close> (\<^verbatim>\<open>config.c\<close>): the text that shows the configuration; it is safe to print
    whatever was read, and shows no secret.

  \<^bold>\<open>Conventions.\<close> A result \<open>None\<close> of a function on buffers is an access outside a buffer,
  a null pointer or a division by zero; error codes are integers as in the code;
  \<^verbatim>\<open>rte_exit\<close> is the value \<open>Exited\<close>; the \<^verbatim>\<open>exit\<close> in the statistics sets a flag. Sizes and
  times are 64-bit words. Readings of the clock, the packets and answers of the network
  device, the outcomes of allocations, OpenSSL, DPDK and the YAML scanner are parameters.
  Floating-point averages are rationals rounded to 53 bits. The loops of the threads and
  the polling of a device are given fuel; that enough fuel makes them return is part of the properties.

  A memory pool is the number of its free buffers; those in the caches of the cores count
  as free. The number of entries a ring can hold is a parameter.

  \<^bold>\<open>Not modelled.\<close> The columns, colours and wire times of the screens, the usage
  texts, diagnostic output on the error stream, \<^verbatim>\<open>validate_rx_frame\<close>, which is compiled
  out, the stopping of the devices at the end of the round-trip and launch-time tests, and the libraries behind the parameters.
\<close>

section \<open>Frames between a generator and a receiver\<close>





section \<open>Threads\<close>





end
